(* ===== verification/Prelude.thy ===== *)
theory Prelude
  imports Complex_Main "HOL-Library.State_Monad"
begin

text \<open>
  Shared vocabulary of the development: Go strings and integers as the sources use them,
  Go results (value, error or panic), Go maps that may be nil, and a small calculus for
  the state monad in which every effectful method of the controller is written.
  The collections \<open>wp_simps\<close> and \<open>keeps_intros\<close> carry the proofs about the handlers.
\<close>

named_theorems wp_simps \<open>symbolic execution of state-monad programs\<close>
named_theorems keeps_intros \<open>structural rules for predicates kept by state-monad programs\<close>
named_theorems go_map_simps \<open>lookups in Go maps\<close>

section \<open>Strings\<close>

type_synonym bytes = string

text \<open>\<open>strings.HasPrefix(s, p)\<close>\<close>

definition HasPrefix :: "string \<Rightarrow> string \<Rightarrow> bool" where
  "HasPrefix s p \<longleftrightarrow> take (length p) s = p"

text \<open>\<open>strings.Split(s, sep)\<close> for a separator of one character, which is all the sources use.\<close>

fun Split :: "string \<Rightarrow> char \<Rightarrow> string list" where
  "Split [] c = [[]]"
| "Split (x # xs) c =
     (if x = c then [] # Split xs c
      else (case Split xs c of [] \<Rightarrow> [[x]] | y # ys \<Rightarrow> (x # y) # ys))"

text \<open>\<open>strings.Join(list, sep)\<close>\<close>

fun Join :: "string list \<Rightarrow> string \<Rightarrow> string" where
  "Join [] sep = []"
| "Join [x] sep = x"
| "Join (x # y # ys) sep = x @ sep @ Join (y # ys) sep"

text \<open>\<open>strings.ToUpper\<close> and \<open>strings.ToLower\<close>, on the ASCII letters.\<close>

definition upper_char :: "char \<Rightarrow> char" where
  "upper_char c = (let n = (of_char c :: nat) in if 97 \<le> n \<and> n \<le> 122 then char_of (n - 32) else c)"

definition lower_char :: "char \<Rightarrow> char" where
  "lower_char c = (let n = (of_char c :: nat) in if 65 \<le> n \<and> n \<le> 90 then char_of (n + 32) else c)"

definition ToUpper :: "string \<Rightarrow> string" where
  "ToUpper s = map upper_char s"

definition ToLower :: "string \<Rightarrow> string" where
  "ToLower s = map lower_char s"

lemma Split_nonempty [simp]: "Split s c \<noteq> []"
  by (induction s) (auto split: list.splits)

lemma Split_no_sep: "c \<notin> set s \<Longrightarrow> Split s c = [s]"
  by (induction s) auto

lemma Split_append_sep: "c \<notin> set s \<Longrightarrow> Split (s @ c # t) c = s # Split t c"
  by (induction s) auto

lemma Split_one: "Split s c = [x] \<longleftrightarrow> c \<notin> set s \<and> x = s"
proof
  assume h: "Split s c = [x]"
  have "c \<notin> set s"
  proof
    assume "c \<in> set s"
    then obtain a b where s: "s = a @ c # b" and "c \<notin> set a"
      by (metis split_list_first)
    then have "Split s c = a # Split b c" by (simp add: Split_append_sep)
    with h show False by simp
  qed
  with h show "c \<notin> set s \<and> x = s" by (simp add: Split_no_sep)
qed (simp add: Split_no_sep)

lemma length_Split: "length (Split s c) = Suc (count_list s c)"
  by (induction s) (auto split: list.splits)

lemma ToUpper_append [simp]: "ToUpper (s @ t) = ToUpper s @ ToUpper t"
  by (simp add: ToUpper_def)

lemma ToUpper_Nil [simp]: "ToUpper [] = []"
  by (simp add: ToUpper_def)

lemma upper_char_idem: "upper_char (upper_char c) = upper_char c"
  by (auto simp: upper_char_def Let_def)

lemma ToUpper_idem: "ToUpper (ToUpper s) = ToUpper s"
  by (simp add: ToUpper_def upper_char_idem)

lemma upper_char_colon [simp]: "upper_char c = CHR '':'' \<longleftrightarrow> c = CHR '':''"
proof
  assume h: "upper_char c = CHR '':''"
  show "c = CHR '':''"
  proof (cases "97 \<le> (of_char c :: nat) \<and> (of_char c :: nat) \<le> 122")
    case True
    then have "char_of ((of_char c :: nat) - 32) = CHR '':''"
      using h by (simp add: upper_char_def Let_def)
    then have "of_char (char_of ((of_char c :: nat) - 32) :: char) = (58 :: nat)"
      by simp
    moreover have "((of_char c :: nat) - 32) mod 256 = (of_char c :: nat) - 32"
      using True by (intro mod_less) arith
    ultimately have "(of_char c :: nat) - 32 = 58" by simp
    with True show ?thesis by arith
  next
    case False
    with h show ?thesis by (simp add: upper_char_def Let_def)
  qed
next
  assume "c = CHR '':''"
  then show "upper_char c = CHR '':''" by (simp add: upper_char_def Let_def)
qed

lemma colon_in_ToUpper [simp]: "CHR '':'' \<in> set (ToUpper s) \<longleftrightarrow> CHR '':'' \<in> set s"
proof -
  have "CHR '':'' \<in> set (ToUpper s) \<longleftrightarrow> (\<exists>c \<in> set s. upper_char c = CHR '':'')"
    by (auto simp: ToUpper_def image_iff eq_commute [of "CHR '':''"])
  then show ?thesis by auto
qed

section \<open>Integers\<close>

text \<open>The decimal rendering of \<open>fmt.Sprintf("%d", n)\<close>.\<close>

definition digit_char :: "nat \<Rightarrow> char" where
  "digit_char d = char_of (d + 48)"

fun string_of_nat :: "nat \<Rightarrow> string" where
  "string_of_nat n =
     (if n < 10 then [digit_char n] else string_of_nat (n div 10) @ [digit_char (n mod 10)])"

declare string_of_nat.simps [simp del]

definition string_of_int :: "int \<Rightarrow> string" where
  "string_of_int i =
     (if i < 0 then CHR ''-'' # string_of_nat (nat (- i)) else string_of_nat (nat i))"

text \<open>\<open>strconv.ParseInt(s, 10, 64)\<close>: \<open>None\<close> for a syntax or a range error.\<close>

fun parse_digits :: "nat \<Rightarrow> string \<Rightarrow> nat option" where
  "parse_digits acc [] = Some acc"
| "parse_digits acc (c # cs) =
     (let n = (of_char c :: nat)
      in if 48 \<le> n \<and> n \<le> 57 then parse_digits (10 * acc + (n - 48)) cs else None)"

definition parse_unsigned :: "string \<Rightarrow> nat option" where
  "parse_unsigned s = (if s = [] then None else parse_digits 0 s)"

definition ParseInt64 :: "string \<Rightarrow> int option" where
  "ParseInt64 s =
     (case s of
        [] \<Rightarrow> None
      | c # cs \<Rightarrow>
          if c = CHR ''-'' then
            (case parse_unsigned cs of
               None \<Rightarrow> None | Some n \<Rightarrow> if n \<le> 2 ^ 63 then Some (- int n) else None)
          else
            (case parse_unsigned (if c = CHR ''+'' then cs else s) of
               None \<Rightarrow> None | Some n \<Rightarrow> if n < 2 ^ 63 then Some (int n) else None))"

lemma of_char_digit_char: "d < 10 \<Longrightarrow> (of_char (digit_char d) :: nat) = d + 48"
  by (simp add: digit_char_def)

lemma digit_char_not_sign: "d < 10 \<Longrightarrow> digit_char d \<noteq> CHR ''-'' \<and> digit_char d \<noteq> CHR ''+''"
proof -
  assume d: "d < 10"
  have "(of_char (digit_char d) :: nat) \<noteq> 45" "(of_char (digit_char d) :: nat) \<noteq> 43"
    using of_char_digit_char [OF d] by auto
  then show ?thesis by auto
qed

lemma string_of_nat_nonempty [simp]: "string_of_nat n \<noteq> []"
  by (subst string_of_nat.simps) simp

lemma hd_string_of_nat: "\<exists>d < 10. hd (string_of_nat n) = digit_char d"
proof (induction n rule: string_of_nat.induct)
  case (1 n)
  then show ?case by (subst string_of_nat.simps) auto
qed

lemma parse_digits_append:
  "parse_digits acc (s @ t) = Option.bind (parse_digits acc s) (\<lambda>a. parse_digits a t)"
  by (induction s arbitrary: acc) (auto simp: Let_def)

lemma parse_digits_string_of_nat:
  "parse_digits 0 (string_of_nat n) = Some n"
proof (induction n rule: string_of_nat.induct)
  case (1 n)
  show ?case
  proof (cases "n < 10")
    case True
    then show ?thesis
      by (subst string_of_nat.simps) (simp add: of_char_digit_char Let_def)
  next
    case False
    then have "parse_digits 0 (string_of_nat (n div 10)) = Some (n div 10)"
      using 1 by simp
    with False show ?thesis
      by (subst string_of_nat.simps)
        (simp add: parse_digits_append of_char_digit_char Let_def)
  qed
qed

lemma string_of_nat_inj [simp]: "string_of_nat m = string_of_nat n \<longleftrightarrow> m = n"
  by (metis option.inject parse_digits_string_of_nat)

lemma string_of_nat_not_minus: "string_of_nat n \<noteq> CHR ''-'' # t"
  by (metis digit_char_not_sign hd_string_of_nat list.sel(1))

lemma string_of_int_inj [simp]: "string_of_int i = string_of_int j \<longleftrightarrow> i = j"
  by (auto simp: string_of_int_def string_of_nat_not_minus
      dest: string_of_nat_not_minus [THEN notE, OF sym] split: if_splits)

lemma string_of_int_nonempty [simp]: "string_of_int i \<noteq> []"
  by (simp add: string_of_int_def)

lemma parse_unsigned_string_of_nat: "parse_unsigned (string_of_nat n) = Some n"
  by (simp add: parse_unsigned_def parse_digits_string_of_nat)

lemma ParseInt64_string_of_int:
  assumes "- (2 ^ 63) \<le> i" and "i < 2 ^ 63"
  shows "ParseInt64 (string_of_int i) = Some i"
proof (cases "i < 0")
  case True
  with assms have "nat (- i) \<le> 2 ^ 63" by (simp add: nat_le_iff)
  with True show ?thesis
    by (simp add: ParseInt64_def string_of_int_def parse_unsigned_string_of_nat)
next
  case False
  obtain d where d: "d < 10" "hd (string_of_nat (nat i)) = digit_char d"
    using hd_string_of_nat by blast
  then obtain cs where cs: "string_of_nat (nat i) = digit_char d # cs"
    by (metis list.collapse string_of_nat_nonempty)
  have p: "parse_unsigned (digit_char d # cs) = Some (nat i)"
    using parse_unsigned_string_of_nat [of "nat i"] by (simp add: cs)
  have "nat i < 2 ^ 63" using assms False by (simp add: nat_less_iff)
  then show ?thesis
    using False p digit_char_not_sign [OF d(1)]
    by (simp add: ParseInt64_def string_of_int_def cs)
qed

section \<open>Formatting\<close>

text \<open>
  The part of \<open>fmt.Sprintf\<close> the sources use: the verbs \<open>%s\<close>, \<open>%d\<close>, \<open>%q\<close> and \<open>%v\<close>.
  A verb without an argument prints \<open>%!v(MISSING)\<close>, as the runtime does; \<open>%q\<close> quotes as
  \<open>strconv.Quote\<close> does on ASCII text.
\<close>

datatype farg = FStr string | FInt int

definition hex_digit :: "nat \<Rightarrow> char" where
  "hex_digit d = (if d < 10 then char_of (d + 48) else char_of (d + 87))"

definition quote_char :: "char \<Rightarrow> string" where
  "quote_char c =
     (let n = (of_char c :: nat) in
      if n = 34 then [char_of (92 :: nat), char_of (34 :: nat)]
      else if n = 92 then [char_of (92 :: nat), char_of (92 :: nat)]
      else if n = 7 then [char_of (92 :: nat), CHR ''a'']
      else if n = 8 then [char_of (92 :: nat), CHR ''b'']
      else if n = 9 then [char_of (92 :: nat), CHR ''t'']
      else if n = 10 then [char_of (92 :: nat), CHR ''n'']
      else if n = 11 then [char_of (92 :: nat), CHR ''v'']
      else if n = 12 then [char_of (92 :: nat), CHR ''f'']
      else if n = 13 then [char_of (92 :: nat), CHR ''r'']
      else if n < 32 \<or> n = 127
      then [char_of (92 :: nat), CHR ''x'', hex_digit (n div 16), hex_digit (n mod 16)]
      else [c])"

definition Quote :: "string \<Rightarrow> string" where
  "Quote s = [char_of (34 :: nat)] @ concat (map quote_char s) @ [char_of (34 :: nat)]"

fun format_arg :: "char \<Rightarrow> farg \<Rightarrow> string" where
  "format_arg v (FStr s) = (if v = CHR ''q'' then Quote s else s)"
| "format_arg v (FInt i) = string_of_int i"

fun Sprintf :: "string \<Rightarrow> farg list \<Rightarrow> string" where
  "Sprintf [] args = []"
| "Sprintf [c] args = (if c = CHR ''%'' then ''%!(NOVERB)'' else [c])"
| "Sprintf (c # v # cs) args =
     (if c \<noteq> CHR ''%'' then c # Sprintf (v # cs) args
      else if v = CHR ''%'' then CHR ''%'' # Sprintf cs args
      else (case args of
              [] \<Rightarrow> ''%!'' @ [v] @ ''(MISSING)'' @ Sprintf cs []
            | a # as \<Rightarrow> format_arg v a @ Sprintf cs as))"

section \<open>Maps that may be nil\<close>

text \<open>
  A Go \<open>map[string]V\<close> is \<open>None\<close> when nil. Reading a nil map finds nothing; assigning to an
  entry of a nil map panics, which the callers model where they assign.
\<close>

type_synonym 'v gomap = "(string \<rightharpoonup> 'v) option"

definition gomap_find :: "'v gomap \<Rightarrow> string \<Rightarrow> 'v option" where
  "gomap_find m k = (case m of None \<Rightarrow> None | Some f \<Rightarrow> f k)"

text \<open>\<open>m[k]\<close> for a map of strings (or byte slices): the empty string when absent.\<close>

definition gomap_get :: "string gomap \<Rightarrow> string \<Rightarrow> string" where
  "gomap_get m k = (case gomap_find m k of None \<Rightarrow> [] | Some v \<Rightarrow> v)"

text \<open>\<open>delete(m, k)\<close>: a no-op on a nil map.\<close>

definition gomap_delete :: "'v gomap \<Rightarrow> string \<Rightarrow> 'v gomap" where
  "gomap_delete m k = map_option (\<lambda>f. f(k := None)) m"

lemma gomap_find_None [simp, go_map_simps]: "gomap_find None k = None"
  by (simp add: gomap_find_def)

lemma gomap_find_Some [simp, go_map_simps]: "gomap_find (Some f) k = f k"
  by (simp add: gomap_find_def)

lemma gomap_get_None [simp, go_map_simps]: "gomap_get None k = []"
  by (simp add: gomap_get_def)

lemma gomap_get_Some [simp, go_map_simps]:
  "gomap_get (Some f) k = (case f k of None \<Rightarrow> [] | Some v \<Rightarrow> v)"
  by (simp add: gomap_get_def)

lemma gomap_find_delete [simp, go_map_simps]:
  "gomap_find (gomap_delete m k) k' = (if k' = k then None else gomap_find m k')"
  by (cases m) (simp_all add: gomap_delete_def)

section \<open>Errors and results\<close>

text \<open>
  The error classes of the Kubernetes API that the sources distinguish
  (\<open>kerrors.IsNotFound\<close>, \<open>kerrors.IsConflict\<close>), and the errors that the controller's own
  code returns. A Go method that returns \<open>(T, error)\<close> is a value of type \<open>'a go\<close>, which
  adds the run-time panic.
\<close>

datatype api_reason = NotFound | AlreadyExists | Conflict | OtherReason

datatype gerror = ErrIgnore | ErrApi api_reason string | ErrMsg string

datatype 'a go = Ok 'a | Err gerror | Panic

primrec Error :: "gerror \<Rightarrow> string" where
  "Error ErrIgnore = ''resource is being ignored''"
| "Error (ErrApi r m) = m"
| "Error (ErrMsg m) = m"

fun IsNotFound :: "gerror \<Rightarrow> bool" where
  "IsNotFound (ErrApi NotFound m) = True"
| "IsNotFound _ = False"

fun IsConflict :: "gerror \<Rightarrow> bool" where
  "IsConflict (ErrApi Conflict m) = True"
| "IsConflict _ = False"

section \<open>Programs over a state\<close>

text \<open>\<open>wp m Q s\<close>: running \<open>m\<close> from \<open>s\<close> ends with a value and a state that satisfy \<open>Q\<close>.\<close>

definition wp :: "('s, 'a) state \<Rightarrow> ('a \<Rightarrow> 's \<Rightarrow> bool) \<Rightarrow> 's \<Rightarrow> bool" where
  "wp m Q s = (case run_state m s of (a, s') \<Rightarrow> Q a s')"

definition update :: "('s \<Rightarrow> 's) \<Rightarrow> ('s, unit) state" where
  "update f = State (\<lambda>s. ((), f s))"

definition gets :: "('s \<Rightarrow> 'a) \<Rightarrow> ('s, 'a) state" where
  "gets f = State (\<lambda>s. (f s, s))"

lemma run_update [simp]: "run_state (update f) s = ((), f s)"
  by (simp add: update_def)

lemma run_gets [simp]: "run_state (gets f) s = (f s, s)"
  by (simp add: gets_def)

lemma wp_run: "run_state m s = (a, s') \<Longrightarrow> wp m Q s \<longleftrightarrow> Q a s'"
  by (simp add: wp_def)

lemma wpD: "wp m Q s \<Longrightarrow> run_state m s = (a, s') \<Longrightarrow> Q a s'"
  by (simp add: wp_def)

lemma wpI: "(\<And>a s'. run_state m s = (a, s') \<Longrightarrow> Q a s') \<Longrightarrow> wp m Q s"
  by (simp add: wp_def split: prod.splits)

lemma wp_mono: "wp m Q s \<Longrightarrow> (\<And>a s'. Q a s' \<Longrightarrow> Q' a s') \<Longrightarrow> wp m Q' s"
  by (auto simp: wp_def split: prod.splits)

lemma wp_conj: "wp m Q s \<Longrightarrow> wp m Q' s \<Longrightarrow> wp m (\<lambda>a s'. Q a s' \<and> Q' a s') s"
  by (auto simp: wp_def split: prod.splits)

lemma wp_return [simp, wp_simps]: "wp (State_Monad.return a) Q s = Q a s"
  by (simp add: wp_def)

lemma wp_bind [simp, wp_simps]:
  "wp (State_Monad.bind m f) Q s = wp m (\<lambda>a. wp (f a) Q) s"
  by (simp add: wp_def split: prod.splits)

lemma wp_update [simp, wp_simps]: "wp (update f) Q s = Q () (f s)"
  by (simp add: wp_def)

lemma wp_gets [simp, wp_simps]: "wp (gets f) Q s = Q (f s) s"
  by (simp add: wp_def)

lemma wp_if [wp_simps]:
  "wp (if b then m else n) Q s = ((b \<longrightarrow> wp m Q s) \<and> (\<not> b \<longrightarrow> wp n Q s))"
  by simp

lemma wp_case_option [wp_simps]:
  "wp (case x of None \<Rightarrow> m | Some v \<Rightarrow> f v) Q s =
     ((x = None \<longrightarrow> wp m Q s) \<and> (\<forall>v. x = Some v \<longrightarrow> wp (f v) Q s))"
  by (cases x) simp_all

lemma wp_case_sum [wp_simps]:
  "wp (case x of Inl e \<Rightarrow> f e | Inr v \<Rightarrow> g v) Q s =
     ((\<forall>e. x = Inl e \<longrightarrow> wp (f e) Q s) \<and> (\<forall>v. x = Inr v \<longrightarrow> wp (g v) Q s))"
  by (cases x) simp_all

lemma wp_case_go [wp_simps]:
  "wp (case x of Ok v \<Rightarrow> f v | Err e \<Rightarrow> g e | Panic \<Rightarrow> h) Q s =
     ((\<forall>v. x = Ok v \<longrightarrow> wp (f v) Q s) \<and> (\<forall>e. x = Err e \<longrightarrow> wp (g e) Q s) \<and>
      (x = Panic \<longrightarrow> wp h Q s))"
  by (cases x) simp_all

lemma wp_case_list [wp_simps]:
  "wp (case xs of [] \<Rightarrow> m | y # ys \<Rightarrow> f y ys) Q s =
     ((xs = [] \<longrightarrow> wp m Q s) \<and> (\<forall>y ys. xs = y # ys \<longrightarrow> wp (f y ys) Q s))"
  by (cases xs) simp_all

lemma wp_case_prod [wp_simps]:
  "wp (case p of (a, b) \<Rightarrow> f a b) Q s = wp (f (fst p) (snd p)) Q s"
  by (cases p) simp

lemma wp_Let [wp_simps]: "wp (Let v f) Q s = wp (f v) Q s"
  by simp

text \<open>\<open>keeps I m\<close>: every run of \<open>m\<close> from a state with \<open>I\<close> ends in a state with \<open>I\<close>.\<close>

definition keeps :: "('s \<Rightarrow> bool) \<Rightarrow> ('s, 'a) state \<Rightarrow> bool" where
  "keeps I m \<longleftrightarrow> (\<forall>s. I s \<longrightarrow> I (snd (run_state m s)))"

lemma keepsI: "(\<And>s a s'. I s \<Longrightarrow> run_state m s = (a, s') \<Longrightarrow> I s') \<Longrightarrow> keeps I m"
  by (metis keeps_def prod.collapse)

lemma keepsD: "keeps I m \<Longrightarrow> I s \<Longrightarrow> run_state m s = (a, s') \<Longrightarrow> I s'"
  by (metis keeps_def snd_conv)

lemma keeps_wp: "keeps I m \<Longrightarrow> I s \<Longrightarrow> wp m (\<lambda>a. I) s"
  by (auto intro: wpI keepsD)

lemma keeps_return [keeps_intros, intro]: "keeps I (State_Monad.return a)"
  by (simp add: keeps_def)

lemma keeps_bind [keeps_intros]:
  assumes "keeps I m" and "\<And>a. keeps I (f a)"
  shows "keeps I (State_Monad.bind m f)"
  using assms by (auto simp: keeps_def split: prod.splits)

lemma keeps_gets [keeps_intros, intro]: "keeps I (gets f)"
  by (simp add: keeps_def)

lemma keeps_update: "(\<And>s. I s \<Longrightarrow> I (f s)) \<Longrightarrow> keeps I (update f)"
  by (simp add: keeps_def)

lemma keeps_if [keeps_intros]:
  "(b \<Longrightarrow> keeps I m) \<Longrightarrow> (\<not> b \<Longrightarrow> keeps I n) \<Longrightarrow> keeps I (if b then m else n)"
  by simp

lemma keeps_case_option [keeps_intros]:
  "(x = None \<Longrightarrow> keeps I m) \<Longrightarrow> (\<And>v. x = Some v \<Longrightarrow> keeps I (f v)) \<Longrightarrow>
   keeps I (case x of None \<Rightarrow> m | Some v \<Rightarrow> f v)"
  by (cases x) simp_all

lemma keeps_case_sum [keeps_intros]:
  "(\<And>e. x = Inl e \<Longrightarrow> keeps I (f e)) \<Longrightarrow> (\<And>v. x = Inr v \<Longrightarrow> keeps I (g v)) \<Longrightarrow>
   keeps I (case x of Inl e \<Rightarrow> f e | Inr v \<Rightarrow> g v)"
  by (cases x) simp_all

lemma keeps_case_go [keeps_intros]:
  "(\<And>v. x = Ok v \<Longrightarrow> keeps I (f v)) \<Longrightarrow> (\<And>e. x = Err e \<Longrightarrow> keeps I (g e)) \<Longrightarrow>
   (x = Panic \<Longrightarrow> keeps I h) \<Longrightarrow>
   keeps I (case x of Ok v \<Rightarrow> f v | Err e \<Rightarrow> g e | Panic \<Rightarrow> h)"
  by (cases x) simp_all

lemma keeps_case_list [keeps_intros]:
  "(xs = [] \<Longrightarrow> keeps I m) \<Longrightarrow> (\<And>y ys. xs = y # ys \<Longrightarrow> keeps I (f y ys)) \<Longrightarrow>
   keeps I (case xs of [] \<Rightarrow> m | y # ys \<Rightarrow> f y ys)"
  by (cases xs) simp_all

lemma keeps_case_prod [keeps_intros]:
  "(\<And>a b. p = (a, b) \<Longrightarrow> keeps I (f a b)) \<Longrightarrow> keeps I (case p of (a, b) \<Rightarrow> f a b)"
  by (cases p) simp

lemma keeps_Let [keeps_intros]: "keeps I (f v) \<Longrightarrow> keeps I (Let v f)"
  by simp

end
