(* ===== verification/Kube_Types.thy ===== *)
theory Kube_Types
  imports Prelude
begin

text \<open>
  The Kubernetes objects the controller reads and writes, as records of the fields the
  sources use: object metadata, secrets, config maps, namespaces, batch jobs, pods and the
  label selectors. They belong to the Kubernetes API; the controller only handles them as
  data. A time is a count of nanoseconds since the zero time of Go (1 January of year 1),
  so that \<open>IsZero\<close> is equality with 0.
\<close>

type_synonym time = int

definition second :: time where
  "second = 1000000000"

definition millisecond :: time where
  "millisecond = 1000000"

definition minute :: time where
  "minute = 60 * second"

text \<open>\<open>time.Unix(sec, 0)\<close>: Go's zero time is 62135596800 seconds before the Unix epoch.\<close>

definition Unix :: "int \<Rightarrow> time" where
  "Unix sec = (sec + 62135596800) * second"

record OwnerReference =
  or_APIVersion :: string
  or_Kind :: string
  or_Name :: string
  or_UID :: string
  or_Controller :: "bool option"
  or_BlockOwnerDeletion :: "bool option"

record ObjectMeta =
  om_Name :: string
  om_GenerateName :: string
  om_Namespace :: string
  om_UID :: string
  om_ResourceVersion :: string
  om_Generation :: int
  om_CreationTimestamp :: time
  om_DeletionTimestamp :: "time option"
  om_Labels :: "string gomap"
  om_Annotations :: "string gomap"
  om_OwnerReferences :: "OwnerReference list"
  om_Finalizers :: "string list"

text \<open>The zero value of the metadata, and metadata that names an object only.\<close>

definition empty_meta :: ObjectMeta where
  "empty_meta = \<lparr>om_Name = [], om_GenerateName = [], om_Namespace = [], om_UID = [],
     om_ResourceVersion = [], om_Generation = 0, om_CreationTimestamp = 0,
     om_DeletionTimestamp = None, om_Labels = None, om_Annotations = None,
     om_OwnerReferences = [], om_Finalizers = []\<rparr>"

definition named_meta :: "string \<Rightarrow> string \<Rightarrow> ObjectMeta" where
  "named_meta namespace name = empty_meta\<lparr>om_Namespace := namespace, om_Name := name\<rparr>"

text \<open>\<open>metav1.FinalizerDeleteDependents\<close>\<close>

definition FinalizerDeleteDependents :: string where
  "FinalizerDeleteDependents = ''foregroundDeletion''"

record LabelSelectorRequirement =
  lsr_Key :: string
  lsr_Operator :: string
  lsr_Values :: "string list"

record LabelSelector =
  ls_MatchLabels :: "string gomap"
  ls_MatchExpressions :: "LabelSelectorRequirement list"

text \<open>A compiled selector (\<open>labels.Selector\<close>): whether it is empty and what it matches.\<close>

record Matcher =
  mt_Empty :: bool
  mt_Matches :: "string gomap \<Rightarrow> bool"

record SecretReference =
  sr_Name :: string
  sr_Namespace :: string

text \<open>\<open>runtime.RawExtension\<close>; nil and empty bytes are both the empty string, which no
  caller distinguishes.\<close>

record RawExtension =
  re_Raw :: bytes

record Secret =
  sec_Meta :: ObjectMeta
  sec_Data :: "bytes gomap"

record ConfigMap =
  cm_Meta :: ObjectMeta
  cm_Data :: "string gomap"

record Namespace =
  ns_Meta :: ObjectMeta

text \<open>\<open>metav1.ConditionStatus\<close>; \<open>ConditionUnset\<close> is the empty string.\<close>

datatype ConditionStatus = ConditionTrue | ConditionFalse | ConditionUnknown | ConditionUnset

datatype JobConditionType = JobComplete | JobFailed | JobSuspended | JobOtherCondition string

record JobCondition =
  jc_Type :: JobConditionType
  jc_Status :: ConditionStatus

record Container =
  ct_Name :: string
  ct_Image :: string
  ct_ImagePullPolicy :: string
  ct_Command :: "string list"
  ct_Args :: "string list"
  ct_AllowPrivilegeEscalation :: "bool option"
  ct_DropCapabilities :: "string list"
  ct_Privileged :: "bool option"

record PodTemplateSpec =
  pt_Labels :: "string gomap"
  pt_RestartPolicy :: string
  pt_RunAsGroup :: "int option"
  pt_RunAsNonRoot :: "bool option"
  pt_RunAsUser :: "int option"
  pt_Containers :: "Container list"

record JobSpec =
  js_BackoffLimit :: "int option"
  js_Completions :: "int option"
  js_Parallelism :: "int option"
  js_TTLSecondsAfterFinished :: "int option"
  js_Template :: PodTemplateSpec

record Job =
  job_Meta :: ObjectMeta
  job_Spec :: JobSpec
  job_Active :: int
  job_Conditions :: "JobCondition list"

datatype PodPhase = PodPending | PodRunning | PodSucceeded | PodFailed | PodUnknown

text \<open>A pod; of its containers only the names are read.\<close>

record Pod =
  pod_Meta :: ObjectMeta
  pod_Phase :: PodPhase
  pod_InitContainers :: "string list"
  pod_Containers :: "string list"

text \<open>Decoded JSON: the dynamic values of \<open>map[string]interface{}\<close>.\<close>

datatype json =
    JNull
  | JBool bool
  | JNum rat
  | JStr string
  | JArr "json list"
  | JObj "(string \<times> json) list"

text \<open>
  A value found in a JSON document by \<open>gjson\<close>: absent, or with its type, its text and its
  integer reading.
\<close>

record GResult =
  gr_Exists :: bool
  gr_IsNumber :: bool
  gr_String :: string
  gr_Int :: int

text \<open>\<open>var failed gjson.Result\<close>: the zero value.\<close>

definition empty_gresult :: GResult where
  "empty_gresult = \<lparr>gr_Exists = False, gr_IsNumber = False, gr_String = [], gr_Int = 0\<rparr>"

text \<open>The events that \<open>record.EventRecorder\<close> emits.\<close>

datatype EventType = EventTypeNormal | EventTypeWarning

text \<open>\<open>reconcile.Result\<close>: \<open>RequeueAfter\<close> is a duration in nanoseconds.\<close>

record Result =
  rs_Requeue :: bool
  rs_RequeueAfter :: time

definition Result0 :: Result where
  "Result0 = \<lparr>rs_Requeue = False, rs_RequeueAfter = 0\<rparr>"

definition requeue_after :: "time \<Rightarrow> Result" where
  "requeue_after d = \<lparr>rs_Requeue = False, rs_RequeueAfter = d\<rparr>"

text \<open>The test by which the ensure chain decides to stop: \<open>result.Requeue || result.RequeueAfter > 0\<close>.\<close>

definition stops :: "Result \<Rightarrow> bool" where
  "stops r \<longleftrightarrow> rs_Requeue r \<or> rs_RequeueAfter r > 0"

lemma stops_Result0 [simp]: "\<not> stops Result0"
  by (simp add: stops_def Result0_def)

lemma stops_requeue_after [simp]: "stops (requeue_after d) \<longleftrightarrow> d > 0"
  by (simp add: stops_def requeue_after_def)

lemma requeue_after_eq_Result0 [simp]: "requeue_after d = Result0 \<longleftrightarrow> d = 0"
  by (simp add: requeue_after_def Result0_def)

lemma second_pos [simp]: "0 < n * second \<longleftrightarrow> 0 < n"
  by (simp add: second_def zero_less_mult_iff)

lemma minute_pos [simp]: "0 < n * minute \<longleftrightarrow> 0 < n"
  by (simp add: minute_def second_def zero_less_mult_iff)

lemma millisecond_pos [simp]: "0 < n * millisecond \<longleftrightarrow> 0 < n"
  by (simp add: millisecond_def zero_less_mult_iff)

lemma named_meta_simps [simp]:
  "om_Name (named_meta ns n) = n" "om_Namespace (named_meta ns n) = ns"
  by (simp_all add: named_meta_def)

end
