(* ===== verification/Core_Types.thy ===== *)
theory Core_Types
  imports Kube_Types
begin

text \<open>
  The status types every resource shares (\<open>pkg/apis/core/v1alpha1\<close>): conditions with their
  reasons, the common status that lists them, and the queries on both. The invariant of the
  component is that a condition list has one entry per type; the lemmas relate the queries
  to updates of the list by index, which is how the condition manager writes through its
  pointer.
\<close>

section \<open>Status\<close>

datatype Status =
    DeletingStatus
  | DeleteErrorStatus
  | DeletedStatus
  | DeleteFailedStatus
  | ErrorStatus
  | PendingStatus
  | SuccessStatus
  | FailureStatus
  | WarningStatus
  | Unknown
  | EmptyStatus
  | CreatingStatus
  | UpdatingStatus
  | ActionRequiredStatus

definition Status_IsSuccess :: "Status \<Rightarrow> bool" where
  "Status_IsSuccess s \<longleftrightarrow> s = SuccessStatus"

definition Status_IsFailed :: "Status \<Rightarrow> bool" where
  "Status_IsFailed s \<longleftrightarrow> s = FailureStatus \<or> s = DeleteFailedStatus"

definition Status_IsError :: "Status \<Rightarrow> bool" where
  "Status_IsError s \<longleftrightarrow> Status_IsFailed s \<or> s = ErrorStatus \<or> s = DeleteErrorStatus"

definition Status_IsDeleting :: "Status \<Rightarrow> bool" where
  "Status_IsDeleting s \<longleftrightarrow>
     s = DeletingStatus \<or> s = DeletedStatus \<or> s = DeleteFailedStatus \<or> s = DeleteErrorStatus"

fun Status_OneOf :: "Status \<Rightarrow> Status list \<Rightarrow> bool" where
  "Status_OneOf s [] = False"
| "Status_OneOf s (x # xs) = (if x = s then True else Status_OneOf s xs)"

section \<open>Conditions\<close>

type_synonym ConditionType = string

definition ConditionReady :: ConditionType where
  "ConditionReady = ''Ready''"

datatype ConditionReason =
    ReasonNotDetermined
  | ReasonWarning
  | ReasonError
  | ReasonInProgress
  | ReasonReady
  | ReasonDisabled
  | ReasonComplete
  | ReasonActionRequired
  | ReasonDeleting
  | ReasonErrorDeleting
  | ReasonDeleted
  | ReasonUnset
  | ReasonOther string

record ConditionSpec =
  csp_Type :: ConditionType
  csp_Name :: string
  csp_DefaultStatus :: ConditionStatus

record Condition =
  cd_Type :: ConditionType
  cd_Status :: ConditionStatus
  cd_ObservedGeneration :: int
  cd_LastTransitionTime :: time
  cd_Reason :: ConditionReason
  cd_Message :: string
  cd_Name :: string
  cd_Detail :: string

text \<open>The zero value \<open>Condition{}\<close>.\<close>

definition empty_condition :: Condition where
  "empty_condition = \<lparr>cd_Type = [], cd_Status = ConditionUnset, cd_ObservedGeneration = 0,
     cd_LastTransitionTime = 0, cd_Reason = ReasonUnset, cd_Message = [], cd_Name = [],
     cd_Detail = []\<rparr>"

definition IsGeneration :: "Condition \<Rightarrow> int \<Rightarrow> bool" where
  "IsGeneration c generation \<longleftrightarrow> cd_ObservedGeneration c = generation"

definition IsComplete :: "Condition \<Rightarrow> int \<Rightarrow> bool" where
  "IsComplete c generation \<longleftrightarrow>
     cd_Status c = ConditionTrue \<and> cd_ObservedGeneration c = generation"

definition IsFailed :: "Condition \<Rightarrow> int \<Rightarrow> bool" where
  "IsFailed c generation \<longleftrightarrow>
     cd_Reason c = ReasonError \<and> cd_ObservedGeneration c = generation"

definition InProgress :: "Condition \<Rightarrow> bool" where
  "InProgress c \<longleftrightarrow> cd_Reason c = ReasonInProgress"

text \<open>The receiver is a pointer and may be nil.\<close>

definition IsDeleting :: "Condition option \<Rightarrow> bool" where
  "IsDeleting c =
     (case c of
        None \<Rightarrow> False
      | Some c \<Rightarrow> cd_Status c = ConditionFalse \<and>
          (cd_Reason c = ReasonDeleting \<or> cd_Reason c = ReasonDeleted \<or>
           cd_Reason c = ReasonErrorDeleting))"

section \<open>The common status\<close>

record LastReconcileStatus =
  lr_Time :: time
  lr_Generation :: int

record CommonStatus =
  st_Conditions :: "Condition list"
  st_LastReconcile :: "LastReconcileStatus option"
  st_LastSuccess :: "LastReconcileStatus option"

text \<open>
  \<open>GetCondition\<close> returns a pointer into the slice. The model keeps the pointer apart as the
  index of the first condition of the type, so that writes through it can be modelled.
\<close>

fun index_of :: "ConditionType \<Rightarrow> Condition list \<Rightarrow> nat option" where
  "index_of typ [] = None"
| "index_of typ (c # cs) = (if cd_Type c = typ then Some 0 else map_option Suc (index_of typ cs))"

definition GetCondition :: "CommonStatus \<Rightarrow> ConditionType \<Rightarrow> Condition option" where
  "GetCondition s typ =
     (case index_of typ (st_Conditions s) of
        None \<Rightarrow> None
      | Some i \<Rightarrow> Some (st_Conditions s ! i))"

definition HasCondition :: "CommonStatus \<Rightarrow> ConditionType \<Rightarrow> bool" where
  "HasCondition s t \<longleftrightarrow> GetCondition s t \<noteq> None"

definition Common_IsComplete :: "CommonStatus \<Rightarrow> ConditionType \<Rightarrow> int \<Rightarrow> bool" where
  "Common_IsComplete s condition generation =
     (case GetCondition s condition of
        None \<Rightarrow> False
      | Some cond \<Rightarrow> cd_ObservedGeneration cond = generation \<and> cd_Status cond = ConditionTrue)"

definition InCondition :: "CommonStatus \<Rightarrow> ConditionType \<Rightarrow> bool" where
  "InCondition s typ =
     (case GetCondition s typ of None \<Rightarrow> False | Some c \<Rightarrow> cd_Status c = ConditionTrue)"

definition GetConditions :: "CommonStatus \<Rightarrow> Condition list" where
  "GetConditions s = st_Conditions s"

fun any_failed :: "Condition list \<Rightarrow> bool" where
  "any_failed [] = False"
| "any_failed (c # cs) =
     (if cd_Status c = ConditionFalse \<and>
         cd_Reason c \<in> {ReasonError, ReasonErrorDeleting, ReasonWarning, ReasonActionRequired}
      then True else any_failed cs)"

definition Common_IsFailed :: "CommonStatus \<Rightarrow> bool" where
  "Common_IsFailed s = any_failed (st_Conditions s)"

section \<open>Lookups and updates by index\<close>

text \<open>One condition per type.\<close>

definition distinct_types :: "Condition list \<Rightarrow> bool" where
  "distinct_types cs \<longleftrightarrow> distinct (map cd_Type cs)"

lemma index_of_Some:
  "index_of typ cs = Some i \<Longrightarrow> i < length cs \<and> cd_Type (cs ! i) = typ"
  by (induction cs arbitrary: i) (auto split: if_splits simp: nth_Cons')

lemma index_of_None: "index_of typ cs = None \<longleftrightarrow> typ \<notin> cd_Type ` set cs"
  by (induction cs) auto

lemma index_of_types: "map cd_Type cs = map cd_Type ds \<Longrightarrow> index_of typ cs = index_of typ ds"
proof (induction cs arbitrary: ds)
  case (Cons c cs)
  then show ?case by (cases ds) auto
qed simp

lemma index_of_append:
  "index_of typ (cs @ ds) =
     (case index_of typ cs of
        Some i \<Rightarrow> Some i | None \<Rightarrow> map_option (\<lambda>i. length cs + i) (index_of typ ds))"
  by (induction cs; cases "index_of typ ds") (auto split: option.splits)

lemma index_of_update:
  "cd_Type c = cd_Type (cs ! i) \<Longrightarrow> index_of typ (cs[i := c]) = index_of typ cs"
proof (induction cs arbitrary: i)
  case (Cons d ds)
  then show ?case by (cases i) auto
qed simp

lemma map_type_update:
  "cd_Type c = cd_Type (cs ! i) \<Longrightarrow> map cd_Type (cs[i := c]) = map cd_Type cs"
proof (induction cs arbitrary: i)
  case (Cons d ds)
  then show ?case by (cases i) auto
qed simp

lemma distinct_types_update:
  "cd_Type c = cd_Type (cs ! i) \<Longrightarrow> distinct_types (cs[i := c]) = distinct_types cs"
  by (simp add: distinct_types_def map_type_update)

lemma GetCondition_type: "GetCondition s t = Some c \<Longrightarrow> cd_Type c = t"
  by (auto simp: GetCondition_def dest: index_of_Some split: option.splits)

lemma GetCondition_in: "GetCondition s t = Some c \<Longrightarrow> c \<in> set (st_Conditions s)"
  by (auto simp: GetCondition_def dest: index_of_Some split: option.splits)

lemma HasCondition_iff: "HasCondition s t \<longleftrightarrow> t \<in> cd_Type ` set (st_Conditions s)"
  using index_of_None [of t "st_Conditions s"]
  by (auto simp: HasCondition_def GetCondition_def split: option.splits)

lemma GetCondition_set:
  assumes "index_of t (st_Conditions s) = Some i" and "cd_Type c = t"
  shows "GetCondition (s\<lparr>st_Conditions := (st_Conditions s)[i := c]\<rparr>) u =
           (if u = t then Some c else GetCondition s u)"
proof -
  have i: "i < length (st_Conditions s)" "cd_Type (st_Conditions s ! i) = t"
    using index_of_Some [OF assms(1)] by auto
  have same: "index_of u ((st_Conditions s)[i := c]) = index_of u (st_Conditions s)"
    using i(2) assms(2) by (simp add: index_of_update)
  show ?thesis
  proof (cases "u = t")
    case True
    with assms(1) i same show ?thesis by (simp add: GetCondition_def)
  next
    case False
    then have "index_of u (st_Conditions s) \<noteq> Some i"
      using i(2) index_of_Some by fastforce
    with False same show ?thesis
      by (auto simp: GetCondition_def split: option.splits)
  qed
qed

lemma any_failed_iff:
  "any_failed cs \<longleftrightarrow>
     (\<exists>c \<in> set cs. cd_Status c = ConditionFalse \<and>
        cd_Reason c \<in> {ReasonError, ReasonErrorDeleting, ReasonWarning, ReasonActionRequired})"
  by (induction cs) auto

end
