(* ===== verification/Tf_Types.thy ===== *)
theory Tf_Types
  imports Kube_Types "HOL-Library.List_Lexorder" "HOL-Library.Char_ord"
begin

text \<open>
  What terraform reports (\<open>pkg/utils/terraform/types.go\<close>): the state with its outputs and
  resources, and the plan whose changes decide whether an apply is needed. The lemmas give
  the closed form of the resource count and of the apply decision, and that a plan's
  identifier is a valid label value.
\<close>

section \<open>State\<close>

record Resource =
  tr_Mode :: string
  tr_Type :: string
  tr_Instances :: "(string \<times> json) list list"

record OutputValue =
  ov_Value :: json

text \<open>
  \<open>fmt.Sprintf("%v", x)\<close> on a decoded JSON value: maps print in key order. The rendering of
  a float is an argument.
\<close>

fun format_v :: "(rat \<Rightarrow> string) \<Rightarrow> json \<Rightarrow> string" where
  "format_v ff JNull = ''<nil>''"
| "format_v ff (JBool b) = (if b then ''true'' else ''false'')"
| "format_v ff (JNum r) = ff r"
| "format_v ff (JStr s) = s"
| "format_v ff (JArr xs) = ''['' @ Join (map (format_v ff) xs) '' '' @ '']''"
| "format_v ff (JObj kvs) =
     ''map['' @
     Join (map (\<lambda>(k, v). k @ '':'' @ v)
             (sort_key fst (map (\<lambda>kv. (fst kv, format_v ff (snd kv))) kvs))) '' '' @ '']''"

definition OutputValue_String :: "(rat \<Rightarrow> string) \<Rightarrow> OutputValue \<Rightarrow> string" where
  "OutputValue_String ff ov = (if ov_Value ov = JNull then [] else format_v ff (ov_Value ov))"

text \<open>The outputs are a Go map: a list with distinct keys, in the order of one iteration.\<close>

record TfState =
  tf_Outputs :: "(string \<times> OutputValue) list"
  tf_Resources :: "Resource list"
  tf_TerraformVersion :: string

fun count_resources :: "nat \<Rightarrow> Resource list \<Rightarrow> nat" where
  "count_resources count [] = count"
| "count_resources count (r # rs) =
     (if tr_Mode r = ''managed''
      then count_resources (count + length (tr_Instances r)) rs
      else count_resources count rs)"

definition CountResources :: "TfState \<Rightarrow> nat" where
  "CountResources s = count_resources 0 (tf_Resources s)"

definition HasOutputs :: "TfState \<Rightarrow> bool" where
  "HasOutputs s \<longleftrightarrow> length (tf_Outputs s) > 0"

section \<open>Plan\<close>

type_synonym ChangeAction = string

definition TFActionNoOp :: ChangeAction where
  "TFActionNoOp = ''no-op''"

record Change =
  ch_Actions :: "ChangeAction list"

record ResourceChange =
  rc_Change :: Change

record OutputChange =
  oc_Actions :: "ChangeAction list"

record TfPlan =
  pl_Timestamp :: string
  pl_ResourceChanges :: "ResourceChange list"
  pl_OutputChanges :: "(string \<times> OutputChange) list"
  pl_Applyable :: "bool option"

text \<open>The complement of \<open>[^-_.a-zA-Z0-9]\<close>.\<close>

definition label_safe :: "char \<Rightarrow> bool" where
  "label_safe c \<longleftrightarrow>
     c = CHR ''-'' \<or> c = CHR ''_'' \<or> c = CHR ''.'' \<or>
     (let n = (of_char c :: nat) in 97 \<le> n \<and> n \<le> 122 \<or> 65 \<le> n \<and> n \<le> 90 \<or> 48 \<le> n \<and> n \<le> 57)"

definition ID :: "TfPlan \<Rightarrow> string" where
  "ID p = map (\<lambda>c. if label_safe c then c else CHR ''-'') (pl_Timestamp p)"

fun any_action :: "ChangeAction list \<Rightarrow> bool" where
  "any_action [] = False"
| "any_action (a # as) = (if a \<noteq> TFActionNoOp then True else any_action as)"

fun any_resource_change :: "ResourceChange list \<Rightarrow> bool" where
  "any_resource_change [] = False"
| "any_resource_change (ch # chs) =
     (if any_action (ch_Actions (rc_Change ch)) then True else any_resource_change chs)"

fun any_output_change :: "(string \<times> OutputChange) list \<Rightarrow> bool" where
  "any_output_change [] = False"
| "any_output_change (ch # chs) =
     (if any_action (oc_Actions (snd ch)) then True else any_output_change chs)"

definition NeedsApply :: "TfPlan \<Rightarrow> bool" where
  "NeedsApply p =
     (case pl_Applyable p of
        Some b \<Rightarrow> b
      | None \<Rightarrow>
          if any_resource_change (pl_ResourceChanges p) then True
          else any_output_change (pl_OutputChanges p))"

section \<open>Closed forms\<close>

lemma any_action_iff: "any_action as \<longleftrightarrow> (\<exists>a \<in> set as. a \<noteq> TFActionNoOp)"
  by (induction as) auto

lemma any_resource_change_iff:
  "any_resource_change chs \<longleftrightarrow> (\<exists>ch \<in> set chs. any_action (ch_Actions (rc_Change ch)))"
  by (induction chs) auto

lemma any_output_change_iff:
  "any_output_change chs \<longleftrightarrow> (\<exists>ch \<in> set chs. any_action (oc_Actions (snd ch)))"
  by (induction chs) auto

lemma count_resources_acc:
  "count_resources n rs =
     n + (\<Sum>r\<leftarrow>filter (\<lambda>r. tr_Mode r = ''managed'') rs. length (tr_Instances r))"
  by (induction rs arbitrary: n) auto

lemma ID_safe: "c \<in> set (ID p) \<Longrightarrow> label_safe c"
  by (auto simp: ID_def label_safe_def)

lemma ID_length: "length (ID p) = length (pl_Timestamp p)"
  by (simp add: ID_def)

end
