(* ===== verification/Api_Configuration.thy ===== *)
theory Api_Configuration
  imports Core_Types Tf_Types
begin

text \<open>
  The \<open>Configuration\<close> resource (\<open>configuration_types.go\<close>, \<open>configuration_conditions.go\<close>):
  its records, the labels and annotations that steer the controller, the validity checks of
  its parts and its queries. Functions of the Go libraries that the model does not define
  (JSON, regular expressions, label selectors, gzip, gjson, floats) are the fields of the
  record \<open>Libs\<close>, an argument of the definitions that call them.
\<close>

section \<open>Library functions used as parameters\<close>

text \<open>
  \<open>lib_JSONObject\<close> decodes into \<open>map[string]interface{}\<close>; \<open>lib_JSONEncode\<close> encodes one;
  \<open>lib_JSONPlan\<close> and \<open>lib_JSONState\<close> decode into the terraform types; \<open>lib_Regexp\<close> compiles a
  regular expression to its \<open>MatchString\<close>; \<open>lib_Selector\<close> is
  \<open>metav1.LabelSelectorAsSelector\<close>; \<open>lib_Gunzip\<close> reads a gzip stream; \<open>lib_GJSON\<close> is
  \<open>gjson.GetBytes\<close>; \<open>lib_ParseFloat\<close> is \<open>strconv.ParseFloat\<close> and \<open>lib_FormatFloat\<close> prints a
  float with \<open>%v\<close>; \<open>lib_Base32SHA256\<close> is the unpadded base32 of the SHA-256 of a text;
  \<open>lib_PrettyJSON\<close> is \<open>pretty.Pretty\<close>.
\<close>

record Libs =
  lib_JSONObject :: "bytes \<Rightarrow> gerror + (string \<rightharpoonup> json)"
  lib_JSONEncode :: "(string \<rightharpoonup> json) \<Rightarrow> gerror + bytes"
  lib_JSONPlan :: "bytes \<Rightarrow> gerror + TfPlan"
  lib_JSONState :: "bytes \<Rightarrow> gerror + TfState"
  lib_Regexp :: "string \<Rightarrow> gerror + (string \<Rightarrow> bool)"
  lib_Selector :: "LabelSelector option \<Rightarrow> gerror + Matcher"
  lib_Gunzip :: "bytes \<Rightarrow> gerror + bytes"
  lib_GJSON :: "bytes \<Rightarrow> string \<Rightarrow> GResult"
  lib_ParseFloat :: "string \<Rightarrow> rat option"
  lib_FormatFloat :: "rat \<Rightarrow> string"
  lib_Base32SHA256 :: "bytes \<Rightarrow> string"
  lib_PrettyJSON :: "bytes \<Rightarrow> bytes"

section \<open>Names\<close>

record TypeMeta =
  tm_Kind :: string
  tm_APIVersion :: string

definition GroupName :: string where
  "GroupName = ''terraform.appvia.io''"

definition SchemeGroupVersion :: string where
  "SchemeGroupVersion = ''terraform.appvia.io/v1alpha1''"

definition ConfigurationKind :: string where
  "ConfigurationKind = ''Configuration''"

definition ApplyAnnotation :: string where
  "ApplyAnnotation = ''terraform.appvia.io/apply''"

definition DriftAnnotation :: string where
  "DriftAnnotation = ''terraform.appvia.io/drift''"

definition ReconcileAnnotation :: string where
  "ReconcileAnnotation = ''terraform.appvia.io/reconcile''"

definition RetryAnnotation :: string where
  "RetryAnnotation = ''terraform.appvia.io/retry''"

definition OrphanAnnotation :: string where
  "OrphanAnnotation = ''terraform.appvia.io/orphan''"

definition VersionAnnotation :: string where
  "VersionAnnotation = ''terraform.appvia.io/version''"

definition TerraformStateSecretKey :: string where
  "TerraformStateSecretKey = ''tfstate''"

definition TerraformPlanJSONSecretKey :: string where
  "TerraformPlanJSONSecretKey = ''plan.json''"

definition CheckovJobTemplateConfigMapKey :: string where
  "CheckovJobTemplateConfigMapKey = ''checkov.yaml''"

definition TerraformBackendSecretKey :: string where
  "TerraformBackendSecretKey = ''backend.tf''"

definition TerraformVariablesConfigMapKey :: string where
  "TerraformVariablesConfigMapKey = ''variables.tfvars.json''"

definition TerraformTFVarsConfigMapKey :: string where
  "TerraformTFVarsConfigMapKey = ''variables.tfvars''"

definition TerraformProviderConfigMapKey :: string where
  "TerraformProviderConfigMapKey = ''provider.tf.json''"

definition TerraformJobTemplateConfigMapKey :: string where
  "TerraformJobTemplateConfigMapKey = ''job.yaml''"

definition ConfigurationGenerationLabel :: string where
  "ConfigurationGenerationLabel = ''terraform.appvia.io/generation''"

definition ConfigurationNameLabel :: string where
  "ConfigurationNameLabel = ''terraform.appvia.io/configuration''"

definition ConfigurationUIDLabel :: string where
  "ConfigurationUIDLabel = ''terraform.appvia.io/configuration-uid''"

definition ConfigurationNamespaceLabel :: string where
  "ConfigurationNamespaceLabel = ''terraform.appvia.io/namespace''"

definition ConfigurationStageLabel :: string where
  "ConfigurationStageLabel = ''terraform.appvia.io/stage''"

definition RevisionPlanNameLabel :: string where
  "RevisionPlanNameLabel = ''terraform.appvia.io/plan''"

definition RevisionLabel :: string where
  "RevisionLabel = ''terraform.appvia.io/revision''"

definition RevisionNameLabel :: string where
  "RevisionNameLabel = ''terraform.appvia.io/revision-name''"

definition ConfigurationPlanLabel :: string where
  "ConfigurationPlanLabel = RevisionPlanNameLabel"

definition ConfigurationRevisionVersion :: string where
  "ConfigurationRevisionVersion = ''terranetes.appvia.io/revision-version''"

definition CloudResourceNameLabel :: string where
  "CloudResourceNameLabel = ''terraform.appvia.io/cloud-resource-name''"

definition JobPlanIDLabel :: string where
  "JobPlanIDLabel = ''terraform.appvia.io/plan-id''"

definition JobTemplateHashLabel :: string where
  "JobTemplateHashLabel = ''terraform.appvia.io/template-hash''"

definition StageTerraformApply :: string where
  "StageTerraformApply = ''apply''"

definition StageTerraformDestroy :: string where
  "StageTerraformDestroy = ''destroy''"

definition StageTerraformPlan :: string where
  "StageTerraformPlan = ''plan''"

definition StageTerraformVerify :: string where
  "StageTerraformVerify = ''verify''"

lemmas stage_defs = StageTerraformApply_def StageTerraformDestroy_def StageTerraformPlan_def
  StageTerraformVerify_def

lemmas annotation_defs = ApplyAnnotation_def DriftAnnotation_def ReconcileAnnotation_def
  RetryAnnotation_def OrphanAnnotation_def VersionAnnotation_def

lemmas label_defs = ConfigurationGenerationLabel_def ConfigurationNameLabel_def
  ConfigurationUIDLabel_def ConfigurationNamespaceLabel_def ConfigurationStageLabel_def
  JobPlanIDLabel_def JobTemplateHashLabel_def CloudResourceNameLabel_def RevisionPlanNameLabel_def
  RevisionLabel_def RevisionNameLabel_def

section \<open>Parts of the specification\<close>

record ProviderReference =
  pr_Name :: string
  pr_Namespace :: string

definition ProviderReference_IsValid :: "ProviderReference \<Rightarrow> gerror option" where
  "ProviderReference_IsValid p =
     (if pr_Name p = [] then Some (ErrMsg ''spec.providerRef.name is required'') else None)"

record WriteConnectionSecret =
  wcs_Name :: string
  wcs_Keys :: "string list"

fun wcs_keys_valid :: "int \<Rightarrow> string list \<Rightarrow> gerror option" where
  "wcs_keys_valid i [] = None"
| "wcs_keys_valid i (key # keys) =
     (if CHR '':'' \<in> set key \<and> length (Split key CHR '':'') \<noteq> 2
      then Some (ErrMsg (Sprintf
        ''spec.writeConnectionSecretToRef.keys[%d] contains invalid key: %s, should be KEY:NEWNAME''
        [FInt i, FStr key]))
      else wcs_keys_valid (i + 1) keys)"

definition WriteConnectionSecret_IsValid :: "WriteConnectionSecret \<Rightarrow> gerror option" where
  "WriteConnectionSecret_IsValid w =
     (if wcs_Name w = []
      then Some (ErrMsg ''spec.writeConnectionSecretToRef.name is required'')
      else wcs_keys_valid 0 (wcs_Keys w))"

definition HasKeys :: "WriteConnectionSecret \<Rightarrow> bool" where
  "HasKeys w \<longleftrightarrow> length (wcs_Keys w) > 0"

definition AddKey :: "WriteConnectionSecret \<Rightarrow> string \<Rightarrow> string \<Rightarrow> WriteConnectionSecret" where
  "AddKey w key override =
     (let name = (if override \<noteq> [] then key @ '':'' @ ToUpper override else key);
          list = filter (\<lambda>x. \<not> HasPrefix x (key @ '':'') \<and> x \<noteq> key) (wcs_Keys w)
      in w\<lparr>wcs_Keys := list @ [name]\<rparr>)"

fun keys_map :: "(string \<rightharpoonup> string) \<Rightarrow> string list \<Rightarrow> gerror + string gomap" where
  "keys_map keys [] = Inr (Some keys)"
| "keys_map keys (x # xs) =
     (if CHR '':'' \<in> set x then
        (case Split x CHR '':'' of
           [a, b] \<Rightarrow> keys_map (keys(a \<mapsto> b)) xs
         | _ \<Rightarrow> Inl (ErrMsg (Sprintf ''invalid key format %s, should be KEY:NEWNAME'' [FStr x])))
      else keys_map (keys(x \<mapsto> x)) xs)"

definition KeysMap :: "WriteConnectionSecret \<Rightarrow> gerror + string gomap" where
  "KeysMap w = (if \<not> HasKeys w then Inr None else keys_map Map.empty (wcs_Keys w))"

record ValueFromSource =
  vf_Context :: "string option"
  vf_Optional :: bool
  vf_Key :: string
  vf_Name :: string
  vf_Secret :: "string option"

definition ValueFromSource_IsValid :: "ValueFromSource \<Rightarrow> string \<Rightarrow> gerror option" where
  "ValueFromSource_IsValid v path =
     (if vf_Context v = None \<and> vf_Secret v = None
      then Some (ErrMsg (Sprintf ''%s requires either context or secret'' [FStr path]))
      else if vf_Context v \<noteq> None \<and> vf_Secret v \<noteq> None
      then Some (ErrMsg (Sprintf ''%s requires either context or secret, not both'' [FStr path]))
      else if vf_Secret v \<noteq> None \<and> vf_Name v = []
      then Some (ErrMsg (Sprintf ''%s requires a name to be set'' [FStr path]))
      else if vf_Context v \<noteq> None \<and> vf_Key v = []
      then Some (ErrMsg (Sprintf ''%s requires a key'' [FStr path]))
      else None)"

fun value_from_valid :: "int \<Rightarrow> ValueFromSource list \<Rightarrow> gerror option" where
  "value_from_valid i [] = None"
| "value_from_valid i (x # xs) =
     (case ValueFromSource_IsValid x (Sprintf ''spec.valueFrom[%d]'' [FInt i]) of
        Some err \<Rightarrow> Some err
      | None \<Rightarrow> value_from_valid (i + 1) xs)"

definition ValueFromList_IsValid :: "ValueFromSource list \<Rightarrow> gerror option" where
  "ValueFromList_IsValid v = value_from_valid 0 v"

fun HasContextReferences :: "ValueFromSource list \<Rightarrow> bool" where
  "HasContextReferences [] = False"
| "HasContextReferences (x # xs) = (if vf_Context x \<noteq> None then True else HasContextReferences xs)"

fun HasSecretReferences :: "ValueFromSource list \<Rightarrow> bool" where
  "HasSecretReferences [] = False"
| "HasSecretReferences (x # xs) = (if vf_Secret x \<noteq> None then True else HasSecretReferences xs)"

text \<open>\<open>ValueFromSource.GetName\<close>\<close>

definition ValueFrom_GetName :: "ValueFromSource \<Rightarrow> string" where
  "ValueFrom_GetName v = (if length (vf_Name v) = 0 then vf_Key v else vf_Name v)"

record PlanReference =
  plr_Name :: string
  plr_Revision :: string

definition PlanReference_IsValid :: "PlanReference \<Rightarrow> gerror option" where
  "PlanReference_IsValid p =
     (if plr_Name p = [] then Some (ErrMsg ''spec.plan.name is required'')
      else if plr_Revision p = [] then Some (ErrMsg ''spec.plan.revision is required'')
      else None)"

section \<open>The resource\<close>

record ConfigurationSpec =
  cs_Auth :: "SecretReference option"
  cs_EnableAutoApproval :: bool
  cs_EnableDriftDetection :: bool
  cs_Module :: string
  cs_Plan :: "PlanReference option"
  cs_ProviderRef :: "ProviderReference option"
  cs_WriteConnectionSecretToRef :: "WriteConnectionSecret option"
  cs_Variables :: "RawExtension option"
  cs_ValueFrom :: "ValueFromSource list"
  cs_TFVars :: string
  cs_TerraformVersion :: string

record CostStatus =
  cost_Enabled :: bool
  cost_Hourly :: string
  cost_Monthly :: string

datatype ResourceStatus =
    ResourcesInSync
  | ResourcesOutOfSync
  | DestroyingResources
  | DestroyingResourcesFailed
  | UnknownResourceStatus

record ConfigurationStatus =
  cst_Common :: CommonStatus
  cst_Costs :: "CostStatus option"
  cst_DriftTimestamp :: string
  cst_Resources :: "int option"
  cst_ResourceStatus :: ResourceStatus
  cst_TerraformVersion :: string

record Configuration =
  cfg_Type :: TypeMeta
  cfg_Meta :: ObjectMeta
  cfg_Spec :: ConfigurationSpec
  cfg_Status :: ConfigurationStatus

text \<open>The zero values of the specification and the status.\<close>

definition empty_configuration_spec :: ConfigurationSpec where
  "empty_configuration_spec = \<lparr>cs_Auth = None, cs_EnableAutoApproval = False,
     cs_EnableDriftDetection = False, cs_Module = [], cs_Plan = None, cs_ProviderRef = None,
     cs_WriteConnectionSecretToRef = None, cs_Variables = None, cs_ValueFrom = [],
     cs_TFVars = [], cs_TerraformVersion = []\<rparr>"

definition empty_common_status :: CommonStatus where
  "empty_common_status = \<lparr>st_Conditions = [], st_LastReconcile = None, st_LastSuccess = None\<rparr>"

definition empty_configuration_status :: ConfigurationStatus where
  "empty_configuration_status = \<lparr>cst_Common = empty_common_status, cst_Costs = None,
     cst_DriftTimestamp = [], cst_Resources = None, cst_ResourceStatus = UnknownResourceStatus,
     cst_TerraformVersion = []\<rparr>"

definition NewConfiguration :: "string \<Rightarrow> string \<Rightarrow> Configuration" where
  "NewConfiguration namespace name =
     \<lparr>cfg_Type = \<lparr>tm_Kind = ConfigurationKind, tm_APIVersion = SchemeGroupVersion\<rparr>,
      cfg_Meta = named_meta namespace name,
      cfg_Spec = empty_configuration_spec,
      cfg_Status = empty_configuration_status\<rparr>"

definition Configuration_annotation :: "Configuration \<Rightarrow> string \<Rightarrow> string" where
  "Configuration_annotation c k = gomap_get (om_Annotations (cfg_Meta c)) k"

definition IsRevisioned :: "Configuration \<Rightarrow> bool" where
  "IsRevisioned c =
     (case cs_Plan (cfg_Spec c) of
        None \<Rightarrow> False
      | Some p \<Rightarrow>
          if plr_Name p = [] then False
          else if plr_Revision p = [] then False
          else True)"

definition HasVariables :: "ConfigurationSpec \<Rightarrow> bool" where
  "HasVariables c =
     (case cs_Variables c of
        None \<Rightarrow> False
      | Some v \<Rightarrow>
          if length (re_Raw v) \<le> 0 then False
          else if re_Raw v = ''{}'' then False
          else True)"

definition GetVariables :: "Libs \<Rightarrow> ConfigurationSpec \<Rightarrow> gerror + (string \<rightharpoonup> json)" where
  "GetVariables lib c =
     (if \<not> HasVariables c then Inr Map.empty
      else lib_JSONObject lib (case cs_Variables c of None \<Rightarrow> [] | Some v \<Rightarrow> re_Raw v))"

definition HasValueFrom :: "ConfigurationSpec \<Rightarrow> bool" where
  "HasValueFrom c \<longleftrightarrow> length (cs_ValueFrom c) > 0"

definition HasRetryableAnnotation :: "Configuration \<Rightarrow> bool" where
  "HasRetryableAnnotation c \<longleftrightarrow> gomap_find (om_Annotations (cfg_Meta c)) RetryAnnotation \<noteq> None"

definition IsRetryableValid :: "Configuration \<Rightarrow> bool" where
  "IsRetryableValid c =
     (case gomap_find (om_Annotations (cfg_Meta c)) RetryAnnotation of
        None \<Rightarrow> False
      | Some retryable \<Rightarrow> ParseInt64 retryable \<noteq> None)"

definition IsRetryable :: "Configuration \<Rightarrow> bool" where
  "IsRetryable c =
     (if om_Annotations (cfg_Meta c) = None then False
      else if Configuration_annotation c RetryAnnotation = [] then False
      else (case st_LastReconcile (cst_Common (cfg_Status c)) of
              None \<Rightarrow> False
            | Some lst \<Rightarrow>
                if lr_Time lst = 0 then False
                else (case ParseInt64 (Configuration_annotation c RetryAnnotation) of
                        None \<Rightarrow> False
                      | Some timestamp \<Rightarrow> Unix timestamp > lr_Time lst)))"

definition HasApproval :: "Configuration \<Rightarrow> bool" where
  "HasApproval c \<longleftrightarrow> Configuration_annotation c ApplyAnnotation = ''true''"

definition NeedsApproval :: "Configuration \<Rightarrow> bool" where
  "NeedsApproval c \<longleftrightarrow> Configuration_annotation c ApplyAnnotation = ''false''"

definition IsManaged :: "Configuration \<Rightarrow> bool" where
  "IsManaged c =
     (if cs_Plan (cfg_Spec c) = None then False
      else if length (om_OwnerReferences (cfg_Meta c)) = 0 then False
      else if gomap_get (om_Labels (cfg_Meta c)) CloudResourceNameLabel = [] then False
      else True)"

definition GetTerraformConfigSecretName :: "Configuration \<Rightarrow> string" where
  "GetTerraformConfigSecretName c = ''config-'' @ om_UID (cfg_Meta c)"

definition GetTerraformStateSecretName :: "Configuration \<Rightarrow> string" where
  "GetTerraformStateSecretName c = ''tfstate-default-'' @ om_UID (cfg_Meta c)"

definition GetTerraformPolicySecretName :: "Configuration \<Rightarrow> string" where
  "GetTerraformPolicySecretName c = ''policy-'' @ om_UID (cfg_Meta c)"

definition GetTerraformCostSecretName :: "Configuration \<Rightarrow> string" where
  "GetTerraformCostSecretName c = ''costs-'' @ om_UID (cfg_Meta c)"

definition GetTerraformPlanOutSecretName :: "Configuration \<Rightarrow> string" where
  "GetTerraformPlanOutSecretName c = ''tfplan-out-'' @ om_UID (cfg_Meta c)"

definition GetTerraformPlanJSONSecretName :: "Configuration \<Rightarrow> string" where
  "GetTerraformPlanJSONSecretName c = ''tfplan-json-'' @ om_UID (cfg_Meta c)"

lemmas secret_name_defs = GetTerraformConfigSecretName_def GetTerraformStateSecretName_def
  GetTerraformPolicySecretName_def GetTerraformCostSecretName_def
  GetTerraformPlanOutSecretName_def GetTerraformPlanJSONSecretName_def

section \<open>Conditions of a configuration\<close>

definition ConditionProviderReady :: ConditionType where
  "ConditionProviderReady = ''ProviderReady''"

definition ConditionTerraformPlan :: ConditionType where
  "ConditionTerraformPlan = ''TerraformPlan''"

definition ConditionTerraformPolicy :: ConditionType where
  "ConditionTerraformPolicy = ''SecurityPolicy''"

definition ConditionTerraformApply :: ConditionType where
  "ConditionTerraformApply = ''TerraformApply''"

lemmas condition_type_defs = ConditionReady_def ConditionProviderReady_def
  ConditionTerraformPlan_def ConditionTerraformPolicy_def ConditionTerraformApply_def

definition condition_spec :: "ConditionType \<Rightarrow> string \<Rightarrow> ConditionSpec" where
  "condition_spec t n = \<lparr>csp_Type = t, csp_Name = n, csp_DefaultStatus = ConditionUnset\<rparr>"

definition DefaultConfigurationConditions :: "ConditionSpec list" where
  "DefaultConfigurationConditions =
     [condition_spec ConditionProviderReady ''Provider ready'',
      condition_spec ConditionTerraformPlan ''Terraform Plan'',
      condition_spec ConditionTerraformPolicy ''Security Policy'',
      condition_spec ConditionTerraformApply ''Terraform Apply'',
      condition_spec ConditionReady ''Ready'']"

lemma condition_types_distinct [simp]:
  "ConditionReady \<noteq> ConditionProviderReady" "ConditionProviderReady \<noteq> ConditionReady"
  "ConditionReady \<noteq> ConditionTerraformPlan" "ConditionTerraformPlan \<noteq> ConditionReady"
  "ConditionReady \<noteq> ConditionTerraformPolicy" "ConditionTerraformPolicy \<noteq> ConditionReady"
  "ConditionReady \<noteq> ConditionTerraformApply" "ConditionTerraformApply \<noteq> ConditionReady"
  "ConditionProviderReady \<noteq> ConditionTerraformPlan" "ConditionTerraformPlan \<noteq> ConditionProviderReady"
  "ConditionProviderReady \<noteq> ConditionTerraformPolicy" "ConditionTerraformPolicy \<noteq> ConditionProviderReady"
  "ConditionProviderReady \<noteq> ConditionTerraformApply" "ConditionTerraformApply \<noteq> ConditionProviderReady"
  "ConditionTerraformPlan \<noteq> ConditionTerraformPolicy" "ConditionTerraformPolicy \<noteq> ConditionTerraformPlan"
  "ConditionTerraformPlan \<noteq> ConditionTerraformApply" "ConditionTerraformApply \<noteq> ConditionTerraformPlan"
  "ConditionTerraformPolicy \<noteq> ConditionTerraformApply" "ConditionTerraformApply \<noteq> ConditionTerraformPolicy"
  by (simp_all add: condition_type_defs)

lemma stages_distinct [simp]:
  "StageTerraformApply \<noteq> StageTerraformPlan" "StageTerraformPlan \<noteq> StageTerraformApply"
  "StageTerraformApply \<noteq> StageTerraformDestroy" "StageTerraformDestroy \<noteq> StageTerraformApply"
  "StageTerraformPlan \<noteq> StageTerraformDestroy" "StageTerraformDestroy \<noteq> StageTerraformPlan"
  by (simp_all add: stage_defs)

section \<open>Connection secret keys\<close>

lemma keys_map_total: "wcs_keys_valid i ks = None \<longleftrightarrow> (\<exists>m. keys_map m0 ks = Inr m)"
proof (induction ks arbitrary: i m0)
  case (Cons k ks)
  show ?case
  proof (cases "CHR '':'' \<in> set k")
    case True
    show ?thesis
    proof (cases "length (Split k CHR '':'') = 2")
      case True2: True
      then obtain a b where "Split k CHR '':'' = [a, b]"
        by (auto simp: length_Suc_conv numeral_2_eq_2)
      with True True2 Cons.IH show ?thesis by simp
    next
      case False
      with True show ?thesis by (auto split: list.splits)
    qed
  next
    case False
    with Cons.IH show ?thesis by simp
  qed
qed simp

lemma keys_map_append:
  "keys_map m (xs @ ys) =
     (case keys_map m xs of Inl e \<Rightarrow> Inl e | Inr None \<Rightarrow> Inr None | Inr (Some m') \<Rightarrow> keys_map m' ys)"
  by (induction xs arbitrary: m) (auto split: list.splits)

lemma keys_map_not_nil: "keys_map m xs \<noteq> Inr None"
  by (induction xs arbitrary: m) (auto split: list.splits)

lemma keys_map_other:
  assumes "keys_map m xs = Inr (Some m')" and "\<forall>x \<in> set xs. \<not> HasPrefix x (k @ '':'') \<and> x \<noteq> k"
    and "CHR '':'' \<notin> set k"
  shows "m' k = m k"
  using assms
proof (induction xs arbitrary: m)
  case (Cons x xs)
  show ?case
  proof (cases "CHR '':'' \<in> set x")
    case True
    with Cons.prems(1) obtain a b where ab: "Split x CHR '':'' = [a, b]"
      and step: "keys_map (m(a \<mapsto> b)) xs = Inr (Some m')"
      by (auto split: list.splits)
    have "a \<noteq> k"
    proof
      assume "a = k"
      obtain u v where x: "x = u @ CHR '':'' # v" and u: "CHR '':'' \<notin> set u"
        using True by (metis split_list_first)
      then have "u = k" using ab \<open>a = k\<close> by (simp add: Split_append_sep)
      then have "HasPrefix x (k @ '':'')" using x by (simp add: HasPrefix_def)
      with Cons.prems(2) show False by simp
    qed
    with Cons step show ?thesis by simp
  next
    case False
    with Cons show ?thesis by auto
  qed
qed simp

end
