(* ===== verification/Api_Types.thy ===== *)
theory Api_Types
  imports Api_Configuration
begin

text \<open>
  The other resources of the API group (\<open>pkg/apis/terraform/v1alpha1\<close>): policies with their
  constraints and defaults, providers, plans, revisions, cloud resources and contexts, with
  the queries on each.
\<close>

section \<open>Constraints\<close>

record Selector =
  sel_Namespace :: "LabelSelector option"
  sel_Resource :: "LabelSelector option"

record ModuleConstraint =
  mc_Allowed :: "string list"
  mc_Selector :: "Selector option"

record ExternalSource =
  es_Configuration :: string
  es_URL :: string
  es_SecretRef :: "SecretReference option"

record ExternalCheck =
  ec_Name :: string
  ec_URL :: string
  ec_SecretRef :: "SecretReference option"

record PolicyConstraint =
  pc_Checks :: "string list"
  pc_External :: "ExternalCheck list"
  pc_Selector :: "Selector option"
  pc_SkipChecks :: "string list"
  pc_Source :: "ExternalSource option"

record Constraints =
  cn_Modules :: "ModuleConstraint option"
  cn_Checkov :: "PolicyConstraint option"

definition ExternalCheckNames :: "PolicyConstraint \<Rightarrow> string list" where
  "ExternalCheckNames p = map ec_Name (pc_External p)"

text \<open>The loop over regular expressions of \<open>Matches\<close> and \<open>IsModulesMatch\<close>.\<close>

fun any_regexp :: "Libs \<Rightarrow> string list \<Rightarrow> string \<Rightarrow> gerror + bool" where
  "any_regexp lib [] src = Inr False"
| "any_regexp lib (x # xs) src =
     (case lib_Regexp lib x of
        Inl err \<Rightarrow> Inl err
      | Inr re \<Rightarrow> if re src then Inr True else any_regexp lib xs src)"

definition ModuleConstraint_Matches :: "Libs \<Rightarrow> ModuleConstraint \<Rightarrow> string \<Rightarrow> gerror + bool" where
  "ModuleConstraint_Matches lib m src = any_regexp lib (mc_Allowed m) src"

section \<open>Policies\<close>

definition DefaultVariablesAnnotation :: string where
  "DefaultVariablesAnnotation = ''terraform.appvia.io/defaults''"

definition SkipDefaultsValidationCheck :: string where
  "SkipDefaultsValidationCheck = ''terraform.appvia.io/skip-defaults-check''"

record DefaultVariablesSelector =
  dvs_Namespace :: "LabelSelector option"
  dvs_Modules :: "string list"

definition IsLabelsMatch :: "Libs \<Rightarrow> DefaultVariablesSelector \<Rightarrow> string gomap \<Rightarrow> gerror + bool" where
  "IsLabelsMatch lib d object_labels =
     (case lib_Selector lib (dvs_Namespace d) of
        Inl err \<Rightarrow> Inl err
      | Inr m \<Rightarrow> Inr (mt_Matches m object_labels))"

definition IsModulesMatch ::
  "Libs \<Rightarrow> DefaultVariablesSelector \<Rightarrow> Configuration \<Rightarrow> gerror + bool" where
  "IsModulesMatch lib d config =
     (if length (dvs_Modules d) = 0 then Inr False
      else any_regexp lib (dvs_Modules d) (cs_Module (cfg_Spec config)))"

record DefaultVariables =
  dv_Selector :: DefaultVariablesSelector
  dv_Secrets :: "string list"
  dv_Variables :: RawExtension

definition DefaultVariables_HasVariables :: "DefaultVariables \<Rightarrow> bool" where
  "DefaultVariables_HasVariables d =
     (if length (re_Raw (dv_Variables d)) = 0 then False
      else if re_Raw (dv_Variables d) = ''{}'' then False
      else if re_Raw (dv_Variables d) = '''' then False
      else True)"

definition HasSelectors :: "DefaultVariables \<Rightarrow> bool" where
  "HasSelectors d \<longleftrightarrow>
     dvs_Namespace (dv_Selector d) \<noteq> None \<or> length (dvs_Modules (dv_Selector d)) > 0"

record PolicySpec =
  ps_Summary :: string
  ps_Constraints :: "Constraints option"
  ps_Defaults :: "DefaultVariables list"

record Policy =
  pol_Type :: TypeMeta
  pol_Meta :: ObjectMeta
  pol_Spec :: PolicySpec
  pol_Status :: CommonStatus

fun PolicyList_HasItem :: "Policy list \<Rightarrow> string \<Rightarrow> bool" where
  "PolicyList_HasItem [] name = False"
| "PolicyList_HasItem (p # ps) name =
     (if om_Name (pol_Meta p) = name then True else PolicyList_HasItem ps name)"

text \<open>A nil item list and an empty one give the same result here.\<close>

definition PolicyList_Merge :: "Policy list \<Rightarrow> Policy list \<Rightarrow> Policy list" where
  "PolicyList_Merge c items =
     (if c = [] then items
      else c @ filter (\<lambda>p. \<not> PolicyList_HasItem c (om_Name (pol_Meta p))) items)"

section \<open>Providers\<close>

definition ProviderSecretSkipChecks :: string where
  "ProviderSecretSkipChecks = ''providers.terraform.appvia.io/skip-checks''"

definition DefaultProviderAnnotation :: string where
  "DefaultProviderAnnotation = ''terranetes.appvia.io/default-provider''"

datatype ProviderType =
    AliCloudProviderType
  | AzureProviderType
  | AzureCloudStackProviderType
  | AWSProviderType
  | AzureActiveDirectoryProviderType
  | GCPProviderType
  | GoogleWorkpspaceProviderType
  | KubernetesProviderType
  | VaultProviderType
  | VSphereProviderType
  | OtherProviderType string

fun ProviderType_String :: "ProviderType \<Rightarrow> string" where
  "ProviderType_String AliCloudProviderType = ''alicloud''"
| "ProviderType_String AzureProviderType = ''azurerm''"
| "ProviderType_String AzureCloudStackProviderType = ''azurestack''"
| "ProviderType_String AWSProviderType = ''aws''"
| "ProviderType_String AzureActiveDirectoryProviderType = ''azuread''"
| "ProviderType_String GCPProviderType = ''google''"
| "ProviderType_String GoogleWorkpspaceProviderType = ''googleworkspace''"
| "ProviderType_String KubernetesProviderType = ''kubernetes''"
| "ProviderType_String VaultProviderType = ''vault''"
| "ProviderType_String VSphereProviderType = ''vsphere''"
| "ProviderType_String (OtherProviderType s) = s"

datatype SourceType = SourceSecret | SourceInjected | SourceOther string

fun SourceType_String :: "SourceType \<Rightarrow> string" where
  "SourceType_String SourceSecret = ''secret''"
| "SourceType_String SourceInjected = ''injected''"
| "SourceType_String (SourceOther s) = s"

record PreloadConfiguration =
  plc_Cluster :: string
  plc_Context :: string
  plc_Enabled :: "bool option"
  plc_Interval :: "time option"
  plc_Region :: string

definition GetIntervalOrDefault :: "PreloadConfiguration \<Rightarrow> time \<Rightarrow> time" where
  "GetIntervalOrDefault p v =
     (case plc_Interval p of None \<Rightarrow> v | Some d \<Rightarrow> if d = 0 then v else d)"

record JobMetadata =
  jm_Labels :: "string gomap"
  jm_Annotations :: "string gomap"

record ProviderSpec =
  prs_Configuration :: "RawExtension option"
  prs_BackendTemplate :: "SecretReference option"
  prs_Job :: "JobMetadata option"
  prs_Preload :: "PreloadConfiguration option"
  prs_Provider :: ProviderType
  prs_SecretRef :: "SecretReference option"
  prs_Selector :: "Selector option"
  prs_ServiceAccount :: "string option"
  prs_Source :: SourceType
  prs_Summary :: string

record ProviderStatus =
  prst_Common :: CommonStatus
  prst_LastPreloadTime :: "time option"

record Provider =
  prv_Type :: TypeMeta
  prv_Meta :: ObjectMeta
  prv_Spec :: ProviderSpec
  prv_Status :: ProviderStatus

definition JobLabels :: "Provider \<Rightarrow> string gomap" where
  "JobLabels p = (case prs_Job (prv_Spec p) of None \<Rightarrow> None | Some j \<Rightarrow> jm_Labels j)"

definition JobAnnotations :: "Provider \<Rightarrow> string gomap" where
  "JobAnnotations p = (case prs_Job (prv_Spec p) of None \<Rightarrow> None | Some j \<Rightarrow> jm_Annotations j)"

definition HasConfiguration :: "Provider \<Rightarrow> bool" where
  "HasConfiguration p =
     (case prs_Configuration (prv_Spec p) of
        None \<Rightarrow> False
      | Some v \<Rightarrow>
          if length (re_Raw v) \<le> 0 then False
          else if re_Raw v = ''{}'' then False
          else True)"

definition GetConfiguration :: "Provider \<Rightarrow> bytes" where
  "GetConfiguration p =
     (if \<not> HasConfiguration p then []
      else (case prs_Configuration (prv_Spec p) of None \<Rightarrow> [] | Some v \<Rightarrow> re_Raw v))"

definition Provider_HasBackendTemplate :: "Provider \<Rightarrow> bool" where
  "Provider_HasBackendTemplate p \<longleftrightarrow> prs_BackendTemplate (prv_Spec p) \<noteq> None"

definition IsPreloadingEnabled :: "Provider \<Rightarrow> bool" where
  "IsPreloadingEnabled p =
     (case prs_Preload (prv_Spec p) of
        None \<Rightarrow> False
      | Some pre \<Rightarrow> (case plc_Enabled pre of None \<Rightarrow> False | Some b \<Rightarrow> b))"

fun ProviderList_GetItem :: "Provider list \<Rightarrow> string \<Rightarrow> Provider option" where
  "ProviderList_GetItem [] name = None"
| "ProviderList_GetItem (p # ps) name =
     (if om_Name (prv_Meta p) = name then Some p else ProviderList_GetItem ps name)"

fun ProviderList_HasItem :: "Provider list \<Rightarrow> string \<Rightarrow> bool" where
  "ProviderList_HasItem [] name = False"
| "ProviderList_HasItem (p # ps) name =
     (if om_Name (prv_Meta p) = name then True else ProviderList_HasItem ps name)"

definition ProviderList_Merge :: "Provider list \<Rightarrow> Provider list \<Rightarrow> Provider list" where
  "ProviderList_Merge c items =
     (if c = [] then items
      else c @ filter (\<lambda>p. \<not> ProviderList_HasItem c (om_Name (prv_Meta p))) items)"

section \<open>Plans\<close>

definition PlanKind :: string where
  "PlanKind = ''Plan''"

record PlanRevision =
  plv_Name :: string
  plv_Revision :: string

record PlanStatus =
  plst_Common :: CommonStatus
  plst_Latest :: PlanRevision

record Plan =
  pln_Type :: TypeMeta
  pln_Meta :: ObjectMeta
  pln_Revisions :: "PlanRevision list"
  pln_Status :: PlanStatus

definition NewPlan :: "string \<Rightarrow> Plan" where
  "NewPlan name =
     \<lparr>pln_Type = \<lparr>tm_Kind = PlanKind, tm_APIVersion = SchemeGroupVersion\<rparr>,
      pln_Meta = named_meta [] name, pln_Revisions = [],
      pln_Status = \<lparr>plst_Common = empty_common_status,
        plst_Latest = \<lparr>plv_Name = [], plv_Revision = []\<rparr>\<rparr>\<rparr>"

definition ListRevisions :: "Plan \<Rightarrow> string list" where
  "ListRevisions c = map plv_Revision (pln_Revisions c)"

fun find_revision :: "PlanRevision list \<Rightarrow> string \<Rightarrow> PlanRevision option" where
  "find_revision [] version = None"
| "find_revision (r # rs) version =
     (if plv_Revision r = version then Some r else find_revision rs version)"

definition GetRevision :: "Plan \<Rightarrow> string \<Rightarrow> PlanRevision option" where
  "GetRevision c version = find_revision (pln_Revisions c) version"

fun has_revision :: "PlanRevision list \<Rightarrow> string \<Rightarrow> bool" where
  "has_revision [] version = False"
| "has_revision (r # rs) version =
     (if plv_Revision r = version then True else has_revision rs version)"

definition HasRevision :: "Plan \<Rightarrow> string \<Rightarrow> bool" where
  "HasRevision c version = has_revision (pln_Revisions c) version"

definition RemoveRevision :: "Plan \<Rightarrow> string \<Rightarrow> Plan" where
  "RemoveRevision c version =
     c\<lparr>pln_Revisions := filter (\<lambda>x. plv_Revision x \<noteq> version) (pln_Revisions c)\<rparr>"

section \<open>Revisions\<close>

record RevisionDefinition =
  rd_Name :: string
  rd_Description :: string
  rd_Categories :: "string list"
  rd_ChangeLog :: string
  rd_Revision :: string

record RevisionProviderDependency =
  rpd_Cloud :: string

record RevisionTerranetesDependency =
  rtd_Version :: string

record RevisionContextDependency =
  rcd_Name :: string
  rcd_Cloud :: string

record RevisionDependency =
  rdp_Context :: "RevisionContextDependency option"
  rdp_Provider :: "RevisionProviderDependency option"
  rdp_Terranetes :: "RevisionTerranetesDependency option"

record RevisionInput =
  ri_Default :: "RawExtension option"
  ri_Description :: string
  ri_Key :: string
  ri_Required :: "bool option"
  ri_Type :: "string option"

definition IsRequired :: "RevisionInput \<Rightarrow> bool" where
  "IsRequired c = (case ri_Required c of None \<Rightarrow> False | Some b \<Rightarrow> b)"

definition GetKeyName :: "RevisionInput \<Rightarrow> string" where
  "GetKeyName c = ri_Key c"

record RevisionSpec =
  rvs_Configuration :: ConfigurationSpec
  rvs_Dependencies :: "RevisionDependency list"
  rvs_Inputs :: "RevisionInput list"
  rvs_Plan :: RevisionDefinition

record RevisionStatus =
  rvst_Common :: CommonStatus
  rvst_InUse :: int

record Revision =
  rv_Type :: TypeMeta
  rv_Meta :: ObjectMeta
  rv_Spec :: RevisionSpec
  rv_Status :: RevisionStatus

fun find_input :: "RevisionInput list \<Rightarrow> string \<Rightarrow> RevisionInput option" where
  "find_input [] key = None"
| "find_input (i # is) key = (if ri_Key i = key then Some i else find_input is key)"

definition GetInput :: "RevisionSpec \<Rightarrow> string \<Rightarrow> RevisionInput option" where
  "GetInput r key = find_input (rvs_Inputs r) key"

text \<open>The result is the value (nil as \<open>None\<close>) and whether it was found.\<close>

definition GetInputDefaultValue ::
  "Libs \<Rightarrow> RevisionSpec \<Rightarrow> string \<Rightarrow> gerror + (json option \<times> bool)" where
  "GetInputDefaultValue lib r key =
     (case GetInput r key of
        None \<Rightarrow> Inr (None, False)
      | Some input \<Rightarrow>
          (case ri_Default input of
             None \<Rightarrow> Inr (None, True)
           | Some d \<Rightarrow>
               (case lib_JSONObject lib (re_Raw d) of
                  Inl err \<Rightarrow> Inl err
                | Inr vals \<Rightarrow>
                    (case vals ''value'' of
                       Some v \<Rightarrow> Inr (Some v, True)
                     | None \<Rightarrow> Inr (None, False)))))"

definition ListOfInputs :: "Revision \<Rightarrow> string list" where
  "ListOfInputs c = map ri_Key (rvs_Inputs (rv_Spec c))"

section \<open>Cloud resources\<close>

definition CloudResourceKind :: string where
  "CloudResourceKind = ''CloudResource''"

record CloudResourceSpec =
  crs_Auth :: "SecretReference option"
  crs_EnableAutoApproval :: bool
  crs_EnableDriftDetection :: bool
  crs_Plan :: PlanReference
  crs_ProviderRef :: "ProviderReference option"
  crs_WriteConnectionSecretToRef :: "WriteConnectionSecret option"
  crs_Variables :: "RawExtension option"
  crs_ValueFrom :: "ValueFromSource list"
  crs_TerraformVersion :: string

record CloudResourceStatus =
  crst_Common :: CommonStatus
  crst_ConfigurationName :: string
  crst_ConfigurationStatus :: ConfigurationStatus
  crst_Costs :: "CostStatus option"
  crst_Resources :: "int option"
  crst_ResourceStatus :: ResourceStatus
  crst_UpdateAvailable :: string

record CloudResource =
  cr_Type :: TypeMeta
  cr_Meta :: ObjectMeta
  cr_Spec :: CloudResourceSpec
  cr_Status :: CloudResourceStatus

definition CloudResource_HasVariables :: "CloudResourceSpec \<Rightarrow> bool" where
  "CloudResource_HasVariables c =
     (case crs_Variables c of
        None \<Rightarrow> False
      | Some v \<Rightarrow>
          if length (re_Raw v) \<le> 0 then False
          else if re_Raw v = ''{}'' then False
          else True)"

definition CloudResource_HasValueFrom :: "CloudResourceSpec \<Rightarrow> bool" where
  "CloudResource_HasValueFrom c \<longleftrightarrow> length (crs_ValueFrom c) > 0"

section \<open>Contexts\<close>

text \<open>\<open>ContextSpec.Variables\<close> is a map from names to raw values.\<close>

record ContextSpec =
  ctx_Variables :: "RawExtension gomap"

record Context =
  ctx_Type :: TypeMeta
  ctx_Meta :: ObjectMeta
  ctx_Spec :: ContextSpec
  ctx_Status :: CommonStatus

definition Context_HasVariables :: "ContextSpec \<Rightarrow> bool" where
  "Context_HasVariables c =
     (case ctx_Variables c of None \<Rightarrow> False | Some m \<Rightarrow> m \<noteq> Map.empty)"

definition HasVariable :: "ContextSpec \<Rightarrow> string \<Rightarrow> bool" where
  "HasVariable c name =
     (if \<not> Context_HasVariables c then False
      else (case gomap_find (ctx_Variables c) name of
              None \<Rightarrow> False
            | Some v \<Rightarrow> length (re_Raw v) > 0))"

definition GetVariableValue :: "ContextSpec \<Rightarrow> string \<Rightarrow> RawExtension option" where
  "GetVariableValue c name =
     (if \<not> HasVariable c name then None else gomap_find (ctx_Variables c) name)"

definition GetVariable :: "Libs \<Rightarrow> ContextSpec \<Rightarrow> string \<Rightarrow> gerror + json option" where
  "GetVariable lib c key =
     (if \<not> Context_HasVariables c then Inr None
      else (case gomap_find (ctx_Variables c) key of
              None \<Rightarrow> Inr None
            | Some v \<Rightarrow>
                if re_Raw v = [] then Inr None
                else (case lib_JSONObject lib (re_Raw v) of
                        Inl err \<Rightarrow> Inl err
                      | Inr vals \<Rightarrow> Inr (vals ''value''))))"

section \<open>Lookups in plans\<close>

lemma find_revision_Some: "find_revision rs v = Some r \<Longrightarrow> r \<in> set rs \<and> plv_Revision r = v"
  by (induction rs) (auto split: if_splits)

lemma find_revision_None: "find_revision rs v = None \<longleftrightarrow> v \<notin> plv_Revision ` set rs"
  by (induction rs) auto

lemma has_revision_iff: "has_revision rs v \<longleftrightarrow> v \<in> plv_Revision ` set rs"
  by (induction rs) auto

lemma PolicyList_HasItem_iff: "PolicyList_HasItem ps n \<longleftrightarrow> n \<in> (om_Name \<circ> pol_Meta) ` set ps"
  by (induction ps) auto

lemma ProviderList_HasItem_iff: "ProviderList_HasItem ps n \<longleftrightarrow> n \<in> (om_Name \<circ> prv_Meta) ` set ps"
  by (induction ps) auto

lemma GetVariableValue_nonempty:
  "GetVariableValue c name = Some v \<Longrightarrow> re_Raw v \<noteq> []"
  by (auto simp: GetVariableValue_def HasVariable_def split: if_splits option.splits)

end
