(* ===== verification/Utils.thy ===== *)
theory Utils
  imports Api_Types
begin

text \<open>
  The small utility packages (\<open>pkg/utils/slices.go\<close>, \<open>maps.go\<close>, \<open>kubernetes/labels.go\<close>,
  \<open>kubernetes/pods.go\<close>, \<open>jobs/helper.go\<close>) and the job filter (\<open>filters/jobs.go\<close>). The lemmas
  give each loop its closed form: membership, right-biased merge, the jobs a filter selects
  and the newest of them.
\<close>

section \<open>Slices\<close>

fun to_map :: "(string \<rightharpoonup> string) \<Rightarrow> string list \<Rightarrow> gerror + (string \<rightharpoonup> string)" where
  "to_map m [] = Inr m"
| "to_map m (item # items) =
     (if item = [] then Inl (ErrMsg ''empty string found in slice'')
      else (case Split item CHR ''='' of
              [a, b] \<Rightarrow> to_map (m(a \<mapsto> b)) items
            | _ \<Rightarrow> Inl (ErrMsg ''invalid key=value pair found in slice'')))"

definition ToMap :: "string list \<Rightarrow> gerror + (string \<rightharpoonup> string)" where
  "ToMap slice = to_map Map.empty slice"

text \<open>\<open>slice[:max]\<close> panics on a negative bound.\<close>

definition MaxChars :: "string \<Rightarrow> int \<Rightarrow> string go" where
  "MaxChars slice mx =
     (if length slice = 0 then Ok []
      else if int (length slice) \<le> mx then Ok slice
      else if mx < 0 then Panic
      else Ok (take (nat mx) slice))"

fun ContainsPrefix :: "string \<Rightarrow> string list \<Rightarrow> bool" where
  "ContainsPrefix v [] = False"
| "ContainsPrefix v (x # xs) = (if HasPrefix v x then True else ContainsPrefix v xs)"

fun Contains :: "string \<Rightarrow> string list \<Rightarrow> bool" where
  "Contains v [] = False"
| "Contains v (x # xs) = (if v = x then True else Contains v xs)"

fun ContainsList :: "string list \<Rightarrow> string list \<Rightarrow> bool" where
  "ContainsList [] l = False"
| "ContainsList (x # xs) l = (if Contains x l then True else ContainsList xs l)"

definition Sorted :: "string list \<Rightarrow> string list" where
  "Sorted slice = sort slice"

fun unique :: "string list \<Rightarrow> string list \<Rightarrow> string list" where
  "unique list [] = list"
| "unique list (item # items) =
     (if \<not> Contains item list then unique (list @ [item]) items else unique list items)"

definition Unique :: "string list \<Rightarrow> string list" where
  "Unique slice = unique [] slice"

lemma Contains_iff [simp]: "Contains v l \<longleftrightarrow> v \<in> set l"
  by (induction l) auto

lemma ContainsList_iff: "ContainsList v l \<longleftrightarrow> set v \<inter> set l \<noteq> {}"
  by (induction v) auto

lemma ContainsPrefix_iff: "ContainsPrefix v l \<longleftrightarrow> (\<exists>x \<in> set l. HasPrefix v x)"
  by (induction l) auto

lemma unique_distinct: "distinct l \<Longrightarrow> distinct (unique l xs)"
  by (induction l xs rule: unique.induct) auto

lemma unique_set: "set (unique l xs) = set l \<union> set xs"
  by (induction l xs rule: unique.induct) auto

section \<open>Maps\<close>

text \<open>One map assigned over another: entries with an empty key and an empty value are skipped.\<close>

definition merge_into :: "(string \<rightharpoonup> string) \<Rightarrow> string gomap \<Rightarrow> (string \<rightharpoonup> string)" where
  "merge_into m x =
     (\<lambda>k. case gomap_find x k of
            None \<Rightarrow> m k
          | Some v \<Rightarrow> if k = [] \<and> v = [] then m k else Some v)"

fun merge_all :: "(string \<rightharpoonup> string) \<Rightarrow> string gomap list \<Rightarrow> (string \<rightharpoonup> string)" where
  "merge_all m [] = m"
| "merge_all m (x # xs) = merge_all (merge_into m x) xs"

definition MergeStringMaps :: "string gomap list \<Rightarrow> string gomap" where
  "MergeStringMaps list = Some (merge_all Map.empty list)"

lemma merge_all_append [simp]: "merge_all m (xs @ ys) = merge_all (merge_all m xs) ys"
  by (induction xs arbitrary: m) auto

lemma merge_all_last:
  "k \<noteq> [] \<Longrightarrow> gomap_find x k = Some v \<Longrightarrow> merge_all m (xs @ [x]) k = Some v"
  by (simp add: merge_into_def)

lemma merge_all_absent:
  "\<forall>x \<in> set xs. gomap_find x k = None \<Longrightarrow> merge_all m xs k = m k"
  by (induction xs arbitrary: m) (auto simp: merge_into_def)

lemma merge_all_skip_last:
  "gomap_find x k = None \<Longrightarrow> merge_all m (xs @ [x]) k = merge_all m xs k"
  by (simp add: merge_into_def)

section \<open>Label selectors\<close>

definition IsLabelSelectorMatch :: "Libs \<Rightarrow> string gomap \<Rightarrow> LabelSelector \<Rightarrow> gerror + bool" where
  "IsLabelSelectorMatch lib source selector =
     (case lib_Selector lib (Some selector) of
        Inl err \<Rightarrow> Inl err
      | Inr matcher \<Rightarrow> if mt_Empty matcher then Inr False else Inr (mt_Matches matcher source))"

definition IsSelectorMatch ::
  "Libs \<Rightarrow> Selector \<Rightarrow> string gomap \<Rightarrow> string gomap \<Rightarrow> gerror + bool" where
  "IsSelectorMatch lib selector resourceLabels namespaceLabels =
     (if sel_Namespace selector = None \<and> sel_Resource selector = None then Inr True
      else
        let rest = (case sel_Resource selector of
                      None \<Rightarrow> Inr True
                    | Some r \<Rightarrow> IsLabelSelectorMatch lib resourceLabels r)
        in (case sel_Namespace selector of
              None \<Rightarrow> rest
            | Some n \<Rightarrow>
                (case IsLabelSelectorMatch lib namespaceLabels n of
                   Inl err \<Rightarrow> Inl err
                 | Inr match \<Rightarrow> if \<not> match then Inr False else rest)))"

section \<open>Jobs and pods\<close>

text \<open>The status reads of \<open>jobs/helper.go\<close>; the names carry the package, since conditions of
  resources have methods of the same names.\<close>

fun has_job_condition :: "JobConditionType \<Rightarrow> JobCondition list \<Rightarrow> bool" where
  "has_job_condition t [] = False"
| "has_job_condition t (c # cs) =
     (if jc_Type c = t \<and> jc_Status c = ConditionTrue then True else has_job_condition t cs)"

definition jobs_IsFailed :: "Job \<Rightarrow> bool" where
  "jobs_IsFailed job = has_job_condition JobFailed (job_Conditions job)"

definition jobs_IsComplete :: "Job \<Rightarrow> bool" where
  "jobs_IsComplete job = has_job_condition JobComplete (job_Conditions job)"

definition jobs_IsActive :: "Job \<Rightarrow> bool" where
  "jobs_IsActive job \<longleftrightarrow> \<not> jobs_IsComplete job \<and> \<not> jobs_IsFailed job"

fun latest_pod :: "Pod option \<Rightarrow> Pod list \<Rightarrow> Pod option" where
  "latest_pod latest [] = latest"
| "latest_pod latest (p # ps) =
     (case latest of
        None \<Rightarrow> latest_pod (Some p) ps
      | Some l \<Rightarrow>
          if om_CreationTimestamp (pod_Meta p) > om_CreationTimestamp (pod_Meta l)
          then latest_pod (Some p) ps else latest_pod latest ps)"

definition FindLatestPod :: "Pod list \<Rightarrow> Pod option" where
  "FindLatestPod list = latest_pod None list"

lemma latest_pod_None: "latest_pod None ps = None \<longleftrightarrow> ps = []"
proof -
  have "latest_pod (Some l) xs \<noteq> None" for l xs
    by (induction xs arbitrary: l) auto
  then show ?thesis by (cases ps) auto
qed

section \<open>The job filter\<close>

record JobFilter =
  jf_namespace :: string
  jf_name :: string
  jf_generation :: string
  jf_uid :: string
  jf_list :: "Job list"
  jf_labels :: "(string \<times> string) list"
  jf_stage :: string

definition Jobs :: "Job list \<Rightarrow> JobFilter" where
  "Jobs list = \<lparr>jf_namespace = [], jf_name = [], jf_generation = [], jf_uid = [],
     jf_list = list, jf_labels = [], jf_stage = []\<rparr>"

definition WithName :: "string \<Rightarrow> JobFilter \<Rightarrow> JobFilter" where
  "WithName name j = j\<lparr>jf_name := name\<rparr>"

text \<open>The map assignment \<open>j.labels[name] = value\<close> on an association list.\<close>

definition WithLabel :: "string \<Rightarrow> string \<Rightarrow> JobFilter \<Rightarrow> JobFilter" where
  "WithLabel name v j =
     (if v = [] then j
      else j\<lparr>jf_labels := filter (\<lambda>kv. fst kv \<noteq> name) (jf_labels j) @ [(name, v)]\<rparr>)"

definition WithNamespace :: "string \<Rightarrow> JobFilter \<Rightarrow> JobFilter" where
  "WithNamespace namespace j = j\<lparr>jf_namespace := namespace\<rparr>"

definition WithStage :: "string \<Rightarrow> JobFilter \<Rightarrow> JobFilter" where
  "WithStage stage j = j\<lparr>jf_stage := stage\<rparr>"

definition WithGeneration :: "string \<Rightarrow> JobFilter \<Rightarrow> JobFilter" where
  "WithGeneration generation j = j\<lparr>jf_generation := generation\<rparr>"

definition WithUID :: "string \<Rightarrow> JobFilter \<Rightarrow> JobFilter" where
  "WithUID uid j = j\<lparr>jf_uid := uid\<rparr>"

definition missing_label :: "string gomap \<Rightarrow> (string \<times> string) list \<Rightarrow> bool" where
  "missing_label labels kvs = list_ex (\<lambda>kv. gomap_get labels (fst kv) \<noteq> snd kv) kvs"

text \<open>One iteration of the loop of \<open>List\<close>: whether the job is kept.\<close>

definition filter_keeps :: "JobFilter \<Rightarrow> Job \<Rightarrow> bool" where
  "filter_keeps j job =
     (let labels = om_Labels (job_Meta job) in
      if labels = None then False
      else if jf_namespace j \<noteq> [] \<and> gomap_get labels ConfigurationNamespaceLabel \<noteq> jf_namespace j
      then False
      else if jf_name j \<noteq> [] \<and> gomap_get labels ConfigurationNameLabel \<noteq> jf_name j then False
      else if jf_stage j \<noteq> [] \<and> gomap_get labels ConfigurationStageLabel \<noteq> jf_stage j then False
      else if jf_generation j \<noteq> [] \<and>
              gomap_get labels ConfigurationGenerationLabel \<noteq> jf_generation j
      then False
      else if jf_uid j \<noteq> [] \<and> gomap_get labels ConfigurationUIDLabel \<noteq> jf_uid j then False
      else if length (jf_labels j) > 0 \<and> missing_label labels (jf_labels j) then False
      else True)"

text \<open>\<open>List\<close> returns the kept jobs and whether there is one.\<close>

definition Filter_List :: "JobFilter \<Rightarrow> Job list \<times> bool" where
  "Filter_List j = (let list = filter (filter_keeps j) (jf_list j) in (list, length list > 0))"

fun count_active :: "Job list \<Rightarrow> nat" where
  "count_active [] = 0"
| "count_active (job # jobs) = (if job_Active job > 0 then Suc (count_active jobs) else count_active jobs)"

definition IsRunning :: "JobFilter \<Rightarrow> nat" where
  "IsRunning j =
     (case Filter_List j of (list, found) \<Rightarrow> if \<not> found then 0 else count_active list)"

fun latest_job :: "Job \<Rightarrow> Job list \<Rightarrow> Job" where
  "latest_job latest [] = latest"
| "latest_job latest (job # jobs) =
     (if om_CreationTimestamp (job_Meta job) > om_CreationTimestamp (job_Meta latest)
      then latest_job job jobs else latest_job latest jobs)"

definition Latest :: "JobFilter \<Rightarrow> Job option" where
  "Latest j =
     (case Filter_List j of
        (list, found) \<Rightarrow>
          if \<not> found then None
          else (case list of [] \<Rightarrow> None | first # _ \<Rightarrow> Some (latest_job first list)))"

text \<open>\<open>Filter.String\<close>; the labels print in the order of one iteration of the map.\<close>

definition Filter_String :: "JobFilter \<Rightarrow> string" where
  "Filter_String j = Join
     ((if jf_namespace j \<noteq> [] then [''namespace='' @ jf_namespace j] else []) @
      (if jf_generation j \<noteq> [] then [''generation='' @ jf_generation j] else []) @
      (if jf_stage j \<noteq> [] then [''stage='' @ jf_stage j] else []) @
      (if jf_name j \<noteq> [] then [''name='' @ jf_name j] else []) @
      (if jf_uid j \<noteq> [] then [''uid='' @ jf_uid j] else []) @
      map (\<lambda>kv. ''label='' @ fst kv @ '':'' @ snd kv) (jf_labels j)) '',''"

lemmas filter_builders = Jobs_def WithName_def WithLabel_def WithNamespace_def WithStage_def
  WithGeneration_def WithUID_def

lemma latest_job_in: "latest_job l js = l \<or> latest_job l js \<in> set js"
  by (induction js arbitrary: l) (auto split: if_splits)

lemma latest_job_max:
  "x \<in> insert l (set js) \<Longrightarrow>
   om_CreationTimestamp (job_Meta x) \<le> om_CreationTimestamp (job_Meta (latest_job l js))"
proof (induction js arbitrary: l x)
  case (Cons j js)
  show ?case
  proof (cases "om_CreationTimestamp (job_Meta j) > om_CreationTimestamp (job_Meta l)")
    case True
    with Cons.prems Cons.IH [of _ j] show ?thesis
      by (cases "x = l") (auto intro: order_trans [OF less_imp_le])
  next
    case False
    then have le: "om_CreationTimestamp (job_Meta j) \<le> om_CreationTimestamp (job_Meta l)" by simp
    have "om_CreationTimestamp (job_Meta l) \<le> om_CreationTimestamp (job_Meta (latest_job l js))"
      using Cons.IH [of l l] by simp
    with le have "om_CreationTimestamp (job_Meta j) \<le> om_CreationTimestamp (job_Meta (latest_job l js))"
      by (rule order_trans)
    with False Cons.prems Cons.IH [of x l] show ?thesis by auto
  qed
qed simp

lemma Latest_None: "Latest j = None \<longleftrightarrow> (\<forall>job \<in> set (jf_list j). \<not> filter_keeps j job)"
  by (auto simp: Latest_def Filter_List_def Let_def filter_empty_conv split: list.splits)

lemma Latest_Some:
  assumes "Latest j = Some job"
  shows "job \<in> set (jf_list j)" and "filter_keeps j job"
    and "\<forall>x \<in> set (jf_list j). filter_keeps j x \<longrightarrow>
           om_CreationTimestamp (job_Meta x) \<le> om_CreationTimestamp (job_Meta job)"
proof -
  obtain first rest where f: "filter (filter_keeps j) (jf_list j) = first # rest"
    and job: "job = latest_job first (first # rest)"
    using assms by (auto simp: Latest_def Filter_List_def Let_def split: list.splits if_splits)
  have "job \<in> set (first # rest)" using latest_job_in [of first "first # rest"] job by auto
  then have "job \<in> set (filter (filter_keeps j) (jf_list j))" by (simp add: f)
  then show "job \<in> set (jf_list j)" "filter_keeps j job" by auto
  show "\<forall>x \<in> set (jf_list j). filter_keeps j x \<longrightarrow>
      om_CreationTimestamp (job_Meta x) \<le> om_CreationTimestamp (job_Meta job)"
  proof (intro ballI impI)
    fix x assume "x \<in> set (jf_list j)" "filter_keeps j x"
    then have "x \<in> set (filter (filter_keeps j) (jf_list j))" by simp
    then have "x \<in> set (first # rest)" by (simp only: f)
    then show "om_CreationTimestamp (job_Meta x) \<le> om_CreationTimestamp (job_Meta job)"
      using latest_job_max [of x first "first # rest"] job by simp
  qed
qed

lemma IsRunning_eq:
  "IsRunning j = length (filter (\<lambda>job. filter_keeps j job \<and> job_Active job > 0) (jf_list j))"
proof -
  have c: "count_active js = length (filter (\<lambda>job. job_Active job > 0) js)" for js
    by (induction js) auto
  show ?thesis
    by (simp add: IsRunning_def Filter_List_def Let_def c filter_empty_conv conj_commute)
qed

end
