(* ===== verification/Cluster.thy ===== *)
theory Cluster
  imports Utils
begin

text \<open>
  The cluster as the controllers see it. The Kubernetes client, the clock, the pod log
  endpoint and the namespace cache are third-party code: the record \<open>client\<close> holds them as
  functions on an arbitrary world, and every theorem of the development holds for all of
  them. A run keeps the world, the log of its effects, the resource under reconciliation and
  the private state of the handler in the record \<open>env\<close>. The theory models the helpers of
  \<open>pkg/utils/kubernetes\<close> on top of the client and gives each its rule of symbolic execution.
\<close>

section \<open>Objects\<close>

datatype kind =
    KSecret | KConfigMap | KNamespace | KJob | KConfiguration | KPolicy | KProvider | KPlan
  | KRevision | KCloudResource | KContext

text \<open>\<open>client.Object\<close>: the kinds of objects the controllers handle.\<close>

datatype object =
    OSecret Secret
  | OConfigMap ConfigMap
  | ONamespace Namespace
  | OJob Job
  | OConfiguration Configuration
  | OPolicy Policy
  | OProvider Provider
  | OPlan Plan
  | ORevision Revision
  | OCloudResource CloudResource
  | OContext Context

fun kind_of :: "object \<Rightarrow> kind" where
  "kind_of (OSecret _) = KSecret"
| "kind_of (OConfigMap _) = KConfigMap"
| "kind_of (ONamespace _) = KNamespace"
| "kind_of (OJob _) = KJob"
| "kind_of (OConfiguration _) = KConfiguration"
| "kind_of (OPolicy _) = KPolicy"
| "kind_of (OProvider _) = KProvider"
| "kind_of (OPlan _) = KPlan"
| "kind_of (ORevision _) = KRevision"
| "kind_of (OCloudResource _) = KCloudResource"
| "kind_of (OContext _) = KContext"

fun meta_of :: "object \<Rightarrow> ObjectMeta" where
  "meta_of (OSecret x) = sec_Meta x"
| "meta_of (OConfigMap x) = cm_Meta x"
| "meta_of (ONamespace x) = ns_Meta x"
| "meta_of (OJob x) = job_Meta x"
| "meta_of (OConfiguration x) = cfg_Meta x"
| "meta_of (OPolicy x) = pol_Meta x"
| "meta_of (OProvider x) = prv_Meta x"
| "meta_of (OPlan x) = pln_Meta x"
| "meta_of (ORevision x) = rv_Meta x"
| "meta_of (OCloudResource x) = cr_Meta x"
| "meta_of (OContext x) = ctx_Meta x"

fun set_meta :: "ObjectMeta \<Rightarrow> object \<Rightarrow> object" where
  "set_meta m (OSecret x) = OSecret (x\<lparr>sec_Meta := m\<rparr>)"
| "set_meta m (OConfigMap x) = OConfigMap (x\<lparr>cm_Meta := m\<rparr>)"
| "set_meta m (ONamespace x) = ONamespace (x\<lparr>ns_Meta := m\<rparr>)"
| "set_meta m (OJob x) = OJob (x\<lparr>job_Meta := m\<rparr>)"
| "set_meta m (OConfiguration x) = OConfiguration (x\<lparr>cfg_Meta := m\<rparr>)"
| "set_meta m (OPolicy x) = OPolicy (x\<lparr>pol_Meta := m\<rparr>)"
| "set_meta m (OProvider x) = OProvider (x\<lparr>prv_Meta := m\<rparr>)"
| "set_meta m (OPlan x) = OPlan (x\<lparr>pln_Meta := m\<rparr>)"
| "set_meta m (ORevision x) = ORevision (x\<lparr>rv_Meta := m\<rparr>)"
| "set_meta m (OCloudResource x) = OCloudResource (x\<lparr>cr_Meta := m\<rparr>)"
| "set_meta m (OContext x) = OContext (x\<lparr>ctx_Meta := m\<rparr>)"

text \<open>
  Decoding an object into a Go struct of its kind. A response of another kind is a decoding
  error of the client.
\<close>

fun as_Secret :: "object \<Rightarrow> Secret option" where
  "as_Secret (OSecret x) = Some x" | "as_Secret _ = None"

fun as_ConfigMap :: "object \<Rightarrow> ConfigMap option" where
  "as_ConfigMap (OConfigMap x) = Some x" | "as_ConfigMap _ = None"

fun as_Namespace :: "object \<Rightarrow> Namespace option" where
  "as_Namespace (ONamespace x) = Some x" | "as_Namespace _ = None"

fun as_Job :: "object \<Rightarrow> Job option" where
  "as_Job (OJob x) = Some x" | "as_Job _ = None"

fun as_Configuration :: "object \<Rightarrow> Configuration option" where
  "as_Configuration (OConfiguration x) = Some x" | "as_Configuration _ = None"

fun as_Policy :: "object \<Rightarrow> Policy option" where
  "as_Policy (OPolicy x) = Some x" | "as_Policy _ = None"

fun as_Provider :: "object \<Rightarrow> Provider option" where
  "as_Provider (OProvider x) = Some x" | "as_Provider _ = None"

fun as_Plan :: "object \<Rightarrow> Plan option" where
  "as_Plan (OPlan x) = Some x" | "as_Plan _ = None"

fun as_Revision :: "object \<Rightarrow> Revision option" where
  "as_Revision (ORevision x) = Some x" | "as_Revision _ = None"

fun as_CloudResource :: "object \<Rightarrow> CloudResource option" where
  "as_CloudResource (OCloudResource x) = Some x" | "as_CloudResource _ = None"

fun as_Context :: "object \<Rightarrow> Context option" where
  "as_Context (OContext x) = Some x" | "as_Context _ = None"

definition decode_error :: gerror where
  "decode_error = ErrMsg ''unable to decode the response into the object''"

section \<open>The client\<close>

text \<open>The writes; a patch carries the original of \<open>client.MergeFrom\<close>.\<close>

datatype verb = Create | Update | Patch object | StatusPatch object | Delete

datatype list_option = InNamespace string | MatchingLabels "(string \<times> string) list"

record 'w client =
  cc_Get :: "kind \<Rightarrow> string \<Rightarrow> string \<Rightarrow> 'w \<Rightarrow> (gerror + object) \<times> 'w"
  cc_List :: "kind \<Rightarrow> list_option list \<Rightarrow> 'w \<Rightarrow> (gerror + object list) \<times> 'w"
  cc_Write :: "verb \<Rightarrow> object \<Rightarrow> 'w \<Rightarrow> (gerror + object) \<times> 'w"
  cc_Now :: "'w \<Rightarrow> time"
  kc_Pods :: "string \<Rightarrow> string \<Rightarrow> 'w \<Rightarrow> (gerror + Pod list) \<times> 'w"
  kc_Logs :: "string \<Rightarrow> string \<Rightarrow> string \<Rightarrow> 'w \<Rightarrow> (gerror + string) \<times> 'w"
  cache_Get :: "string \<Rightarrow> 'w \<Rightarrow> Namespace option \<times> 'w"
  cache_SetDefault :: "string \<Rightarrow> Namespace \<Rightarrow> 'w \<Rightarrow> 'w"

text \<open>
  The effects of a run, in order: attempted writes with their outcome (\<open>None\<close> for success),
  events, gauges set and counters incremented. The reads that \<open>GetIfExists\<close> answered with ``not found'' are kept
  apart, in \<open>absent\<close>: no code reads that list, it only lets theorems speak of what a run saw.
\<close>

datatype effect =
    Wrote verb object "gerror option"
  | Event object EventType string string
  | SetGauge string "string list" rat
  | IncCounter string

record ('w, 'o, 't) env =
  world :: 'w
  effects :: "effect list"
  absent :: "(kind \<times> string \<times> string) list"
  resource :: 'o
  rstate :: 't

type_synonym ('w, 'o, 't, 'a) prog = "(('w, 'o, 't) env, 'a) state"

text \<open>An \<open>EnsureFunc\<close>.\<close>

type_synonym ('w, 'o, 't) ensure = "(('w, 'o, 't) env, Result go) state"

definition error_of :: "gerror + 'a \<Rightarrow> gerror option" where
  "error_of r = (case r of Inl e \<Rightarrow> Some e | Inr _ \<Rightarrow> None)"

definition request :: "('w \<Rightarrow> 'a \<times> 'w) \<Rightarrow> ('w, 'o, 't, 'a) prog" where
  "request f = State (\<lambda>s. case f (world s) of (r, w) \<Rightarrow> (r, s\<lparr>world := w\<rparr>))"

definition record_effect :: "effect \<Rightarrow> ('w, 'o, 't, unit) prog" where
  "record_effect e = update (\<lambda>s. s\<lparr>effects := effects s @ [e]\<rparr>)"

definition record_absent :: "kind \<Rightarrow> string \<Rightarrow> string \<Rightarrow> ('w, 'o, 't, unit) prog" where
  "record_absent k namespace name = update (\<lambda>s. s\<lparr>absent := absent s @ [(k, namespace, name)]\<rparr>)"

definition perform :: "'w client \<Rightarrow> verb \<Rightarrow> object \<Rightarrow> ('w, 'o, 't, gerror + object) prog" where
  "perform cc v x =
     do { r \<leftarrow> request (cc_Write cc v x);
          record_effect (Wrote v x (error_of r));
          State_Monad.return r }"

definition modify_resource :: "('o \<Rightarrow> 'o) \<Rightarrow> ('w, 'o, 't, unit) prog" where
  "modify_resource f = update (\<lambda>s. s\<lparr>resource := f (resource s)\<rparr>)"

definition modify_state :: "('t \<Rightarrow> 't) \<Rightarrow> ('w, 'o, 't, unit) prog" where
  "modify_state f = update (\<lambda>s. s\<lparr>rstate := f (rstate s)\<rparr>)"

section \<open>Helpers on the client\<close>

text \<open>\<open>kubernetes.GetIfExists\<close> and \<open>kubernetes.GetSecretIfExists\<close> (\<open>get.go\<close>)\<close>

definition GetIfExists ::
  "'w client \<Rightarrow> kind \<Rightarrow> (object \<Rightarrow> 'a option) \<Rightarrow> string \<Rightarrow> string \<Rightarrow>
   ('w, 'o, 't, gerror + 'a option) prog" where
  "GetIfExists cc k as namespace name =
     do { r \<leftarrow> request (cc_Get cc k namespace name);
          case r of
            Inl err \<Rightarrow>
              if \<not> IsNotFound err then State_Monad.return (Inl err)
              else do { record_absent k namespace name; State_Monad.return (Inr None) }
          | Inr x \<Rightarrow>
              State_Monad.return (case as x of Some a \<Rightarrow> Inr (Some a) | None \<Rightarrow> Inl decode_error) }"

definition GetSecretIfExists ::
  "'w client \<Rightarrow> string \<Rightarrow> string \<Rightarrow> ('w, 'o, 't, gerror + Secret option) prog" where
  "GetSecretIfExists cc namespace name = GetIfExists cc KSecret as_Secret namespace name"

text \<open>\<open>cc.List\<close> into a list of one kind.\<close>

definition list_objects ::
  "'w client \<Rightarrow> kind \<Rightarrow> (object \<Rightarrow> 'a option) \<Rightarrow> list_option list \<Rightarrow>
   ('w, 'o, 't, gerror + 'a list) prog" where
  "list_objects cc k as opts =
     do { r \<leftarrow> request (cc_List cc k opts);
          State_Monad.return
            (case r of
               Inl err \<Rightarrow> Inl err
             | Inr xs \<Rightarrow> (if list_all (\<lambda>x. as x \<noteq> None) xs then Inr (List.map_filter as xs)
                          else Inl decode_error)) }"

text \<open>\<open>kubernetes.DeleteIfExists\<close> (\<open>delete.go\<close>)\<close>

definition DeleteIfExists :: "'w client \<Rightarrow> object \<Rightarrow> ('w, 'o, 't, gerror option) prog" where
  "DeleteIfExists cc x =
     do { r \<leftarrow> perform cc Delete x;
          State_Monad.return
            (case r of
               Inl err \<Rightarrow> if \<not> IsNotFound err then Some err else None
             | Inr _ \<Rightarrow> None) }"

text \<open>\<open>kubernetes.CreateOrForceUpdate\<close> and \<open>kubernetes.CreateOrPatch\<close> (\<open>update.go\<close>)\<close>

definition CreateOrForceUpdate :: "'w client \<Rightarrow> object \<Rightarrow> ('w, 'o, 't, gerror option) prog" where
  "CreateOrForceUpdate cc x =
     do { r \<leftarrow> GetIfExists cc (kind_of x) Some (om_Namespace (meta_of x)) (om_Name (meta_of x));
          case r of
            Inl err \<Rightarrow> State_Monad.return (Some err)
          | Inr None \<Rightarrow> do { w \<leftarrow> perform cc Create x; State_Monad.return (error_of w) }
          | Inr (Some current) \<Rightarrow>
              do { w \<leftarrow> perform cc Update
                     (set_meta ((meta_of x)
                        \<lparr>om_ResourceVersion := om_ResourceVersion (meta_of current)\<rparr>) x);
                   State_Monad.return (error_of w) } }"

definition CreateOrPatch :: "'w client \<Rightarrow> object \<Rightarrow> ('w, 'o, 't, gerror option) prog" where
  "CreateOrPatch cc x =
     do { r \<leftarrow> GetIfExists cc (kind_of x) Some (om_Namespace (meta_of x)) (om_Name (meta_of x));
          case r of
            Inl err \<Rightarrow> State_Monad.return (Some err)
          | Inr None \<Rightarrow> do { w \<leftarrow> perform cc Create x; State_Monad.return (error_of w) }
          | Inr (Some current) \<Rightarrow>
              do { w \<leftarrow> perform cc (Patch current) x; State_Monad.return (error_of w) } }"

section \<open>Symbolic execution\<close>

lemma wp_request [wp_simps]:
  "wp (request f) Q s = Q (fst (f (world s))) (s\<lparr>world := snd (f (world s))\<rparr>)"
  by (simp add: request_def wp_def split: prod.splits)

lemma wp_record_effect [simp, wp_simps]:
  "wp (record_effect e) Q s = Q () (s\<lparr>effects := effects s @ [e]\<rparr>)"
  by (simp add: record_effect_def)

lemma wp_record_absent [simp, wp_simps]:
  "wp (record_absent k ns n) Q s = Q () (s\<lparr>absent := absent s @ [(k, ns, n)]\<rparr>)"
  by (simp add: record_absent_def)

lemma wp_modify_resource [simp, wp_simps]:
  "wp (modify_resource f) Q s = Q () (s\<lparr>resource := f (resource s)\<rparr>)"
  by (simp add: modify_resource_def)

lemma wp_modify_state [simp, wp_simps]:
  "wp (modify_state f) Q s = Q () (s\<lparr>rstate := f (rstate s)\<rparr>)"
  by (simp add: modify_state_def)

text \<open>
  Rules for an arbitrary client: a read may return anything and change the world, a write
  may in addition log its outcome.
\<close>

named_theorems any_client \<open>rules that hold whatever the client answers\<close>

lemma wp_request_any [any_client]: "(\<And>r w. Q r (s\<lparr>world := w\<rparr>)) \<Longrightarrow> wp (request f) Q s"
  by (simp add: wp_request)

lemma wp_perform_any [any_client]:
  assumes "\<And>r w. Q r (s\<lparr>world := w, effects := effects s @ [Wrote v x (error_of r)]\<rparr>)"
  shows "wp (perform cc v x) Q s"
  using assms by (simp add: perform_def wp_request)

lemma wp_GetIfExists_any [any_client]:
  assumes "\<And>r w a. (r = Inr None \<longrightarrow> (k, ns, n) \<in> set a) \<Longrightarrow> Q r (s\<lparr>world := w, absent := a\<rparr>)"
  shows "wp (GetIfExists cc k as ns n) Q s"
proof -
  have "Q r (s\<lparr>world := w\<rparr>)" if "r \<noteq> Inr None" for r w
    using assms [of r "absent s" w] that by simp
  then show ?thesis
    using assms by (auto simp: GetIfExists_def wp_request split: sum.splits option.splits)
qed

lemma wp_list_objects_any [any_client]:
  "(\<And>r w. Q r (s\<lparr>world := w\<rparr>)) \<Longrightarrow> wp (list_objects cc k as opts) Q s"
  by (simp add: list_objects_def wp_request)

text \<open>
  Predicates on the environment that do not look at the world are kept by every read, and by
  every write when they tolerate the logged effect.
\<close>

definition worldless :: "(('w, 'o, 't) env \<Rightarrow> bool) \<Rightarrow> bool" where
  "worldless I \<longleftrightarrow> (\<forall>s w. I s \<longrightarrow> I (s\<lparr>world := w\<rparr>))"

definition missless :: "(('w, 'o, 't) env \<Rightarrow> bool) \<Rightarrow> bool" where
  "missless I \<longleftrightarrow> (\<forall>s a. I s \<longrightarrow> I (s\<lparr>absent := a\<rparr>))"

lemma keeps_record_absent [keeps_intros]: "missless I \<Longrightarrow> keeps I (record_absent k ns n)"
  by (simp add: record_absent_def keeps_update missless_def)

lemma keeps_request [keeps_intros]: "worldless I \<Longrightarrow> keeps I (request f)"
  by (auto simp: keeps_def request_def worldless_def split: prod.splits)

lemma keeps_record_effect:
  "(\<And>s. I s \<Longrightarrow> I (s\<lparr>effects := effects s @ [e]\<rparr>)) \<Longrightarrow> keeps I (record_effect e)"
  by (simp add: record_effect_def keeps_update)

lemma keeps_modify_resource:
  "(\<And>s. I s \<Longrightarrow> I (s\<lparr>resource := f (resource s)\<rparr>)) \<Longrightarrow> keeps I (modify_resource f)"
  by (simp add: modify_resource_def keeps_update)

lemma keeps_modify_state:
  "(\<And>s. I s \<Longrightarrow> I (s\<lparr>rstate := f (rstate s)\<rparr>)) \<Longrightarrow> keeps I (modify_state f)"
  by (simp add: modify_state_def keeps_update)

lemma keeps_perform:
  assumes "worldless I" and "\<And>s r. I s \<Longrightarrow> I (s\<lparr>effects := effects s @ [Wrote v x r]\<rparr>)"
  shows "keeps I (perform cc v x)"
  unfolding perform_def
  by (intro keeps_bind keeps_request keeps_record_effect keeps_return assms)

lemma keeps_GetIfExists [keeps_intros]:
  "worldless I \<Longrightarrow> missless I \<Longrightarrow> keeps I (GetIfExists cc k as ns n)"
  unfolding GetIfExists_def by (intro keeps_intros)

lemma keeps_GetSecretIfExists [keeps_intros]:
  "worldless I \<Longrightarrow> missless I \<Longrightarrow> keeps I (GetSecretIfExists cc ns n)"
  unfolding GetSecretIfExists_def by (intro keeps_intros)

lemma keeps_list_objects [keeps_intros]:
  "worldless I \<Longrightarrow> keeps I (list_objects cc k as opts)"
  unfolding list_objects_def by (intro keeps_intros)

lemma keeps_DeleteIfExists:
  assumes "worldless I" and "\<And>s r. I s \<Longrightarrow> I (s\<lparr>effects := effects s @ [Wrote Delete x r]\<rparr>)"
  shows "keeps I (DeleteIfExists cc x)"
  unfolding DeleteIfExists_def
  by (intro keeps_bind keeps_perform keeps_return assms)

lemma as_Configuration_eq: "as_Configuration x = Some y \<Longrightarrow> x = OConfiguration y"
  by (cases x) simp_all

lemma as_Revision_eq: "as_Revision x = Some y \<Longrightarrow> x = ORevision y"
  by (cases x) simp_all

lemma as_CloudResource_eq: "as_CloudResource x = Some y \<Longrightarrow> x = OCloudResource y"
  by (cases x) simp_all

lemma as_Plan_eq: "as_Plan x = Some y \<Longrightarrow> x = OPlan y"
  by (cases x) simp_all

lemma as_Secret_eq: "as_Secret x = Some y \<Longrightarrow> x = OSecret y"
  by (cases x) simp_all

lemma as_Provider_eq: "as_Provider x = Some y \<Longrightarrow> x = OProvider y"
  by (cases x) simp_all

text \<open>Metadata access by kind.\<close>

lemma meta_set_meta [simp]: "meta_of (set_meta m x) = m"
  by (cases x) simp_all

lemma kind_set_meta [simp]: "kind_of (set_meta m x) = kind_of x"
  by (cases x) simp_all

lemma keeps_CreateOrForceUpdate:
  assumes "worldless I" and "missless I"
    and "\<And>s v y r. I s \<Longrightarrow> kind_of y = kind_of x \<Longrightarrow>
           I (s\<lparr>effects := effects s @ [Wrote v y r]\<rparr>)"
  shows "keeps I (CreateOrForceUpdate cc x)"
  unfolding CreateOrForceUpdate_def
  by (intro keeps_intros keeps_perform assms) simp_all

lemma keeps_CreateOrPatch:
  assumes "worldless I" and "missless I"
    and "\<And>s v y r. I s \<Longrightarrow> kind_of y = kind_of x \<Longrightarrow>
           I (s\<lparr>effects := effects s @ [Wrote v y r]\<rparr>)"
  shows "keeps I (CreateOrPatch cc x)"
  unfolding CreateOrPatch_def
  by (intro keeps_intros keeps_perform assms) simp_all

section \<open>Effect bounds\<close>

text \<open>\<open>logs E m\<close>: running \<open>m\<close> only appends effects that satisfy \<open>E\<close>.\<close>

named_theorems logs_intros \<open>structural rules for the effects of programs\<close>

definition logs :: "(effect \<Rightarrow> bool) \<Rightarrow> ('w, 'o, 't, 'a) prog \<Rightarrow> bool" where
  "logs E m \<longleftrightarrow> (\<forall>s. wp m (\<lambda>_ s'. \<exists>es. effects s' = effects s @ es \<and> (\<forall>e \<in> set es. E e)) s)"

lemma logsD: "logs E m \<Longrightarrow> run_state m s = (a, s') \<Longrightarrow>
    \<exists>es. effects s' = effects s @ es \<and> (\<forall>e \<in> set es. E e)"
  unfolding logs_def using wpD by fast

lemma logs_mono: "logs E m \<Longrightarrow> (\<And>e. E e \<Longrightarrow> F e) \<Longrightarrow> logs F m"
  unfolding logs_def by (blast intro: wp_mono)

lemma logs_keeps: "logs E m \<Longrightarrow> keeps (\<lambda>s. \<forall>e \<in> set (effects s). E e) m"
proof (rule keepsI)
  fix s a s' assume "logs E m" and "\<forall>e \<in> set (effects s). E e" and "run_state m s = (a, s')"
  then show "\<forall>e \<in> set (effects s'). E e" using logsD [of E m s a s'] by auto
qed

lemma logs_return [logs_intros]: "logs E (State_Monad.return a)"
  by (simp add: logs_def)

lemma logs_gets [logs_intros]: "logs E (gets f)"
  by (simp add: logs_def)

lemma logs_bind [logs_intros]:
  assumes "logs E m" and "\<And>a. logs E (f a)"
  shows "logs E (State_Monad.bind m f)"
  unfolding logs_def
proof
  fix s
  have "wp m (\<lambda>a. wp (f a) (\<lambda>_ s'. \<exists>es. effects s' = effects s @ es \<and> (\<forall>e \<in> set es. E e))) s"
  proof (rule wpI)
    fix a t assume "run_state m s = (a, t)"
    then obtain es where t: "effects t = effects s @ es" "\<forall>e \<in> set es. E e"
      using assms(1) by (blast dest: logsD)
    have "wp (f a) (\<lambda>_ s'. \<exists>es. effects s' = effects t @ es \<and> (\<forall>e \<in> set es. E e)) t"
      using assms(2) by (simp add: logs_def)
    then show "wp (f a) (\<lambda>_ s'. \<exists>es. effects s' = effects s @ es \<and> (\<forall>e \<in> set es. E e)) t"
    proof (rule wp_mono)
      fix b s' assume "\<exists>es. effects s' = effects t @ es \<and> (\<forall>e \<in> set es. E e)"
      then obtain es' where "effects s' = effects t @ es'" "\<forall>e \<in> set es'. E e" by blast
      with t have "effects s' = effects s @ (es @ es')" "\<forall>e \<in> set (es @ es'). E e" by auto
      then show "\<exists>es. effects s' = effects s @ es \<and> (\<forall>e \<in> set es. E e)" by blast
    qed
  qed
  then show "wp (State_Monad.bind m f) (\<lambda>_ s'. \<exists>es. effects s' = effects s @ es \<and> (\<forall>e \<in> set es. E e)) s"
    by simp
qed

lemma logs_if [logs_intros]:
  "(b \<Longrightarrow> logs E m) \<Longrightarrow> (\<not> b \<Longrightarrow> logs E n) \<Longrightarrow> logs E (if b then m else n)"
  by simp

lemma logs_case_option [logs_intros]:
  "(x = None \<Longrightarrow> logs E m) \<Longrightarrow> (\<And>v. x = Some v \<Longrightarrow> logs E (f v)) \<Longrightarrow>
   logs E (case x of None \<Rightarrow> m | Some v \<Rightarrow> f v)"
  by (cases x) simp_all

lemma logs_case_sum [logs_intros]:
  "(\<And>e. x = Inl e \<Longrightarrow> logs E (f e)) \<Longrightarrow> (\<And>v. x = Inr v \<Longrightarrow> logs E (g v)) \<Longrightarrow>
   logs E (case x of Inl e \<Rightarrow> f e | Inr v \<Rightarrow> g v)"
  by (cases x) simp_all

lemma logs_case_go [logs_intros]:
  "(\<And>v. x = Ok v \<Longrightarrow> logs E (f v)) \<Longrightarrow> (\<And>e. x = Err e \<Longrightarrow> logs E (g e)) \<Longrightarrow>
   (x = Panic \<Longrightarrow> logs E h) \<Longrightarrow>
   logs E (case x of Ok v \<Rightarrow> f v | Err e \<Rightarrow> g e | Panic \<Rightarrow> h)"
  by (cases x) simp_all

lemma logs_case_list [logs_intros]:
  "(xs = [] \<Longrightarrow> logs E m) \<Longrightarrow> (\<And>y ys. xs = y # ys \<Longrightarrow> logs E (f y ys)) \<Longrightarrow>
   logs E (case xs of [] \<Rightarrow> m | y # ys \<Rightarrow> f y ys)"
  by (cases xs) simp_all

lemma logs_case_prod [logs_intros]:
  "(\<And>a b. p = (a, b) \<Longrightarrow> logs E (f a b)) \<Longrightarrow> logs E (case p of (a, b) \<Rightarrow> f a b)"
  by (cases p) simp

lemma logs_case_ResourceStatus [logs_intros]:
  "logs E a \<Longrightarrow> logs E b \<Longrightarrow> logs E m \<Longrightarrow> logs E d \<Longrightarrow> logs E e \<Longrightarrow>
   logs E (case x of ResourcesInSync \<Rightarrow> a | ResourcesOutOfSync \<Rightarrow> b | DestroyingResources \<Rightarrow> m
     | DestroyingResourcesFailed \<Rightarrow> d | UnknownResourceStatus \<Rightarrow> e)"
  by (cases x) simp_all

lemma logs_Let [logs_intros]: "(\<And>x. x = v \<Longrightarrow> logs E (f x)) \<Longrightarrow> logs E (Let v f)"
  by simp

lemma logs_request [logs_intros]: "logs E (request f)"
  by (simp add: logs_def wp_request)

lemma logs_record_effect [logs_intros]: "E e \<Longrightarrow> logs E (record_effect e)"
  by (simp add: logs_def)

lemma logs_modify_resource [logs_intros]: "logs E (modify_resource f)"
  by (simp add: logs_def)

lemma logs_modify_state [logs_intros]: "logs E (modify_state f)"
  by (simp add: logs_def)

lemma logs_record_absent [logs_intros]: "logs E (record_absent k ns n)"
  by (simp add: logs_def)

lemma logs_perform [logs_intros]: "(\<And>r. E (Wrote v x r)) \<Longrightarrow> logs E (perform cc v x)"
  unfolding perform_def by (intro logs_intros)

lemma logs_GetIfExists [logs_intros]: "logs E (GetIfExists cc k as ns n)"
  unfolding GetIfExists_def by (intro logs_intros)

lemma logs_GetSecretIfExists [logs_intros]: "logs E (GetSecretIfExists cc ns n)"
  unfolding GetSecretIfExists_def by (intro logs_intros)

lemma logs_list_objects [logs_intros]: "logs E (list_objects cc k as opts)"
  unfolding list_objects_def by (intro logs_intros)

lemma logs_DeleteIfExists [logs_intros]:
  "(\<And>r. E (Wrote Delete x r)) \<Longrightarrow> logs E (DeleteIfExists cc x)"
  unfolding DeleteIfExists_def by (intro logs_intros)

lemma logs_CreateOrForceUpdate [logs_intros]:
  "(\<And>v y r. kind_of y = kind_of x \<Longrightarrow> E (Wrote v y r)) \<Longrightarrow> logs E (CreateOrForceUpdate cc x)"
  unfolding CreateOrForceUpdate_def by (intro logs_intros) simp_all

lemma logs_CreateOrPatch [logs_intros]:
  "(\<And>v y r. kind_of y = kind_of x \<Longrightarrow> E (Wrote v y r)) \<Longrightarrow> logs E (CreateOrPatch cc x)"
  unfolding CreateOrPatch_def by (intro logs_intros) simp_all

end
