(* ===== verification/Framework.thy ===== *)
theory Framework
  imports Cluster
begin

text \<open>
  The machinery every controller shares (\<open>pkg/controller\<close>): registering conditions, the
  condition manager, finalizers and the ensure chain with its deferred status update. The Go
  interface \<open>Object\<close> is a record of accessors; its laws are the locale \<open>object_laws\<close>, in which
  the facts about conditions and the chain are proved once for all resources.
\<close>

section \<open>Resources with a status\<close>

record 'o Object =
  ob_Meta :: "'o \<Rightarrow> ObjectMeta"
  ob_SetMeta :: "(ObjectMeta \<Rightarrow> ObjectMeta) \<Rightarrow> 'o \<Rightarrow> 'o"
  ob_Status :: "'o \<Rightarrow> CommonStatus"
  ob_SetStatus :: "(CommonStatus \<Rightarrow> CommonStatus) \<Rightarrow> 'o \<Rightarrow> 'o"
  ob_Embed :: "'o \<Rightarrow> object"
  ob_Project :: "object \<Rightarrow> 'o option"
  ob_DeepEqual :: "'o \<Rightarrow> 'o \<Rightarrow> bool"

section \<open>Registering conditions\<close>

definition registered_condition :: "time \<Rightarrow> ConditionSpec \<Rightarrow> Condition" where
  "registered_condition now x =
     empty_condition\<lparr>cd_Name := csp_Name x, cd_Reason := ReasonNotDetermined,
       cd_Status := (if csp_DefaultStatus x = ConditionUnset then ConditionFalse
                     else csp_DefaultStatus x),
       cd_Type := csp_Type x, cd_LastTransitionTime := now\<rparr>"

fun register_conditions :: "time \<Rightarrow> ConditionSpec list \<Rightarrow> CommonStatus \<Rightarrow> CommonStatus" where
  "register_conditions now [] status = status"
| "register_conditions now (x # xs) status =
     (if GetCondition status (csp_Type x) = None
      then register_conditions now xs
             (status\<lparr>st_Conditions := st_Conditions status @ [registered_condition now x]\<rparr>)
      else register_conditions now xs status)"

definition zero_reconcile :: LastReconcileStatus where
  "zero_reconcile = \<lparr>lr_Time = 0, lr_Generation = 0\<rparr>"

definition init_times :: "CommonStatus \<Rightarrow> CommonStatus" where
  "init_times status =
     status\<lparr>st_LastReconcile :=
              (case st_LastReconcile status of None \<Rightarrow> Some zero_reconcile | l \<Rightarrow> l),
            st_LastSuccess :=
              (case st_LastSuccess status of None \<Rightarrow> Some zero_reconcile | l \<Rightarrow> l)\<rparr>"

definition EnsureConditionsRegistered ::
  "'o Object \<Rightarrow> time \<Rightarrow> ConditionSpec list \<Rightarrow> 'o \<Rightarrow> 'o" where
  "EnsureConditionsRegistered ob now conditions x =
     ob_SetStatus ob (\<lambda>status. register_conditions now conditions (init_times status)) x"

section \<open>The condition manager\<close>

text \<open>
  \<open>cm_condition\<close> is the pointer to the condition, an index into the conditions of the
  resource; \<open>None\<close> is the detached zero condition that \<open>ConditionMgr\<close> allocates when the
  resource has no condition of the type. \<open>cm_recorder\<close> says whether an event recorder is set.
\<close>

record ConditionManager =
  cm_condition :: "nat option"
  cm_recorder :: bool

definition ConditionMgr :: "'o Object \<Rightarrow> 'o \<Rightarrow> ConditionType \<Rightarrow> bool \<Rightarrow> ConditionManager" where
  "ConditionMgr ob x condition recorder =
     \<lparr>cm_condition = index_of condition (st_Conditions (ob_Status ob x)),
      cm_recorder = recorder\<rparr>"

definition cm_GetCondition :: "'o Object \<Rightarrow> ConditionManager \<Rightarrow> 'o \<Rightarrow> Condition" where
  "cm_GetCondition ob c x =
     (case cm_condition c of
        None \<Rightarrow> empty_condition
      | Some i \<Rightarrow> if i < length (st_Conditions (ob_Status ob x))
                  then st_Conditions (ob_Status ob x) ! i else empty_condition)"

definition write_condition :: "'o Object \<Rightarrow> ConditionManager \<Rightarrow> Condition \<Rightarrow> 'o \<Rightarrow> 'o" where
  "write_condition ob c cond x =
     (case cm_condition c of
        None \<Rightarrow> x
      | Some i \<Rightarrow> ob_SetStatus ob (\<lambda>s. s\<lparr>st_Conditions := (st_Conditions s)[i := cond]\<rparr>) x)"

text \<open>
  \<open>transition\<close>: the handler changes the condition, a change stamps the transition time, and
  a condition left in \<open>ActionRequired\<close> emits a warning event.
\<close>

definition transitioned :: "time \<Rightarrow> (Condition \<Rightarrow> Condition) \<Rightarrow> Condition \<Rightarrow> Condition" where
  "transitioned now methodFunc original =
     (let cond = methodFunc original
      in if cond \<noteq> original then cond\<lparr>cd_LastTransitionTime := now\<rparr> else cond)"

definition transition ::
  "'w client \<Rightarrow> 'o Object \<Rightarrow> ConditionManager \<Rightarrow> (Condition \<Rightarrow> Condition) \<Rightarrow>
   ('w, 'o, 't, unit) prog" where
  "transition cc ob c methodFunc =
     do { x \<leftarrow> gets resource;
          now \<leftarrow> gets (\<lambda>s. cc_Now cc (world s));
          let cond = transitioned now methodFunc (cm_GetCondition ob c x);
          modify_resource (write_condition ob c cond);
          if cm_recorder c \<and> cd_Reason cond = ReasonActionRequired
          then do { y \<leftarrow> gets resource;
                    record_effect (Event (ob_Embed ob y) EventTypeWarning ''Action Required''
                                     (cd_Message cond)) }
          else State_Monad.return () }"

definition set_condition ::
  "int \<Rightarrow> ConditionStatus \<Rightarrow> ConditionReason \<Rightarrow> string \<Rightarrow> string option \<Rightarrow> Condition \<Rightarrow> Condition"
  where
  "set_condition generation status reason message detail c =
     c\<lparr>cd_ObservedGeneration := generation, cd_Status := status, cd_Reason := reason,
       cd_Message := message,
       cd_Detail := (case detail of None \<Rightarrow> cd_Detail c | Some d \<Rightarrow> d)\<rparr>"

definition set_through ::
  "'w client \<Rightarrow> 'o Object \<Rightarrow> ConditionManager \<Rightarrow> ConditionStatus \<Rightarrow> ConditionReason \<Rightarrow>
   string \<Rightarrow> string option \<Rightarrow> ('w, 'o, 't, unit) prog" where
  "set_through cc ob c status reason message detail =
     do { x \<leftarrow> gets resource;
          transition cc ob c
            (set_condition (om_Generation (ob_Meta ob x)) status reason message detail) }"

definition cond_ActionRequired ::
  "'w client \<Rightarrow> 'o Object \<Rightarrow> ConditionManager \<Rightarrow> string \<Rightarrow> farg list \<Rightarrow> ('w, 'o, 't, unit) prog"
  where
  "cond_ActionRequired cc ob c message args =
     set_through cc ob c ConditionFalse ReasonActionRequired (Sprintf message args) (Some [])"

definition cond_Warning ::
  "'w client \<Rightarrow> 'o Object \<Rightarrow> ConditionManager \<Rightarrow> string \<Rightarrow> farg list \<Rightarrow> ('w, 'o, 't, unit) prog"
  where
  "cond_Warning cc ob c message args =
     set_through cc ob c ConditionFalse ReasonWarning (Sprintf message args) (Some [])"

definition cond_Success ::
  "'w client \<Rightarrow> 'o Object \<Rightarrow> ConditionManager \<Rightarrow> string \<Rightarrow> farg list \<Rightarrow> ('w, 'o, 't, unit) prog"
  where
  "cond_Success cc ob c message args =
     set_through cc ob c ConditionTrue ReasonReady (Sprintf message args) (Some [])"

text \<open>The error may be nil, and then the previous detail stays.\<close>

definition cond_Failed ::
  "'w client \<Rightarrow> 'o Object \<Rightarrow> ConditionManager \<Rightarrow> gerror option \<Rightarrow> string \<Rightarrow> farg list \<Rightarrow>
   ('w, 'o, 't, unit) prog" where
  "cond_Failed cc ob c err message args =
     set_through cc ob c ConditionFalse ReasonError (Sprintf message args) (map_option Error err)"

definition cond_InProgress ::
  "'w client \<Rightarrow> 'o Object \<Rightarrow> ConditionManager \<Rightarrow> string \<Rightarrow> farg list \<Rightarrow> ('w, 'o, 't, unit) prog"
  where
  "cond_InProgress cc ob c message args =
     set_through cc ob c ConditionFalse ReasonInProgress (Sprintf message args) (Some [])"

definition cond_Disabled ::
  "'w client \<Rightarrow> 'o Object \<Rightarrow> ConditionManager \<Rightarrow> string \<Rightarrow> farg list \<Rightarrow> ('w, 'o, 't, unit) prog"
  where
  "cond_Disabled cc ob c message args =
     set_through cc ob c ConditionFalse ReasonDisabled (Sprintf message args) (Some [])"

definition cond_Deleting ::
  "'w client \<Rightarrow> 'o Object \<Rightarrow> ConditionManager \<Rightarrow> string \<Rightarrow> farg list \<Rightarrow> ('w, 'o, 't, unit) prog"
  where
  "cond_Deleting cc ob c message args =
     set_through cc ob c ConditionFalse ReasonDeleting (Sprintf message args) (Some [])"

lemmas cond_defs = cond_ActionRequired_def cond_Warning_def cond_Success_def cond_Failed_def
  cond_InProgress_def cond_Disabled_def cond_Deleting_def

section \<open>Writing the resource back\<close>

text \<open>
  \<open>cc.Update(ctx, resource)\<close> and the like: a successful response is decoded into the
  resource in memory.
\<close>

definition write_back :: "'w client \<Rightarrow> 'o Object \<Rightarrow> verb \<Rightarrow> ('w, 'o, 't, gerror option) prog" where
  "write_back cc ob v =
     do { x \<leftarrow> gets resource;
          r \<leftarrow> perform cc v (ob_Embed ob x);
          case r of
            Inl err \<Rightarrow> State_Monad.return (Some err)
          | Inr y \<Rightarrow>
              (case ob_Project ob y of
                 None \<Rightarrow> State_Monad.return (Some decode_error)
               | Some x' \<Rightarrow> do { modify_resource (\<lambda>_. x'); State_Monad.return None }) }"

section \<open>Finalizers\<close>

definition RequeueImmediate :: Result where
  "RequeueImmediate = requeue_after (5 * millisecond)"

definition finalizers :: "'o Object \<Rightarrow> 'o \<Rightarrow> string list" where
  "finalizers ob x = om_Finalizers (ob_Meta ob x)"

definition SetFinalizers :: "'o Object \<Rightarrow> string list \<Rightarrow> 'o \<Rightarrow> 'o" where
  "SetFinalizers ob fs x = ob_SetMeta ob (\<lambda>m. m\<lparr>om_Finalizers := fs\<rparr>) x"

text \<open>\<open>Add\<close> updates a deep copy: the response does not reach the resource in memory.\<close>

definition Finalizer_Add ::
  "'w client \<Rightarrow> 'o Object \<Rightarrow> string \<Rightarrow> ('w, 'o, 't, gerror option) prog" where
  "Finalizer_Add cc ob fin =
     do { modify_resource (\<lambda>x. SetFinalizers ob (finalizers ob x @ [fin]) x);
          x \<leftarrow> gets resource;
          r \<leftarrow> perform cc Update (ob_Embed ob x);
          State_Monad.return (error_of r) }"

definition Finalizer_Remove ::
  "'w client \<Rightarrow> 'o Object \<Rightarrow> string \<Rightarrow> ('w, 'o, 't, gerror option) prog" where
  "Finalizer_Remove cc ob fin =
     do { x \<leftarrow> gets resource;
          if \<not> Contains fin (finalizers ob x) then State_Monad.return None
          else do { modify_resource
                      (SetFinalizers ob (filter (\<lambda>f. f \<noteq> fin) (finalizers ob x)));
                    write_back cc ob Update } }"

definition IsDeletionCandidate :: "'o Object \<Rightarrow> string \<Rightarrow> 'o \<Rightarrow> bool" where
  "IsDeletionCandidate ob fin x =
     (if om_DeletionTimestamp (ob_Meta ob x) = None then False
      else let n = length (finalizers ob x) in
        if n = 0 then True
        else if n = 1 \<and> Contains fin (finalizers ob x) then True
        else if n = 2 \<and> Contains fin (finalizers ob x) \<and>
                Contains FinalizerDeleteDependents (finalizers ob x) then True
        else False)"

text \<open>\<open>GetDeletionTimestamp().IsZero()\<close> holds of a nil pointer too.\<close>

definition NeedToAdd :: "'o Object \<Rightarrow> string \<Rightarrow> 'o \<Rightarrow> bool" where
  "NeedToAdd ob fin x \<longleftrightarrow>
     (case om_DeletionTimestamp (ob_Meta ob x) of None \<Rightarrow> True | Some t \<Rightarrow> t = 0) \<and>
     \<not> Contains fin (finalizers ob x)"

definition EnsureEmpty :: "'o Object \<Rightarrow> string \<Rightarrow> ('w, 'o, 't) ensure" where
  "EnsureEmpty ob fin =
     do { x \<leftarrow> gets resource;
          if IsDeletionCandidate ob fin x then State_Monad.return (Ok Result0)
          else State_Monad.return (Ok (requeue_after (30 * second))) }"

definition EnsurePresent :: "'w client \<Rightarrow> 'o Object \<Rightarrow> string \<Rightarrow> ('w, 'o, 't) ensure" where
  "EnsurePresent cc ob fin =
     do { x \<leftarrow> gets resource;
          if \<not> NeedToAdd ob fin x then State_Monad.return (Ok Result0)
          else do { r \<leftarrow> Finalizer_Add cc ob fin;
                    case r of
                      Some err \<Rightarrow> State_Monad.return (Err err)
                    | None \<Rightarrow> State_Monad.return (Ok RequeueImmediate) } }"

definition EnsureRemoved :: "'w client \<Rightarrow> 'o Object \<Rightarrow> string \<Rightarrow> ('w, 'o, 't) ensure" where
  "EnsureRemoved cc ob fin =
     do { x \<leftarrow> gets resource;
          if \<not> Contains fin (finalizers ob x) then State_Monad.return (Ok Result0)
          else do { modify_resource
                      (SetFinalizers ob (filter (\<lambda>f. f \<noteq> fin) (finalizers ob x)));
                    r \<leftarrow> write_back cc ob Update;
                    case r of
                      Some err \<Rightarrow> State_Monad.return (Err err)
                    | None \<Rightarrow> State_Monad.return (Ok Result0) } }"

section \<open>The ensure chain\<close>

definition ResourceReady :: string where
  "ResourceReady = ''Resource ready''"

definition RequeueAfter :: "time \<Rightarrow> ('w, 'o, 't) ensure" where
  "RequeueAfter d = State_Monad.return (Ok (requeue_after d))"

definition RequeueUnless :: "Result \<Rightarrow> gerror option \<Rightarrow> time \<Rightarrow> Result go" where
  "RequeueUnless result err duration =
     (case err of
        Some e \<Rightarrow> Err e
      | None \<Rightarrow> if stops result then Ok result else Ok (requeue_after duration))"

definition updateReconcileStatus ::
  "'o Object \<Rightarrow> time \<Rightarrow> 'o \<Rightarrow> 'o \<Rightarrow> LastReconcileStatus option \<Rightarrow> LastReconcileStatus option" where
  "updateReconcileStatus ob now x original lst =
     (case lst of
        Some l \<Rightarrow>
          if lr_Generation l = om_Generation (ob_Meta ob x) \<and> ob_DeepEqual ob original x
          then Some l
          else Some \<lparr>lr_Time = now, lr_Generation = om_Generation (ob_Meta ob x)\<rparr>
      | None \<Rightarrow> Some \<lparr>lr_Time = now, lr_Generation = om_Generation (ob_Meta ob x)\<rparr>)"

text \<open>What the loop returns when an ensure function fails.\<close>

definition stop_error :: "gerror \<Rightarrow> Result go" where
  "stop_error e =
     (if IsConflict e then Ok RequeueImmediate
      else if e = ErrIgnore then Ok Result0
      else Err e)"

text \<open>The loop of \<open>Run\<close>: \<open>None\<close> when every function let the chain continue.\<close>

fun run_loop :: "('w, 'o, 't) ensure list \<Rightarrow> ('w, 'o, 't, Result go option) prog" where
  "run_loop [] = State_Monad.return None"
| "run_loop (x # xs) =
     do { r \<leftarrow> x;
          case r of
            Panic \<Rightarrow> State_Monad.return (Some Panic)
          | Err e \<Rightarrow> State_Monad.return (Some (stop_error e))
          | Ok result \<Rightarrow>
              if stops result then State_Monad.return (Some (Ok result)) else run_loop xs }"

text \<open>The tail of \<open>Run\<close> after a loop in which nothing stopped.\<close>

definition mark_ready :: "'w client \<Rightarrow> 'o Object \<Rightarrow> 'o \<Rightarrow> ('w, 'o, 't, unit) prog" where
  "mark_ready cc ob original =
     do { x \<leftarrow> gets resource;
          cond_Success cc ob (ConditionMgr ob x ConditionReady False) ResourceReady [];
          now \<leftarrow> gets (\<lambda>s. cc_Now cc (world s));
          modify_resource (\<lambda>y. ob_SetStatus ob (\<lambda>s. s\<lparr>st_LastSuccess :=
            updateReconcileStatus ob now y original (st_LastSuccess s)\<rparr>) y) }"

text \<open>The deferred function: it overrides the outcome when the status cannot be written.\<close>

definition update_status ::
  "'w client \<Rightarrow> 'o Object \<Rightarrow> 'o \<Rightarrow> Result go \<Rightarrow> ('w, 'o, 't) ensure" where
  "update_status cc ob original outcome =
     do { now \<leftarrow> gets (\<lambda>s. cc_Now cc (world s));
          modify_resource (\<lambda>y. ob_SetStatus ob (\<lambda>s. s\<lparr>st_LastReconcile :=
            updateReconcileStatus ob now y original (st_LastReconcile s)\<rparr>) y);
          r \<leftarrow> write_back cc ob (StatusPatch (ob_Embed ob original));
          case r of
            None \<Rightarrow> State_Monad.return outcome
          | Some err \<Rightarrow>
              if IsNotFound err \<or> outcome = Panic then State_Monad.return outcome
              else State_Monad.return (Err err) }"

definition Run :: "'w client \<Rightarrow> 'o Object \<Rightarrow> ('w, 'o, 't) ensure list \<Rightarrow> ('w, 'o, 't) ensure" where
  "Run cc ob ensures =
     do { original \<leftarrow> gets resource;
          r \<leftarrow> run_loop ensures;
          case r of
            Some outcome \<Rightarrow> update_status cc ob original outcome
          | None \<Rightarrow> do { mark_ready cc ob original;
                         update_status cc ob original (Ok Result0) } }"

section \<open>Registered conditions\<close>

lemma GetCondition_fields [simp]:
  "GetCondition (s\<lparr>st_LastReconcile := l\<rparr>) t = GetCondition s t"
  "GetCondition (s\<lparr>st_LastSuccess := l\<rparr>) t = GetCondition s t"
  by (simp_all add: GetCondition_def cong: option.case_cong)

lemma init_times_conditions [simp]: "st_Conditions (init_times s) = st_Conditions s"
  by (simp add: init_times_def)

lemma init_times_GetCondition [simp]: "GetCondition (init_times s) t = GetCondition s t"
  by (simp add: init_times_def)

lemma init_times_set:
  "st_LastReconcile (init_times s) \<noteq> None" "st_LastSuccess (init_times s) \<noteq> None"
  by (simp_all add: init_times_def split: option.splits)

lemma init_times_id:
  "st_LastReconcile s \<noteq> None \<Longrightarrow> st_LastSuccess s \<noteq> None \<Longrightarrow> init_times s = s"
  by (cases s) (auto simp: init_times_def)

lemma register_prefix:
  "\<exists>cs. st_Conditions (register_conditions now specs s) = st_Conditions s @ cs \<and>
        (\<forall>c \<in> set cs. cd_Type c \<in> csp_Type ` set specs \<and> cd_Type c \<notin> cd_Type ` set (st_Conditions s))"
proof (induction specs arbitrary: s)
  case (Cons x xs)
  show ?case
  proof (cases "GetCondition s (csp_Type x) = None")
    case True
    let ?s = "s\<lparr>st_Conditions := st_Conditions s @ [registered_condition now x]\<rparr>"
    obtain cs where cs: "st_Conditions (register_conditions now xs ?s) = st_Conditions ?s @ cs"
      "\<forall>c \<in> set cs. cd_Type c \<in> csp_Type ` set xs \<and> cd_Type c \<notin> cd_Type ` set (st_Conditions ?s)"
      using Cons.IH [of ?s] by blast
    have "csp_Type x \<notin> cd_Type ` set (st_Conditions s)"
      using True HasCondition_iff [of s "csp_Type x"] by (simp add: HasCondition_def)
    with True cs show ?thesis
      by (intro exI [of _ "registered_condition now x # cs"])
        (auto simp: registered_condition_def)
  next
    case False
    with Cons.IH [of s] show ?thesis by auto
  qed
qed auto

lemma register_covers:
  "\<forall>x \<in> set specs. HasCondition (register_conditions now specs s) (csp_Type x)"
proof (induction specs arbitrary: s)
  case (Cons x xs)
  have kept: "HasCondition (register_conditions now xs t) (csp_Type x)"
    if "HasCondition t (csp_Type x)" for t
    using register_prefix [of now xs t] that by (auto simp: HasCondition_iff)
  have new: "HasCondition (s\<lparr>st_Conditions := st_Conditions s @ [registered_condition now x]\<rparr>) (csp_Type x)"
    by (simp add: HasCondition_iff registered_condition_def)
  show ?case
    using Cons.IH kept [OF new] kept [of s]
    by (auto simp: HasCondition_def)
qed simp

lemma register_distinct:
  "distinct_types (st_Conditions s) \<Longrightarrow>
   distinct_types (st_Conditions (register_conditions now specs s))"
proof (induction specs arbitrary: s)
  case (Cons x xs)
  have "csp_Type x \<notin> cd_Type ` set (st_Conditions s)" if "GetCondition s (csp_Type x) = None"
    using that HasCondition_iff [of s "csp_Type x"] by (simp add: HasCondition_def)
  then have "distinct_types (st_Conditions s @ [registered_condition now x])"
    if "GetCondition s (csp_Type x) = None"
    using that Cons.prems by (auto simp: distinct_types_def registered_condition_def)
  with Cons show ?case by simp
qed simp

lemma register_idem:
  assumes "\<forall>x \<in> set specs. HasCondition s (csp_Type x)"
  shows "register_conditions now specs s = s"
  using assms by (induction specs) (auto simp: HasCondition_def)

lemma register_fields [simp]:
  "st_LastReconcile (register_conditions now specs s) = st_LastReconcile s"
  "st_LastSuccess (register_conditions now specs s) = st_LastSuccess s"
  by (induction specs arbitrary: s) auto

lemma register_GetCondition:
  assumes "GetCondition s t = Some c"
  shows "GetCondition (register_conditions now specs s) t = Some c"
proof -
  obtain cs where "st_Conditions (register_conditions now specs s) = st_Conditions s @ cs"
    using register_prefix [of now specs s] by blast
  with assms show ?thesis
    by (auto simp: GetCondition_def index_of_append nth_append dest: index_of_Some
        split: option.splits)
qed

section \<open>Symbolic execution of the framework\<close>

text \<open>The environment after a transition.\<close>

definition transition_env ::
  "'w client \<Rightarrow> 'o Object \<Rightarrow> ConditionManager \<Rightarrow> (Condition \<Rightarrow> Condition) \<Rightarrow>
   ('w, 'o, 't) env \<Rightarrow> ('w, 'o, 't) env" where
  "transition_env cc ob c f s =
     (let cond = transitioned (cc_Now cc (world s)) f (cm_GetCondition ob c (resource s));
          x = write_condition ob c cond (resource s)
      in s\<lparr>resource := x,
           effects := effects s @
             (if cm_recorder c \<and> cd_Reason cond = ReasonActionRequired
              then [Event (ob_Embed ob x) EventTypeWarning ''Action Required'' (cd_Message cond)]
              else [])\<rparr>)"

lemma wp_transition: "wp (transition cc ob c f) Q s = Q () (transition_env cc ob c f s)"
  by (auto simp: transition_def transition_env_def wp_Let wp_if Let_def)

lemma wp_set_through [wp_simps]:
  "wp (set_through cc ob c st re m d) Q s =
     Q () (transition_env cc ob c
             (set_condition (om_Generation (ob_Meta ob (resource s))) st re m d) s)"
  by (simp add: set_through_def wp_transition)

lemma transition_env_fields [simp]:
  "world (transition_env cc ob c f s) = world s"
  "rstate (transition_env cc ob c f s) = rstate s"
  "resource (transition_env cc ob c f s) =
     write_condition ob c
       (transitioned (cc_Now cc (world s)) f (cm_GetCondition ob c (resource s))) (resource s)"
  by (simp_all add: transition_env_def Let_def)

lemma effects_transition_env:
  "\<exists>es. effects (transition_env cc ob c f s) = effects s @ es \<and>
        (\<forall>e \<in> set es. \<exists>x t r m. e = Event x t r m)"
  by (auto simp: transition_env_def Let_def)

lemma transitioned_eq:
  "transitioned now f c =
     (f c)\<lparr>cd_LastTransitionTime := if f c \<noteq> c then now else cd_LastTransitionTime (f c)\<rparr>"
  by (simp add: transitioned_def Let_def)

lemma transitioned_fields [simp]:
  "cd_Type (transitioned now (set_condition g st re m d) c) = cd_Type c"
  "cd_Status (transitioned now (set_condition g st re m d) c) = st"
  "cd_Reason (transitioned now (set_condition g st re m d) c) = re"
  "cd_ObservedGeneration (transitioned now (set_condition g st re m d) c) = g"
  "cd_Message (transitioned now (set_condition g st re m d) c) = m"
  by (simp_all add: transitioned_eq set_condition_def)

lemma wp_write_back_any [any_client]:
  assumes "\<And>r w. r \<noteq> None \<Longrightarrow> Q r (s\<lparr>world := w,
      effects := effects s @ [Wrote v (ob_Embed ob (resource s)) r]\<rparr>)"
    and "\<And>w e. Q (Some decode_error) (s\<lparr>world := w,
      effects := effects s @ [Wrote v (ob_Embed ob (resource s)) e]\<rparr>)"
    and "\<And>x w. Q None (s\<lparr>world := w,
      effects := effects s @ [Wrote v (ob_Embed ob (resource s)) None], resource := x\<rparr>)"
  shows "wp (write_back cc ob v) Q s"
  using assms
  by (auto simp: write_back_def perform_def wp_simps error_of_def)

lemma logs_transition [logs_intros]:
  "(\<And>x t r m. E (Event x t r m)) \<Longrightarrow> logs E (transition cc ob c f)"
  unfolding transition_def Let_def by (intro logs_intros)

lemma logs_set_through [logs_intros]:
  "(\<And>x t r m. E (Event x t r m)) \<Longrightarrow> logs E (set_through cc ob c st re m d)"
  unfolding set_through_def by (intro logs_intros)

lemma logs_write_back [logs_intros]:
  "(\<And>x r. E (Wrote v (ob_Embed ob x) r)) \<Longrightarrow> logs E (write_back cc ob v)"
  unfolding write_back_def by (intro logs_intros)

section \<open>Reasoning about the chain\<close>

text \<open>
  \<open>ensures P x Q R\<close>: from a state with \<open>P\<close>, the function \<open>x\<close> lets the chain continue in a
  state with \<open>Q\<close>, or stops it in a state with \<open>R\<close>.
\<close>

definition continues :: "Result go \<Rightarrow> bool" where
  "continues r = (case r of Ok res \<Rightarrow> \<not> stops res | _ \<Rightarrow> False)"

lemma continues_simps [simp]:
  "continues (Ok r) \<longleftrightarrow> \<not> stops r" "\<not> continues (Err e)" "\<not> continues Panic"
  by (simp_all add: continues_def)

definition ensures ::
  "(('w, 'o, 't) env \<Rightarrow> bool) \<Rightarrow> ('w, 'o, 't) ensure \<Rightarrow>
   (('w, 'o, 't) env \<Rightarrow> bool) \<Rightarrow> (Result go \<Rightarrow> ('w, 'o, 't) env \<Rightarrow> bool) \<Rightarrow> bool" where
  "ensures P x Q R \<longleftrightarrow>
     (\<forall>s. P s \<longrightarrow> wp x (\<lambda>r s'. if continues r then Q s' else R r s') s)"

lemma ensuresI:
  "(\<And>s. P s \<Longrightarrow> wp x (\<lambda>r s'. if continues r then Q s' else R r s') s) \<Longrightarrow> ensures P x Q R"
  by (simp add: ensures_def)

lemma ensures_weaken:
  assumes "ensures P x Q R" and "\<And>s. P' s \<Longrightarrow> P s" and "\<And>s. Q s \<Longrightarrow> Q' s"
    and "\<And>r s. R r s \<Longrightarrow> R' r s"
  shows "ensures P' x Q' R'"
proof (rule ensuresI)
  fix s assume "P' s"
  then have "wp x (\<lambda>r s'. if continues r then Q s' else R r s') s"
    using assms(1,2) by (simp add: ensures_def)
  then show "wp x (\<lambda>r s'. if continues r then Q' s' else R' r s') s"
    by (rule wp_mono) (simp add: assms(3,4) split: if_splits)
qed

text \<open>A function that keeps \<open>P\<close> keeps it whether the chain continues or stops.\<close>

lemma ensures_keeps: "keeps P x \<Longrightarrow> (\<And>r s. P s \<Longrightarrow> R r s) \<Longrightarrow> ensures P x P R"
proof (rule ensuresI)
  fix s assume "keeps P x" "P s" and R: "\<And>r s. P s \<Longrightarrow> R r s"
  then have "wp x (\<lambda>r s'. P s') s" by (simp add: keeps_wp)
  then show "wp x (\<lambda>r s'. if continues r then P s' else R r s') s"
    by (rule wp_mono) (simp add: R)
qed

text \<open>
  \<open>leads P x Q\<close>: from \<open>P\<close>, the function only lets the chain continue with \<open>Q\<close>.
  \<open>stopping x\<close>: it never lets the chain continue.
\<close>

named_theorems stopping_intros \<open>programs that stop the chain\<close>

definition leads ::
  "(('w, 'o, 't) env \<Rightarrow> bool) \<Rightarrow> ('w, 'o, 't) ensure \<Rightarrow> (('w, 'o, 't) env \<Rightarrow> bool) \<Rightarrow> bool" where
  "leads P x Q \<longleftrightarrow> (\<forall>s. P s \<longrightarrow> wp x (\<lambda>r s'. continues r \<longrightarrow> Q s') s)"

definition stopping :: "('w, 'o, 't) ensure \<Rightarrow> bool" where
  "stopping x \<longleftrightarrow> (\<forall>s. wp x (\<lambda>r _. \<not> continues r) s)"

lemma stopping_return [stopping_intros]:
  "\<not> continues r \<Longrightarrow> stopping (State_Monad.return r)"
  by (simp add: stopping_def)

lemma stopping_bind [stopping_intros]:
  assumes "\<And>a. stopping (f a)"
  shows "stopping (State_Monad.bind m f)"
  unfolding stopping_def wp_bind
  by (rule allI, rule wpI) (use assms in \<open>simp add: stopping_def\<close>)

lemma stopping_if [stopping_intros]:
  "(b \<Longrightarrow> stopping m) \<Longrightarrow> (\<not> b \<Longrightarrow> stopping n) \<Longrightarrow> stopping (if b then m else n)"
  by simp

lemma stopping_case_option [stopping_intros]:
  "(x = None \<Longrightarrow> stopping m) \<Longrightarrow> (\<And>v. x = Some v \<Longrightarrow> stopping (f v)) \<Longrightarrow>
   stopping (case x of None \<Rightarrow> m | Some v \<Rightarrow> f v)"
  by (cases x) simp_all

lemma stopping_case_sum [stopping_intros]:
  "(\<And>e. x = Inl e \<Longrightarrow> stopping (f e)) \<Longrightarrow> (\<And>v. x = Inr v \<Longrightarrow> stopping (g v)) \<Longrightarrow>
   stopping (case x of Inl e \<Rightarrow> f e | Inr v \<Rightarrow> g v)"
  by (cases x) simp_all

lemma leads_stopping: "stopping x \<Longrightarrow> leads P x Q"
  unfolding leads_def stopping_def by (blast intro: wp_mono)

lemma leads_keeps: "keeps P x \<Longrightarrow> leads P x P"
  unfolding leads_def by (blast intro: wp_mono keeps_wp)

lemma leads_bind:
  assumes "keeps P m" and "\<And>a. leads P (f a) Q"
  shows "leads P (State_Monad.bind m f) Q"
  unfolding leads_def
proof (intro allI impI)
  fix s assume "P s"
  then have "wp m (\<lambda>_. P) s" using assms(1) by (rule keeps_wp [rotated])
  then show "wp (State_Monad.bind m f) (\<lambda>r s'. continues r \<longrightarrow> Q s') s"
    using assms(2) unfolding leads_def by (auto elim!: wp_mono)
qed

lemma leads_bind_gets:
  assumes "\<And>s. P s \<Longrightarrow> wp (f (g s)) (\<lambda>r s'. continues r \<longrightarrow> Q s') s"
  shows "leads P (State_Monad.bind (gets g) f) Q"
  unfolding leads_def using assms by simp

lemma leads_if:
  "(b \<Longrightarrow> leads P m Q) \<Longrightarrow> (\<not> b \<Longrightarrow> leads P n Q) \<Longrightarrow> leads P (if b then m else n) Q"
  by simp

lemma leads_case_option:
  "(x = None \<Longrightarrow> leads P m Q) \<Longrightarrow> (\<And>v. x = Some v \<Longrightarrow> leads P (f v) Q) \<Longrightarrow>
   leads P (case x of None \<Rightarrow> m | Some v \<Rightarrow> f v) Q"
  by (cases x) simp_all

lemma leads_case_sum:
  "(\<And>e. x = Inl e \<Longrightarrow> leads P (f e) Q) \<Longrightarrow> (\<And>v. x = Inr v \<Longrightarrow> leads P (g v) Q) \<Longrightarrow>
   leads P (case x of Inl e \<Rightarrow> f e | Inr v \<Rightarrow> g v) Q"
  by (cases x) simp_all

lemma leads_case_go:
  "(\<And>v. x = Ok v \<Longrightarrow> leads P (f v) Q) \<Longrightarrow> (\<And>e. x = Err e \<Longrightarrow> leads P (g e) Q) \<Longrightarrow>
   (x = Panic \<Longrightarrow> leads P h Q) \<Longrightarrow>
   leads P (case x of Ok v \<Rightarrow> f v | Err e \<Rightarrow> g e | Panic \<Rightarrow> h) Q"
  by (cases x) simp_all

lemma leads_case_prod:
  "(\<And>a b. p = (a, b) \<Longrightarrow> leads P (f a b) Q) \<Longrightarrow> leads P (case p of (a, b) \<Rightarrow> f a b) Q"
  by (cases p) simp

lemma leads_Let: "leads P (f v) Q \<Longrightarrow> leads P (Let v f) Q"
  by simp

lemmas leads_cases = leads_if leads_case_option leads_case_sum leads_case_go leads_case_prod

lemma leadsD: "leads P x Q \<Longrightarrow> P s \<Longrightarrow> wp x (\<lambda>r s'. continues r \<longrightarrow> Q s') s"
  by (simp add: leads_def)

text \<open>Annotated chains: each function leads from its assertion to the next.\<close>

inductive chain ::
  "(('w, 'o, 't) env \<Rightarrow> bool) \<Rightarrow> (Result go \<Rightarrow> ('w, 'o, 't) env \<Rightarrow> bool) \<Rightarrow>
   (('w, 'o, 't) env \<Rightarrow> bool) \<Rightarrow> ('w, 'o, 't) ensure list \<Rightarrow> bool"
  for Q R where
  chain_Nil: "(\<And>s. P s \<Longrightarrow> Q s) \<Longrightarrow> chain Q R P []"
| chain_Cons: "ensures P x M R \<Longrightarrow> chain Q R M xs \<Longrightarrow> chain Q R P (x # xs)"

text \<open>The result the loop returns for the outcome of the function that stopped it.\<close>

definition loop_result :: "Result go \<Rightarrow> Result go" where
  "loop_result r = (case r of Err e \<Rightarrow> stop_error e | _ \<Rightarrow> r)"

lemma loop_result_simps [simp]:
  "loop_result (Ok r) = Ok r" "loop_result (Err e) = stop_error e" "loop_result Panic = Panic"
  by (simp_all add: loop_result_def)

lemma chain_sound:
  assumes "chain Q R P xs" and "P s"
  shows "wp (run_loop xs)
           (\<lambda>r s'. case r of None \<Rightarrow> Q s' | Some o' \<Rightarrow> \<exists>r0. o' = loop_result r0 \<and> \<not> continues r0 \<and> R r0 s') s"
  using assms
proof (induction arbitrary: s rule: chain.induct)
  case (chain_Cons P x M xs)
  have "wp x (\<lambda>r s'. if continues r then M s' else R r s') s"
    using chain_Cons.hyps(1) chain_Cons.prems by (simp add: ensures_def)
  then have "wp x (\<lambda>r. wp (case r of
        Panic \<Rightarrow> State_Monad.return (Some Panic)
      | Err e \<Rightarrow> State_Monad.return (Some (stop_error e))
      | Ok result \<Rightarrow>
          if stops result then State_Monad.return (Some (Ok result)) else run_loop xs)
      (\<lambda>r s'. case r of None \<Rightarrow> Q s'
        | Some o' \<Rightarrow> \<exists>r0. o' = loop_result r0 \<and> \<not> continues r0 \<and> R r0 s')) s"
  proof (rule wp_mono)
    fix r s' assume "if continues r then M s' else R r s'"
    then show "wp (case r of
          Panic \<Rightarrow> State_Monad.return (Some Panic)
        | Err e \<Rightarrow> State_Monad.return (Some (stop_error e))
        | Ok result \<Rightarrow>
            if stops result then State_Monad.return (Some (Ok result)) else run_loop xs)
        (\<lambda>r s'. case r of None \<Rightarrow> Q s'
          | Some o' \<Rightarrow> \<exists>r0. o' = loop_result r0 \<and> \<not> continues r0 \<and> R r0 s') s'"
      by (cases r) (auto simp: chain_Cons.IH intro!: exI [of _ r] split: if_splits)
  qed
  then show ?case by simp
qed simp

lemma logs_run_loop:
  assumes "\<forall>x \<in> set xs. logs E x"
  shows "logs E (run_loop xs)"
  using assms by (induction xs) (auto intro!: logs_intros)

lemma logs_update_status [logs_intros]:
  "(\<And>x y r. E (Wrote (StatusPatch x) (ob_Embed ob y) r)) \<Longrightarrow> logs E (update_status cc ob original oc)"
  unfolding update_status_def by (intro logs_intros)

lemma logs_mark_ready [logs_intros]:
  "(\<And>x t r m. E (Event x t r m)) \<Longrightarrow> logs E (mark_ready cc ob original)"
  unfolding mark_ready_def cond_defs by (intro logs_intros)

lemma logs_Run:
  assumes "\<forall>x \<in> set xs. logs E x" and "\<And>x t r m. E (Event x t r m)"
    and "\<And>x y r. E (Wrote (StatusPatch x) (ob_Embed ob y) r)"
  shows "logs E (Run cc ob xs)"
  unfolding Run_def by (intro logs_intros logs_run_loop assms)

lemma wp_RunI:
  assumes "wp (run_loop xs) (\<lambda>r s1. case r of
      Some oc \<Rightarrow> wp (update_status cc ob (resource s) oc) Q s1
    | None \<Rightarrow> wp (mark_ready cc ob (resource s)) (\<lambda>_. wp (update_status cc ob (resource s) (Ok Result0)) Q) s1) s"
  shows "wp (Run cc ob xs) Q s"
  unfolding Run_def wp_bind wp_gets
  by (rule wp_mono [OF assms]) (auto split: option.splits)

text \<open>
  The chain as a transition system: a configuration is the list of functions still to run
  with the environment; a step runs a function that lets the chain continue.
\<close>

inductive arrives ::
  "('w, 'o, 't) ensure list \<Rightarrow> ('w, 'o, 't) env \<Rightarrow> ('w, 'o, 't) ensure list \<Rightarrow>
   ('w, 'o, 't) env \<Rightarrow> bool" for xs s where
  arrives_start: "arrives xs s xs s"
| arrives_step: "arrives xs s (y # ys) t \<Longrightarrow> run_state y t = (r, t') \<Longrightarrow> continues r \<Longrightarrow>
    arrives xs s ys t'"

lemma arrives_run_loop: "arrives xs s ys t \<Longrightarrow> run_state (run_loop xs) s = run_state (run_loop ys) t"
  by (induction rule: arrives.induct) (auto simp: continues_def split: go.splits)

lemma arrives_trans: "arrives ys t zs u \<Longrightarrow> arrives xs s ys t \<Longrightarrow> arrives xs s zs u"
  by (induction rule: arrives.induct) (auto intro: arrives_step)

lemma run_loop_stopped:
  assumes "run_state (run_loop xs) s = (Some r, s')"
  shows "\<exists>y ys t r0. arrives xs s (y # ys) t \<and> run_state y t = (r0, s') \<and>
           \<not> continues r0 \<and> r = loop_result r0"
  using assms
proof (induction xs arbitrary: s)
  case (Cons x xs)
  obtain r0 s0 where x: "run_state x s = (r0, s0)" by (metis surj_pair)
  show ?case
  proof (cases "continues r0")
    case True
    with x Cons.prems have "run_state (run_loop xs) s0 = (Some r, s')"
      by (auto simp: continues_def split: go.splits)
    then obtain y ys t r1 where "arrives xs s0 (y # ys) t" "run_state y t = (r1, s')"
      "\<not> continues r1" "r = loop_result r1" using Cons.IH by blast
    moreover have "arrives (x # xs) s xs s0" using x True by (auto intro: arrives.intros)
    ultimately show ?thesis by (blast intro: arrives_trans)
  next
    case False
    with x Cons.prems have "s0 = s'" "r = loop_result r0"
      by (auto simp: loop_result_def split: go.splits if_splits)
    with x False show ?thesis by (blast intro: arrives_start)
  qed
qed simp

lemma run_loop_finished:
  "run_state (run_loop xs) s = (None, s') \<longleftrightarrow> arrives xs s [] s'"
proof
  show "run_state (run_loop xs) s = (None, s') \<Longrightarrow> arrives xs s [] s'"
  proof (induction xs arbitrary: s)
    case (Cons x xs)
    obtain r0 s0 where x: "run_state x s = (r0, s0)" by (metis surj_pair)
    with Cons.prems have c: "continues r0" "run_state (run_loop xs) s0 = (None, s')"
      by (auto split: go.splits if_splits)
    have "arrives (x # xs) s xs s0" using x c(1) by (auto intro: arrives.intros)
    with Cons.IH [OF c(2)] show ?case by (meson arrives_trans)
  qed (auto intro: arrives_start)
next
  show "arrives xs s [] s' \<Longrightarrow> run_state (run_loop xs) s = (None, s')"
    using arrives_run_loop by fastforce
qed

section \<open>Laws of resources\<close>

text \<open>
  What the framework relies on of a resource: the metadata and the status are independent
  parts, writing one is seen by reading it, and the client round-trips the resource.
\<close>

locale object_laws =
  fixes ob :: "'o Object"
  assumes meta_set: "ob_Meta ob (ob_SetMeta ob f x) = f (ob_Meta ob x)"
    and status_set: "ob_Status ob (ob_SetStatus ob g x) = g (ob_Status ob x)"
    and meta_status: "ob_Meta ob (ob_SetStatus ob g x) = ob_Meta ob x"
    and status_meta: "ob_Status ob (ob_SetMeta ob f x) = ob_Status ob x"
    and status_same: "(\<And>st. st = ob_Status ob x \<Longrightarrow> g st = st) \<Longrightarrow> ob_SetStatus ob g x = x"
    and project_embed: "ob_Project ob (ob_Embed ob x) = Some x"
    and meta_embed: "meta_of (ob_Embed ob x) = ob_Meta ob x"
    and deep_equal_refl: "ob_DeepEqual ob x x"
begin

text \<open>A manager whose pointer is the condition of the type.\<close>

definition attached :: "ConditionManager \<Rightarrow> ConditionType \<Rightarrow> 'o \<Rightarrow> bool" where
  "attached c t x \<longleftrightarrow>
     cm_condition c = index_of t (st_Conditions (ob_Status ob x)) \<and> cm_condition c \<noteq> None"

lemma attached_ConditionMgr:
  "HasCondition (ob_Status ob x) t \<Longrightarrow> attached (ConditionMgr ob x t b) t x"
  by (auto simp: attached_def ConditionMgr_def HasCondition_def GetCondition_def split: option.splits)

lemma attachedE:
  assumes "attached c t x"
  obtains i where "cm_condition c = Some i" and "index_of t (st_Conditions (ob_Status ob x)) = Some i"
    and "i < length (st_Conditions (ob_Status ob x))"
    and "cd_Type (st_Conditions (ob_Status ob x) ! i) = t"
proof -
  have "cm_condition c \<noteq> None" using assms unfolding attached_def by (rule conjunct2)
  then obtain i where i: "cm_condition c = Some i" by blast
  then have "index_of t (st_Conditions (ob_Status ob x)) = Some i"
    using assms by (simp add: attached_def)
  with i index_of_Some [OF this] that show thesis by blast
qed

lemma GetCondition_attached:
  "attached c t x \<Longrightarrow> GetCondition (ob_Status ob x) t = Some (cm_GetCondition ob c x)"
  by (auto simp: GetCondition_def cm_GetCondition_def elim: attachedE)

lemma write_condition_types:
  assumes "attached c t x" and "cd_Type cond = t"
  shows "map cd_Type (st_Conditions (ob_Status ob (write_condition ob c cond x))) =
         map cd_Type (st_Conditions (ob_Status ob x))"
  using assms by (auto simp: write_condition_def status_set map_type_update elim!: attachedE)

lemma GetCondition_write:
  assumes "attached c t x" and "cd_Type cond = t"
  shows "GetCondition (ob_Status ob (write_condition ob c cond x)) u =
           (if u = t then Some cond else GetCondition (ob_Status ob x) u)"
  using assms by (auto simp: write_condition_def status_set GetCondition_set elim!: attachedE)

lemma meta_write [simp]: "ob_Meta ob (write_condition ob c cond x) = ob_Meta ob x"
  by (simp add: write_condition_def meta_status split: option.splits)

lemma HasCondition_write:
  assumes "attached c t x" and "cd_Type cond = t"
  shows "HasCondition (ob_Status ob (write_condition ob c cond x)) u =
           HasCondition (ob_Status ob x) u"
  using GetCondition_attached [OF assms(1)]
  by (simp add: HasCondition_def GetCondition_write [OF assms])

lemma attached_types:
  "map cd_Type (st_Conditions (ob_Status ob x)) = map cd_Type (st_Conditions (ob_Status ob y)) \<Longrightarrow>
   attached c t x = attached c t y"
  unfolding attached_def by (drule index_of_types [of _ _ t]) simp

lemma attached_write:
  assumes "attached c t x" and "attached d u x" and "cd_Type cond = u"
  shows "attached c t (write_condition ob d cond x)"
  using attached_types [OF write_condition_types [OF assms(2,3)]] assms(1) by simp

lemma cm_GetCondition_type: "attached c t x \<Longrightarrow> cd_Type (cm_GetCondition ob c x) = t"
  using GetCondition_attached GetCondition_type by blast

text \<open>A transition changes the condition of its manager and no other part of the status.\<close>

lemma transition_condition:
  assumes "attached c t (resource s)" and "\<And>y. cd_Type (f y) = cd_Type y"
  shows "GetCondition (ob_Status ob (resource (transition_env cc ob c f s))) u =
     (if u = t then Some (transitioned (cc_Now cc (world s)) f (cm_GetCondition ob c (resource s)))
      else GetCondition (ob_Status ob (resource s)) u)"
proof -
  have "cd_Type (transitioned (cc_Now cc (world s)) f (cm_GetCondition ob c (resource s))) = t"
    using assms by (simp add: transitioned_eq cm_GetCondition_type)
  then show ?thesis using assms(1) by (simp add: GetCondition_write)
qed

lemma set_through_condition:
  assumes "attached c t (resource s)"
  shows "wp (set_through cc ob c st re m d)
    (\<lambda>_ s'. (\<forall>u. u \<noteq> t \<longrightarrow>
               GetCondition (ob_Status ob (resource s')) u = GetCondition (ob_Status ob (resource s)) u) \<and>
            (\<exists>cond. GetCondition (ob_Status ob (resource s')) t = Some cond \<and>
               cd_Status cond = st \<and> cd_Reason cond = re \<and> cd_Message cond = m \<and>
               cd_ObservedGeneration cond = om_Generation (ob_Meta ob (resource s))) \<and>
            ob_Meta ob (resource s') = ob_Meta ob (resource s)) s"
proof -
  have "\<And>y. cd_Type (set_condition (om_Generation (ob_Meta ob (resource s))) st re m d y) = cd_Type y"
    by (simp add: set_condition_def)
  note tc = transition_condition [OF assms this]
  show ?thesis unfolding wp_set_through tc by simp
qed

lemma registered:
  defines "reg now specs x \<equiv> EnsureConditionsRegistered ob now specs x"
  shows "y \<in> set specs \<Longrightarrow> HasCondition (ob_Status ob (reg now specs x)) (csp_Type y)"
    and "GetCondition (ob_Status ob x) t = Some c \<Longrightarrow>
         GetCondition (ob_Status ob (reg now specs x)) t = Some c"
    and "distinct_types (st_Conditions (ob_Status ob x)) \<Longrightarrow>
         distinct_types (st_Conditions (ob_Status ob (reg now specs x)))"
    and "reg now' specs (reg now specs x) = reg now specs x"
    and "ob_Meta ob (reg now specs x) = ob_Meta ob x"
proof -
  show "y \<in> set specs \<Longrightarrow> HasCondition (ob_Status ob (reg now specs x)) (csp_Type y)"
    using register_covers by (simp add: reg_def EnsureConditionsRegistered_def status_set)
  show "GetCondition (ob_Status ob x) t = Some c \<Longrightarrow>
      GetCondition (ob_Status ob (reg now specs x)) t = Some c"
    by (simp add: reg_def EnsureConditionsRegistered_def status_set register_GetCondition)
  show "distinct_types (st_Conditions (ob_Status ob x)) \<Longrightarrow>
      distinct_types (st_Conditions (ob_Status ob (reg now specs x)))"
    by (simp add: reg_def EnsureConditionsRegistered_def status_set register_distinct)
  show "reg now' specs (reg now specs x) = reg now specs x"
    unfolding reg_def EnsureConditionsRegistered_def
    by (rule status_same)
      (simp add: status_set init_times_id init_times_set register_idem register_covers)
  show "ob_Meta ob (reg now specs x) = ob_Meta ob x"
    by (simp add: reg_def EnsureConditionsRegistered_def meta_status)
qed

lemma finalizers_set [simp]: "finalizers ob (SetFinalizers ob fs x) = fs"
  by (simp add: finalizers_def SetFinalizers_def meta_set)

text \<open>The deletion test in closed form.\<close>

lemma IsDeletionCandidate_iff:
  "IsDeletionCandidate ob fin x \<longleftrightarrow>
     om_DeletionTimestamp (ob_Meta ob x) \<noteq> None \<and>
     (finalizers ob x = [] \<or> finalizers ob x = [fin] \<or>
      fin \<noteq> FinalizerDeleteDependents \<and>
      (finalizers ob x = [fin, FinalizerDeleteDependents] \<or>
       finalizers ob x = [FinalizerDeleteDependents, fin]) \<or>
      fin = FinalizerDeleteDependents \<and> length (finalizers ob x) = 2 \<and> fin \<in> set (finalizers ob x))"
proof -
  have one: "length fs = 1 \<and> fin \<in> set fs \<longleftrightarrow> fs = [fin]" for fs :: "string list"
    by (cases fs) auto
  have two: "length fs = 2 \<and> fin \<in> set fs \<and> g \<in> set fs \<longleftrightarrow>
      fin \<noteq> g \<and> (fs = [fin, g] \<or> fs = [g, fin]) \<or> fin = g \<and> length fs = 2 \<and> fin \<in> set fs"
    for fs :: "string list" and g
  proof (cases "length fs = 2")
    case True
    then obtain a b where "fs = [a, b]" by (auto simp: length_Suc_conv numeral_2_eq_2)
    then show ?thesis by auto
  qed auto
  show ?thesis
    using one [of "finalizers ob x"] two [of "finalizers ob x" FinalizerDeleteDependents]
    by (auto simp: IsDeletionCandidate_def Let_def)
qed

lemma update_status_effect:
  "wp (update_status cc ob original outcome)
     (\<lambda>r s'. \<exists>y e. effects s' = effects s @ [Wrote (StatusPatch (ob_Embed ob original)) (ob_Embed ob y) e] \<and>
        y = ob_SetStatus ob (\<lambda>st. st\<lparr>st_LastReconcile :=
              updateReconcileStatus ob (cc_Now cc (world s)) (resource s) original (st_LastReconcile st)\<rparr>)
              (resource s) \<and>
        (r = outcome \<or> outcome \<noteq> Panic \<and> (\<exists>err. r = Err err \<and> \<not> IsNotFound err))) s"
  unfolding update_status_def
  by (auto simp: wp_simps intro!: any_client split: option.splits)

end

end
