(* ===== verification/Resources.thy ===== *)
theory Resources
  imports Framework
begin

text \<open>
  The resources that the framework reconciles: their accessor records and the proofs that they obey the laws of the interface. Semantic equality
  of the API machinery (\<open>apiequality.Semantic.DeepEqual\<close>) treats nil and empty maps alike.
\<close>

definition norm_map :: "'v gomap \<Rightarrow> 'v gomap" where
  "norm_map m = (if m = Some Map.empty then None else m)"

definition norm_meta :: "ObjectMeta \<Rightarrow> ObjectMeta" where
  "norm_meta m = m\<lparr>om_Labels := norm_map (om_Labels m), om_Annotations := norm_map (om_Annotations m)\<rparr>"

definition Configuration_Object :: "Configuration Object" where
  "Configuration_Object =
     \<lparr>ob_Meta = cfg_Meta,
      ob_SetMeta = (\<lambda>f x. x\<lparr>cfg_Meta := f (cfg_Meta x)\<rparr>),
      ob_Status = (\<lambda>x. cst_Common (cfg_Status x)),
      ob_SetStatus = (\<lambda>f x. x\<lparr>cfg_Status := (cfg_Status x)\<lparr>cst_Common := f (cst_Common (cfg_Status x))\<rparr>\<rparr>),
      ob_Embed = OConfiguration,
      ob_Project = as_Configuration,
      ob_DeepEqual = (\<lambda>x y. x\<lparr>cfg_Meta := norm_meta (cfg_Meta x)\<rparr> = y\<lparr>cfg_Meta := norm_meta (cfg_Meta y)\<rparr>)\<rparr>"

definition CloudResource_Object :: "CloudResource Object" where
  "CloudResource_Object =
     \<lparr>ob_Meta = cr_Meta,
      ob_SetMeta = (\<lambda>f x. x\<lparr>cr_Meta := f (cr_Meta x)\<rparr>),
      ob_Status = (\<lambda>x. crst_Common (cr_Status x)),
      ob_SetStatus = (\<lambda>f x. x\<lparr>cr_Status := (cr_Status x)\<lparr>crst_Common := f (crst_Common (cr_Status x))\<rparr>\<rparr>),
      ob_Embed = OCloudResource,
      ob_Project = as_CloudResource,
      ob_DeepEqual = (\<lambda>x y. x\<lparr>cr_Meta := norm_meta (cr_Meta x)\<rparr> = y\<lparr>cr_Meta := norm_meta (cr_Meta y)\<rparr>)\<rparr>"

definition Plan_Object :: "Plan Object" where
  "Plan_Object =
     \<lparr>ob_Meta = pln_Meta,
      ob_SetMeta = (\<lambda>f x. x\<lparr>pln_Meta := f (pln_Meta x)\<rparr>),
      ob_Status = (\<lambda>x. plst_Common (pln_Status x)),
      ob_SetStatus = (\<lambda>f x. x\<lparr>pln_Status := (pln_Status x)\<lparr>plst_Common := f (plst_Common (pln_Status x))\<rparr>\<rparr>),
      ob_Embed = OPlan,
      ob_Project = as_Plan,
      ob_DeepEqual = (\<lambda>x y. x\<lparr>pln_Meta := norm_meta (pln_Meta x)\<rparr> = y\<lparr>pln_Meta := norm_meta (pln_Meta y)\<rparr>)\<rparr>"

definition Revision_Object :: "Revision Object" where
  "Revision_Object =
     \<lparr>ob_Meta = rv_Meta,
      ob_SetMeta = (\<lambda>f x. x\<lparr>rv_Meta := f (rv_Meta x)\<rparr>),
      ob_Status = (\<lambda>x. rvst_Common (rv_Status x)),
      ob_SetStatus = (\<lambda>f x. x\<lparr>rv_Status := (rv_Status x)\<lparr>rvst_Common := f (rvst_Common (rv_Status x))\<rparr>\<rparr>),
      ob_Embed = ORevision,
      ob_Project = as_Revision,
      ob_DeepEqual = (\<lambda>x y. x\<lparr>rv_Meta := norm_meta (rv_Meta x)\<rparr> = y\<lparr>rv_Meta := norm_meta (rv_Meta y)\<rparr>)\<rparr>"

definition Provider_Object :: "Provider Object" where
  "Provider_Object =
     \<lparr>ob_Meta = prv_Meta,
      ob_SetMeta = (\<lambda>f x. x\<lparr>prv_Meta := f (prv_Meta x)\<rparr>),
      ob_Status = (\<lambda>x. prst_Common (prv_Status x)),
      ob_SetStatus = (\<lambda>f x. x\<lparr>prv_Status := (prv_Status x)\<lparr>prst_Common := f (prst_Common (prv_Status x))\<rparr>\<rparr>),
      ob_Embed = OProvider,
      ob_Project = as_Provider,
      ob_DeepEqual = (\<lambda>x y. x\<lparr>prv_Meta := norm_meta (prv_Meta x)\<rparr> = y\<lparr>prv_Meta := norm_meta (prv_Meta y)\<rparr>)\<rparr>"

interpretation cfg: object_laws Configuration_Object
  by unfold_locales (simp_all add: Configuration_Object_def)

interpretation cloudres: object_laws CloudResource_Object
  by unfold_locales (simp_all add: CloudResource_Object_def)

interpretation plan: object_laws Plan_Object
  by unfold_locales (simp_all add: Plan_Object_def)

interpretation revision: object_laws Revision_Object
  by unfold_locales (simp_all add: Revision_Object_def)

interpretation provider: object_laws Provider_Object
  by unfold_locales (simp_all add: Provider_Object_def)

lemma CloudResource_Object_simps [simp]:
  "ob_Meta CloudResource_Object = cr_Meta"
  "ob_Embed CloudResource_Object = OCloudResource"
  "ob_Project CloudResource_Object = as_CloudResource"
  "ob_Status CloudResource_Object x = crst_Common (cr_Status x)"
  by (simp_all add: CloudResource_Object_def)

lemma Revision_Object_simps [simp]:
  "ob_Meta Revision_Object = rv_Meta"
  "ob_Embed Revision_Object = ORevision"
  "ob_Project Revision_Object = as_Revision"
  "ob_Status Revision_Object x = rvst_Common (rv_Status x)"
  by (simp_all add: Revision_Object_def)

lemma Plan_Object_simps [simp]:
  "ob_Meta Plan_Object = pln_Meta"
  "ob_Embed Plan_Object = OPlan"
  "ob_Project Plan_Object = as_Plan"
  "ob_Status Plan_Object x = plst_Common (pln_Status x)"
  by (simp_all add: Plan_Object_def)

lemma Provider_Object_simps [simp]:
  "ob_Meta Provider_Object = prv_Meta"
  "ob_Embed Provider_Object = OProvider"
  "ob_Project Provider_Object = as_Provider"
  "ob_Status Provider_Object x = prst_Common (prv_Status x)"
  by (simp_all add: Provider_Object_def)

text \<open>A condition written on a configuration leaves its other fields alone.\<close>

lemma Configuration_Object_simps [simp]:
  "ob_Meta Configuration_Object = cfg_Meta"
  "ob_Embed Configuration_Object = OConfiguration"
  "ob_Project Configuration_Object = as_Configuration"
  "ob_Status Configuration_Object x = cst_Common (cfg_Status x)"
  by (simp_all add: Configuration_Object_def)

lemma write_condition_Configuration [simp]:
  "cfg_Type (write_condition Configuration_Object c cond x) = cfg_Type x"
  "cfg_Meta (write_condition Configuration_Object c cond x) = cfg_Meta x"
  "cfg_Spec (write_condition Configuration_Object c cond x) = cfg_Spec x"
  "cst_Costs (cfg_Status (write_condition Configuration_Object c cond x)) = cst_Costs (cfg_Status x)"
  "cst_DriftTimestamp (cfg_Status (write_condition Configuration_Object c cond x)) =
     cst_DriftTimestamp (cfg_Status x)"
  "cst_Resources (cfg_Status (write_condition Configuration_Object c cond x)) =
     cst_Resources (cfg_Status x)"
  "cst_ResourceStatus (cfg_Status (write_condition Configuration_Object c cond x)) =
     cst_ResourceStatus (cfg_Status x)"
  "cst_TerraformVersion (cfg_Status (write_condition Configuration_Object c cond x)) =
     cst_TerraformVersion (cfg_Status x)"
  by (simp_all add: write_condition_def Configuration_Object_def split: option.splits)

end
