(* ===== verification/Policies.thy ===== *)
theory Policies
  imports Utils
begin

text \<open>
  Choosing the security policy of a configuration: the weighted list of
  \<open>pkg/utils/weights\<close> and \<open>FindMatchingPolicy\<close> of \<open>pkg/utils/policies\<close>. The reference
  definition of the component is the set of matching policies with their weights; the lemmas
  show that the loops select the unique heaviest one.
\<close>

section \<open>Weights\<close>

record weight_item =
  wi_weight :: int
  wi_object :: Policy

type_synonym Weights = "weight_item list"

text \<open>\<open>GroupVersionKind().String()\<close> of an object's type metadata.\<close>

definition gvk_string :: "TypeMeta \<Rightarrow> string" where
  "gvk_string t =
     (let (group, version, kind) =
        (if tm_APIVersion t = [] \<or> tm_APIVersion t = ''/'' then ([], [], tm_Kind t)
         else (case Split (tm_APIVersion t) CHR ''/'' of
                 [v] \<Rightarrow> ([], v, tm_Kind t)
               | [g, v] \<Rightarrow> (g, v, tm_Kind t)
               | _ \<Rightarrow> ([], [], tm_Kind t)))
      in group @ ''/'' @ version @ '', Kind='' @ kind)"

definition equalObjects :: "Policy \<Rightarrow> Policy \<Rightarrow> bool" where
  "equalObjects a b =
     (if gvk_string (pol_Type a) \<noteq> gvk_string (pol_Type b) then False
      else if om_Namespace (pol_Meta a) \<noteq> om_Namespace (pol_Meta b) then False
      else if om_Name (pol_Meta a) \<noteq> om_Name (pol_Meta b) then False
      else True)"

definition Weights_New :: Weights where
  "Weights_New = []"

fun Weights_Add :: "Policy \<Rightarrow> int \<Rightarrow> Weights \<Rightarrow> Weights" where
  "Weights_Add x weight [] = [\<lparr>wi_weight = weight, wi_object = x\<rparr>]"
| "Weights_Add x weight (i # is) =
     (if equalObjects (wi_object i) x then i\<lparr>wi_weight := wi_weight i + weight\<rparr> # is
      else i # Weights_Add x weight is)"

fun max_weight :: "int \<Rightarrow> Weights \<Rightarrow> int" where
  "max_weight weight [] = weight"
| "max_weight weight (i # is) =
     (if wi_weight i > weight then max_weight (wi_weight i) is else max_weight weight is)"

definition Weights_Max :: "Weights \<Rightarrow> int" where
  "Weights_Max w = max_weight 0 w"

definition Weights_Size :: "Weights \<Rightarrow> nat" where
  "Weights_Size w = length w"

definition Highest :: "Weights \<Rightarrow> Policy list" where
  "Highest w = map wi_object (filter (\<lambda>i. wi_weight i = Weights_Max w) w)"

definition HighestNames :: "Weights \<Rightarrow> string list" where
  "HighestNames w = map (\<lambda>p. om_Name (pol_Meta p)) (Highest w)"

section \<open>Finding policies\<close>

definition checkov_of :: "Policy \<Rightarrow> PolicyConstraint option" where
  "checkov_of p = Option.bind (ps_Constraints (pol_Spec p)) cn_Checkov"

definition FindModuleConstraints :: "Policy list \<Rightarrow> Policy list" where
  "FindModuleConstraints items =
     filter (\<lambda>policy. case ps_Constraints (pol_Spec policy) of
                        None \<Rightarrow> False
                      | Some cn \<Rightarrow> if cn_Modules cn = None then False else True) items"

definition FindSecurityPolicyConstraints :: "Policy list \<Rightarrow> Policy list" where
  "FindSecurityPolicyConstraints items =
     filter (\<lambda>policy. case ps_Constraints (pol_Spec policy) of
                        None \<Rightarrow> False
                      | Some cn \<Rightarrow> if cn_Checkov cn = None then False else True) items"

text \<open>
  The body of the loop of \<open>FindMatchingPolicy\<close>: \<open>None\<close> when the policy is skipped, otherwise
  its weight. The namespace selector is ignored when it is empty, the resource selector is
  not (an empty selector matches everything).
\<close>

definition policy_weight ::
  "Libs \<Rightarrow> string gomap \<Rightarrow> string gomap \<Rightarrow> Policy \<Rightarrow> gerror + int option" where
  "policy_weight lib labels namespaceLabels p =
     (case checkov_of p of
        None \<Rightarrow> Inr None
      | Some checkov \<Rightarrow>
          (case pc_Selector checkov of
             None \<Rightarrow> Inr (Some 0)
           | Some sel \<Rightarrow>
               let resource = (\<lambda>weight.
                     case sel_Resource sel of
                       None \<Rightarrow> Inr (Some weight)
                     | Some r \<Rightarrow>
                         (case lib_Selector lib (Some r) of
                            Inl err \<Rightarrow> Inl err
                          | Inr selector \<Rightarrow>
                              if \<not> mt_Matches selector labels then Inr None
                              else Inr (Some (weight + 20))))
               in (case sel_Namespace sel of
                     None \<Rightarrow> resource 0
                   | Some n \<Rightarrow>
                       (case lib_Selector lib (Some n) of
                          Inl err \<Rightarrow> Inl err
                        | Inr selector \<Rightarrow>
                            if \<not> mt_Empty selector \<and> \<not> mt_Matches selector namespaceLabels
                            then Inr None
                            else resource (0 + 10)))))"

fun weigh_policies ::
  "Libs \<Rightarrow> string gomap \<Rightarrow> string gomap \<Rightarrow> Weights \<Rightarrow> Policy list \<Rightarrow> gerror + Weights" where
  "weigh_policies lib labels nsLabels priority [] = Inr priority"
| "weigh_policies lib labels nsLabels priority (p # ps) =
     (case policy_weight lib labels nsLabels p of
        Inl err \<Rightarrow> Inl err
      | Inr None \<Rightarrow> weigh_policies lib labels nsLabels priority ps
      | Inr (Some weight) \<Rightarrow>
          weigh_policies lib labels nsLabels (Weights_Add p weight priority) ps)"

definition FindMatchingPolicy ::
  "Libs \<Rightarrow> Configuration \<Rightarrow> Namespace \<Rightarrow> Policy list \<Rightarrow> gerror + PolicyConstraint option" where
  "FindMatchingPolicy lib configuration namespace items =
     (if length items = 0 then Inr None
      else (case weigh_policies lib (om_Labels (cfg_Meta configuration))
                   (om_Labels (ns_Meta namespace)) Weights_New items of
              Inl err \<Rightarrow> Inl err
            | Inr priority \<Rightarrow>
                if Weights_Size priority = 0 then Inr None
                else (case Highest priority of
                        [p] \<Rightarrow> Inr (checkov_of p)
                      | [] \<Rightarrow> Inr None
                      | _ \<Rightarrow> Inl (ErrMsg (Sprintf ''multiple policies match configuration: %s''
                                 [FStr (Join (HighestNames priority) '', '')])))))"

section \<open>The heaviest policy\<close>

lemma max_weight_max: "max_weight weight is = Max (set (weight # map wi_weight is))"
proof (induction "is" arbitrary: weight)
  case (Cons i js)
  have "max_weight weight (i # js) = max_weight (max weight (wi_weight i)) js"
    by (simp add: max_def)
  also have "\<dots> = Max (insert (max weight (wi_weight i)) (wi_weight ` set js))"
    by (simp add: Cons.IH)
  also have "\<dots> = Max (insert weight (insert (wi_weight i) (wi_weight ` set js)))"
    by (cases "js = []") (simp_all add: max.assoc)
  finally show ?case by simp
qed simp

lemma max_weight_upper: "i \<in> set is \<Longrightarrow> wi_weight i \<le> max_weight weight is"
  unfolding max_weight_max by (rule Max_ge) simp_all

lemma max_weight_attained:
  "max_weight weight is = weight \<or> (\<exists>i \<in> set is. wi_weight i = max_weight weight is)"
proof -
  have "max_weight weight is \<in> set (weight # map wi_weight is)"
    unfolding max_weight_max by (rule Max_in) simp_all
  then show ?thesis by auto
qed

lemma Weights_Max_attained:
  assumes "is \<noteq> []" and "\<forall>i \<in> set is. 0 \<le> wi_weight i"
  shows "\<exists>i \<in> set is. wi_weight i = Weights_Max is"
proof (cases "Weights_Max is = 0")
  case True
  obtain i where "i \<in> set is" using assms(1) by (cases "is") auto
  moreover have "wi_weight i \<le> 0"
    using max_weight_upper [OF \<open>i \<in> set is\<close>, of 0] True by (simp add: Weights_Max_def)
  ultimately show ?thesis using assms(2) True by force
next
  case False
  then show ?thesis using max_weight_attained [of 0 "is"] by (auto simp: Weights_Max_def)
qed

text \<open>Policies are cluster scoped: within a list no two have the same identity.\<close>

definition distinct_policies :: "Policy list \<Rightarrow> bool" where
  "distinct_policies ps \<longleftrightarrow> pairwise (\<lambda>a b. \<not> equalObjects a b) (set ps) \<and> distinct ps"

lemma Weights_Add_fresh:
  "\<forall>i \<in> set w. \<not> equalObjects (wi_object i) p \<Longrightarrow>
   Weights_Add p x w = w @ [\<lparr>wi_weight = x, wi_object = p\<rparr>]"
  by (induction w) auto

text \<open>The reference: the matching policies with their weights, in list order.\<close>

fun matching ::
  "Libs \<Rightarrow> string gomap \<Rightarrow> string gomap \<Rightarrow> Policy list \<Rightarrow> Weights" where
  "matching lib l n [] = []"
| "matching lib l n (p # ps) =
     (case policy_weight lib l n p of
        Inr (Some w) \<Rightarrow> \<lparr>wi_weight = w, wi_object = p\<rparr> # matching lib l n ps
      | _ \<Rightarrow> matching lib l n ps)"

lemma matching_set:
  "i \<in> set (matching lib l n ps) \<longleftrightarrow>
     wi_object i \<in> set ps \<and> policy_weight lib l n (wi_object i) = Inr (Some (wi_weight i))"
  by (induction ps) (auto split: sum.splits option.splits)

lemma matching_distinct: "distinct ps \<Longrightarrow> distinct (map wi_object (matching lib l n ps))"
  by (induction ps) (auto simp: matching_set split: sum.splits option.splits)

lemma policy_weight_nonneg: "policy_weight lib l n p = Inr (Some w) \<Longrightarrow> 0 \<le> w"
  by (auto simp: policy_weight_def Let_def split: option.splits sum.splits if_splits)

lemma policy_weight_checkov: "policy_weight lib l n p = Inr (Some w) \<Longrightarrow> checkov_of p \<noteq> None"
  by (auto simp: policy_weight_def split: option.splits)

lemma weigh_policies_matching:
  assumes "\<forall>p \<in> set ps. \<forall>e. policy_weight lib l n p \<noteq> Inl e"
    and "distinct_policies ps"
    and "\<forall>i \<in> set acc. \<forall>p \<in> set ps. \<not> equalObjects (wi_object i) p"
  shows "weigh_policies lib l n acc ps = Inr (acc @ matching lib l n ps)"
  using assms
proof (induction ps arbitrary: acc)
  case (Cons p ps)
  have d: "distinct_policies ps" "\<forall>q \<in> set ps. \<not> equalObjects p q"
    using Cons.prems(2) by (auto simp: distinct_policies_def pairwise_insert)
  show ?case
  proof (cases "policy_weight lib l n p")
    case (Inr o_w)
    show ?thesis
    proof (cases o_w)
      case None
      with Inr Cons d show ?thesis by simp
    next
      case (Some w)
      have add: "Weights_Add p w acc = acc @ [\<lparr>wi_weight = w, wi_object = p\<rparr>]"
        using Cons.prems(3) by (intro Weights_Add_fresh) simp
      with Inr Some Cons d show ?thesis by simp
    qed
  qed (use Cons.prems(1) in simp)
qed simp

lemma weigh_policies_error:
  "weigh_policies lib l n acc ps = Inl e \<Longrightarrow> \<exists>p \<in> set ps. policy_weight lib l n p = Inl e"
  by (induction ps arbitrary: acc) (auto split: sum.splits option.splits)

text \<open>Membership of the heaviest items.\<close>

lemma Highest_set:
  "p \<in> set (Highest w) \<longleftrightarrow> (\<exists>i \<in> set w. wi_object i = p \<and> wi_weight i = Weights_Max w)"
  by (auto simp: Highest_def)

lemma Highest_nonempty:
  assumes "w \<noteq> []" and "\<forall>i \<in> set w. 0 \<le> wi_weight i"
  shows "Highest w \<noteq> []"
  using Weights_Max_attained [OF assms] by (auto simp: Highest_def filter_empty_conv)

lemma Highest_single:
  assumes "distinct (map wi_object w)" and "i \<in> set w" and "0 \<le> wi_weight i"
    and "\<forall>j \<in> set w. j \<noteq> i \<longrightarrow> wi_weight j < wi_weight i"
  shows "Highest w = [wi_object i]"
proof -
  have max: "Weights_Max w = wi_weight i"
  proof -
    have "wi_weight i \<le> Weights_Max w"
      using max_weight_upper [OF assms(2)] by (simp add: Weights_Max_def)
    moreover have "Weights_Max w = 0 \<or> (\<exists>j \<in> set w. wi_weight j = Weights_Max w)"
      using max_weight_attained [of 0 w] by (simp add: Weights_Max_def)
    ultimately show ?thesis using assms(3,4) by (metis less_le_not_le order_antisym)
  qed
  have "filter (\<lambda>j. wi_weight j = Weights_Max w) w = filter (\<lambda>j. j = i) w"
    using assms(4) max by (intro filter_cong refl) (metis less_irrefl)
  also have "\<dots> = [i]"
  proof -
    have "distinct w" using assms(1) by (simp add: distinct_map)
    then show ?thesis using assms(2)
      by (induction w) (auto simp: filter_empty_conv)
  qed
  finally show ?thesis by (simp add: Highest_def)
qed

end
