(* ===== verification/Terraform_Jobs.thy ===== *)
theory Terraform_Jobs
  imports Framework Policies
begin

text \<open>
  Rendering: the terraform helpers (\<open>pkg/utils/terraform/utils.go\<close>, \<open>errors.go\<close>) and the
  jobs the controller runs (\<open>pkg/utils/jobs/jobs.go\<close>). The template engine
  (\<open>text/template\<close> with sprig) and the YAML decoder are parameters, the record \<open>Renderers\<close>;
  the parameters that the code passes to a template are modelled in full.
\<close>

section \<open>Terraform helpers\<close>

definition DecodeState :: "Libs \<Rightarrow> bytes \<Rightarrow> gerror + TfState" where
  "DecodeState lib inp =
     (case lib_Gunzip lib inp of Inl err \<Rightarrow> Inl err | Inr decoded \<Rightarrow> lib_JSONState lib decoded)"

definition DecodePlan :: "Libs \<Rightarrow> bytes \<Rightarrow> gerror + TfPlan" where
  "DecodePlan lib inp =
     (case lib_Gunzip lib inp of Inl err \<Rightarrow> Inl err | Inr decoded \<Rightarrow> lib_JSONPlan lib decoded)"

record ErrorDetection =
  ed_Regex :: string
  ed_Message :: string

fun Detectors :: "string \<Rightarrow> ErrorDetection list" where
  "Detectors p =
     (if p = ''aws'' then
        [\<lparr>ed_Regex = ''operation error STS: GetCallerIdentity'',
          ed_Message = ''AWS Credentials in provider has been missconfigured, contact platform administrator''\<rparr>]
      else if p = ''*'' then
        [\<lparr>ed_Regex = ''error validating provider credentials'',
          ed_Message = ''Provider credentials are missconfigured, please contact the platform administrator''\<rparr>]
      else [])"

record BackendParams =
  bp_namespace :: string
  bp_labels :: "string gomap"
  bp_suffix :: string
  bp_configuration :: Configuration

record ProviderParams =
  pp_Name :: string
  pp_Namespace :: string
  pp_SecretRef :: "SecretReference option"
  pp_ServiceAccount :: string
  pp_Source :: string

record ConfigurationParams =
  cp_Generation :: string
  cp_Module :: string
  cp_Name :: string
  cp_Namespace :: string
  cp_UUID :: string
  cp_Variables :: "RawExtension option"

record ImageParams =
  ip_Executor :: string
  ip_Infracosts :: string
  ip_Image :: string
  ip_Policy :: string

record SecretParams =
  sp_AdditionalSecrets :: "string list"
  sp_Config :: string
  sp_Infracosts :: string
  sp_InfracostsReport :: string
  sp_PolicyReport :: string
  sp_TerraformPlanJSON :: string
  sp_TerraformPlanOut :: string
  sp_TerraformState :: string

record ResourceParams =
  rp_MemoryRequest :: string
  rp_MemoryLimit :: string
  rp_CPURequest :: string
  rp_CPULimit :: string

text \<open>
  The parameters of the job template. \<open>jp_BackoffLimit\<close> is what the template finds under the
  key \<open>BackoffLimit\<close>: \<open>None\<close> when the map has no such key.
\<close>

record JobParams =
  jp_GenerateName :: string
  jp_Namespace :: string
  jp_Annotations :: "string gomap"
  jp_Labels :: "string gomap"
  jp_BackoffLimit :: "int option"
  jp_BinaryPath :: string
  jp_Resources :: ResourceParams
  jp_Provider :: ProviderParams
  jp_EnableInfraCosts :: bool
  jp_EnableVariables :: bool
  jp_EnableTFVars :: bool
  jp_ExecutorSecrets :: "string list"
  jp_ImagePullPolicy :: string
  jp_Policy :: "PolicyConstraint option"
  jp_SaveTerraformState :: bool
  jp_ServiceAccount :: string
  jp_Stage :: string
  jp_TerraformArguments :: string
  jp_TerraformContainerName :: string
  jp_Configuration :: ConfigurationParams
  jp_Images :: ImageParams
  jp_Secrets :: SecretParams

text \<open>
  \<open>rn_Job\<close> renders a job template and decodes the YAML into a job, \<open>rn_Backend\<close> renders a
  backend template, \<open>rn_Provider\<close> the provider template, \<open>rn_Checkov\<close> the checkov template;
  \<open>rn_JobAsset\<close> is the embedded \<open>job.yaml.tpl\<close> and \<open>rn_BackendTemplate\<close> the default backend
  template.
\<close>

record Renderers =
  rn_Job :: "bytes \<Rightarrow> JobParams \<Rightarrow> gerror + Job"
  rn_Backend :: "string \<Rightarrow> BackendParams \<Rightarrow> gerror + bytes"
  rn_Provider :: "(string \<rightharpoonup> json) \<Rightarrow> string \<Rightarrow> gerror + bytes"
  rn_Checkov :: "PolicyConstraint \<Rightarrow> gerror + bytes"
  rn_JobAsset :: bytes
  rn_BackendTemplate :: string

definition NewCheckovPolicy :: "Renderers \<Rightarrow> PolicyConstraint option \<Rightarrow> gerror + bytes" where
  "NewCheckovPolicy rn policy =
     (case policy of
        None \<Rightarrow> Inl (ErrMsg ''no policy provided'')
      | Some p \<Rightarrow> rn_Checkov rn p)"

text \<open>The literal \<open>{"features":{}}\<close>.\<close>

definition azure_features :: bytes where
  "azure_features = ''{'' @ Quote ''features'' @ '':{}}''"

definition NewTerraformProvider :: "Libs \<Rightarrow> Renderers \<Rightarrow> string \<Rightarrow> bytes \<Rightarrow> gerror + bytes" where
  "NewTerraformProvider lib rn provider configuration =
     (let azure = (provider = ProviderType_String AzureProviderType);
          raw = (if azure \<and> length configuration = 0 then azure_features else configuration);
          decoded = (if length raw > 0 then lib_JSONObject lib raw else Inr Map.empty)
      in case decoded of
           Inl err \<Rightarrow> Inl err
         | Inr config \<Rightarrow>
             let config' = (if azure \<and> (config ''features'' = None \<or> config ''features'' = Some JNull)
                            then config(''features'' \<mapsto> JObj []) else config)
             in (case rn_Provider rn config' provider of
                   Inl err \<Rightarrow> Inl err
                 | Inr rendered \<Rightarrow> Inr (lib_PrettyJSON lib rendered)))"

record BackendOptions =
  bo_Configuration :: Configuration
  bo_Namespace :: string
  bo_Suffix :: string
  bo_Template :: string

definition NewKubernetesBackend :: "Renderers \<Rightarrow> BackendOptions \<Rightarrow> gerror + bytes" where
  "NewKubernetesBackend rn options =
     (let cfg = bo_Configuration options; m = cfg_Meta cfg in
      rn_Backend rn (bo_Template options)
        \<lparr>bp_namespace = bo_Namespace options,
         bp_labels = Some [ConfigurationGenerationLabel \<mapsto> string_of_int (om_Generation m),
                           ConfigurationNameLabel \<mapsto> om_Name m,
                           ConfigurationNamespaceLabel \<mapsto> om_Namespace m,
                           ConfigurationUIDLabel \<mapsto> om_UID m],
         bp_suffix = bo_Suffix options,
         bp_configuration = cfg\<rparr>)"

section \<open>Jobs\<close>

definition DefaultServiceAccount :: string where
  "DefaultServiceAccount = ''terranetes-executor''"

definition TerraformContainerName :: string where
  "TerraformContainerName = ''terraform''"

record Options =
  op_AdditionalJobAnnotations :: "string gomap"
  op_AdditionalJobSecrets :: "string list"
  op_AdditionalJobLabels :: "string gomap"
  op_BackoffLimit :: int
  op_BinaryPath :: string
  op_DefaultExecutorMemoryRequest :: string
  op_DefaultExecutorMemoryLimit :: string
  op_DefaultExecutorCPURequest :: string
  op_DefaultExecutorCPULimit :: string
  op_EnableInfraCosts :: bool
  op_ExecutorImage :: string
  op_ExecutorSecrets :: "string list"
  op_InfracostsImage :: string
  op_InfracostsSecret :: string
  op_Namespace :: string
  op_PolicyConstraint :: "PolicyConstraint option"
  op_PolicyImage :: string
  op_SaveTerraformState :: bool
  op_Template :: bytes
  op_Image :: string

record Render =
  rd_configuration :: Configuration
  rd_provider :: "Provider option"

definition Render_New :: "Configuration \<Rightarrow> Provider option \<Rightarrow> Render" where
  "Render_New configuration provider = \<lparr>rd_configuration = configuration, rd_provider = provider\<rparr>"

text \<open>\<open>metav1.NewControllerRef\<close> for a configuration.\<close>

definition NewControllerRef :: "Configuration \<Rightarrow> OwnerReference" where
  "NewControllerRef c =
     \<lparr>or_APIVersion = tm_APIVersion (cfg_Type c), or_Kind = tm_Kind (cfg_Type c),
      or_Name = om_Name (cfg_Meta c), or_UID = om_UID (cfg_Meta c),
      or_Controller = Some True, or_BlockOwnerDeletion = Some True\<rparr>"

definition watch_endpoint :: "Configuration \<Rightarrow> string \<Rightarrow> string \<Rightarrow> string" where
  "watch_endpoint c namespace stage =
     (let m = cfg_Meta c;
          query = [''generation='' @ string_of_int (om_Generation m),
                   ''name='' @ om_Name m,
                   ''namespace='' @ om_Namespace m,
                   ''stage='' @ stage,
                   ''uid='' @ om_UID m]
      in Sprintf ''http://controller.%s.svc.cluster.local/v1/builds/%s/%s/logs?%s''
           [FStr namespace, FStr (om_Namespace m), FStr (om_Name m), FStr (Join query ''&'')])"

definition NewJobWatch :: "Render \<Rightarrow> string \<Rightarrow> string \<Rightarrow> string \<Rightarrow> Job" where
  "NewJobWatch r namespace stage executorImage =
     (let c = rd_configuration r; m = cfg_Meta c;
          retry = (if HasRetryableAnnotation c
                   then (\<lambda>l. map_option (\<lambda>f. f(RetryAnnotation \<mapsto>
                            Configuration_annotation c RetryAnnotation)) l)
                   else (\<lambda>l. l))
      in \<lparr>job_Meta = empty_meta
            \<lparr>om_Name := Sprintf ''%s-%d-%s'' [FStr (om_Name m), FInt (om_Generation m), FStr stage],
             om_Namespace := om_Namespace m,
             om_Labels := retry (MergeStringMaps
               [om_Labels m,
                Some [ConfigurationGenerationLabel \<mapsto> string_of_int (om_Generation m),
                      ConfigurationNameLabel \<mapsto> om_Name m,
                      ConfigurationNamespaceLabel \<mapsto> om_Namespace m,
                      ConfigurationStageLabel \<mapsto> stage,
                      ConfigurationUIDLabel \<mapsto> om_UID m]]),
             om_OwnerReferences := [NewControllerRef c]\<rparr>,
          job_Spec =
            \<lparr>js_BackoffLimit = Some 0, js_Completions = Some 1, js_Parallelism = Some 1,
             js_TTLSecondsAfterFinished = Some 3600,
             js_Template =
               \<lparr>pt_Labels = retry (MergeStringMaps
                  [om_Labels m,
                   Some [ConfigurationGenerationLabel \<mapsto> string_of_int (om_Generation m),
                         ConfigurationNameLabel \<mapsto> om_Name m,
                         ConfigurationStageLabel \<mapsto> stage,
                         ConfigurationUIDLabel \<mapsto> om_UID m]]),
                pt_RestartPolicy = ''Never'',
                pt_RunAsGroup = Some 65534, pt_RunAsNonRoot = Some True, pt_RunAsUser = Some 65534,
                pt_Containers =
                  [\<lparr>ct_Name = ''watch'', ct_Image = executorImage,
                    ct_ImagePullPolicy = ''IfNotPresent'', ct_Command = [''/watch_logs.sh''],
                    ct_Args = [''-e'', watch_endpoint c namespace stage],
                    ct_AllowPrivilegeEscalation = Some False, ct_DropCapabilities = [''ALL''],
                    ct_Privileged = Some False\<rparr>]\<rparr>\<rparr>,
          job_Active = 0, job_Conditions = []\<rparr>)"

definition terraform_arguments :: "ConfigurationSpec \<Rightarrow> string" where
  "terraform_arguments spec =
     (let arguments = (if HasVariables spec
                       then Sprintf ''--var-file %s'' [FStr TerraformVariablesConfigMapKey] else [])
      in if cs_TFVars spec \<noteq> []
         then Sprintf ''--var-file %s %s'' [FStr TerraformTFVarsConfigMapKey, FStr arguments]
         else arguments)"

text \<open>The map of parameters of \<open>createTerraformFromTemplate\<close>; it has no key \<open>BackoffLimit\<close>.\<close>

definition job_params :: "Configuration \<Rightarrow> Provider \<Rightarrow> Options \<Rightarrow> string \<Rightarrow> JobParams" where
  "job_params c p options stage =
     (let m = cfg_Meta c; spec = cfg_Spec c in
      \<lparr>jp_GenerateName = Sprintf ''%s-%s-'' [FStr (om_Name m), FStr stage],
       jp_Namespace = op_Namespace options,
       jp_Annotations = op_AdditionalJobAnnotations options,
       jp_Labels = MergeStringMaps
         [op_AdditionalJobLabels options,
          Some [ConfigurationGenerationLabel \<mapsto> string_of_int (om_Generation m),
                ConfigurationNameLabel \<mapsto> om_Name m,
                ConfigurationNamespaceLabel \<mapsto> om_Namespace m,
                ConfigurationStageLabel \<mapsto> stage,
                ConfigurationUIDLabel \<mapsto> om_UID m]],
       jp_BackoffLimit = None,
       jp_BinaryPath = op_BinaryPath options,
       jp_Resources = \<lparr>rp_MemoryRequest = op_DefaultExecutorMemoryRequest options,
         rp_MemoryLimit = op_DefaultExecutorMemoryLimit options,
         rp_CPURequest = op_DefaultExecutorCPURequest options,
         rp_CPULimit = op_DefaultExecutorCPULimit options\<rparr>,
       jp_Provider = \<lparr>pp_Name = om_Name (prv_Meta p), pp_Namespace = om_Namespace (prv_Meta p),
         pp_SecretRef = prs_SecretRef (prv_Spec p),
         pp_ServiceAccount = (case prs_ServiceAccount (prv_Spec p) of None \<Rightarrow> [] | Some a \<Rightarrow> a),
         pp_Source = SourceType_String (prs_Source (prv_Spec p))\<rparr>,
       jp_EnableInfraCosts = op_EnableInfraCosts options,
       jp_EnableVariables = HasVariables spec,
       jp_EnableTFVars = (cs_TFVars spec \<noteq> []),
       jp_ExecutorSecrets = op_ExecutorSecrets options,
       jp_ImagePullPolicy = ''IfNotPresent'',
       jp_Policy = op_PolicyConstraint options,
       jp_SaveTerraformState = op_SaveTerraformState options,
       jp_ServiceAccount = DefaultServiceAccount,
       jp_Stage = stage,
       jp_TerraformArguments = terraform_arguments spec,
       jp_TerraformContainerName = TerraformContainerName,
       jp_Configuration = \<lparr>cp_Generation = string_of_int (om_Generation m),
         cp_Module = cs_Module spec, cp_Name = om_Name m, cp_Namespace = om_Namespace m,
         cp_UUID = om_UID m, cp_Variables = cs_Variables spec\<rparr>,
       jp_Images = \<lparr>ip_Executor = op_ExecutorImage options,
         ip_Infracosts = op_InfracostsImage options, ip_Image = op_Image options,
         ip_Policy = op_PolicyImage options\<rparr>,
       jp_Secrets = \<lparr>sp_AdditionalSecrets = op_AdditionalJobSecrets options,
         sp_Config = GetTerraformConfigSecretName c,
         sp_Infracosts = op_InfracostsSecret options,
         sp_InfracostsReport = GetTerraformCostSecretName c,
         sp_PolicyReport = GetTerraformPolicySecretName c,
         sp_TerraformPlanJSON = GetTerraformPlanJSONSecretName c,
         sp_TerraformPlanOut = GetTerraformPlanOutSecretName c,
         sp_TerraformState = GetTerraformStateSecretName c\<rparr>\<rparr>)"

definition createTerraformFromTemplate ::
  "Renderers \<Rightarrow> Render \<Rightarrow> Options \<Rightarrow> string \<Rightarrow> Job go" where
  "createTerraformFromTemplate rn r options stage =
     (case rd_provider r of
        None \<Rightarrow> Panic
      | Some p \<Rightarrow>
          (case rn_Job rn (op_Template options) (job_params (rd_configuration r) p options stage) of
             Inl err \<Rightarrow> Err err
           | Inr job \<Rightarrow> Ok job))"

definition NewTerraformPlan :: "Renderers \<Rightarrow> Render \<Rightarrow> Options \<Rightarrow> Job go" where
  "NewTerraformPlan rn r options = createTerraformFromTemplate rn r options StageTerraformPlan"

definition NewTerraformApply :: "Renderers \<Rightarrow> Render \<Rightarrow> Options \<Rightarrow> Job go" where
  "NewTerraformApply rn r options = createTerraformFromTemplate rn r options StageTerraformApply"

definition NewTerraformDestroy :: "Renderers \<Rightarrow> Render \<Rightarrow> Options \<Rightarrow> Job go" where
  "NewTerraformDestroy rn r options = createTerraformFromTemplate rn r options StageTerraformDestroy"

definition TemplateHash :: "Libs \<Rightarrow> bytes \<Rightarrow> string" where
  "TemplateHash lib data = ToLower (lib_Base32SHA256 lib data)"

section \<open>Labels of the jobs\<close>

text \<open>The stage a job is labelled with.\<close>

definition job_stage :: "Job \<Rightarrow> string" where
  "job_stage j = gomap_get (om_Labels (job_Meta j)) ConfigurationStageLabel"

text \<open>What the embedded template does with the labels: it copies them to the job.\<close>

definition renders_labels :: "Renderers \<Rightarrow> bool" where
  "renders_labels rn \<longleftrightarrow>
     (\<forall>t p j. rn_Job rn t p = Inr j \<longrightarrow> om_Labels (job_Meta j) = jp_Labels p)"

lemma label_keys_distinct [simp]:
  "ConfigurationStageLabel \<noteq> ConfigurationUIDLabel" "ConfigurationUIDLabel \<noteq> ConfigurationStageLabel"
  "ConfigurationStageLabel \<noteq> ConfigurationNameLabel" "ConfigurationNameLabel \<noteq> ConfigurationStageLabel"
  "ConfigurationStageLabel \<noteq> ConfigurationNamespaceLabel" "ConfigurationNamespaceLabel \<noteq> ConfigurationStageLabel"
  "ConfigurationStageLabel \<noteq> ConfigurationGenerationLabel" "ConfigurationGenerationLabel \<noteq> ConfigurationStageLabel"
  "ConfigurationNameLabel \<noteq> ConfigurationUIDLabel" "ConfigurationUIDLabel \<noteq> ConfigurationNameLabel"
  "ConfigurationNameLabel \<noteq> ConfigurationNamespaceLabel" "ConfigurationNamespaceLabel \<noteq> ConfigurationNameLabel"
  "ConfigurationNameLabel \<noteq> ConfigurationGenerationLabel" "ConfigurationGenerationLabel \<noteq> ConfigurationNameLabel"
  "ConfigurationNamespaceLabel \<noteq> ConfigurationUIDLabel" "ConfigurationUIDLabel \<noteq> ConfigurationNamespaceLabel"
  "ConfigurationNamespaceLabel \<noteq> ConfigurationGenerationLabel" "ConfigurationGenerationLabel \<noteq> ConfigurationNamespaceLabel"
  "ConfigurationGenerationLabel \<noteq> ConfigurationUIDLabel" "ConfigurationUIDLabel \<noteq> ConfigurationGenerationLabel"
  by (simp_all add: label_defs)

lemma label_keys_nonempty [simp]:
  "ConfigurationStageLabel \<noteq> []" "ConfigurationNameLabel \<noteq> []" "ConfigurationNamespaceLabel \<noteq> []"
  "ConfigurationUIDLabel \<noteq> []" "ConfigurationGenerationLabel \<noteq> []"
  by (simp_all add: label_defs)

lemma MergeStringMaps_last:
  "k \<noteq> [] \<Longrightarrow> m k = Some v \<Longrightarrow> gomap_get (MergeStringMaps (xs @ [Some m])) k = v"
  using merge_all_last [of k "Some m" v Map.empty xs]
  by (simp add: MergeStringMaps_def)

lemma job_params_labels:
  "gomap_get (jp_Labels (job_params c p options stage)) ConfigurationStageLabel = stage"
  "gomap_get (jp_Labels (job_params c p options stage)) ConfigurationNameLabel = om_Name (cfg_Meta c)"
  "gomap_get (jp_Labels (job_params c p options stage)) ConfigurationNamespaceLabel = om_Namespace (cfg_Meta c)"
  "gomap_get (jp_Labels (job_params c p options stage)) ConfigurationUIDLabel = om_UID (cfg_Meta c)"
  "gomap_get (jp_Labels (job_params c p options stage)) ConfigurationGenerationLabel =
     string_of_int (om_Generation (cfg_Meta c))"
  using MergeStringMaps_last [where xs = "[op_AdditionalJobLabels options]"]
  by (simp_all add: job_params_def Let_def)

lemma createTerraformFromTemplate_stage:
  assumes "renders_labels rn" and "createTerraformFromTemplate rn r options stage = Ok job"
  shows "job_stage job = stage"
  using assms
  by (auto simp: createTerraformFromTemplate_def renders_labels_def job_stage_def
      job_params_labels split: option.splits sum.splits)

lemma retry_label_ne [simp]: "RetryAnnotation \<noteq> ConfigurationStageLabel"
  by (simp add: annotation_defs label_defs)

lemma NewJobWatch_stage: "job_stage (NewJobWatch r namespace stage img) = stage"
  by (simp add: NewJobWatch_def job_stage_def Let_def MergeStringMaps_def merge_into_def
      retry_label_ne [symmetric])

end
