(* ===== verification/Config_Prepare.thy ===== *)
theory Config_Prepare
  imports Resources Terraform_Jobs
begin

text \<open>
  The configuration controller, first half: its settings (\<open>controller.go\<close>), the state one
  reconciliation accumulates (\<open>reconcile.go\<close>), its helpers (\<open>helper.go\<close>) and the ensure
  functions of \<open>ensure.go\<close> that gather what a run needs, up to the secret that holds the
  generated terraform files. Each function takes the configuration at the time the chain is
  built, from which it captures its condition managers.
\<close>

section \<open>Settings and state\<close>

text \<open>
  \<open>ctl_cc\<close>, \<open>ctl_lib\<close> and \<open>ctl_rn\<close> stand for the code outside the repository;
  \<open>ctl_MonthlyFirst\<close> is the order in which one iteration visits the map of cost keys.
\<close>

record 'w Controller =
  ctl_cc :: "'w client"
  ctl_lib :: Libs
  ctl_rn :: Renderers
  ctl_MonthlyFirst :: bool
  ctl_ConfigurationThreshold :: rat
  ctl_ControllerNamespace :: string
  ctl_BackendTemplate :: string
  ctl_BackoffLimit :: int
  ctl_BinaryPath :: string
  ctl_EnableContextInjection :: bool
  ctl_EnableInfracosts :: bool
  ctl_EnableWatchers :: bool
  ctl_ExecutorImage :: string
  ctl_ExecutorSecrets :: "string list"
  ctl_DefaultExecutorMemoryRequest :: string
  ctl_DefaultExecutorMemoryLimit :: string
  ctl_DefaultExecutorCPURequest :: string
  ctl_DefaultExecutorCPULimit :: string
  ctl_InfracostsImage :: string
  ctl_InfracostsSecretName :: string
  ctl_ControllerJobLabels :: "string gomap"
  ctl_JobTemplate :: string
  ctl_PolicyImage :: string
  ctl_TerraformImage :: string

definition controllerName :: string where
  "controllerName = ''configuration.terraform.appvia.io''"

definition HasBackendTemplate :: "'w Controller \<Rightarrow> bool" where
  "HasBackendTemplate c \<longleftrightarrow> ctl_BackendTemplate c \<noteq> []"

record cstate =
  s_auth :: "Secret option"
  s_configurations :: "Configuration list option"
  s_checkovConstraint :: "PolicyConstraint option"
  s_revision :: "Revision option"
  s_hasDrift :: bool
  s_backendTemplate :: string
  s_policies :: "Policy list option"
  s_provider :: "Provider option"
  s_jobs :: "Job list option"
  s_jobTemplate :: bytes
  s_jobTemplateHash :: string
  s_additionalJobSecrets :: "string list"
  s_valueFrom :: "string \<rightharpoonup> json"
  s_tfstate :: "Secret option"
  s_tfplan :: "Secret option"

definition new_state :: "'w Controller \<Rightarrow> cstate" where
  "new_state c =
     \<lparr>s_auth = None, s_configurations = None, s_checkovConstraint = None, s_revision = None,
      s_hasDrift = False, s_backendTemplate = rn_BackendTemplate (ctl_rn c), s_policies = None,
      s_provider = None, s_jobs = None, s_jobTemplate = [], s_jobTemplateHash = [],
      s_additionalJobSecrets = [], s_valueFrom = Map.empty, s_tfstate = None, s_tfplan = None\<rparr>"

type_synonym 'w cprog = "('w, Configuration, cstate) ensure"

text \<open>The condition methods on the configuration.\<close>

abbreviation cfg_cond :: "Configuration \<Rightarrow> ConditionType \<Rightarrow> ConditionManager" where
  "cfg_cond configuration t \<equiv> ConditionMgr Configuration_Object configuration t True"

abbreviation failed ::
  "'w Controller \<Rightarrow> ConditionManager \<Rightarrow> gerror option \<Rightarrow> string \<Rightarrow> farg list \<Rightarrow>
   ('w, Configuration, 't, unit) prog" where
  "failed c \<equiv> cond_Failed (ctl_cc c) Configuration_Object"

abbreviation action_required ::
  "'w Controller \<Rightarrow> ConditionManager \<Rightarrow> string \<Rightarrow> farg list \<Rightarrow> ('w, Configuration, 't, unit) prog"
  where
  "action_required c \<equiv> cond_ActionRequired (ctl_cc c) Configuration_Object"

abbreviation warning ::
  "'w Controller \<Rightarrow> ConditionManager \<Rightarrow> string \<Rightarrow> farg list \<Rightarrow> ('w, Configuration, 't, unit) prog"
  where
  "warning c \<equiv> cond_Warning (ctl_cc c) Configuration_Object"

abbreviation success ::
  "'w Controller \<Rightarrow> ConditionManager \<Rightarrow> string \<Rightarrow> farg list \<Rightarrow> ('w, Configuration, 't, unit) prog"
  where
  "success c \<equiv> cond_Success (ctl_cc c) Configuration_Object"

abbreviation in_progress ::
  "'w Controller \<Rightarrow> ConditionManager \<Rightarrow> string \<Rightarrow> farg list \<Rightarrow> ('w, Configuration, 't, unit) prog"
  where
  "in_progress c \<equiv> cond_InProgress (ctl_cc c) Configuration_Object"

text \<open>Three ways an ensure function ends: a failure, a required action, or the next step.\<close>

definition fail_with ::
  "'w Controller \<Rightarrow> ConditionManager \<Rightarrow> gerror \<Rightarrow> string \<Rightarrow> farg list \<Rightarrow> 'w cprog" where
  "fail_with c cond err message args =
     do { failed c cond (Some err) message args; State_Monad.return (Err err) }"

definition require_action ::
  "'w Controller \<Rightarrow> ConditionManager \<Rightarrow> string \<Rightarrow> farg list \<Rightarrow> Result go \<Rightarrow> 'w cprog" where
  "require_action c cond message args result =
     do { action_required c cond message args; State_Monad.return result }"

abbreviation proceed :: "'w cprog" where
  "proceed \<equiv> State_Monad.return (Ok Result0)"

section \<open>Helpers\<close>

definition GetTerraformImage :: "Configuration \<Rightarrow> string \<Rightarrow> string" where
  "GetTerraformImage configuration img =
     (if cs_TerraformVersion (cfg_Spec configuration) = [] then img
      else Sprintf ''%s:%s''
             [FStr (hd (Split img CHR '':'')), FStr (cs_TerraformVersion (cfg_Spec configuration))])"

definition getNamespaceFromCache ::
  "'w Controller \<Rightarrow> string \<Rightarrow> ('w, Configuration, cstate, gerror + Namespace) prog" where
  "getNamespaceFromCache c name =
     do { item \<leftarrow> request (cache_Get (ctl_cc c) name);
          case item of
            Some namespace \<Rightarrow> State_Monad.return (Inr namespace)
          | None \<Rightarrow>
              do { r \<leftarrow> GetIfExists (ctl_cc c) KNamespace as_Namespace [] name;
                   case r of
                     Inl err \<Rightarrow> State_Monad.return (Inl err)
                   | Inr None \<Rightarrow>
                       State_Monad.return
                         (Inl (ErrMsg (Sprintf ''namespace %s not found'' [FStr name])))
                   | Inr (Some namespace) \<Rightarrow>
                       do { request (\<lambda>w. ((), cache_SetDefault (ctl_cc c) name namespace w));
                            State_Monad.return (Inr namespace) } } }"

definition CreateWatcher ::
  "'w Controller \<Rightarrow> Configuration \<Rightarrow> string \<Rightarrow> ('w, Configuration, cstate, gerror option) prog" where
  "CreateWatcher c configuration stage =
     do { let watcher = NewJobWatch (Render_New configuration None) (ctl_ControllerNamespace c)
                          stage (ctl_ExecutorImage c);
          r \<leftarrow> GetIfExists (ctl_cc c) KJob as_Job (om_Namespace (job_Meta watcher))
                 (om_Name (job_Meta watcher));
          case r of
            Inl err \<Rightarrow> State_Monad.return (Some err)
          | Inr (Some _) \<Rightarrow> State_Monad.return None
          | Inr None \<Rightarrow>
              do { w \<leftarrow> perform (ctl_cc c) Create (OJob watcher);
                   State_Monad.return (error_of w) } }"

definition findMatchingPolicy ::
  "'w Controller \<Rightarrow> Configuration \<Rightarrow> Policy list \<Rightarrow>
   ('w, Configuration, cstate, gerror + PolicyConstraint option) prog" where
  "findMatchingPolicy c configuration items =
     (if length items = 0 then State_Monad.return (Inr None)
      else do { entry \<leftarrow> request (cache_Get (ctl_cc c) (om_Namespace (cfg_Meta configuration)));
                case entry of
                  Some namespace \<Rightarrow>
                    State_Monad.return (FindMatchingPolicy (ctl_lib c) configuration namespace items)
                | None \<Rightarrow>
                    do { r \<leftarrow> GetIfExists (ctl_cc c) KNamespace as_Namespace []
                                (om_Namespace (cfg_Meta configuration));
                         case r of
                           Inl err \<Rightarrow> State_Monad.return (Inl err)
                         | Inr None \<Rightarrow>
                             State_Monad.return (Inl (ErrMsg (Sprintf
                               ''namespace: %q was not found in the cache or api''
                               [FStr (om_Namespace (cfg_Meta configuration))])))
                         | Inr (Some namespace) \<Rightarrow>
                             State_Monad.return
                               (FindMatchingPolicy (ctl_lib c) configuration namespace items) } })"

section \<open>Gathering\<close>

definition ensureReconcileAnnotation :: "'w Controller \<Rightarrow> Configuration \<Rightarrow> 'w cprog" where
  "ensureReconcileAnnotation c configuration0 =
     (let cond = cfg_cond configuration0 ConditionReady in
      do { configuration \<leftarrow> gets resource;
           if Configuration_annotation configuration ReconcileAnnotation = ''false''
           then do { warning c cond
                       ''Configuration has reconciling annotation set as false, ignoring changes'' [];
                     State_Monad.return (Err ErrIgnore) }
           else proceed })"

text \<open>The lookup of the revision a configuration is based on.\<close>

definition capture_revision ::
  "'w Controller \<Rightarrow> ConditionManager \<Rightarrow> PlanReference \<Rightarrow> 'w cprog" where
  "capture_revision c cond ref =
     do { r \<leftarrow> GetIfExists (ctl_cc c) KPlan as_Plan [] (plr_Name ref);
          case r of
            Inl err \<Rightarrow> fail_with c cond err ''Failed to get plan for the configuration'' []
          | Inr None \<Rightarrow>
              require_action c cond ''Plan %q does not exist'' [FStr (plr_Name ref)]
                (Ok (requeue_after (5 * minute)))
          | Inr (Some plan) \<Rightarrow>
              (case GetRevision plan (plr_Revision ref) of
                 None \<Rightarrow>
                   require_action c cond ''Plan %q does not have a revision %q''
                     [FStr (plr_Name ref), FStr (plr_Revision ref)]
                     (Ok (requeue_after (5 * minute)))
               | Some reference \<Rightarrow>
                   do { q \<leftarrow> GetIfExists (ctl_cc c) KRevision as_Revision [] (plv_Name reference);
                        case q of
                          Inl err \<Rightarrow>
                            fail_with c cond err ''Failed to retrieve the plan for the configuration'' []
                        | Inr None \<Rightarrow>
                            require_action c cond ''Revision %q does not exist''
                              [FStr (plv_Name reference)] (Ok (requeue_after (5 * minute)))
                        | Inr (Some revision) \<Rightarrow>
                            do { modify_state (\<lambda>s. s\<lparr>s_revision := Some revision\<rparr>);
                                 proceed } }) }"

definition set_resource_status :: "ResourceStatus \<Rightarrow> Configuration \<Rightarrow> Configuration" where
  "set_resource_status rs x = x\<lparr>cfg_Status := (cfg_Status x)\<lparr>cst_ResourceStatus := rs\<rparr>\<rparr>"

text \<open>The rest of \<open>ensureCapturedState\<close>, after the revision.\<close>

definition capture_lists ::
  "'w Controller \<Rightarrow> ConditionManager \<Rightarrow> Policy list \<Rightarrow> 'w cprog" where
  "capture_lists c cond policies =
     do { r \<leftarrow> list_objects (ctl_cc c) KConfiguration as_Configuration [];
          case r of
            Inl err \<Rightarrow> fail_with c cond err ''Failed to list the configurations in cluster'' []
          | Inr configurations \<Rightarrow>
              do { q \<leftarrow> list_objects (ctl_cc c) KJob as_Job [InNamespace (ctl_ControllerNamespace c)];
                   case q of
                     Inl err \<Rightarrow>
                       fail_with c cond err ''Failed to list the jobs in controller namespace'' []
                   | Inr jobs \<Rightarrow>
                       do { modify_resource (\<lambda>x.
                              if cst_ResourceStatus (cfg_Status x) = UnknownResourceStatus
                              then set_resource_status ResourcesOutOfSync x else x);
                            modify_state (\<lambda>s. s\<lparr>s_configurations := Some configurations,
                                                s_jobs := Some jobs, s_policies := Some policies\<rparr>);
                            proceed } } }"

definition ensureCapturedState :: "'w Controller \<Rightarrow> Configuration \<Rightarrow> 'w cprog" where
  "ensureCapturedState c configuration0 =
     (let cond = cfg_cond configuration0 ConditionReady in
      do { r \<leftarrow> list_objects (ctl_cc c) KPolicy as_Policy [];
           case r of
             Inl err \<Rightarrow> fail_with c cond err ''Failed to list the policies in cluster'' []
           | Inr policies \<Rightarrow>
               do { configuration \<leftarrow> gets resource;
                    case cs_Plan (cfg_Spec configuration) of
                      Some ref \<Rightarrow>
                        if IsRevisioned configuration
                        then do { q \<leftarrow> capture_revision c cond ref;
                                  if continues q then capture_lists c cond policies
                                  else State_Monad.return q }
                        else capture_lists c cond policies
                    | None \<Rightarrow> capture_lists c cond policies } })"

text \<open>
  The percentage of running jobs is a float in the code; here it is exact. Without
  configurations the code divides by zero, which for floats is infinity (or not a number when
  nothing runs, and then the comparison is false).
\<close>

definition over_threshold :: "rat \<Rightarrow> nat \<Rightarrow> nat \<Rightarrow> bool" where
  "over_threshold threshold running n =
     (if n = 0 then running > 0
      else (of_nat running / of_nat n) * 100 > threshold * 100)"

definition ensureConfigurationThreshold :: "'w Controller \<Rightarrow> Configuration \<Rightarrow> 'w cprog" where
  "ensureConfigurationThreshold c configuration0 =
     (let cond = cfg_cond configuration0 ConditionReady in
      if ctl_ConfigurationThreshold c = 0 then proceed
      else do { st \<leftarrow> gets rstate;
                case s_configurations st of
                  None \<Rightarrow> State_Monad.return Panic
                | Some items \<Rightarrow>
                    if length items = 1 then proceed
                    else (case s_jobs st of
                            None \<Rightarrow> State_Monad.return Panic
                          | Some jobs \<Rightarrow>
                              if over_threshold (ctl_ConfigurationThreshold c)
                                   (IsRunning (Jobs jobs)) (length items)
                              then do { warning c cond
                                          ''Configuration is over the threshold for running configurations, waiting in queue'' [];
                                        State_Monad.return (Ok (requeue_after (30 * second))) }
                              else proceed) })"

fun other_generation_active :: "int \<Rightarrow> Job list \<Rightarrow> bool" where
  "other_generation_active generation [] = False"
| "other_generation_active generation (x # xs) =
     (if \<not> jobs_IsComplete x \<and> \<not> jobs_IsFailed x \<and> om_Generation (job_Meta x) \<noteq> generation
      then True else other_generation_active generation xs)"

definition ensureNoActivity :: "'w Controller \<Rightarrow> Configuration \<Rightarrow> 'w cprog" where
  "ensureNoActivity c configuration0 =
     do { configuration \<leftarrow> gets resource;
          st \<leftarrow> gets rstate;
          case s_jobs st of
            None \<Rightarrow> State_Monad.return Panic
          | Some jobs \<Rightarrow>
              let m = cfg_Meta configuration;
                  (items, found) = Filter_List (WithUID (om_UID m) (WithName (om_Name m)
                                     (WithNamespace (om_Namespace m) (Jobs jobs))))
              in if \<not> found then proceed
                 else if other_generation_active (om_Generation m) items
                 then State_Monad.return (Ok (requeue_after (10 * second)))
                 else proceed }"

definition ensureCustomBackendTemplate :: "'w Controller \<Rightarrow> Configuration \<Rightarrow> 'w cprog" where
  "ensureCustomBackendTemplate c configuration0 =
     (let cond = cfg_cond configuration0 ConditionReady in
      do { st \<leftarrow> gets rstate;
           let provider_template = Option.bind (s_provider st) (\<lambda>p. prs_BackendTemplate (prv_Spec p));
           if \<not> HasBackendTemplate c \<and> provider_template = None then proceed
           else do {
             let namespace = (case provider_template of
                    Some ref \<Rightarrow> if sr_Namespace ref \<noteq> [] then sr_Namespace ref
                                else ctl_ControllerNamespace c
                  | None \<Rightarrow> ctl_ControllerNamespace c);
             let name = (case provider_template of
                    Some ref \<Rightarrow> sr_Name ref | None \<Rightarrow> ctl_BackendTemplate c);
             let reference = Sprintf ''%s/%s'' [FStr namespace, FStr name];
             r \<leftarrow> GetIfExists (ctl_cc c) KSecret as_Secret namespace name;
             case r of
               Inl err \<Rightarrow> fail_with c cond err ''Failed to retrieve the backend template secret'' []
             | Inr None \<Rightarrow>
                 require_action c cond
                   (Sprintf ''Backend template secret %q not found, contact administrator''
                      [FStr reference]) [] (Err ErrIgnore)
             | Inr (Some secret) \<Rightarrow>
                 (let backend = gomap_get (sec_Data secret) TerraformBackendSecretKey in
                  if length backend = 0
                  then require_action c cond
                         (Sprintf ''Backend template secret %q does not contain the %s key''
                            [FStr reference, FStr TerraformBackendSecretKey]) [] (Err ErrIgnore)
                  else do { modify_state (\<lambda>s. s\<lparr>s_backendTemplate := backend\<rparr>); proceed }) } })"

definition ensureCostSecret :: "'w Controller \<Rightarrow> Configuration \<Rightarrow> 'w cprog" where
  "ensureCostSecret c configuration0 =
     (let cond = cfg_cond configuration0 ConditionReady;
          namespace = ctl_ControllerNamespace c; name = ctl_InfracostsSecretName c in
      if \<not> ctl_EnableInfracosts c then proceed
      else do { r \<leftarrow> GetIfExists (ctl_cc c) KSecret as_Secret namespace name;
                case r of
                  Inl err \<Rightarrow> fail_with c cond err ''Failed to retrieve the cost analytics secret'' []
                | Inr None \<Rightarrow>
                    require_action c cond
                      ''Cost analytics secret (%s/%s) does not exist, contact platform administrator''
                      [FStr namespace, FStr name] (Ok (requeue_after (10 * minute)))
                | Inr (Some secret) \<Rightarrow>
                    if gomap_find (sec_Data secret) ''INFRACOST_API_KEY'' = None
                    then require_action c cond
                      ''Cost analytics secret (%s/%s) does not contain a token, contact platform administrator''
                      [FStr namespace, FStr name] (Ok (requeue_after (10 * minute)))
                    else proceed })"

text \<open>
  One iteration of the loop of \<open>ensureValueFromSecret\<close>: it continues with the next source,
  or returns. The last case of the switch marks the condition failed and goes on.
\<close>

definition value_from_secret ::
  "'w Controller \<Rightarrow> ConditionManager \<Rightarrow> Configuration \<Rightarrow> int \<Rightarrow> ValueFromSource \<Rightarrow> string \<Rightarrow> 'w cprog" where
  "value_from_secret c cond configuration i x name =
     do { let namespace = om_Namespace (cfg_Meta configuration);
          r \<leftarrow> GetSecretIfExists (ctl_cc c) namespace name;
          case r of
            Inl err \<Rightarrow>
              fail_with c cond err ''Failed to retrieve the secret spec.valueFrom[%d]'' [FInt i]
          | Inr None \<Rightarrow>
              if \<not> vf_Optional x
              then require_action c cond ''spec.valueFrom[%d].secret (%s/%s) does not exist''
                     [FInt i, FStr namespace, FStr name] (Ok (requeue_after (5 * minute)))
              else proceed
          | Inr (Some secret) \<Rightarrow>
              if length (gomap_get (sec_Data secret) (vf_Key x)) = 0 \<and> \<not> vf_Optional x
              then require_action c cond ''spec.valueFrom[%d] (%s/%s) does not contain key: %q''
                     [FInt i, FStr namespace, FStr (om_Name (sec_Meta secret)), FStr (vf_Key x)]
                     (Ok (requeue_after (5 * minute)))
              else do { (if sec_Data secret \<noteq> None
                        then modify_state (\<lambda>s. s\<lparr>s_valueFrom := (s_valueFrom s)
                               (ValueFrom_GetName x \<mapsto> JStr (gomap_get (sec_Data secret) (vf_Key x)))\<rparr>)
                        else State_Monad.return ());
                        proceed } }"

definition value_from_context ::
  "'w Controller \<Rightarrow> ConditionManager \<Rightarrow> int \<Rightarrow> ValueFromSource \<Rightarrow> string \<Rightarrow> 'w cprog" where
  "value_from_context c cond i x name =
     do { r \<leftarrow> GetIfExists (ctl_cc c) KContext as_Context [] name;
          case r of
            Inl err \<Rightarrow>
              fail_with c cond err ''Failed to retrieve the context spec.valueFrom[%d].context: %s''
                [FInt i, FStr name]
          | Inr None \<Rightarrow>
              if \<not> vf_Optional x
              then require_action c cond ''spec.valueFrom[%d].context (%s) does not exist''
                     [FInt i, FStr name] (Ok (requeue_after (5 * minute)))
              else proceed
          | Inr (Some config) \<Rightarrow>
              (case GetVariableValue (ctx_Spec config) (vf_Key x) of
                 None \<Rightarrow>
                   if \<not> vf_Optional x
                   then require_action c cond ''spec.valueFrom[%d] does not contain key: %s''
                          [FInt i, FStr (vf_Key x)] (Ok (requeue_after (5 * minute)))
                   else proceed
               | Some raw \<Rightarrow>
                   if length (re_Raw raw) = 0
                   then if \<not> vf_Optional x
                        then require_action c cond ''spec.valueFrom[%d] key: %s is empty''
                               [FInt i, FStr (vf_Key x)] (Ok (requeue_after (5 * minute)))
                        else proceed
                   else (case lib_JSONObject (ctl_lib c) (re_Raw raw) of
                           Inl err \<Rightarrow>
                             fail_with c cond err
                               ''Failed to decode the context spec.valueFrom[%d].context: %s''
                               [FInt i, FStr name]
                         | Inr av \<Rightarrow>
                             do { modify_state (\<lambda>s. s\<lparr>s_valueFrom := (s_valueFrom s)
                                    (ValueFrom_GetName x \<mapsto>
                                      (case av ''value'' of None \<Rightarrow> JNull | Some v \<Rightarrow> v))\<rparr>);
                                  proceed })) }"

fun value_from_loop ::
  "'w Controller \<Rightarrow> ConditionManager \<Rightarrow> Configuration \<Rightarrow> int \<Rightarrow> ValueFromSource list \<Rightarrow> 'w cprog" where
  "value_from_loop c cond configuration i [] = proceed"
| "value_from_loop c cond configuration i (x # xs) =
     do { r \<leftarrow> (case (vf_Secret x, vf_Context x) of
                 (Some _, Some _) \<Rightarrow>
                   do { failed c cond
                          (Some (ErrMsg (Sprintf
                            ''spec.valuefrom[%d] secret and context cannot be used together'' [FInt i])))
                          ''options are mutually exclusive'' [];
                        State_Monad.return (Err ErrIgnore) }
               | (Some name, None) \<Rightarrow> value_from_secret c cond configuration i x name
               | (None, Some name) \<Rightarrow> value_from_context c cond i x name
               | (None, None) \<Rightarrow>
                   do { failed c cond
                          (Some (ErrMsg (Sprintf ''spec.valueFrom[%d] not has no type'' [FInt i])))
                          ''missing type in spec.valueFrom[%d]'' [FInt i];
                        proceed });
          if continues r then value_from_loop c cond configuration (i + 1) xs
          else State_Monad.return r }"

definition ensureValueFromSecret :: "'w Controller \<Rightarrow> Configuration \<Rightarrow> 'w cprog" where
  "ensureValueFromSecret c configuration0 =
     (let cond = cfg_cond configuration0 ConditionReady in
      do { configuration \<leftarrow> gets resource;
           if length (cs_ValueFrom (cfg_Spec configuration)) = 0 then proceed
           else value_from_loop c cond configuration 0 (cs_ValueFrom (cfg_Spec configuration)) })"

definition ensureCustomJobTemplate :: "'w Controller \<Rightarrow> Configuration \<Rightarrow> 'w cprog" where
  "ensureCustomJobTemplate c configuration0 =
     (let cond = cfg_cond configuration0 ConditionReady;
          namespace = ctl_ControllerNamespace c; name = ctl_JobTemplate c;
          use = (\<lambda>t. modify_state (\<lambda>s. s\<lparr>s_jobTemplate := t,
                        s_jobTemplateHash := TemplateHash (ctl_lib c) t\<rparr>)) in
      if name = [] then do { use (rn_JobAsset (ctl_rn c)); proceed }
      else do { r \<leftarrow> GetIfExists (ctl_cc c) KConfigMap as_ConfigMap namespace name;
                case r of
                  Inl err \<Rightarrow> fail_with c cond err ''Failed to retrieve the custom job template'' []
                | Inr None \<Rightarrow>
                    require_action c cond ''Custom job template (%s/%s) does not exists''
                      [FStr namespace, FStr name] (Err ErrIgnore)
                | Inr (Some cm) \<Rightarrow>
                    (case gomap_find (cm_Data cm) TerraformJobTemplateConfigMapKey of
                       None \<Rightarrow>
                         require_action c cond
                           ''Custom job template (%s/%s) does not contain the %q key''
                           [FStr namespace, FStr name, FStr TerraformJobTemplateConfigMapKey]
                           (Err ErrIgnore)
                     | Some template \<Rightarrow> do { use template; proceed }) })"

text \<open>
  The namespace of the authentication secret. Without an auth section in the revision it
  stays empty.
\<close>

definition auth_namespace :: "Configuration \<Rightarrow> SecretReference \<Rightarrow> Revision \<Rightarrow> string" where
  "auth_namespace configuration auth revision =
     (case cs_Auth (rvs_Configuration (rv_Spec revision)) of
        None \<Rightarrow> []
      | Some a \<Rightarrow> if a = auth then sr_Namespace a else om_Namespace (cfg_Meta configuration))"

definition fetch_auth ::
  "'w Controller \<Rightarrow> ConditionManager \<Rightarrow> string \<Rightarrow> string \<Rightarrow> 'w cprog" where
  "fetch_auth c cond namespace name =
     do { r \<leftarrow> GetIfExists (ctl_cc c) KSecret as_Secret namespace name;
          case r of
            Inl err \<Rightarrow>
              fail_with c cond err ''Failed to retrieve the authentication secret: (%s/%s)''
                [FStr namespace, FStr name]
          | Inr None \<Rightarrow>
              require_action c cond ''Authentication secret (spec.auth) does not exist'' []
                (Ok (requeue_after (5 * minute)))
          | Inr (Some secret) \<Rightarrow>
              do { modify_state (\<lambda>s. s\<lparr>s_auth := Some secret\<rparr>); proceed } }"

definition ensureAuthenticationSecret :: "'w Controller \<Rightarrow> Configuration \<Rightarrow> 'w cprog" where
  "ensureAuthenticationSecret c configuration0 =
     (let cond = cfg_cond configuration0 ConditionReady in
      do { configuration \<leftarrow> gets resource;
           st \<leftarrow> gets rstate;
           case cs_Auth (cfg_Spec configuration) of
             None \<Rightarrow> proceed
           | Some auth \<Rightarrow>
               if IsRevisioned configuration
               then (case s_revision st of
                       None \<Rightarrow> State_Monad.return Panic
                     | Some revision \<Rightarrow>
                         fetch_auth c cond (auth_namespace configuration auth revision) (sr_Name auth))
               else fetch_auth c cond (om_Namespace (cfg_Meta configuration)) (sr_Name auth) })"

text \<open>The check that the provider's selector permits the configuration.\<close>

definition check_selector ::
  "'w Controller \<Rightarrow> ConditionManager \<Rightarrow> Configuration \<Rightarrow> Selector \<Rightarrow> 'w cprog" where
  "check_selector c cond configuration selector =
     do { r \<leftarrow> getNamespaceFromCache c (om_Namespace (cfg_Meta configuration));
          case r of
            Inl err \<Rightarrow>
              do { failed c cond (Some err) ''Failed to retrieve the namespace from the cache'' [];
                   State_Monad.return (Ok (requeue_after (30 * second))) }
          | Inr namespace \<Rightarrow>
              (case IsSelectorMatch (ctl_lib c) selector (om_Labels (cfg_Meta configuration))
                      (om_Labels (ns_Meta namespace)) of
                 Inl err \<Rightarrow> fail_with c cond err ''Failed to check against the provider policy'' []
               | Inr match \<Rightarrow>
                   if \<not> match
                   then require_action c cond
                          ''Provider policy does not permit the configuration to use it'' []
                          (Err ErrIgnore)
                   else proceed) }"

definition ensureProviderReady :: "'w Controller \<Rightarrow> Configuration \<Rightarrow> 'w cprog" where
  "ensureProviderReady c configuration0 =
     (let cond = cfg_cond configuration0 ConditionProviderReady in
      do { configuration \<leftarrow> gets resource;
           case cs_ProviderRef (cfg_Spec configuration) of
             None \<Rightarrow> State_Monad.return Panic
           | Some ref \<Rightarrow>
               do { r \<leftarrow> GetIfExists (ctl_cc c) KProvider as_Provider [] (pr_Name ref);
                    case r of
                      Inl err \<Rightarrow>
                        fail_with c cond err
                          ''Failed to retrieve the provider for the configuration: %q'' [FStr (pr_Name ref)]
                    | Inr None \<Rightarrow>
                        require_action c cond ''Provider referenced %q does not exist''
                          [FStr (pr_Name ref)] (Ok (requeue_after (5 * minute)))
                    | Inr (Some provider) \<Rightarrow>
                        (case GetCondition (prst_Common (prv_Status provider)) ConditionReady of
                           None \<Rightarrow> State_Monad.return Panic
                         | Some ready \<Rightarrow>
                             if cd_Status ready \<noteq> ConditionTrue
                             then do { warning c cond ''Provider is not ready'' [];
                                       State_Monad.return (Ok (requeue_after (30 * second))) }
                             else do {
                               modify_state (\<lambda>s. s\<lparr>s_provider := Some provider\<rparr>);
                               q \<leftarrow> (case prs_Selector (prv_Spec provider) of
                                      None \<Rightarrow> proceed
                                    | Some selector \<Rightarrow> check_selector c cond configuration selector);
                               if continues q
                               then do { success c cond ''Provider ready'' []; proceed }
                               else State_Monad.return q }) } })"

section \<open>Defaults from policies\<close>

text \<open>The secrets one default contributes; the loop of the policy reports the policy's name.\<close>

definition default_secrets_of ::
  "Libs \<Rightarrow> Configuration \<Rightarrow> string gomap \<Rightarrow> DefaultVariables \<Rightarrow> gerror + string list" where
  "default_secrets_of lib configuration nsLabels x =
     (if length (dv_Secrets x) = 0 then Inr []
      else
        let sel = dv_Selector x;
            always = (if length (dvs_Modules sel) = 0 \<and> dvs_Namespace sel = None
                      then dv_Secrets x else []);
            by_namespace = (\<lambda>acc.
              if dvs_Namespace sel \<noteq> None
              then (case IsLabelsMatch lib sel nsLabels of
                      Inl err \<Rightarrow> Inl err
                    | Inr match \<Rightarrow> Inr (if match then acc @ dv_Secrets x else acc))
              else Inr acc)
        in if length (dvs_Modules sel) > 0
           then (case IsModulesMatch lib sel configuration of
                   Inl err \<Rightarrow> Inl err
                 | Inr match \<Rightarrow> by_namespace (if match then always @ dv_Secrets x else always))
           else by_namespace always)"

fun default_secrets_list ::
  "Libs \<Rightarrow> Configuration \<Rightarrow> string gomap \<Rightarrow> DefaultVariables list \<Rightarrow> gerror + string list" where
  "default_secrets_list lib configuration nsLabels [] = Inr []"
| "default_secrets_list lib configuration nsLabels (x # xs) =
     (case default_secrets_of lib configuration nsLabels x of
        Inl err \<Rightarrow> Inl err
      | Inr secrets \<Rightarrow>
          (case default_secrets_list lib configuration nsLabels xs of
             Inl err \<Rightarrow> Inl err
           | Inr rest \<Rightarrow> Inr (secrets @ rest)))"

fun default_secrets ::
  "Libs \<Rightarrow> Configuration \<Rightarrow> string gomap \<Rightarrow> Policy list \<Rightarrow> (string \<times> gerror) + string list" where
  "default_secrets lib configuration nsLabels [] = Inr []"
| "default_secrets lib configuration nsLabels (p # ps) =
     (case default_secrets_list lib configuration nsLabels (ps_Defaults (pol_Spec p)) of
        Inl err \<Rightarrow> Inl (om_Name (pol_Meta p), err)
      | Inr secrets \<Rightarrow>
          (case default_secrets lib configuration nsLabels ps of
             Inl err \<Rightarrow> Inl err
           | Inr rest \<Rightarrow> Inr (secrets @ rest)))"

fun check_secrets :: "'w Controller \<Rightarrow> ConditionManager \<Rightarrow> string list \<Rightarrow> 'w cprog" where
  "check_secrets c cond [] = proceed"
| "check_secrets c cond (name # names) =
     do { r \<leftarrow> GetIfExists (ctl_cc c) KSecret as_Secret (ctl_ControllerNamespace c) name;
          case r of
            Inl err \<Rightarrow>
              fail_with c cond err ''Failed to retrieve the default secret: (%s/%s)''
                [FStr (ctl_ControllerNamespace c), FStr name]
          | Inr None \<Rightarrow>
              require_action c cond
                ''Default secret (%s/%s) does not exist, please contact administrator''
                [FStr (ctl_ControllerNamespace c), FStr name] (Ok (requeue_after (5 * minute)))
          | Inr (Some _) \<Rightarrow> check_secrets c cond names }"

definition ensurePolicyDefaultsExist :: "'w Controller \<Rightarrow> Configuration \<Rightarrow> 'w cprog" where
  "ensurePolicyDefaultsExist c configuration0 =
     (let cond = cfg_cond configuration0 ConditionReady in
      do { configuration \<leftarrow> gets resource;
           st \<leftarrow> gets rstate;
           case s_policies st of
             None \<Rightarrow> proceed
           | Some [] \<Rightarrow> proceed
           | Some (p # ps) \<Rightarrow>
               do { r \<leftarrow> getNamespaceFromCache c (om_Namespace (cfg_Meta configuration));
                    case r of
                      Inl err \<Rightarrow>
                        do { failed c cond (Some err) ''Failed to retrieve the namespace'' [];
                             State_Monad.return (Ok (requeue_after (30 * second))) }
                    | Inr namespace \<Rightarrow>
                        (case default_secrets (ctl_lib c) configuration (om_Labels (ns_Meta namespace))
                                (p # ps) of
                           Inl (name, err) \<Rightarrow>
                             fail_with c cond err ''Failed to check against the policy: %q'' [FStr name]
                         | Inr names \<Rightarrow>
                             do { q \<leftarrow> check_secrets c cond names;
                                  if continues q
                                  then do { modify_state (\<lambda>s. s\<lparr>s_additionalJobSecrets := names\<rparr>);
                                            proceed }
                                  else State_Monad.return q }) } })"

section \<open>The job configuration secret\<close>

definition configuration_labels :: "Configuration \<Rightarrow> string gomap" where
  "configuration_labels configuration =
     Some [ConfigurationNameLabel \<mapsto> om_Name (cfg_Meta configuration),
           ConfigurationNamespaceLabel \<mapsto> om_Namespace (cfg_Meta configuration),
           ConfigurationUIDLabel \<mapsto> om_UID (cfg_Meta configuration)]"

text \<open>The variables of the run: the spec's, then the sourced values, then the context.\<close>

definition run_variables ::
  "'w Controller \<Rightarrow> Configuration \<Rightarrow> cstate \<Rightarrow> gerror + (string \<rightharpoonup> json)" where
  "run_variables c configuration st =
     (case GetVariables (ctl_lib c) (cfg_Spec configuration) of
        Inl err \<Rightarrow> Inl err
      | Inr variables \<Rightarrow>
          let variables = variables ++ s_valueFrom st
          in Inr (if ctl_EnableContextInjection c
                  then variables(''terranetes'' \<mapsto>
                         JObj [(''name'', JStr (om_Name (cfg_Meta configuration))),
                               (''namespace'', JStr (om_Namespace (cfg_Meta configuration)))])
                  else variables))"

text \<open>
  The data of the secret before the policy is added: backend, provider, variables, tfvars,
  then the authentication details over them. An error carries the message of its condition;
  \<open>None\<close> is the panic on a nil provider.
\<close>

definition job_secret_data ::
  "'w Controller \<Rightarrow> Configuration \<Rightarrow> string \<Rightarrow> cstate \<Rightarrow>
   ((string \<times> gerror) + (string \<rightharpoonup> bytes)) option" where
  "job_secret_data c configuration suffix st =
     (case NewKubernetesBackend (ctl_rn c)
             \<lparr>bo_Configuration = configuration, bo_Namespace = ctl_ControllerNamespace c,
              bo_Suffix = suffix, bo_Template = s_backendTemplate st\<rparr> of
        Inl err \<Rightarrow> Some (Inl (''Failed to generate the terraform backend configuration'', err))
      | Inr backend \<Rightarrow>
          (case s_provider st of
             None \<Rightarrow> None
           | Some provider \<Rightarrow> Some
          (case NewTerraformProvider (ctl_lib c) (ctl_rn c)
                  (ProviderType_String (prs_Provider (prv_Spec provider))) (GetConfiguration provider) of
             Inl err \<Rightarrow> Inl (''Failed to generate the terraform provider configuration'', err)
           | Inr prov \<Rightarrow>
               (case run_variables c configuration st of
                  Inl err \<Rightarrow> Inl (''Failed to retrieve the variables for the configuration'', err)
                | Inr variables \<Rightarrow>
                    let data0 = [TerraformBackendSecretKey \<mapsto> backend,
                                 TerraformProviderConfigMapKey \<mapsto> prov];
                        tfvars = (\<lambda>d. if cs_TFVars (cfg_Spec configuration) \<noteq> []
                                      then d(TerraformTFVarsConfigMapKey \<mapsto>
                                             cs_TFVars (cfg_Spec configuration))
                                      else d(TerraformTFVarsConfigMapKey := None));
                        auth = (\<lambda>d. d ++ (case Option.bind (s_auth st) sec_Data of
                                            None \<Rightarrow> Map.empty | Some a \<Rightarrow> a))
                    in if variables = Map.empty
                       then Inr (auth (tfvars (data0(TerraformVariablesConfigMapKey := None))))
                       else (case lib_JSONEncode (ctl_lib c) variables of
                               Inl err \<Rightarrow>
                                 Inl (''Failed to encode the variables for the configuration'', err)
                             | Inr encoded \<Rightarrow>
                                 Inr (auth (tfvars
                                   (data0(TerraformVariablesConfigMapKey \<mapsto> encoded)))))))))"

definition attach_policy ::
  "'w Controller \<Rightarrow> PolicyConstraint option \<Rightarrow> (string \<rightharpoonup> bytes) \<Rightarrow> gerror + (string \<rightharpoonup> bytes)" where
  "attach_policy c policy data =
     (case policy of
        None \<Rightarrow> Inr (data(CheckovJobTemplateConfigMapKey := None))
      | Some p \<Rightarrow>
          if pc_Source p = None
          then (case NewCheckovPolicy (ctl_rn c) policy of
                  Inl err \<Rightarrow> Inl err
                | Inr config \<Rightarrow> Inr (data(CheckovJobTemplateConfigMapKey \<mapsto> config)))
          else Inr data)"

text \<open>The end of \<open>ensureJobConfigurationSecret\<close>: adding the policy and writing the secret.\<close>

definition write_job_secret ::
  "'w Controller \<Rightarrow> ConditionManager \<Rightarrow> Configuration \<Rightarrow> string \<Rightarrow> Secret option \<Rightarrow>
   PolicyConstraint option \<Rightarrow> (string \<rightharpoonup> bytes) \<Rightarrow> 'w cprog" where
  "write_job_secret c cond configuration name current policy data =
     (case attach_policy c policy data of
        Inl err \<Rightarrow> fail_with c cond err ''Failed to parse the checkov policy template'' []
      | Inr data \<Rightarrow>
          do { let meta = (case current of
                 Some s \<Rightarrow> sec_Meta s
               | None \<Rightarrow> named_meta (ctl_ControllerNamespace c) name);
               w \<leftarrow> CreateOrPatch (ctl_cc c) (OSecret
                 \<lparr>sec_Meta = meta\<lparr>om_Labels := configuration_labels configuration\<rparr>,
                  sec_Data = Some data\<rparr>);
               case w of
                 Some err \<Rightarrow>
                   fail_with c cond err ''Failed to create or update the configuration secret'' []
               | None \<Rightarrow> proceed })"

definition ensureJobConfigurationSecret :: "'w Controller \<Rightarrow> Configuration \<Rightarrow> 'w cprog" where
  "ensureJobConfigurationSecret c configuration0 =
     (let cond = cfg_cond configuration0 ConditionReady;
          policyCondition = cfg_cond configuration0 ConditionTerraformPolicy;
          suffix = om_UID (cfg_Meta configuration0);
          name = GetTerraformConfigSecretName configuration0 in
      do { configuration \<leftarrow> gets resource;
           st \<leftarrow> gets rstate;
           r \<leftarrow> GetIfExists (ctl_cc c) KSecret as_Secret (ctl_ControllerNamespace c) name;
           case r of
             Inl err \<Rightarrow> fail_with c cond err ''Failed to check for configuration secret'' []
           | Inr current \<Rightarrow>
               (case job_secret_data c configuration suffix st of
                  None \<Rightarrow> State_Monad.return Panic
                | Some (Inl (message, err)) \<Rightarrow> fail_with c cond err message []
                | Some (Inr data) \<Rightarrow>
                    (case s_policies st of
                       None \<Rightarrow> State_Monad.return Panic
                     | Some policies \<Rightarrow>
                         do { q \<leftarrow> findMatchingPolicy c configuration policies;
                              case q of
                                Inl err \<Rightarrow>
                                  fail_with c policyCondition err
                                    ''Failed to find matching policy constraints'' []
                              | Inr policy \<Rightarrow>
                                  do { (if policy \<noteq> None
                                       then modify_state (\<lambda>s. s\<lparr>s_checkovConstraint := policy\<rparr>)
                                       else State_Monad.return ());
                                       write_job_secret c cond configuration name current policy data } })) })"

end
