(* ===== verification/Config_Plan.thy ===== *)
theory Config_Plan
  imports Config_Prepare
begin

text \<open>
  The configuration controller, the plan stage: error detection in the logs of a failed job
  (\<open>detect_errors.go\<close>), the terraform plan with its approval gate, and the checks on what the
  plan produced, which are the plan secret, the costs and the security report (\<open>ensure.go\<close>).
\<close>

section \<open>Error detection\<close>

fun detect_errors ::
  "'w Controller \<Rightarrow> ConditionManager \<Rightarrow> string \<Rightarrow> ErrorDetection list \<Rightarrow> 'w cprog" where
  "detect_errors c cond podlogs [] = State_Monad.return (Err ErrIgnore)"
| "detect_errors c cond podlogs (d # ds) =
     (case lib_Regexp (ctl_lib c) (ed_Regex d) of
        Inl err \<Rightarrow> State_Monad.return (Err ErrIgnore)
      | Inr match \<Rightarrow>
          do { (if match podlogs then action_required c cond (ed_Message d) []
                else State_Monad.return ());
               detect_errors c cond podlogs ds })"

text \<open>\<open>job\<close> is the job that failed; the function is built when the failure is seen.\<close>

definition ensureErrorDetection :: "'w Controller \<Rightarrow> Job \<Rightarrow> 'w cprog" where
  "ensureErrorDetection c job =
     do { configuration0 \<leftarrow> gets resource;
          st \<leftarrow> gets rstate;
          case s_provider st of
            None \<Rightarrow> State_Monad.return Panic
          | Some provider \<Rightarrow>
              (let cond = cfg_cond configuration0 ConditionReady in
               do { r \<leftarrow> request (kc_Pods (ctl_cc c) (ctl_ControllerNamespace c)
                              (''job-name='' @ om_Name (job_Meta job)));
                    case r of
                      Inl err \<Rightarrow> State_Monad.return (Err ErrIgnore)
                    | Inr pods \<Rightarrow>
                        (case FindLatestPod pods of
                           None \<Rightarrow> State_Monad.return (Err ErrIgnore)
                         | Some pod \<Rightarrow>
                             if pod_Phase pod = PodPending \<or> pod_Phase pod = PodRunning
                             then State_Monad.return (Ok (requeue_after (5 * second)))
                             else if pod_Phase pod = PodSucceeded \<or> pod_Phase pod = PodFailed
                             then do { q \<leftarrow> request (kc_Logs (ctl_cc c) (ctl_ControllerNamespace c)
                                              (om_Name (pod_Meta pod)) TerraformContainerName);
                                       case q of
                                         Inl err \<Rightarrow> State_Monad.return (Err ErrIgnore)
                                       | Inr podlogs \<Rightarrow>
                                           detect_errors c cond podlogs
                                             (Detectors ''*'' @
                                              Detectors (ProviderType_String
                                                (prs_Provider (prv_Spec provider)))) }
                             else State_Monad.return (Err ErrIgnore)) }) }"

section \<open>Terraform plan\<close>

definition save_state :: "'w Controller \<Rightarrow> cstate \<Rightarrow> bool" where
  "save_state c st =
     (case s_provider st of
        Some p \<Rightarrow> if Provider_HasBackendTemplate p then True else HasBackendTemplate c
      | None \<Rightarrow> HasBackendTemplate c)"

definition plan_options :: "'w Controller \<Rightarrow> Configuration \<Rightarrow> cstate \<Rightarrow> Provider \<Rightarrow> Options" where
  "plan_options c configuration st provider =
     \<lparr>op_AdditionalJobAnnotations = JobAnnotations provider,
      op_AdditionalJobSecrets = s_additionalJobSecrets st,
      op_AdditionalJobLabels = MergeStringMaps
        [ctl_ControllerJobLabels c, JobLabels provider, om_Labels (cfg_Meta configuration),
         Some [DriftAnnotation \<mapsto> Configuration_annotation configuration DriftAnnotation,
               RetryAnnotation \<mapsto> Configuration_annotation configuration RetryAnnotation,
               JobTemplateHashLabel \<mapsto> s_jobTemplateHash st]],
      op_BackoffLimit = ctl_BackoffLimit c,
      op_BinaryPath = ctl_BinaryPath c,
      op_DefaultExecutorMemoryRequest = ctl_DefaultExecutorMemoryRequest c,
      op_DefaultExecutorMemoryLimit = ctl_DefaultExecutorMemoryLimit c,
      op_DefaultExecutorCPURequest = ctl_DefaultExecutorCPURequest c,
      op_DefaultExecutorCPULimit = ctl_DefaultExecutorCPULimit c,
      op_EnableInfraCosts = ctl_EnableInfracosts c,
      op_ExecutorImage = ctl_ExecutorImage c,
      op_ExecutorSecrets = ctl_ExecutorSecrets c,
      op_InfracostsImage = ctl_InfracostsImage c,
      op_InfracostsSecret = ctl_InfracostsSecretName c,
      op_Namespace = ctl_ControllerNamespace c,
      op_PolicyConstraint = s_checkovConstraint st,
      op_PolicyImage = ctl_PolicyImage c,
      op_SaveTerraformState = save_state c st,
      op_Template = s_jobTemplate st,
      op_Image = GetTerraformImage configuration (ctl_TerraformImage c)\<rparr>"

text \<open>The search for the current plan job.\<close>

definition plan_filter :: "Configuration \<Rightarrow> string \<Rightarrow> cstate \<Rightarrow> Job list \<Rightarrow> JobFilter" where
  "plan_filter configuration generation st jobs =
     (let m = cfg_Meta configuration in
      WithUID (om_UID m) (WithStage StageTerraformPlan (WithNamespace (om_Namespace m)
        (WithName (om_Name m) (WithLabel JobTemplateHashLabel (s_jobTemplateHash st)
        (WithLabel RetryAnnotation (Configuration_annotation configuration RetryAnnotation)
        (WithLabel DriftAnnotation (Configuration_annotation configuration DriftAnnotation)
        (WithGeneration generation (Jobs jobs)))))))))"

definition set_annotation :: "string \<Rightarrow> string \<Rightarrow> ObjectMeta \<Rightarrow> ObjectMeta" where
  "set_annotation k v m =
     m\<lparr>om_Annotations := Some ((case om_Annotations m of None \<Rightarrow> Map.empty | Some f \<Rightarrow> f)(k \<mapsto> v))\<rparr>"

text \<open>Marking the cloud resource that manages the configuration; a nil annotation map panics.\<close>

definition annotate_cloudresource ::
  "'w Controller \<Rightarrow> ConditionManager \<Rightarrow> Configuration \<Rightarrow> 'w cprog" where
  "annotate_cloudresource c cond configuration =
     do { let name = gomap_get (om_Labels (cfg_Meta configuration)) CloudResourceNameLabel;
          r \<leftarrow> GetIfExists (ctl_cc c) KCloudResource as_CloudResource
                 (om_Namespace (cfg_Meta configuration)) name;
          case r of
            Inl err \<Rightarrow>
              fail_with c cond err
                ''Failed to retrieve the cloudresource: %q which this configuration is part of''
                [FStr name]
          | Inr None \<Rightarrow>
              do { failed c cond None
                     ''CloudResource: %q which this configuration is part of is missing'' [FStr name];
                   State_Monad.return (Ok (requeue_after (5 * minute))) }
          | Inr (Some original) \<Rightarrow>
              if om_Annotations (cr_Meta original) = None then State_Monad.return Panic
              else do { w \<leftarrow> perform (ctl_cc c) (Patch (OCloudResource original))
                               (OCloudResource (original\<lparr>cr_Meta :=
                                  set_annotation ApplyAnnotation ''false'' (cr_Meta original)\<rparr>));
                        case w of
                          Inl err \<Rightarrow>
                            fail_with c cond err ''Failed to create or update the cloudresource: %q''
                              [FStr (om_Name (cr_Meta original))]
                        | Inr _ \<Rightarrow> State_Monad.return (Ok RequeueImmediate) } }"

text \<open>Asking for approval before the first plan of a generation.\<close>

definition request_approval :: "'w Controller \<Rightarrow> ConditionManager \<Rightarrow> 'w cprog" where
  "request_approval c cond =
     do { original \<leftarrow> gets resource;
          modify_resource (\<lambda>x. x\<lparr>cfg_Meta := set_annotation ApplyAnnotation ''false'' (cfg_Meta x)\<rparr>);
          r \<leftarrow> write_back (ctl_cc c) Configuration_Object (Patch (OConfiguration original));
          case r of
            Some err \<Rightarrow>
              fail_with c cond err ''Failed to create or update the terraform configuration'' []
          | None \<Rightarrow>
              do { configuration \<leftarrow> gets resource;
                   if IsManaged configuration then annotate_cloudresource c cond configuration
                   else State_Monad.return (Ok RequeueImmediate) } }"

definition create_plan_job ::
  "'w Controller \<Rightarrow> ConditionManager \<Rightarrow> Job \<Rightarrow> 'w cprog" where
  "create_plan_job c cond runner =
     do { r \<leftarrow> perform (ctl_cc c) Create (OJob runner);
          case r of
            Inl err \<Rightarrow> fail_with c cond err ''Failed to create the terraform plan job'' []
          | Inr _ \<Rightarrow>
              do { in_progress c cond ''Terraform plan in progress'' [];
                   State_Monad.return (Ok (requeue_after (5 * second))) } }"

definition start_plan ::
  "'w Controller \<Rightarrow> ConditionManager \<Rightarrow> Configuration \<Rightarrow> Job \<Rightarrow> 'w cprog" where
  "start_plan c cond configuration runner =
     (if \<not> cs_EnableAutoApproval (cfg_Spec configuration) \<and> \<not> NeedsApproval configuration
      then request_approval c cond
      else if ctl_EnableWatchers c
      then do { r \<leftarrow> CreateWatcher c configuration StageTerraformPlan;
                case r of
                  Some err \<Rightarrow>
                    fail_with c cond err ''Failed to create the terraform plan watcher'' []
                | None \<Rightarrow> create_plan_job c cond runner }
      else create_plan_job c cond runner)"

text \<open>What a plan job that exists tells.\<close>

definition observe_plan :: "'w Controller \<Rightarrow> ConditionManager \<Rightarrow> Job \<Rightarrow> 'w cprog" where
  "observe_plan c cond job =
     (if jobs_IsComplete job
      then do { success c cond ''Terraform plan is complete'' []; proceed }
      else if jobs_IsFailed job
      then do { failed c cond None ''Terraform plan is failed'' []; ensureErrorDetection c job }
      else if jobs_IsActive job
      then do { in_progress c cond ''Terraform plan is running'' [];
                State_Monad.return (Ok (requeue_after (10 * second))) }
      else State_Monad.return (Ok (requeue_after (10 * second))))"

definition run_plan ::
  "'w Controller \<Rightarrow> ConditionManager \<Rightarrow> string \<Rightarrow> 'w cprog" where
  "run_plan c cond generation =
     do { configuration \<leftarrow> gets resource;
          st \<leftarrow> gets rstate;
          case s_provider st of
            None \<Rightarrow> State_Monad.return Panic
          | Some provider \<Rightarrow>
              (case NewTerraformPlan (ctl_rn c) (Render_New configuration (s_provider st))
                      (plan_options c configuration st provider) of
                 Panic \<Rightarrow> State_Monad.return Panic
               | Err err \<Rightarrow> fail_with c cond err ''Failed to create the terraform plan job'' []
               | Ok runner \<Rightarrow>
                   (case s_jobs st of
                      None \<Rightarrow> State_Monad.return Panic
                    | Some jobs \<Rightarrow>
                        (case Latest (plan_filter configuration generation st jobs) of
                           None \<Rightarrow> start_plan c cond configuration runner
                         | Some job \<Rightarrow> observe_plan c cond job))) }"

definition ensureTerraformPlan :: "'w Controller \<Rightarrow> Configuration \<Rightarrow> 'w cprog" where
  "ensureTerraformPlan c configuration0 =
     (let cond = cfg_cond configuration0 ConditionTerraformPlan;
          generation = string_of_int (om_Generation (cfg_Meta configuration0)) in
      do { configuration \<leftarrow> gets resource;
           let condition = cm_GetCondition Configuration_Object cond configuration;
           if HasRetryableAnnotation configuration \<and> \<not> IsRetryableValid configuration
           then do { failed c cond None
                       ''Retryable annotation is invalid, must be a valid unix timestamp'' [];
                     State_Monad.return (Err ErrIgnore) }
           else if HasRetryableAnnotation configuration \<and> IsRetryable configuration
           then run_plan c cond generation
           else if IsFailed condition (om_Generation (cfg_Meta configuration))
           then State_Monad.return (Err ErrIgnore)
           else if IsComplete condition (om_Generation (cfg_Meta configuration)) \<and>
                   (\<not> cs_EnableDriftDetection (cfg_Spec configuration) \<or>
                    Configuration_annotation configuration DriftAnnotation = [])
           then proceed
           else run_plan c cond generation })"

definition ensureTerraformPlanSecret :: "'w Controller \<Rightarrow> Configuration \<Rightarrow> 'w cprog" where
  "ensureTerraformPlanSecret c configuration0 =
     (let cond = cfg_cond configuration0 ConditionReady in
      do { configuration \<leftarrow> gets resource;
           let name = GetTerraformPlanJSONSecretName configuration;
           r \<leftarrow> GetIfExists (ctl_cc c) KSecret as_Secret (ctl_ControllerNamespace c) name;
           case r of
             Inl err \<Rightarrow>
               fail_with c cond err ''Failed to get terraform plan secret (%s/%s)''
                 [FStr (ctl_ControllerNamespace c), FStr name]
           | Inr None \<Rightarrow>
               do { failed c cond None ''Terraform plan secret (%s/%s) not found''
                      [FStr (ctl_ControllerNamespace c), FStr name];
                    State_Monad.return (Err ErrIgnore) }
           | Inr (Some secret) \<Rightarrow>
               do { modify_state (\<lambda>s. s\<lparr>s_tfplan := Some secret\<rparr>); proceed } })"

section \<open>Costs\<close>

definition set_costs :: "CostStatus \<Rightarrow> Configuration \<Rightarrow> Configuration" where
  "set_costs costs x = x\<lparr>cfg_Status := (cfg_Status x)\<lparr>cst_Costs := Some costs\<rparr>\<rparr>"

text \<open>
  The copy of a report in the namespace of the configuration, which \<open>ensureCostStatus\<close> and
  \<open>ensurePolicyStatus\<close> make with the same fields.
\<close>

definition report_copy :: "Configuration \<Rightarrow> string \<Rightarrow> Secret \<Rightarrow> Secret" where
  "report_copy configuration name secret =
     (let m = cfg_Meta configuration in
      \<lparr>sec_Meta = (named_meta (om_Namespace m) name)
         \<lparr>om_Labels := Some [ConfigurationNameLabel \<mapsto> om_Name m, ConfigurationUIDLabel \<mapsto> om_UID m],
          om_OwnerReferences :=
            [\<lparr>or_APIVersion = SchemeGroupVersion, or_Kind = ConfigurationKind,
              or_Name = om_Name m, or_UID = om_UID m,
              or_Controller = None, or_BlockOwnerDeletion = None\<rparr>]\<rparr>,
       sec_Data = sec_Data secret\<rparr>)"

text \<open>The loop over the cost keys: the values found, or the first failure.\<close>

fun cost_values ::
  "'w Controller \<Rightarrow> ConditionManager \<Rightarrow> bytes \<Rightarrow> (string \<rightharpoonup> rat) \<Rightarrow> string list \<Rightarrow>
   ('w, Configuration, cstate, (string \<rightharpoonup> rat) option) prog" where
  "cost_values c cond inp values [] = State_Monad.return (Some values)"
| "cost_values c cond inp values (key # keys) =
     (let found = lib_GJSON (ctl_lib c) inp key in
      if \<not> gr_Exists found
      then do { action_required c cond ''Cost report does not include the %s value'' [FStr key];
                State_Monad.return None }
      else (case lib_ParseFloat (ctl_lib c) (gr_String found) of
              None \<Rightarrow>
                do { action_required c cond
                       ''Cost report contains an include value: %q for item: %s''
                       [FStr (gr_String found), FStr key];
                     State_Monad.return None }
            | Some cost \<Rightarrow> cost_values c cond inp (values(key \<mapsto> cost)) keys))"

definition rat_at :: "(string \<rightharpoonup> rat) \<Rightarrow> string \<Rightarrow> rat" where
  "rat_at m k = (case m k of None \<Rightarrow> 0 | Some v \<Rightarrow> v)"

definition cost_status :: "Libs \<Rightarrow> (string \<rightharpoonup> rat) \<Rightarrow> CostStatus" where
  "cost_status lib values =
     \<lparr>cost_Enabled = True,
      cost_Hourly = ''$'' @ lib_FormatFloat lib (rat_at values ''totalHourlyCost''),
      cost_Monthly = ''$'' @ lib_FormatFloat lib (rat_at values ''totalMonthlyCost'')\<rparr>"

definition cost_keys :: "'w Controller \<Rightarrow> string list" where
  "cost_keys c =
     (if ctl_MonthlyFirst c then [''totalMonthlyCost'', ''totalHourlyCost'']
      else [''totalHourlyCost'', ''totalMonthlyCost''])"

definition ensureCostStatus :: "'w Controller \<Rightarrow> Configuration \<Rightarrow> 'w cprog" where
  "ensureCostStatus c configuration0 =
     (let cond = cfg_cond configuration0 ConditionReady;
          labels = [om_Namespace (cfg_Meta configuration0), om_Name (cfg_Meta configuration0)] in
      if \<not> ctl_EnableInfracosts c
      then do { modify_resource (set_costs
                  \<lparr>cost_Enabled = False, cost_Hourly = [], cost_Monthly = ''Not Enabled''\<rparr>);
                proceed }
      else do {
        configuration \<leftarrow> gets resource;
        r \<leftarrow> GetIfExists (ctl_cc c) KSecret as_Secret (ctl_ControllerNamespace c)
               (GetTerraformCostSecretName configuration);
        case r of
          Inl err \<Rightarrow> fail_with c cond err ''Failed to get the terraform costs secret'' []
        | Inr None \<Rightarrow>
            do { modify_resource (set_costs
                   \<lparr>cost_Enabled = False, cost_Hourly = [], cost_Monthly = []\<rparr>);
                 proceed }
        | Inr (Some secret) \<Rightarrow>
            (let inp = gomap_get (sec_Data secret) ''costs.json'' in
             if length inp = 0 then proceed
             else do {
               v \<leftarrow> cost_values c cond inp
                      [''totalMonthlyCost'' \<mapsto> 0, ''totalHourlyCost'' \<mapsto> 0] (cost_keys c);
               case v of
                 None \<Rightarrow> State_Monad.return (Err ErrIgnore)
               | Some values \<Rightarrow>
                   do { modify_resource (set_costs (cost_status (ctl_lib c) values));
                        record_effect (SetGauge ''monthly_cost'' labels (rat_at values ''totalMonthlyCost''));
                        record_effect (SetGauge ''hourly_cost'' labels (rat_at values ''totalHourlyCost''));
                        w \<leftarrow> CreateOrForceUpdate (ctl_cc c) (OSecret
                               (report_copy configuration (GetTerraformCostSecretName configuration) secret));
                        case w of
                          Some err \<Rightarrow>
                            fail_with c cond err
                              ''Failed to create or update the terraform costs secret'' []
                        | None \<Rightarrow> proceed } }) })"

section \<open>Security policy\<close>

definition policy_report_key :: string where
  "policy_report_key = ''results_json.json''"

text \<open>
  The checks on the shape of the report: an error (its detail and the message of the
  condition with its arguments), or the result that counts the failed checks. A report
  without a summary leaves the zero result.
\<close>

fun check_flat_report ::
  "Libs \<Rightarrow> bytes \<Rightarrow> string list \<Rightarrow> (string \<times> string \<times> string) option" where
  "check_flat_report lib report [] = None"
| "check_flat_report lib report (x # xs) =
     (if \<not> gr_Exists (lib_GJSON lib report x)
      then Some (''invalid policy report'', ''Security report is missing %s field'', x)
      else if gr_Int (lib_GJSON lib report ''zero'') \<noteq> 0
      then Some (''invalid policy report'', ''Security report is field %s is non-zero'', x)
      else check_flat_report lib report xs)"

definition read_policy_report :: "Libs \<Rightarrow> bytes \<Rightarrow> (string \<times> string \<times> farg list) + GResult" where
  "read_policy_report lib report =
     (if gr_Exists (lib_GJSON lib report ''summary'')
      then let f = lib_GJSON lib report ''summary.failed'' in
           if \<not> gr_Exists f
           then Inl (''missing report'',
             ''Security report does not contain a summary of finding, please contact platform administrator'', [])
           else if \<not> gr_IsNumber f
           then Inl (''invalid resport'',
             ''Security report failed summary is not numerical as expected, please contact platform administrator'', [])
           else Inr f
      else (case check_flat_report lib report [''passed'', ''failed''] of
              Some (detail, message, x) \<Rightarrow> Inl (detail, message, [FStr x])
            | None \<Rightarrow> Inr empty_gresult))"

definition ensurePolicyStatus :: "'w Controller \<Rightarrow> Configuration \<Rightarrow> 'w cprog" where
  "ensurePolicyStatus c configuration0 =
     (let cond = cfg_cond configuration0 ConditionTerraformPolicy in
      do { configuration \<leftarrow> gets resource;
           st \<leftarrow> gets rstate;
           if s_checkovConstraint st = None
           then do { success c cond ''Security policy is not configured'' []; proceed }
           else do {
             let name = GetTerraformPolicySecretName configuration;
             r \<leftarrow> GetIfExists (ctl_cc c) KSecret as_Secret (ctl_ControllerNamespace c) name;
             case r of
               Inl err \<Rightarrow>
                 fail_with c cond err ''Failed to retrieve the secret containing the checkov scan'' []
             | Inr None \<Rightarrow>
                 do { warning c cond ''Failed to find the secret: (%s/%s) containing checkov scan''
                        [FStr (ctl_ControllerNamespace c), FStr name];
                      State_Monad.return (Ok (requeue_after (10 * minute))) }
             | Inr (Some secret) \<Rightarrow>
                 (case read_policy_report (ctl_lib c) (gomap_get (sec_Data secret) policy_report_key) of
                    Inl (detail, message, args) \<Rightarrow>
                      do { failed c cond (Some (ErrMsg detail)) message args;
                           State_Monad.return (Err ErrIgnore) }
                  | Inr f \<Rightarrow>
                      do { w \<leftarrow> CreateOrForceUpdate (ctl_cc c)
                                  (OSecret (report_copy configuration name secret));
                           case w of
                             Some err \<Rightarrow>
                               fail_with c cond err
                                 ''Failed to create or update the terraform policy secret'' []
                           | None \<Rightarrow>
                               if gr_Int f > 0
                               then require_action c cond
                                      ''Configuration has failed security policy, refusing to continue''
                                      [] (Err ErrIgnore)
                               else do { success c cond ''Passed security checks'' []; proceed } }) } })"

end
