(* ===== verification/Config_Apply.thy ===== *)
theory Config_Apply
  imports Config_Plan
begin

text \<open>
  The configuration controller, the apply stage: drift detection, the terraform apply behind
  its approval gate, the connection secret and the final status (\<open>ensure.go\<close>).
\<close>

definition set_drift :: "Configuration \<Rightarrow> Configuration" where
  "set_drift x =
     (let drift = Configuration_annotation x DriftAnnotation in
      if cs_EnableDriftDetection (cfg_Spec x) \<and> drift \<noteq> cst_DriftTimestamp (cfg_Status x)
      then x\<lparr>cfg_Status := (cfg_Status x)\<lparr>cst_DriftTimestamp := drift\<rparr>\<rparr> else x)"

definition ensureDriftDetection :: "'w Controller \<Rightarrow> Configuration \<Rightarrow> 'w cprog" where
  "ensureDriftDetection c configuration0 =
     (let cond = cfg_cond configuration0 ConditionReady in
      do { modify_resource set_drift;
           st \<leftarrow> gets rstate;
           case s_tfplan st of
             None \<Rightarrow> State_Monad.return Panic
           | Some secret \<Rightarrow>
               (case DecodePlan (ctl_lib c) (gomap_get (sec_Data secret) TerraformPlanJSONSecretKey) of
                  Inl err \<Rightarrow> fail_with c cond err ''Failed to decode the terraform plan'' []
                | Inr tfplan \<Rightarrow>
                    do { modify_state (\<lambda>s. s\<lparr>s_hasDrift := NeedsApply tfplan\<rparr>); proceed }) })"

section \<open>Terraform apply\<close>

definition apply_options ::
  "'w Controller \<Rightarrow> Configuration \<Rightarrow> cstate \<Rightarrow> Provider \<Rightarrow> TfPlan \<Rightarrow> Options" where
  "apply_options c configuration st provider tfplan =
     \<lparr>op_AdditionalJobAnnotations = JobAnnotations provider,
      op_AdditionalJobSecrets = s_additionalJobSecrets st,
      op_AdditionalJobLabels = MergeStringMaps
        [ctl_ControllerJobLabels c, JobLabels provider, om_Labels (cfg_Meta configuration),
         Some [JobPlanIDLabel \<mapsto> ID tfplan, JobTemplateHashLabel \<mapsto> s_jobTemplateHash st]],
      op_BackoffLimit = ctl_BackoffLimit c,
      op_BinaryPath = ctl_BinaryPath c,
      op_DefaultExecutorMemoryRequest = ctl_DefaultExecutorMemoryRequest c,
      op_DefaultExecutorMemoryLimit = ctl_DefaultExecutorMemoryLimit c,
      op_DefaultExecutorCPURequest = ctl_DefaultExecutorCPURequest c,
      op_DefaultExecutorCPULimit = ctl_DefaultExecutorCPULimit c,
      op_EnableInfraCosts = ctl_EnableInfracosts c,
      op_ExecutorImage = ctl_ExecutorImage c,
      op_ExecutorSecrets = ctl_ExecutorSecrets c,
      op_InfracostsImage = ctl_InfracostsImage c,
      op_InfracostsSecret = ctl_InfracostsSecretName c,
      op_Namespace = ctl_ControllerNamespace c,
      op_PolicyConstraint = None,
      op_PolicyImage = [],
      op_SaveTerraformState = save_state c st,
      op_Template = s_jobTemplate st,
      op_Image = GetTerraformImage configuration (ctl_TerraformImage c)\<rparr>"

definition apply_filter ::
  "Configuration \<Rightarrow> string \<Rightarrow> cstate \<Rightarrow> TfPlan \<Rightarrow> Job list \<Rightarrow> JobFilter" where
  "apply_filter configuration generation st tfplan jobs =
     (let m = cfg_Meta configuration in
      WithUID (om_UID m) (WithStage StageTerraformApply (WithName (om_Name m)
        (WithNamespace (om_Namespace m) (WithLabel JobTemplateHashLabel (s_jobTemplateHash st)
        (WithLabel JobPlanIDLabel (ID tfplan) (WithGeneration generation (Jobs jobs))))))))"

definition create_apply_job :: "'w Controller \<Rightarrow> ConditionManager \<Rightarrow> Job \<Rightarrow> 'w cprog" where
  "create_apply_job c cond runner =
     do { r \<leftarrow> perform (ctl_cc c) Create (OJob runner);
          case r of
            Inl err \<Rightarrow> fail_with c cond err ''Failed to create the terraform apply job'' []
          | Inr _ \<Rightarrow>
              do { in_progress c cond ''Terraform apply is running'' [];
                   State_Monad.return (Ok (requeue_after (5 * second))) } }"

definition start_apply ::
  "'w Controller \<Rightarrow> ConditionManager \<Rightarrow> Configuration \<Rightarrow> Job \<Rightarrow> 'w cprog" where
  "start_apply c cond configuration runner =
     do { modify_resource (set_resource_status ResourcesOutOfSync);
          if ctl_EnableWatchers c
          then do { r \<leftarrow> CreateWatcher c configuration StageTerraformApply;
                    case r of
                      Some err \<Rightarrow>
                        fail_with c cond err ''Failed to create the terraform apply watcher'' []
                    | None \<Rightarrow> create_apply_job c cond runner }
          else create_apply_job c cond runner }"

definition observe_apply :: "'w Controller \<Rightarrow> ConditionManager \<Rightarrow> Job \<Rightarrow> 'w cprog" where
  "observe_apply c cond job =
     (if jobs_IsComplete job
      then do { modify_resource (set_resource_status ResourcesInSync);
                success c cond ''Terraform apply is complete'' [];
                proceed }
      else if jobs_IsFailed job
      then do { failed c cond None ''Terraform apply has failed'' []; ensureErrorDetection c job }
      else if jobs_IsActive job
      then do { in_progress c cond ''Terraform apply in progress'' [];
                State_Monad.return (Ok (requeue_after (5 * second))) }
      else State_Monad.return (Ok (requeue_after (5 * second))))"

definition run_apply :: "'w Controller \<Rightarrow> ConditionManager \<Rightarrow> string \<Rightarrow> 'w cprog" where
  "run_apply c cond generation =
     do { configuration \<leftarrow> gets resource;
          st \<leftarrow> gets rstate;
          case s_tfplan st of
            None \<Rightarrow> State_Monad.return Panic
          | Some secret \<Rightarrow>
              (case DecodePlan (ctl_lib c) (gomap_get (sec_Data secret) TerraformPlanJSONSecretKey) of
                 Inl err \<Rightarrow> fail_with c cond err ''Failed to decode the terraform plan'' []
               | Inr tfplan \<Rightarrow>
                   (case s_provider st of
                      None \<Rightarrow> State_Monad.return Panic
                    | Some provider \<Rightarrow>
                        (case NewTerraformApply (ctl_rn c) (Render_New configuration (s_provider st))
                                (apply_options c configuration st provider tfplan) of
                           Panic \<Rightarrow> State_Monad.return Panic
                         | Err err \<Rightarrow>
                             fail_with c cond err ''Failed to create the terraform apply job'' []
                         | Ok runner \<Rightarrow>
                             (case s_jobs st of
                                None \<Rightarrow> State_Monad.return Panic
                              | Some jobs \<Rightarrow>
                                  (case Latest (apply_filter configuration generation st tfplan jobs) of
                                     None \<Rightarrow> start_apply c cond configuration runner
                                   | Some job \<Rightarrow> observe_apply c cond job))))) }"

definition ensureTerraformApply :: "'w Controller \<Rightarrow> Configuration \<Rightarrow> 'w cprog" where
  "ensureTerraformApply c configuration0 =
     (let cond = cfg_cond configuration0 ConditionTerraformApply;
          readyCond = cfg_cond configuration0 ConditionReady;
          generation = string_of_int (om_Generation (cfg_Meta configuration0)) in
      do { configuration \<leftarrow> gets resource;
           st \<leftarrow> gets rstate;
           r \<leftarrow> GetSecretIfExists (ctl_cc c) (ctl_ControllerNamespace c)
                  (GetTerraformStateSecretName configuration);
           case r of
             Inl err \<Rightarrow> fail_with c cond err ''Failed to get terraform state secret'' []
           | Inr found \<Rightarrow>
               if \<not> s_hasDrift st \<and> found \<noteq> None
               then do { modify_resource (set_resource_status ResourcesInSync);
                         success c cond ''Nothing to apply'' [];
                         proceed }
               else if NeedsApproval configuration \<and> \<not> cs_EnableAutoApproval (cfg_Spec configuration)
               then do { action_required c cond
                           ''Waiting for terraform apply annotation to be set to true'' [];
                         in_progress c readyCond ''Waiting for changes to be approved'' [];
                         modify_resource (set_resource_status ResourcesOutOfSync);
                         State_Monad.return (Err ErrIgnore) }
               else run_apply c cond generation })"

section \<open>Connection secret and status\<close>

text \<open>The entries of the connection secret, from the outputs in the order of one iteration.\<close>

fun connection_data ::
  "Libs \<Rightarrow> WriteConnectionSecret \<Rightarrow> string gomap \<Rightarrow> (string \<rightharpoonup> bytes) \<Rightarrow>
   (string \<times> OutputValue) list \<Rightarrow> (string \<rightharpoonup> bytes)" where
  "connection_data lib w mapping data [] = data"
| "connection_data lib w mapping data ((k, v) # outputs) =
     (if \<not> HasKeys w
      then connection_data lib w mapping
             (data(ToUpper k \<mapsto> OutputValue_String (lib_FormatFloat lib) v)) outputs
      else (case gomap_find mapping k of
              None \<Rightarrow> connection_data lib w mapping data outputs
            | Some v' \<Rightarrow> connection_data lib w mapping
                (data(ToUpper v' \<mapsto> OutputValue_String (lib_FormatFloat lib) v)) outputs))"

definition connection_secret ::
  "Configuration \<Rightarrow> WriteConnectionSecret \<Rightarrow> (string \<rightharpoonup> bytes) \<Rightarrow> Secret" where
  "connection_secret configuration w data =
     \<lparr>sec_Meta = (named_meta (om_Namespace (cfg_Meta configuration)) (wcs_Name w))
        \<lparr>om_OwnerReferences := [NewControllerRef configuration],
         om_Labels := configuration_labels configuration\<rparr>,
      sec_Data = Some data\<rparr>"

definition write_connection_secret ::
  "'w Controller \<Rightarrow> ConditionManager \<Rightarrow> Configuration \<Rightarrow> Secret \<Rightarrow> WriteConnectionSecret \<Rightarrow> 'w cprog" where
  "write_connection_secret c cond configuration secret w =
     (case DecodeState (ctl_lib c) (gomap_get (sec_Data secret) TerraformStateSecretKey) of
        Inl err \<Rightarrow> fail_with c cond err ''Failed to decode the terraform state'' []
      | Inr tfstate \<Rightarrow>
          if HasOutputs tfstate
          then (case KeysMap w of
                  Inl err \<Rightarrow>
                    fail_with c cond err
                      ''Failed to parse the configuration connection secrets mapping'' []
                | Inr mapping \<Rightarrow>
                    do { r \<leftarrow> CreateOrForceUpdate (ctl_cc c) (OSecret
                           (connection_secret configuration w
                              (connection_data (ctl_lib c) w mapping Map.empty (tf_Outputs tfstate))));
                         case r of
                           Some err \<Rightarrow>
                             fail_with c cond err ''Failed to create the terraform state secret'' []
                         | None \<Rightarrow> proceed })
          else proceed)"

definition ensureConnectionSecret :: "'w Controller \<Rightarrow> Configuration \<Rightarrow> 'w cprog" where
  "ensureConnectionSecret c configuration0 =
     (let cond = cfg_cond configuration0 ConditionReady in
      do { configuration \<leftarrow> gets resource;
           let name = GetTerraformStateSecretName configuration;
           r \<leftarrow> GetIfExists (ctl_cc c) KSecret as_Secret (ctl_ControllerNamespace c) name;
           case r of
             Inl err \<Rightarrow>
               fail_with c cond err ''Failed to get terraform state secret (%s/%s)''
                 [FStr (ctl_ControllerNamespace c), FStr name]
           | Inr None \<Rightarrow>
               do { failed c cond None ''Terraform state secret (%s/%s) not found''
                      [FStr (ctl_ControllerNamespace c), FStr name];
                    State_Monad.return (Err ErrIgnore) }
           | Inr (Some secret) \<Rightarrow>
               do { modify_state (\<lambda>s. s\<lparr>s_tfstate := Some secret\<rparr>);
                    case cs_WriteConnectionSecretToRef (cfg_Spec configuration) of
                      None \<Rightarrow> proceed
                    | Some w \<Rightarrow> write_connection_secret c cond configuration secret w } })"

definition set_tf_status :: "TfState \<Rightarrow> Configuration \<Rightarrow> Configuration" where
  "set_tf_status tfstate x =
     x\<lparr>cfg_Status := (cfg_Status x)\<lparr>cst_Resources := Some (int (CountResources tfstate)),
         cst_TerraformVersion := tf_TerraformVersion tfstate\<rparr>\<rparr>"

definition ensureTerraformStatus :: "'w Controller \<Rightarrow> Configuration \<Rightarrow> 'w cprog" where
  "ensureTerraformStatus c configuration0 =
     (let cond = cfg_cond configuration0 ConditionReady in
      do { st \<leftarrow> gets rstate;
           case s_tfstate st of
             None \<Rightarrow> State_Monad.return Panic
           | Some secret \<Rightarrow>
               (case DecodeState (ctl_lib c) (gomap_get (sec_Data secret) TerraformStateSecretKey) of
                  Inl err \<Rightarrow> fail_with c cond err ''Failed to decode the terraform state'' []
                | Inr tfstate \<Rightarrow>
                    do { modify_resource (set_tf_status tfstate);
                         configuration \<leftarrow> gets resource;
                         let labels = [om_Namespace (cfg_Meta configuration), om_Name (cfg_Meta configuration)];
                         (case cst_ResourceStatus (cfg_Status configuration) of
                            ResourcesInSync \<Rightarrow> record_effect (SetGauge ''in_sync'' labels 1)
                          | ResourcesOutOfSync \<Rightarrow> record_effect (SetGauge ''in_sync'' labels 0)
                          | _ \<Rightarrow> State_Monad.return ());
                         success c cond ''Resource ready'' [];
                         proceed }) })"

end
