(* ===== verification/Config_Reconcile.thy ===== *)
theory Config_Reconcile
  imports Config_Apply
begin

text \<open>
  The configuration controller, deletion (\<open>delete.go\<close>) and the reconcile handler that
  composes the chains (\<open>reconcile.go\<close>).
\<close>

section \<open>Deletion\<close>

definition destroy_options ::
  "'w Controller \<Rightarrow> Configuration \<Rightarrow> cstate \<Rightarrow> Provider \<Rightarrow> Options" where
  "destroy_options c configuration st provider =
     \<lparr>op_AdditionalJobAnnotations = JobAnnotations provider,
      op_AdditionalJobSecrets = s_additionalJobSecrets st,
      op_AdditionalJobLabels = MergeStringMaps
        [ctl_ControllerJobLabels c, JobLabels provider, om_Labels (cfg_Meta configuration),
         Some [RetryAnnotation \<mapsto> Configuration_annotation configuration RetryAnnotation]],
      op_BackoffLimit = ctl_BackoffLimit c,
      op_BinaryPath = ctl_BinaryPath c,
      op_DefaultExecutorMemoryRequest = [],
      op_DefaultExecutorMemoryLimit = [],
      op_DefaultExecutorCPURequest = [],
      op_DefaultExecutorCPULimit = [],
      op_EnableInfraCosts = ctl_EnableInfracosts c,
      op_ExecutorImage = ctl_ExecutorImage c,
      op_ExecutorSecrets = ctl_ExecutorSecrets c,
      op_InfracostsImage = ctl_InfracostsImage c,
      op_InfracostsSecret = ctl_InfracostsSecretName c,
      op_Namespace = ctl_ControllerNamespace c,
      op_PolicyConstraint = None,
      op_PolicyImage = [],
      op_SaveTerraformState = False,
      op_Template = s_jobTemplate st,
      op_Image = GetTerraformImage configuration (ctl_TerraformImage c)\<rparr>"

definition destroy_filter :: "Configuration \<Rightarrow> string \<Rightarrow> Job list \<Rightarrow> JobFilter" where
  "destroy_filter configuration generation jobs =
     (let m = cfg_Meta configuration in
      WithUID (om_UID m) (WithStage StageTerraformDestroy (WithNamespace (om_Namespace m)
        (WithLabel RetryAnnotation (Configuration_annotation configuration RetryAnnotation)
        (WithName (om_Name m) (WithGeneration generation (Jobs jobs)))))))"

text \<open>
  The watcher of a destroy job: skipped when the namespace is terminating. A namespace that
  is not found reads as one without a deletion time.
\<close>

definition watch_destroy :: "'w Controller \<Rightarrow> ConditionManager \<Rightarrow> Configuration \<Rightarrow> 'w cprog" where
  "watch_destroy c cond configuration =
     do { r \<leftarrow> GetIfExists (ctl_cc c) KNamespace as_Namespace [] (om_Namespace (cfg_Meta configuration));
          case r of
            Inl err \<Rightarrow> fail_with c cond err ''Failed to check for the namespace'' []
          | Inr ns \<Rightarrow>
              let deletion = Option.bind ns (\<lambda>n. om_DeletionTimestamp (ns_Meta n)) in
              if deletion = None \<or> deletion = Some 0
              then do { q \<leftarrow> CreateWatcher c configuration StageTerraformDestroy;
                        case q of
                          Some err \<Rightarrow>
                            fail_with c cond err ''Failed to create the terraform destroy watcher'' []
                        | None \<Rightarrow> proceed }
              else proceed }"

definition start_destroy ::
  "'w Controller \<Rightarrow> ConditionManager \<Rightarrow> Configuration \<Rightarrow> Job \<Rightarrow> 'w cprog" where
  "start_destroy c cond configuration runner =
     do { r \<leftarrow> perform (ctl_cc c) Create (OJob runner);
          case r of
            Inl err \<Rightarrow> fail_with c cond err ''Failed to create the terraform destroy job'' []
          | Inr _ \<Rightarrow>
              do { q \<leftarrow> (if ctl_EnableWatchers c then watch_destroy c cond configuration else proceed);
                   if continues q
                   then do { in_progress c cond ''Terraform destroy is running'' [];
                             State_Monad.return (Ok (requeue_after (5 * second))) }
                   else State_Monad.return q } }"

definition observe_destroy :: "'w Controller \<Rightarrow> ConditionManager \<Rightarrow> Job \<Rightarrow> 'w cprog" where
  "observe_destroy c cond job =
     (if jobs_IsComplete job
      then do { success c cond ''Terraform destroy is complete'' []; proceed }
      else if jobs_IsFailed job
      then do { failed c cond None ''Terraform destroy has failed'' [];
                modify_resource (set_resource_status DestroyingResourcesFailed);
                State_Monad.return (Err ErrIgnore) }
      else if jobs_IsActive job
      then do { in_progress c cond ''Terraform destroy is running'' [];
                State_Monad.return (Ok (requeue_after (5 * second))) }
      else State_Monad.return (Ok (requeue_after (5 * second))))"

definition run_destroy :: "'w Controller \<Rightarrow> ConditionManager \<Rightarrow> string \<Rightarrow> 'w cprog" where
  "run_destroy c cond generation =
     do { configuration \<leftarrow> gets resource;
          st \<leftarrow> gets rstate;
          case s_jobs st of
            None \<Rightarrow> State_Monad.return Panic
          | Some jobs \<Rightarrow>
              (case s_provider st of
                 None \<Rightarrow> State_Monad.return Panic
               | Some provider \<Rightarrow>
                   (case NewTerraformDestroy (ctl_rn c) (Render_New configuration (s_provider st))
                           (destroy_options c configuration st provider) of
                      Panic \<Rightarrow> State_Monad.return Panic
                    | Err err \<Rightarrow>
                        fail_with c cond err ''Failed to create the terraform destroy job'' []
                    | Ok runner \<Rightarrow>
                        (case Latest (destroy_filter configuration generation jobs) of
                           None \<Rightarrow> start_destroy c cond configuration runner
                         | Some job \<Rightarrow> observe_destroy c cond job))) }"

definition ensureTerraformDestroy :: "'w Controller \<Rightarrow> Configuration \<Rightarrow> 'w cprog" where
  "ensureTerraformDestroy c configuration0 =
     (let cond = cfg_cond configuration0 ConditionReady;
          generation = string_of_int (om_Generation (cfg_Meta configuration0)) in
      do { current \<leftarrow> gets resource;
           if Configuration_annotation current OrphanAnnotation = ''true'' then proceed
           else do {
             modify_resource (set_resource_status DestroyingResources);
             configuration \<leftarrow> gets resource;
             if cst_Resources (cfg_Status configuration) = Some 0
             then do { record_effect (Event (OConfiguration configuration) EventTypeNormal
                         ''DeletionSkipped''
                         ''Configuration had zero resources, skipping terraform destroy'');
                       proceed }
             else do {
               r \<leftarrow> GetIfExists (ctl_cc c) KSecret as_Secret (ctl_ControllerNamespace c)
                      (GetTerraformStateSecretName configuration);
               case r of
                 Inl err \<Rightarrow>
                   fail_with c cond err ''Failed to check for the terraform state secret'' []
               | Inr None \<Rightarrow> proceed
               | Inr (Some _) \<Rightarrow> run_destroy c cond generation } } })"

fun delete_secrets :: "'w Controller \<Rightarrow> ConditionManager \<Rightarrow> string list \<Rightarrow> 'w cprog" where
  "delete_secrets c cond [] = proceed"
| "delete_secrets c cond (name # names) =
     do { r \<leftarrow> DeleteIfExists (ctl_cc c)
                 (OSecret \<lparr>sec_Meta = named_meta (ctl_ControllerNamespace c) name, sec_Data = None\<rparr>);
          case r of
            Some err \<Rightarrow>
              fail_with c cond err ''Failed to delete the configuration secret (%s/%s)''
                [FStr (ctl_ControllerNamespace c), FStr name]
          | None \<Rightarrow> delete_secrets c cond names }"

definition configuration_secrets :: "Configuration \<Rightarrow> string list" where
  "configuration_secrets configuration =
     [GetTerraformConfigSecretName configuration,
      GetTerraformCostSecretName configuration,
      GetTerraformPolicySecretName configuration,
      GetTerraformStateSecretName configuration,
      GetTerraformPlanOutSecretName configuration,
      GetTerraformPlanJSONSecretName configuration]"

definition ensureConfigurationSecretsDeleted :: "'w Controller \<Rightarrow> Configuration \<Rightarrow> 'w cprog" where
  "ensureConfigurationSecretsDeleted c configuration0 =
     (let cond = cfg_cond configuration0 ConditionReady in
      do { configuration \<leftarrow> gets resource;
           delete_secrets c cond (configuration_secrets configuration) })"

fun delete_jobs :: "'w Controller \<Rightarrow> ConditionManager \<Rightarrow> Job list \<Rightarrow> 'w cprog" where
  "delete_jobs c cond [] = proceed"
| "delete_jobs c cond (job # jobs) =
     do { r \<leftarrow> DeleteIfExists (ctl_cc c) (OJob job);
          case r of
            Some err \<Rightarrow>
              fail_with c cond err ''Failed to delete the configuration job (%s/%s)''
                [FStr (om_Namespace (job_Meta job)), FStr (om_Name (job_Meta job))]
          | None \<Rightarrow> delete_jobs c cond jobs }"

definition ensureConfigurationJobsDeleted :: "'w Controller \<Rightarrow> Configuration \<Rightarrow> 'w cprog" where
  "ensureConfigurationJobsDeleted c configuration0 =
     (let cond = cfg_cond configuration0 ConditionReady in
      do { configuration \<leftarrow> gets resource;
           r \<leftarrow> list_objects (ctl_cc c) KJob as_Job
                  [MatchingLabels [(ConfigurationNameLabel, om_Name (cfg_Meta configuration)),
                                   (ConfigurationNamespaceLabel, om_Namespace (cfg_Meta configuration))]];
           case r of
             Inl err \<Rightarrow> fail_with c cond err ''Failed to list all the configuration jobs'' []
           | Inr jobs \<Rightarrow>
               if length jobs = 0 then proceed
               else do { q \<leftarrow> delete_jobs c cond jobs;
                         if continues q
                         then do { record_effect (Event (OConfiguration configuration) EventTypeNormal
                                     ''ConfigurationDeleted'' ''Configuration has been deleted'');
                                   proceed }
                         else State_Monad.return q } })"

section \<open>The handler\<close>

text \<open>The functions of the two chains, built on the configuration the handler read.\<close>

definition delete_chain :: "'w Controller \<Rightarrow> Configuration \<Rightarrow> 'w cprog list" where
  "delete_chain c configuration =
     [ensureCapturedState c configuration,
      ensureProviderReady c configuration,
      ensureCustomBackendTemplate c configuration,
      ensurePolicyDefaultsExist c configuration,
      ensureValueFromSecret c configuration,
      ensureAuthenticationSecret c configuration,
      ensureCustomJobTemplate c configuration,
      ensureJobConfigurationSecret c configuration,
      ensureTerraformDestroy c configuration,
      ensureConfigurationSecretsDeleted c configuration,
      ensureConfigurationJobsDeleted c configuration,
      EnsureRemoved (ctl_cc c) Configuration_Object controllerName]"

definition reconcile_chain :: "'w Controller \<Rightarrow> Configuration \<Rightarrow> 'w cprog list" where
  "reconcile_chain c configuration =
     [EnsurePresent (ctl_cc c) Configuration_Object controllerName,
      ensureReconcileAnnotation c configuration,
      ensureCapturedState c configuration,
      ensureConfigurationThreshold c configuration,
      ensureNoActivity c configuration,
      ensureCostSecret c configuration,
      ensureValueFromSecret c configuration,
      ensureAuthenticationSecret c configuration,
      ensureCustomJobTemplate c configuration,
      ensureProviderReady c configuration,
      ensureCustomBackendTemplate c configuration,
      ensurePolicyDefaultsExist c configuration,
      ensureJobConfigurationSecret c configuration,
      ensureTerraformPlan c configuration,
      ensureTerraformPlanSecret c configuration,
      ensureCostStatus c configuration,
      ensurePolicyStatus c configuration,
      ensureDriftDetection c configuration,
      ensureTerraformApply c configuration,
      ensureConnectionSecret c configuration,
      ensureTerraformStatus c configuration]"

definition status_metric :: "Configuration \<Rightarrow> effect" where
  "status_metric configuration =
     SetGauge ''configuration_status''
       [om_Name (cfg_Meta configuration), om_Namespace (cfg_Meta configuration)]
       (if Common_IsFailed (cst_Common (cfg_Status configuration)) then 1 else 0)"

definition reconcile_configuration :: "'w Controller \<Rightarrow> Configuration \<Rightarrow> 'w cprog" where
  "reconcile_configuration c configuration =
     do { modify_resource (\<lambda>_. configuration);
          modify_state (\<lambda>_. new_state c);
          r \<leftarrow> (if IsDeletionCandidate Configuration_Object controllerName configuration
                then Run (ctl_cc c) Configuration_Object (delete_chain c configuration)
                else do {
                  now \<leftarrow> gets (\<lambda>s. cc_Now (ctl_cc c) (world s));
                  let registered = EnsureConditionsRegistered Configuration_Object now
                        DefaultConfigurationConditions configuration;
                  modify_resource (\<lambda>_. registered);
                  Run (ctl_cc c) Configuration_Object (reconcile_chain c registered) });
          final \<leftarrow> gets resource;
          record_effect (status_metric final);
          State_Monad.return r }"

text \<open>\<open>Reconcile\<close>: a request for a configuration that no longer exists is done.\<close>

definition Reconcile :: "'w Controller \<Rightarrow> string \<Rightarrow> string \<Rightarrow> 'w cprog" where
  "Reconcile c namespace name =
     do { r \<leftarrow> request (cc_Get (ctl_cc c) KConfiguration namespace name);
          case r of
            Inl err \<Rightarrow>
              if IsNotFound err then proceed else State_Monad.return (Err err)
          | Inr x \<Rightarrow>
              (case as_Configuration x of
                 None \<Rightarrow> State_Monad.return (Err decode_error)
               | Some configuration \<Rightarrow> reconcile_configuration c configuration) }"

end
