(* ===== verification/Config_Effects.thy ===== *)
theory Config_Effects
  imports Config_Reconcile
begin

text \<open>
  Which effects the ensure functions of the configuration controller can have: the gathering
  functions create no job, and each of the plan, apply and destroy functions creates jobs of
  its own stage only.
\<close>

definition no_job :: "effect \<Rightarrow> bool" where
  "no_job e \<longleftrightarrow> (\<forall>j r. e \<noteq> Wrote Create (OJob j) r)"

text \<open>Effects without consequence for the stages: events, gauges and writes of secrets.\<close>

definition mild :: "effect \<Rightarrow> bool" where
  "mild e = (case e of Wrote v x r \<Rightarrow> kind_of x = KSecret | _ \<Rightarrow> True)"

definition stage_only :: "string \<Rightarrow> effect \<Rightarrow> bool" where
  "stage_only st e \<longleftrightarrow> (\<forall>j r. e = Wrote Create (OJob j) r \<longrightarrow> job_stage j = st)"

lemma no_job_simps [simp]:
  "no_job (Event x t m d)" "no_job (SetGauge n l q)" "no_job (IncCounter cn)"
  "no_job (Wrote Update x r)" "no_job (Wrote (Patch y) x r)" "no_job (Wrote (StatusPatch y) x r)"
  "no_job (Wrote Delete x r)" "no_job (Wrote v (OConfiguration z) r)" "no_job (Wrote v (OSecret k) r)"
  by (simp_all add: no_job_def)

lemma mild_simps [simp]:
  "mild (Event x t m d)" "mild (SetGauge n l q)" "mild (IncCounter cn)" "mild (Wrote v x r) \<longleftrightarrow> kind_of x = KSecret"
  by (simp_all add: mild_def)

lemma mild_no_job: "mild e \<Longrightarrow> no_job e"
  by (cases e) (auto simp: mild_def no_job_def)

lemma no_job_kind [simp]: "kind_of x = KSecret \<Longrightarrow> no_job (Wrote v x r)"
  by (cases x) (simp_all add: no_job_def)

lemma stage_only_simps [simp]:
  "no_job e \<Longrightarrow> stage_only st e" "mild e \<Longrightarrow> stage_only st e"
  "stage_only st (Wrote Create (OJob j) r) \<longleftrightarrow> job_stage j = st"
  by (auto simp: no_job_def stage_only_def dest: mild_no_job)

text \<open>Effects that only events and secret writes satisfy are enough for the common steps.\<close>

lemma logs_cond [logs_intros]:
  assumes "\<And>x t r m. E (Event x t r m)"
  shows "logs E (failed c cond err m args)" "logs E (action_required c cond m args)"
    "logs E (warning c cond m args)" "logs E (success c cond m args)"
    "logs E (in_progress c cond m args)" "logs E (fail_with c cond err' m args)"
    "logs E (require_action c cond m args res)"
  unfolding cond_defs fail_with_def require_action_def by (intro logs_intros assms)+

lemma logs_getNamespaceFromCache [logs_intros]: "logs E (getNamespaceFromCache c n)"
  unfolding getNamespaceFromCache_def by (intro logs_intros)

lemma logs_findMatchingPolicy [logs_intros]: "logs E (findMatchingPolicy c cfg ps)"
  unfolding findMatchingPolicy_def by (intro logs_intros)

lemma logs_CreateWatcher [logs_intros]:
  "(\<And>j r. job_stage j = stage \<Longrightarrow> E (Wrote Create (OJob j) r)) \<Longrightarrow> logs E (CreateWatcher c cfg stage)"
  unfolding CreateWatcher_def by (intro logs_intros) (simp add: NewJobWatch_stage)

section \<open>Gathering\<close>

lemma logs_EnsurePresent: "logs no_job (EnsurePresent cc Configuration_Object fin)"
  unfolding EnsurePresent_def Finalizer_Add_def by (intro logs_intros) simp_all

lemma logs_EnsureRemoved: "logs no_job (EnsureRemoved cc Configuration_Object fin)"
  unfolding EnsureRemoved_def by (intro logs_intros) simp_all

lemma logs_ensureReconcileAnnotation: "logs mild (ensureReconcileAnnotation c cfg)"
  unfolding ensureReconcileAnnotation_def by (intro logs_intros) simp_all

lemma logs_ensureCapturedState: "logs mild (ensureCapturedState c cfg)"
  unfolding ensureCapturedState_def capture_revision_def capture_lists_def
  by (intro logs_intros) simp_all

lemma logs_ensureConfigurationThreshold: "logs mild (ensureConfigurationThreshold c cfg)"
  unfolding ensureConfigurationThreshold_def by (intro logs_intros) simp_all

lemma logs_ensureNoActivity: "logs mild (ensureNoActivity c cfg)"
  unfolding ensureNoActivity_def by (intro logs_intros)

lemma logs_ensureCustomBackendTemplate: "logs mild (ensureCustomBackendTemplate c cfg)"
  unfolding ensureCustomBackendTemplate_def by (intro logs_intros) simp_all

lemma logs_ensureCostSecret: "logs mild (ensureCostSecret c cfg)"
  unfolding ensureCostSecret_def by (intro logs_intros) simp_all

lemma logs_value_from_loop: "logs mild (value_from_loop c cond cfg i xs)"
  by (induction xs arbitrary: i)
    (auto simp: value_from_secret_def value_from_context_def intro!: logs_intros)

lemma logs_ensureValueFromSecret: "logs mild (ensureValueFromSecret c cfg)"
  unfolding ensureValueFromSecret_def by (intro logs_intros logs_value_from_loop)

lemma logs_ensureCustomJobTemplate: "logs mild (ensureCustomJobTemplate c cfg)"
  unfolding ensureCustomJobTemplate_def Let_def by (intro logs_intros) simp_all

lemma logs_ensureAuthenticationSecret: "logs mild (ensureAuthenticationSecret c cfg)"
  unfolding ensureAuthenticationSecret_def fetch_auth_def by (intro logs_intros) simp_all

lemma logs_ensureProviderReady: "logs mild (ensureProviderReady c cfg)"
  unfolding ensureProviderReady_def check_selector_def by (intro logs_intros) simp_all

lemma logs_check_secrets: "logs mild (check_secrets c cond names)"
  by (induction names) (auto intro!: logs_intros)

lemma logs_ensurePolicyDefaultsExist: "logs mild (ensurePolicyDefaultsExist c cfg)"
  unfolding ensurePolicyDefaultsExist_def by (intro logs_intros logs_check_secrets) simp_all

lemma logs_ensureJobConfigurationSecret: "logs mild (ensureJobConfigurationSecret c cfg)"
  unfolding ensureJobConfigurationSecret_def write_job_secret_def by (intro logs_intros) simp_all

lemma logs_ensureTerraformPlanSecret: "logs mild (ensureTerraformPlanSecret c cfg)"
  unfolding ensureTerraformPlanSecret_def by (intro logs_intros) simp_all

lemma logs_cost_values: "logs mild (cost_values c cond inp vs keys)"
  by (induction keys arbitrary: vs) (auto simp: Let_def intro!: logs_intros)

lemma logs_ensureCostStatus: "logs mild (ensureCostStatus c cfg)"
  unfolding ensureCostStatus_def by (intro logs_intros logs_cost_values) simp_all

lemma logs_ensurePolicyStatus: "logs mild (ensurePolicyStatus c cfg)"
  unfolding ensurePolicyStatus_def by (intro logs_intros) simp_all

lemma logs_ensureDriftDetection: "logs mild (ensureDriftDetection c cfg)"
  unfolding ensureDriftDetection_def by (intro logs_intros) simp_all

lemma logs_ensureConnectionSecret: "logs mild (ensureConnectionSecret c cfg)"
  unfolding ensureConnectionSecret_def write_connection_secret_def by (intro logs_intros) simp_all

lemma logs_ensureTerraformStatus: "logs mild (ensureTerraformStatus c cfg)"
  unfolding ensureTerraformStatus_def by (intro logs_intros) simp_all

section \<open>Jobs by stage\<close>

lemma logs_detect_errors: "logs mild (detect_errors c cond out ds)"
  by (induction ds) (auto intro!: logs_intros)

lemma logs_ensureErrorDetection: "logs mild (ensureErrorDetection c job)"
  unfolding ensureErrorDetection_def by (intro logs_intros logs_detect_errors)

lemma logs_run_plan:
  assumes "renders_labels (ctl_rn c)"
  shows "logs (stage_only StageTerraformPlan) (run_plan c cond generation)"
  unfolding run_plan_def start_plan_def create_plan_job_def observe_plan_def request_approval_def
    annotate_cloudresource_def
  using assms
  by (intro logs_intros logs_mono [OF logs_ensureErrorDetection])
    (auto simp: NewTerraformPlan_def dest: createTerraformFromTemplate_stage)

lemma logs_ensureTerraformPlan:
  assumes "renders_labels (ctl_rn c)"
  shows "logs (stage_only StageTerraformPlan) (ensureTerraformPlan c cfg)"
  unfolding ensureTerraformPlan_def
  by (intro logs_intros logs_run_plan assms) simp_all

lemma logs_ensureTerraformApply:
  assumes "renders_labels (ctl_rn c)"
  shows "logs (stage_only StageTerraformApply) (ensureTerraformApply c cfg)"
  unfolding ensureTerraformApply_def run_apply_def start_apply_def create_apply_job_def
    observe_apply_def
  using assms
  by (intro logs_intros logs_mono [OF logs_ensureErrorDetection])
    (auto simp: NewTerraformApply_def dest: createTerraformFromTemplate_stage)

lemma logs_ensureTerraformDestroy:
  assumes "renders_labels (ctl_rn c)"
  shows "logs (stage_only StageTerraformDestroy) (ensureTerraformDestroy c cfg)"
  unfolding ensureTerraformDestroy_def run_destroy_def start_destroy_def watch_destroy_def
    observe_destroy_def
  using assms
  by (intro logs_intros)
    (auto simp: NewTerraformDestroy_def dest: createTerraformFromTemplate_stage)

lemma logs_delete_secrets: "logs mild (delete_secrets c cond names)"
  by (induction names) (auto intro!: logs_intros)

lemma logs_ensureConfigurationSecretsDeleted: "logs mild (ensureConfigurationSecretsDeleted c cfg)"
  unfolding ensureConfigurationSecretsDeleted_def by (intro logs_intros logs_delete_secrets)

lemma logs_delete_jobs: "logs no_job (delete_jobs c cond jobs)"
  by (induction jobs) (auto intro!: logs_intros)

lemma logs_ensureConfigurationJobsDeleted: "logs no_job (ensureConfigurationJobsDeleted c cfg)"
  unfolding ensureConfigurationJobsDeleted_def by (intro logs_intros logs_delete_jobs) simp_all

lemmas logs_gather = logs_ensureReconcileAnnotation logs_ensureCapturedState
  logs_ensureConfigurationThreshold logs_ensureNoActivity logs_ensureCustomBackendTemplate
  logs_ensureCostSecret logs_ensureValueFromSecret logs_ensureCustomJobTemplate
  logs_ensureAuthenticationSecret logs_ensureProviderReady logs_ensurePolicyDefaultsExist
  logs_ensureJobConfigurationSecret

lemmas logs_observe = logs_ensureTerraformPlanSecret logs_ensureCostStatus
  logs_ensurePolicyStatus logs_ensureDriftDetection logs_ensureConnectionSecret
  logs_ensureTerraformStatus

end
