(* ===== verification/Config_Invariant.thy ===== *)
theory Config_Invariant
  imports Config_Effects
begin

text \<open>
  What the reconcile chain of a configuration keeps from function to function: its metadata
  and specification, the types of its conditions, and the stages already completed for the
  generation. Each function keeps the completed stages of the others, and the provider, plan
  and policy functions only let the chain continue with their own stage complete.
\<close>

definition all_conditions :: "ConditionType set" where
  "all_conditions = {ConditionReady, ConditionProviderReady, ConditionTerraformPlan,
     ConditionTerraformPolicy, ConditionTerraformApply}"

definition has_conditions :: "Configuration \<Rightarrow> bool" where
  "has_conditions configuration \<longleftrightarrow>
     (\<forall>t \<in> all_conditions. HasCondition (cst_Common (cfg_Status configuration)) t)"

definition stage_complete :: "Configuration \<Rightarrow> ConditionType \<Rightarrow> bool" where
  "stage_complete configuration t =
     Common_IsComplete (cst_Common (cfg_Status configuration)) t
       (om_Generation (cfg_Meta configuration))"

definition condition_types :: "Configuration \<Rightarrow> ConditionType list" where
  "condition_types configuration =
     map cd_Type (st_Conditions (cst_Common (cfg_Status configuration)))"

definition Inv :: "Configuration \<Rightarrow> ConditionType set \<Rightarrow> ('w, Configuration, 't) env \<Rightarrow> bool" where
  "Inv configuration done s \<longleftrightarrow>
     condition_types (resource s) = condition_types configuration \<and>
     cfg_Meta (resource s) = cfg_Meta configuration \<and>
     cfg_Spec (resource s) = cfg_Spec configuration \<and>
     (\<forall>t \<in> done. stage_complete (resource s) t)"

lemma Inv_worldless [keeps_intros]: "worldless (Inv cfg T)"
  by (simp add: worldless_def Inv_def)

lemma Inv_missless [keeps_intros]: "missless (Inv cfg T)"
  by (simp add: missless_def Inv_def)

lemma Inv_env [simp]:
  "Inv cfg T (s\<lparr>absent := a\<rparr>) = Inv cfg T s"
  "Inv cfg T (s\<lparr>world := w\<rparr>) = Inv cfg T s"
  "Inv cfg T (s\<lparr>effects := es\<rparr>) = Inv cfg T s"
  "Inv cfg T (s\<lparr>rstate := st\<rparr>) = Inv cfg T s"
  by (simp_all add: Inv_def)

lemma Inv_insert: "Inv cfg (insert t T) s \<longleftrightarrow> Inv cfg T s \<and> stage_complete (resource s) t"
  by (auto simp: Inv_def)

lemma Inv_resource:
  "cfg_Meta (f x) = cfg_Meta x \<Longrightarrow> cfg_Spec (f x) = cfg_Spec x \<Longrightarrow>
   cst_Common (cfg_Status (f x)) = cst_Common (cfg_Status x) \<Longrightarrow> resource s = x \<Longrightarrow>
   Inv cfg T (s\<lparr>resource := f x\<rparr>) = Inv cfg T s"
  by (simp add: Inv_def condition_types_def stage_complete_def)

lemma setter_fields [simp]:
  "cfg_Meta (set_resource_status rs x) = cfg_Meta x" "cfg_Spec (set_resource_status rs x) = cfg_Spec x"
  "cst_Common (cfg_Status (set_resource_status rs x)) = cst_Common (cfg_Status x)"
  "cfg_Meta (set_costs co x) = cfg_Meta x" "cfg_Spec (set_costs co x) = cfg_Spec x"
  "cst_Common (cfg_Status (set_costs co x)) = cst_Common (cfg_Status x)"
  "cfg_Meta (set_drift x) = cfg_Meta x" "cfg_Spec (set_drift x) = cfg_Spec x"
  "cst_Common (cfg_Status (set_drift x)) = cst_Common (cfg_Status x)"
  "cfg_Meta (set_tf_status ts x) = cfg_Meta x" "cfg_Spec (set_tf_status ts x) = cfg_Spec x"
  "cst_Common (cfg_Status (set_tf_status ts x)) = cst_Common (cfg_Status x)"
  by (simp_all add: set_resource_status_def set_costs_def set_drift_def set_tf_status_def Let_def)

lemma keeps_Inv_modify_resource [keeps_intros]:
  assumes "\<And>x. cfg_Meta (f x) = cfg_Meta x" and "\<And>x. cfg_Spec (f x) = cfg_Spec x"
    and "\<And>x. cst_Common (cfg_Status (f x)) = cst_Common (cfg_Status x)"
  shows "keeps (Inv cfg T) (modify_resource f)"
  by (rule keeps_modify_resource) (simp add: Inv_resource assms)

lemma keeps_Inv_modify_state [keeps_intros]: "keeps (Inv cfg T) (modify_state f)"
  by (rule keeps_modify_state) simp

lemma keeps_Inv_record_effect [keeps_intros]: "keeps (Inv cfg T) (record_effect e)"
  by (rule keeps_record_effect) simp

lemma keeps_Inv_perform [keeps_intros]: "keeps (Inv cfg T) (perform cc v x)"
  by (rule keeps_perform) (simp_all add: Inv_worldless)

lemma keeps_Inv_writes [keeps_intros]:
  "keeps (Inv cfg T) (DeleteIfExists cc x)" "keeps (Inv cfg T) (CreateOrForceUpdate cc x)"
  "keeps (Inv cfg T) (CreateOrPatch cc x)"
  by (rule keeps_DeleteIfExists keeps_CreateOrForceUpdate keeps_CreateOrPatch;
      simp add: Inv_worldless Inv_missless)+

text \<open>Writing a condition through a manager captured from the configuration.\<close>

lemma attached_Inv:
  assumes "Inv cfg T s" and "HasCondition (cst_Common (cfg_Status cfg)) t"
  shows "cfg.attached (cfg_cond cfg t) t (resource s)"
proof -
  have "cfg.attached (cfg_cond cfg t) t cfg"
    using assms(2) by (intro cfg.attached_ConditionMgr) simp
  moreover have "cfg.attached (cfg_cond cfg t) t (resource s) = cfg.attached (cfg_cond cfg t) t cfg"
    using assms(1) by (intro cfg.attached_types) (simp add: Inv_def condition_types_def)
  ultimately show ?thesis by simp
qed

lemma Inv_set_through:
  assumes inv: "Inv cfg T s" and has: "HasCondition (cst_Common (cfg_Status cfg)) t"
  shows "wp (set_through cc Configuration_Object (cfg_cond cfg t) st re m d)
    (\<lambda>_ s'. Inv cfg (T - {t}) s' \<and> (st = ConditionTrue \<longrightarrow> Inv cfg (insert t T) s')) s"
proof -
  let ?g = "om_Generation (cfg_Meta (resource s))"
  let ?s' = "transition_env cc Configuration_Object (cfg_cond cfg t) (set_condition ?g st re m d) s"
  let ?c = "transitioned (cc_Now cc (world s)) (set_condition ?g st re m d)
              (cm_GetCondition Configuration_Object (cfg_cond cfg t) (resource s))"
  note att = attached_Inv [OF inv has]
  have ty: "cd_Type ?c = t" using cfg.cm_GetCondition_type [OF att] by simp
  have get: "GetCondition (cst_Common (cfg_Status (resource ?s'))) u =
      (if u = t then Some ?c else GetCondition (cst_Common (cfg_Status (resource s))) u)" for u
    using cfg.GetCondition_write [OF att ty, of u] by simp
  have types: "condition_types (resource ?s') = condition_types (resource s)"
    using cfg.write_condition_types [OF att ty] by (simp add: condition_types_def)
  have meta: "cfg_Meta (resource ?s') = cfg_Meta (resource s)" "cfg_Spec (resource ?s') = cfg_Spec (resource s)"
    by simp_all
  have keep: "stage_complete (resource ?s') u"
    if "u \<noteq> t" "stage_complete (resource s) u" for u
    using that get [of u] by (simp add: stage_complete_def Common_IsComplete_def)
  have own: "stage_complete (resource ?s') t" if "st = ConditionTrue"
    using that get [of t] by (simp add: stage_complete_def Common_IsComplete_def)
  have also_own: "stage_complete (resource ?s') u"
    if "st = ConditionTrue" "stage_complete (resource s) u" for u
    using that keep own by (cases "u = t") blast+
  have "Inv cfg (T - {t}) ?s'" "st = ConditionTrue \<longrightarrow> Inv cfg (insert t T) ?s'"
    using inv types meta keep own also_own by (auto simp: Inv_def simp del: transition_env_fields(3))
  then show ?thesis by (simp add: wp_set_through)
qed

lemma keeps_Inv_set_through:
  assumes "HasCondition (cst_Common (cfg_Status cfg)) t" and "t \<notin> T"
  shows "keeps (Inv cfg T) (set_through cc Configuration_Object (cfg_cond cfg t) st re m d)"
proof (rule keepsI)
  fix s a s' assume "Inv cfg T s"
    and r: "run_state (set_through cc Configuration_Object (cfg_cond cfg t) st re m d) s = (a, s')"
  then show "Inv cfg T s'"
    using wpD [OF Inv_set_through [OF \<open>Inv cfg T s\<close> assms(1)] r] assms(2) by simp
qed

lemma keeps_Inv_cond:
  assumes "HasCondition (cst_Common (cfg_Status cfg)) t" and "t \<notin> T"
  shows "keeps (Inv cfg T) (failed c (cfg_cond cfg t) err m args)"
    "keeps (Inv cfg T) (action_required c (cfg_cond cfg t) m args)"
    "keeps (Inv cfg T) (warning c (cfg_cond cfg t) m args)"
    "keeps (Inv cfg T) (success c (cfg_cond cfg t) m args)"
    "keeps (Inv cfg T) (in_progress c (cfg_cond cfg t) m args)"
    "keeps (Inv cfg T) (fail_with c (cfg_cond cfg t) err' m args)"
    "keeps (Inv cfg T) (require_action c (cfg_cond cfg t) m args res)"
  unfolding cond_defs fail_with_def require_action_def
  by (intro keeps_intros keeps_Inv_set_through assms)+

lemma keeps_case_ResourceStatus [keeps_intros]:
  "keeps I a \<Longrightarrow> keeps I b \<Longrightarrow> keeps I m \<Longrightarrow> keeps I d \<Longrightarrow> keeps I e \<Longrightarrow>
   keeps I (case x of ResourcesInSync \<Rightarrow> a | ResourcesOutOfSync \<Rightarrow> b | DestroyingResources \<Rightarrow> m
     | DestroyingResourcesFailed \<Rightarrow> d | UnknownResourceStatus \<Rightarrow> e)"
  by (cases x) simp_all

lemma keeps_Inv_getNamespaceFromCache [keeps_intros]:
  "keeps (Inv cfg T) (getNamespaceFromCache c n)"
  unfolding getNamespaceFromCache_def by (intro keeps_intros)

lemma keeps_Inv_findMatchingPolicy [keeps_intros]:
  "keeps (Inv cfg T) (findMatchingPolicy c cfg' ps)"
  unfolding findMatchingPolicy_def by (intro keeps_intros)

lemma keeps_Inv_CreateWatcher [keeps_intros]: "keeps (Inv cfg T) (CreateWatcher c cfg' stage)"
  unfolding CreateWatcher_def by (intro keeps_intros)

section \<open>Functions that report on the ready condition\<close>

lemma keeps_gather:
  assumes r: "HasCondition (cst_Common (cfg_Status cfg)) ConditionReady" and n: "ConditionReady \<notin> T"
  shows "keeps (Inv cfg T) (ensureReconcileAnnotation c cfg)"
    "keeps (Inv cfg T) (ensureCapturedState c cfg)"
    "keeps (Inv cfg T) (ensureConfigurationThreshold c cfg)"
    "keeps (Inv cfg T) (ensureNoActivity c cfg)"
    "keeps (Inv cfg T) (ensureCustomBackendTemplate c cfg)"
    "keeps (Inv cfg T) (ensureCostSecret c cfg)"
    "keeps (Inv cfg T) (ensureCustomJobTemplate c cfg)"
    "keeps (Inv cfg T) (ensureAuthenticationSecret c cfg)"
    "keeps (Inv cfg T) (ensureTerraformPlanSecret c cfg)"
    "keeps (Inv cfg T) (ensureDriftDetection c cfg)"
    "keeps (Inv cfg T) (ensureConnectionSecret c cfg)"
    "keeps (Inv cfg T) (ensureTerraformStatus c cfg)"
  unfolding ensureReconcileAnnotation_def ensureCapturedState_def capture_revision_def
    capture_lists_def ensureConfigurationThreshold_def ensureNoActivity_def
    ensureCustomBackendTemplate_def ensureCostSecret_def ensureCustomJobTemplate_def
    ensureAuthenticationSecret_def fetch_auth_def ensureTerraformPlanSecret_def
    ensureDriftDetection_def ensureConnectionSecret_def write_connection_secret_def
    ensureTerraformStatus_def
  by (intro keeps_intros keeps_Inv_cond r n; simp)+

lemma keeps_value_from_loop:
  assumes r: "HasCondition (cst_Common (cfg_Status cfg)) ConditionReady" and n: "ConditionReady \<notin> T"
  shows "keeps (Inv cfg T) (value_from_loop c (cfg_cond cfg ConditionReady) cfg' i xs)"
  by (induction xs arbitrary: i)
    (auto simp: value_from_secret_def value_from_context_def intro!: keeps_intros keeps_Inv_cond r n)

lemma keeps_ensureValueFromSecret:
  assumes r: "HasCondition (cst_Common (cfg_Status cfg)) ConditionReady" and n: "ConditionReady \<notin> T"
  shows "keeps (Inv cfg T) (ensureValueFromSecret c cfg)"
  unfolding ensureValueFromSecret_def by (intro keeps_intros keeps_value_from_loop r n)

lemma keeps_check_secrets:
  assumes r: "HasCondition (cst_Common (cfg_Status cfg)) ConditionReady" and n: "ConditionReady \<notin> T"
  shows "keeps (Inv cfg T) (check_secrets c (cfg_cond cfg ConditionReady) names)"
  by (induction names) (auto intro!: keeps_intros keeps_Inv_cond r n)

lemma keeps_ensurePolicyDefaultsExist:
  assumes r: "HasCondition (cst_Common (cfg_Status cfg)) ConditionReady" and n: "ConditionReady \<notin> T"
  shows "keeps (Inv cfg T) (ensurePolicyDefaultsExist c cfg)"
  unfolding ensurePolicyDefaultsExist_def
  by (intro keeps_intros keeps_check_secrets keeps_Inv_cond r n)

lemma keeps_cost_values:
  assumes r: "HasCondition (cst_Common (cfg_Status cfg)) ConditionReady" and n: "ConditionReady \<notin> T"
  shows "keeps (Inv cfg T) (cost_values c (cfg_cond cfg ConditionReady) inp vs keys)"
  by (induction keys arbitrary: vs) (auto simp: Let_def intro!: keeps_intros keeps_Inv_cond r n)

lemma keeps_ensureCostStatus:
  assumes r: "HasCondition (cst_Common (cfg_Status cfg)) ConditionReady" and n: "ConditionReady \<notin> T"
  shows "keeps (Inv cfg T) (ensureCostStatus c cfg)"
  unfolding ensureCostStatus_def
  by (intro keeps_intros keeps_cost_values keeps_Inv_cond r n) simp_all

lemma keeps_ensureJobConfigurationSecret:
  assumes r: "HasCondition (cst_Common (cfg_Status cfg)) ConditionReady" and n: "ConditionReady \<notin> T"
    and p: "HasCondition (cst_Common (cfg_Status cfg)) ConditionTerraformPolicy"
    and q: "ConditionTerraformPolicy \<notin> T"
  shows "keeps (Inv cfg T) (ensureJobConfigurationSecret c cfg)"
  unfolding ensureJobConfigurationSecret_def write_job_secret_def Let_def
  by (intro keeps_intros keeps_Inv_cond r n p q)

section \<open>Functions that complete a stage\<close>

lemma stopping_fail_with [stopping_intros]: "stopping (fail_with c cond err m args)"
  unfolding fail_with_def by (intro stopping_intros) simp

lemma stopping_require_action [stopping_intros]:
  "\<not> continues res \<Longrightarrow> stopping (require_action c cond m args res)"
  unfolding require_action_def by (intro stopping_intros)

lemma leads_success:
  assumes "HasCondition (cst_Common (cfg_Status cfg)) t"
  shows "leads (Inv cfg T)
    (State_Monad.bind (success c (cfg_cond cfg t) m args) (\<lambda>_. proceed)) (Inv cfg (insert t T))"
  unfolding leads_def cond_defs wp_bind
  by (intro allI impI, rule wp_mono [OF Inv_set_through [OF _ assms]]) auto

lemma leads_ensureProviderReady:
  assumes p: "HasCondition (cst_Common (cfg_Status cfg)) ConditionProviderReady"
    and n: "ConditionProviderReady \<notin> T"
  shows "leads (Inv cfg T) (ensureProviderReady c cfg) (Inv cfg (insert ConditionProviderReady T))"
  unfolding ensureProviderReady_def
  by (intro leads_Let leads_cases leads_bind leads_success p;
      (intro keeps_intros keeps_Inv_cond p n leads_stopping stopping_intros)?)
    (auto simp: check_selector_def intro!: keeps_intros keeps_Inv_cond p n leads_stopping stopping_intros)

lemma leads_ensurePolicyStatus:
  assumes p: "HasCondition (cst_Common (cfg_Status cfg)) ConditionTerraformPolicy"
    and n: "ConditionTerraformPolicy \<notin> T"
  shows "leads (Inv cfg T) (ensurePolicyStatus c cfg) (Inv cfg (insert ConditionTerraformPolicy T))"
  unfolding ensurePolicyStatus_def
  by (intro leads_Let leads_cases leads_bind leads_success p;
      (intro keeps_intros keeps_Inv_cond p n leads_stopping stopping_intros)?)
    (auto intro!: keeps_intros keeps_Inv_cond p n leads_stopping stopping_intros)

end
