(* ===== verification/Config_Gates.thy ===== *)
theory Config_Gates
  imports Config_Invariant
begin

text \<open>
  The gates of the reconcile chain: the plan function only lets the chain continue with the
  plan of this generation complete, the apply function only creates a job when the changes
  are approved, and the whole chain only gets there with provider, plan and security policy
  complete.
\<close>

section \<open>Plan\<close>

lemma stopping_detect_errors: "stopping (detect_errors c cond out ds)"
  by (induction ds) (auto intro!: stopping_intros split: sum.splits)

lemma stopping_ensureErrorDetection [stopping_intros]: "stopping (ensureErrorDetection c job)"
  unfolding ensureErrorDetection_def Let_def
  by (intro stopping_intros stopping_detect_errors) simp_all

lemma requeue_immediate_stops [simp]: "stops RequeueImmediate"
  by (simp add: RequeueImmediate_def)

lemma stopping_annotate_cloudresource [stopping_intros]:
  "stopping (annotate_cloudresource c cond cfg)"
  unfolding annotate_cloudresource_def Let_def by (intro stopping_intros) simp_all

lemma stopping_request_approval [stopping_intros]: "stopping (request_approval c cond)"
  unfolding request_approval_def by (intro stopping_intros) simp_all

lemma stopping_create_plan_job [stopping_intros]: "stopping (create_plan_job c cond runner)"
  unfolding create_plan_job_def by (intro stopping_intros) simp_all

lemma stopping_start_plan [stopping_intros]: "stopping (start_plan c cond cfg runner)"
  unfolding start_plan_def by (intro stopping_intros)

lemma leads_observe_plan:
  assumes "HasCondition (cst_Common (cfg_Status cfg)) ConditionTerraformPlan"
  shows "leads (Inv cfg T) (observe_plan c (cfg_cond cfg ConditionTerraformPlan) job)
           (Inv cfg (insert ConditionTerraformPlan T))"
  unfolding observe_plan_def
  by (intro leads_if leads_success assms leads_stopping stopping_intros) simp_all

lemma leads_run_plan:
  assumes "HasCondition (cst_Common (cfg_Status cfg)) ConditionTerraformPlan"
  shows "leads (Inv cfg T) (run_plan c (cfg_cond cfg ConditionTerraformPlan) g)
           (Inv cfg (insert ConditionTerraformPlan T))"
  unfolding run_plan_def
  by (intro leads_bind leads_cases keeps_intros leads_observe_plan assms
      leads_stopping [OF stopping_fail_with] leads_stopping [OF stopping_start_plan];
      intro leads_stopping stopping_intros; simp)

lemma leads_ensureTerraformPlan:
  fixes c :: "'w Controller"
  assumes "HasCondition (cst_Common (cfg_Status cfg)) ConditionTerraformPlan"
  shows "leads (Inv cfg T) (ensureTerraformPlan c cfg) (Inv cfg (insert ConditionTerraformPlan T))"
  unfolding ensureTerraformPlan_def
proof (intro leads_Let leads_bind_gets)
  fix s :: "('w, Configuration, cstate) env"
  assume inv: "Inv cfg T s"
  let ?c = "cfg_cond cfg ConditionTerraformPlan"
  have complete: "Inv cfg (insert ConditionTerraformPlan T) s"
    if "IsComplete (cm_GetCondition Configuration_Object ?c (resource s))
          (om_Generation (cfg_Meta (resource s)))"
    using that inv cfg.GetCondition_attached [OF attached_Inv [OF inv assms]]
    by (simp add: Inv_insert stage_complete_def Common_IsComplete_def IsComplete_def)
  have run: "wp (run_plan c ?c g) (\<lambda>r s'. continues r \<longrightarrow> Inv cfg (insert ConditionTerraformPlan T) s') s"
    for g using leadsD [OF leads_run_plan [OF assms] inv] .
  have failing: "wp (State_Monad.bind (failed c ?c e m a) (\<lambda>_. State_Monad.return (Err ErrIgnore)))
      (\<lambda>r s'. continues r \<longrightarrow> Q s') s" for e m a Q
    by (simp add: cond_defs wp_set_through)
  show "wp (let condition = cm_GetCondition Configuration_Object ?c (resource s)
      in if HasRetryableAnnotation (resource s) \<and> \<not> IsRetryableValid (resource s)
         then State_Monad.bind (failed c ?c None
                ''Retryable annotation is invalid, must be a valid unix timestamp'' [])
                (\<lambda>_. State_Monad.return (Err ErrIgnore))
         else if HasRetryableAnnotation (resource s) \<and> IsRetryable (resource s)
         then run_plan c ?c (string_of_int (om_Generation (cfg_Meta cfg)))
         else if IsFailed condition (om_Generation (cfg_Meta (resource s)))
         then State_Monad.return (Err ErrIgnore)
         else if IsComplete condition (om_Generation (cfg_Meta (resource s))) \<and>
                 (\<not> cs_EnableDriftDetection (cfg_Spec (resource s)) \<or>
                  Configuration_annotation (resource s) DriftAnnotation = [])
         then proceed
         else run_plan c ?c (string_of_int (om_Generation (cfg_Meta cfg))))
      (\<lambda>r s'. continues r \<longrightarrow> Inv cfg (insert ConditionTerraformPlan T) s') s"
    using run failing complete by (auto simp: Let_def)
qed

section \<open>Apply\<close>

definition approved :: "Configuration \<Rightarrow> bool" where
  "approved configuration \<longleftrightarrow>
     cs_EnableAutoApproval (cfg_Spec configuration) \<or> \<not> NeedsApproval configuration"

lemma approved_cong:
  "cfg_Meta x = cfg_Meta y \<Longrightarrow> cfg_Spec x = cfg_Spec y \<Longrightarrow> approved x = approved y"
  by (simp add: approved_def NeedsApproval_def Configuration_annotation_def)

text \<open>The condition managers of the error detection are those of the chain.\<close>

lemma cfg_cond_Inv: "Inv cfg T s \<Longrightarrow> cfg_cond (resource s) t = cfg_cond cfg t"
  unfolding Inv_def condition_types_def by (auto simp: ConditionMgr_def dest: index_of_types)

lemma keeps_bind_gets:
  assumes "\<And>s. I s \<Longrightarrow> keeps I (f (g s))"
  shows "keeps I (State_Monad.bind (gets g) f)"
  unfolding keeps_def
proof (intro allI impI)
  fix s assume "I s"
  with assms [of s] show "I (snd (run_state (State_Monad.bind (gets g) f) s))"
    by (simp add: keeps_def)
qed

lemma keeps_detect_errors:
  assumes r: "HasCondition (cst_Common (cfg_Status cfg)) ConditionReady" and n: "ConditionReady \<notin> T"
  shows "keeps (Inv cfg T) (detect_errors c (cfg_cond cfg ConditionReady) out ds)"
  by (induction ds) (auto intro!: keeps_intros keeps_Inv_cond r n)

lemma keeps_ensureErrorDetection:
  assumes r: "HasCondition (cst_Common (cfg_Status cfg)) ConditionReady" and n: "ConditionReady \<notin> T"
  shows "keeps (Inv cfg T) (ensureErrorDetection c job)"
  unfolding ensureErrorDetection_def
  by (rule keeps_bind_gets, simp only: cfg_cond_Inv)
    (intro keeps_intros keeps_detect_errors r n)

lemma keeps_ensureTerraformApply:
  assumes r: "HasCondition (cst_Common (cfg_Status cfg)) ConditionReady" and n: "ConditionReady \<notin> T"
    and a: "HasCondition (cst_Common (cfg_Status cfg)) ConditionTerraformApply"
    and b: "ConditionTerraformApply \<notin> T"
  shows "keeps (Inv cfg T) (ensureTerraformApply c cfg)"
  unfolding ensureTerraformApply_def run_apply_def start_apply_def create_apply_job_def
    observe_apply_def
  by (intro keeps_intros keeps_Inv_cond keeps_ensureErrorDetection r n a b; simp)

text \<open>
  The jobs of the apply function: none when it lets the chain continue, none when the changes
  wait for approval.
\<close>

lemma stopping_create_apply_job [stopping_intros]: "stopping (create_apply_job c cond runner)"
  unfolding create_apply_job_def by (intro stopping_intros) simp_all

lemma stopping_start_apply [stopping_intros]: "stopping (start_apply c cond cfg runner)"
  unfolding start_apply_def by (intro stopping_intros)

lemma logs_observe_apply: "logs no_job (observe_apply c cond job)"
  unfolding observe_apply_def by (intro logs_intros logs_mono [OF logs_ensureErrorDetection mild_no_job]) simp_all

definition quiet :: "('w, 'o, 't) env \<Rightarrow> ('w, 'o, 't) env \<Rightarrow> bool" where
  "quiet s s' \<longleftrightarrow> (\<exists>es. effects s' = effects s @ es \<and> (\<forall>e \<in> set es. no_job e))"

lemma logs_quiet: "logs no_job m \<Longrightarrow> wp m (\<lambda>_ s'. quiet s s') s"
  by (simp add: logs_def quiet_def)

lemma wp_conjI:
  "wp m (\<lambda>a s'. Q a s') s \<Longrightarrow> wp m (\<lambda>a s'. R a s') s \<Longrightarrow> wp m (\<lambda>a s'. Q a s' \<and> R a s') s"
  by (rule wp_conj)

lemma run_apply_jobs:
  "wp (run_apply c cond g) (\<lambda>r s'. \<not> continues r \<or> quiet s s') s"
proof -
  have start: "wp (start_apply c cond cfg runner) (\<lambda>r s'. \<not> continues r \<or> quiet s s') s" for cfg runner
    using stopping_start_apply [of c cond cfg runner, unfolded stopping_def, THEN spec]
    by (rule wp_mono) simp
  have obs: "wp (observe_apply c cond job) (\<lambda>r s'. \<not> continues r \<or> quiet s s') s" for job
    using logs_quiet [OF logs_observe_apply] by (rule wp_mono) simp
  have fail: "wp (fail_with c cond err m args) (\<lambda>r s'. \<not> continues r \<or> quiet s s') s" for err m args
    using stopping_fail_with [of c cond err m args, unfolded stopping_def, THEN spec]
    by (rule wp_mono) simp
  show ?thesis
    unfolding run_apply_def using start obs fail
    by (auto split: option.splits sum.splits go.splits)
qed

lemma apply_jobs:
  fixes c :: "'w Controller"
  shows "wp (ensureTerraformApply c cfg) (\<lambda>r s'. quiet s s' \<or> \<not> continues r \<and> approved (resource s)) s"
proof -
  have world: "quiet (s\<lparr>world := w, absent := a\<rparr>) s' = quiet s s'" for w a s' by (simp add: quiet_def)
  have quietE: "wp m (\<lambda>r s'. quiet s s' \<or> X r s') (s\<lparr>world := w, absent := a\<rparr>)"
    if "logs no_job m" for m :: "'w cprog" and w a X
    using logs_quiet [OF that, of "s\<lparr>world := w, absent := a\<rparr>"] by (rule wp_mono) (simp add: world)
  let ?c = "cfg_cond cfg ConditionTerraformApply" and ?r = "cfg_cond cfg ConditionReady"
  have fail: "logs no_job (fail_with c ?c err m args)" for err m args
    by (intro logs_intros) simp
  have skip: "logs no_job (do { modify_resource (set_resource_status ResourcesInSync);
      success c ?c ''Nothing to apply'' []; proceed } :: 'w cprog)"
    by (intro logs_intros) simp
  have wait: "logs no_job (do { action_required c ?c
        ''Waiting for terraform apply annotation to be set to true'' [];
      in_progress c ?r ''Waiting for changes to be approved'' [];
      modify_resource (set_resource_status ResourcesOutOfSync);
      State_Monad.return (Err ErrIgnore) } :: 'w cprog)"
    by (intro logs_intros) simp_all
  have run: "wp (run_apply c ?c g) (\<lambda>r s'. quiet s s' \<or> \<not> continues r \<and> approved (resource s))
      (s\<lparr>world := w, absent := a\<rparr>)"
    if "\<not> (NeedsApproval (resource s) \<and> \<not> cs_EnableAutoApproval (cfg_Spec (resource s)))" for g w a
    using run_apply_jobs [of c ?c g "s\<lparr>world := w, absent := a\<rparr>"]
    by (rule wp_mono) (use that in \<open>auto simp: world approved_def\<close>)
  show ?thesis
    unfolding ensureTerraformApply_def GetSecretIfExists_def Let_def wp_bind wp_gets
    by (rule wp_GetIfExists_any, unfold wp_case_sum wp_if, intro conjI allI impI)
      (rule quietE fail skip wait run; assumption?)+
qed

section \<open>The chain\<close>

definition apply_job :: "effect \<Rightarrow> bool" where
  "apply_job e \<longleftrightarrow> (\<exists>j r. e = Wrote Create (OJob j) r \<and> job_stage j = StageTerraformApply)"

definition no_apply :: "('w, 'o, 't) env \<Rightarrow> bool" where
  "no_apply s \<longleftrightarrow> (\<forall>e \<in> set (effects s). \<not> apply_job e)"

definition checked_stages :: "ConditionType set" where
  "checked_stages = {ConditionProviderReady, ConditionTerraformPlan, ConditionTerraformPolicy}"

text \<open>What holds of the configuration when an apply job has been created.\<close>

definition apply_gate :: "Configuration \<Rightarrow> ('w, Configuration, 't) env \<Rightarrow> bool" where
  "apply_gate cfg s \<longleftrightarrow> Inv cfg checked_stages s \<and> approved (resource s)"

definition gated :: "Configuration \<Rightarrow> ConditionType set \<Rightarrow> ('w, Configuration, 't) env \<Rightarrow> bool" where
  "gated cfg T s \<longleftrightarrow> Inv cfg T s \<and> no_apply s"

definition gate_or_none :: "Configuration \<Rightarrow> Result go \<Rightarrow> ('w, Configuration, 't) env \<Rightarrow> bool" where
  "gate_or_none cfg r s \<longleftrightarrow> no_apply s \<or> apply_gate cfg s"

lemma no_job_no_apply: "no_job e \<Longrightarrow> \<not> apply_job e"
  by (auto simp: no_job_def apply_job_def)

lemma stage_only_no_apply: "stage_only st e \<Longrightarrow> st \<noteq> StageTerraformApply \<Longrightarrow> \<not> apply_job e"
  by (auto simp: stage_only_def apply_job_def)

lemma quiet_no_apply: "no_apply s \<Longrightarrow> quiet s s' \<Longrightarrow> no_apply s'"
  by (auto simp: no_apply_def quiet_def dest: no_job_no_apply)

lemma gated_step:
  fixes x :: "('w, Configuration, 't) ensure"
  assumes "leads (Inv cfg T) x (Inv cfg U)" and "logs (\<lambda>e. \<not> apply_job e) x"
  shows "ensures (gated cfg T) x (gated cfg U) (gate_or_none cfg)"
proof (rule ensuresI)
  fix s :: "('w, Configuration, 't) env"
  assume s: "gated cfg T s"
  have "wp x (\<lambda>_ s'. no_apply s') s"
    using keeps_wp [OF logs_keeps [OF assms(2)]] s by (simp add: gated_def no_apply_def)
  with leadsD [OF assms(1), of s]
  have "wp x (\<lambda>r s'. (continues r \<longrightarrow> Inv cfg U s') \<and> no_apply s') s"
    using s by (intro wp_conj) (simp_all add: gated_def)
  then show "wp x (\<lambda>r s'. if continues r then gated cfg U s' else gate_or_none cfg r s') s"
    by (rule wp_mono) (simp add: gated_def gate_or_none_def)
qed

lemma gated_keep:
  assumes "keeps (Inv cfg T) x" and "logs mild x"
  shows "ensures (gated cfg T) x (gated cfg T) (gate_or_none cfg)"
  by (rule gated_step [OF leads_keeps [OF assms(1)] logs_mono [OF assms(2) no_job_no_apply [OF mild_no_job]]])

lemma gated_lead:
  assumes "leads (Inv cfg T) x (Inv cfg U)" and "logs mild x"
  shows "ensures (gated cfg T) x (gated cfg U) (gate_or_none cfg)"
  by (rule gated_step [OF assms(1) logs_mono [OF assms(2) no_job_no_apply [OF mild_no_job]]])

lemma gated_apply:
  fixes c :: "'w Controller"
  assumes "has_conditions cfg"
  shows "ensures (gated cfg checked_stages) (ensureTerraformApply c cfg)
           (gated cfg checked_stages) (gate_or_none cfg)"
proof (rule ensuresI)
  fix s :: "('w, Configuration, cstate) env"
  assume s: "gated cfg checked_stages s"
  have k: "keeps (Inv cfg checked_stages) (ensureTerraformApply c cfg)"
    using assms
    by (intro keeps_ensureTerraformApply)
      (auto simp: has_conditions_def all_conditions_def checked_stages_def)
  have "wp (ensureTerraformApply c cfg)
      (\<lambda>r s'. Inv cfg checked_stages s' \<and> (quiet s s' \<or> \<not> continues r \<and> approved (resource s))) s"
    using keeps_wp [OF k] s by (intro wp_conj apply_jobs) (simp add: gated_def)
  then show "wp (ensureTerraformApply c cfg)
      (\<lambda>r s'. if continues r then gated cfg checked_stages s' else gate_or_none cfg r s') s"
  proof (rule wp_mono)
    fix r s'
    assume h: "Inv cfg checked_stages s' \<and> (quiet s s' \<or> \<not> continues r \<and> approved (resource s))"
    have "approved (resource s') = approved (resource s)"
      using h s by (intro approved_cong) (auto simp: Inv_def gated_def)
    with h s quiet_no_apply [of s s']
    show "if continues r then gated cfg checked_stages s' else gate_or_none cfg r s'"
      by (auto simp: gated_def gate_or_none_def apply_gate_def)
  qed
qed

lemma leads_EnsurePresent: "leads P (EnsurePresent cc ob fin) P"
  unfolding EnsurePresent_def
  by (rule leads_bind_gets) (auto simp: Finalizer_Add_def perform_def wp_simps)

lemma reconcile_chain_gated:
  fixes c :: "'w Controller"
  assumes h: "has_conditions cfg" and r: "renders_labels (ctl_rn c)"
  shows "chain (gated cfg checked_stages) (gate_or_none cfg) (gated cfg {}) (reconcile_chain c cfg)"
proof -
  have has: "HasCondition (cst_Common (cfg_Status cfg)) ConditionReady"
    "HasCondition (cst_Common (cfg_Status cfg)) ConditionProviderReady"
    "HasCondition (cst_Common (cfg_Status cfg)) ConditionTerraformPlan"
    "HasCondition (cst_Common (cfg_Status cfg)) ConditionTerraformPolicy"
    using h by (simp_all add: has_conditions_def all_conditions_def)
  have plan: "logs (\<lambda>e. \<not> apply_job e) (ensureTerraformPlan c cfg)"
    using logs_ensureTerraformPlan [OF r] by (rule logs_mono) (simp add: stage_only_no_apply)
  have present: "logs (\<lambda>e. \<not> apply_job e)
      (EnsurePresent (ctl_cc c) Configuration_Object controllerName :: 'w cprog)"
    using logs_EnsurePresent by (rule logs_mono) (rule no_job_no_apply)
  let ?A = "{ConditionProviderReady}" and ?B = "{ConditionTerraformPlan, ConditionProviderReady}"
  have stages: "checked_stages = insert ConditionTerraformPolicy ?B"
    by (auto simp: checked_stages_def)
  have not_in: "ConditionReady \<notin> {}" "ConditionProviderReady \<notin> {}" "ConditionReady \<notin> ?A"
    "ConditionTerraformPolicy \<notin> ?A" "ConditionReady \<notin> ?B" "ConditionTerraformPolicy \<notin> ?B"
    "ConditionReady \<notin> checked_stages"
    by (simp_all add: checked_stages_def)
  note r0 = keeps_gather [OF has(1) not_in(1)] and rA = keeps_gather [OF has(1) not_in(3)]
    and rB = keeps_gather [OF has(1) not_in(5)] and rC = keeps_gather [OF has(1) not_in(7)]
  have after_plan: "chain (gated cfg checked_stages) (gate_or_none cfg) (gated cfg ?B)
      [ensureTerraformPlanSecret c cfg, ensureCostStatus c cfg, ensurePolicyStatus c cfg,
       ensureDriftDetection c cfg, ensureTerraformApply c cfg, ensureConnectionSecret c cfg,
       ensureTerraformStatus c cfg]"
    by (rule chain_Cons [OF gated_keep [OF rB(9) logs_ensureTerraformPlanSecret]]
        chain_Cons [OF gated_keep [OF keeps_ensureCostStatus [OF has(1) not_in(5)] logs_ensureCostStatus]]
        chain_Cons [OF gated_lead [OF leads_ensurePolicyStatus [OF has(4) not_in(6), folded stages]
          logs_ensurePolicyStatus]]
        chain_Cons [OF gated_keep [OF rC(10) logs_ensureDriftDetection]]
        chain_Cons [OF gated_apply [OF h]]
        chain_Cons [OF gated_keep [OF rC(11) logs_ensureConnectionSecret]]
        chain_Cons [OF gated_keep [OF rC(12) logs_ensureTerraformStatus]] chain_Nil)+
  show ?thesis
    unfolding reconcile_chain_def
    by (rule chain_Cons [OF gated_step [OF leads_EnsurePresent present]]
        chain_Cons [OF gated_keep [OF r0(1) logs_ensureReconcileAnnotation]]
        chain_Cons [OF gated_keep [OF r0(2) logs_ensureCapturedState]]
        chain_Cons [OF gated_keep [OF r0(3) logs_ensureConfigurationThreshold]]
        chain_Cons [OF gated_keep [OF r0(4) logs_ensureNoActivity]]
        chain_Cons [OF gated_keep [OF r0(6) logs_ensureCostSecret]]
        chain_Cons [OF gated_keep [OF keeps_ensureValueFromSecret [OF has(1) not_in(1)]
          logs_ensureValueFromSecret]]
        chain_Cons [OF gated_keep [OF r0(8) logs_ensureAuthenticationSecret]]
        chain_Cons [OF gated_keep [OF r0(7) logs_ensureCustomJobTemplate]]
        chain_Cons [OF gated_lead [OF leads_ensureProviderReady [OF has(2) not_in(2)]
          logs_ensureProviderReady]]
        chain_Cons [OF gated_keep [OF rA(5) logs_ensureCustomBackendTemplate]]
        chain_Cons [OF gated_keep [OF keeps_ensurePolicyDefaultsExist [OF has(1) not_in(3)]
          logs_ensurePolicyDefaultsExist]]
        chain_Cons [OF gated_keep [OF keeps_ensureJobConfigurationSecret [OF has(1) not_in(3) has(4) not_in(4)]
          logs_ensureJobConfigurationSecret]]
        chain_Cons [OF gated_step [OF leads_ensureTerraformPlan [OF has(3)] plan]]
        after_plan)+
qed

section \<open>The handler\<close>

text \<open>The status update of a run on \<open>cfg\<close> shows a configuration that passed the gates.\<close>

definition passed_gates :: "Configuration \<Rightarrow> Configuration \<Rightarrow> bool" where
  "passed_gates cfg x \<longleftrightarrow>
     cfg_Meta x = cfg_Meta cfg \<and> cfg_Spec x = cfg_Spec cfg \<and>
     approved x \<and> (\<forall>t \<in> checked_stages. stage_complete x t)"

definition patched_with :: "(Configuration \<Rightarrow> bool) \<Rightarrow> effect list \<Rightarrow> bool" where
  "patched_with P es \<longleftrightarrow> (\<exists>y orig r. Wrote (StatusPatch orig) (OConfiguration y) r \<in> set es \<and> P y)"

lemma update_status_gate:
  assumes "gate_or_none cfg r0 s"
  shows "wp (update_status cc Configuration_Object original oc)
    (\<lambda>_ s'. no_apply s' \<or> patched_with (passed_gates cfg) (effects s')) s"
  using cfg.update_status_effect
proof (rule wp_mono)
  fix r and s' :: "('a, Configuration, 'b) env"
  assume "\<exists>y e. effects s' = effects s @ [Wrote (StatusPatch (ob_Embed Configuration_Object original))
      (ob_Embed Configuration_Object y) e] \<and>
    y = ob_SetStatus Configuration_Object (\<lambda>st. st\<lparr>st_LastReconcile :=
        updateReconcileStatus Configuration_Object (cc_Now cc (world s)) (resource s) original
          (st_LastReconcile st)\<rparr>) (resource s) \<and>
    (r = oc \<or> oc \<noteq> Panic \<and> (\<exists>err. r = Err err \<and> \<not> IsNotFound err))"
  then obtain y e l where eff: "effects s' = effects s @ [Wrote (StatusPatch (OConfiguration original)) (OConfiguration y) e]"
    and y: "y = ob_SetStatus Configuration_Object (\<lambda>st. st\<lparr>st_LastReconcile := l st\<rparr>) (resource s)"
    by auto
  have "cfg_Meta y = cfg_Meta (resource s)" "cfg_Spec y = cfg_Spec (resource s)"
    by (simp_all add: y Configuration_Object_def)
  note same = this
  then have "approved y = approved (resource s)" by (rule approved_cong)
  moreover have "stage_complete y t = stage_complete (resource s) t" for t
    by (simp add: y stage_complete_def Common_IsComplete_def Configuration_Object_def)
  ultimately have "passed_gates cfg y" if "apply_gate cfg s"
    using that same by (simp add: passed_gates_def apply_gate_def Inv_def)
  moreover have "no_apply s'" if "no_apply s"
    using that by (auto simp: eff no_apply_def apply_job_def)
  ultimately show "no_apply s' \<or> patched_with (passed_gates cfg) (effects s')"
    using assms by (auto simp: gate_or_none_def patched_with_def eff)
qed

lemma mark_ready_no_apply:
  assumes "no_apply s"
  shows "wp (mark_ready cc ob original) (\<lambda>_ s'. no_apply s') s"
proof -
  have "logs no_job (mark_ready cc ob original)" by (intro logs_intros) simp
  from logs_quiet [OF this] show ?thesis
    by (rule wp_mono) (use assms quiet_no_apply in blast)
qed

lemma Run_reconcile_gated:
  fixes c :: "'w Controller"
  assumes "has_conditions cfg" and "renders_labels (ctl_rn c)" and "no_apply s" and "resource s = cfg"
  shows "wp (Run (ctl_cc c) Configuration_Object (reconcile_chain c cfg))
    (\<lambda>_ s'. no_apply s' \<or> patched_with (passed_gates cfg) (effects s')) s"
proof (rule wp_RunI, rule wp_mono)
  have "gated cfg {} s" using assms(3,4) by (simp add: gated_def Inv_def)
  with chain_sound [OF reconcile_chain_gated [OF assms(1,2)]]
  show "wp (run_loop (reconcile_chain c cfg)) (\<lambda>r s'. case r of None \<Rightarrow> gated cfg checked_stages s'
      | Some o' \<Rightarrow> \<exists>r0. o' = loop_result r0 \<and> \<not> continues r0 \<and> gate_or_none cfg r0 s') s"
    by blast
next
  fix r and s1 :: "('w, Configuration, cstate) env"
  assume h: "case r of None \<Rightarrow> gated cfg checked_stages s1
      | Some o' \<Rightarrow> \<exists>r0. o' = loop_result r0 \<and> \<not> continues r0 \<and> gate_or_none cfg r0 s1"
  show "case r of
      None \<Rightarrow> wp (mark_ready (ctl_cc c) Configuration_Object (resource s))
        (\<lambda>_. wp (update_status (ctl_cc c) Configuration_Object (resource s) (Ok Result0))
          (\<lambda>_ s'. no_apply s' \<or> patched_with (passed_gates cfg) (effects s'))) s1
    | Some oc \<Rightarrow> wp (update_status (ctl_cc c) Configuration_Object (resource s) oc)
        (\<lambda>_ s'. no_apply s' \<or> patched_with (passed_gates cfg) (effects s')) s1"
  proof (cases r)
    case None
    with h have "no_apply s1" by (simp add: gated_def)
    then have "wp (mark_ready (ctl_cc c) Configuration_Object (resource s))
        (\<lambda>_ s'. gate_or_none cfg Panic s') s1"
      by (intro wp_mono [OF mark_ready_no_apply]) (simp_all add: gate_or_none_def)
    with None show ?thesis by (auto elim!: wp_mono intro: update_status_gate)
  next
    case (Some oc)
    with h show ?thesis by (auto intro: update_status_gate)
  qed
qed

lemma logs_delete_chain:
  assumes "renders_labels (ctl_rn c)" and "x \<in> set (delete_chain c cfg)"
  shows "logs (\<lambda>e. \<not> apply_job e) x"
proof -
  have destroy: "logs (\<lambda>e. \<not> apply_job e) (ensureTerraformDestroy c cfg)"
    using logs_ensureTerraformDestroy [OF assms(1)]
    by (rule logs_mono) (simp add: stage_only_no_apply)
  show ?thesis
    using assms(2) destroy
    by (auto simp: delete_chain_def intro: logs_mono [OF _ no_job_no_apply [OF mild_no_job]]
        logs_mono [OF _ no_job_no_apply] logs_gather logs_ensureConfigurationSecretsDeleted
        logs_ensureConfigurationJobsDeleted logs_EnsureRemoved)
qed

lemma Run_delete_no_apply:
  assumes "renders_labels (ctl_rn c)"
  shows "keeps no_apply (Run (ctl_cc c) Configuration_Object (delete_chain c cfg))"
proof -
  have "logs (\<lambda>e. \<not> apply_job e) (Run (ctl_cc c) Configuration_Object (delete_chain c cfg))"
    by (rule logs_Run) (use logs_delete_chain [OF assms] in blast, simp_all add: apply_job_def)
  from logs_keeps [OF this] show ?thesis by (simp add: no_apply_def [abs_def])
qed

lemma registered_conditions:
  "has_conditions (EnsureConditionsRegistered Configuration_Object now DefaultConfigurationConditions x)"
  using cfg.registered(1) [of _ DefaultConfigurationConditions now x]
  by (fastforce simp: has_conditions_def all_conditions_def DefaultConfigurationConditions_def
      condition_spec_def)

lemma registered_same:
  "cfg_Meta (EnsureConditionsRegistered Configuration_Object now specs x) = cfg_Meta x"
  "cfg_Spec (EnsureConditionsRegistered Configuration_Object now specs x) = cfg_Spec x"
  by (simp_all add: EnsureConditionsRegistered_def Configuration_Object_def)

lemma reconcile_gated:
  fixes c :: "'w Controller"
  assumes r: "renders_labels (ctl_rn c)" and n: "no_apply s"
  shows "wp (reconcile_configuration c x)
    (\<lambda>_ s'. no_apply s' \<or> patched_with (passed_gates x) (effects s')) s"
proof -
  let ?ok = "\<lambda>s'. no_apply s' \<or> patched_with (passed_gates x) (effects s')"
  have finish: "wp (do { final \<leftarrow> gets resource; record_effect (status_metric final);
        State_Monad.return q }) (\<lambda>_. ?ok) t" if "?ok t" for q and t :: "('w, Configuration, cstate) env"
    using that by (auto simp: no_apply_def status_metric_def apply_job_def patched_with_def)
  have same: "no_apply (s\<lparr>resource := y, rstate := st\<rparr>)" for y st
    using n by (simp add: no_apply_def)
  have del: "wp (Run (ctl_cc c) Configuration_Object (delete_chain c x)) (\<lambda>_. ?ok)
      (s\<lparr>resource := x, rstate := new_state c\<rparr>)"
    using keeps_wp [OF Run_delete_no_apply [OF r, of x] same] by (rule wp_mono) simp
  have rec: "wp (Run (ctl_cc c) Configuration_Object (reconcile_chain c y)) (\<lambda>_. ?ok)
      (s\<lparr>rstate := new_state c, resource := y\<rparr>)"
    if y: "has_conditions y" "cfg_Meta y = cfg_Meta x" "cfg_Spec y = cfg_Spec x" for y
  proof -
    have "passed_gates y = passed_gates x" using y(2,3) by (simp add: passed_gates_def [abs_def])
    with Run_reconcile_gated [OF y(1) r, of "s\<lparr>rstate := new_state c, resource := y\<rparr>"] n
    show ?thesis by (simp add: no_apply_def)
  qed
  have go: "wp m (\<lambda>q. wp (do { final \<leftarrow> gets resource; record_effect (status_metric final);
        State_Monad.return q }) (\<lambda>_. ?ok)) t" if "wp m (\<lambda>_. ?ok) t" for m :: "'w cprog" and t
    using that by (rule wp_mono) (rule finish)
  show ?thesis
    unfolding reconcile_configuration_def wp_bind wp_modify_resource wp_modify_state
    by (rule go [unfolded wp_bind]) (use del rec [OF registered_conditions registered_same] in \<open>simp add: Let_def\<close>)
qed

end
