(* ===== verification/Config_Release.thy ===== *)
theory Config_Release
  imports Config_Gates
begin

text \<open>
  Deletion of a configuration: the controller only gives up its finalizer after the
  terraform resources are destroyed (or need no destroying) and after the six secrets it keeps
  for the configuration are deleted.
\<close>

section \<open>What release requires\<close>

text \<open>An update of the configuration without the controller's finalizer.\<close>

definition releases :: "effect \<Rightarrow> bool" where
  "releases e \<longleftrightarrow>
     (\<exists>x r. e = Wrote Update (OConfiguration x) r \<and>
            controllerName \<notin> set (om_Finalizers (cfg_Meta x)))"

definition no_release :: "('w, 'o, 't) env \<Rightarrow> bool" where
  "no_release s \<longleftrightarrow> (\<forall>e \<in> set (effects s). \<not> releases e)"

text \<open>
  The reasons for which terraform destroy is over: the configuration is orphaned, it had no
  resources, a read of its state secret found nothing, or the newest destroy job of this generation
  completed.
\<close>

definition destroy_done :: "'w Controller \<Rightarrow> Configuration \<Rightarrow> ('w, Configuration, cstate) env \<Rightarrow> bool" where
  "destroy_done c cfg s \<longleftrightarrow>
     Configuration_annotation cfg OrphanAnnotation = ''true'' \<or>
     cst_Resources (cfg_Status cfg) = Some 0 \<or>
     (KSecret, ctl_ControllerNamespace c, GetTerraformStateSecretName cfg) \<in> set (absent s) \<or>
     (\<exists>jobs job. s_jobs (rstate s) = Some jobs \<and>
        Latest (destroy_filter cfg (string_of_int (om_Generation (cfg_Meta cfg))) jobs) = Some job \<and>
        jobs_IsComplete job)"

definition secret_gone :: "'w Controller \<Rightarrow> ('w, 'o, 't) env \<Rightarrow> string \<Rightarrow> bool" where
  "secret_gone c s name \<longleftrightarrow>
     (\<exists>r. Wrote Delete (OSecret \<lparr>sec_Meta = named_meta (ctl_ControllerNamespace c) name,
                               sec_Data = None\<rparr>) r \<in> set (effects s) \<and>
          (case r of None \<Rightarrow> True | Some err \<Rightarrow> IsNotFound err))"

definition secrets_gone :: "'w Controller \<Rightarrow> Configuration \<Rightarrow> ('w, 'o, 't) env \<Rightarrow> bool" where
  "secrets_gone c cfg s \<longleftrightarrow> (\<forall>name \<in> set (configuration_secrets cfg). secret_gone c s name)"

definition released :: "'w Controller \<Rightarrow> Configuration \<Rightarrow> ('w, Configuration, cstate) env \<Rightarrow> bool" where
  "released c cfg s \<longleftrightarrow> destroy_done c cfg s \<and> secrets_gone c cfg s"

section \<open>What the deletion chain keeps\<close>

definition DInv :: "Configuration \<Rightarrow> ('w, Configuration, 't) env \<Rightarrow> bool" where
  "DInv cfg s \<longleftrightarrow>
     cfg_Meta (resource s) = cfg_Meta cfg \<and>
     cst_Resources (cfg_Status (resource s)) = cst_Resources (cfg_Status cfg)"

text \<open>What a run has seen of the cluster: the jobs it captured and the reads that found nothing.\<close>

definition seen :: "('w, 'o, 't) env \<Rightarrow> 't \<times> (kind \<times> string \<times> string) list" where
  "seen s = (rstate s, absent s)"

lemma seen_env [simp]:
  "seen (s\<lparr>world := w\<rparr>) = seen s" "seen (s\<lparr>effects := es\<rparr>) = seen s" "seen (s\<lparr>resource := x\<rparr>) = seen s"
  "seen (transition_env cc ob cond f s) = seen s"
  by (simp_all add: seen_def transition_env_def Let_def)

definition JInv :: "Configuration \<Rightarrow> 't \<times> (kind \<times> string \<times> string) list \<Rightarrow>
    ('w, Configuration, 't) env \<Rightarrow> bool" where
  "JInv cfg st s \<longleftrightarrow> DInv cfg s \<and> seen s = st"

lemma DInv_env [simp]:
  "DInv cfg (s\<lparr>world := w\<rparr>) = DInv cfg s" "DInv cfg (s\<lparr>effects := es\<rparr>) = DInv cfg s"
  "DInv cfg (s\<lparr>rstate := st\<rparr>) = DInv cfg s" "DInv cfg (s\<lparr>absent := a\<rparr>) = DInv cfg s"
  "DInv cfg (s\<lparr>resource := set_resource_status rs (resource s)\<rparr>) = DInv cfg s"
  "DInv cfg (transition_env cc Configuration_Object cond f s) = DInv cfg s"
  by (simp_all add: DInv_def set_resource_status_def)

lemma JInv_env [simp]:
  "JInv cfg st (s\<lparr>world := w\<rparr>) = JInv cfg st s" "JInv cfg st (s\<lparr>effects := es\<rparr>) = JInv cfg st s"
  "JInv cfg st (s\<lparr>resource := set_resource_status rs (resource s)\<rparr>) = JInv cfg st s"
  "JInv cfg st (transition_env cc Configuration_Object cond f s) = JInv cfg st s"
  by (simp_all add: JInv_def)

text \<open>Invariants that no read, no logged effect and no condition can break.\<close>

definition calm :: "(('w, Configuration, 't) env \<Rightarrow> bool) \<Rightarrow> bool" where
  "calm I \<longleftrightarrow>
     (\<forall>s. I s \<longrightarrow> (\<forall>w. I (s\<lparr>world := w\<rparr>)) \<and> (\<forall>es. I (s\<lparr>effects := effects s @ es\<rparr>)) \<and>
       (\<forall>cc cond f. I (transition_env cc Configuration_Object cond f s)))"

lemma calm_DInv: "calm (DInv cfg)"
  by (simp add: calm_def)

lemma calm_JInv: "calm (JInv cfg st)"
  by (simp add: calm_def)

lemma missless_DInv: "missless (DInv cfg)"
  by (simp add: missless_def)

lemma calm_worldless: "calm I \<Longrightarrow> worldless I"
  by (simp add: calm_def worldless_def)

lemma calm_set_through: "calm I \<Longrightarrow> keeps I (set_through cc Configuration_Object cond st re m d)"
proof (rule keepsI)
  fix s a s' assume "calm I" "I s"
    and r: "run_state (set_through cc Configuration_Object cond st re m d) s = (a, s')"
  then have "wp (set_through cc Configuration_Object cond st re m d) (\<lambda>_. I) s"
    by (simp add: wp_set_through calm_def)
  from wpD [OF this r] show "I s'" .
qed

lemma calm_keeps:
  assumes "calm I"
  shows "keeps I (failed c cond err m args)" "keeps I (action_required c cond m args)"
    "keeps I (warning c cond m args)" "keeps I (success c cond m args)"
    "keeps I (in_progress c cond m args)" "keeps I (record_effect e)" "keeps I (perform cc v x)"
    "keeps I (DeleteIfExists cc x)"
  using assms calm_worldless [OF assms] unfolding cond_defs
  by (auto intro!: calm_set_through keeps_record_effect keeps_perform keeps_DeleteIfExists
      simp: calm_def)

lemma calm_keeps_reads:
  assumes "calm I" and "missless I"
  shows "keeps I (CreateOrForceUpdate cc x)" "keeps I (CreateOrPatch cc x)"
  using assms calm_worldless [OF assms(1)]
  by (auto intro!: keeps_CreateOrForceUpdate keeps_CreateOrPatch simp: calm_def)

lemma calm_keeps_controller:
  assumes "calm I"
  shows "keeps I (fail_with c cond err m args)" "keeps I (require_action c cond m args res)"
  unfolding fail_with_def require_action_def
  by (intro keeps_intros calm_keeps calm_worldless assms)+

lemma calm_keeps_lookups:
  assumes "calm I" and "missless I"
  shows "keeps I (getNamespaceFromCache c n)" "keeps I (findMatchingPolicy c cfg ps)"
    "keeps I (CreateWatcher c cfg stage)"
  unfolding getNamespaceFromCache_def findMatchingPolicy_def CreateWatcher_def
  by (intro keeps_intros calm_keeps calm_worldless assms)+

lemmas calm_intros = keeps_intros calm_keeps calm_keeps_controller calm_worldless calm_keeps_reads
  calm_keeps_lookups missless_DInv

section \<open>The deletion chain\<close>

lemma keeps_DInv_modify_state: "keeps (DInv cfg) (modify_state f)"
  by (rule keeps_modify_state) simp

lemma keeps_DInv_sync: "keeps (DInv cfg) (modify_resource (\<lambda>x.
    if cst_ResourceStatus (cfg_Status x) = UnknownResourceStatus
    then set_resource_status ResourcesOutOfSync x else x))"
  by (rule keeps_modify_resource) (auto simp: DInv_def set_resource_status_def)

lemma keeps_DInv_gather:
  "keeps (DInv cfg) (ensureCapturedState c cfg0)" "keeps (DInv cfg) (ensureProviderReady c cfg0)"
  "keeps (DInv cfg) (ensureCustomBackendTemplate c cfg0)"
  "keeps (DInv cfg) (ensureAuthenticationSecret c cfg0)"
  "keeps (DInv cfg) (ensureCustomJobTemplate c cfg0)"
  "keeps (DInv cfg) (ensureJobConfigurationSecret c cfg0)"
  unfolding ensureCapturedState_def capture_revision_def capture_lists_def ensureProviderReady_def
    check_selector_def ensureCustomBackendTemplate_def ensureAuthenticationSecret_def fetch_auth_def
    ensureCustomJobTemplate_def ensureJobConfigurationSecret_def write_job_secret_def Let_def
  by (intro calm_intros calm_DInv keeps_DInv_modify_state keeps_DInv_sync)+

lemma keeps_DInv_check_secrets: "keeps (DInv cfg) (check_secrets c cond names)"
  by (induction names) (auto intro!: calm_intros calm_DInv)

lemma keeps_DInv_ensurePolicyDefaultsExist: "keeps (DInv cfg) (ensurePolicyDefaultsExist c cfg0)"
  unfolding ensurePolicyDefaultsExist_def
  by (intro calm_intros calm_DInv keeps_DInv_modify_state keeps_DInv_check_secrets)

lemma keeps_DInv_value_from_loop: "keeps (DInv cfg) (value_from_loop c cond cfg' i xs)"
  by (induction xs arbitrary: i)
    (auto simp: value_from_secret_def value_from_context_def
      intro!: calm_intros calm_DInv keeps_DInv_modify_state)

lemma keeps_DInv_ensureValueFromSecret: "keeps (DInv cfg) (ensureValueFromSecret c cfg0)"
  unfolding ensureValueFromSecret_def by (intro calm_intros calm_DInv keeps_DInv_value_from_loop)

section \<open>Destroying\<close>

lemma stopping_start_destroy [stopping_intros]: "stopping (start_destroy c cond cfg runner)"
  unfolding start_destroy_def by (intro stopping_intros) simp_all

lemma wp_stopping: "stopping m \<Longrightarrow> wp m (\<lambda>r s'. continues r \<longrightarrow> Q r s') s"
  unfolding stopping_def by (blast intro: wp_mono)

lemma destroy_filter_meta:
  "cfg_Meta x = cfg_Meta y \<Longrightarrow> destroy_filter x g jobs = destroy_filter y g jobs"
  by (simp add: destroy_filter_def Configuration_annotation_def)

lemma wp_observe_destroy:
  "DInv cfg s \<Longrightarrow> wp (observe_destroy c cond job)
     (\<lambda>r s'. continues r \<longrightarrow> jobs_IsComplete job \<and> DInv cfg s' \<and> rstate s' = rstate s) s"
  by (auto simp: observe_destroy_def cond_defs wp_set_through)

lemma wp_run_destroy:
  fixes c :: "'w Controller"
  assumes d: "DInv cfg s"
  shows "wp (run_destroy c cond (string_of_int (om_Generation (cfg_Meta cfg))))
    (\<lambda>r s'. continues r \<longrightarrow> DInv cfg s' \<and> destroy_done c cfg s') s"
proof -
  let ?Q = "\<lambda>r s'. continues r \<longrightarrow> DInv cfg s' \<and> destroy_done c cfg s'"
  have obs: "wp (observe_destroy c cond job) ?Q s"
    if "s_jobs (rstate s) = Some jobs"
      "Latest (destroy_filter (resource s) (string_of_int (om_Generation (cfg_Meta cfg))) jobs) = Some job"
    for jobs job
    using wp_observe_destroy [OF d, of c cond job]
  proof (rule wp_mono)
    fix r and s' :: "('w, Configuration, cstate) env"
    assume "continues r \<longrightarrow> jobs_IsComplete job \<and> DInv cfg s' \<and> rstate s' = rstate s"
    moreover have "destroy_filter (resource s) g js = destroy_filter cfg g js" for g js
      using d by (intro destroy_filter_meta) (simp add: DInv_def)
    ultimately show "?Q r s'" using that by (auto simp: destroy_done_def)
  qed
  show ?thesis
    unfolding run_destroy_def wp_bind wp_gets
    using obs wp_stopping [OF stopping_start_destroy] wp_stopping [OF stopping_fail_with]
    by (auto split: option.splits go.splits)
qed

lemma leads_ensureTerraformDestroy:
  fixes c :: "'w Controller"
  shows "leads (DInv cfg) (ensureTerraformDestroy c cfg) (\<lambda>s. DInv cfg s \<and> destroy_done c cfg s)"
  unfolding ensureTerraformDestroy_def
proof (intro leads_Let leads_bind_gets)
  let ?g = "string_of_int (om_Generation (cfg_Meta cfg))" and ?c = "cfg_cond cfg ConditionReady"
  let ?Q = "\<lambda>r s'. continues r \<longrightarrow> DInv cfg s' \<and> destroy_done c cfg s'"
  fix s :: "('w, Configuration, cstate) env"
  assume d: "DInv cfg s"
  let ?t = "s\<lparr>resource := set_resource_status DestroyingResources (resource s)\<rparr>"
  have t: "DInv cfg ?t" using d by simp
  have name: "GetTerraformStateSecretName (resource ?t) = GetTerraformStateSecretName cfg"
    using t by (simp add: DInv_def GetTerraformStateSecretName_def)
  have get: "wp (GetIfExists (ctl_cc c) KSecret as_Secret (ctl_ControllerNamespace c)
        (GetTerraformStateSecretName cfg))
      (\<lambda>r. wp (case r of
          Inl err \<Rightarrow> fail_with c ?c err ''Failed to check for the terraform state secret'' []
        | Inr None \<Rightarrow> proceed
        | Inr (Some _) \<Rightarrow> run_destroy c ?c ?g) ?Q) ?t"
  proof (rule wp_GetIfExists_any)
    fix r :: "gerror + Secret option" and w a
    assume missing: "r = Inr None \<longrightarrow>
        (KSecret, ctl_ControllerNamespace c, GetTerraformStateSecretName cfg) \<in> set a"
    have "DInv cfg (?t\<lparr>world := w, absent := a\<rparr>)" using t by simp
    note run = wp_run_destroy [OF this, of c ?c] and stop = wp_stopping [OF stopping_fail_with]
    show "wp (case r of
          Inl err \<Rightarrow> fail_with c ?c err ''Failed to check for the terraform state secret'' []
        | Inr None \<Rightarrow> proceed
        | Inr (Some _) \<Rightarrow> run_destroy c ?c ?g) ?Q (?t\<lparr>world := w, absent := a\<rparr>)"
    proof (cases r)
      case (Inl err)
      then show ?thesis using stop by simp
    next
      case (Inr x)
      show ?thesis
      proof (cases x)
        case None
        with Inr missing t show ?thesis by (simp add: destroy_done_def)
      next
        case (Some y)
        with Inr run show ?thesis by simp
      qed
    qed
  qed
  have orphan: "Configuration_annotation (resource s) OrphanAnnotation = Configuration_annotation cfg OrphanAnnotation"
    "cst_Resources (cfg_Status (resource ?t)) = cst_Resources (cfg_Status cfg)"
    using d t by (simp_all add: DInv_def Configuration_annotation_def)
  show "wp (if Configuration_annotation (resource s) OrphanAnnotation = ''true'' then proceed
      else do { modify_resource (set_resource_status DestroyingResources);
             configuration \<leftarrow> gets resource;
             if cst_Resources (cfg_Status configuration) = Some 0
             then do { record_effect (Event (OConfiguration configuration) EventTypeNormal
                         ''DeletionSkipped''
                         ''Configuration had zero resources, skipping terraform destroy'');
                       proceed }
             else do {
               r \<leftarrow> GetIfExists (ctl_cc c) KSecret as_Secret (ctl_ControllerNamespace c)
                      (GetTerraformStateSecretName configuration);
               case r of
                 Inl err \<Rightarrow>
                   fail_with c ?c err ''Failed to check for the terraform state secret'' []
               | Inr None \<Rightarrow> proceed
               | Inr (Some _) \<Rightarrow> run_destroy c ?c ?g } }) ?Q s"
    unfolding wp_if wp_bind wp_modify_resource wp_gets name
    by (intro conjI impI, use d orphan in \<open>simp add: destroy_done_def\<close>,
        use d orphan in \<open>simp add: destroy_done_def\<close>, rule get)
qed

section \<open>Deleting the secrets\<close>

lemma secret_gone_mono:
  "secret_gone c s n \<Longrightarrow> set (effects s) \<subseteq> set (effects s') \<Longrightarrow> secret_gone c s' n"
  by (auto simp: secret_gone_def)

lemma logs_grows: "logs E m \<Longrightarrow> wp m (\<lambda>_ s'. set (effects s) \<subseteq> set (effects s')) s"
proof -
  assume "logs E m"
  then have "wp m (\<lambda>_ s'. \<exists>es. effects s' = effects s @ es \<and> (\<forall>e \<in> set es. E e)) s"
    by (simp add: logs_def)
  then show ?thesis by (rule wp_mono) auto
qed

lemma wp_DeleteIfExists_gone:
  "wp (DeleteIfExists (ctl_cc c) (OSecret \<lparr>sec_Meta = named_meta (ctl_ControllerNamespace c) n,
      sec_Data = None\<rparr>)) (\<lambda>r s'. r = None \<longrightarrow> secret_gone c s' n) s"
  unfolding DeleteIfExists_def wp_bind
  by (rule wp_perform_any) (auto simp: secret_gone_def error_of_def split: sum.splits)

lemma wp_delete_secrets:
  "wp (delete_secrets c cond names) (\<lambda>r s'. continues r \<longrightarrow> (\<forall>n \<in> set names. secret_gone c s' n)) s"
proof (induction names arbitrary: s)
  case (Cons n ns)
  have rest: "wp (delete_secrets c cond ns)
      (\<lambda>r s'. continues r \<longrightarrow> (\<forall>m \<in> set (n # ns). secret_gone c s' m)) t"
    if "secret_gone c t n" for t
    using wp_conj [OF Cons.IH [of t] logs_grows [OF logs_delete_secrets [of c cond ns]]]
    by (rule wp_mono) (use that secret_gone_mono in auto)
  show ?case
    unfolding delete_secrets.simps wp_bind
    by (rule wp_mono [OF wp_DeleteIfExists_gone])
      (use rest wp_stopping [OF stopping_fail_with] in \<open>auto split: option.splits\<close>)
qed simp

lemma destroy_done_seen: "seen s' = seen s \<Longrightarrow> destroy_done c cfg s' = destroy_done c cfg s"
  by (simp add: destroy_done_def seen_def)

lemma released_mono:
  "released c cfg s \<Longrightarrow> seen s' = seen s \<Longrightarrow> set (effects s) \<subseteq> set (effects s') \<Longrightarrow>
   released c cfg s'"
  unfolding released_def secrets_gone_def
  using secret_gone_mono [of c s _ s'] destroy_done_seen [of s' s c cfg] by blast

lemma released_append:
  "released c cfg s \<Longrightarrow> released c cfg (s\<lparr>effects := effects s @ es\<rparr>)"
  by (erule released_mono) auto

lemma keeps_JInv_deletes:
  "keeps (JInv cfg st) (delete_secrets c cond names)" "keeps (JInv cfg st) (delete_jobs c cond jobs)"
  by (induction names, auto intro!: calm_intros calm_JInv)
    (induction jobs, auto intro!: calm_intros calm_JInv)

lemma keeps_JInv_ensures:
  "keeps (JInv cfg st) (ensureConfigurationSecretsDeleted c cfg0)"
  "keeps (JInv cfg st) (ensureConfigurationJobsDeleted c cfg0)"
  unfolding ensureConfigurationSecretsDeleted_def ensureConfigurationJobsDeleted_def
  by (intro calm_intros calm_JInv keeps_JInv_deletes)+

lemma leads_ensureConfigurationSecretsDeleted:
  fixes c :: "'w Controller"
  shows "leads (\<lambda>s. DInv cfg s \<and> destroy_done c cfg s) (ensureConfigurationSecretsDeleted c cfg)
           (\<lambda>s. DInv cfg s \<and> released c cfg s)"
  unfolding leads_def
proof (intro allI impI)
  fix s :: "('w, Configuration, cstate) env"
  assume s: "DInv cfg s \<and> destroy_done c cfg s"
  have names: "configuration_secrets (resource s) = configuration_secrets cfg"
    using s by (simp add: DInv_def configuration_secrets_def secret_name_defs)
  have "wp (ensureConfigurationSecretsDeleted c cfg)
      (\<lambda>r s'. continues r \<longrightarrow> (\<forall>n \<in> set (configuration_secrets cfg). secret_gone c s' n)) s"
    unfolding ensureConfigurationSecretsDeleted_def Let_def wp_bind wp_gets names
    by (rule wp_delete_secrets)
  moreover have "wp (ensureConfigurationSecretsDeleted c cfg) (\<lambda>_. JInv cfg (seen s)) s"
    using s by (intro keeps_wp [OF keeps_JInv_ensures(1)]) (simp add: JInv_def)
  ultimately have "wp (ensureConfigurationSecretsDeleted c cfg)
      (\<lambda>r s'. (continues r \<longrightarrow> (\<forall>n \<in> set (configuration_secrets cfg). secret_gone c s' n)) \<and>
         JInv cfg (seen s) s') s" by (rule wp_conj)
  then show "wp (ensureConfigurationSecretsDeleted c cfg)
      (\<lambda>r s'. continues r \<longrightarrow> DInv cfg s' \<and> released c cfg s') s"
    by (rule wp_mono)
      (unfold JInv_def released_def secrets_gone_def, use s destroy_done_seen in blast)
qed

lemma leads_ensureConfigurationJobsDeleted:
  fixes c :: "'w Controller"
  shows "leads (\<lambda>s. DInv cfg s \<and> released c cfg s) (ensureConfigurationJobsDeleted c cfg)
           (\<lambda>s. DInv cfg s \<and> released c cfg s)"
proof (rule leads_keeps, rule keepsI)
  fix s a s' assume s: "DInv cfg s \<and> released c cfg s"
    and r: "run_state (ensureConfigurationJobsDeleted c cfg) s = (a, s')"
  have "JInv cfg (seen s) s'"
    using s by (intro keepsD [OF keeps_JInv_ensures(2) _ r]) (simp add: JInv_def)
  moreover have "set (effects s) \<subseteq> set (effects s')"
    using logsD [OF logs_ensureConfigurationJobsDeleted r] by auto
  ultimately show "DInv cfg s' \<and> released c cfg s'"
    using s released_mono by (auto simp: JInv_def)
qed

section \<open>The chain and the handler\<close>

definition held :: "'w Controller \<Rightarrow> Configuration \<Rightarrow> ('w, Configuration, cstate) env \<Rightarrow> bool" where
  "held c cfg s \<longleftrightarrow> no_release s \<or> released c cfg s"

lemma mild_not_releases: "mild e \<Longrightarrow> \<not> releases e"
  by (auto simp: releases_def)

lemma release_step:
  fixes x :: "'w cprog"
  assumes "leads P x P'" and "logs (\<lambda>e. \<not> releases e) x"
  shows "ensures (\<lambda>s. P s \<and> no_release s) x (\<lambda>s. P' s \<and> no_release s) (\<lambda>_. held c cfg)"
proof (rule ensuresI)
  fix s :: "('w, Configuration, cstate) env"
  assume s: "P s \<and> no_release s"
  have "wp x (\<lambda>_ s'. no_release s') s"
    using keeps_wp [OF logs_keeps [OF assms(2)]] s by (simp add: no_release_def)
  with leadsD [OF assms(1), of s] have "wp x (\<lambda>r s'. (continues r \<longrightarrow> P' s') \<and> no_release s') s"
    using s by (intro wp_conj) simp_all
  then show "wp x (\<lambda>r s'. if continues r then P' s' \<and> no_release s' else held c cfg s') s"
    by (rule wp_mono) (simp add: held_def)
qed

lemma keeps_seen_EnsureRemoved: "keeps (\<lambda>s. seen s = st) (EnsureRemoved cc ob fin)"
proof -
  have w: "worldless (\<lambda>s. seen s = st)" by (simp add: worldless_def)
  show ?thesis
    unfolding EnsureRemoved_def write_back_def
    by (intro keeps_intros w keeps_modify_resource keeps_perform) simp_all
qed

lemma EnsureRemoved_released:
  "keeps (released c cfg) (EnsureRemoved (ctl_cc c) Configuration_Object fin)"
proof (rule keepsI)
  fix s a s' assume s: "released c cfg s"
    and r: "run_state (EnsureRemoved (ctl_cc c) Configuration_Object fin) s = (a, s')"
  have "seen s' = seen s" by (rule keepsD [OF keeps_seen_EnsureRemoved refl r])
  moreover have "set (effects s) \<subseteq> set (effects s')" using logsD [OF logs_EnsureRemoved r] by auto
  ultimately show "released c cfg s'" by (rule released_mono [OF s])
qed

lemma jobs_deleted_not_releases: "logs (\<lambda>e. \<not> releases e) (ensureConfigurationJobsDeleted c cfg)"
proof -
  have jobs: "logs (\<lambda>e. \<not> releases e) (delete_jobs c cond js)" for cond js
    by (induction js) (auto simp: releases_def intro!: logs_intros)
  show ?thesis
    unfolding ensureConfigurationJobsDeleted_def
    by (intro logs_intros jobs) (simp_all add: releases_def)
qed

lemma destroy_not_releases: "logs (\<lambda>e. \<not> releases e) (ensureTerraformDestroy c cfg)"
  unfolding ensureTerraformDestroy_def run_destroy_def start_destroy_def watch_destroy_def
    observe_destroy_def
  by (intro logs_intros) (auto simp: releases_def)

lemma delete_chain_held:
  fixes c :: "'w Controller"
  shows "chain (held c cfg) (\<lambda>_. held c cfg) (\<lambda>s. DInv cfg s \<and> no_release s) (delete_chain c cfg)"
proof -
  note d = mild_not_releases
  have gather: "ensures (\<lambda>s. DInv cfg s \<and> no_release s) x (\<lambda>s. DInv cfg s \<and> no_release s) (\<lambda>_. held c cfg)"
    if "keeps (DInv cfg) x" "logs mild x" for x :: "'w cprog"
    by (rule release_step [OF leads_keeps [OF that(1)]]) (rule logs_mono [OF that(2)], rule d)
  have secrets: "logs (\<lambda>e. \<not> releases e) (ensureConfigurationSecretsDeleted c cfg)"
    using logs_ensureConfigurationSecretsDeleted by (rule logs_mono) (rule d)
  have remove: "ensures (\<lambda>s. (DInv cfg s \<and> released c cfg s) \<and> no_release s)
      (EnsureRemoved (ctl_cc c) Configuration_Object controllerName) (held c cfg) (\<lambda>_. held c cfg)"
    by (rule ensures_weaken [OF ensures_keeps [OF EnsureRemoved_released [of c cfg]]])
      (auto simp: held_def)
  note k = keeps_DInv_gather
  show ?thesis
    unfolding delete_chain_def
    by (rule chain_Cons [OF gather [OF k(1) logs_ensureCapturedState]]
        chain_Cons [OF gather [OF k(2) logs_ensureProviderReady]]
        chain_Cons [OF gather [OF k(3) logs_ensureCustomBackendTemplate]]
        chain_Cons [OF gather [OF keeps_DInv_ensurePolicyDefaultsExist logs_ensurePolicyDefaultsExist]]
        chain_Cons [OF gather [OF keeps_DInv_ensureValueFromSecret logs_ensureValueFromSecret]]
        chain_Cons [OF gather [OF k(4) logs_ensureAuthenticationSecret]]
        chain_Cons [OF gather [OF k(5) logs_ensureCustomJobTemplate]]
        chain_Cons [OF gather [OF k(6) logs_ensureJobConfigurationSecret]]
        chain_Cons [OF release_step [OF leads_ensureTerraformDestroy destroy_not_releases]]
        chain_Cons [OF release_step [OF leads_ensureConfigurationSecretsDeleted secrets]]
        chain_Cons [OF release_step [OF leads_ensureConfigurationJobsDeleted jobs_deleted_not_releases]]
        chain_Cons [OF remove] chain_Nil; assumption?)+
qed

lemma held_quiet:
  assumes "logs (\<lambda>e. \<not> releases e) m" and "\<And>st. keeps (\<lambda>s. seen s = st) m"
  shows "keeps (held c cfg) m"
proof (rule keepsI)
  fix s a s' assume s: "held c cfg s" and r: "run_state m s = (a, s')"
  have st: "seen s' = seen s" by (rule keepsD [OF assms(2) refl r])
  obtain es where es: "effects s' = effects s @ es" "\<forall>e \<in> set es. \<not> releases e"
    using logsD [OF assms(1) r] by blast
  then have "no_release s'" if "no_release s" using that by (auto simp: no_release_def)
  moreover have "released c cfg s'" if "released c cfg s"
    using released_mono [OF that st] es(1) by auto
  ultimately show "held c cfg s'" using s by (auto simp: held_def)
qed

lemma keeps_seen_set_through:
  "keeps (\<lambda>s. seen s = st) (set_through cc ob cond st' re m d)"
proof (rule keepsI)
  fix s a s' assume "seen s = st" and r: "run_state (set_through cc ob cond st' re m d) s = (a, s')"
  then have "wp (set_through cc ob cond st' re m d) (\<lambda>_ s'. seen s' = st) s"
    by (simp add: wp_set_through)
  from wpD [OF this r] show "seen s' = st" .
qed

lemma keeps_held_Run_tail:
  "keeps (held c cfg) (update_status cc Configuration_Object original oc)"
  "keeps (held c cfg) (mark_ready cc Configuration_Object original)"
proof -
  have w: "worldless (\<lambda>s. seen s = st)" for st by (simp add: worldless_def)
  show "keeps (held c cfg) (update_status cc Configuration_Object original oc)"
    unfolding update_status_def write_back_def
    by (rule held_quiet) (intro logs_intros keeps_intros w keeps_modify_resource keeps_perform;
        simp add: releases_def)+
  show "keeps (held c cfg) (mark_ready cc Configuration_Object original)"
    unfolding mark_ready_def cond_defs
    by (rule held_quiet) (intro logs_intros keeps_intros w keeps_modify_resource
        keeps_seen_set_through; simp add: releases_def)+
qed

lemma Run_delete_held:
  assumes "no_release s" and "resource s = cfg"
  shows "wp (Run (ctl_cc c) Configuration_Object (delete_chain c cfg)) (\<lambda>_. held c cfg) s"
proof (rule wp_RunI, rule wp_mono)
  show "wp (run_loop (delete_chain c cfg)) (\<lambda>r s'. case r of None \<Rightarrow> held c cfg s'
      | Some o' \<Rightarrow> \<exists>r0. o' = loop_result r0 \<and> \<not> continues r0 \<and> held c cfg s') s"
    using assms by (intro chain_sound [OF delete_chain_held]) (simp add: DInv_def)
next
  fix r and s1
  assume h: "case r of None \<Rightarrow> held c cfg s1
      | Some o' \<Rightarrow> \<exists>r0. o' = loop_result r0 \<and> \<not> continues r0 \<and> held c cfg s1"
  then have h: "held c cfg s1" by (auto split: option.splits)
  have u: "wp (update_status (ctl_cc c) Configuration_Object (resource s) oc) (\<lambda>_. held c cfg) t"
    if "held c cfg t" for oc t
    using keeps_wp [OF keeps_held_Run_tail(1) that] .
  have m: "wp (mark_ready (ctl_cc c) Configuration_Object (resource s))
      (\<lambda>_. wp (update_status (ctl_cc c) Configuration_Object (resource s) oc) (\<lambda>_. held c cfg)) s1" for oc
    using keeps_wp [OF keeps_held_Run_tail(2) h] by (rule wp_mono) (rule u)
  show "case r of
      None \<Rightarrow> wp (mark_ready (ctl_cc c) Configuration_Object (resource s))
        (\<lambda>_. wp (update_status (ctl_cc c) Configuration_Object (resource s) (Ok Result0))
          (\<lambda>_. held c cfg)) s1
    | Some oc \<Rightarrow> wp (update_status (ctl_cc c) Configuration_Object (resource s) oc) (\<lambda>_. held c cfg) s1"
    using u [OF h] m by (simp split: option.splits)
qed

lemma EnsurePresent_not_releases:
  "logs (\<lambda>e. \<not> releases e) (EnsurePresent cc Configuration_Object controllerName)"
  unfolding logs_def EnsurePresent_def Finalizer_Add_def perform_def
  by (auto simp: wp_simps releases_def SetFinalizers_def Configuration_Object_def split: option.splits)

lemma plan_not_releases: "logs (\<lambda>e. \<not> releases e) (ensureTerraformPlan c cfg)"
  unfolding ensureTerraformPlan_def run_plan_def start_plan_def create_plan_job_def
    observe_plan_def request_approval_def annotate_cloudresource_def
  by (intro logs_intros logs_mono [OF logs_ensureErrorDetection])
    (auto simp: mild_not_releases, auto simp: releases_def)

lemma apply_not_releases: "logs (\<lambda>e. \<not> releases e) (ensureTerraformApply c cfg)"
  unfolding ensureTerraformApply_def run_apply_def start_apply_def create_apply_job_def
    observe_apply_def
  by (intro logs_intros logs_mono [OF logs_ensureErrorDetection])
    (auto simp: mild_not_releases, auto simp: releases_def)

lemma reconcile_not_releases:
  "x \<in> set (reconcile_chain c cfg) \<Longrightarrow> logs (\<lambda>e. \<not> releases e) x"
  by (auto simp: reconcile_chain_def EnsurePresent_not_releases plan_not_releases apply_not_releases
      intro: logs_mono [OF _ mild_not_releases] logs_gather logs_observe)

lemma reconcile_held:
  fixes c :: "'w Controller"
  assumes n: "no_release s"
  shows "wp (reconcile_configuration c x)
    (\<lambda>_ s'. no_release s' \<or>
       IsDeletionCandidate Configuration_Object controllerName x \<and> released c x s') s"
proof -
  let ?d = "IsDeletionCandidate Configuration_Object controllerName x"
  let ?ok = "\<lambda>s'. no_release s' \<or> ?d \<and> released c x s'"
  have finish: "wp (do { final \<leftarrow> gets resource; record_effect (status_metric final);
        State_Monad.return q }) (\<lambda>_. ?ok) t" if "?ok t" for q and t :: "('w, Configuration, cstate) env"
    using that by (auto simp: no_release_def status_metric_def releases_def intro!: released_append)
  have del: "wp (Run (ctl_cc c) Configuration_Object (delete_chain c x)) (\<lambda>_ s'. no_release s' \<or> released c x s')
      (s\<lparr>resource := x, rstate := new_state c\<rparr>)"
    using n by (intro Run_delete_held [unfolded held_def]) (simp_all add: no_release_def)
  have run: "logs (\<lambda>e. \<not> releases e) (Run (ctl_cc c) Configuration_Object (reconcile_chain c y))" for y
    by (rule logs_Run) (use reconcile_not_releases in blast, simp_all add: releases_def)
  have rec: "wp (Run (ctl_cc c) Configuration_Object (reconcile_chain c y)) (\<lambda>_. no_release)
      (s\<lparr>rstate := new_state c, resource := y\<rparr>)" for y
    unfolding no_release_def [abs_def]
    by (rule keeps_wp [OF logs_keeps [OF run]]) (use n in \<open>simp add: no_release_def\<close>)
  have go: "wp m (\<lambda>q. wp (do { final \<leftarrow> gets resource; record_effect (status_metric final);
        State_Monad.return q }) (\<lambda>_. ?ok)) t" if "wp m (\<lambda>_. ?ok) t" for m :: "'w cprog" and t
    using that by (rule wp_mono) (rule finish)
  show ?thesis
    unfolding reconcile_configuration_def wp_bind wp_modify_resource wp_modify_state
    by (rule go [unfolded wp_bind]) (use del rec in \<open>auto simp: Let_def elim: wp_mono\<close>)
qed

end
