(* ===== verification/Api_Properties.thy ===== *)
theory Api_Properties
  imports Policies
begin

text \<open>
  Properties of the API types and of the utility packages: the validation of connection
  secrets against their parser, the retry annotation, revisions of a plan, the apply decision,
  label merging, selectors, the newest job of a filter and the choice of the security policy.
\<close>

section \<open>Connection secrets\<close>

text \<open>
  The validation of a connection secret accepts exactly the named secrets whose keys the
  controller can parse when it writes the secret.
\<close>

theorem connection_keys_parse:
  "WriteConnectionSecret_IsValid w = None \<longleftrightarrow> wcs_Name w \<noteq> [] \<and> (\<exists>m. KeysMap w = Inr m)"
  using keys_map_total [of 0 "wcs_Keys w" Map.empty]
  by (auto simp: WriteConnectionSecret_IsValid_def KeysMap_def HasKeys_def)

text \<open>Dropping the entries of one key changes the map at that key only.\<close>

lemma Split_prefix:
  assumes "CHR '':'' \<notin> set key" and "HasPrefix x (key @ '':'')"
  shows "\<exists>t. Split x CHR '':'' = key # Split t CHR '':''"
proof -
  have "x = take (length (key @ '':'')) x @ drop (length (key @ '':'')) x" by simp
  also have "\<dots> = key @ CHR '':'' # drop (length (key @ '':'')) x"
    using assms(2) by (simp add: HasPrefix_def)
  finally obtain t where x: "x = key @ CHR '':'' # t" by blast
  show ?thesis unfolding x using Split_append_sep [OF assms(1)] by blast
qed

lemma keys_map_filter:
  assumes "keys_map m xs = Inr (Some a)" and "CHR '':'' \<notin> set key"
    and "\<And>k. k \<noteq> key \<Longrightarrow> m' k = m k"
  shows "\<exists>b. keys_map m' (filter (\<lambda>x. \<not> HasPrefix x (key @ '':'') \<and> x \<noteq> key) xs) = Inr (Some b) \<and>
             (\<forall>k. k \<noteq> key \<longrightarrow> b k = a k)"
  using assms
proof (induction xs arbitrary: m m')
  case (Cons x xs)
  show ?case
  proof (cases "CHR '':'' \<in> set x")
    case True
    with Cons.prems(1) obtain p q where pq: "Split x CHR '':'' = [p, q]"
      and step: "keys_map (m(p \<mapsto> q)) xs = Inr (Some a)" by (auto split: list.splits)
    have "p = key" if "HasPrefix x (key @ '':'')"
      using Split_prefix [OF Cons.prems(2) that] pq by auto
    moreover have "x \<noteq> key" using True Cons.prems(2) by auto
    moreover have "\<exists>b. keys_map (m'(p \<mapsto> q)) (filter (\<lambda>x. \<not> HasPrefix x (key @ '':'') \<and> x \<noteq> key) xs) =
        Inr (Some b) \<and> (\<forall>k. k \<noteq> key \<longrightarrow> b k = a k)"
      by (rule Cons.IH [OF step Cons.prems(2)]) (simp add: Cons.prems(3))
    ultimately show ?thesis
      using Cons.IH [OF step Cons.prems(2), of m'] Cons.prems(3) True pq
      by (cases "HasPrefix x (key @ '':'')") simp_all
  next
    case False
    have "\<not> HasPrefix x (key @ '':'')"
    proof
      assume "HasPrefix x (key @ '':'')"
      then have "set (key @ '':'') \<subseteq> set x" by (metis HasPrefix_def set_take_subset)
      with False show False by simp
    qed
    moreover have "keys_map (m(x \<mapsto> x)) xs = Inr (Some a)" using Cons.prems(1) False by simp
    note IH = Cons.IH [OF this Cons.prems(2)]
    ultimately show ?thesis
      using IH [of m'] IH [of "m'(x \<mapsto> x)"] Cons.prems(3) False by (cases "x = key") simp_all
  qed
qed simp

text \<open>
  Adding a key to a connection secret and parsing its keys gives the former map, with the
  key mapped to its upper-case override, or to itself when there is no override.
\<close>

theorem AddKey_KeysMap:
  assumes "KeysMap w = Inr m" and "CHR '':'' \<notin> set key" and "CHR '':'' \<notin> set override"
  shows "KeysMap (AddKey w key override) =
    Inr (Some ((case m of None \<Rightarrow> Map.empty | Some f \<Rightarrow> f)
      (key \<mapsto> (if override = [] then key else ToUpper override))))"
proof -
  let ?keep = "filter (\<lambda>x. \<not> HasPrefix x (key @ '':'') \<and> x \<noteq> key) (wcs_Keys w)"
  let ?f = "case m of None \<Rightarrow> Map.empty | Some f \<Rightarrow> f"
  let ?v = "if override = [] then key else ToUpper override"
  have "keys_map Map.empty (wcs_Keys w) = Inr (Some ?f)"
    using assms(1) keys_map_not_nil [of Map.empty "wcs_Keys w"]
    by (auto simp: KeysMap_def HasKeys_def split: if_splits option.splits)
  from keys_map_filter [OF this assms(2), of Map.empty] obtain b
    where b: "keys_map Map.empty ?keep = Inr (Some b)" and same: "\<And>k. k \<noteq> key \<Longrightarrow> b k = ?f k" by blast
  have eq: "b(key \<mapsto> ?v) = ?f(key \<mapsto> ?v)" by (rule ext) (simp add: same)
  let ?new = "if override \<noteq> [] then key @ '':'' @ ToUpper override else key"
  have "keys_map b [?new] = Inr (Some (b(key \<mapsto> ?v)))"
  proof (cases "override = []")
    case True
    with assms(2) show ?thesis by simp
  next
    case False
    have "Split (key @ CHR '':'' # ToUpper override) CHR '':'' = [key, ToUpper override]"
      using assms(3) by (simp add: Split_append_sep [OF assms(2)] Split_no_sep)
    with False show ?thesis by simp
  qed
  with b have "keys_map Map.empty (?keep @ [?new]) = Inr (Some (b(key \<mapsto> ?v)))"
    by (simp only: keys_map_append sum.case option.case)
  then show ?thesis by (simp add: KeysMap_def HasKeys_def AddKey_def Let_def eq)
qed

theorem AddKey_KeysMap_witness:
  "KeysMap (AddKey \<lparr>wcs_Name = ''db'', wcs_Keys = [''host:HOST'', ''port'']\<rparr> ''host'' ''dbhost'') =
     Inr (Some ([''host'' \<mapsto> ''HOST'', ''port'' \<mapsto> ''port''](''host'' \<mapsto> ''DBHOST'')))"
proof -
  have up: "ToUpper ''dbhost'' = ''DBHOST''" by code_simp
  show ?thesis
    using AddKey_KeysMap [of "\<lparr>wcs_Name = ''db'', wcs_Keys = [''host:HOST'', ''port'']\<rparr>"
      "Some [''host'' \<mapsto> ''HOST'', ''port'' \<mapsto> ''port'']" "''host''" "''dbhost''"]
    unfolding up by (simp add: KeysMap_def HasKeys_def)
qed

section \<open>The retry annotation\<close>

lemma ParseInt64_range:
  "ParseInt64 (string_of_int i) = (if - (2 ^ 63) \<le> i \<and> i < 2 ^ 63 then Some i else None)"
proof (cases "i < 0")
  case True
  then show ?thesis
    by (auto simp: string_of_int_def ParseInt64_def parse_unsigned_string_of_nat)
next
  case False
  obtain d where d: "d < 10" "hd (string_of_nat (nat i)) = digit_char d"
    using hd_string_of_nat by blast
  then obtain rest where s: "string_of_nat (nat i) = digit_char d # rest"
    by (metis list.exhaust_sel string_of_nat_nonempty)
  have "parse_unsigned (digit_char d # rest) = Some (nat i)"
    using parse_unsigned_string_of_nat [of "nat i"] by (simp only: s)
  then show ?thesis using False d digit_char_not_sign [of d] s
    by (simp add: string_of_int_def ParseInt64_def) linarith
qed

text \<open>
  A retry annotation that is the decimal of an integer is valid exactly when the integer
  is a signed 64-bit one, and it asks for a retry exactly when in addition the resource was
  reconciled before, at a time before that Unix timestamp.
\<close>

theorem retry_annotation:
  assumes "gomap_find (om_Annotations (cfg_Meta c)) RetryAnnotation = Some (string_of_int i)"
  shows "(IsRetryableValid c \<longleftrightarrow> - (2 ^ 63) \<le> i \<and> i < 2 ^ 63) \<and>
    (IsRetryable c \<longleftrightarrow> - (2 ^ 63) \<le> i \<and> i < 2 ^ 63 \<and>
      (\<exists>lst. st_LastReconcile (cst_Common (cfg_Status c)) = Some lst \<and> lr_Time lst \<noteq> 0 \<and>
             lr_Time lst < Unix i))"
  using assms ParseInt64_range [of i]
  by (auto simp: IsRetryableValid_def IsRetryable_def Configuration_annotation_def gomap_get_def
      split: option.splits)

theorem retry_annotation_witness:
  defines "c \<equiv> (NewConfiguration ''apps'' ''bucket'')
    \<lparr>cfg_Meta := (named_meta ''apps'' ''bucket'')
       \<lparr>om_Annotations := Some [RetryAnnotation \<mapsto> string_of_int 1700000000]\<rparr>\<rparr>"
  shows "IsRetryableValid c \<and> \<not> IsRetryable c"
  using retry_annotation [of c 1700000000]
  by (simp add: c_def NewConfiguration_def empty_configuration_status_def empty_common_status_def)

section \<open>Terraform plans\<close>

text \<open>
  A plan needs applying exactly when terraform says so, or, when the plan does not tell,
  when some resource or output change has an action other than \<open>no-op\<close>.
\<close>

theorem NeedsApply_iff:
  "NeedsApply p \<longleftrightarrow>
     (case pl_Applyable p of
        Some b \<Rightarrow> b
      | None \<Rightarrow>
          (\<exists>ch \<in> set (pl_ResourceChanges p). \<exists>a \<in> set (ch_Actions (rc_Change ch)). a \<noteq> TFActionNoOp) \<or>
          (\<exists>ch \<in> set (pl_OutputChanges p). \<exists>a \<in> set (oc_Actions (snd ch)). a \<noteq> TFActionNoOp))"
  by (simp add: NeedsApply_def any_resource_change_iff any_output_change_iff any_action_iff
      split: option.split)

section \<open>Revisions of a plan\<close>

lemma find_revision_filter:
  "find_revision (filter (\<lambda>x. plv_Revision x \<noteq> v) rs) u = (if u = v then None else find_revision rs u)"
  by (induction rs) auto

text \<open>
  Removing a version from a plan leaves no revision of that version and every other
  lookup as it was, and a version is listed exactly when its lookup finds a revision.
\<close>

theorem RemoveRevision_lookup:
  "GetRevision (RemoveRevision p v) u = (if u = v then None else GetRevision p u) \<and>
   (HasRevision p u \<longleftrightarrow> GetRevision p u \<noteq> None) \<and>
   (u \<in> set (ListRevisions p) \<longleftrightarrow> GetRevision p u \<noteq> None)"
  by (simp_all add: GetRevision_def RemoveRevision_def find_revision_filter HasRevision_def
      has_revision_iff find_revision_None ListRevisions_def)

section \<open>Labels\<close>

text \<open>
  Merging label maps gives every key the value of the last map of the list that has it.
\<close>

theorem MergeStringMaps_rightmost:
  assumes "k \<noteq> []"
  shows "gomap_find (MergeStringMaps list) k =
    (case List.find (\<lambda>x. gomap_find x k \<noteq> None) (rev list) of
       None \<Rightarrow> None | Some x \<Rightarrow> gomap_find x k)"
proof -
  have "merge_all m xs k = (case List.find (\<lambda>x. gomap_find x k \<noteq> None) (rev xs) of
      None \<Rightarrow> m k | Some x \<Rightarrow> gomap_find x k)" for m xs
    using assms by (induction xs rule: rev_induct) (auto simp: merge_into_def split: option.splits)
  then show ?thesis by (simp add: MergeStringMaps_def)
qed

theorem MergeStringMaps_rightmost_witness:
  "gomap_find (MergeStringMaps [Some [''team'' \<mapsto> ''a''], None, Some [''team'' \<mapsto> ''b''], Some Map.empty])
     ''team'' = Some ''b''"
  using MergeStringMaps_rightmost [of "''team''"
      "[Some [''team'' \<mapsto> ''a''], None, Some [''team'' \<mapsto> ''b''], Some Map.empty]"] by simp

text \<open>
  A selector admits a resource exactly when each of its parts, the namespace selector and
  the resource selector, is absent or matches; in particular a selector whose only part is an
  empty label selector admits nothing.
\<close>

theorem IsSelectorMatch_iff:
  "IsSelectorMatch lib selector resourceLabels namespaceLabels = Inr True \<longleftrightarrow>
     (case sel_Namespace selector of None \<Rightarrow> True
        | Some n \<Rightarrow> IsLabelSelectorMatch lib namespaceLabels n = Inr True) \<and>
     (case sel_Resource selector of None \<Rightarrow> True
        | Some r \<Rightarrow> IsLabelSelectorMatch lib resourceLabels r = Inr True)"
  by (auto simp: IsSelectorMatch_def Let_def split: option.splits sum.splits if_splits)

section \<open>Jobs\<close>

text \<open>The latest job is the first of those with the greatest creation time.\<close>

abbreviation created :: "Job \<Rightarrow> time" where
  "created x \<equiv> om_CreationTimestamp (job_Meta x)"

lemma latest_job_first:
  "latest_job l js = hd (filter (\<lambda>x. \<forall>y \<in> insert l (set js). created y \<le> created x) (l # js))"
proof (induction js arbitrary: l)
  case (Cons j js)
  let ?max = "\<lambda>A x. \<forall>y \<in> A. created y \<le> created x"
  let ?A = "insert l (insert j (set js))"
  show ?case
  proof (cases "created j > created l")
    case True
    then have "?max ?A x \<longleftrightarrow> ?max (insert j (set js)) x" for x
      by (auto intro: order_trans [OF less_imp_le])
    then have "filter (?max ?A) (j # js) = filter (?max (insert j (set js))) (j # js)"
      by (intro filter_cong refl)
    moreover have "\<not> ?max ?A l" using True by auto
    ultimately show ?thesis using True Cons.IH [of j] by (simp only: latest_job.simps filter.simps list.set if_False if_True)
  next
    case False
    then have eq: "?max ?A x \<longleftrightarrow> ?max (insert l (set js)) x" for x by auto
    then have "filter (?max ?A) (l # js) = filter (?max (insert l (set js))) (l # js)"
      by (intro filter_cong refl)
    moreover have "hd (filter (?max ?A) (l # j # js)) = hd (filter (?max ?A) (l # js))"
    proof (cases "?max ?A l")
      case nl: False
      then obtain y where "y \<in> ?A" "created l < created y" by (auto simp: not_le)
      then have "\<not> ?max ?A j" using False by force
      with nl show ?thesis by (simp only: filter.simps if_False)
    qed simp
    ultimately show ?thesis using False Cons.IH [of l] by (simp only: latest_job.simps list.set if_False)
  qed
qed simp

text \<open>
  The latest job of a filter is the first, in list order, of the kept jobs that no other
  kept job is newer than; there is none exactly when the filter keeps no job.
\<close>

theorem Latest_reference:
  "Latest j =
     (let kept = filter (filter_keeps j) (jf_list j) in
      if kept = [] then None
      else Some (hd (filter (\<lambda>x. list_all (\<lambda>y.
        om_CreationTimestamp (job_Meta y) \<le> om_CreationTimestamp (job_Meta x)) kept) kept)))"
proof (cases "filter (filter_keeps j) (jf_list j)")
  case (Cons first rest)
  have "latest_job first (first # rest) = latest_job first rest" by simp
  with Cons latest_job_first [of first rest] show ?thesis
    by (simp add: Latest_def Filter_List_def Let_def list_all_iff)
qed (simp add: Latest_def Filter_List_def Let_def)

section \<open>The security policy of a configuration\<close>

text \<open>The items of greatest weight decide between one policy and a tie.\<close>

lemma Highest_unique:
  assumes "Highest w = [p]" and "distinct (map wi_object w)"
  shows "\<exists>i \<in> set w. wi_object i = p \<and> (\<forall>j \<in> set w. j \<noteq> i \<longrightarrow> wi_weight j < wi_weight i)"
proof -
  obtain i where i: "filter (\<lambda>i. wi_weight i = Weights_Max w) w = [i]" "wi_object i = p"
    using assms(1) by (auto simp: Highest_def)
  then have "i \<in> set (filter (\<lambda>i. wi_weight i = Weights_Max w) w)" by simp
  then have "i \<in> set w" "wi_weight i = Weights_Max w" by simp_all
  moreover have "wi_weight j < wi_weight i" if "j \<in> set w" "j \<noteq> i" for j
  proof -
    have "j \<notin> set (filter (\<lambda>i. wi_weight i = Weights_Max w) w)" using i(1) that(2) by simp
    then have "wi_weight j \<noteq> Weights_Max w" using that(1) by simp
    moreover have "wi_weight j \<le> Weights_Max w"
      using max_weight_upper [OF that(1)] by (simp add: Weights_Max_def)
    ultimately show ?thesis using \<open>wi_weight i = Weights_Max w\<close> by simp
  qed
  ultimately show ?thesis using i(2) by blast
qed

text \<open>
  C7. When every selector compiles and the policies have distinct identities, the lookup of a
  configuration's security policy returns: nothing exactly when no policy matches; the
  constraint of a policy exactly when that policy is heavier than every other matching one;
  and an error in the remaining case of a tie for the greatest weight.
\<close>

theorem FindMatchingPolicy_spec:
  assumes "\<forall>p \<in> set ps. \<forall>e. policy_weight lib (om_Labels (cfg_Meta configuration))
             (om_Labels (ns_Meta namespace)) p \<noteq> Inl e"
    and "distinct_policies ps"
  defines "found \<equiv> FindMatchingPolicy lib configuration namespace ps"
    and "matches \<equiv> matching lib (om_Labels (cfg_Meta configuration)) (om_Labels (ns_Meta namespace)) ps"
  shows "(found = Inr None \<longleftrightarrow> matches = []) \<and>
    (found = Inr (Some checkov) \<longleftrightarrow>
      (\<exists>i \<in> set matches. checkov_of (wi_object i) = Some checkov \<and>
         (\<forall>j \<in> set matches. j \<noteq> i \<longrightarrow> wi_weight j < wi_weight i))) \<and>
    ((\<exists>e. found = Inl e) \<longleftrightarrow>
      matches \<noteq> [] \<and>
      \<not> (\<exists>i \<in> set matches. \<forall>j \<in> set matches. j \<noteq> i \<longrightarrow> wi_weight j < wi_weight i))"
proof -
  have w: "weigh_policies lib (om_Labels (cfg_Meta configuration)) (om_Labels (ns_Meta namespace))
      Weights_New ps = Inr matches"
    using weigh_policies_matching [OF assms(1,2), of "[]"] by (simp add: Weights_New_def matches_def)
  have dist: "distinct (map wi_object matches)"
    using assms(2) by (simp add: matches_def distinct_policies_def matching_distinct)
  have nonneg: "\<forall>i \<in> set matches. 0 \<le> wi_weight i"
    by (auto simp: matches_def matching_set intro: policy_weight_nonneg)
  have has: "checkov_of (wi_object i) \<noteq> None" if "i \<in> set matches" for i
    using that policy_weight_checkov by (auto simp: matches_def matching_set)
  let ?best = "\<lambda>i. i \<in> set matches \<and> (\<forall>j \<in> set matches. j \<noteq> i \<longrightarrow> wi_weight j < wi_weight i)"
  have empty: "ps = [] \<Longrightarrow> matches = []" by (simp add: matches_def)
  have single: "Highest matches = [wi_object i]" if "?best i" for i
    using that nonneg by (intro Highest_single [OF dist]) auto
  have best: "found = Inr (checkov_of (wi_object i))" if "?best i" for i
    using that single [OF that] empty by (auto simp: found_def FindMatchingPolicy_def w Weights_Size_def)
  have none: "found = Inr None" if "matches = []"
    using that by (simp add: found_def FindMatchingPolicy_def w Weights_Size_def)
  have tie: "\<exists>e. found = Inl e" if ne: "matches \<noteq> []" and nb: "\<not> (\<exists>i. ?best i)"
  proof -
    obtain p q rest where "Highest matches = p # q # rest"
      using Highest_nonempty [OF ne nonneg] Highest_unique [OF _ dist] nb
      by (metis list.exhaust)
    with ne empty show ?thesis by (auto simp: found_def FindMatchingPolicy_def w Weights_Size_def)
  qed
  have unique: "i = j" if "?best i" "?best j" for i j
    using that less_asym by blast
  consider "matches = []" | i where "?best i" | "matches \<noteq> []" "\<not> (\<exists>i. ?best i)" by blast
  then show ?thesis
  proof cases
    case 1
    then show ?thesis using none by simp
  next
    case (2 i)
    then have "found = Inr (checkov_of (wi_object i))" "checkov_of (wi_object i) \<noteq> None" "matches \<noteq> []"
      using best has by auto
    then show ?thesis using 2 unique by auto
  next
    case 3
    then show ?thesis using tie by auto
  qed
qed

definition sample_policy :: "string \<Rightarrow> Selector option \<Rightarrow> Policy" where
  "sample_policy name selector =
     \<lparr>pol_Type = \<lparr>tm_Kind = ''Policy'', tm_APIVersion = SchemeGroupVersion\<rparr>,
      pol_Meta = named_meta [] name,
      pol_Spec = \<lparr>ps_Summary = [],
        ps_Constraints = Some \<lparr>cn_Modules = None,
          cn_Checkov = Some \<lparr>pc_Checks = [], pc_External = [], pc_Selector = selector,
            pc_SkipChecks = [], pc_Source = None\<rparr>\<rparr>,
        ps_Defaults = []\<rparr>,
      pol_Status = empty_common_status\<rparr>"

definition sample_libs :: Libs where
  "sample_libs =
     \<lparr>lib_JSONObject = (\<lambda>_. Inr Map.empty),
      lib_JSONEncode = (\<lambda>_. Inr ''{}''),
      lib_JSONPlan = (\<lambda>b. Inr \<lparr>pl_Timestamp = ''2024-01-01T00:00:00Z'',
        pl_ResourceChanges = [\<lparr>rc_Change = \<lparr>ch_Actions = [if b = ''noop'' then ''no-op'' else ''create'']\<rparr>\<rparr>],
        pl_OutputChanges = [], pl_Applyable = None\<rparr>),
      lib_JSONState = (\<lambda>_. Inr \<lparr>tf_Outputs = [], tf_Resources = [], tf_TerraformVersion = ''1.5.7''\<rparr>),
      lib_Regexp = (\<lambda>r. Inr (\<lambda>s. s = r)),
      lib_Selector = (\<lambda>_. Inr \<lparr>mt_Empty = True, mt_Matches = (\<lambda>_. True)\<rparr>),
      lib_Gunzip = Inr,
      lib_GJSON = (\<lambda>_ _. empty_gresult),
      lib_ParseFloat = (\<lambda>_. None),
      lib_FormatFloat = (\<lambda>_. ''0''),
      lib_Base32SHA256 = (\<lambda>_. ''HASH''),
      lib_PrettyJSON = (\<lambda>b. b)\<rparr>"

theorem FindMatchingPolicy_spec_witness:
  defines "sel \<equiv> \<lparr>sel_Namespace = None, sel_Resource = Some \<lparr>ls_MatchLabels = None, ls_MatchExpressions = []\<rparr>\<rparr>"
  shows "FindMatchingPolicy sample_libs (NewConfiguration ''apps'' ''bucket'')
      \<lparr>ns_Meta = named_meta [] ''apps''\<rparr> [sample_policy ''all'' None, sample_policy ''labelled'' (Some sel)] =
    Inr (checkov_of (sample_policy ''labelled'' (Some sel)))"
proof -
  let ?ps = "[sample_policy ''all'' None, sample_policy ''labelled'' (Some sel)]"
  let ?w = "policy_weight sample_libs (om_Labels (cfg_Meta (NewConfiguration ''apps'' ''bucket'')))
              (om_Labels (ns_Meta \<lparr>ns_Meta = named_meta [] ''apps''\<rparr>))"
  have w: "?w (sample_policy ''all'' None) = Inr (Some 0)"
    "?w (sample_policy ''labelled'' (Some sel)) = Inr (Some 20)"
    by (simp_all add: policy_weight_def checkov_of_def sample_policy_def sample_libs_def sel_def)
  have ok: "\<forall>p \<in> set ?ps. \<forall>e. ?w p \<noteq> Inl e" using w by simp
  have d: "distinct_policies ?ps"
    by (simp add: distinct_policies_def pairwise_insert equalObjects_def sample_policy_def named_meta_def)
  obtain k where k: "checkov_of (sample_policy ''labelled'' (Some sel)) = Some k"
    by (simp add: checkov_of_def sample_policy_def)
  show ?thesis
    using FindMatchingPolicy_spec [OF ok d, of k] w k by (simp)
qed

end
