(* ===== verification/Scenario.thy ===== *)
theory Scenario
  imports Config_Release Api_Properties
begin

text \<open>
  A concrete cluster to evaluate the model on: the world is the list of objects it stores, the
  client answers from that list and a controller with default settings talks to it. The
  theorems of the development are instantiated here on runs that exercise them.
\<close>

section \<open>Templates\<close>

definition sample_job :: "JobParams \<Rightarrow> Job" where
  "sample_job p =
     \<lparr>job_Meta = empty_meta\<lparr>om_GenerateName := jp_GenerateName p, om_Namespace := jp_Namespace p,
        om_Labels := jp_Labels p\<rparr>,
      job_Spec = \<lparr>js_BackoffLimit = Some (case jp_BackoffLimit p of None \<Rightarrow> 1 | Some n \<Rightarrow> n),
        js_Completions = Some 1, js_Parallelism = Some 1, js_TTLSecondsAfterFinished = Some 28800,
        js_Template = \<lparr>pt_Labels = jp_Labels p, pt_RestartPolicy = ''Never'', pt_RunAsGroup = None,
          pt_RunAsNonRoot = None, pt_RunAsUser = None, pt_Containers = []\<rparr>\<rparr>,
      job_Active = 0, job_Conditions = []\<rparr>"

definition sample_renderers :: Renderers where
  "sample_renderers =
     \<lparr>rn_Job = (\<lambda>_ p. Inr (sample_job p)),
      rn_Backend = (\<lambda>t _. Inr t),
      rn_Provider = (\<lambda>_ n. Inr n),
      rn_Checkov = (\<lambda>_. Inr ''checkov''),
      rn_JobAsset = ''job.yaml.tpl'',
      rn_BackendTemplate = ''backend.tf''\<rparr>"

lemma sample_renders_labels [simp]: "renders_labels sample_renderers"
  by (auto simp: renders_labels_def sample_renderers_def sample_job_def)

section \<open>The cluster\<close>

fun find_object :: "kind \<Rightarrow> string \<Rightarrow> string \<Rightarrow> object list \<Rightarrow> object option" where
  "find_object k ns n [] = None"
| "find_object k ns n (x # xs) =
     (if kind_of x = k \<and> om_Namespace (meta_of x) = ns \<and> om_Name (meta_of x) = n then Some x
      else find_object k ns n xs)"

definition not_found :: gerror where
  "not_found = ErrApi NotFound ''not found''"

fun remove_object :: "object \<Rightarrow> object list \<Rightarrow> object list" where
  "remove_object y xs = filter (\<lambda>x. \<not> (kind_of x = kind_of y \<and>
     om_Namespace (meta_of x) = om_Namespace (meta_of y) \<and> om_Name (meta_of x) = om_Name (meta_of y))) xs"

definition sample_client :: "object list client" where
  "sample_client =
     \<lparr>cc_Get = (\<lambda>k ns n w. (case find_object k ns n w of None \<Rightarrow> Inl not_found | Some x \<Rightarrow> Inr x, w)),
      cc_List = (\<lambda>k opts w. (Inr (filter (\<lambda>x. kind_of x = k) w), w)),
      cc_Write = (\<lambda>v x w. case v of
          Delete \<Rightarrow> (case find_object (kind_of x) (om_Namespace (meta_of x)) (om_Name (meta_of x)) w of
              None \<Rightarrow> (Inl not_found, w) | Some _ \<Rightarrow> (Inr x, remove_object x w))
        | _ \<Rightarrow> (Inr x, remove_object x w @ [x])),
      cc_Now = (\<lambda>_. 0),
      kc_Pods = (\<lambda>_ _ w. (Inr [], w)),
      kc_Logs = (\<lambda>_ _ _ w. (Inr [], w)),
      cache_Get = (\<lambda>_ w. (None, w)),
      cache_SetDefault = (\<lambda>_ _ w. w)\<rparr>"

definition sample_controller :: "object list Controller" where
  "sample_controller =
     \<lparr>ctl_cc = sample_client, ctl_lib = sample_libs, ctl_rn = sample_renderers,
      ctl_MonthlyFirst = True, ctl_ConfigurationThreshold = 0,
      ctl_ControllerNamespace = ''terraform-system'', ctl_BackendTemplate = [],
      ctl_BackoffLimit = 3, ctl_BinaryPath = '''', ctl_EnableContextInjection = False,
      ctl_EnableInfracosts = False, ctl_EnableWatchers = False, ctl_ExecutorImage = ''executor'',
      ctl_ExecutorSecrets = [], ctl_DefaultExecutorMemoryRequest = [],
      ctl_DefaultExecutorMemoryLimit = [], ctl_DefaultExecutorCPURequest = [],
      ctl_DefaultExecutorCPULimit = [], ctl_InfracostsImage = [], ctl_InfracostsSecretName = [],
      ctl_ControllerJobLabels = None, ctl_JobTemplate = [], ctl_PolicyImage = [],
      ctl_TerraformImage = ''terraform:1.5.7''\<rparr>"

definition sample_condition :: "ConditionType \<Rightarrow> int \<Rightarrow> ConditionStatus \<Rightarrow> Condition" where
  "sample_condition t g st =
     \<lparr>cd_Type = t, cd_Status = st, cd_ObservedGeneration = g, cd_LastTransitionTime = 0,
      cd_Reason = (if st = ConditionTrue then ReasonReady else ReasonNotDetermined),
      cd_Message = [], cd_Name = t, cd_Detail = []\<rparr>"

text \<open>
  A configuration of generation 1 with its finalizer, whose conditions are all false, or with
  the plan already complete.
\<close>

definition sample_configuration :: "string gomap \<Rightarrow> ConditionStatus \<Rightarrow> Configuration" where
  "sample_configuration annotations plan =
     (NewConfiguration ''apps'' ''bucket'')
       \<lparr>cfg_Meta := (named_meta ''apps'' ''bucket'')
          \<lparr>om_UID := ''1234'', om_Generation := 1, om_Annotations := annotations,
           om_Finalizers := [controllerName]\<rparr>,
        cfg_Spec := empty_configuration_spec
          \<lparr>cs_Module := ''git::module'',
           cs_ProviderRef := Some \<lparr>pr_Name = ''aws'', pr_Namespace = []\<rparr>\<rparr>,
        cfg_Status := empty_configuration_status
          \<lparr>cst_Common := empty_common_status
             \<lparr>st_Conditions :=
                [sample_condition ConditionReady 1 ConditionFalse,
                 sample_condition ConditionProviderReady 1 ConditionFalse,
                 sample_condition ConditionTerraformPlan 1 plan,
                 sample_condition ConditionTerraformPolicy 1 ConditionFalse,
                 sample_condition ConditionTerraformApply 1 ConditionFalse]\<rparr>\<rparr>\<rparr>"

definition sample_provider :: Provider where
  "sample_provider =
     \<lparr>prv_Type = \<lparr>tm_Kind = ''Provider'', tm_APIVersion = SchemeGroupVersion\<rparr>,
      prv_Meta = named_meta [] ''aws'',
      prv_Spec = \<lparr>prs_Configuration = None, prs_BackendTemplate = None, prs_Job = None,
        prs_Preload = None, prs_Provider = AWSProviderType, prs_SecretRef = None,
        prs_Selector = None, prs_ServiceAccount = None, prs_Source = SourceSecret,
        prs_Summary = []\<rparr>,
      prv_Status = \<lparr>prst_Common = empty_common_status
        \<lparr>st_Conditions := [sample_condition ConditionReady 1 ConditionTrue]\<rparr>,
        prst_LastPreloadTime = None\<rparr>\<rparr>"

definition sample_env :: "object list \<Rightarrow> 'o \<Rightarrow> 't \<Rightarrow> (object list, 'o, 't) env" where
  "sample_env w configuration st =
     \<lparr>world = w, effects = [], absent = [], resource = configuration, rstate = st\<rparr>"

definition sample_world :: "object list" where
  "sample_world = [OConfiguration (sample_configuration None ConditionTrue), OProvider sample_provider]"

lemma sample_controller_fields [simp]:
  "ctl_cc sample_controller = sample_client" "ctl_lib sample_controller = sample_libs"
  "ctl_rn sample_controller = sample_renderers"
  "ctl_ControllerNamespace sample_controller = ''terraform-system''"
  by (simp_all add: sample_controller_def)

lemma sample_env_fields [simp]:
  "world (sample_env w x st) = w" "effects (sample_env w x st) = []" "absent (sample_env w x st) = []"
  "resource (sample_env w x st) = x" "rstate (sample_env w x st) = st"
  by (simp_all add: sample_env_def)

end
