(* ===== verification/Framework_Properties.thy ===== *)
theory Framework_Properties
  imports Scenario
begin

text \<open>
  Properties of the controller framework: what the loop over ensure functions computes, the
  status patch that ends every run, the ready condition of a finished run, the registration of
  conditions, writes through a condition manager and deletion candidates.
\<close>

section \<open>The runner\<close>

text \<open>
  C3. The loop over the ensure functions is the transition system in which a function that
  neither fails nor asks for a requeue hands over to the next one: it finishes exactly when
  that system reaches the end of the list, and it stops exactly at the first function that
  does not hand over, with that function's result, where a conflict becomes an immediate
  requeue and an ignored error becomes success.
\<close>

theorem run_loop_refines:
  "(run_state (run_loop xs) s = (None, s') \<longleftrightarrow> arrives xs s [] s') \<and>
   (run_state (run_loop xs) s = (Some r, s') \<longleftrightarrow>
      (\<exists>y ys t r0. arrives xs s (y # ys) t \<and> run_state y t = (r0, s') \<and> \<not> continues r0 \<and>
         r = (case r0 of
                Ok result \<Rightarrow> Ok result
              | Err e \<Rightarrow> if IsConflict e then Ok RequeueImmediate
                         else if e = ErrIgnore then Ok Result0 else Err e
              | Panic \<Rightarrow> Panic)))"
proof -
  have result: "loop_result r0 = (case r0 of Ok result \<Rightarrow> Ok result
      | Err e \<Rightarrow> if IsConflict e then Ok RequeueImmediate
                 else if e = ErrIgnore then Ok Result0 else Err e
      | Panic \<Rightarrow> Panic)" for r0
    by (cases r0) (simp_all add: stop_error_def)
  have stop: "run_state (run_loop xs) s = (Some (loop_result r0), s')"
    if "arrives xs s (y # ys) t" "run_state y t = (r0, s')" "\<not> continues r0" for y ys t r0
    using arrives_run_loop [OF that(1)] that(2,3) by (cases r0) auto
  show ?thesis
    using run_loop_finished [of xs s s'] run_loop_stopped [of xs s r s'] stop
    by (auto simp: result [symmetric])
qed

lemma wp_write_back_outcome:
  assumes "\<And>r e x w. e = None \<or> r = e \<Longrightarrow>
      Q r (s\<lparr>world := w, effects := effects s @ [Wrote v (ob_Embed ob (resource s)) e], resource := x\<rparr>)"
  shows "wp (write_back cc ob v) Q s"
proof -
  have same: "Q r (s\<lparr>world := w, effects := effects s @ [Wrote v (ob_Embed ob (resource s)) e]\<rparr>)"
    if "e = None \<or> r = e" for r e w
    using assms [OF that, where x = "resource s" and w = w] by simp
  show ?thesis
    unfolding write_back_def wp_bind wp_gets
    by (rule wp_perform_any) (auto simp: error_of_def split: sum.splits option.splits intro!: same assms)
qed

lemma update_status_last:
  "wp (update_status cc Configuration_Object original outcome)
     (\<lambda>r s'. \<exists>y e. effects s' = effects s @ [Wrote (StatusPatch (OConfiguration original)) (OConfiguration y) e] \<and>
        cfg_Meta y = cfg_Meta (resource s) \<and>
        (\<forall>t. GetCondition (cst_Common (cfg_Status y)) t =
             GetCondition (cst_Common (cfg_Status (resource s))) t) \<and>
        (e = None \<or> (\<exists>err. e = Some err \<and> (IsNotFound err \<or> r = Err err \<or> r = Panic)))) s"
  unfolding update_status_def wp_bind wp_gets wp_modify_resource
  by (rule wp_write_back_outcome) (auto simp: Configuration_Object_def split: option.splits)

text \<open>
  Every run, whatever its functions do, ends with one patch of the status of the resource,
  taken against the resource as it was when the run began; if the patch fails with an error
  other than not-found, the run returns that error (unless it panicked).
\<close>

theorem Run_patches_status:
  "wp (Run cc Configuration_Object xs)
     (\<lambda>r s'. \<exists>es y e. effects s' = es @ [Wrote (StatusPatch (OConfiguration (resource s))) (OConfiguration y) e] \<and>
        (e = None \<or> (\<exists>err. e = Some err \<and> (IsNotFound err \<or> r = Err err \<or> r = Panic)))) s"
proof -
  have u: "wp (update_status cc Configuration_Object original outcome)
     (\<lambda>r s'. \<exists>es y e. effects s' = es @ [Wrote (StatusPatch (OConfiguration original)) (OConfiguration y) e] \<and>
        (e = None \<or> (\<exists>err. e = Some err \<and> (IsNotFound err \<or> r = Err err \<or> r = Panic)))) t"
    for original outcome t
    using update_status_last by (rule wp_mono) blast
  have any: "wp m (\<lambda>_. wp (update_status cc Configuration_Object (resource s) outcome)
     (\<lambda>r s'. \<exists>es y e. effects s' = es @ [Wrote (StatusPatch (OConfiguration (resource s))) (OConfiguration y) e] \<and>
        (e = None \<or> (\<exists>err. e = Some err \<and> (IsNotFound err \<or> r = Err err \<or> r = Panic))))) t"
    for m outcome t
    by (rule wpI) (rule u)
  show ?thesis
    by (rule wp_RunI, rule wpI) (auto split: option.splits intro: u any)
qed

text \<open>
  C9. A run whose functions all hand over marks the resource ready: the status it patches has
  the ready condition true for the generation of the resource.
\<close>

theorem Run_marks_ready:
  assumes "arrives xs s [] t"
    and "HasCondition (cst_Common (cfg_Status (resource t))) ConditionReady"
  shows "wp (Run cc Configuration_Object xs)
    (\<lambda>r s'. \<exists>y e. last (effects s') = Wrote (StatusPatch (OConfiguration (resource s))) (OConfiguration y) e \<and>
       Common_IsComplete (cst_Common (cfg_Status y)) ConditionReady (om_Generation (cfg_Meta y))) s"
proof -
  have loop: "run_state (run_loop xs) s = (None, t)" using assms(1) run_loop_finished by blast
  let ?c = "ConditionMgr Configuration_Object (resource t) ConditionReady False"
  have att: "cfg.attached ?c ConditionReady (resource t)"
    using assms(2) by (intro cfg.attached_ConditionMgr) simp
  have ready: "wp (mark_ready cc Configuration_Object (resource s))
      (\<lambda>_ u. Common_IsComplete (cst_Common (cfg_Status (resource u))) ConditionReady
         (om_Generation (cfg_Meta (resource u)))) t"
    unfolding mark_ready_def wp_bind wp_gets cond_Success_def
    using cfg.set_through_condition [OF att]
    by (rule wp_mono) (auto simp: Common_IsComplete_def Configuration_Object_def)
  have patch: "wp (update_status cc Configuration_Object (resource s) (Ok Result0))
      (\<lambda>r s'. \<exists>y e. last (effects s') = Wrote (StatusPatch (OConfiguration (resource s))) (OConfiguration y) e \<and>
         Common_IsComplete (cst_Common (cfg_Status y)) ConditionReady (om_Generation (cfg_Meta y))) u"
    if "Common_IsComplete (cst_Common (cfg_Status (resource u))) ConditionReady
         (om_Generation (cfg_Meta (resource u)))" for u
  proof (rule wp_mono [OF update_status_last], elim exE conjE)
    fix r s' y e
    assume "effects s' = effects u @ [Wrote (StatusPatch (OConfiguration (resource s))) (OConfiguration y) e]"
      and "cfg_Meta y = cfg_Meta (resource u)"
      and "\<forall>t. GetCondition (cst_Common (cfg_Status y)) t = GetCondition (cst_Common (cfg_Status (resource u))) t"
    then show "\<exists>y e. last (effects s') = Wrote (StatusPatch (OConfiguration (resource s))) (OConfiguration y) e \<and>
        Common_IsComplete (cst_Common (cfg_Status y)) ConditionReady (om_Generation (cfg_Meta y))"
      using that by (intro exI [of _ y] exI [of _ e]) (simp add: Common_IsComplete_def)
  qed
  show ?thesis
    by (rule wp_RunI) (use loop wp_mono [OF ready patch] in \<open>simp add: wp_run\<close>)
qed

theorem Run_marks_ready_witness:
  defines "x \<equiv> sample_configuration None ConditionFalse"
  shows "wp (Run sample_client Configuration_Object [ensureReconcileAnnotation sample_controller x])
    (\<lambda>r s'. \<exists>y e. last (effects s') = Wrote (StatusPatch (OConfiguration x)) (OConfiguration y) e \<and>
       Common_IsComplete (cst_Common (cfg_Status y)) ConditionReady (om_Generation (cfg_Meta y)))
    (sample_env [] x (new_state sample_controller))"
proof -
  let ?s = "sample_env [] x (new_state sample_controller)"
  have "run_state (ensureReconcileAnnotation sample_controller x) ?s = (Ok Result0, ?s)"
    by (simp add: ensureReconcileAnnotation_def Configuration_annotation_def x_def sample_configuration_def)
  then have "arrives [ensureReconcileAnnotation sample_controller x] ?s [] ?s"
    by (rule arrives_step [OF arrives_start]) (simp add: stops_def Result0_def)
  from Run_marks_ready [OF this, of sample_client] show ?thesis
    by (simp add: x_def HasCondition_iff sample_configuration_def sample_condition_def)
qed

section \<open>Conditions\<close>

text \<open>
  Registering the default conditions gives a configuration every one of them, keeps each
  condition it already had, keeps the types distinct if they were, and registering twice is
  registering once.
\<close>

theorem registration:
  fixes now now' :: time and x :: Configuration
  assumes "distinct_types (st_Conditions (cst_Common (cfg_Status x)))"
    and "GetCondition (cst_Common (cfg_Status x)) t = Some c"
  defines "y \<equiv> EnsureConditionsRegistered Configuration_Object now DefaultConfigurationConditions x"
  shows "(\<forall>u \<in> {ConditionReady, ConditionProviderReady, ConditionTerraformPlan,
            ConditionTerraformPolicy, ConditionTerraformApply}. HasCondition (cst_Common (cfg_Status y)) u) \<and>
    GetCondition (cst_Common (cfg_Status y)) t = Some c \<and>
    distinct_types (st_Conditions (cst_Common (cfg_Status y))) \<and>
    EnsureConditionsRegistered Configuration_Object now' DefaultConfigurationConditions y = y"
  using registered_conditions [of now x] assms
    cfg.registered(2) [of x t c now DefaultConfigurationConditions]
    cfg.registered(3) [of x now DefaultConfigurationConditions]
    cfg.registered(4) [of now' DefaultConfigurationConditions now x]
  by (simp add: has_conditions_def all_conditions_def)

theorem registration_witness:
  defines "x \<equiv> (NewConfiguration ''apps'' ''bucket'')
    \<lparr>cfg_Status := empty_configuration_status
       \<lparr>cst_Common := empty_common_status
          \<lparr>st_Conditions := [sample_condition ConditionTerraformApply 4 ConditionTrue]\<rparr>\<rparr>\<rparr>"
  shows "GetCondition (cst_Common (cfg_Status
      (EnsureConditionsRegistered Configuration_Object 7 DefaultConfigurationConditions x)))
        ConditionTerraformApply = Some (sample_condition ConditionTerraformApply 4 ConditionTrue)"
  using registration [of x ConditionTerraformApply "sample_condition ConditionTerraformApply 4 ConditionTrue" 7]
  by (simp add: x_def GetCondition_def sample_condition_def distinct_types_def)

text \<open>
  A success reported through a condition manager makes its condition true for the current
  generation and touches nothing else: the other conditions, the metadata, the specification
  and the rest of the status stay as they were.
\<close>

theorem Success_local:
  assumes "HasCondition (cst_Common (cfg_Status (resource s))) t"
  shows "wp (cond_Success cc Configuration_Object
      (ConditionMgr Configuration_Object (resource s) t b) message args)
    (\<lambda>_ s'. stage_complete (resource s') t \<and>
       (\<forall>u. u \<noteq> t \<longrightarrow> GetCondition (cst_Common (cfg_Status (resource s'))) u =
                      GetCondition (cst_Common (cfg_Status (resource s))) u) \<and>
       cfg_Meta (resource s') = cfg_Meta (resource s) \<and> cfg_Spec (resource s') = cfg_Spec (resource s) \<and>
       cst_Resources (cfg_Status (resource s')) = cst_Resources (cfg_Status (resource s)) \<and>
       cst_ResourceStatus (cfg_Status (resource s')) = cst_ResourceStatus (cfg_Status (resource s))) s"
proof -
  let ?c = "ConditionMgr Configuration_Object (resource s) t b"
  have att: "cfg.attached ?c t (resource s)" using assms by (intro cfg.attached_ConditionMgr) simp
  have frame: "wp (cond_Success cc Configuration_Object ?c message args)
    (\<lambda>_ s'. cfg_Meta (resource s') = cfg_Meta (resource s) \<and> cfg_Spec (resource s') = cfg_Spec (resource s) \<and>
       cst_Resources (cfg_Status (resource s')) = cst_Resources (cfg_Status (resource s)) \<and>
       cst_ResourceStatus (cfg_Status (resource s')) = cst_ResourceStatus (cfg_Status (resource s))) s"
    by (simp add: cond_Success_def wp_set_through)
  show ?thesis
    using wp_conj [OF cfg.set_through_condition [OF att] frame [unfolded cond_Success_def]]
    unfolding cond_Success_def
    by (rule wp_mono) (auto simp: stage_complete_def Common_IsComplete_def)
qed

theorem Success_local_witness:
  "wp (cond_Success sample_client Configuration_Object
      (ConditionMgr Configuration_Object (sample_configuration None ConditionFalse) ConditionTerraformPlan True)
      ''done'' [])
    (\<lambda>_ s'. stage_complete (resource s') ConditionTerraformPlan)
    (sample_env [] (sample_configuration None ConditionFalse) (new_state sample_controller))"
proof -
  let ?s = "sample_env [] (sample_configuration None ConditionFalse) (new_state sample_controller)"
  have "HasCondition (cst_Common (cfg_Status (resource ?s))) ConditionTerraformPlan"
    by (simp add: HasCondition_iff sample_configuration_def sample_condition_def)
  from Success_local [OF this, of sample_client True "''done''" "[]"]
  show ?thesis unfolding sample_env_fields by (rule wp_mono) simp
qed

section \<open>Finalizers\<close>

text \<open>
  A configuration is a deletion candidate exactly when it is being deleted and no finalizer
  but the controller's own and the garbage collector's foreground one remains, the
  controller's being among them unless none remain.
\<close>

theorem deletion_candidate:
  "IsDeletionCandidate Configuration_Object controllerName x \<longleftrightarrow>
     om_DeletionTimestamp (cfg_Meta x) \<noteq> None \<and>
     om_Finalizers (cfg_Meta x) \<in>
       {[], [controllerName], [controllerName, FinalizerDeleteDependents],
        [FinalizerDeleteDependents, controllerName]}"
proof -
  have "controllerName \<noteq> FinalizerDeleteDependents"
    by (simp add: controllerName_def FinalizerDeleteDependents_def)
  then show ?thesis by (auto simp: cfg.IsDeletionCandidate_iff finalizers_def)
qed

end
