(* ===== verification/Config_Properties.thy ===== *)
theory Config_Properties
  imports Scenario
begin

text \<open>
  Properties of single stages of the configuration controller: when a plan job is created, that
  an approved change is applied, what stops a configuration at the security policy, the queue
  threshold, the variables and secrets of a run and the labels by which it finds its jobs again.
\<close>

section \<open>Plan\<close>

lemma quiet_fail_with: "wp (fail_with c cond err m args) (\<lambda>_ s'. quiet s s') s"
  by (rule logs_quiet) (intro logs_intros; simp)

lemma quiet_failed_then:
  "wp (do { failed c cond err m args; State_Monad.return (r :: Result go) }) (\<lambda>_ s'. quiet s s') s"
  by (rule logs_quiet) (intro logs_intros; simp)

lemma quiet_observe_plan: "wp (observe_plan c cond job) (\<lambda>_ s'. quiet s s') s"
  by (rule logs_quiet, unfold observe_plan_def)
    (intro logs_intros logs_mono [OF logs_ensureErrorDetection mild_no_job]; simp)

lemma quiet_request_approval: "wp (request_approval c cond) (\<lambda>_ s'. quiet s s') s"
  by (rule logs_quiet, unfold request_approval_def annotate_cloudresource_def write_back_def)
    (intro logs_intros; simp)

lemma stopping_wp: "stopping m \<Longrightarrow> wp m (\<lambda>r s'. \<not> continues r) s"
  by (simp add: stopping_def wp_mono)

lemma quietly: "wp m (\<lambda>_ s'. quiet s s') s \<Longrightarrow> wp m (\<lambda>r s'. quiet s s' \<or> X r s') s"
  by (erule wp_mono) simp

lemma run_plan_jobs:
  "wp (run_plan c cond g)
     (\<lambda>r s'. quiet s s' \<or> \<not> continues r \<and>
        (cs_EnableAutoApproval (cfg_Spec (resource s)) \<or> NeedsApproval (resource s)) \<and>
        (\<exists>jobs. s_jobs (rstate s) = Some jobs \<and>
                Latest (plan_filter (resource s) g (rstate s) jobs) = None)) s"
proof -
  have start: "wp (start_plan c cond (resource s) runner)
     (\<lambda>r s'. quiet s s' \<or> \<not> continues r \<and>
        (cs_EnableAutoApproval (cfg_Spec (resource s)) \<or> NeedsApproval (resource s))) s" for runner
  proof (cases "cs_EnableAutoApproval (cfg_Spec (resource s)) \<or> NeedsApproval (resource s)")
    case True
    from stopping_wp [OF stopping_start_plan] show ?thesis by (rule wp_mono) (simp add: True)
  next
    case False
    with wp_mono [OF quiet_request_approval] show ?thesis by (simp add: start_plan_def)
  qed
  have go: "wp (start_plan c cond (resource s) runner)
     (\<lambda>r s'. quiet s s' \<or> \<not> continues r \<and>
        (cs_EnableAutoApproval (cfg_Spec (resource s)) \<or> NeedsApproval (resource s)) \<and>
        (\<exists>jobs'. s_jobs (rstate s) = Some jobs' \<and>
                Latest (plan_filter (resource s) g (rstate s) jobs') = None)) s"
    if "s_jobs (rstate s) = Some jobs" and "Latest (plan_filter (resource s) g (rstate s) jobs) = None"
    for runner jobs
    using start by (rule wp_mono) (use that in simp)
  have still: "wp (State_Monad.return r) (\<lambda>_ s'. quiet s s') s" for r by (simp add: quiet_def)
  show ?thesis
    unfolding run_plan_def wp_bind wp_gets wp_case_option wp_case_go
    by (intro conjI allI impI go quietly [OF still] quietly [OF quiet_observe_plan]
        quietly [OF quiet_fail_with])
qed

text \<open>
  C4. A plan job is created only when the changes of the configuration are to be planned: the
  configuration is approved automatically or already carries the apply annotation that waits for
  an approval, its retry annotation is a valid time stamp, the plan of this generation has not
  failed (unless a retry is asked for), and no plan job exists yet for its generation, retry,
  drift and job template. The function then stops the chain until that job ends.
\<close>

theorem plan_gated:
  fixes c :: "'w Controller" and s :: "('w, Configuration, cstate) env"
  defines "x \<equiv> resource s"
  shows "wp (ensureTerraformPlan c cfg)
    (\<lambda>r s'. quiet s s' \<or> \<not> continues r \<and>
       (cs_EnableAutoApproval (cfg_Spec x) \<or> NeedsApproval x) \<and>
       (if HasRetryableAnnotation x \<and> IsRetryable x then IsRetryableValid x
        else \<not> IsFailed (cm_GetCondition Configuration_Object (cfg_cond cfg ConditionTerraformPlan) x)
               (om_Generation (cfg_Meta x))) \<and>
       (\<exists>jobs. s_jobs (rstate s) = Some jobs \<and>
          Latest (plan_filter x (string_of_int (om_Generation (cfg_Meta cfg))) (rstate s) jobs) = None)) s"
proof -
  let ?c = "cfg_cond cfg ConditionTerraformPlan"
    and ?g = "string_of_int (om_Generation (cfg_Meta cfg))"
  let ?Q = "\<lambda>B r s'. quiet s s' \<or> \<not> continues r \<and>
       (cs_EnableAutoApproval (cfg_Spec x) \<or> NeedsApproval x) \<and> B \<and>
       (\<exists>jobs. s_jobs (rstate s) = Some jobs \<and> Latest (plan_filter x ?g (rstate s) jobs) = None)"
  have run: "wp (run_plan c ?c ?g) (?Q B) s" if B for B
    using run_plan_jobs by (rule wp_mono) (use that in \<open>simp add: x_def\<close>)
  have still: "wp (State_Monad.return r) (?Q B) s" for r B
    by (simp add: quiet_def)
  show ?thesis
    unfolding ensureTerraformPlan_def Let_def wp_bind [of "gets resource"] wp_gets x_def [symmetric] wp_if
    by (intro conjI impI quietly [OF quiet_failed_then] run still) simp_all
qed

section \<open>Apply\<close>

text \<open>The watcher of an apply, which streams the logs of the job in the namespace of the configuration.\<close>

definition apply_watcher :: "'w Controller \<Rightarrow> Configuration \<Rightarrow> Job" where
  "apply_watcher c x = NewJobWatch (Render_New x None) (ctl_ControllerNamespace c) StageTerraformApply (ctl_ExecutorImage c)"

text \<open>The client answers whether the watcher exists.\<close>

definition watcher_readable :: "'w Controller \<Rightarrow> Configuration \<Rightarrow> bool" where
  "watcher_readable c x \<longleftrightarrow>
     (\<forall>w. case fst (cc_Get (ctl_cc c) KJob (om_Namespace (job_Meta (apply_watcher c x)))
              (om_Name (job_Meta (apply_watcher c x))) w) of
            Inl err \<Rightarrow> IsNotFound err | Inr y \<Rightarrow> kind_of y = KJob)"

text \<open>The job of an apply, after the watcher when the watchers are enabled and it is not there yet.\<close>

definition apply_effects :: "'w Controller \<Rightarrow> Configuration \<Rightarrow> Job \<Rightarrow> effect list \<Rightarrow> bool" where
  "apply_effects c x runner es \<longleftrightarrow>
     (\<exists>ws rest. es = ws @ [Wrote Create (OJob runner) None] @ rest \<and> (\<forall>e \<in> set rest. no_job e) \<and>
        (ws = [] \<or> ctl_EnableWatchers c \<and> ws = [Wrote Create (OJob (apply_watcher c x)) None]))"

lemma create_apply_job_creates:
  fixes c :: "'w Controller"
  assumes "\<forall>j w. \<exists>y. fst (cc_Write (ctl_cc c) Create (OJob j) w) = Inr y"
    and "effects t = es @ ws" and "cst_ResourceStatus (cfg_Status (resource t)) = ResourcesOutOfSync"
    and "ws = [] \<or> ctl_EnableWatchers c \<and> ws = [Wrote Create (OJob (apply_watcher c x)) None]"
  shows "wp (create_apply_job c cond runner)
    (\<lambda>r s'. r = Ok (requeue_after (5 * second)) \<and>
       (\<exists>es'. effects s' = es @ es' \<and> apply_effects c x runner es') \<and>
       cst_ResourceStatus (cfg_Status (resource s')) = ResourcesOutOfSync) t"
proof -
  obtain y where "fst (cc_Write (ctl_cc c) Create (OJob runner) (world t)) = Inr y" using assms(1) by blast
  moreover have "\<exists>es'. es @ ws @ Wrote Create (OJob runner) None # rest = es @ es' \<and> apply_effects c x runner es'"
    if "\<forall>e \<in> set rest. no_job e" for rest
    using that assms(4) unfolding apply_effects_def by auto
  ultimately show ?thesis
    using assms(2,3)
    by (simp add: create_apply_job_def perform_def wp_request error_of_def cond_defs wp_set_through transition_env_def Let_def)
qed

lemma start_apply_creates:
  fixes c :: "'w Controller"
  assumes create: "\<forall>j w. \<exists>y. fst (cc_Write (ctl_cc c) Create (OJob j) w) = Inr y"
    and watch: "ctl_EnableWatchers c \<Longrightarrow> watcher_readable c x"
  shows "wp (start_apply c cond x runner)
    (\<lambda>r s'. r = Ok (requeue_after (5 * second)) \<and>
       (\<exists>es. effects s' = effects s @ es \<and> apply_effects c x runner es) \<and>
       cst_ResourceStatus (cfg_Status (resource s')) = ResourcesOutOfSync) s"
proof -
  have wrote: "\<exists>y. fst (cc_Write (ctl_cc c) Create (OJob j) w) = Inr y" for j w using create by blast
  note go = create_apply_job_creates [OF create, of _ "effects s" _ x cond runner]
  have job: "\<exists>z. as_Job y = Some z" if "kind_of y = KJob" for y using that by (cases y) simp_all
  have watched: "wp (CreateWatcher c x StageTerraformApply)
      (\<lambda>r t. r = None \<and> resource t = resource u \<and> (\<exists>ws. effects t = effects u @ ws \<and>
         (ws = [] \<or> ws = [Wrote Create (OJob (apply_watcher c x)) None]))) u"
    if "ctl_EnableWatchers c" for u
  proof -
    obtain y where "fst (cc_Write (ctl_cc c) Create (OJob (apply_watcher c x))
      (snd (cc_Get (ctl_cc c) KJob (om_Namespace (job_Meta (apply_watcher c x)))
         (om_Name (job_Meta (apply_watcher c x))) (world u)))) = Inr y" using wrote by blast
    note created = this
    have readable: "case fst (cc_Get (ctl_cc c) KJob (om_Namespace (job_Meta (apply_watcher c x)))
        (om_Name (job_Meta (apply_watcher c x))) (world u)) of Inl err \<Rightarrow> IsNotFound err | Inr y \<Rightarrow> kind_of y = KJob"
      using watch [OF that] unfolding watcher_readable_def by blast
    show ?thesis
    proof (cases "fst (cc_Get (ctl_cc c) KJob (om_Namespace (job_Meta (apply_watcher c x)))
        (om_Name (job_Meta (apply_watcher c x))) (world u))")
      case (Inl err)
      with readable created show ?thesis
        by (simp add: CreateWatcher_def apply_watcher_def [symmetric] GetIfExists_def perform_def wp_request error_of_def Let_def)
    next
      case (Inr y)
      with readable obtain z where "as_Job y = Some z" using job by auto
      with Inr show ?thesis
        by (simp add: CreateWatcher_def apply_watcher_def [symmetric] GetIfExists_def wp_request Let_def)
    qed
  qed
  show ?thesis
  proof (cases "ctl_EnableWatchers c")
    case True
    then show ?thesis
      by (auto simp: start_apply_def set_resource_status_def intro!: wp_mono [OF watched] go)
  next
    case False
    then show ?thesis by (simp add: start_apply_def set_resource_status_def go)
  qed
qed

lemma run_apply_starts:
  fixes c :: "'w Controller"
  assumes "s_tfplan (rstate s) = Some plan" and "s_provider (rstate s) = Some provider"
    and "s_jobs (rstate s) = Some jobs"
    and "DecodePlan (ctl_lib c) (gomap_get (sec_Data plan) TerraformPlanJSONSecretKey) = Inr tfplan"
    and "NewTerraformApply (ctl_rn c) (Render_New (resource s) (Some provider))
           (apply_options c (resource s) (rstate s) provider tfplan) = Ok runner"
    and "Latest (apply_filter (resource s) generation (rstate s) tfplan jobs) = None"
  shows "wp (run_apply c cond generation) Q s = wp (start_apply c cond (resource s) runner) Q s"
  using assms by (simp add: run_apply_def)


definition sample_secret :: "string \<Rightarrow> string \<Rightarrow> bytes \<Rightarrow> Secret" where
  "sample_secret name key v = \<lparr>sec_Meta = named_meta ''terraform-system'' name, sec_Data = Some [key \<mapsto> v]\<rparr>"

lemma sample_client_creates: "\<exists>y. fst (cc_Write sample_client Create x w) = Inr y"
  by (simp add: sample_client_def)

lemma find_object_kind: "find_object k ns n w = Some x \<Longrightarrow> kind_of x = k"
  by (induction w) (auto split: if_splits)

lemma sample_watcher_readable: "ctl_cc c = sample_client \<Longrightarrow> watcher_readable c x"
  by (auto simp: watcher_readable_def sample_client_def not_found_def dest: find_object_kind split: option.split)

text \<open>The controller with the default settings, whose watchers are enabled.\<close>

definition watching_controller :: "object list Controller" where
  "watching_controller = sample_controller\<lparr>ctl_EnableWatchers := True\<rparr>"


section \<open>Security policy\<close>

text \<open>A report that may pass: what \<open>read_policy_report\<close> checks, and no failed checks counted.\<close>

definition passing_report :: "Libs \<Rightarrow> bytes \<Rightarrow> bool" where
  "passing_report lib report =
     (if gr_Exists (lib_GJSON lib report ''summary'')
      then gr_Exists (lib_GJSON lib report ''summary.failed'') \<and>
           gr_IsNumber (lib_GJSON lib report ''summary.failed'') \<and>
           gr_Int (lib_GJSON lib report ''summary.failed'') \<le> 0
      else gr_Exists (lib_GJSON lib report ''passed'') \<and> gr_Exists (lib_GJSON lib report ''failed''))"

lemma passing_report_read:
  "read_policy_report lib report = Inr f \<Longrightarrow> gr_Int f \<le> 0 \<Longrightarrow> passing_report lib report"
  by (auto simp: read_policy_report_def passing_report_def Let_def split: if_splits)

lemma wp_GetIfExists_cases:
  assumes "\<And>err s'. Q (Inl err) s'" and "\<And>s'. Q (Inr None) s'"
    and "\<And>y a s'. fst (cc_Get cc k ns n (world s)) = Inr y \<Longrightarrow> as y = Some a \<Longrightarrow> Q (Inr (Some a)) s'"
  shows "wp (GetIfExists cc k as ns n) Q s"
  using assms by (auto simp: GetIfExists_def wp_request split: sum.splits option.splits)

lemma policy_report_written:
  fixes c :: "'w Controller"
  assumes "gr_Int f \<le> 0 \<Longrightarrow> P"
  shows "wp (do { w \<leftarrow> CreateOrForceUpdate (ctl_cc c) x;
        case w of
          Some err \<Rightarrow> fail_with c cond err ''Failed to create or update the terraform policy secret'' []
        | None \<Rightarrow>
            if gr_Int f > 0
            then require_action c cond ''Configuration has failed security policy, refusing to continue''
                   [] (Err ErrIgnore)
            else do { success c cond ''Passed security checks'' []; proceed } })
    (\<lambda>r s'. continues r \<longrightarrow> P) s"
proof (cases "gr_Int f > 0")
  case True
  have "stopping (do { w \<leftarrow> CreateOrForceUpdate (ctl_cc c) x;
        case w of
          Some err \<Rightarrow> fail_with c cond err ''Failed to create or update the terraform policy secret'' []
        | None \<Rightarrow>
            if gr_Int f > 0
            then require_action c cond ''Configuration has failed security policy, refusing to continue''
                   [] (Err ErrIgnore)
            else do { success c cond ''Passed security checks'' []; proceed } })"
    using True by (intro stopping_intros) simp_all
  from stopping_wp [OF this] show ?thesis by (rule wp_mono) simp
next
  case False
  with assms show ?thesis by (intro wpI) simp
qed

text \<open>
  C6. With a policy constraint in force, the chain passes the security stage only when the report
  of the scan was read and is a summary whose number of failed checks exists, is a number and is
  not positive, or a flat report that has both the passed and the failed field.
\<close>

theorem policy_gate:
  fixes c :: "'w Controller"
  assumes "s_checkovConstraint (rstate s) \<noteq> None"
  shows "wp (ensurePolicyStatus c cfg)
    (\<lambda>r s'. continues r \<longrightarrow>
       (\<exists>secret. fst (cc_Get (ctl_cc c) KSecret (ctl_ControllerNamespace c)
            (GetTerraformPolicySecretName (resource s)) (world s)) = Inr (OSecret secret) \<and>
          (let field = lib_GJSON (ctl_lib c) (gomap_get (sec_Data secret) ''results_json.json'') in
           if gr_Exists (field ''summary'')
           then gr_Exists (field ''summary.failed'') \<and> gr_IsNumber (field ''summary.failed'') \<and>
                gr_Int (field ''summary.failed'') \<le> 0
           else gr_Exists (field ''passed'') \<and> gr_Exists (field ''failed'')))) s"
proof -
  let ?P = "\<exists>secret. fst (cc_Get (ctl_cc c) KSecret (ctl_ControllerNamespace c)
            (GetTerraformPolicySecretName (resource s)) (world s)) = Inr (OSecret secret) \<and>
          passing_report (ctl_lib c) (gomap_get (sec_Data secret) policy_report_key)"
  have stop: "wp m (\<lambda>r s'. continues r \<longrightarrow> ?P) t" if "stopping m" for m :: "'w cprog" and t
    using stopping_wp [OF that] by (rule wp_mono) simp
  have secret: "x = OSecret y" if "as_Secret x = Some y" for x y using that by (cases x) simp_all
  have tail: "wp (case read_policy_report (ctl_lib c) (gomap_get (sec_Data secret) policy_report_key) of
        Inl (detail, message, args) \<Rightarrow>
          do { failed c cond (Some (ErrMsg detail)) message args; State_Monad.return (Err ErrIgnore) }
      | Inr f \<Rightarrow> (m f :: 'w cprog)) (\<lambda>r s'. continues r \<longrightarrow> P) t"
    if "\<And>f u. read_policy_report (ctl_lib c) (gomap_get (sec_Data secret) policy_report_key) = Inr f \<Longrightarrow>
          wp (m f) (\<lambda>r s'. continues r \<longrightarrow> P) u" for secret m cond P t
    using that by (auto simp: cond_defs wp_set_through split: sum.splits)
  have "wp (ensurePolicyStatus c cfg) (\<lambda>r s'. continues r \<longrightarrow> ?P) s"
    unfolding ensurePolicyStatus_def Let_def wp_bind [of "gets _"] wp_gets
    by (subst if_not_P, rule assms, subst wp_bind, rule wp_GetIfExists_cases, unfold sum.case option.case)
      (rule stop, intro stopping_intros, rule stop, (intro stopping_intros; simp),
       rule tail, rule policy_report_written, blast dest: secret passing_report_read)
  then show ?thesis
    by (rule wp_mono) (auto simp: passing_report_def policy_report_key_def Let_def split: if_splits)
qed

theorem policy_gate_witness:
  defines "st \<equiv> (new_state sample_controller)\<lparr>s_checkovConstraint :=
      Some \<lparr>pc_Checks = [], pc_External = [], pc_Selector = None, pc_SkipChecks = [], pc_Source = None\<rparr>\<rparr>"
  shows "wp (ensurePolicyStatus sample_controller (sample_configuration None ConditionTrue))
    (\<lambda>r s'. \<not> continues r) (sample_env sample_world (sample_configuration None ConditionTrue) st)"
proof -
  have "s_checkovConstraint (rstate (sample_env sample_world (sample_configuration None ConditionTrue) st)) \<noteq> None"
    by (simp add: st_def)
  from policy_gate [OF this, of sample_controller] show ?thesis
    by (rule wp_mono) (auto simp: sample_client_def sample_world_def split: option.splits)
qed

lemma CreateOrForceUpdate_succeeds:
  assumes "\<forall>v \<in> {Create, Update}. \<forall>y w. \<exists>z. fst (cc_Write cc v y w) = Inr z"
    and "\<forall>w. case fst (cc_Get cc (kind_of x) (om_Namespace (meta_of x)) (om_Name (meta_of x)) w) of
           Inl err \<Rightarrow> IsNotFound err | Inr _ \<Rightarrow> True"
    and "\<And>s'. Q None s'"
  shows "wp (CreateOrForceUpdate cc x) Q s"
proof -
  have e: "error_of (fst (cc_Write cc v y w)) = None" if "v \<in> {Create, Update}" for v y w
    using assms(1) that by (metis error_of_def sum.simps(6))
  from assms(2) have "case fst (cc_Get cc (kind_of x) (om_Namespace (meta_of x)) (om_Name (meta_of x)) (world s)) of
           Inl err \<Rightarrow> IsNotFound err | Inr _ \<Rightarrow> True" by blast
  then show ?thesis
    by (auto simp: CreateOrForceUpdate_def GetIfExists_def perform_def wp_request e assms(3)
        split: sum.splits)
qed

text \<open>
  C11. The number of failed checks of a flat report, one without a summary, is not looked at:
  whatever its \<open>failed\<close> field says, the configuration passes the security stage, because the
  loop over the two fields reads the field \<open>zero\<close> of the report instead.
\<close>

theorem policy_flat_report_unchecked:
  fixes c :: "'w Controller"
  defines "report \<equiv> \<lambda>secret. lib_GJSON (ctl_lib c) (gomap_get (sec_Data secret) policy_report_key)"
  assumes "s_checkovConstraint (rstate s) \<noteq> None"
    and "fst (cc_Get (ctl_cc c) KSecret (ctl_ControllerNamespace c)
            (GetTerraformPolicySecretName (resource s)) (world s)) = Inr (OSecret secret)"
    and "\<not> gr_Exists (report secret ''summary'')"
    and "gr_Exists (report secret ''passed'')" and "gr_Exists (report secret ''failed'')"
    and "gr_Int (report secret ''failed'') > 0" and "gr_Int (report secret ''zero'') = 0"
    and "\<forall>v \<in> {Create, Update}. \<forall>y w. \<exists>z. fst (cc_Write (ctl_cc c) v y w) = Inr z"
    and "\<forall>n m w. case fst (cc_Get (ctl_cc c) KSecret n m w) of Inl err \<Rightarrow> IsNotFound err | Inr _ \<Rightarrow> True"
  shows "wp (ensurePolicyStatus c cfg) (\<lambda>r s'. r = Ok Result0) s"
proof -
  have "read_policy_report (ctl_lib c) (gomap_get (sec_Data secret) policy_report_key) = Inr empty_gresult"
    using assms(4-8) by (simp add: read_policy_report_def report_def)
  moreover have "gr_Int empty_gresult = 0" by (simp add: empty_gresult_def)
  moreover have "wp (CreateOrForceUpdate (ctl_cc c) (OSecret y)) Q t" if "\<And>s'. Q None s'" for y Q
    and t :: "('w, Configuration, cstate) env"
    by (rule CreateOrForceUpdate_succeeds) (use assms(9,10) that in simp_all)
  ultimately show ?thesis
    using assms(2,3)
    by (auto simp: ensurePolicyStatus_def GetIfExists_def wp_request Let_def cond_defs wp_set_through)
qed

definition flat_report :: "string \<Rightarrow> GResult" where
  "flat_report field =
     (if field = ''passed'' then \<lparr>gr_Exists = True, gr_IsNumber = True, gr_String = ''4'', gr_Int = 4\<rparr>
      else if field = ''failed'' then \<lparr>gr_Exists = True, gr_IsNumber = True, gr_String = ''7'', gr_Int = 7\<rparr>
      else empty_gresult)"

theorem policy_flat_report_unchecked_witness:
  defines "c \<equiv> sample_controller\<lparr>ctl_lib := sample_libs\<lparr>lib_GJSON := \<lambda>_. flat_report\<rparr>\<rparr>"
    and "x \<equiv> sample_configuration None ConditionTrue"
    and "st \<equiv> (new_state sample_controller)\<lparr>s_checkovConstraint :=
      Some \<lparr>pc_Checks = [], pc_External = [], pc_Selector = None, pc_SkipChecks = [], pc_Source = None\<rparr>\<rparr>"
  shows "wp (ensurePolicyStatus c x) (\<lambda>r s'. r = Ok Result0)
    (sample_env [OSecret (sample_secret ''policy-1234'' policy_report_key ''report'')] x st)"
proof -
  have ns: "ctl_cc c = sample_client" "ctl_lib c = sample_libs\<lparr>lib_GJSON := \<lambda>_. flat_report\<rparr>"
    "ctl_ControllerNamespace c = ''terraform-system''"
    by (simp_all add: c_def)
  show ?thesis
    by (rule policy_flat_report_unchecked [where secret = "sample_secret ''policy-1234'' policy_report_key ''report''"])
      (simp_all add: ns sample_client_def sample_secret_def flat_report_def empty_gresult_def st_def x_def
        sample_configuration_def secret_name_defs not_found_def named_meta_def split: option.splits)
qed

section \<open>The queue threshold\<close>

text \<open>
  C10. With a threshold \<open>t\<close> other than zero and two or more configurations in the cluster, a
  configuration waits in the queue for thirty seconds exactly when the jobs with active pods
  exceed the fraction \<open>t\<close> of the configurations, and otherwise the chain goes on; nothing is
  written either way but the condition.
\<close>

theorem threshold_exact:
  fixes c :: "'w Controller"
  assumes "s_configurations (rstate s) = Some items" and "s_jobs (rstate s) = Some jobs"
    and "ctl_ConfigurationThreshold c \<noteq> 0" and "length items \<ge> 2"
  defines "running \<equiv> length (filter (\<lambda>job. om_Labels (job_Meta job) \<noteq> None \<and> job_Active job > 0) jobs)"
  shows "wp (ensureConfigurationThreshold c cfg)
    (\<lambda>r s'. r = (if of_nat running > ctl_ConfigurationThreshold c * of_nat (length items)
                then Ok (requeue_after (30 * second)) else Ok Result0) \<and> effects s' = effects s) s"
proof -
  have n: "of_nat (length items) > (0 :: rat)" using assms(4) by (cases items) simp_all
  have run: "IsRunning (Jobs jobs) = running"
    by (simp add: IsRunning_eq Jobs_def filter_keeps_def running_def Let_def cong: conj_cong)
  have "over_threshold t running (length items) \<longleftrightarrow> of_nat running > t * of_nat (length items)" for t
    using n assms(4) by (auto simp: over_threshold_def pos_less_divide_eq)
  then show ?thesis
    using assms(1-4) run
    by (auto simp: ensureConfigurationThreshold_def Let_def cond_defs wp_set_through transition_env_def)
qed

section \<open>Secrets and variables of a run\<close>

text \<open>
  The six secrets of a configuration have different names, and two configurations
  share one exactly when their unique ids are the same.
\<close>

theorem configuration_secrets_separate:
  "distinct (configuration_secrets x) \<and>
   (set (configuration_secrets x) \<inter> set (configuration_secrets y) = {} \<longleftrightarrow>
    om_UID (cfg_Meta x) \<noteq> om_UID (cfg_Meta y))"
  by (auto simp: configuration_secrets_def secret_name_defs)

text \<open>
  C12. Sourced values alone never reach terraform: for a configuration without variables of its
  own, the secret of the run holds the file of the sourced values, but the job is rendered
  without that file and without the argument that names it.
\<close>

theorem sourced_values_unused:
  assumes "\<not> HasVariables (cfg_Spec x)" and "cs_TFVars (cfg_Spec x) = []"
    and "s_valueFrom st k = Some v" and "s_auth st = None"
    and "job_secret_data c x suffix st = Some (Inr data)"
  shows "data TerraformVariablesConfigMapKey \<noteq> None \<and>
    \<not> jp_EnableVariables (job_params x p options stage) \<and>
    jp_TerraformArguments (job_params x p options stage) = []"
proof -
  have "s_valueFrom st \<noteq> Map.empty" using assms(3) by auto
  then have "\<exists>e. data TerraformVariablesConfigMapKey = Some e"
    using assms
    by (auto simp: job_secret_data_def run_variables_def GetVariables_def Let_def
        TerraformVariablesConfigMapKey_def TerraformTFVarsConfigMapKey_def split: sum.splits option.splits if_splits)
  then show ?thesis
    using assms(1,2) by (auto simp: job_params_def terraform_arguments_def Let_def)
qed

theorem threshold_exact_witness:
  defines "x \<equiv> sample_configuration None ConditionTrue"
    and "job \<equiv> (sample_job (job_params (sample_configuration None ConditionTrue) sample_provider
           (plan_options sample_controller (sample_configuration None ConditionTrue)
             (new_state sample_controller) sample_provider) StageTerraformPlan))\<lparr>job_Active := 1\<rparr>"
  shows "wp (ensureConfigurationThreshold (sample_controller\<lparr>ctl_ConfigurationThreshold := 1 / 4\<rparr>) x)
    (\<lambda>r s'. r = Ok (requeue_after (30 * second)) \<and> effects s' = [])
    (sample_env [] x ((new_state sample_controller)
       \<lparr>s_configurations := Some [x, x], s_jobs := Some [job]\<rparr>))"
proof -
  have "om_Labels (job_Meta job) \<noteq> None"
    by (simp add: job_def sample_job_def job_params_def Let_def MergeStringMaps_def)
  then show ?thesis
    using threshold_exact [of "sample_env [] x ((new_state sample_controller)
         \<lparr>s_configurations := Some [x, x], s_jobs := Some [job]\<rparr>)" "[x, x]" "[job]"
        "sample_controller\<lparr>ctl_ConfigurationThreshold := 1 / 4\<rparr>" x]
    by (simp add: job_def)
qed

theorem sourced_values_unused_witness:
  "job_secret_data sample_controller (sample_configuration None ConditionTrue) ''1234''
     ((new_state sample_controller)\<lparr>s_provider := Some sample_provider,
        s_valueFrom := [''region'' \<mapsto> JStr ''eu-west-2'']\<rparr>) \<noteq> None \<and>
   jp_TerraformArguments (job_params (sample_configuration None ConditionTrue) sample_provider
     (plan_options sample_controller (sample_configuration None ConditionTrue)
       (new_state sample_controller) sample_provider) StageTerraformPlan) = []"
proof -
  let ?x = "sample_configuration None ConditionTrue"
  let ?st = "(new_state sample_controller)\<lparr>s_provider := Some sample_provider,
        s_valueFrom := [''region'' \<mapsto> JStr ''eu-west-2'']\<rparr>"
  have x: "\<not> HasVariables (cfg_Spec ?x)" "cs_TFVars (cfg_Spec ?x) = []"
    by (simp_all add: HasVariables_def sample_configuration_def empty_configuration_spec_def)
  have "\<exists>data. job_secret_data sample_controller ?x ''1234'' ?st = Some (Inr data)"
    using x(1)
    by (simp add: job_secret_data_def NewKubernetesBackend_def NewTerraformProvider_def run_variables_def
        GetVariables_def sample_renderers_def sample_libs_def sample_provider_def Let_def)
  then obtain data where d: "job_secret_data sample_controller ?x ''1234'' ?st = Some (Inr data)" by blast
  have "s_valueFrom ?st ''region'' = Some (JStr ''eu-west-2'')" "s_auth ?st = None"
    by (simp_all add: new_state_def)
  from sourced_values_unused [OF x this d] d show ?thesis by simp
qed

section \<open>Jobs\<close>

lemma label_keys_of_jobs:
  "DriftAnnotation \<notin> set [ConfigurationGenerationLabel, ConfigurationNameLabel, ConfigurationNamespaceLabel,
     ConfigurationStageLabel, ConfigurationUIDLabel, RetryAnnotation, JobTemplateHashLabel, []]"
  "RetryAnnotation \<notin> set [ConfigurationGenerationLabel, ConfigurationNameLabel, ConfigurationNamespaceLabel,
     ConfigurationStageLabel, ConfigurationUIDLabel, JobTemplateHashLabel, []]"
  "JobTemplateHashLabel \<notin> set [ConfigurationGenerationLabel, ConfigurationNameLabel, ConfigurationNamespaceLabel,
     ConfigurationStageLabel, ConfigurationUIDLabel, []]"
  "JobPlanIDLabel \<notin> set [ConfigurationGenerationLabel, ConfigurationNameLabel, ConfigurationNamespaceLabel,
     ConfigurationStageLabel, ConfigurationUIDLabel, JobTemplateHashLabel, []]"
  by (simp_all add: annotation_defs label_defs)

text \<open>The labels of the options that are none of the five labels of every job.\<close>

lemma job_params_option_label:
  assumes "op_AdditionalJobLabels options = MergeStringMaps (ms @ [Some m])" and "m k = Some v"
    and "k \<notin> set [ConfigurationGenerationLabel, ConfigurationNameLabel, ConfigurationNamespaceLabel,
           ConfigurationStageLabel, ConfigurationUIDLabel, []]"
  shows "gomap_get (jp_Labels (job_params x p options stage)) k = v"
proof -
  have "merge_all Map.empty [op_AdditionalJobLabels options] k = Some v"
    using assms merge_all_last [of k "Some m" v Map.empty ms] merge_all_last [of k "op_AdditionalJobLabels options" v Map.empty "[]"]
    by (simp add: MergeStringMaps_def del: merge_all.simps)
  with assms(3) show ?thesis
    using merge_all_skip_last [of _ k Map.empty "[op_AdditionalJobLabels options]"]
    by (simp add: job_params_def Let_def MergeStringMaps_def del: merge_all.simps)
qed

lemma runner_labels:
  assumes "renders_labels rn" and "createTerraformFromTemplate rn (Render_New x (Some p)) options stage = Ok runner"
  shows "om_Labels (job_Meta runner) = jp_Labels (job_params x p options stage)"
  using assms by (auto simp: createTerraformFromTemplate_def renders_labels_def Render_New_def split: sum.splits)

lemma job_params_labelled: "jp_Labels (job_params x p options stage) \<noteq> None"
  by (simp add: job_params_def Let_def MergeStringMaps_def)

text \<open>
  C8. A run finds the jobs it created: once the plan job of a configuration is in the cluster,
  with the labels it was rendered with, the search for the current plan job of the same
  configuration, retry, drift and job template has a result, so no second one is created.
\<close>

theorem plan_job_found:
  assumes "renders_labels rn"
    and "NewTerraformPlan rn (Render_New x (Some p)) (plan_options c x st p) = Ok runner"
    and "job \<in> set jobs" and "om_Labels (job_Meta job) = om_Labels (job_Meta runner)"
  shows "Latest (plan_filter x (string_of_int (om_Generation (cfg_Meta x))) st jobs) \<noteq> None"
proof -
  have labels: "om_Labels (job_Meta job) = jp_Labels (job_params x p (plan_options c x st p) StageTerraformPlan)"
    using runner_labels assms by (metis NewTerraformPlan_def)
  have extra: "gomap_get (om_Labels (job_Meta job)) k = v"
    if "(k, v) \<in> {(DriftAnnotation, Configuration_annotation x DriftAnnotation),
      (RetryAnnotation, Configuration_annotation x RetryAnnotation), (JobTemplateHashLabel, s_jobTemplateHash st)}" for k v
    unfolding labels
    by (rule job_params_option_label [where ms = "[ctl_ControllerJobLabels c, JobLabels p, om_Labels (cfg_Meta x)]"
          and m = "[DriftAnnotation \<mapsto> Configuration_annotation x DriftAnnotation,
               RetryAnnotation \<mapsto> Configuration_annotation x RetryAnnotation,
               JobTemplateHashLabel \<mapsto> s_jobTemplateHash st]"])
      (use that label_keys_of_jobs in \<open>auto simp: plan_options_def\<close>)
  have "filter_keeps (plan_filter x (string_of_int (om_Generation (cfg_Meta x))) st jobs) job"
    using extra job_params_labelled
    by (auto simp: filter_keeps_def plan_filter_def filter_builders missing_label_def Let_def labels job_params_labels)
  then show ?thesis
    using assms(3) by (auto simp: Latest_None plan_filter_def filter_builders Let_def)
qed

theorem plan_job_found_witness:
  defines "x \<equiv> sample_configuration (Some [RetryAnnotation \<mapsto> ''17'']) ConditionFalse"
    and "st \<equiv> new_state sample_controller"
  shows "Latest (plan_filter x ''1'' st
    [sample_job (job_params x sample_provider (plan_options sample_controller x st sample_provider) StageTerraformPlan)]) \<noteq> None"
proof -
  let ?j = "sample_job (job_params x sample_provider (plan_options sample_controller x st sample_provider) StageTerraformPlan)"
  have "NewTerraformPlan sample_renderers (Render_New x (Some sample_provider))
      (plan_options sample_controller x st sample_provider) = Ok ?j"
    by (simp add: NewTerraformPlan_def createTerraformFromTemplate_def Render_New_def sample_renderers_def)
  moreover have "string_of_int 1 = ''1''" by code_simp
  then have "string_of_int (om_Generation (cfg_Meta x)) = ''1''"
    by (simp add: x_def sample_configuration_def)
  ultimately show ?thesis
    using plan_job_found [OF sample_renders_labels, of x sample_provider sample_controller st ?j ?j "[?j]"] by simp
qed

text \<open>
  The backoff limit that the controller is configured with has no effect: whatever its value,
  the same job is rendered, because it is not among the parameters of the template.
\<close>

theorem backoff_limit_ignored:
  "createTerraformFromTemplate rn r (options\<lparr>op_BackoffLimit := n\<rparr>) stage =
   createTerraformFromTemplate rn r options stage"
  by (cases options) (simp add: createTerraformFromTemplate_def job_params_def Let_def cong: option.case_cong)

section \<open>Connection secret\<close>

lemma map_eq_iff: "f = g \<longleftrightarrow> (\<forall>x y. f x = Some y \<longleftrightarrow> g x = Some y)"
  by (metis ext option.exhaust)

text \<open>The entry an output becomes, if it is to be written.\<close>

definition connection_name :: "WriteConnectionSecret \<Rightarrow> string gomap \<Rightarrow> string \<Rightarrow> string option" where
  "connection_name w mapping k =
     (if HasKeys w then map_option ToUpper (gomap_find mapping k) else Some (ToUpper k))"

definition connection_entries ::
  "Libs \<Rightarrow> WriteConnectionSecret \<Rightarrow> string gomap \<Rightarrow> (string \<times> OutputValue) list \<Rightarrow> (string \<times> bytes) list" where
  "connection_entries lib w mapping outputs =
     List.map_filter (\<lambda>(k, v). map_option (\<lambda>n. (n, OutputValue_String (lib_FormatFloat lib) v))
       (connection_name w mapping k)) outputs"

lemma connection_entries_Cons:
  "connection_entries lib w mapping ((k, v) # outputs) =
     (case connection_name w mapping k of
        None \<Rightarrow> connection_entries lib w mapping outputs
      | Some n \<Rightarrow> (n, OutputValue_String (lib_FormatFloat lib) v) # connection_entries lib w mapping outputs)"
  by (simp add: connection_entries_def map_filter_simps split: option.split)

lemma connection_data_step:
  "connection_data lib w mapping data ((k, v) # outputs) =
     connection_data lib w mapping
       (case connection_name w mapping k of
          None \<Rightarrow> data | Some n \<Rightarrow> data(n \<mapsto> OutputValue_String (lib_FormatFloat lib) v)) outputs"
  by (simp add: connection_name_def split: option.split)

lemma connection_data_map:
  "connection_data lib w mapping data outputs = data ++ map_of (rev (connection_entries lib w mapping outputs))"
proof (induction outputs arbitrary: data)
  case (Cons kv outputs)
  obtain k v where "kv = (k, v)" by (cases kv)
  then show ?case
    by (simp only: connection_data_step connection_entries_Cons Cons.IH)
      (auto simp: map_add_def intro!: ext split: option.split)
qed (simp add: connection_entries_def map_filter_simps)

text \<open>
  The connection secret holds exactly the selected outputs: when no two outputs compete for a
  name, an entry is there if and only if some output is written under that name, in upper case,
  every output when no keys are given and otherwise those the keys name; the order in which the
  outputs are visited does not matter.
\<close>

theorem connection_data_exact:
  assumes "distinct (map fst (connection_entries lib w mapping outputs))"
  shows "(connection_data lib w mapping Map.empty outputs n = Some b \<longleftrightarrow>
      (\<exists>k v. (k, v) \<in> set outputs \<and> connection_name w mapping k = Some n \<and>
             b = OutputValue_String (lib_FormatFloat lib) v)) \<and>
    (set outputs' = set outputs \<and> distinct (map fst (connection_entries lib w mapping outputs')) \<longrightarrow>
     connection_data lib w mapping Map.empty outputs' = connection_data lib w mapping Map.empty outputs)"
proof -
  have entry: "connection_data lib w mapping Map.empty outs n = Some b \<longleftrightarrow>
      (\<exists>k v. (k, v) \<in> set outs \<and> connection_name w mapping k = Some n \<and>
             b = OutputValue_String (lib_FormatFloat lib) v)"
    if "distinct (map fst (connection_entries lib w mapping outs))" for outs n b
  proof -
    from that have "distinct (map fst (rev (connection_entries lib w mapping outs)))"
      by (simp add: rev_map [symmetric])
    from map_of_eq_Some_iff [OF this] show ?thesis
      by (auto simp: connection_data_map connection_entries_def map_filter_def split: option.splits prod.splits)
        (force simp: image_iff)+
  qed
  show ?thesis
    using entry [OF assms] entry [of outputs'] by (auto simp: map_eq_iff)
qed

lemma ToUpper_endpoint: "ToUpper ''endpoint'' = ''ENDPOINT''"
  by code_simp

theorem connection_data_exact_witness:
  defines "w \<equiv> \<lparr>wcs_Name = ''db'', wcs_Keys = [''host:endpoint'']\<rparr>"
    and "outs \<equiv> [(''host'', \<lparr>ov_Value = JStr ''h1''\<rparr>), (''port'', \<lparr>ov_Value = JStr ''5432''\<rparr>)]"
  shows "connection_data sample_libs w (Some [''host'' \<mapsto> ''endpoint'']) Map.empty outs ''ENDPOINT'' =
    Some (OutputValue_String (lib_FormatFloat sample_libs) \<lparr>ov_Value = JStr ''h1''\<rparr>)"
  using connection_data_exact [of sample_libs w "Some [''host'' \<mapsto> ''endpoint'']" outs "''ENDPOINT''"
      "OutputValue_String (lib_FormatFloat sample_libs) \<lparr>ov_Value = JStr ''h1''\<rparr>"]
  by (simp add: w_def outs_def connection_entries_Cons connection_name_def HasKeys_def ToUpper_endpoint)

section \<open>A panic\<close>

text \<open>
  Asking for approval of a configuration that belongs to a cloud resource without annotations
  panics, after the configuration was patched: the assignment goes to a nil map.
\<close>

theorem approval_panics:
  fixes c :: "'w Controller"
  assumes "\<forall>v y w. fst (cc_Write (ctl_cc c) v (OConfiguration y) w) = Inr (OConfiguration y)"
    and "\<forall>n m w. fst (cc_Get (ctl_cc c) KCloudResource n m w) = Inr (OCloudResource crsrc)"
    and "om_Annotations (cr_Meta crsrc) = None" and "IsManaged (resource s)"
  shows "wp (request_approval c cond)
    (\<lambda>r s'. r = Panic \<and> (\<exists>y. effects s' = effects s @ [Wrote (Patch (OConfiguration (resource s))) (OConfiguration y) None] \<and>
        NeedsApproval y)) s"
proof -
  let ?y = "(resource s)\<lparr>cfg_Meta := set_annotation ApplyAnnotation ''false'' (cfg_Meta (resource s))\<rparr>"
  have "IsManaged ?y" using assms(4) by (auto simp: IsManaged_def set_annotation_def split: if_splits)
  moreover have "NeedsApproval ?y"
    by (simp add: NeedsApproval_def Configuration_annotation_def set_annotation_def)
  ultimately show ?thesis
    using assms(1-3)
    by (auto simp: request_approval_def write_back_def perform_def wp_request annotate_cloudresource_def
        GetIfExists_def Let_def error_of_def Configuration_Object_def)
qed

definition sample_managed :: Configuration where
  "sample_managed = (sample_configuration None ConditionFalse)
     \<lparr>cfg_Meta := (named_meta ''apps'' ''bucket'')\<lparr>om_Labels := Some [CloudResourceNameLabel \<mapsto> ''bucket''],
        om_OwnerReferences := [NewControllerRef (sample_configuration None ConditionFalse)]\<rparr>,
      cfg_Spec := empty_configuration_spec\<lparr>cs_Plan := Some \<lparr>plr_Name = ''bucket'', plr_Revision = ''1''\<rparr>\<rparr>\<rparr>"

definition sample_cloudresource :: CloudResource where
  "sample_cloudresource =
     \<lparr>cr_Type = \<lparr>tm_Kind = ''CloudResource'', tm_APIVersion = SchemeGroupVersion\<rparr>,
      cr_Meta = named_meta ''apps'' ''bucket'',
      cr_Spec = \<lparr>crs_Auth = None, crs_EnableAutoApproval = False, crs_EnableDriftDetection = False,
        crs_Plan = \<lparr>plr_Name = ''bucket'', plr_Revision = ''1''\<rparr>, crs_ProviderRef = None,
        crs_WriteConnectionSecretToRef = None, crs_Variables = None, crs_ValueFrom = [],
        crs_TerraformVersion = []\<rparr>,
      cr_Status = \<lparr>crst_Common = empty_common_status, crst_ConfigurationName = [],
        crst_ConfigurationStatus = empty_configuration_status, crst_Costs = None, crst_Resources = None,
        crst_ResourceStatus = UnknownResourceStatus, crst_UpdateAvailable = []\<rparr>\<rparr>"

theorem approval_panics_witness:
  defines "c \<equiv> sample_controller\<lparr>ctl_cc := sample_client\<lparr>cc_Get := \<lambda>_ _ _ w. (Inr (OCloudResource sample_cloudresource), w),
      cc_Write := \<lambda>_ y w. (Inr y, w)\<rparr>\<rparr>"
  shows "wp (request_approval c (cfg_cond sample_managed ConditionTerraformPlan)) (\<lambda>r s'. r = Panic)
    (sample_env [] sample_managed (new_state sample_controller))"
  by (rule wp_mono [OF approval_panics [where crsrc = sample_cloudresource]])
    (simp_all add: c_def sample_controller_def sample_cloudresource_def sample_managed_def IsManaged_def named_meta_def empty_meta_def)

end
