(* ===== verification/Api_Cloud.thy ===== *)
theory Api_Cloud
  imports Api_Types
begin

text \<open>
  The rest of the API that the smaller controllers and the admission handlers use: constructors
  and queries of cloud resources, revisions, plans and contexts, the conditions they register
  (\<open>pkg/apis/terraform/v1alpha1\<close>), and the version helpers (\<open>pkg/utils/semver.go\<close>,
  \<open>semvar.go\<close>) over an arbitrary semantic version library.
\<close>

section \<open>Labels\<close>

definition CloudResourcePlanNameLabel :: string where
  "CloudResourcePlanNameLabel = RevisionPlanNameLabel"

definition CloudResourceRevisionLabel :: string where
  "CloudResourceRevisionLabel = RevisionLabel"

definition CloudResourceRevisionNameLabel :: string where
  "CloudResourceRevisionNameLabel = RevisionNameLabel"

definition RevisionSkipUpdateProtectionAnnotation :: string where
  "RevisionSkipUpdateProtectionAnnotation = ''terraform.appvia.io/revision.skip-update-protection''"

lemmas cloud_label_defs = CloudResourcePlanNameLabel_def CloudResourceRevisionLabel_def
  CloudResourceRevisionNameLabel_def CloudResourceNameLabel_def RevisionPlanNameLabel_def
  RevisionLabel_def RevisionNameLabel_def

section \<open>Conditions\<close>

definition ConditionConfigurationReady :: ConditionType where
  "ConditionConfigurationReady = ''ConfigurationReady''"

definition ConditionConfigurationStatus :: ConditionType where
  "ConditionConfigurationStatus = ''ConfigurationStatus''"

definition ConditionProviderPreload :: ConditionType where
  "ConditionProviderPreload = ''PreloadReady''"

definition DefaultCloudResourceConditions :: "ConditionSpec list" where
  "DefaultCloudResourceConditions =
     [condition_spec ConditionConfigurationReady ''Configuration Ready'',
      condition_spec ConditionConfigurationStatus ''Configuration Status''] @
     DefaultConfigurationConditions"

definition DefaultPlanConditions :: "ConditionSpec list" where
  "DefaultPlanConditions = [condition_spec ConditionReady ''Ready'']"

definition DefaultRevisionConditions :: "ConditionSpec list" where
  "DefaultRevisionConditions = [condition_spec ConditionReady ''Ready'']"

definition DefaultProviderConditions :: "ConditionSpec list" where
  "DefaultProviderConditions =
     [condition_spec ConditionReady ''Provider Ready'',
      condition_spec ConditionProviderPreload ''Preload Data'']"

section \<open>Cloud resources\<close>

definition empty_cloudresource_spec :: CloudResourceSpec where
  "empty_cloudresource_spec =
     \<lparr>crs_Auth = None, crs_EnableAutoApproval = False, crs_EnableDriftDetection = False,
      crs_Plan = \<lparr>plr_Name = [], plr_Revision = []\<rparr>, crs_ProviderRef = None,
      crs_WriteConnectionSecretToRef = None, crs_Variables = None, crs_ValueFrom = [],
      crs_TerraformVersion = []\<rparr>"

definition empty_cloudresource_status :: CloudResourceStatus where
  "empty_cloudresource_status =
     \<lparr>crst_Common = empty_common_status, crst_ConfigurationName = [],
      crst_ConfigurationStatus = empty_configuration_status, crst_Costs = None,
      crst_Resources = None, crst_ResourceStatus = UnknownResourceStatus,
      crst_UpdateAvailable = []\<rparr>"

definition NewCloudResource :: "string \<Rightarrow> string \<Rightarrow> CloudResource" where
  "NewCloudResource namespace name =
     \<lparr>cr_Type = \<lparr>tm_Kind = CloudResourceKind, tm_APIVersion = SchemeGroupVersion\<rparr>,
      cr_Meta = named_meta namespace name,
      cr_Spec = empty_cloudresource_spec,
      cr_Status = empty_cloudresource_status\<rparr>"

definition CloudResource_annotation :: "CloudResource \<Rightarrow> string \<Rightarrow> string" where
  "CloudResource_annotation c k = gomap_get (om_Annotations (cr_Meta c)) k"

definition CloudResource_HasRetryableAnnotation :: "CloudResource \<Rightarrow> bool" where
  "CloudResource_HasRetryableAnnotation c =
     (if om_Annotations (cr_Meta c) = None then False
      else gomap_find (om_Annotations (cr_Meta c)) RetryAnnotation \<noteq> None)"

definition CloudResource_IsRetryableValid :: "CloudResource \<Rightarrow> bool" where
  "CloudResource_IsRetryableValid c =
     (if om_Annotations (cr_Meta c) = None then False
      else (case gomap_find (om_Annotations (cr_Meta c)) RetryAnnotation of
              None \<Rightarrow> False
            | Some retryable \<Rightarrow> ParseInt64 retryable \<noteq> None))"

definition CloudResource_IsRetryable :: "CloudResource \<Rightarrow> bool" where
  "CloudResource_IsRetryable c =
     (if om_Annotations (cr_Meta c) = None then False
      else if CloudResource_annotation c RetryAnnotation = [] then False
      else (case st_LastReconcile (crst_Common (cr_Status c)) of
              None \<Rightarrow> False
            | Some l \<Rightarrow>
                if lr_Time l = 0 then False
                else (case ParseInt64 (CloudResource_annotation c RetryAnnotation) of
                        None \<Rightarrow> False
                      | Some timestamp \<Rightarrow> Unix timestamp > lr_Time l)))"

definition CloudResource_HasApproval :: "CloudResource \<Rightarrow> bool" where
  "CloudResource_HasApproval c \<longleftrightarrow> CloudResource_annotation c ApplyAnnotation = ''true''"

definition CloudResource_NeedsApproval :: "CloudResource \<Rightarrow> bool" where
  "CloudResource_NeedsApproval c \<longleftrightarrow> CloudResource_annotation c ApplyAnnotation = ''false''"

definition CloudResource_GetTerraformConfigSecretName :: "CloudResource \<Rightarrow> string" where
  "CloudResource_GetTerraformConfigSecretName c = ''config-'' @ om_UID (cr_Meta c)"

definition CloudResource_GetTerraformStateSecretName :: "CloudResource \<Rightarrow> string" where
  "CloudResource_GetTerraformStateSecretName c = ''tfstate-default-'' @ om_UID (cr_Meta c)"

definition CloudResource_GetTerraformPolicySecretName :: "CloudResource \<Rightarrow> string" where
  "CloudResource_GetTerraformPolicySecretName c = ''policy-'' @ om_UID (cr_Meta c)"

definition CloudResource_GetTerraformCostSecretName :: "CloudResource \<Rightarrow> string" where
  "CloudResource_GetTerraformCostSecretName c = ''costs-'' @ om_UID (cr_Meta c)"

section \<open>Revisions\<close>

definition RevisionKind :: string where
  "RevisionKind = ''Revision''"

definition NewRevision :: "string \<Rightarrow> Revision" where
  "NewRevision name =
     \<lparr>rv_Type = \<lparr>tm_Kind = RevisionKind, tm_APIVersion = SchemeGroupVersion\<rparr>,
      rv_Meta = named_meta [] name,
      rv_Spec = \<lparr>rvs_Configuration = empty_configuration_spec, rvs_Dependencies = [],
        rvs_Inputs = [], rvs_Plan = \<lparr>rd_Name = [], rd_Description = [], rd_Categories = [],
          rd_ChangeLog = [], rd_Revision = []\<rparr>\<rparr>,
      rv_Status = \<lparr>rvst_Common = empty_common_status, rvst_InUse = 0\<rparr>\<rparr>"

text \<open>
  The loop over the inputs of \<open>NewCloudResourceFromRevision\<close>: a missing default of a required
  input (and an input is required unless it says otherwise) becomes a placeholder. A default
  value that decodes to nil is the JSON null.
\<close>

fun revision_values ::
  "Libs \<Rightarrow> RevisionSpec \<Rightarrow> (string \<rightharpoonup> json) \<Rightarrow> RevisionInput list \<Rightarrow> gerror + (string \<rightharpoonup> json)" where
  "revision_values lib spec values [] = Inr values"
| "revision_values lib spec values (v # vs) =
     (if ri_Default v = None
      then revision_values lib spec
             (if (case ri_Required v of None \<Rightarrow> True | Some b \<Rightarrow> b)
              then values(ri_Key v \<mapsto> JStr ''CHANGE_ME'') else values) vs
      else (case GetInputDefaultValue lib spec (ri_Key v) of
              Inl err \<Rightarrow> Inl err
            | Inr (val, found) \<Rightarrow>
                revision_values lib spec
                  (if found then values(ri_Key v \<mapsto> (case val of None \<Rightarrow> JNull | Some x \<Rightarrow> x)) else values) vs))"

definition NewCloudResourceFromRevision :: "Libs \<Rightarrow> Revision \<Rightarrow> gerror + CloudResource" where
  "NewCloudResourceFromRevision lib revision =
     (let spec = rv_Spec revision;
          base = NewCloudResource [] [];
          named = base\<lparr>cr_Meta := (cr_Meta base)\<lparr>om_Name := om_Name (rv_Meta revision)\<rparr>,
            cr_Spec := (cr_Spec base)
              \<lparr>crs_Plan := \<lparr>plr_Name = rd_Name (rvs_Plan spec), plr_Revision = rd_Revision (rvs_Plan spec)\<rparr>,
               crs_ProviderRef := cs_ProviderRef (rvs_Configuration spec),
               crs_WriteConnectionSecretToRef := cs_WriteConnectionSecretToRef (rvs_Configuration spec)\<rparr>\<rparr>
      in case revision_values lib spec Map.empty (rvs_Inputs spec) of
           Inl err \<Rightarrow> Inl err
         | Inr values \<Rightarrow>
             if values = Map.empty then Inr named
             else (case lib_JSONEncode lib values of
                     Inl err \<Rightarrow> Inl err
                   | Inr raw \<Rightarrow> Inr (named\<lparr>cr_Spec := (cr_Spec named)
                       \<lparr>crs_Variables := Some \<lparr>re_Raw = raw\<rparr>\<rparr>\<rparr>)))"

section \<open>Plans and contexts\<close>

fun PlanList_GetItem :: "Plan list \<Rightarrow> string \<Rightarrow> Plan option" where
  "PlanList_GetItem [] name = None"
| "PlanList_GetItem (p # ps) name =
     (if om_Name (pln_Meta p) = name then Some p else PlanList_GetItem ps name)"

definition ContextKind :: string where
  "ContextKind = ''Context''"

definition ContextDescription :: string where
  "ContextDescription = ''description''"

definition ContextValue :: string where
  "ContextValue = ''value''"

definition NewContext :: "string \<Rightarrow> Context" where
  "NewContext name =
     \<lparr>ctx_Type = \<lparr>tm_Kind = ContextKind, tm_APIVersion = SchemeGroupVersion\<rparr>,
      ctx_Meta = named_meta [] name, ctx_Spec = \<lparr>ctx_Variables = None\<rparr>,
      ctx_Status = empty_common_status\<rparr>"

fun ContextList_HasItem :: "Context list \<Rightarrow> string \<Rightarrow> bool" where
  "ContextList_HasItem [] name = False"
| "ContextList_HasItem (c # cs) name =
     (if om_Name (ctx_Meta c) = name then True else ContextList_HasItem cs name)"

fun ContextList_GetItem :: "Context list \<Rightarrow> string \<Rightarrow> Context option" where
  "ContextList_GetItem [] name = None"
| "ContextList_GetItem (c # cs) name =
     (if om_Name (ctx_Meta c) = name then Some c else ContextList_GetItem cs name)"

definition ContextList_Merge :: "Context list \<Rightarrow> Context list \<Rightarrow> Context list" where
  "ContextList_Merge c items =
     (if c = [] then items
      else c @ filter (\<lambda>x. \<not> ContextList_HasItem c (om_Name (ctx_Meta x))) items)"

section \<open>Versions\<close>

text \<open>
  The semantic version library: parsing, the order, the text a version was parsed from and the
  text of the next patch version.
\<close>

record 'v Semver =
  sv_NewVersion :: "string \<Rightarrow> gerror + 'v"
  sv_LessThan :: "'v \<Rightarrow> 'v \<Rightarrow> bool"
  sv_Original :: "'v \<Rightarrow> string"
  sv_IncPatch :: "'v \<Rightarrow> string"

text \<open>
  \<open>sort.Sort\<close>: the insertion sort the library uses on up to twelve elements; each element moves
  to the left past those it is less than. On longer slices the library may order versions that
  are equal, such as \<open>1.0.0\<close> and \<open>v1.0.0\<close>, differently. The sorted prefix is kept in reverse.
\<close>

fun sort_insert :: "('a \<Rightarrow> 'a \<Rightarrow> bool) \<Rightarrow> 'a \<Rightarrow> 'a list \<Rightarrow> 'a list" where
  "sort_insert lt x [] = [x]"
| "sort_insert lt x (y # ys) = (if lt x y then y # sort_insert lt x ys else x # y # ys)"

fun sort_from :: "('a \<Rightarrow> 'a \<Rightarrow> bool) \<Rightarrow> 'a list \<Rightarrow> 'a list \<Rightarrow> 'a list" where
  "sort_from lt acc [] = rev acc"
| "sort_from lt acc (x # xs) = sort_from lt (sort_insert lt x acc) xs"

fun parse_versions :: "'v Semver \<Rightarrow> string list \<Rightarrow> gerror + 'v list" where
  "parse_versions sv [] = Inr []"
| "parse_versions sv (r # rs) =
     (case sv_NewVersion sv r of
        Inl err \<Rightarrow> Inl err
      | Inr v \<Rightarrow> (case parse_versions sv rs of Inl err \<Rightarrow> Inl err | Inr vs \<Rightarrow> Inr (v # vs)))"

definition SortSemverVersions :: "'v Semver \<Rightarrow> string list \<Rightarrow> gerror + string list" where
  "SortSemverVersions sv versions =
     (case parse_versions sv versions of
        Inl err \<Rightarrow> Inl err
      | Inr vs \<Rightarrow> Inr (map (sv_Original sv) (sort_from (sv_LessThan sv) [] vs)))"

text \<open>The latest of no versions is an index out of range.\<close>

definition LatestSemverVersion :: "'v Semver \<Rightarrow> string list \<Rightarrow> string go" where
  "LatestSemverVersion sv versions =
     (case SortSemverVersions sv versions of
        Inl err \<Rightarrow> Err err
      | Inr [] \<Rightarrow> Panic
      | Inr (v # vs) \<Rightarrow> Ok (last (v # vs)))"

definition VersionLessThan :: "'v Semver \<Rightarrow> string \<Rightarrow> string \<Rightarrow> gerror + bool" where
  "VersionLessThan sv version other =
     (case sv_NewVersion sv version of
        Inl err \<Rightarrow> Inl err
      | Inr sem \<Rightarrow>
          (case sv_NewVersion sv other of
             Inl err \<Rightarrow> Inl err
           | Inr otherSem \<Rightarrow> Inr (sv_LessThan sv sem otherSem)))"

definition GetVersionIncrement :: "'v Semver \<Rightarrow> string \<Rightarrow> gerror + string" where
  "GetVersionIncrement sv version =
     (case sv_NewVersion sv version of Inl err \<Rightarrow> Inl err | Inr sem \<Rightarrow> Inr (sv_IncPatch sv sem))"

text \<open>
  What the code relies on: a version remembers its text, and less-than is a strict weak order.
\<close>

definition semver_laws :: "'v Semver \<Rightarrow> bool" where
  "semver_laws sv \<longleftrightarrow>
     (\<forall>s v. sv_NewVersion sv s = Inr v \<longrightarrow> sv_Original sv v = s) \<and>
     (\<forall>u v. sv_LessThan sv u v \<longrightarrow> \<not> sv_LessThan sv v u) \<and>
     (\<forall>u v w. sv_LessThan sv u w \<longrightarrow> sv_LessThan sv u v \<or> sv_LessThan sv v w)"

lemma sort_insert_set [simp]: "set (sort_insert lt x ys) = insert x (set ys)"
  by (induction ys) auto

lemma sort_from_set [simp]: "set (sort_from lt acc xs) = set acc \<union> set xs"
  by (induction xs arbitrary: acc) auto

lemma length_sort_insert [simp]: "length (sort_insert lt x ys) = Suc (length ys)"
  by (induction ys) auto

lemma length_sort_from [simp]: "length (sort_from lt acc xs) = length acc + length xs"
  by (induction xs arbitrary: acc) auto

text \<open>The reversed prefix never has an element that is less than a later one.\<close>

lemma sort_insert_sorted:
  assumes asym: "\<And>u v. lt u v \<Longrightarrow> \<not> lt v u"
    and weak: "\<And>u v w. lt u w \<Longrightarrow> lt u v \<or> lt v w"
    and "sorted_wrt (\<lambda>a b. \<not> lt a b) ys"
  shows "sorted_wrt (\<lambda>a b. \<not> lt a b) (sort_insert lt x ys)"
  using assms(3)
proof (induction ys)
  case (Cons y ys)
  then show ?case using asym weak by (auto; blast)
qed simp

lemma sort_from_sorted:
  assumes "\<And>u v. lt u v \<Longrightarrow> \<not> lt v u" and "\<And>u v w. lt u w \<Longrightarrow> lt u v \<or> lt v w"
    and "sorted_wrt (\<lambda>a b. \<not> lt a b) acc"
  shows "sorted_wrt (\<lambda>a b. \<not> lt b a) (sort_from lt acc xs)"
  using assms(3)
proof (induction xs arbitrary: acc)
  case (Cons x xs)
  have "sorted_wrt (\<lambda>a b. \<not> lt a b) (sort_insert lt x acc)"
    by (rule sort_insert_sorted) (use assms(1,2) Cons.prems in blast)+
  with Cons.IH show ?case by simp
qed (simp add: sorted_wrt_rev)

lemma parse_versions_Inr:
  "parse_versions sv rs = Inr vs \<longleftrightarrow> list_all2 (\<lambda>r v. sv_NewVersion sv r = Inr v) rs vs"
proof (induction rs arbitrary: vs)
  case (Cons r rs)
  have fun_like: "vs' = vs''" if "list_all2 (\<lambda>r v. sv_NewVersion sv r = Inr v) rs vs'"
    "list_all2 (\<lambda>r v. sv_NewVersion sv r = Inr v) rs vs''" for vs' vs''
    using that Cons.IH by (metis sum.inject(2))
  with Cons.IH show ?case by (cases vs) (auto split: sum.splits)
qed auto

lemma parse_versions_Inl:
  "(\<exists>err. parse_versions sv rs = Inl err) \<longleftrightarrow> (\<exists>r \<in> set rs. \<exists>err. sv_NewVersion sv r = Inl err)"
  by (induction rs) (auto split: sum.splits)

lemma sorted_wrt_last: "sorted_wrt R xs \<Longrightarrow> x \<in> set xs \<Longrightarrow> x = last xs \<or> R x (last xs)"
  by (induction xs) auto

lemma LatestSemverVersion_spec:
  assumes laws: "semver_laws sv" and ok: "LatestSemverVersion sv rs = Ok r"
  shows "r \<in> set rs \<and> (\<exists>v. sv_NewVersion sv r = Inr v \<and>
    (\<forall>s \<in> set rs. \<exists>u. sv_NewVersion sv s = Inr u \<and> \<not> sv_LessThan sv v u))"
proof -
  obtain vs where p: "parse_versions sv rs = Inr vs" and l: "sort_from (sv_LessThan sv) [] vs \<noteq> []"
    and r: "r = last (map (sv_Original sv) (sort_from (sv_LessThan sv) [] vs))"
    using ok by (cases "parse_versions sv rs")
      (auto simp: LatestSemverVersion_def SortSemverVersions_def split: list.splits)
  let ?l = "sort_from (sv_LessThan sv) [] vs"
  have all: "list_all2 (\<lambda>r v. sv_NewVersion sv r = Inr v) rs vs" using p by (simp add: parse_versions_Inr)
  have orig: "sv_Original sv v = s" if "sv_NewVersion sv s = Inr v" for s v
    using laws that by (simp add: semver_laws_def)
  have mem: "\<exists>s \<in> set rs. sv_NewVersion sv s = Inr v" if "v \<in> set vs" for v
    using all that unfolding list_all2_conv_all_nth by (metis in_set_conv_nth)
  have mem': "\<exists>v \<in> set vs. sv_NewVersion sv s = Inr v" if "s \<in> set rs" for s
    using all that unfolding list_all2_conv_all_nth by (metis in_set_conv_nth)
  have "sorted_wrt (\<lambda>a b. \<not> sv_LessThan sv b a) ?l"
    using laws by (intro sort_from_sorted) (auto simp: semver_laws_def)
  moreover have "\<not> sv_LessThan sv (last ?l) (last ?l)" using laws by (metis semver_laws_def)
  moreover have "set ?l = set vs" by simp
  ultimately have top: "\<not> sv_LessThan sv (last ?l) u" if "u \<in> set vs" for u
    using that sorted_wrt_last [of _ ?l u] by auto
  have "last ?l \<in> set vs" using l last_in_set [OF l] by simp
  then obtain s where s: "s \<in> set rs" "sv_NewVersion sv s = Inr (last ?l)" using mem by blast
  with orig have "r = s" using l by (simp add: r last_map)
  with s top mem' show ?thesis by blast
qed

end
