(* ===== verification/Controller_Common.thy ===== *)
theory Controller_Common
  imports Resources Api_Cloud Config_Effects
begin

text \<open>
  What the smaller controllers share: the ways an ensure function ends with a condition of its
  resource, the read at the start of every \<open>Reconcile\<close>, and the effects of these steps.
\<close>

definition fail_on ::
  "'w client \<Rightarrow> 'o Object \<Rightarrow> ConditionManager \<Rightarrow> gerror \<Rightarrow> string \<Rightarrow> farg list \<Rightarrow> ('w, 'o, 't) ensure" where
  "fail_on cc ob cond err message args =
     do { cond_Failed cc ob cond (Some err) message args; State_Monad.return (Err err) }"

definition require_on ::
  "'w client \<Rightarrow> 'o Object \<Rightarrow> ConditionManager \<Rightarrow> string \<Rightarrow> farg list \<Rightarrow> Result go \<Rightarrow> ('w, 'o, 't) ensure" where
  "require_on cc ob cond message args result =
     do { cond_ActionRequired cc ob cond message args; State_Monad.return result }"

text \<open>The beginning of every \<open>Reconcile\<close>: a resource that is gone needs nothing.\<close>

definition with_resource ::
  "'w client \<Rightarrow> kind \<Rightarrow> (object \<Rightarrow> 'a option) \<Rightarrow> string \<Rightarrow> string \<Rightarrow> ('a \<Rightarrow> ('w, 'o, 't) ensure) \<Rightarrow>
   ('w, 'o, 't) ensure" where
  "with_resource cc k as namespace name handle =
     do { r \<leftarrow> request (cc_Get cc k namespace name);
          case r of
            Inl err \<Rightarrow>
              if IsNotFound err then State_Monad.return (Ok Result0) else State_Monad.return (Err err)
          | Inr y \<Rightarrow>
              (case as y of
                 None \<Rightarrow> State_Monad.return (Err decode_error)
               | Some x \<Rightarrow> handle x) }"

text \<open>\<open>c.recorder.Event\<close> on the resource in memory.\<close>

definition record_event ::
  "'o Object \<Rightarrow> EventType \<Rightarrow> string \<Rightarrow> string \<Rightarrow> ('w, 'o, 't, unit) prog" where
  "record_event ob t reason message =
     do { x \<leftarrow> gets resource; record_effect (Event (ob_Embed ob x) t reason message) }"

text \<open>\<open>RequeueUnless\<close> on the outcome of a run; a panic is not an outcome it sees.\<close>

definition requeue_unless :: "time \<Rightarrow> Result go \<Rightarrow> Result go" where
  "requeue_unless d r =
     (case r of Panic \<Rightarrow> Panic | Err e \<Rightarrow> Err e | Ok result \<Rightarrow> RequeueUnless result None d)"

lemma wp_with_resource:
  assumes "\<And>r w. (\<nexists>x. r = Ok x \<and> x \<noteq> Result0) \<Longrightarrow> Q r (s\<lparr>world := w\<rparr>)"
    and "\<And>x y w. fst (cc_Get cc k ns n (world s)) = Inr y \<Longrightarrow> as y = Some x \<Longrightarrow>
           wp (handle x) Q (s\<lparr>world := w\<rparr>)"
  shows "wp (with_resource cc k as ns n handle) Q s"
  using assms by (auto simp: with_resource_def wp_request split: sum.splits option.splits)

lemma logs_fail_on [logs_intros]:
  "(\<And>x t r m. E (Event x t r m)) \<Longrightarrow> logs E (fail_on cc ob cond err m args)"
  unfolding fail_on_def cond_defs by (intro logs_intros)

lemma logs_require_on [logs_intros]:
  "(\<And>x t r m. E (Event x t r m)) \<Longrightarrow> logs E (require_on cc ob cond m args res)"
  unfolding require_on_def cond_defs by (intro logs_intros)

lemma logs_record_event [logs_intros]:
  "(\<And>x t r m. E (Event x t r m)) \<Longrightarrow> logs E (record_event ob t r m)"
  unfolding record_event_def by (intro logs_intros)

lemma logs_with_resource [logs_intros]:
  "(\<And>x. logs E (handle x)) \<Longrightarrow> logs E (with_resource cc k as ns n handle)"
  unfolding with_resource_def by (intro logs_intros)

lemma stopping_fail_on [stopping_intros]: "stopping (fail_on cc ob cond err m args)"
  unfolding fail_on_def by (intro stopping_intros) simp

lemma stopping_require_on [stopping_intros]:
  "\<not> continues r \<Longrightarrow> stopping (require_on cc ob cond m args r)"
  unfolding require_on_def by (intro stopping_intros)

end
