(* ===== verification/Drift.thy ===== *)
theory Drift
  imports Controller_Common
begin

text \<open>
  The drift controller (\<open>pkg/controller/drift\<close>): it looks at configurations that have been
  applied and left alone for long enough, and marks them with a fresh drift annotation, which
  makes the configuration controller plan again.
\<close>

section \<open>The controller\<close>

text \<open>The threshold is a float in the code; here it is exact.\<close>

record 'w DriftController =
  dc_cc :: "'w client"
  dc_CheckInterval :: time
  dc_DriftInterval :: time
  dc_DriftThreshold :: rat

text \<open>The checks on the settings at the start of \<open>Add\<close>.\<close>

definition drift_Add_valid :: "'w DriftController \<Rightarrow> gerror option" where
  "drift_Add_valid c =
     (if dc_CheckInterval c \<le> 0 then Some (ErrMsg ''interval must be greater than 0'')
      else if dc_DriftInterval c \<le> 0 then Some (ErrMsg ''drift interval must be greater than 0'')
      else if dc_DriftThreshold c < 0
      then Some (ErrMsg ''max running must be greater than or equal to 0'')
      else None)"

text \<open>The predicate on update events; created and deleted configurations are not looked at.\<close>

definition drift_update_event :: "Configuration \<Rightarrow> Configuration \<Rightarrow> bool" where
  "drift_update_event old new =
     (if \<not> cs_EnableDriftDetection (cfg_Spec new) then False
      else if om_DeletionTimestamp (cfg_Meta new) \<noteq> None \<and> om_DeletionTimestamp (cfg_Meta new) \<noteq> Some 0
      then False
      else if om_Annotations (cfg_Meta new) \<noteq> om_Annotations (cfg_Meta old) then False
      else True)"

section \<open>Ensure functions\<close>

text \<open>Whether the loop counts a configuration as running.\<close>

definition counts_running :: "Configuration \<Rightarrow> bool" where
  "counts_running x =
     (let st = cst_Common (cfg_Status x) in
      if length (st_Conditions st) = 0 then False
      else (case GetCondition st ConditionTerraformPlan of
              Some cond \<Rightarrow> InProgress cond
            | None \<Rightarrow>
                (case GetCondition st ConditionTerraformApply of
                   Some cond \<Rightarrow> InProgress cond
                 | None \<Rightarrow> False)))"

fun total_running :: "Configuration list \<Rightarrow> nat" where
  "total_running [] = 0"
| "total_running (x # xs) = (if counts_running x then Suc (total_running xs) else total_running xs)"

definition total_allowed :: "rat \<Rightarrow> nat \<Rightarrow> int" where
  "total_allowed threshold n = \<lceil>of_nat n * threshold\<rceil>"

text \<open>
  The cases of the switch, in order: whether one of them holds, given that both conditions are
  there.
\<close>

definition recently_changed :: "time \<Rightarrow> time \<Rightarrow> Condition \<Rightarrow> bool" where
  "recently_changed interval now cond \<longleftrightarrow> cd_LastTransitionTime cond + interval > now"

definition not_ready_for_drift ::
  "'w DriftController \<Rightarrow> Configuration \<Rightarrow> Configuration list \<Rightarrow> time \<Rightarrow> bool" where
  "not_ready_for_drift c configuration items now =
     (let st = cst_Common (cfg_Status configuration); g = om_Generation (cfg_Meta configuration) in
      if \<not> cs_EnableDriftDetection (cfg_Spec configuration) \<or> om_DeletionTimestamp (cfg_Meta configuration) \<noteq> None
      then True
      else if length (st_Conditions st) = 0 then True
      else (case GetCondition st ConditionTerraformPlan of
              None \<Rightarrow> True
            | Some plan \<Rightarrow>
                (case GetCondition st ConditionTerraformApply of
                   None \<Rightarrow> True
                 | Some applied \<Rightarrow>
                     if IsFailed plan g then True
                     else if IsFailed applied g then True
                     else if InProgress plan then True
                     else if InProgress applied then True
                     else if \<not> IsComplete plan g then True
                     else if \<not> IsComplete applied g then True
                     else if recently_changed (dc_DriftInterval c) now plan then True
                     else if recently_changed (dc_DriftInterval c) now applied then True
                     else if int (total_running items) \<ge> total_allowed (dc_DriftThreshold c) (length items)
                     then True
                     else False)))"

definition ensureConfigurationReadyForDrift ::
  "'w DriftController \<Rightarrow> ('w, Configuration, 't) ensure" where
  "ensureConfigurationReadyForDrift c =
     do { r \<leftarrow> list_objects (dc_cc c) KConfiguration as_Configuration [InNamespace []];
          case r of
            Inl err \<Rightarrow> State_Monad.return (Err err)
          | Inr items \<Rightarrow>
              do { configuration \<leftarrow> gets resource;
                   now \<leftarrow> gets (\<lambda>s. cc_Now (dc_cc c) (world s));
                   if not_ready_for_drift c configuration items now
                   then State_Monad.return (Ok (requeue_after (dc_CheckInterval c)))
                   else State_Monad.return (Ok Result0) } }"

definition mark_drift :: "time \<Rightarrow> Configuration \<Rightarrow> Configuration" where
  "mark_drift now x =
     x\<lparr>cfg_Meta := (cfg_Meta x)\<lparr>om_Annotations := Some
         ((case om_Annotations (cfg_Meta x) of None \<Rightarrow> Map.empty | Some m \<Rightarrow> m)
            (DriftAnnotation \<mapsto> Sprintf ''%d'' [FInt (now div second)]))\<rparr>\<rparr>"

definition drift_ensureDriftDetection :: "'w DriftController \<Rightarrow> ('w, Configuration, 't) ensure" where
  "drift_ensureDriftDetection c =
     do { original \<leftarrow> gets resource;
          now \<leftarrow> gets (\<lambda>s. cc_Now (dc_cc c) (world s));
          modify_resource (mark_drift now);
          r \<leftarrow> write_back (dc_cc c) Configuration_Object (Patch (OConfiguration original));
          case r of
            Some err \<Rightarrow>
              do { record_event Configuration_Object EventTypeWarning ''DriftDetection''
                     ''Failed to patch configuration with drift detection annotation'';
                   State_Monad.return (Err err) }
          | None \<Rightarrow>
              do { record_event Configuration_Object EventTypeNormal ''DriftDetection''
                     ''Triggered drift detection on configuration'';
                   State_Monad.return (Ok Result0) } }"

definition drift_chain :: "'w DriftController \<Rightarrow> ('w, Configuration, 't) ensure list" where
  "drift_chain c =
     [ensureConfigurationReadyForDrift c,
      drift_ensureDriftDetection c,
      RequeueAfter (dc_CheckInterval c)]"

definition drift_Reconcile ::
  "'w DriftController \<Rightarrow> string \<Rightarrow> string \<Rightarrow> ('w, Configuration, 't) ensure" where
  "drift_Reconcile c namespace name =
     with_resource (dc_cc c) KConfiguration as_Configuration namespace name
       (\<lambda>configuration. do {
          modify_resource (\<lambda>_. configuration);
          Run (dc_cc c) Configuration_Object (drift_chain c) })"

end
