(* ===== verification/Expiry.thy ===== *)
theory Expiry
  imports Controller_Common
begin

text \<open>
  The expire controller (\<open>pkg/controller/expire\<close>): it deletes a revision that is old enough, is
  not the latest of its plan and is used by no cloud resource.
\<close>

record ('w, 'v) ExpireController =
  ec_cc :: "'w client"
  ec_sv :: "'v Semver"
  ec_RevisionExpiration :: time

text \<open>The state of a run: the revisions of the plan.\<close>

record estate =
  es_revisions :: "Revision list option"

definition revision_plan :: "Revision \<Rightarrow> RevisionDefinition" where
  "revision_plan x = rvs_Plan (rv_Spec x)"

definition ensureExpiration :: "('w, 'v) ExpireController \<Rightarrow> ('w, Revision, estate) ensure" where
  "ensureExpiration c =
     do { revision \<leftarrow> gets resource;
          now \<leftarrow> gets (\<lambda>s. cc_Now (ec_cc c) (world s));
          if now - om_CreationTimestamp (rv_Meta revision) < ec_RevisionExpiration c
          then State_Monad.return (Err ErrIgnore)
          else State_Monad.return (Ok Result0) }"

definition ensureMultipleRevisions :: "('w, 'v) ExpireController \<Rightarrow> ('w, Revision, estate) ensure" where
  "ensureMultipleRevisions c =
     do { revision \<leftarrow> gets resource;
          r \<leftarrow> list_objects (ec_cc c) KRevision as_Revision
                 [MatchingLabels [(RevisionPlanNameLabel, rd_Name (revision_plan revision))]];
          case r of
            Inl err \<Rightarrow> State_Monad.return (Err err)
          | Inr items \<Rightarrow>
              do { modify_state (\<lambda>s. s\<lparr>es_revisions := Some items\<rparr>);
                   if length items \<le> 1 then State_Monad.return (Err ErrIgnore)
                   else State_Monad.return (Ok Result0) } }"

definition ensureNotLatest :: "('w, 'v) ExpireController \<Rightarrow> ('w, Revision, estate) ensure" where
  "ensureNotLatest c =
     do { revision \<leftarrow> gets resource;
          st \<leftarrow> gets rstate;
          case es_revisions st of
            None \<Rightarrow> State_Monad.return Panic
          | Some items \<Rightarrow>
              (case LatestSemverVersion (ec_sv c) (map (rd_Revision \<circ> revision_plan) items) of
                 Panic \<Rightarrow> State_Monad.return Panic
               | Err err \<Rightarrow> State_Monad.return (Err err)
               | Ok latest \<Rightarrow>
                   if latest = rd_Revision (revision_plan revision)
                   then State_Monad.return (Err ErrIgnore)
                   else State_Monad.return (Ok Result0)) }"

text \<open>The labels by which the cloud resources of a revision are found.\<close>

definition revision_selector :: "Revision \<Rightarrow> (string \<times> string) list" where
  "revision_selector revision =
     [(CloudResourcePlanNameLabel, rd_Name (revision_plan revision)),
      (CloudResourceRevisionLabel, rd_Revision (revision_plan revision))]"

definition ensureZeroCloudResources :: "('w, 'v) ExpireController \<Rightarrow> ('w, Revision, estate) ensure" where
  "ensureZeroCloudResources c =
     do { revision \<leftarrow> gets resource;
          r \<leftarrow> list_objects (ec_cc c) KCloudResource as_CloudResource
                 [MatchingLabels (revision_selector revision)];
          case r of
            Inl err \<Rightarrow> State_Monad.return (Err err)
          | Inr items \<Rightarrow>
              if length items > 0 then State_Monad.return (Err ErrIgnore)
              else State_Monad.return (Ok Result0) }"

definition ensureDeletion :: "('w, 'v) ExpireController \<Rightarrow> ('w, Revision, estate) ensure" where
  "ensureDeletion c =
     do { revision \<leftarrow> gets resource;
          record_event Revision_Object EventTypeNormal ''ExpiringRevision''
            (Sprintf ''Expiring the revision %s'' [FStr (rd_Revision (revision_plan revision))]);
          r \<leftarrow> perform (ec_cc c) Delete (ORevision revision);
          case r of
            Inl err \<Rightarrow> State_Monad.return (Err err)
          | Inr _ \<Rightarrow> State_Monad.return (Ok Result0) }"

definition expire_chain :: "('w, 'v) ExpireController \<Rightarrow> ('w, Revision, estate) ensure list" where
  "expire_chain c =
     [ensureExpiration c,
      ensureMultipleRevisions c,
      ensureNotLatest c,
      ensureZeroCloudResources c,
      ensureDeletion c]"

text \<open>The handler on the revision it read.\<close>

definition expire_revision :: "('w, 'v) ExpireController \<Rightarrow> Revision \<Rightarrow> ('w, Revision, estate) ensure" where
  "expire_revision c revision =
     (if om_DeletionTimestamp (rv_Meta revision) \<noteq> None
      then State_Monad.return (Ok (requeue_after (60 * minute)))
      else do {
        modify_resource (\<lambda>_. revision);
        modify_state (\<lambda>_. \<lparr>es_revisions = None\<rparr>);
        r \<leftarrow> Run (ec_cc c) Revision_Object (expire_chain c);
        State_Monad.return (requeue_unless (60 * minute) r) })"

definition expire_Reconcile ::
  "('w, 'v) ExpireController \<Rightarrow> string \<Rightarrow> string \<Rightarrow> ('w, Revision, estate) ensure" where
  "expire_Reconcile c namespace name =
     with_resource (ec_cc c) KRevision as_Revision namespace name (expire_revision c)"

end
