(* ===== verification/Plan_Revision.thy ===== *)
theory Plan_Revision
  imports Controller_Common
begin

text \<open>
  The plan controller (\<open>pkg/controller/plan\<close>) and the revision controller
  (\<open>pkg/controller/revision\<close>): a plan is the list of the revisions of its name, kept by the
  revision controller; the plan controller shows the latest of them and deletes an empty plan.
\<close>

section \<open>Plans\<close>

record ('w, 'v) PlanController =
  pc_cc :: "'w client"
  pc_sv :: "'v Semver"

definition plan_controllerName :: string where
  "plan_controllerName = ''plan.terraform.appvia.io''"

text \<open>The loop that finds the revision of the latest version: the last one that has it.\<close>

fun last_revision :: "string \<Rightarrow> PlanRevision \<Rightarrow> PlanRevision list \<Rightarrow> PlanRevision" where
  "last_revision latest revision [] = revision"
| "last_revision latest revision (x # xs) =
     last_revision latest (if plv_Revision x = latest then x else revision) xs"

definition ensureLatestOnPlan :: "('w, 'v) PlanController \<Rightarrow> Plan \<Rightarrow> ('w, Plan, unit) ensure" where
  "ensureLatestOnPlan c plan0 =
     (let cond = ConditionMgr Plan_Object plan0 ConditionReady True in
      do { plan \<leftarrow> gets resource;
           if length (pln_Revisions plan) \<le> 0 then State_Monad.return (Ok Result0)
           else (case LatestSemverVersion (pc_sv c) (ListRevisions plan) of
                   Panic \<Rightarrow> State_Monad.return Panic
                 | Err err \<Rightarrow>
                     require_on (pc_cc c) Plan_Object cond
                       ''Failed to sort the revision in plan: %s, error: %v''
                       [FStr (om_Name (pln_Meta plan)), FStr (Error err)] (Err ErrIgnore)
                 | Ok latest \<Rightarrow>
                     do { modify_resource (\<lambda>x. x\<lparr>pln_Status := (pln_Status x)\<lparr>plst_Latest :=
                            last_revision latest \<lparr>plv_Name = [], plv_Revision = []\<rparr> (pln_Revisions plan)\<rparr>\<rparr>);
                          State_Monad.return (Ok Result0) }) })"

definition ensurePlanDeleted :: "('w, 'v) PlanController \<Rightarrow> Plan \<Rightarrow> ('w, Plan, unit) ensure" where
  "ensurePlanDeleted c plan0 =
     (let cond = ConditionMgr Plan_Object plan0 ConditionReady True in
      do { plan \<leftarrow> gets resource;
           if length (pln_Revisions plan) \<le> 0
           then do { r \<leftarrow> perform (pc_cc c) Delete (OPlan plan);
                     case r of
                       Inl err \<Rightarrow>
                         fail_on (pc_cc c) Plan_Object cond err
                           ''Failed to delete plan, as it no longer has any revisions'' []
                     | Inr _ \<Rightarrow>
                         do { record_event Plan_Object EventTypeNormal ''DeletedPlan''
                                ''Plan has been deleted'';
                              State_Monad.return (Ok Result0) } }
           else State_Monad.return (Ok Result0) })"

definition plan_chain :: "('w, 'v) PlanController \<Rightarrow> Plan \<Rightarrow> ('w, Plan, unit) ensure list" where
  "plan_chain c plan =
     [EnsurePresent (pc_cc c) Plan_Object plan_controllerName,
      ensureLatestOnPlan c plan,
      ensurePlanDeleted c plan]"

definition reconcile_plan :: "('w, 'v) PlanController \<Rightarrow> Plan \<Rightarrow> ('w, Plan, unit) ensure" where
  "reconcile_plan c plan =
     do { modify_resource (\<lambda>_. plan);
          if IsDeletionCandidate Plan_Object plan_controllerName plan
          then Run (pc_cc c) Plan_Object [EnsureRemoved (pc_cc c) Plan_Object plan_controllerName]
          else do {
            now \<leftarrow> gets (\<lambda>s. cc_Now (pc_cc c) (world s));
            let registered = EnsureConditionsRegistered Plan_Object now DefaultPlanConditions plan;
            modify_resource (\<lambda>_. registered);
            Run (pc_cc c) Plan_Object (plan_chain c registered) } }"

definition plan_Reconcile ::
  "('w, 'v) PlanController \<Rightarrow> string \<Rightarrow> string \<Rightarrow> ('w, Plan, unit) ensure" where
  "plan_Reconcile c namespace name =
     with_resource (pc_cc c) KPlan as_Plan namespace name (reconcile_plan c)"

section \<open>Revisions\<close>

definition revision_controllerName :: string where
  "revision_controllerName = ''revision.terraform.appvia.io''"

definition plan_entry :: "Revision \<Rightarrow> PlanRevision" where
  "plan_entry revision =
     \<lparr>plv_Name = om_Name (rv_Meta revision), plv_Revision = rd_Revision (rvs_Plan (rv_Spec revision))\<rparr>"

text \<open>A plan that was not found is the empty struct with its name set.\<close>

definition unnamed_plan :: "string \<Rightarrow> Plan" where
  "unnamed_plan name = (NewPlan name)\<lparr>pln_Type := \<lparr>tm_Kind = [], tm_APIVersion = []\<rparr>\<rparr>"

definition revision_ensurePlanExists :: "'w client \<Rightarrow> Revision \<Rightarrow> ('w, Revision, unit) ensure" where
  "revision_ensurePlanExists cc revision0 =
     (let cond = ConditionMgr Revision_Object revision0 ConditionReady True in
      do { revision \<leftarrow> gets resource;
           let name = rd_Name (rvs_Plan (rv_Spec revision));
           let version = rd_Revision (rvs_Plan (rv_Spec revision));
           r \<leftarrow> GetIfExists cc KPlan as_Plan [] name;
           case r of
             Inl err \<Rightarrow>
               fail_on cc Revision_Object cond err
                 ''Failed to check if a configuration plan exists: %v'' [FStr (Error err)]
           | Inr None \<Rightarrow>
               do { w \<leftarrow> perform cc Create
                           (OPlan ((unnamed_plan name)\<lparr>pln_Revisions := [plan_entry revision]\<rparr>));
                    case w of
                      Inl err \<Rightarrow>
                        fail_on cc Revision_Object cond err
                          ''Failed to create a configuration plan: %v'' [FStr (Error err)]
                    | Inr _ \<Rightarrow> State_Monad.return (Ok RequeueImmediate) }
           | Inr (Some plan) \<Rightarrow>
               if HasRevision plan version then State_Monad.return (Ok Result0)
               else do { w \<leftarrow> perform cc (Patch (OPlan plan))
                                (OPlan (plan\<lparr>pln_Revisions := pln_Revisions plan @ [plan_entry revision]\<rparr>));
                         case w of
                           Inl err \<Rightarrow>
                             fail_on cc Revision_Object cond err
                               ''Failed to patch the configuration plan: %v'' [FStr (Error err)]
                         | Inr _ \<Rightarrow> State_Monad.return (Ok Result0) } })"

definition ensureInUseCount :: "'w client \<Rightarrow> Revision \<Rightarrow> ('w, Revision, unit) ensure" where
  "ensureInUseCount cc revision0 =
     (let cond = ConditionMgr Revision_Object revision0 ConditionReady True in
      do { revision \<leftarrow> gets resource;
           let plan = rvs_Plan (rv_Spec revision);
           r \<leftarrow> list_objects cc KCloudResource as_CloudResource
                  [MatchingLabels [(CloudResourcePlanNameLabel, rd_Name plan),
                                   (CloudResourceRevisionLabel, rd_Revision plan)]];
           case r of
             Inl err \<Rightarrow>
               fail_on cc Revision_Object cond err
                 ''Failed to list cloud resources: %v'' [FStr (Error err)]
           | Inr items \<Rightarrow>
               do { modify_resource (\<lambda>x. x\<lparr>rv_Status := (rv_Status x)\<lparr>rvst_InUse := int (length items)\<rparr>\<rparr>);
                    record_effect (SetGauge ''revision_in_use_total'' [rd_Name plan, rd_Revision plan]
                      (of_nat (length items)));
                    State_Monad.return (Ok Result0) } })"

definition ensureRevisionDeleted :: "'w client \<Rightarrow> Revision \<Rightarrow> ('w, Revision, unit) ensure" where
  "ensureRevisionDeleted cc revision0 =
     (let cond = ConditionMgr Revision_Object revision0 ConditionReady True in
      do { revision \<leftarrow> gets resource;
           let name = rd_Name (rvs_Plan (rv_Spec revision));
           let version = rd_Revision (rvs_Plan (rv_Spec revision));
           let done = (\<lambda>plan. do {
                 record_event Revision_Object EventTypeNormal ''RevisionRemoved''
                   (Sprintf ''Revision: %s removed from plan: %s''
                      [FStr name, FStr (om_Name (pln_Meta plan))]);
                 State_Monad.return (Ok Result0) });
           r \<leftarrow> GetIfExists cc KPlan as_Plan [] name;
           case r of
             Inl err \<Rightarrow>
               fail_on cc Revision_Object cond err
                 ''Failed to check for the plan (%s) existence'' [FStr name]
           | Inr None \<Rightarrow>
               do { record_event Revision_Object EventTypeNormal ''PlanNotFound''
                      (Sprintf ''Plan associated to revision: %s not found'' [FStr name]);
                    State_Monad.return (Ok Result0) }
           | Inr (Some plan) \<Rightarrow>
               if HasRevision plan version
               then do { w \<leftarrow> perform cc (Patch (OPlan plan)) (OPlan (RemoveRevision plan version));
                         case w of
                           Inl err \<Rightarrow>
                             fail_on cc Revision_Object cond err
                               ''Failed to remove the revision (%s) from the plan (%s)''
                               [FStr version, FStr (om_Name (pln_Meta plan))]
                         | Inr _ \<Rightarrow> done plan }
               else done plan })"

definition revision_chain :: "'w client \<Rightarrow> Revision \<Rightarrow> ('w, Revision, unit) ensure list" where
  "revision_chain cc revision =
     [EnsurePresent cc Revision_Object revision_controllerName,
      revision_ensurePlanExists cc revision,
      ensureInUseCount cc revision]"

definition reconcile_revision :: "'w client \<Rightarrow> Revision \<Rightarrow> ('w, Revision, unit) ensure" where
  "reconcile_revision cc revision =
     do { modify_resource (\<lambda>_. revision);
          if IsDeletionCandidate Revision_Object revision_controllerName revision
          then Run cc Revision_Object
                 [ensureRevisionDeleted cc revision,
                  EnsureRemoved cc Revision_Object revision_controllerName]
          else do {
            now \<leftarrow> gets (\<lambda>s. cc_Now cc (world s));
            let registered = EnsureConditionsRegistered Revision_Object now DefaultRevisionConditions revision;
            modify_resource (\<lambda>_. registered);
            r \<leftarrow> Run cc Revision_Object (revision_chain cc registered);
            State_Monad.return (requeue_unless (10 * minute) r) } }"

definition revision_Reconcile ::
  "'w client \<Rightarrow> string \<Rightarrow> string \<Rightarrow> ('w, Revision, unit) ensure" where
  "revision_Reconcile cc namespace name =
     with_resource cc KRevision as_Revision namespace name (reconcile_revision cc)"

end
