(* ===== verification/Providers.thy ===== *)
theory Providers
  imports Controller_Common Terraform_Jobs
begin

text \<open>
  The provider controller (\<open>pkg/controller/provider\<close>), which checks the credentials of a
  provider, and the preload controller (\<open>pkg/controller/preload\<close>), which runs the job that
  loads contextual data of an account.
\<close>

section \<open>Provider\<close>

text \<open>
  The checks on the keys of the secret, as the message of the first that fails. A key that is
  there with an empty value is not nil.
\<close>

definition missing :: "Secret \<Rightarrow> string \<Rightarrow> bool" where
  "missing secret k \<longleftrightarrow> gomap_find (sec_Data secret) k = None"

definition key_length :: "Secret \<Rightarrow> string \<Rightarrow> nat" where
  "key_length secret k = length (gomap_get (sec_Data secret) k)"

definition check_credentials :: "ProviderType \<Rightarrow> Secret \<Rightarrow> string option" where
  "check_credentials t secret =
     (if t = AzureProviderType \<or> t = AzureCloudStackProviderType then
        (if missing secret ''ARM_CLIENT_ID''
         then Some ''Provider secret (%s/%s) is missing the ARM_CLIENT_ID''
         else if missing secret ''ARM_CLIENT_SECRET''
         then Some ''Provider secret (%s/%s) is missing the ARM_CLIENT_SECRET''
         else if missing secret ''ARM_SUBSCRIPTION_ID''
         then Some ''Provider secret (%s/%s) is missing the ARM_SUBSCRIPTION_ID''
         else if missing secret ''ARM_TENANT_ID''
         then Some ''Provider secret (%s/%s) is missing the ARM_TENANT_ID''
         else None)
      else if t = GCPProviderType then
        (if missing secret ''GCLOUD_KEYFILE_JSON'' \<and> missing secret ''GOOGLE_APPLICATION_CREDENTIALS'' \<and>
            missing secret ''GOOGLE_CLOUD_KEYFILE_JSON'' \<and> missing secret ''GOOGLE_CREDENTIALS''
         then Some ''Provider secret (%s/%s) is missing the GOOGLE_APPLICATION_CREDENTIALS, GOOGLE_CREDENTIALS, GOOGLE_CLOUD_KEYFILE_JSON or GCLOUD_KEYFILE_JSON field''
         else None)
      else if t = AWSProviderType then
        (if key_length secret ''AWS_ACCESS_KEY_ID'' = 0
         then Some ''Provider secret (%s/%s) is missing the AWS_ACCESS_KEY_ID''
         else if key_length secret ''AWS_SECRET_ACCESS_KEY'' = 0
         then Some ''Provider secret (%s/%s) is missing the AWS_SECRET_ACCESS_KEY''
         else if key_length secret ''AWS_ACCESS_KEY_ID'' > key_length secret ''AWS_SECRET_ACCESS_KEY''
         then Some ''Provider secret (%s/%s) aws access key is larger than secret''
         else None)
      else None)"

definition skips_checks :: "Provider \<Rightarrow> bool" where
  "skips_checks provider \<longleftrightarrow>
     gomap_get (om_Annotations (prv_Meta provider)) ProviderSecretSkipChecks \<notin> {''false'', ''False'', []}"

definition ensureProviderSecret :: "'w client \<Rightarrow> Provider \<Rightarrow> ('w, Provider, 't) ensure" where
  "ensureProviderSecret cc provider0 =
     (let cond = ConditionMgr Provider_Object provider0 ConditionReady True in
      do { provider \<leftarrow> gets resource;
           case prs_SecretRef (prv_Spec provider) of
             None \<Rightarrow> State_Monad.return (Ok Result0)
           | Some ref \<Rightarrow>
               do { r \<leftarrow> GetIfExists cc KSecret as_Secret (sr_Namespace ref) (sr_Name ref);
                    case r of
                      Inl err \<Rightarrow>
                        fail_on cc Provider_Object cond err ''Failed to retrieve the provider secret'' []
                    | Inr None \<Rightarrow>
                        require_on cc Provider_Object cond ''Provider secret (%s/%s) not found''
                          [FStr (sr_Namespace ref), FStr (sr_Name ref)] (Ok (requeue_after (5 * minute)))
                    | Inr (Some secret) \<Rightarrow>
                        if skips_checks provider then State_Monad.return (Ok Result0)
                        else (case check_credentials (prs_Provider (prv_Spec provider)) secret of
                                None \<Rightarrow> State_Monad.return (Ok Result0)
                              | Some message \<Rightarrow>
                                  require_on cc Provider_Object cond message
                                    [FStr (om_Namespace (sec_Meta secret)), FStr (om_Name (sec_Meta secret))]
                                    (Ok (requeue_after (5 * minute)))) } })"

definition reconcile_provider :: "'w client \<Rightarrow> Provider \<Rightarrow> ('w, Provider, 't) ensure" where
  "reconcile_provider cc provider =
     do { now \<leftarrow> gets (\<lambda>s. cc_Now cc (world s));
          let registered = EnsureConditionsRegistered Provider_Object now DefaultProviderConditions provider;
          modify_resource (\<lambda>_. registered);
          Run cc Provider_Object [ensureProviderSecret cc registered] }"

definition provider_Reconcile :: "'w client \<Rightarrow> string \<Rightarrow> string \<Rightarrow> ('w, Provider, 't) ensure" where
  "provider_Reconcile cc namespace name =
     with_resource cc KProvider as_Provider namespace name (reconcile_provider cc)"

section \<open>Preload\<close>

text \<open>The parameters of the template \<open>preload.yaml.tpl\<close>.\<close>

record PreloadParams =
  pp_ContainerImage :: string
  pp_Context :: string
  pp_Cluster :: string
  pp_ControllerNamespace :: string
  pp_GenerateName :: string
  pp_ImagePullPolicy :: string
  pp_Labels :: "string gomap"
  pp_Cloud :: string
  pp_ProviderName :: string
  pp_ProviderSecretRef :: "SecretReference option"
  pp_ProviderServiceAccount :: string
  pp_ProviderSource :: string
  pp_Region :: string
  pp_PodServiceAccount :: string
  pp_Verbose :: bool

text \<open>
  \<open>pl_Render\<close> renders the embedded template, \<open>pl_YAMLToJSON\<close> and \<open>pl_DecodeJob\<close> parse the
  result into a job.
\<close>

record 'w PreloadController =
  pl_cc :: "'w client"
  pl_Render :: "PreloadParams \<Rightarrow> gerror + bytes"
  pl_YAMLToJSON :: "bytes \<Rightarrow> gerror + bytes"
  pl_DecodeJob :: "bytes \<Rightarrow> gerror + Job"
  pl_ControllerNamespace :: string
  pl_ContainerImage :: string

definition preload_Add_valid :: "'w PreloadController \<Rightarrow> gerror option" where
  "preload_Add_valid c =
     (if pl_ControllerNamespace c = [] then Some (ErrMsg ''controller namespace is required'')
      else if pl_ContainerImage c = [] then Some (ErrMsg ''container image is required'')
      else None)"

definition PreloadJobLabel :: string where
  "PreloadJobLabel = ''terranetes.appvia.io/preload-job''"

definition PreloadProviderLabel :: string where
  "PreloadProviderLabel = ''terranetes.appvia.io/preload-provider-name''"

text \<open>The provider an event of a job enqueues.\<close>

definition job_event_requests :: "Job \<Rightarrow> string list" where
  "job_event_requests job =
     (if gomap_get (om_Labels (job_Meta job)) PreloadJobLabel = ''true''
      then [gomap_get (om_Labels (job_Meta job)) PreloadProviderLabel] else [])"

record pstate =
  ps_jobs :: "Job list option"

abbreviation preload_cond :: "Provider \<Rightarrow> ConditionManager" where
  "preload_cond x \<equiv> ConditionMgr Provider_Object x ConditionProviderPreload True"

definition ensurePreloadEnabled :: "'w PreloadController \<Rightarrow> Provider \<Rightarrow> ('w, Provider, pstate) ensure" where
  "ensurePreloadEnabled c provider0 =
     (let cond = preload_cond provider0 in
      do { provider \<leftarrow> gets resource;
           if \<not> IsPreloadingEnabled provider
           then do { cond_Disabled (pl_cc c) Provider_Object cond ''Loading contextual data is not enabled'' [];
                     State_Monad.return (Err ErrIgnore) }
           else if prs_Provider (prv_Spec provider) \<noteq> AWSProviderType
           then do { cond_Warning (pl_cc c) Provider_Object cond ''Loading contextual is supported on AWS only'' [];
                     State_Monad.return (Err ErrIgnore) }
           else State_Monad.return (Ok Result0) })"

definition ensureReady :: "'w PreloadController \<Rightarrow> Provider \<Rightarrow> ('w, Provider, pstate) ensure" where
  "ensureReady c provider0 =
     (let cond = preload_cond provider0 in
      do { provider \<leftarrow> gets resource;
           case GetCondition (prst_Common (prv_Status provider)) ConditionReady of
             None \<Rightarrow> State_Monad.return (Ok (requeue_after (15 * second)))
           | Some ready \<Rightarrow>
               if cd_Status ready \<noteq> ConditionTrue
               then do { cond_InProgress (pl_cc c) Provider_Object cond ''Waiting for provider to be ready'' [];
                         State_Monad.return (Ok (requeue_after (15 * second))) }
               else State_Monad.return (Ok Result0) })"

definition ensurePreloadNotRunning :: "'w PreloadController \<Rightarrow> Provider \<Rightarrow> ('w, Provider, pstate) ensure" where
  "ensurePreloadNotRunning c provider0 =
     (let cond = preload_cond provider0 in
      do { provider \<leftarrow> gets resource;
           r \<leftarrow> list_objects (pl_cc c) KJob as_Job
                  [InNamespace (pl_ControllerNamespace c),
                   MatchingLabels [(PreloadJobLabel, ''true''),
                                   (PreloadProviderLabel, om_Name (prv_Meta provider))]];
           case r of
             Inl err \<Rightarrow>
               fail_on (pl_cc c) Provider_Object cond err
                 ''Failed to retrieve a list in the controller namespace'' []
           | Inr items \<Rightarrow>
               (case Latest (Jobs items) of
                  Some job \<Rightarrow>
                    if jobs_IsActive job
                    then do { cond_InProgress (pl_cc c) Provider_Object cond
                                ''Contextual data is currently being loaded under job: %s''
                                [FStr (om_Name (job_Meta job))];
                              State_Monad.return (Ok (requeue_after (5 * second))) }
                    else do { modify_state (\<lambda>s. s\<lparr>ps_jobs := Some items\<rparr>); State_Monad.return (Ok Result0) }
                | None \<Rightarrow>
                    do { modify_state (\<lambda>s. s\<lparr>ps_jobs := Some items\<rparr>); State_Monad.return (Ok Result0) }) })"

definition loaded_context :: "'w PreloadController \<Rightarrow> ConditionManager \<Rightarrow> string \<Rightarrow> ('w, Provider, pstate) ensure" where
  "loaded_context c cond name =
     do { r \<leftarrow> GetIfExists (pl_cc c) KContext as_Context [] name;
          case r of
            Inl err \<Rightarrow>
              fail_on (pl_cc c) Provider_Object cond err
                ''Failed to retrieve the contextual data resource: %s'' [FStr name]
          | Inr None \<Rightarrow>
              do { cond_Failed (pl_cc c) Provider_Object cond None
                     ''The contextual data resource: %s was not found, please check logs'' [FStr name];
                   State_Monad.return (Ok Result0) }
          | Inr (Some txt) \<Rightarrow>
              if \<not> Context_HasVariables (ctx_Spec txt)
              then do { cond_Failed (pl_cc c) Provider_Object cond None
                          ''The contextual data resource: %s has no data, please check logs''
                          [FStr (om_Name (ctx_Meta txt))];
                        State_Monad.return (Ok Result0) }
              else do { record_effect (IncCounter ''preload_success_total'');
                        cond_Success (pl_cc c) Provider_Object cond ''Contextual data successfully loaded'' [];
                        State_Monad.return (Ok Result0) } }"

definition ensurePreloadStatus :: "'w PreloadController \<Rightarrow> Provider \<Rightarrow> ('w, Provider, pstate) ensure" where
  "ensurePreloadStatus c provider0 =
     (let cond = preload_cond provider0 in
      do { provider \<leftarrow> gets resource;
           st \<leftarrow> gets rstate;
           case ps_jobs st of
             None \<Rightarrow> State_Monad.return Panic
           | Some items \<Rightarrow>
               (case Latest (Jobs items) of
                  None \<Rightarrow> State_Monad.return (Ok Result0)
                | Some job \<Rightarrow>
                    if jobs_IsFailed job
                    then do { record_effect (IncCounter ''preload_failure_total'');
                              cond_Failed (pl_cc c) Provider_Object cond None
                                ''Contextual data failed to load, please check the logs'' [];
                              State_Monad.return (Ok Result0) }
                    else if jobs_IsComplete job
                    then (case prs_Preload (prv_Spec provider) of
                            None \<Rightarrow> State_Monad.return Panic
                          | Some preload \<Rightarrow> loaded_context c cond (plc_Context preload))
                    else State_Monad.return (Ok Result0)) })"

definition preload_params :: "'w PreloadController \<Rightarrow> Provider \<Rightarrow> PreloadConfiguration \<Rightarrow> PreloadParams" where
  "preload_params c provider preload =
     (let spec = prv_Spec provider; name = om_Name (prv_Meta provider) in
      \<lparr>pp_ContainerImage = pl_ContainerImage c,
       pp_Context = plc_Context preload,
       pp_Cluster = plc_Cluster preload,
       pp_ControllerNamespace = pl_ControllerNamespace c,
       pp_GenerateName = Sprintf ''preload-%s'' [FStr name],
       pp_ImagePullPolicy = ''IfNotPresent'',
       pp_Labels = Some [PreloadJobLabel \<mapsto> ''true'', PreloadProviderLabel \<mapsto> name],
       pp_Cloud = ProviderType_String (prs_Provider spec),
       pp_ProviderName = name,
       pp_ProviderSecretRef = prs_SecretRef spec,
       pp_ProviderServiceAccount = (case prs_ServiceAccount spec of None \<Rightarrow> [] | Some a \<Rightarrow> a),
       pp_ProviderSource = SourceType_String (prs_Source spec),
       pp_Region = plc_Region preload,
       pp_PodServiceAccount = DefaultServiceAccount,
       pp_Verbose = True\<rparr>)"

text \<open>Rendering and creating the job, then the time stamp.\<close>

definition start_preload ::
  "'w PreloadController \<Rightarrow> ConditionManager \<Rightarrow> Provider \<Rightarrow> PreloadConfiguration \<Rightarrow> ('w, Provider, pstate) ensure" where
  "start_preload c cond provider preload =
     do { record_event Provider_Object EventTypeNormal ''Preloading'' ''Starting contextual data preload'';
          case pl_Render c (preload_params c provider preload) of
            Inl err \<Rightarrow>
              fail_on (pl_cc c) Provider_Object cond err ''Failed to render the job template'' []
          | Inr render \<Rightarrow>
              (case pl_YAMLToJSON c render of
                 Inl err \<Rightarrow>
                   fail_on (pl_cc c) Provider_Object cond err ''Failed to parse the job template'' []
               | Inr encoded \<Rightarrow>
                   (case pl_DecodeJob c encoded of
                      Inl err \<Rightarrow>
                        fail_on (pl_cc c) Provider_Object cond err ''Failed to decode the job template'' []
                    | Inr job \<Rightarrow>
                        do { w \<leftarrow> perform (pl_cc c) Create (OJob job);
                             case w of
                               Inl err \<Rightarrow>
                                 fail_on (pl_cc c) Provider_Object cond err
                                   ''Failed to create the preloading job in controller namespace'' []
                             | Inr y \<Rightarrow>
                                 do { cond_InProgress (pl_cc c) Provider_Object cond
                                        ''Contextual data is currently running under job: %s''
                                        [FStr (om_Name (meta_of y))];
                                      now \<leftarrow> gets (\<lambda>s. cc_Now (pl_cc c) (world s));
                                      modify_resource (\<lambda>x. x\<lparr>prv_Status :=
                                        (prv_Status x)\<lparr>prst_LastPreloadTime := Some now\<rparr>\<rparr>);
                                      State_Monad.return (Ok Result0) } })) }"

definition ensurePreload :: "'w PreloadController \<Rightarrow> Provider \<Rightarrow> ('w, Provider, pstate) ensure" where
  "ensurePreload c provider0 =
     (let cond = preload_cond provider0 in
      do { provider \<leftarrow> gets resource;
           now \<leftarrow> gets (\<lambda>s. cc_Now (pl_cc c) (world s));
           case prs_Preload (prv_Spec provider) of
             None \<Rightarrow> State_Monad.return Panic
           | Some preload \<Rightarrow>
               let interval = GetIntervalOrDefault preload (6 * 60 * minute) in
               (case prst_LastPreloadTime (prv_Status provider) of
                  None \<Rightarrow> start_preload c cond provider preload
                | Some t \<Rightarrow>
                    if t + interval > now
                    then State_Monad.return (Ok (requeue_after (5 * minute)))
                    else start_preload c cond provider preload) })"

definition preload_chain :: "'w PreloadController \<Rightarrow> Provider \<Rightarrow> ('w, Provider, pstate) ensure list" where
  "preload_chain c provider =
     [ensurePreloadEnabled c provider,
      ensureReady c provider,
      ensurePreloadNotRunning c provider,
      ensurePreloadStatus c provider,
      ensurePreload c provider]"

definition reconcile_preload :: "'w PreloadController \<Rightarrow> Provider \<Rightarrow> ('w, Provider, pstate) ensure" where
  "reconcile_preload c provider =
     do { modify_resource (\<lambda>_. provider);
          modify_state (\<lambda>_. \<lparr>ps_jobs = None\<rparr>);
          Run (pl_cc c) Provider_Object (preload_chain c provider) }"

definition preload_Reconcile :: "'w PreloadController \<Rightarrow> string \<Rightarrow> string \<Rightarrow> ('w, Provider, pstate) ensure" where
  "preload_Reconcile c namespace name =
     with_resource (pl_cc c) KProvider as_Provider namespace name (reconcile_preload c)"

end
