(* ===== verification/Estate_Properties.thy ===== *)
theory Estate_Properties
  imports Scenario Drift Expiry Plan_Revision Providers
begin

text \<open>
  Properties of the smaller controllers: which configurations are checked for drift, which
  revisions expire, what a plan lists and shows, and when a provider is ready.
\<close>

section \<open>Gated chains\<close>

text \<open>No effect of the kind \<open>E\<close> since \<open>s\<close>.\<close>

definition silent :: "(effect \<Rightarrow> bool) \<Rightarrow> ('w, 'o, 't) env \<Rightarrow> ('w, 'o, 't) env \<Rightarrow> bool" where
  "silent E s s' \<longleftrightarrow> (\<exists>es. effects s' = effects s @ es \<and> (\<forall>e \<in> set es. \<not> E e))"

lemma silent_refl [simp]: "effects s' = effects s \<Longrightarrow> silent E s s'"
  by (simp add: silent_def)

lemma silent_trans: "silent E s t \<Longrightarrow> silent E t u \<Longrightarrow> silent E s u"
proof -
  assume "silent E s t" "silent E t u"
  then obtain es fs where "effects t = effects s @ es" "\<forall>e \<in> set es. \<not> E e"
    "effects u = effects t @ fs" "\<forall>e \<in> set fs. \<not> E e" unfolding silent_def by blast
  then have "effects u = effects s @ (es @ fs) \<and> (\<forall>e \<in> set (es @ fs). \<not> E e)" by auto
  then show ?thesis unfolding silent_def by blast
qed

lemma logs_silent: "logs (\<lambda>e. \<not> E e) m \<Longrightarrow> wp m (\<lambda>_ s'. silent E s s') s"
  by (simp add: logs_def silent_def)

text \<open>
  A function that lets the chain go on only with \<open>P\<close>, before a rest that from \<open>P\<close> on has effects
  of the kind \<open>E\<close> only under \<open>G\<close>.
\<close>

lemma run_loop_gate:
  assumes x: "wp x (\<lambda>r t. silent E s t \<and> (continues r \<longrightarrow> P t)) s"
    and rest: "\<And>t. P t \<Longrightarrow> wp (run_loop xs) (\<lambda>_ u. silent E t u \<or> G) t"
  shows "wp (run_loop (x # xs)) (\<lambda>_ u. silent E s u \<or> G) s"
proof -
  have "wp x (\<lambda>r. wp (case r of Panic \<Rightarrow> State_Monad.return (Some Panic)
      | Err e \<Rightarrow> State_Monad.return (Some (stop_error e))
      | Ok result \<Rightarrow> if stops result then State_Monad.return (Some (Ok result)) else run_loop xs)
      (\<lambda>_ u. silent E s u \<or> G)) s"
  proof (rule wp_mono [OF x])
    fix r t assume a: "silent E s t \<and> (continues r \<longrightarrow> P t)"
    then have "wp (run_loop xs) (\<lambda>_ u. silent E s u \<or> G) t" if "continues r"
      using that by (intro wp_mono [OF rest]) (auto intro: silent_trans)
    with a show "wp (case r of Panic \<Rightarrow> State_Monad.return (Some Panic)
      | Err e \<Rightarrow> State_Monad.return (Some (stop_error e))
      | Ok result \<Rightarrow> if stops result then State_Monad.return (Some (Ok result)) else run_loop xs)
      (\<lambda>_ u. silent E s u \<or> G) t"
      by (cases r) (auto simp: wp_if)
  qed
  then show ?thesis by simp
qed

text \<open>The status patch and the events at the end of a run are of no kind that is gated.\<close>

definition only_writes :: "(effect \<Rightarrow> bool) \<Rightarrow> bool" where
  "only_writes E \<longleftrightarrow>
     (\<forall>x t r m. \<not> E (Event x t r m)) \<and> (\<forall>x y r. \<not> E (Wrote (StatusPatch x) y r))"

lemma Run_gate:
  assumes "only_writes E" and "wp (run_loop xs) (\<lambda>_ t. silent E s t \<or> G) s"
  shows "wp (Run cc ob xs) (\<lambda>_ t. silent E s t \<or> G) s"
proof (rule wp_RunI, rule wp_mono [OF assms(2)])
  have u: "wp (update_status cc ob x oc) (\<lambda>_ u. silent E t u) t" for x oc t
    using assms(1) by (intro logs_silent logs_intros) (simp add: only_writes_def)
  have m: "wp (mark_ready cc ob x) (\<lambda>_ u. silent E t u) t" for x t
    using assms(1) by (intro logs_silent logs_intros) (simp add: only_writes_def)
  fix r t assume t: "silent E s t \<or> G"
  have "wp (update_status cc ob x oc) (\<lambda>_ u. silent E s u \<or> G) v" if "silent E s v \<or> G" for x oc v
    using that by (intro wp_mono [OF u]) (auto intro: silent_trans)
  then show "case r of
      Some oc \<Rightarrow> wp (update_status cc ob (resource s) oc) (\<lambda>_ t. silent E s t \<or> G) t
    | None \<Rightarrow> wp (mark_ready cc ob (resource s)) (\<lambda>_. wp (update_status cc ob (resource s) (Ok Result0))
        (\<lambda>_ t. silent E s t \<or> G)) t"
    using t by (cases r) (auto intro!: wp_mono [OF m] intro: silent_trans)
qed

text \<open>What a listing answers.\<close>

lemma wp_list_objects_cases:
  assumes "\<And>err w. Q (Inl err) (s\<lparr>world := w\<rparr>)"
    and "\<And>objs items w. fst (cc_List cc k opts (world s)) = Inr objs \<Longrightarrow> map as objs = map Some items \<Longrightarrow>
           Q (Inr items) (s\<lparr>world := w\<rparr>)"
  shows "wp (list_objects cc k as opts) Q s"
proof -
  have "map as objs = map Some (List.map_filter as objs)" if "list_all (\<lambda>x. as x \<noteq> None) objs" for objs
    using that by (induction objs) (auto simp: List.map_filter_simps)
  with assms show ?thesis
    by (auto simp: list_objects_def wp_request split: sum.splits)
qed

lemma wp_GetIfExists_full:
  assumes "\<And>err w. Q (Inl err) (s\<lparr>world := w\<rparr>)"
    and "\<And>err w. fst (cc_Get cc k ns n (world s)) = Inl err \<Longrightarrow> IsNotFound err \<Longrightarrow>
           Q (Inr None) (s\<lparr>world := w, absent := absent s @ [(k, ns, n)]\<rparr>)"
    and "\<And>y a w. fst (cc_Get cc k ns n (world s)) = Inr y \<Longrightarrow> as y = Some a \<Longrightarrow> Q (Inr (Some a)) (s\<lparr>world := w\<rparr>)"
  shows "wp (GetIfExists cc k as ns n) Q s"
  using assms by (auto simp: GetIfExists_def wp_request split: sum.splits option.splits)

lemma map_as_eq:
  assumes "map as objs = map Some items" and "\<And>x y. as x = Some y \<Longrightarrow> x = em y"
  shows "objs = map em items"
  using assms by (induction objs arbitrary: items) (auto simp: map_eq_Cons_conv Cons_eq_map_conv)

text \<open>The writes that are gated: all but the status patch at the end of a run.\<close>

definition changes :: "effect \<Rightarrow> bool" where
  "changes e = (case e of Wrote (StatusPatch _) _ _ \<Rightarrow> False | Wrote _ _ _ \<Rightarrow> True | _ \<Rightarrow> False)"

lemma only_writes_changes [simp]: "only_writes changes"
  by (simp add: only_writes_def changes_def)

lemma changes_simps [simp]:
  "\<not> changes (Event x t r m)" "\<not> changes (SetGauge n l q)" "\<not> changes (IncCounter n)"
  "\<not> changes (Wrote (StatusPatch y) x res)"
  by (simp_all add: changes_def)

section \<open>Drift\<close>

text \<open>A configuration that was applied and left alone for the drift interval.\<close>

definition settled :: "'w DriftController \<Rightarrow> Configuration \<Rightarrow> time \<Rightarrow> bool" where
  "settled c x now \<longleftrightarrow>
     cs_EnableDriftDetection (cfg_Spec x) \<and> om_DeletionTimestamp (cfg_Meta x) = None \<and>
     (\<forall>t \<in> {ConditionTerraformPlan, ConditionTerraformApply}.
        \<exists>cond. GetCondition (cst_Common (cfg_Status x)) t = Some cond \<and>
          IsComplete cond (om_Generation (cfg_Meta x)) \<and> \<not> InProgress cond \<and>
          cd_Reason cond \<noteq> ReasonError \<and> cd_LastTransitionTime cond + dc_DriftInterval c \<le> now)"

text \<open>What the controller saw: a settled configuration, and a cluster below its threshold.\<close>

definition drift_due :: "'w DriftController \<Rightarrow> Configuration \<Rightarrow> bool" where
  "drift_due c x \<longleftrightarrow>
     (\<exists>w w' items. fst (cc_List (dc_cc c) KConfiguration [InNamespace []] w) = Inr (map OConfiguration items) \<and>
        settled c x (cc_Now (dc_cc c) w') \<and>
        int (total_running items) < total_allowed (dc_DriftThreshold c) (length items))"

lemma ready_for_drift:
  "\<not> not_ready_for_drift c x items now \<Longrightarrow>
     settled c x now \<and> int (total_running items) < total_allowed (dc_DriftThreshold c) (length items)"
  by (auto simp: not_ready_for_drift_def settled_def Let_def recently_changed_def IsFailed_def IsComplete_def
      split: if_splits option.splits)

lemma drift_check:
  assumes "dc_CheckInterval c > 0"
  shows "wp (ensureConfigurationReadyForDrift c)
    (\<lambda>r t. silent changes s t \<and> (continues r \<longrightarrow> drift_due c (resource s))) s"
  unfolding ensureConfigurationReadyForDrift_def wp_bind
proof (rule wp_list_objects_cases)
  fix objs items w
  assume l: "fst (cc_List (dc_cc c) KConfiguration [InNamespace []] (world s)) = Inr objs"
    and m: "map as_Configuration objs = map Some items"
  have "objs = map OConfiguration items" by (rule map_as_eq [OF m as_Configuration_eq])
  with l have "drift_due c (resource s)"
    if "\<not> not_ready_for_drift c (resource s) items (cc_Now (dc_cc c) w)"
    using ready_for_drift [OF that] unfolding drift_due_def by blast
  then show "wp (case Inr items of Inl err \<Rightarrow> State_Monad.return (Err err)
      | Inr items \<Rightarrow> gets resource \<bind> (\<lambda>configuration. gets (\<lambda>s. cc_Now (dc_cc c) (world s)) \<bind>
          (\<lambda>now. if not_ready_for_drift c configuration items now
            then State_Monad.return (Ok (requeue_after (dc_CheckInterval c)))
            else State_Monad.return (Ok Result0))))
      (\<lambda>r t. silent changes s t \<and> (continues r \<longrightarrow> drift_due c (resource s))) (s\<lparr>world := w\<rparr>)"
    using assms by (simp add: wp_if)
qed simp

text \<open>
  C15. A reconciliation of the drift controller writes to the configuration, which triggers a new
  plan, only when the configuration it read has drift detection enabled, is not being deleted, has
  its plan and apply complete for its generation, neither running nor failed and both unchanged
  for the drift interval, and when fewer configurations are counted as running than the threshold
  allows.
\<close>

theorem drift_checked_when_due:
  fixes c :: "'w DriftController"
  assumes "drift_Add_valid c = None"
  shows "wp (drift_Reconcile c namespace name)
    (\<lambda>_ s'. silent changes s s' \<or>
       (\<exists>x. fst (cc_Get (dc_cc c) KConfiguration namespace name (world s)) = Inr (OConfiguration x) \<and>
            drift_due c x)) s"
proof -
  have pos: "dc_CheckInterval c > 0" using assms by (simp add: drift_Add_valid_def split: if_splits)
  have run: "wp (Run (dc_cc c) Configuration_Object (drift_chain c))
      (\<lambda>_ t. silent changes s0 t \<or> drift_due c (resource s0)) s0" for s0 :: "('w, Configuration, 't) env"
  proof (rule Run_gate, simp)
    show "wp (run_loop (drift_chain c)) (\<lambda>_ t. silent changes s0 t \<or> drift_due c (resource s0)) s0"
      unfolding drift_chain_def
      by (rule run_loop_gate [OF drift_check [OF pos]]) (rule wpI, simp)
  qed
  show ?thesis
    unfolding drift_Reconcile_def
  proof (rule wp_with_resource)
    fix x y w assume "fst (cc_Get (dc_cc c) KConfiguration namespace name (world s)) = Inr y"
      and "as_Configuration y = Some x"
    then show "wp (do { modify_resource (\<lambda>_. x); Run (dc_cc c) Configuration_Object (drift_chain c) })
        (\<lambda>_ s'. silent changes s s' \<or> (\<exists>x. fst (cc_Get (dc_cc c) KConfiguration namespace name (world s)) =
           Inr (OConfiguration x) \<and> drift_due c x)) (s\<lparr>world := w\<rparr>)"
      using as_Configuration_eq
      by (auto simp: silent_def intro!: wp_mono [OF run [of "s\<lparr>world := w, resource := x\<rparr>"]])
  qed simp
qed

text \<open>
  The count of running configurations misses those that are applying: once there is a condition of
  the plan, the condition of the apply is not looked at.
\<close>

lemma applying_not_counted:
  assumes "GetCondition (cst_Common (cfg_Status x)) ConditionTerraformPlan = Some plan" and "\<not> InProgress plan"
  shows "\<not> counts_running x"
  using assms by (simp add: counts_running_def Let_def)

definition sample_drift :: "object list DriftController" where
  "sample_drift = \<lparr>dc_cc = sample_client, dc_CheckInterval = minute, dc_DriftInterval = minute,
     dc_DriftThreshold = 1 / 2\<rparr>"

theorem drift_checked_when_due_witness:
  "wp (drift_Reconcile sample_drift ''apps'' ''bucket'')
     (\<lambda>_ s'. silent changes (sample_env sample_world (sample_configuration None ConditionTrue) ()) s')
     (sample_env sample_world (sample_configuration None ConditionTrue) ())"
proof -
  have "\<not> drift_due sample_drift x"
    if "fst (cc_Get (dc_cc sample_drift) KConfiguration ''apps'' ''bucket'' sample_world) = Inr (OConfiguration x)" for x
    using that by (auto simp: sample_drift_def sample_client_def sample_world_def sample_configuration_def
        sample_condition_def drift_due_def settled_def NewConfiguration_def empty_configuration_spec_def)
  moreover have "drift_Add_valid sample_drift = None"
    by (simp add: drift_Add_valid_def sample_drift_def minute_def second_def)
  ultimately show ?thesis
    by (intro wp_mono [OF drift_checked_when_due]) auto
qed

section \<open>Expiry\<close>

text \<open>What the controller saw of the age of a revision, of its plan and of its users.\<close>

definition old_enough :: "('w, 'v) ExpireController \<Rightarrow> Revision \<Rightarrow> bool" where
  "old_enough c x \<longleftrightarrow>
     (\<exists>w. cc_Now (ec_cc c) w - om_CreationTimestamp (rv_Meta x) \<ge> ec_RevisionExpiration c)"

definition siblings :: "('w, 'v) ExpireController \<Rightarrow> Revision \<Rightarrow> Revision list \<Rightarrow> bool" where
  "siblings c x items \<longleftrightarrow>
     (\<exists>w. fst (cc_List (ec_cc c) KRevision
        [MatchingLabels [(RevisionPlanNameLabel, rd_Name (revision_plan x))]] w) = Inr (map ORevision items)) \<and>
     length items \<ge> 2"

definition newest :: "'v Semver \<Rightarrow> string \<Rightarrow> string list \<Rightarrow> bool" where
  "newest sv r rs \<longleftrightarrow> r \<in> set rs \<and> (\<exists>v. sv_NewVersion sv r = Inr v \<and>
     (\<forall>s \<in> set rs. \<exists>u. sv_NewVersion sv s = Inr u \<and> \<not> sv_LessThan sv v u))"

definition superseded :: "('w, 'v) ExpireController \<Rightarrow> Revision \<Rightarrow> bool" where
  "superseded c x \<longleftrightarrow>
     (\<exists>items r. siblings c x items \<and> newest (ec_sv c) r (map (rd_Revision \<circ> revision_plan) items) \<and>
        r \<noteq> rd_Revision (revision_plan x))"

definition unused :: "('w, 'v) ExpireController \<Rightarrow> Revision \<Rightarrow> bool" where
  "unused c x \<longleftrightarrow>
     (\<exists>w. fst (cc_List (ec_cc c) KCloudResource [MatchingLabels (revision_selector x)] w) = Inr [])"

lemma expire_age:
  "wp (ensureExpiration c) (\<lambda>r t. silent changes s t \<and> (continues r \<longrightarrow> resource t = resource s \<and>
     old_enough c (resource s))) s"
  by (auto simp: ensureExpiration_def wp_if old_enough_def not_less)

lemma expire_siblings:
  "wp (ensureMultipleRevisions c) (\<lambda>r t. silent changes s t \<and> (continues r \<longrightarrow> resource t = resource s \<and>
     (\<exists>items. es_revisions (rstate t) = Some items \<and> siblings c (resource s) items))) s"
  unfolding ensureMultipleRevisions_def wp_bind wp_gets
proof (rule wp_list_objects_cases)
  fix objs items w
  assume l: "fst (cc_List (ec_cc c) KRevision
      [MatchingLabels [(RevisionPlanNameLabel, rd_Name (revision_plan (resource s)))]] (world s)) = Inr objs"
    and m: "map as_Revision objs = map Some items"
  have "objs = map ORevision items" by (rule map_as_eq [OF m as_Revision_eq])
  with l have "siblings c (resource s) items" if "\<not> length items \<le> 1"
    using that unfolding siblings_def by force
  then show "wp (case Inr items of Inl err \<Rightarrow> State_Monad.return (Err err)
      | Inr items \<Rightarrow> modify_state (\<lambda>s. s\<lparr>es_revisions := Some items\<rparr>) \<bind>
          (\<lambda>_. if length items \<le> 1 then State_Monad.return (Err ErrIgnore) else State_Monad.return (Ok Result0)))
      (\<lambda>r t. silent changes s t \<and> (continues r \<longrightarrow> resource t = resource s \<and>
        (\<exists>items. es_revisions (rstate t) = Some items \<and> siblings c (resource s) items))) (s\<lparr>world := w\<rparr>)"
    by (auto simp: wp_if)
qed simp

lemma expire_superseded:
  assumes "semver_laws (ec_sv c)" and "es_revisions (rstate s) = Some items"
    and "siblings c (resource s) items"
  shows "wp (ensureNotLatest c) (\<lambda>r t. silent changes s t \<and> (continues r \<longrightarrow> resource t = resource s \<and>
    superseded c (resource s))) s"
proof -
  have "superseded c (resource s)"
    if "LatestSemverVersion (ec_sv c) (map (rd_Revision \<circ> revision_plan) items) = Ok r"
      and "r \<noteq> rd_Revision (revision_plan (resource s))" for r
    using that assms(3) LatestSemverVersion_spec [OF assms(1) that(1)]
    unfolding superseded_def newest_def by blast
  with assms(2) show ?thesis
    by (auto simp: ensureNotLatest_def wp_if split: go.splits)
qed

lemma expire_unused:
  "wp (ensureZeroCloudResources c) (\<lambda>r t. silent changes s t \<and> (continues r \<longrightarrow> unused c (resource s))) s"
  unfolding ensureZeroCloudResources_def wp_bind wp_gets
  by (rule wp_list_objects_cases) (auto simp: wp_if unused_def)

lemma expire_chain_gated:
  assumes "semver_laws (ec_sv c)"
  shows "wp (run_loop (expire_chain c)) (\<lambda>_ t. silent changes s t \<or>
    old_enough c (resource s) \<and> superseded c (resource s) \<and> unused c (resource s)) s"
proof -
  define G where "G \<longleftrightarrow> old_enough c (resource s) \<and> superseded c (resource s) \<and> unused c (resource s)"
  have 4: "wp (run_loop [ensureZeroCloudResources c, ensureDeletion c]) (\<lambda>_ u. silent changes t u \<or> G) t"
    if "resource t = resource s" "old_enough c (resource s)" "superseded c (resource s)" for t
    by (rule run_loop_gate [OF expire_unused]) (use that in \<open>auto simp: G_def intro: wpI\<close>)
  have 3: "wp (run_loop [ensureNotLatest c, ensureZeroCloudResources c, ensureDeletion c])
      (\<lambda>_ u. silent changes t u \<or> G) t"
    if "resource t = resource s" "old_enough c (resource s)" "es_revisions (rstate t) = Some items"
      "siblings c (resource s) items" for t items
    by (rule run_loop_gate [OF expire_superseded [OF assms that(3)]]) (use that in \<open>auto simp del: run_loop.simps intro: 4\<close>)
  have 2: "wp (run_loop [ensureMultipleRevisions c, ensureNotLatest c, ensureZeroCloudResources c, ensureDeletion c])
      (\<lambda>_ u. silent changes t u \<or> G) t"
    if "resource t = resource s" "old_enough c (resource s)" for t
    by (rule run_loop_gate [OF expire_siblings]) (use that in \<open>auto simp del: run_loop.simps intro: 3\<close>)
  show ?thesis
    unfolding expire_chain_def G_def [symmetric]
    by (rule run_loop_gate [OF expire_age]) (auto simp del: run_loop.simps intro: 2)
qed

text \<open>
  C16. The expire controller deletes nothing but a revision that is older than the expiration, is
  not being deleted already, has siblings in its plan of which the newest (no listed version is
  greater) has another version, and whose version no cloud resource was listed for.
\<close>

theorem expires_only_superseded:
  fixes c :: "('w, 'v) ExpireController"
  assumes "semver_laws (ec_sv c)"
  shows "wp (expire_Reconcile c namespace name)
    (\<lambda>_ s'. silent changes s s' \<or>
       (\<exists>x. fst (cc_Get (ec_cc c) KRevision namespace name (world s)) = Inr (ORevision x) \<and>
            om_DeletionTimestamp (rv_Meta x) = None \<and>
            old_enough c x \<and> superseded c x \<and> unused c x)) s"
  unfolding expire_Reconcile_def
proof (rule wp_with_resource)
  fix x y w assume y: "fst (cc_Get (ec_cc c) KRevision namespace name (world s)) = Inr y"
    and x: "as_Revision y = Some x"
  let ?t = "s\<lparr>world := w, resource := x, rstate := \<lparr>es_revisions = None\<rparr>\<rparr>"
  have "wp (Run (ec_cc c) Revision_Object (expire_chain c)) (\<lambda>_ u. silent changes ?t u \<or>
      old_enough c (resource ?t) \<and> superseded c (resource ?t) \<and> unused c (resource ?t)) ?t"
    by (rule Run_gate [OF only_writes_changes expire_chain_gated [OF assms]])
  then have "wp (Run (ec_cc c) Revision_Object (expire_chain c)) (\<lambda>_ u. silent changes s u \<or>
      old_enough c x \<and> superseded c x \<and> unused c x) ?t"
    by (rule wp_mono) (auto simp: silent_def)
  with y as_Revision_eq [OF x]
  show "wp (expire_revision c x) (\<lambda>_ s'. silent changes s s' \<or>
       (\<exists>x. fst (cc_Get (ec_cc c) KRevision namespace name (world s)) = Inr (ORevision x) \<and>
            om_DeletionTimestamp (rv_Meta x) = None \<and>
            old_enough c x \<and> superseded c x \<and> unused c x)) (s\<lparr>world := w\<rparr>)"
    by (auto simp: expire_revision_def wp_if elim!: wp_mono)
qed simp

text \<open>A version library on numbers, and a plan with two revisions.\<close>

definition sample_semver :: "(string \<times> nat) Semver" where
  "sample_semver =
     \<lparr>sv_NewVersion = (\<lambda>s. case parse_unsigned s of None \<Rightarrow> Inl (ErrMsg ''invalid version'') | Some n \<Rightarrow> Inr (s, n)),
      sv_LessThan = (\<lambda>u v. snd u < snd v), sv_Original = fst,
      sv_IncPatch = (\<lambda>v. string_of_nat (Suc (snd v)))\<rparr>"

lemma sample_semver_laws [simp]: "semver_laws sample_semver"
  by (auto simp: semver_laws_def sample_semver_def split: option.splits)

definition sample_revision :: "string \<Rightarrow> Revision" where
  "sample_revision v =
     (NewRevision (''bucket-'' @ v))\<lparr>rv_Spec := (rv_Spec (NewRevision []))
        \<lparr>rvs_Plan := \<lparr>rd_Name = ''bucket'', rd_Description = ''a bucket'', rd_Categories = [],
          rd_ChangeLog = [], rd_Revision = v\<rparr>\<rparr>\<rparr>"

definition sample_expire :: "(object list, string \<times> nat) ExpireController" where
  "sample_expire = \<lparr>ec_cc = sample_client, ec_sv = sample_semver, ec_RevisionExpiration = 0\<rparr>"

theorem expires_only_superseded_witness:
  defines "w \<equiv> [ORevision (sample_revision ''1''), ORevision (sample_revision ''2'')]"
  shows "wp (expire_Reconcile sample_expire [] ''bucket-1'')
    (\<lambda>_ s'. silent changes (sample_env w (sample_revision ''1'') \<lparr>es_revisions = None\<rparr>) s' \<or>
       (old_enough sample_expire (sample_revision ''1'') \<and> superseded sample_expire (sample_revision ''1'') \<and>
        unused sample_expire (sample_revision ''1'')))
    (sample_env w (sample_revision ''1'') \<lparr>es_revisions = None\<rparr>)"
proof -
  have x: "x = sample_revision ''1''"
    if "fst (cc_Get (ec_cc sample_expire) KRevision [] ''bucket-1'' w) = Inr (ORevision x)" for x
    using that by (simp add: sample_expire_def sample_client_def w_def sample_revision_def NewRevision_def)
  have "semver_laws (ec_sv sample_expire)" by (simp add: sample_expire_def)
  then show ?thesis by (intro wp_mono [OF expires_only_superseded]) (auto dest: x)
qed

section \<open>Plans\<close>

lemma last_revision_found:
  "r \<in> set xs \<Longrightarrow> plv_Revision r = latest \<Longrightarrow>
     last_revision latest r0 xs \<in> set xs \<and> plv_Revision (last_revision latest r0 xs) = latest"
proof (induction xs arbitrary: r0 r)
  case (Cons x xs)
  have keep: "last_revision latest r0 xs = r0 \<or>
      last_revision latest r0 xs \<in> set xs \<and> plv_Revision (last_revision latest r0 xs) = latest" for r0
    by (induction xs arbitrary: r0) (auto, metis)
  show ?case using Cons.prems Cons.IH [of r] keep [of x] by auto
qed simp

lemma LatestSemverVersion_Ok:
  "(\<exists>r. LatestSemverVersion sv rs = Ok r) \<longleftrightarrow> rs \<noteq> [] \<and> (\<forall>r \<in> set rs. \<exists>v. sv_NewVersion sv r = Inr v)"
proof (cases "parse_versions sv rs")
  case (Inl err)
  then show ?thesis
    by (induction rs) (auto simp: LatestSemverVersion_def SortSemverVersions_def split: sum.splits)
next
  case (Inr vs)
  then have "list_all2 (\<lambda>r v. sv_NewVersion sv r = Inr v) rs vs" by (simp add: parse_versions_Inr)
  then have "length rs = length vs" "\<forall>r \<in> set rs. \<exists>v. sv_NewVersion sv r = Inr v"
    by (auto simp: list_all2_conv_all_nth in_set_conv_nth)
  moreover have "sort_from (sv_LessThan sv) [] vs = [] \<longleftrightarrow> vs = []"
    by (metis add_0 length_0_conv length_sort_from)
  ultimately show ?thesis using Inr
    by (cases "map (sv_Original sv) (sort_from (sv_LessThan sv) [] vs)")
      (auto simp: LatestSemverVersion_def SortSemverVersions_def)
qed

text \<open>
  C17. The plan controller shows the latest revision: for a plan with revisions, the function
  goes on exactly when all their versions parse, and then the status names a revision of the plan
  such that none of the versions of the plan is greater; nothing else of the plan changes.
\<close>

theorem plan_shows_latest:
  fixes c :: "('w, 'v) PlanController" and s :: "('w, Plan, unit) env"
  assumes "semver_laws (pc_sv c)" and "pln_Revisions (resource s) \<noteq> []"
  shows "wp (ensureLatestOnPlan c plan0)
    (\<lambda>r t. (continues r \<longleftrightarrow> (\<forall>v \<in> set (ListRevisions (resource s)). \<exists>u. sv_NewVersion (pc_sv c) v = Inr u)) \<and>
       (continues r \<longrightarrow> (\<exists>latest \<in> set (pln_Revisions (resource s)).
          newest (pc_sv c) (plv_Revision latest) (ListRevisions (resource s)) \<and>
          resource t = (resource s)\<lparr>pln_Status := (pln_Status (resource s))\<lparr>plst_Latest := latest\<rparr>\<rparr> \<and>
          effects t = effects s))) s"
proof (cases "LatestSemverVersion (pc_sv c) (ListRevisions (resource s))")
  case (Ok v)
  have n: "newest (pc_sv c) v (ListRevisions (resource s))"
    using LatestSemverVersion_spec [OF assms(1) Ok] by (simp add: newest_def)
  then obtain r where "r \<in> set (pln_Revisions (resource s))" "plv_Revision r = v"
    by (auto simp: newest_def ListRevisions_def)
  then have "last_revision v \<lparr>plv_Name = [], plv_Revision = []\<rparr> (pln_Revisions (resource s)) \<in> set (pln_Revisions (resource s)) \<and>
      plv_Revision (last_revision v \<lparr>plv_Name = [], plv_Revision = []\<rparr> (pln_Revisions (resource s))) = v"
    by (rule last_revision_found)
  with Ok n show ?thesis
    using assms(2) LatestSemverVersion_Ok [of "pc_sv c" "ListRevisions (resource s)"]
    by (simp add: ensureLatestOnPlan_def Let_def wp_if) force
next
  case (Err err)
  then show ?thesis
    using assms(2) LatestSemverVersion_Ok [of "pc_sv c" "ListRevisions (resource s)"]
    by (simp add: ensureLatestOnPlan_def Let_def wp_if require_on_def cond_defs wp_set_through)
      (auto simp: ListRevisions_def)
next
  case Panic
  then show ?thesis
    using assms(2) LatestSemverVersion_Ok [of "pc_sv c" "ListRevisions (resource s)"]
    by (simp add: ensureLatestOnPlan_def Let_def wp_if) (auto simp: ListRevisions_def)
qed

definition sample_plan :: Plan where
  "sample_plan = (NewPlan ''bucket'')\<lparr>pln_Revisions :=
     [\<lparr>plv_Name = ''bucket-2'', plv_Revision = ''2''\<rparr>, \<lparr>plv_Name = ''bucket-1'', plv_Revision = ''1''\<rparr>]\<rparr>"

theorem plan_shows_latest_witness:
  defines "c \<equiv> \<lparr>pc_cc = sample_client, pc_sv = sample_semver\<rparr>"
  shows "wp (ensureLatestOnPlan c sample_plan)
    (\<lambda>r t. continues r \<and> (\<exists>latest \<in> set (pln_Revisions sample_plan).
        newest sample_semver (plv_Revision latest) (ListRevisions sample_plan) \<and>
        plst_Latest (pln_Status (resource t)) = latest)) (sample_env [] sample_plan ())"
proof -
  have parse: "\<forall>v \<in> set (ListRevisions sample_plan). \<exists>u. sv_NewVersion (pc_sv c) v = Inr u"
    by (simp add: c_def sample_plan_def NewPlan_def ListRevisions_def sample_semver_def parse_unsigned_def)
  have "semver_laws (pc_sv c)" "pln_Revisions (resource (sample_env [] sample_plan ())) \<noteq> []"
    by (simp_all add: c_def sample_plan_def)
  from plan_shows_latest [OF this] show ?thesis
    by (rule wp_mono) (use parse in \<open>auto simp: c_def\<close>)
qed

section \<open>Revisions\<close>

text \<open>A failure of an ensure function logs an event at most.\<close>

lemma wp_fail_on:
  assumes "\<And>t es. effects t = effects s @ es \<Longrightarrow> \<forall>e \<in> set es. \<exists>x t r m. e = Event x t r m \<Longrightarrow> Q (Err err) t"
  shows "wp (fail_on cc ob cond err m args) Q s"
  using effects_transition_env [of cc ob cond _ s] assms
  by (simp add: fail_on_def cond_defs wp_set_through) blast

lemma RemoveRevision_added:
  assumes "\<not> HasRevision p v" and "plv_Revision r = v"
  shows "RemoveRevision (p\<lparr>pln_Revisions := pln_Revisions p @ [r]\<rparr>) v = p"
    and "GetRevision (p\<lparr>pln_Revisions := pln_Revisions p @ [r]\<rparr>) v = Some r"
proof -
  have "has_revision rs v \<longleftrightarrow> v \<in> plv_Revision ` set rs" for rs by (induction rs) auto
  then have v: "v \<notin> plv_Revision ` set (pln_Revisions p)" using assms(1) by (simp add: HasRevision_def)
  then have "filter (\<lambda>x. plv_Revision x \<noteq> v) (pln_Revisions p) = pln_Revisions p" by (auto intro: filter_True)
  with assms(2) show "RemoveRevision (p\<lparr>pln_Revisions := pln_Revisions p @ [r]\<rparr>) v = p"
    by (cases p) (simp add: RemoveRevision_def)
  have "find_revision (rs @ [r]) v = Some r" if "v \<notin> plv_Revision ` set rs" for rs
    using that assms(2) by (induction rs) auto
  with v show "GetRevision (p\<lparr>pln_Revisions := pln_Revisions p @ [r]\<rparr>) v = Some r"
    by (simp add: GetRevision_def)
qed

text \<open>The plan written for a revision, against what was read.\<close>

definition enrols :: "Revision \<Rightarrow> effect \<Rightarrow> bool" where
  "enrols x e \<longleftrightarrow> (\<exists>v y res. e = Wrote v (OPlan y) res \<and>
     om_Name (pln_Meta y) = om_Name (pln_Meta (case v of Patch (OPlan p) \<Rightarrow> p | _ \<Rightarrow> y)) \<and>
     GetRevision y (rd_Revision (rvs_Plan (rv_Spec x))) = Some (plan_entry x) \<and>
     (case v of
        Create \<Rightarrow> om_Name (pln_Meta y) = rd_Name (rvs_Plan (rv_Spec x)) \<and> pln_Revisions y = [plan_entry x]
      | Patch (OPlan p) \<Rightarrow> RemoveRevision y (rd_Revision (rvs_Plan (rv_Spec x))) = p
      | _ \<Rightarrow> False))"

lemma enrols_created:
  "enrols x (Wrote Create (OPlan ((unnamed_plan (rd_Name (rvs_Plan (rv_Spec x))))\<lparr>pln_Revisions := [plan_entry x]\<rparr>)) res)"
  by (simp add: enrols_def unnamed_plan_def NewPlan_def GetRevision_def plan_entry_def)

lemma enrols_added:
  "\<not> HasRevision p (rd_Revision (rvs_Plan (rv_Spec x))) \<Longrightarrow>
   enrols x (Wrote (Patch (OPlan p)) (OPlan (p\<lparr>pln_Revisions := pln_Revisions p @ [plan_entry x]\<rparr>)) res)"
  using RemoveRevision_added [of p _ "plan_entry x"] by (simp add: enrols_def plan_entry_def)

text \<open>
  C18. A revision is enrolled in its plan once, and leaving undoes it: the function succeeds only
  if the plan it read lists the version, or it wrote a plan, and then one only, in which
  looking up the version finds the entry of this revision; a new plan has the name of the plan of
  the revision and no other entry, and from an existing one the removal of the version, which the
  deletion of the revision performs, gives back the plan that was read.
\<close>

theorem revision_enrolled:
  fixes s :: "('w, Revision, unit) env"
  defines "x \<equiv> resource s"
  shows "wp (revision_ensurePlanExists cc revision0)
    (\<lambda>r t. \<exists>es. effects t = effects s @ es \<and>
       (\<forall>e \<in> set es. enrols x e \<or> (\<exists>y t r m. e = Event y t r m)) \<and> length (filter (enrols x) es) \<le> 1 \<and>
       (\<forall>res. r = Ok res \<longrightarrow>
          (\<exists>p. fst (cc_Get cc KPlan [] (rd_Name (rvs_Plan (rv_Spec x))) (world s)) = Inr (OPlan p) \<and>
               HasRevision p (rd_Revision (rvs_Plan (rv_Spec x)))) \<or>
          (\<exists>e. es = [e] \<and> enrols x e))) s" (is "wp _ ?Q s")
proof -
  define Q where "Q = ?Q"
  have ev: "\<not> enrols x (Event y t r m)" for y t r m by (simp add: enrols_def)
  have fail: "wp (fail_on cc Revision_Object cond err m args) Q t"
    if "effects t = effects s @ es" "\<forall>e \<in> set es. enrols x e" "length es \<le> 1" for t es cond err m args
  proof (rule wp_fail_on)
    fix u :: "('w, Revision, unit) env" and fs
    assume u: "effects u = effects t @ fs" "\<forall>e \<in> set fs. \<exists>y t r m. e = Event y t r m"
    then have "filter (enrols x) fs = []" using ev by (auto simp: filter_empty_conv)
    moreover have "length (filter (enrols x) es) \<le> 1" using that(3) length_filter_le le_trans by blast
    ultimately show "Q (Err err) u"
      unfolding Q_def using u that by (intro exI [of _ "es @ fs"]) auto
  qed
  have wrote: "Q (Ok res) t" if "effects t = effects s @ [e]" "enrols x e" for res e t
    unfolding Q_def using that by (intro exI [of _ "[e]"]) auto
  have present: "Q (Ok res) (s\<lparr>world := w\<rparr>)"
    if "fst (cc_Get cc KPlan [] (rd_Name (rvs_Plan (rv_Spec x))) (world s)) = Inr (OPlan p)"
      "HasRevision p (rd_Revision (rvs_Plan (rv_Spec x)))" for res p w
    unfolding Q_def using that by (intro exI [of _ "[]"]) auto
  have "wp (revision_ensurePlanExists cc revision0) Q s"
    unfolding revision_ensurePlanExists_def Let_def wp_bind wp_gets x_def [symmetric]
  proof (rule wp_GetIfExists_full, goal_cases)
    case (1 err w)
    then show ?case by (simp add: fail [of _ "[]"])
  next
    case (2 err w)
    then show ?case
      by (auto intro!: wp_perform_any fail wrote enrols_created split: sum.splits)
  next
    case (3 y p w)
    then show ?case
      by (auto simp: wp_if dest!: as_Plan_eq intro!: wp_perform_any fail wrote present enrols_added split: sum.splits)
  qed
  then show ?thesis by (simp only: Q_def)
qed

theorem revision_enrolled_witness:
  defines "x \<equiv> sample_revision ''1''"
  shows "wp (revision_ensurePlanExists sample_client x)
    (\<lambda>r t. length (filter (enrols x) (effects t)) \<le> 1 \<and>
       (\<forall>res. r = Ok res \<longrightarrow> (\<exists>e. effects t = [e] \<and> enrols x e))) (sample_env [] x ())"
proof -
  have "\<not> (\<exists>p. fst (cc_Get sample_client KPlan [] (rd_Name (rvs_Plan (rv_Spec x))) []) = Inr (OPlan p))"
    by (simp add: sample_client_def)
  then show ?thesis
    using revision_enrolled [of sample_client x "sample_env [] x ()"]
    by (elim wp_mono) auto
qed

section \<open>Providers\<close>

text \<open>
  What a provider of each type needs of its secret: Azure four entries, Google one of four, AWS an
  access key and a secret key that is at least as long; the other types need nothing.
\<close>

definition required_credentials :: "ProviderType \<Rightarrow> Secret \<Rightarrow> bool" where
  "required_credentials t secret \<longleftrightarrow>
     (let keys = {k. gomap_find (sec_Data secret) k \<noteq> None};
          len = (\<lambda>k. length (gomap_get (sec_Data secret) k)) in
      (t \<in> {AzureProviderType, AzureCloudStackProviderType} \<longrightarrow>
         {''ARM_CLIENT_ID'', ''ARM_CLIENT_SECRET'', ''ARM_SUBSCRIPTION_ID'', ''ARM_TENANT_ID''} \<subseteq> keys) \<and>
      (t = GCPProviderType \<longrightarrow>
         keys \<inter> {''GCLOUD_KEYFILE_JSON'', ''GOOGLE_APPLICATION_CREDENTIALS'', ''GOOGLE_CLOUD_KEYFILE_JSON'',
           ''GOOGLE_CREDENTIALS''} \<noteq> {}) \<and>
      (t = AWSProviderType \<longrightarrow>
         0 < len ''AWS_ACCESS_KEY_ID'' \<and> len ''AWS_ACCESS_KEY_ID'' \<le> len ''AWS_SECRET_ACCESS_KEY''))"

lemma check_credentials_None: "check_credentials t secret = None \<longleftrightarrow> required_credentials t secret"
  by (auto simp: check_credentials_def required_credentials_def missing_def key_length_def Let_def)

text \<open>The credentials of a provider are accepted: it has none, or its secret was read and holds what its type needs.\<close>

definition credentials_accepted :: "'w client \<Rightarrow> Provider \<Rightarrow> 'w \<Rightarrow> bool" where
  "credentials_accepted cc x w =
     (case prs_SecretRef (prv_Spec x) of
        None \<Rightarrow> True
      | Some ref \<Rightarrow>
          (case fst (cc_Get cc KSecret (sr_Namespace ref) (sr_Name ref) w) of
             Inr (OSecret secret) \<Rightarrow>
               skips_checks x \<or> required_credentials (prs_Provider (prv_Spec x)) secret
           | _ \<Rightarrow> False))"

text \<open>The ready condition is there and is false.\<close>

definition not_ready :: "Provider \<Rightarrow> bool" where
  "not_ready x \<longleftrightarrow>
     (\<exists>cond. GetCondition (prst_Common (prv_Status x)) ConditionReady = Some cond \<and> cd_Status cond = ConditionFalse)"

lemma provider_not_ready:
  assumes "HasCondition (prst_Common (prv_Status (resource s))) ConditionReady"
  defines "cond \<equiv> ConditionMgr Provider_Object (resource s) ConditionReady True"
  shows "wp (fail_on cc Provider_Object cond err m args) (\<lambda>r t. \<not> continues r \<and> not_ready (resource t)) (s\<lparr>world := w\<rparr>)"
    and "d > 0 \<Longrightarrow> wp (require_on cc Provider_Object cond m args (Ok (requeue_after d)))
      (\<lambda>r t. \<not> continues r \<and> not_ready (resource t)) (s\<lparr>world := w, absent := a\<rparr>)"
proof -
  have att: "provider.attached cond ConditionReady (resource (s\<lparr>world := w, absent := a\<rparr>))"
    "provider.attached cond ConditionReady (resource (s\<lparr>world := w\<rparr>))" for w a
    using provider.attached_ConditionMgr [of "resource s" ConditionReady True] assms(1) by (simp_all add: cond_def)
  show "wp (fail_on cc Provider_Object cond err m args) (\<lambda>r t. \<not> continues r \<and> not_ready (resource t)) (s\<lparr>world := w\<rparr>)"
    unfolding fail_on_def cond_defs wp_bind
    by (rule wp_mono [OF provider.set_through_condition [OF att(2)]]) (auto simp: not_ready_def)
  show "wp (require_on cc Provider_Object cond m args (Ok (requeue_after d)))
      (\<lambda>r t. \<not> continues r \<and> not_ready (resource t)) (s\<lparr>world := w, absent := a\<rparr>)" if "d > 0"
    unfolding require_on_def cond_defs wp_bind
    by (rule wp_mono [OF provider.set_through_condition [OF att(1)]]) (use that in \<open>auto simp: not_ready_def\<close>)
qed

text \<open>
  C19. A provider passes the check of its credentials, and so becomes ready, only when it refers to
  no secret, or the secret was read and has what its type of provider needs (unless the provider
  opts out of the check); otherwise the chain stops with its ready condition false.
\<close>

theorem provider_ready_only_with_credentials:
  fixes s :: "('w, Provider, 't) env"
  assumes "HasCondition (prst_Common (prv_Status (resource s))) ConditionReady"
  shows "wp (ensureProviderSecret cc (resource s))
    (\<lambda>r t. if credentials_accepted cc (resource s) (world s) then r = Ok Result0 \<and> effects t = effects s
           else \<not> continues r \<and> not_ready (resource t)) s"
proof (cases "prs_SecretRef (prv_Spec (resource s))")
  case None
  then show ?thesis by (simp add: ensureProviderSecret_def credentials_accepted_def Let_def)
next
  case (Some ref)
  note bad = provider_not_ready [OF assms]
  have five: "0 < 5 * minute" by simp
  show ?thesis
  proof (cases "fst (cc_Get cc KSecret (sr_Namespace ref) (sr_Name ref) (world s))")
    case (Inl err)
    then show ?thesis
      using Some bad(1) bad(2) [OF five]
      by (simp add: ensureProviderSecret_def Let_def GetIfExists_def wp_request wp_if credentials_accepted_def)
  next
    case (Inr y)
    then show ?thesis
      using Some bad(1) bad(2) [OF five, of _ _ _ "absent s"]
      by (cases y) (simp_all add: ensureProviderSecret_def Let_def GetIfExists_def wp_request wp_if
          credentials_accepted_def check_credentials_None [symmetric] split: option.splits)
  qed
qed

theorem provider_ready_only_with_credentials_witness:
  defines "x \<equiv> sample_provider\<lparr>prv_Spec := (prv_Spec sample_provider)
      \<lparr>prs_SecretRef := Some \<lparr>sr_Name = ''aws'', sr_Namespace = ''terraform-system''\<rparr>\<rparr>\<rparr>"
    and "secret \<equiv> \<lparr>sec_Meta = named_meta ''terraform-system'' ''aws'', sec_Data = Some [''AWS_ACCESS_KEY_ID'' \<mapsto> ''id'']\<rparr>"
  shows "wp (ensureProviderSecret sample_client x) (\<lambda>r t. \<not> continues r \<and> not_ready (resource t))
    (sample_env [OSecret secret] x ())"
proof -
  let ?s = "sample_env [OSecret secret] x ()"
  have "HasCondition (prst_Common (prv_Status (resource ?s))) ConditionReady"
    by (simp add: x_def sample_provider_def HasCondition_def GetCondition_def sample_condition_def)
  from provider_ready_only_with_credentials [OF this, of sample_client]
  have "wp (ensureProviderSecret sample_client x)
    (\<lambda>r t. if credentials_accepted sample_client x [OSecret secret] then r = Ok Result0 \<and> effects t = effects ?s
           else \<not> continues r \<and> not_ready (resource t)) ?s" by simp
  moreover have "\<not> credentials_accepted sample_client x [OSecret secret]"
    by (simp add: credentials_accepted_def x_def secret_def sample_provider_def sample_client_def
        skips_checks_def required_credentials_def gomap_get_def gomap_find_def named_meta_def empty_meta_def)
  ultimately show ?thesis by simp
qed

end
