(* ===== verification/Cloudresources.thy ===== *)
theory Cloudresources
  imports Controller_Common
begin

text \<open>
  The cloud resource controller (\<open>pkg/controller/cloudresource\<close>): a cloud resource names a
  revision of a plan and some inputs, and the controller keeps one configuration for it, built
  from the revision, and copies the status of that configuration back.
\<close>

section \<open>The controller\<close>

text \<open>
  \<open>cl_SetBytes\<close> stands for \<open>sjson.SetBytes\<close>, \<open>cl_Range\<close> for the order in which one iteration
  visits the entries of a decoded map.
\<close>

record ('w, 'v) CloudController =
  cl_cc :: "'w client"
  cl_lib :: Libs
  cl_sv :: "'v Semver"
  cl_SetBytes :: "bytes \<Rightarrow> string \<Rightarrow> json \<Rightarrow> gerror + bytes"
  cl_Range :: "(string \<rightharpoonup> json) \<Rightarrow> (string \<times> json) list"

definition cloudresource_controllerName :: string where
  "cloudresource_controllerName = ''cloudresource.terraform.appvia.io''"

record clstate =
  cls_configuration :: "Configuration option"
  cls_plan :: "Plan option"
  cls_revision :: "Revision option"

definition new_clstate :: clstate where
  "new_clstate = \<lparr>cls_configuration = None, cls_plan = None, cls_revision = None\<rparr>"

type_synonym 'w crprog = "('w, CloudResource, clstate) ensure"

abbreviation cr_cond :: "CloudResource \<Rightarrow> ConditionType \<Rightarrow> ConditionManager" where
  "cr_cond x t \<equiv> ConditionMgr CloudResource_Object x t True"

abbreviation cr_proceed :: "'w crprog" where
  "cr_proceed \<equiv> State_Monad.return (Ok Result0)"

section \<open>Watches\<close>

text \<open>
  The requests an event of a plan or of a configuration enqueues: the cloud resources of the
  plan, or the one that the configuration belongs to.
\<close>

definition plan_event_requests ::
  "('w, 'v) CloudController \<Rightarrow> Plan \<Rightarrow> ('w, 'o, 't, (string \<times> string) list) prog" where
  "plan_event_requests c plan =
     do { r \<leftarrow> list_objects (cl_cc c) KCloudResource as_CloudResource
                 [MatchingLabels [(CloudResourcePlanNameLabel, om_Name (pln_Meta plan))]];
          State_Monad.return
            (case r of
               Inl err \<Rightarrow> []
             | Inr items \<Rightarrow> map (\<lambda>x. (om_Namespace (cr_Meta x), om_Name (cr_Meta x))) items) }"

definition configuration_event_requests :: "Configuration \<Rightarrow> (string \<times> string) list" where
  "configuration_event_requests x =
     (let labels = om_Labels (cfg_Meta x) in
      if labels = None then []
      else if gomap_get labels CloudResourceNameLabel = [] then []
      else [(om_Namespace (cfg_Meta x), gomap_get labels CloudResourceNameLabel)])"

section \<open>Plan and revision\<close>

definition cloud_ensurePlanExists :: "('w, 'v) CloudController \<Rightarrow> CloudResource \<Rightarrow> 'w crprog" where
  "cloud_ensurePlanExists c x0 =
     (let cond = cr_cond x0 ConditionReady in
      do { x \<leftarrow> gets resource;
           r \<leftarrow> GetIfExists (cl_cc c) KPlan as_Plan [] (plr_Name (crs_Plan (cr_Spec x)));
           case r of
             Inl err \<Rightarrow>
               fail_on (cl_cc c) CloudResource_Object cond err
                 ''Failed to retrieve the cloud resource plan'' []
           | Inr None \<Rightarrow>
               require_on (cl_cc c) CloudResource_Object cond
                 ''Cloud resource plan %q does not exist'' [FStr (plr_Name (crs_Plan (cr_Spec x)))]
                 (Ok (requeue_after (5 * minute)))
           | Inr (Some plan) \<Rightarrow>
               do { modify_state (\<lambda>s. s\<lparr>cls_plan := Some plan\<rparr>); cr_proceed } })"

definition ensureRevisionExists :: "('w, 'v) CloudController \<Rightarrow> CloudResource \<Rightarrow> 'w crprog" where
  "ensureRevisionExists c x0 =
     (let cond = cr_cond x0 ConditionReady in
      do { x \<leftarrow> gets resource;
           st \<leftarrow> gets rstate;
           let version = plr_Revision (crs_Plan (cr_Spec x));
           case cls_plan st of
             None \<Rightarrow> State_Monad.return Panic
           | Some plan \<Rightarrow>
               (case GetRevision plan version of
                  None \<Rightarrow>
                    require_on (cl_cc c) CloudResource_Object cond
                      ''Revision: %q does not exist in plan (spec.plan.revision)'' [FStr version]
                      (Ok (requeue_after (5 * minute)))
                | Some reference \<Rightarrow>
                    do { r \<leftarrow> GetIfExists (cl_cc c) KRevision as_Revision [] (plv_Name reference);
                         case r of
                           Inl err \<Rightarrow>
                             fail_on (cl_cc c) CloudResource_Object cond err
                               ''Failed to retrieve the cloud resource revision'' []
                         | Inr None \<Rightarrow>
                             require_on (cl_cc c) CloudResource_Object cond
                               ''Revision: %q does not exist or has been removed'' [FStr version]
                               (Ok (requeue_after (5 * minute)))
                         | Inr (Some revision) \<Rightarrow>
                             do { modify_state (\<lambda>s. s\<lparr>cls_revision := Some revision\<rparr>);
                                  cr_proceed } }) })"

section \<open>The configuration\<close>

text \<open>The configuration of the cloud resource, before its variables are merged.\<close>

definition desired_configuration :: "CloudResource \<Rightarrow> Revision \<Rightarrow> Configuration" where
  "desired_configuration x revision =
     (let spec = cr_Spec x; m = cr_Meta x; rspec = rvs_Configuration (rv_Spec revision);
          plan = rvs_Plan (rv_Spec revision); base = NewConfiguration (om_Namespace m) [] in
      base\<lparr>cfg_Meta := (cfg_Meta base)
             \<lparr>om_Annotations := om_Annotations m,
              om_Labels := Some [CloudResourceNameLabel \<mapsto> om_Name m,
                                 CloudResourcePlanNameLabel \<mapsto> rd_Name plan,
                                 CloudResourceRevisionLabel \<mapsto> rd_Revision plan,
                                 CloudResourceRevisionNameLabel \<mapsto> om_Name (rv_Meta revision)],
              om_OwnerReferences :=
                [\<lparr>or_APIVersion = SchemeGroupVersion, or_Kind = CloudResourceKind,
                  or_Name = om_Name m, or_UID = om_UID m,
                  or_Controller = None, or_BlockOwnerDeletion = None\<rparr>]\<rparr>,
           cfg_Spec := (cfg_Spec base)
             \<lparr>cs_Auth := (if crs_Auth spec \<noteq> None then crs_Auth spec else cs_Auth rspec),
              cs_EnableAutoApproval := crs_EnableAutoApproval spec,
              cs_EnableDriftDetection := crs_EnableDriftDetection spec,
              cs_Module := cs_Module rspec,
              cs_Plan := Some (crs_Plan spec),
              cs_TerraformVersion := crs_TerraformVersion spec,
              cs_ValueFrom := cs_ValueFrom rspec @ crs_ValueFrom spec,
              cs_Variables := cs_Variables rspec,
              cs_WriteConnectionSecretToRef :=
                (if crs_WriteConnectionSecretToRef spec \<noteq> None then crs_WriteConnectionSecretToRef spec
                 else cs_WriteConnectionSecretToRef rspec),
              cs_ProviderRef :=
                (if crs_ProviderRef spec \<noteq> None then crs_ProviderRef spec
                 else cs_ProviderRef rspec)\<rparr>\<rparr>)"

text \<open>The bytes of \<open>spec.variables\<close>; a nil extension is allocated empty when it is written to.\<close>

definition raw_variables :: "RawExtension option \<Rightarrow> bytes" where
  "raw_variables v = (case v of None \<Rightarrow> [] | Some r \<Rightarrow> re_Raw r)"

text \<open>The defaults of the inputs of the revision; an error names the message and the input.\<close>

fun merge_inputs ::
  "('w, 'v) CloudController \<Rightarrow> RevisionInput list \<Rightarrow> RawExtension option \<Rightarrow>
   (string \<times> string) + RawExtension option" where
  "merge_inputs c [] variables = Inr variables"
| "merge_inputs c (input # inputs) variables =
     (case ri_Default input of
        None \<Rightarrow> merge_inputs c inputs variables
      | Some d \<Rightarrow>
          if length (re_Raw d) = 0 then merge_inputs c inputs variables
          else (case lib_JSONObject (cl_lib c) (re_Raw d) of
                  Inl err \<Rightarrow> Inl (''Failed to decode the input %q default value from revision'', ri_Key input)
                | Inr values \<Rightarrow>
                    (case cl_SetBytes c (raw_variables variables) (ri_Key input)
                            (case values ''value'' of None \<Rightarrow> JNull | Some v \<Rightarrow> v) of
                       Inl err \<Rightarrow> Inl (''Failed to set the input %q default value from revision'', ri_Key input)
                     | Inr raw \<Rightarrow> merge_inputs c inputs (Some \<lparr>re_Raw = raw\<rparr>))))"

text \<open>The variables of the cloud resource; an error names the variable.\<close>

fun merge_values ::
  "('w, 'v) CloudController \<Rightarrow> (string \<times> json) list \<Rightarrow> bytes \<Rightarrow> (string \<times> gerror) + bytes" where
  "merge_values c [] raw = Inr raw"
| "merge_values c ((k, v) # kvs) raw =
     (case cl_SetBytes c raw k v of
        Inl err \<Rightarrow> Inl (k, err)
      | Inr raw' \<Rightarrow> merge_values c kvs raw')"

definition set_variables :: "RawExtension option \<Rightarrow> Configuration \<Rightarrow> Configuration" where
  "set_variables v x = x\<lparr>cfg_Spec := (cfg_Spec x)\<lparr>cs_Variables := v\<rparr>\<rparr>"

text \<open>The patch of the configuration that exists.\<close>

definition updated_configuration :: "Configuration \<Rightarrow> Configuration \<Rightarrow> Configuration" where
  "updated_configuration current configuration =
     current\<lparr>cfg_Spec := cfg_Spec configuration,
       cfg_Meta := (cfg_Meta current)
         \<lparr>om_Labels := MergeStringMaps [om_Labels (cfg_Meta current), om_Labels (cfg_Meta configuration)],
          om_Annotations := MergeStringMaps [om_Annotations (cfg_Meta current), om_Annotations (cfg_Meta configuration)],
          om_OwnerReferences := om_OwnerReferences (cfg_Meta configuration)\<rparr>\<rparr>"

definition configuration_provisioned ::
  "('w, 'v) CloudController \<Rightarrow> string \<Rightarrow> ('w, CloudResource, clstate, unit) prog" where
  "configuration_provisioned c message =
     do { x \<leftarrow> gets resource;
          cond_Success (cl_cc c) CloudResource_Object (cr_cond x ConditionConfigurationReady) message [] }"

definition write_configuration ::
  "('w, 'v) CloudController \<Rightarrow> ConditionManager \<Rightarrow> Configuration option \<Rightarrow> Configuration \<Rightarrow> 'w crprog" where
  "write_configuration c cond current configuration =
     (case current of
        Some original \<Rightarrow>
          do { w \<leftarrow> perform (cl_cc c) (Patch (OConfiguration original))
                      (OConfiguration (updated_configuration original configuration));
               case w of
                 Inl err \<Rightarrow>
                   fail_on (cl_cc c) CloudResource_Object cond err
                     ''Failed to patch the cloud resource configuration'' []
               | Inr y \<Rightarrow>
                   (case as_Configuration y of
                      None \<Rightarrow>
                        fail_on (cl_cc c) CloudResource_Object cond decode_error
                          ''Failed to patch the cloud resource configuration'' []
                    | Some patched \<Rightarrow>
                        do { (if om_ResourceVersion (cfg_Meta original) \<noteq> om_ResourceVersion (cfg_Meta configuration)
                             then record_event CloudResource_Object EventTypeNormal ''ConfigurationUpdated''
                                    ''Updated the cloud resource configuration''
                             else State_Monad.return ());
                             modify_state (\<lambda>s. s\<lparr>cls_configuration := Some patched\<rparr>);
                             configuration_provisioned c ''Configuration has been updated'';
                             cr_proceed }) }
      | None \<Rightarrow>
          do { x \<leftarrow> gets resource;
               w \<leftarrow> perform (cl_cc c) Create (OConfiguration (configuration\<lparr>cfg_Meta :=
                      (cfg_Meta configuration)\<lparr>om_GenerateName := Sprintf ''%s-'' [FStr (om_Name (cr_Meta x))]\<rparr>\<rparr>));
               case w of
                 Inl err \<Rightarrow>
                   fail_on (cl_cc c) CloudResource_Object cond err
                     ''Failed to create the cloud resource configuration'' []
               | Inr y \<Rightarrow>
                   (case as_Configuration y of
                      None \<Rightarrow>
                        fail_on (cl_cc c) CloudResource_Object cond decode_error
                          ''Failed to create the cloud resource configuration'' []
                    | Some created \<Rightarrow>
                        do { modify_state (\<lambda>s. s\<lparr>cls_configuration := Some created\<rparr>);
                             configuration_provisioned c ''Provisioned the Configuration'';
                             modify_resource (\<lambda>x. x\<lparr>cr_Status := (cr_Status x)
                               \<lparr>crst_ConfigurationName := om_Name (cfg_Meta created)\<rparr>\<rparr>);
                             cr_proceed }) })"

definition provision_configuration ::
  "('w, 'v) CloudController \<Rightarrow> ConditionManager \<Rightarrow> Configuration option \<Rightarrow> CloudResource \<Rightarrow> Revision \<Rightarrow> 'w crprog" where
  "provision_configuration c cond current x revision =
     (let base = desired_configuration x revision in
      case merge_inputs c (rvs_Inputs (rv_Spec revision)) (cs_Variables (cfg_Spec base)) of
        Inl (message, key) \<Rightarrow>
          require_on (cl_cc c) CloudResource_Object cond message [FStr key] (Err ErrIgnore)
      | Inr variables \<Rightarrow>
          if \<not> CloudResource_HasVariables (cr_Spec x)
          then write_configuration c cond current (set_variables variables base)
          else (case lib_JSONObject (cl_lib c) (raw_variables (crs_Variables (cr_Spec x))) of
                  Inl err \<Rightarrow>
                    fail_on (cl_cc c) CloudResource_Object cond err
                      ''Failed to decode the configuration spec.variables in cloud resource'' []
                | Inr values \<Rightarrow>
                    (case merge_values c (cl_Range c values) (raw_variables variables) of
                       Inl (k, err) \<Rightarrow>
                         fail_on (cl_cc c) CloudResource_Object cond err
                           ''Failed to set the variable: %s in cloud resource'' [FStr k]
                     | Inr raw \<Rightarrow>
                         write_configuration c cond current (set_variables (Some \<lparr>re_Raw = raw\<rparr>) base))))"

definition ensureConfigurationExists :: "('w, 'v) CloudController \<Rightarrow> CloudResource \<Rightarrow> 'w crprog" where
  "ensureConfigurationExists c x0 =
     (let cond = cr_cond x0 ConditionReady in
      do { x \<leftarrow> gets resource;
           st \<leftarrow> gets rstate;
           r \<leftarrow> list_objects (cl_cc c) KConfiguration as_Configuration
                  [InNamespace (om_Namespace (cr_Meta x)),
                   MatchingLabels [(CloudResourceNameLabel, om_Name (cr_Meta x))]];
           case r of
             Inl err \<Rightarrow>
               fail_on (cl_cc c) CloudResource_Object cond err
                 ''Failed to retrieve the cloud resource configuration'' []
           | Inr [] \<Rightarrow>
               (case cls_revision st of
                  None \<Rightarrow> State_Monad.return Panic
                | Some revision \<Rightarrow> provision_configuration c cond None x revision)
           | Inr [item] \<Rightarrow>
               do { q \<leftarrow> GetIfExists (cl_cc c) KConfiguration as_Configuration
                           (om_Namespace (cfg_Meta item)) (om_Name (cfg_Meta item));
                    case q of
                      Inl err \<Rightarrow>
                        fail_on (cl_cc c) CloudResource_Object cond err
                          ''Failed to retrieve the cloud resource configuration'' []
                    | Inr None \<Rightarrow>
                        require_on (cl_cc c) CloudResource_Object cond
                          ''Cloud resource configuration does not exist'' []
                          (Ok (requeue_after (1 * minute)))
                    | Inr (Some current) \<Rightarrow>
                        (case cls_revision st of
                           None \<Rightarrow> State_Monad.return Panic
                         | Some revision \<Rightarrow> provision_configuration c cond (Some current) x revision) }
           | Inr (_ # _ # _) \<Rightarrow>
               require_on (cl_cc c) CloudResource_Object cond
                 ''Multiple configurations found for cloud resource'' []
                 (Ok (requeue_after (5 * minute))) })"

section \<open>Status\<close>

text \<open>The fields of a condition that are copied; the type stays.\<close>

definition copy_condition :: "Condition \<Rightarrow> Condition \<Rightarrow> Condition" where
  "copy_condition x condition =
     condition\<lparr>cd_Detail := cd_Detail x, cd_LastTransitionTime := cd_LastTransitionTime x,
       cd_Name := cd_Name x, cd_Message := cd_Message x,
       cd_ObservedGeneration := cd_ObservedGeneration x, cd_Reason := cd_Reason x,
       cd_Status := cd_Status x\<rparr>"

text \<open>
  The loop over the conditions of the configuration; its ready condition goes to the
  condition of the configuration status, whose absence is a nil pointer.
\<close>

fun copy_conditions :: "Condition list \<Rightarrow> Condition list \<Rightarrow> Condition list option" where
  "copy_conditions [] conditions = Some conditions"
| "copy_conditions (x # xs) conditions =
     (case index_of (cd_Type x) conditions of
        None \<Rightarrow> copy_conditions xs conditions
      | Some i \<Rightarrow>
          if cd_Type x = ConditionReady
          then (case index_of ConditionConfigurationStatus conditions of
                  None \<Rightarrow> None
                | Some j \<Rightarrow> copy_conditions xs (conditions[j := copy_condition x (conditions ! j)]))
          else copy_conditions xs (conditions[i := copy_condition x (conditions ! i)]))"

definition copy_status :: "Configuration \<Rightarrow> Condition list \<Rightarrow> CloudResource \<Rightarrow> CloudResource" where
  "copy_status configuration conditions x =
     x\<lparr>cr_Status := (cr_Status x)
         \<lparr>crst_Common := (crst_Common (cr_Status x))\<lparr>st_Conditions := conditions\<rparr>,
          crst_ConfigurationName := om_Name (cfg_Meta configuration),
          crst_Costs := cst_Costs (cfg_Status configuration),
          crst_ResourceStatus := cst_ResourceStatus (cfg_Status configuration),
          crst_Resources := cst_Resources (cfg_Status configuration)\<rparr>\<rparr>"

definition ensureConfigurationStatus :: "('w, 'v) CloudController \<Rightarrow> 'w crprog" where
  "ensureConfigurationStatus c =
     do { st \<leftarrow> gets rstate;
          x \<leftarrow> gets resource;
          case cls_configuration st of
            None \<Rightarrow> State_Monad.return Panic
          | Some configuration \<Rightarrow>
              (case copy_conditions (st_Conditions (cst_Common (cfg_Status configuration)))
                      (st_Conditions (crst_Common (cr_Status x))) of
                 None \<Rightarrow> State_Monad.return Panic
               | Some conditions \<Rightarrow>
                   do { modify_resource (copy_status configuration conditions); cr_proceed }) }"

text \<open>What the status says about updates of the plan.\<close>

definition update_available :: "('w, 'v) CloudController \<Rightarrow> Plan \<Rightarrow> string \<Rightarrow> string go" where
  "update_available c plan version =
     (if length (ListRevisions plan) = 0 then Ok ''None''
      else (case LatestSemverVersion (cl_sv c) (ListRevisions plan) of
              Panic \<Rightarrow> Panic
            | Err err \<Rightarrow> Ok ''None''
            | Ok latest \<Rightarrow>
                (case VersionLessThan (cl_sv c) version latest of
                   Inl err \<Rightarrow> Ok ''None''
                 | Inr available \<Rightarrow>
                     if available then Ok (Sprintf ''Update %s available'' [FStr latest])
                     else Ok ''None'')))"

definition set_update :: "string \<Rightarrow> CloudResource \<Rightarrow> CloudResource" where
  "set_update v x = x\<lparr>cr_Status := (cr_Status x)\<lparr>crst_UpdateAvailable := v\<rparr>\<rparr>"

text \<open>The deferred function that sets the metric from the status.\<close>

definition update_metric :: "('w, CloudResource, clstate, unit) prog" where
  "update_metric =
     do { x \<leftarrow> gets resource;
          record_effect (SetGauge ''cloudresource_update_available''
            [om_Namespace (cr_Meta x), om_Name (cr_Meta x)]
            (if crst_UpdateAvailable (cr_Status x) = ''Available'' then 1 else 0)) }"

definition ensureUpdateStatus :: "('w, 'v) CloudController \<Rightarrow> 'w crprog" where
  "ensureUpdateStatus c =
     do { st \<leftarrow> gets rstate;
          case cls_plan st of
            None \<Rightarrow> State_Monad.return Panic
          | Some plan \<Rightarrow>
              do { x \<leftarrow> gets resource;
                   modify_resource (set_update ''None'');
                   r \<leftarrow> (case update_available c plan (plr_Revision (crs_Plan (cr_Spec x))) of
                          Ok v \<Rightarrow> do { modify_resource (set_update v); cr_proceed }
                        | _ \<Rightarrow> State_Monad.return Panic);
                   update_metric;
                   State_Monad.return r } }"

section \<open>Deletion\<close>

definition set_destroying :: "CloudResource \<Rightarrow> CloudResource" where
  "set_destroying x = x\<lparr>cr_Status := (cr_Status x)\<lparr>crst_ResourceStatus := DestroyingResources\<rparr>\<rparr>"

definition mirror_ready :: "ConditionManager \<Rightarrow> Condition \<Rightarrow> CloudResource \<Rightarrow> CloudResource" where
  "mirror_ready cond status x =
     write_condition CloudResource_Object cond
       ((cm_GetCondition CloudResource_Object cond x)\<lparr>cd_Status := cd_Status status,
          cd_Reason := cd_Reason status, cd_Message := cd_Message status, cd_Type := cd_Type status\<rparr>) x"

definition ensureConfigurationRemoved :: "('w, 'v) CloudController \<Rightarrow> CloudResource \<Rightarrow> 'w crprog" where
  "ensureConfigurationRemoved c x0 =
     (let cond = cr_cond x0 ConditionReady in
      do { modify_resource set_destroying;
           x \<leftarrow> gets resource;
           r \<leftarrow> GetIfExists (cl_cc c) KConfiguration as_Configuration (om_Namespace (cr_Meta x))
                  (crst_ConfigurationName (cr_Status x));
           case r of
             Inl err \<Rightarrow>
               fail_on (cl_cc c) CloudResource_Object cond err ''Failed to retrieve the configuration'' []
           | Inr None \<Rightarrow>
               do { record_event CloudResource_Object EventTypeNormal ''Deleted''
                      ''The configuration has been deleted'';
                    cr_proceed }
           | Inr (Some configuration) \<Rightarrow>
               if om_DeletionTimestamp (cfg_Meta configuration) = None \<or>
                  om_DeletionTimestamp (cfg_Meta configuration) = Some 0
               then do { w \<leftarrow> perform (cl_cc c) Delete (OConfiguration configuration);
                         case w of
                           Inl err \<Rightarrow>
                             fail_on (cl_cc c) CloudResource_Object cond err
                               ''Failed to delete the configuration'' []
                         | Inr _ \<Rightarrow>
                             do { cond_Deleting (cl_cc c) CloudResource_Object cond
                                    ''Waiting for the configuration to be deleted'' [];
                                  State_Monad.return (Ok (requeue_after (5 * second))) } }
               else (case GetCondition (cst_Common (cfg_Status configuration)) ConditionReady of
                       None \<Rightarrow> State_Monad.return Panic
                     | Some status \<Rightarrow>
                         do { modify_resource (mirror_ready cond status);
                              if cst_ResourceStatus (cfg_Status configuration) = DestroyingResourcesFailed
                              then require_on (cl_cc c) CloudResource_Object cond
                                     ''Failed to delete CloudResource, please check Configuration status''
                                     [] (Err ErrIgnore)
                              else State_Monad.return (Ok (requeue_after (5 * second))) }) })"

section \<open>The handler\<close>

definition cloud_delete_chain :: "('w, 'v) CloudController \<Rightarrow> CloudResource \<Rightarrow> 'w crprog list" where
  "cloud_delete_chain c x =
     [ensureConfigurationRemoved c x,
      EnsureRemoved (cl_cc c) CloudResource_Object cloudresource_controllerName]"

definition cloud_chain :: "('w, 'v) CloudController \<Rightarrow> CloudResource \<Rightarrow> 'w crprog list" where
  "cloud_chain c x =
     [EnsurePresent (cl_cc c) CloudResource_Object cloudresource_controllerName,
      cloud_ensurePlanExists c x,
      ensureRevisionExists c x,
      ensureConfigurationExists c x,
      ensureUpdateStatus c,
      ensureConfigurationStatus c]"

definition reconcile_cloudresource :: "('w, 'v) CloudController \<Rightarrow> CloudResource \<Rightarrow> 'w crprog" where
  "reconcile_cloudresource c x =
     do { modify_resource (\<lambda>_. x);
          modify_state (\<lambda>_. new_clstate);
          if IsDeletionCandidate CloudResource_Object cloudresource_controllerName x
          then Run (cl_cc c) CloudResource_Object (cloud_delete_chain c x)
          else do {
            now \<leftarrow> gets (\<lambda>s. cc_Now (cl_cc c) (world s));
            let registered = EnsureConditionsRegistered CloudResource_Object now
                  DefaultCloudResourceConditions x;
            modify_resource (\<lambda>_. registered);
            Run (cl_cc c) CloudResource_Object (cloud_chain c registered) } }"

definition cloud_Reconcile :: "('w, 'v) CloudController \<Rightarrow> string \<Rightarrow> string \<Rightarrow> 'w crprog" where
  "cloud_Reconcile c namespace name =
     with_resource (cl_cc c) KCloudResource as_CloudResource namespace name (reconcile_cloudresource c)"

end
