(* ===== verification/Cloud_Properties.thy ===== *)
theory Cloud_Properties
  imports Estate_Properties Cloudresources
begin

text \<open>
  Properties of the cloud resource controller: how many configurations it keeps, when it gives a
  cloud resource up, and what it copies of the status of the configuration.
\<close>

section \<open>One configuration\<close>

text \<open>The configurations in the namespace that carry the name of the cloud resource.\<close>

definition owned :: "('w, 'v) CloudController \<Rightarrow> CloudResource \<Rightarrow> 'w \<Rightarrow> gerror + object list" where
  "owned c x w = fst (cc_List (cl_cc c) KConfiguration
     [InNamespace (om_Namespace (cr_Meta x)), MatchingLabels [(CloudResourceNameLabel, om_Name (cr_Meta x))]] w)"

text \<open>A write of a configuration that the next listing finds.\<close>

definition provisions :: "CloudResource \<Rightarrow> verb \<Rightarrow> Configuration \<Rightarrow> bool" where
  "provisions x v y \<longleftrightarrow>
     gomap_find (om_Labels (cfg_Meta y)) CloudResourceNameLabel = Some (om_Name (cr_Meta x)) \<and>
     (case v of
        Create \<Rightarrow> om_Namespace (cfg_Meta y) = om_Namespace (cr_Meta x)
      | Patch (OConfiguration z) \<Rightarrow>
          om_Namespace (cfg_Meta y) = om_Namespace (cfg_Meta z) \<and> om_Name (cfg_Meta y) = om_Name (cfg_Meta z)
      | _ \<Rightarrow> False)"

definition provisioning :: "CloudResource \<Rightarrow> effect \<Rightarrow> bool" where
  "provisioning x e \<longleftrightarrow> (\<exists>v y res. e = Wrote v (OConfiguration y) res \<and> provisions x v y)"

lemma desired_label:
  "gomap_find (om_Labels (cfg_Meta (desired_configuration x revision))) CloudResourceNameLabel = Some (om_Name (cr_Meta x))"
  "om_Namespace (cfg_Meta (desired_configuration x revision)) = om_Namespace (cr_Meta x)"
  by (simp_all add: desired_configuration_def Let_def gomap_find_def cloud_label_defs NewConfiguration_def)

lemma provisions_created:
  assumes "y = set_variables v (desired_configuration x revision)"
  shows "provisions x Create (y\<lparr>cfg_Meta := (cfg_Meta y)\<lparr>om_GenerateName := n\<rparr>\<rparr>)"
  using desired_label [of x revision] by (simp add: assms provisions_def set_variables_def)

lemma provisions_updated:
  assumes "y = set_variables v (desired_configuration x revision)"
  shows "provisions x (Patch (OConfiguration z)) (updated_configuration z y)"
proof -
  have "CloudResourceNameLabel \<noteq> []" by (simp add: CloudResourceNameLabel_def)
  then show ?thesis
    using desired_label [of x revision]
      merge_all_last [of CloudResourceNameLabel "om_Labels (cfg_Meta y)" _ Map.empty "[om_Labels (cfg_Meta z)]"]
    by (simp add: assms provisions_def set_variables_def updated_configuration_def MergeStringMaps_def
        gomap_find_def [of "Some _"])
qed

definition is_event :: "effect \<Rightarrow> bool" where
  "is_event e \<longleftrightarrow> (\<exists>x t r m. e = Event x t r m)"

lemma is_event_simps [simp]: "is_event (Event x t r m)" "\<not> is_event (Wrote v y res)"
  by (simp_all add: is_event_def)

lemma event_not_provisioning [simp]: "is_event e \<Longrightarrow> \<not> provisioning x e"
  by (auto simp: is_event_def provisioning_def)

lemma wp_logs:
  assumes "logs E m" and "\<And>r t es. effects t = effects s @ es \<Longrightarrow> \<forall>e \<in> set es. E e \<Longrightarrow> Q r t"
  shows "wp m Q s"
  using assms unfolding logs_def by (blast intro: wp_mono)

text \<open>One write, followed by events.\<close>

definition wrote_one :: "CloudResource \<Rightarrow> bool \<Rightarrow> effect list \<Rightarrow> bool" where
  "wrote_one x create es \<longleftrightarrow> (\<exists>v y res fs. es = Wrote v (OConfiguration y) res # fs \<and>
     provisions x v y \<and> (v = Create \<longleftrightarrow> create) \<and> (\<forall>e \<in> set fs. is_event e))"

lemma write_configuration_once:
  assumes "y = set_variables v (desired_configuration x revision)"
  shows "wp (write_configuration c cond current y)
    (\<lambda>_ t. \<exists>es. effects t = effects s @ es \<and> wrote_one x (current = None) es) s"
proof -
  have after: "wp m (\<lambda>_ t. \<exists>es. effects t = effects s @ es \<and> wrote_one x create es) u"
    if "logs is_event m" "effects u = effects s @ [Wrote w (OConfiguration z) res]" "provisions x w z"
      "w = Create \<longleftrightarrow> create" for u w z res create and m :: "('w, CloudResource, clstate) ensure"
    by (rule wp_logs [OF that(1)]) (use that(2-) in \<open>auto simp: wrote_one_def\<close>)
  show ?thesis
  proof (cases current)
    case None
    show ?thesis
      unfolding write_configuration_def None option.case wp_bind wp_gets
      by (rule wp_perform_any, rule after)
        (auto simp: configuration_provisioned_def cond_defs intro!: logs_intros provisions_created [OF assms])
  next
    case (Some z)
    show ?thesis
      unfolding write_configuration_def Some option.case wp_bind
      by (rule wp_perform_any, rule after)
        (auto simp: configuration_provisioned_def cond_defs intro!: logs_intros provisions_updated [OF assms])
  qed
qed

text \<open>The two ways a step can end: it stopped with events only, or it wrote once.\<close>

definition settles :: "CloudResource \<Rightarrow> bool \<Rightarrow> Result go \<Rightarrow> effect list \<Rightarrow> bool" where
  "settles x create r es \<longleftrightarrow> \<not> continues r \<and> (\<forall>e \<in> set es. is_event e) \<or> wrote_one x create es"

lemma settles_stop:
  assumes "logs is_event m" and "stopping m" and "effects u = effects s"
  shows "wp m (\<lambda>r t. \<exists>es. effects t = effects s @ es \<and> settles x create r es) u"
proof -
  have "wp m (\<lambda>r t. (\<exists>es. effects t = effects u @ es \<and> (\<forall>e \<in> set es. is_event e)) \<and> \<not> continues r) u"
    using assms(1,2) by (intro wp_conj) (simp_all add: logs_def stopping_def)
  then show ?thesis by (rule wp_mono) (auto simp: settles_def assms(3))
qed

lemma provision_configuration_once:
  assumes "effects u = effects s"
  shows "wp (provision_configuration c cond current x revision)
    (\<lambda>r t. \<exists>es. effects t = effects s @ es \<and> settles x (current = None) r es) u"
proof -
  have wr: "wp (write_configuration c cond current (set_variables v (desired_configuration x revision)))
    (\<lambda>r t. \<exists>es. effects t = effects s @ es \<and> settles x (current = None) r es) u" for v
    by (rule wp_mono [OF write_configuration_once [OF refl, of c cond current v x revision u]])
      (auto simp: settles_def assms)
  show ?thesis
    unfolding provision_configuration_def Let_def
    by (auto simp: wp_if intro!: wr settles_stop [OF _ _ assms] logs_intros stopping_intros
        split: sum.splits prod.splits)
qed

text \<open>An operation that stops and only raises events.\<close>

lemma stops_with_events:
  fixes m :: "('w, CloudResource, clstate) ensure"
  assumes "logs is_event m" "stopping m" "effects u = effects s"
  shows "wp m (\<lambda>r t. \<exists>es. effects t = effects s @ es \<and> \<not> continues r \<and> (\<forall>e \<in> set es. is_event e)) u"
proof -
  have "wp m (\<lambda>r t. (\<exists>es. effects t = effects u @ es \<and> (\<forall>e \<in> set es. is_event e)) \<and> \<not> continues r) u"
    using assms(1,2) by (intro wp_conj) (simp_all add: logs_def stopping_def)
  then show ?thesis by (rule wp_mono) (auto simp: assms(3))
qed

text \<open>
  C13. A cloud resource keeps one configuration: each run of the function writes at most one,
  which carries the name of the cloud resource as the label that later listings select on;
  it creates one, in the namespace of the cloud resource, only when the listing was empty, it
  patches one only when the listing had exactly one, and it lets the chain go on only after
  a write.
\<close>

theorem one_configuration:
  fixes c :: "('w, 'v) CloudController" and s :: "('w, CloudResource, clstate) env"
  defines "x \<equiv> resource s"
  shows "wp (ensureConfigurationExists c x0)
    (\<lambda>r t. \<exists>es. effects t = effects s @ es \<and>
       (case owned c x (world s) of
          Inr [] \<Rightarrow> settles x True r es
        | Inr [_] \<Rightarrow> settles x False r es
        | _ \<Rightarrow> \<not> continues r \<and> (\<forall>e \<in> set es. is_event e))) s" (is "wp _ ?Q s")
proof -
  have panic: "settles x b Panic []" for b by (simp add: settles_def)
  note steps = logs_intros stopping_intros
  show ?thesis
    unfolding ensureConfigurationExists_def Let_def wp_bind wp_gets x_def [symmetric]
  proof (rule wp_list_objects_cases, goal_cases)
    case (1 err w)
    show ?case
      by (simp, intro wp_mono [OF stops_with_events [where s = s]]) (auto intro!: steps simp: settles_def split: sum.splits list.splits)
  next
    case (2 objs items w)
    then have o: "owned c x (world s) = Inr objs" and l: "length objs = length items"
      using map_eq_imp_length_eq by (auto simp: owned_def)
    show ?case
    proof (cases items)
      case Nil
      with l have "objs = []" by simp
      with o Nil show ?thesis
        using provision_configuration_once [where c = c and current = None and x = x and s = s and u = "s\<lparr>world := w\<rparr>"]
        by (simp add: wp_case_option panic)
    next
      case (Cons item rest)
      show ?thesis
      proof (cases rest)
        case Nil
        with Cons l obtain ob where ob: "objs = [ob]" by (auto simp: length_Suc_conv)
        show ?thesis
          unfolding o ob Cons Nil sum.case list.case wp_bind
          by (rule wp_GetIfExists_any)
            (auto simp: wp_if panic minute_def second_def intro!: settles_stop [of _ _ s] provision_configuration_once [of _ s, where current = "Some _", simplified] steps
              split: sum.splits option.splits)
      next
        case (Cons item2 rest2)
        with \<open>items = item # rest\<close> l obtain a b os where ob: "objs = a # b # os"
          by (auto simp: length_Suc_conv)
        show ?thesis
          unfolding o ob \<open>items = item # rest\<close> Cons sum.case list.case
          by (rule wp_mono [OF stops_with_events [where s = s]]) (auto intro!: steps)
      qed
    qed
  qed
qed

section \<open>Deletion\<close>

text \<open>An update of the cloud resource that gives up the finalizer of the controller.\<close>

definition gives_up :: "effect \<Rightarrow> bool" where
  "gives_up e \<longleftrightarrow> (\<exists>y res. e = Wrote Update (OCloudResource y) res \<and>
     cloudresource_controllerName \<notin> set (om_Finalizers (cr_Meta y)))"

lemma gives_up_simps [simp]:
  "\<not> gives_up (Event x t r m)" "\<not> gives_up (SetGauge n l q)" "\<not> gives_up (Wrote (StatusPatch a) b res)"
  "\<not> gives_up (Wrote (Patch a) b res)" "\<not> gives_up (Wrote Create b res)" "\<not> gives_up (Wrote Delete b res)"
  by (simp_all add: gives_up_def)

lemma only_writes_gives_up [simp]: "only_writes gives_up"
  by (simp add: only_writes_def)

text \<open>The configuration of the cloud resource was read and not found.\<close>

definition configuration_gone :: "('w, 'v) CloudController \<Rightarrow> CloudResource \<Rightarrow> bool" where
  "configuration_gone c x \<longleftrightarrow>
     (\<exists>w err. fst (cc_Get (cl_cc c) KConfiguration (om_Namespace (cr_Meta x))
        (crst_ConfigurationName (cr_Status x)) w) = Inl err \<and> IsNotFound err)"

lemma removal_waits:
  "wp (ensureConfigurationRemoved c x0)
     (\<lambda>r t. silent gives_up s t \<and> (continues r \<longrightarrow> configuration_gone c (resource s))) s"
proof -
  have keep: "om_Namespace (cr_Meta (set_destroying x)) = om_Namespace (cr_Meta x)"
    "crst_ConfigurationName (cr_Status (set_destroying x)) = crst_ConfigurationName (cr_Status x)" for x
    by (simp_all add: set_destroying_def)
  have stop: "wp m (\<lambda>r t. silent gives_up s t \<and> (continues r \<longrightarrow> configuration_gone c (resource s))) u"
    if "logs (\<lambda>e. \<not> gives_up e) m" "stopping m" "effects u = effects s" for u m
  proof -
    have "wp m (\<lambda>r t. silent gives_up u t \<and> \<not> continues r) u"
      using that(1,2) by (intro wp_conj logs_silent) (simp_all add: stopping_def)
    then show ?thesis by (rule wp_mono) (auto simp: silent_def that(3))
  qed
  show ?thesis
    unfolding ensureConfigurationRemoved_def Let_def wp_bind wp_gets wp_modify_resource
  proof (rule wp_GetIfExists_full, goal_cases)
    case (1 err w)
    then show ?case by (auto intro!: stop logs_intros stopping_intros)
  next
    case (2 err w)
    then have "configuration_gone c (resource s)" by (auto simp: configuration_gone_def keep)
    then show ?case by (simp add: record_event_def silent_def)
  next
    case (3 y configuration w)
    show ?case
      unfolding sum.case option.case
      by (rule stop) (auto simp: cond_defs intro!: logs_intros stopping_intros split: option.splits)
  qed
qed

text \<open>Outside of deletion nothing gives the finalizer up.\<close>

lemma present_keeps: "logs (\<lambda>e. \<not> gives_up e) (EnsurePresent cc CloudResource_Object cloudresource_controllerName)"
proof -
  have "cloudresource_controllerName \<in> set (om_Finalizers (cr_Meta
      (SetFinalizers CloudResource_Object (finalizers CloudResource_Object x @ [cloudresource_controllerName]) x)))" for x
    using cloudres.finalizers_set [of "finalizers CloudResource_Object x @ [cloudresource_controllerName]" x]
    by (simp add: finalizers_def)
  then show ?thesis
    unfolding logs_def EnsurePresent_def Finalizer_Add_def
    by (auto simp: wp_if gives_up_def intro!: wp_perform_any split: option.splits)
qed

lemma chain_keeps: "\<forall>m \<in> set (cloud_chain c x). logs (\<lambda>e. \<not> gives_up e) m"
  by (auto simp: cloud_chain_def cloud_ensurePlanExists_def ensureRevisionExists_def ensureConfigurationExists_def
      provision_configuration_def write_configuration_def configuration_provisioned_def ensureUpdateStatus_def
      update_metric_def ensureConfigurationStatus_def cond_defs Let_def
      intro!: present_keeps logs_intros)

text \<open>
  C14. A cloud resource outlives its configuration: a reconciliation gives up the finalizer of
  the cloud resource it read only when that is a deletion candidate and the configuration its
  status names was read and not found.
\<close>

theorem cloudresource_release_held:
  fixes c :: "('w, 'v) CloudController" and s :: "('w, CloudResource, clstate) env"
  shows "wp (cloud_Reconcile c namespace name)
    (\<lambda>_ s'. silent gives_up s s' \<or>
       (\<exists>x. fst (cc_Get (cl_cc c) KCloudResource namespace name (world s)) = Inr (OCloudResource x) \<and>
            IsDeletionCandidate CloudResource_Object cloudresource_controllerName x \<and>
            configuration_gone c x)) s"
  unfolding cloud_Reconcile_def
proof (rule wp_with_resource)
  fix x y w assume y: "fst (cc_Get (cl_cc c) KCloudResource namespace name (world s)) = Inr y"
    and x: "as_CloudResource y = Some x"
  let ?t = "s\<lparr>world := w, resource := x, rstate := new_clstate\<rparr>"
  have "wp (Run (cl_cc c) CloudResource_Object (cloud_delete_chain c x))
      (\<lambda>_ u. silent gives_up ?t u \<or> configuration_gone c (resource ?t)) ?t"
    unfolding cloud_delete_chain_def
    by (rule Run_gate [OF only_writes_gives_up run_loop_gate [OF removal_waits]]) (rule wpI, simp)
  then have del: "wp (Run (cl_cc c) CloudResource_Object (cloud_delete_chain c x))
      (\<lambda>_ u. silent gives_up s u \<or> configuration_gone c x) ?t"
    by (rule wp_mono) (auto simp: silent_def)
  have "wp (Run (cl_cc c) CloudResource_Object (cloud_chain c z)) (\<lambda>_ u. silent gives_up v u) v" for v z
    by (rule logs_silent, rule logs_Run [OF chain_keeps]) simp_all
  then have rec: "wp (Run (cl_cc c) CloudResource_Object (cloud_chain c z)) (\<lambda>_ u. silent gives_up s u) v"
    if "effects v = effects s" for v z
    by (rule wp_mono) (use that in \<open>auto simp: silent_def\<close>)
  show "wp (reconcile_cloudresource c x) (\<lambda>_ s'. silent gives_up s s' \<or>
       (\<exists>x. fst (cc_Get (cl_cc c) KCloudResource namespace name (world s)) = Inr (OCloudResource x) \<and>
            IsDeletionCandidate CloudResource_Object cloudresource_controllerName x \<and>
            configuration_gone c x)) (s\<lparr>world := w\<rparr>)"
    using y as_CloudResource_eq [OF x]
    by (auto simp: reconcile_cloudresource_def wp_if Let_def intro!: wp_mono [OF del] rec)
qed simp

section \<open>Status\<close>

lemma copy_condition_type [simp]: "cd_Type (copy_condition x cond) = cd_Type cond"
  by (simp add: copy_condition_def)

lemma copy_conditions_types:
  "copy_conditions xs cs = Some ds \<Longrightarrow> map cd_Type ds = map cd_Type cs"
proof (induction xs arbitrary: cs)
  case (Cons x xs)
  then show ?case
    by (force simp: map_type_update split: option.splits if_splits)
qed simp

lemma copy_conditions_total:
  assumes "ConditionConfigurationStatus \<in> cd_Type ` set cs"
  shows "\<exists>ds. copy_conditions xs cs = Some ds"
  using assms
proof (induction xs arbitrary: cs)
  case (Cons x xs)
  have st: "index_of ConditionConfigurationStatus cs \<noteq> None"
    using Cons.prems by (simp add: index_of_None)
  have "ConditionConfigurationStatus \<in> cd_Type ` set (cs[i := copy_condition x (cs ! i)])" for i
    using Cons.prems map_type_update [of "copy_condition x (cs ! i)" cs i] by (metis copy_condition_type set_map)
  with st Cons.IH Cons.prems show ?case by (auto split: option.splits)
qed simp

text \<open>What a lookup in the copied conditions finds.\<close>

definition lookup :: "ConditionType \<Rightarrow> Condition list \<Rightarrow> Condition option" where
  "lookup t cs = map_option (\<lambda>i. cs ! i) (index_of t cs)"

lemma lookup_GetCondition: "GetCondition s t = lookup t (st_Conditions s)"
  by (simp add: GetCondition_def lookup_def split: option.splits)

lemma lookup_Cons: "lookup t (c # cs) = (if cd_Type c = t then Some c else lookup t cs)"
  by (cases "index_of t cs") (auto simp: lookup_def)

lemma lookup_None: "t \<notin> cd_Type ` set cs \<Longrightarrow> lookup t cs = None"
  by (simp add: lookup_def index_of_None)

lemma lookup_update:
  assumes "index_of t cs = Some i" and "cd_Type c = t"
  shows "lookup u (cs[i := c]) = (if u = t then Some c else lookup u cs)"
  using GetCondition_set [of t "empty_common_status\<lparr>st_Conditions := cs\<rparr>" i c u] assms
  by (simp add: lookup_GetCondition)

definition mirrored :: "Condition list \<Rightarrow> Condition list \<Rightarrow> ConditionType \<Rightarrow> Condition option" where
  "mirrored xs cs t =
     (case lookup t cs of
        None \<Rightarrow> None
      | Some d \<Rightarrow>
          if t = ConditionReady then Some d
          else (case lookup (if t = ConditionConfigurationStatus then ConditionReady else t) xs of
                  None \<Rightarrow> Some d
                | Some x \<Rightarrow>
                    if lookup (cd_Type x) cs = None then Some d else Some (copy_condition x d)))"

lemma copy_conditions_mirror:
  assumes "distinct_types xs" and "ConditionConfigurationStatus \<notin> cd_Type ` set xs"
    and "copy_conditions xs cs = Some ds"
  shows "lookup t ds = mirrored xs cs t"
  using assms
proof (induction xs arbitrary: cs)
  case Nil
  then show ?case by (simp add: mirrored_def lookup_def split: option.splits)
next
  case (Cons x xs)
  have diff: "ConditionReady \<noteq> ConditionConfigurationStatus" "cd_Type x \<noteq> ConditionConfigurationStatus"
    using Cons.prems(2) by (auto simp: ConditionReady_def ConditionConfigurationStatus_def)
  have none: "lookup (cd_Type x) xs = None"
    using Cons.prems(1) by (intro lookup_None) (auto simp: distinct_types_def)
  have IH: "lookup t ds = mirrored xs cs' t" if "copy_conditions xs cs' = Some ds" for cs'
    using Cons that by (simp add: distinct_types_def)
  show ?case
  proof (cases "index_of (cd_Type x) cs")
    case None
    then have "lookup (cd_Type x) cs = None" by (simp add: lookup_def)
    moreover have "lookup t ds = mirrored xs cs t" using Cons.prems(3) None by (intro IH) simp
    ultimately show ?thesis
      using none diff by (auto simp: mirrored_def lookup_Cons split: option.splits)
  next
    case (Some i)
    then have has: "lookup (cd_Type x) cs = Some (cs ! i)" by (simp add: lookup_def)
    obtain u j where u: "index_of u cs = Some j" "u = (if cd_Type x = ConditionReady then ConditionConfigurationStatus else cd_Type x)"
      and cp: "copy_conditions xs (cs[j := copy_condition x (cs ! j)]) = Some ds"
      using Cons.prems(3) Some by (auto split: if_splits option.splits)
    have new: "lookup v (cs[j := copy_condition x (cs ! j)]) = (if v = u then Some (copy_condition x (cs ! j)) else lookup v cs)" for v
      using u(1) index_of_Some [OF u(1)] by (intro lookup_update) auto
    have old: "lookup u cs = Some (cs ! j)" using u(1) by (simp add: lookup_def)
    show ?thesis
    proof (cases "t = u")
      case True
      with old have "mirrored xs (cs[j := copy_condition x (cs ! j)]) t = Some (copy_condition x (cs ! j))"
        using none u(2) diff by (auto simp: mirrored_def new)
      moreover have "mirrored (x # xs) cs t = Some (copy_condition x (cs ! j))"
        using True old has u(2) diff by (cases "cd_Type x = ConditionReady") (simp_all add: mirrored_def lookup_Cons)
      ultimately show ?thesis using IH [OF cp] by simp
    next
      case False
      then have same: "lookup t (cs[j := copy_condition x (cs ! j)]) = lookup t cs" by (simp add: new)
      have "(lookup v (cs[j := copy_condition x (cs ! j)]) = None) = (lookup v cs = None)" for v
        using old by (simp add: new)
      note key = this same
      consider "t = ConditionReady" |
        "lookup (if t = ConditionConfigurationStatus then ConditionReady else t) (x # xs) =
         lookup (if t = ConditionConfigurationStatus then ConditionReady else t) xs"
        using False u(2) diff
        by (cases "t = ConditionReady"; cases "cd_Type x = ConditionReady"; cases "t = ConditionConfigurationStatus")
          (auto simp: lookup_Cons)
      then have "mirrored (x # xs) cs t = mirrored xs (cs[j := copy_condition x (cs ! j)]) t"
      proof cases
        case 1
        then have "mirrored ys ds t = lookup t ds" for ys ds by (simp add: mirrored_def split: option.splits)
        with same show ?thesis by simp
      next
        case 2
        then show ?thesis by (simp only: mirrored_def key)
      qed
      then show ?thesis using IH [OF cp] by simp
    qed
  qed
qed

text \<open>
  The status of the configuration reaches the cloud resource: with the conditions of a cloud
  resource registered, and conditions of different types on a configuration that has none of the
  type \<open>ConfigurationStatus\<close>, the function always succeeds; the types of the conditions stay, every
  condition that both have is copied, the ready condition of the configuration goes to the
  condition \<open>ConfigurationStatus\<close> and never to the ready condition of the cloud resource.
\<close>

theorem status_mirrored:
  fixes c :: "('w, 'v) CloudController" and s :: "('w, CloudResource, clstate) env"
  assumes "cls_configuration (rstate s) = Some configuration"
    and "HasCondition (crst_Common (cr_Status (resource s))) ConditionConfigurationStatus"
    and "distinct_types (st_Conditions (cst_Common (cfg_Status configuration)))"
    and "\<not> HasCondition (cst_Common (cfg_Status configuration)) ConditionConfigurationStatus"
  shows "wp (ensureConfigurationStatus c)
    (\<lambda>r t. r = Ok Result0 \<and> effects t = effects s \<and>
       crst_Resources (cr_Status (resource t)) = cst_Resources (cfg_Status configuration) \<and>
       map cd_Type (st_Conditions (crst_Common (cr_Status (resource t)))) =
         map cd_Type (st_Conditions (crst_Common (cr_Status (resource s)))) \<and>
       (\<forall>u. GetCondition (crst_Common (cr_Status (resource t))) u =
          mirrored (st_Conditions (cst_Common (cfg_Status configuration)))
            (st_Conditions (crst_Common (cr_Status (resource s)))) u)) s"
proof -
  let ?xs = "st_Conditions (cst_Common (cfg_Status configuration))"
  let ?cs = "st_Conditions (crst_Common (cr_Status (resource s)))"
  obtain ds where ds: "copy_conditions ?xs ?cs = Some ds"
    using copy_conditions_total assms(2) by (auto simp: HasCondition_iff)
  have "lookup u ds = mirrored ?xs ?cs u" for u
    using assms(3,4) ds by (intro copy_conditions_mirror) (auto simp: HasCondition_iff)
  with ds copy_conditions_types [OF ds] assms(1) show ?thesis
    by (simp add: ensureConfigurationStatus_def copy_status_def lookup_GetCondition)
qed

section \<open>Instances\<close>

definition sample_cloud :: "(object list, string \<times> nat) CloudController" where
  "sample_cloud = \<lparr>cl_cc = sample_client, cl_lib = sample_libs, cl_sv = sample_semver,
     cl_SetBytes = (\<lambda>raw k v. Inr raw), cl_Range = (\<lambda>_. [])\<rparr>"

theorem one_configuration_witness:
  defines "x \<equiv> NewCloudResource ''apps'' ''bucket''"
    and "st \<equiv> new_clstate\<lparr>cls_revision := Some (sample_revision ''1'')\<rparr>"
  shows "wp (ensureConfigurationExists sample_cloud x)
    (\<lambda>r t. settles x True r (effects t)) (sample_env [] x st)"
proof -
  have "owned sample_cloud x [] = Inr []" by (simp add: owned_def sample_cloud_def sample_client_def)
  then show ?thesis
    using one_configuration [of sample_cloud x "sample_env [] x st"] by (elim wp_mono) simp
qed

theorem status_mirrored_witness:
  defines "conditions \<equiv> [sample_condition ConditionReady 1 ConditionFalse,
      sample_condition ConditionConfigurationStatus 1 ConditionFalse,
      sample_condition ConditionTerraformPlan 1 ConditionFalse]"
    and "y \<equiv> sample_configuration None ConditionTrue"
  defines "x \<equiv> (NewCloudResource ''apps'' ''bucket'')\<lparr>cr_Status := empty_cloudresource_status
      \<lparr>crst_Common := empty_common_status\<lparr>st_Conditions := conditions\<rparr>\<rparr>\<rparr>"
  shows "wp (ensureConfigurationStatus sample_cloud)
    (\<lambda>r t. r = Ok Result0 \<and>
       Common_IsComplete (crst_Common (cr_Status (resource t))) ConditionTerraformPlan 1)
    (sample_env [] x (new_clstate\<lparr>cls_configuration := Some y\<rparr>))"
proof -
  let ?s = "sample_env [] x (new_clstate\<lparr>cls_configuration := Some y\<rparr>)"
  note defs = conditions_def y_def x_def sample_configuration_def sample_condition_def HasCondition_iff
    distinct_types_def ConditionReady_def ConditionConfigurationStatus_def ConditionTerraformPlan_def
    ConditionTerraformPolicy_def ConditionTerraformApply_def ConditionProviderReady_def
  have "cls_configuration (rstate ?s) = Some y" by simp
  moreover have "HasCondition (crst_Common (cr_Status (resource ?s))) ConditionConfigurationStatus"
    by (simp add: defs)
  moreover have "distinct_types (st_Conditions (cst_Common (cfg_Status y)))" by (simp add: defs)
  moreover have "\<not> HasCondition (cst_Common (cfg_Status y)) ConditionConfigurationStatus" by (simp add: defs)
  ultimately have "wp (ensureConfigurationStatus sample_cloud) (\<lambda>r t. r = Ok Result0 \<and>
      GetCondition (crst_Common (cr_Status (resource t))) ConditionTerraformPlan =
        mirrored (st_Conditions (cst_Common (cfg_Status y))) conditions ConditionTerraformPlan) ?s"
    using status_mirrored [of ?s y sample_cloud] by (auto elim!: wp_mono simp: x_def)
  then show ?thesis
    by (rule wp_mono) (simp add: Common_IsComplete_def mirrored_def lookup_Cons copy_condition_def defs)
qed

text \<open>
  The metric of available updates is always zero: the status never has the value it is compared with.
\<close>

lemma update_metric_never_set:
  "update_available c plan version = Ok v \<Longrightarrow> v \<noteq> ''Available''"
  by (auto simp: update_available_def split: if_splits go.splits sum.splits)

end
