(* ===== verification/Handlers.thy ===== *)
theory Handlers
  imports Controller_Common
begin

text \<open>
  The admission handlers (\<open>pkg/handlers\<close>): the mutating ones fill in what the user left out, the
  validating ones reject what the controllers could not serve. No handler writes to the cluster.
  A mutating handler changes the object in place; the webhook drops the object when the handler
  fails, so the model returns the object on success only. The warnings are always empty.
\<close>

section \<open>The handlers\<close>

text \<open>
  The clients and settings of all the handlers. \<open>wh_CreateMergePatch\<close> and \<open>wh_MergePatch\<close> stand
  for the JSON patch library, \<open>wh_Range\<close> and \<open>wh_RangeRaw\<close> for the order in which one iteration
  visits a map. \<open>wh_DeepEqual\<close> is \<open>reflect.DeepEqual\<close> on the specifications of revisions, which
  tells a nil list from an empty one where the types of the model do not.
\<close>

record ('w, 'v) Webhooks =
  wh_cc :: "'w client"
  wh_lib :: Libs
  wh_sv :: "'v Semver"
  wh_CreateMergePatch :: "bytes \<Rightarrow> bytes \<Rightarrow> gerror + bytes"
  wh_MergePatch :: "bytes \<Rightarrow> bytes \<Rightarrow> gerror + bytes"
  wh_Range :: "(string \<rightharpoonup> json) \<Rightarrow> string list"
  wh_RangeRaw :: "(string \<rightharpoonup> RawExtension) \<Rightarrow> (string \<times> RawExtension) list"
  wh_DeepEqual :: "RevisionSpec \<Rightarrow> RevisionSpec \<Rightarrow> bool"
  wh_enableVersions :: bool
  wh_EnableNamespaceProtection :: bool
  wh_EnableUpdateProtection :: bool
  wh_jobNamespace :: string

text \<open>The name that \<open>%T\<close> prints.\<close>

fun go_type :: "object option \<Rightarrow> string" where
  "go_type None = ''<nil>''"
| "go_type (Some x) =
     (case x of
        OSecret _ \<Rightarrow> ''*v1.Secret''
      | OConfigMap _ \<Rightarrow> ''*v1.ConfigMap''
      | ONamespace _ \<Rightarrow> ''*v1.Namespace''
      | OJob _ \<Rightarrow> ''*v1.Job''
      | OConfiguration _ \<Rightarrow> ''*v1alpha1.Configuration''
      | OPolicy _ \<Rightarrow> ''*v1alpha1.Policy''
      | OProvider _ \<Rightarrow> ''*v1alpha1.Provider''
      | OPlan _ \<Rightarrow> ''*v1alpha1.Plan''
      | ORevision _ \<Rightarrow> ''*v1alpha1.Revision''
      | OCloudResource _ \<Rightarrow> ''*v1alpha1.CloudResource''
      | OContext _ \<Rightarrow> ''*v1alpha1.Context'')"

definition denied :: "string \<Rightarrow> farg list \<Rightarrow> gerror" where
  "denied message args = ErrMsg (Sprintf message args)"

definition wrapped :: "string \<Rightarrow> gerror \<Rightarrow> gerror" where
  "wrapped message err = denied message [FStr (Error err)]"

type_synonym ('w, 'o, 't, 'a) handler = "('w, 'o, 't, 'a go) prog"

definition accept :: "'a \<Rightarrow> ('w, 'o, 't, 'a) handler" where
  "accept x = State_Monad.return (Ok x)"

definition reject :: "gerror \<Rightarrow> ('w, 'o, 't, 'a) handler" where
  "reject err = State_Monad.return (Err err)"

text \<open>A check that reads nothing: the handler goes on when it finds no error.\<close>

definition unless_error :: "gerror option \<Rightarrow> ('w, 'o, 't, 'a) handler \<Rightarrow> ('w, 'o, 't, 'a) handler" where
  "unless_error err m = (case err of Some e \<Rightarrow> reject e | None \<Rightarrow> m)"

text \<open>A sequence of such checks: the first error.\<close>

fun first_error :: "gerror option list \<Rightarrow> gerror option" where
  "first_error [] = None"
| "first_error (x # xs) = (case x of Some e \<Rightarrow> Some e | None \<Rightarrow> first_error xs)"

definition deny_if :: "bool \<Rightarrow> gerror \<Rightarrow> gerror option" where
  "deny_if b err = (if b then Some err else None)"

section \<open>The default provider\<close>

text \<open>
  The loop of both mutating handlers over the providers: how many are marked as the default,
  and the last of them.
\<close>

definition is_default_provider :: "Provider \<Rightarrow> bool" where
  "is_default_provider p =
     (if om_Annotations (prv_Meta p) = None then False
      else gomap_get (om_Annotations (prv_Meta p)) DefaultProviderAnnotation = ''true'')"

fun scan_defaults :: "nat \<Rightarrow> Provider option \<Rightarrow> Provider list \<Rightarrow> nat \<times> Provider option" where
  "scan_defaults count provider [] = (count, provider)"
| "scan_defaults count provider (p # ps) =
     (if is_default_provider p then scan_defaults (Suc count) (Some p) ps
      else scan_defaults count provider ps)"

text \<open>
  What follows the loop: nothing to do, an error, or the reference to set. The provider is there
  whenever the count is one.
\<close>

definition choose_default :: "Provider list \<Rightarrow> gerror + ProviderReference option" where
  "choose_default items =
     (case scan_defaults 0 None items of
        (count, provider) \<Rightarrow>
          if count = 0 then Inr None
          else if count > 1
          then Inl (denied ''only one provider can be default, please contact your administrator'' [])
          else Inr (map_option (\<lambda>p. \<lparr>pr_Name = om_Name (prv_Meta p), pr_Namespace = []\<rparr>) provider))"

section \<open>Cloud resources\<close>

definition cr_mutateOnRevision ::
  "('w, 'v) Webhooks \<Rightarrow> CloudResource \<Rightarrow> ('w, 'o, 't, CloudResource) handler" where
  "cr_mutateOnRevision h x =
     (let ref = crs_Plan (cr_Spec x) in
      if plr_Revision ref \<noteq> [] then accept x
      else do {
        r \<leftarrow> GetIfExists (wh_cc h) KPlan as_Plan [] (plr_Name ref);
        case r of
          Inl err \<Rightarrow> reject err
        | Inr None \<Rightarrow>
            reject (denied ''spec.plan.name resource %q not found'' [FStr (plr_Name ref)])
        | Inr (Some plan) \<Rightarrow>
            if plv_Revision (plst_Latest (pln_Status plan)) = []
            then reject (denied ''spec.plan.name resource %q does not have a latest revision''
                   [FStr (plr_Name ref)])
            else accept (x\<lparr>cr_Spec := (cr_Spec x)\<lparr>crs_Plan :=
                   ref\<lparr>plr_Revision := plv_Revision (plst_Latest (pln_Status plan))\<rparr>\<rparr>\<rparr>) })"

definition cr_mutateOnProvider ::
  "('w, 'v) Webhooks \<Rightarrow> CloudResource \<Rightarrow> ('w, 'o, 't, CloudResource) handler" where
  "cr_mutateOnProvider h x =
     (if (case crs_ProviderRef (cr_Spec x) of None \<Rightarrow> False | Some ref \<Rightarrow> pr_Name ref \<noteq> [])
      then accept x
      else do {
        r \<leftarrow> list_objects (wh_cc h) KProvider as_Provider [];
        case r of
          Inl err \<Rightarrow> reject err
        | Inr items \<Rightarrow>
            (case choose_default items of
               Inl err \<Rightarrow> reject err
             | Inr None \<Rightarrow> accept x
             | Inr (Some ref) \<Rightarrow> accept (x\<lparr>cr_Spec := (cr_Spec x)\<lparr>crs_ProviderRef := Some ref\<rparr>\<rparr>)) })"

definition label_cloudresource :: "CloudResource \<Rightarrow> CloudResource" where
  "label_cloudresource x =
     x\<lparr>cr_Meta := (cr_Meta x)\<lparr>om_Labels := MergeStringMaps
         [om_Labels (cr_Meta x),
          Some [CloudResourcePlanNameLabel \<mapsto> plr_Name (crs_Plan (cr_Spec x)),
                CloudResourceRevisionLabel \<mapsto> plr_Revision (crs_Plan (cr_Spec x))]]\<rparr>\<rparr>"

definition cr_Default :: "('w, 'v) Webhooks \<Rightarrow> object \<Rightarrow> ('w, 'o, 't, CloudResource) handler" where
  "cr_Default h obj =
     (case as_CloudResource obj of
        None \<Rightarrow> reject (denied ''expected cloudresource, not %T'' [FStr (go_type (Some obj))])
      | Some x \<Rightarrow>
          do { r \<leftarrow> cr_mutateOnProvider h (label_cloudresource x);
               case r of
                 Ok y \<Rightarrow> cr_mutateOnRevision h y
               | Err err \<Rightarrow> reject err
               | Panic \<Rightarrow> State_Monad.return Panic })"

text \<open>The checks of \<open>validate\<close> on the resource alone.\<close>

definition cr_spec_error :: "CloudResourceSpec \<Rightarrow> gerror option" where
  "cr_spec_error spec =
     first_error
       [PlanReference_IsValid (crs_Plan spec),
        (case crs_ProviderRef spec of None \<Rightarrow> None | Some ref \<Rightarrow> ProviderReference_IsValid ref),
        (case crs_Auth spec of
           None \<Rightarrow> None
         | Some auth \<Rightarrow> deny_if (sr_Name auth = []) (denied ''spec.auth.name is required'' [])),
        (case crs_WriteConnectionSecretToRef spec of
           None \<Rightarrow> None | Some w \<Rightarrow> WriteConnectionSecret_IsValid w),
        (if CloudResource_HasValueFrom spec then ValueFromList_IsValid (crs_ValueFrom spec) else None)]"

fun keys_permitted :: "string list \<Rightarrow> string \<Rightarrow> string list \<Rightarrow> gerror option" where
  "keys_permitted permitted version [] = None"
| "keys_permitted permitted version (key # keys) =
     (if \<not> Contains key permitted
      then Some (denied ''spec.variables.%s is not permitted by revision: %s'' [FStr key, FStr version])
      else keys_permitted permitted version keys)"

fun sources_permitted :: "string list \<Rightarrow> string \<Rightarrow> int \<Rightarrow> ValueFromSource list \<Rightarrow> gerror option" where
  "sources_permitted permitted version i [] = None"
| "sources_permitted permitted version i (x # xs) =
     (if \<not> Contains (vf_Name x) permitted
      then Some (denied ''spec.valueFrom[%d].%s input is not permitted by revision: %s''
             [FInt i, FStr (vf_Name x), FStr version])
      else sources_permitted permitted version (i + 1) xs)"

text \<open>A map that was not decoded is empty.\<close>

fun inputs_present ::
  "(string \<rightharpoonup> json) \<Rightarrow> ValueFromSource list \<Rightarrow> string \<Rightarrow> RevisionInput list \<Rightarrow> gerror option" where
  "inputs_present values sources version [] = None"
| "inputs_present values sources version (input # inputs) =
     (if IsRequired input \<and> ri_Default input = None \<and>
         values (ri_Key input) = None \<and> (\<forall>x \<in> set sources. vf_Name x \<noteq> ri_Key input)
      then Some (denied ''spec.variables.%s is required variable for revision: %s''
             [FStr (ri_Key input), FStr version])
      else inputs_present values sources version inputs)"

text \<open>The checks of the inputs against the revision.\<close>

definition cr_inputs_error :: "('w, 'v) Webhooks \<Rightarrow> CloudResourceSpec \<Rightarrow> Revision \<Rightarrow> gerror option" where
  "cr_inputs_error h spec rv =
     (let version = plr_Revision (crs_Plan spec); permitted = ListOfInputs rv;
          rest = (\<lambda>values. first_error
            [(if CloudResource_HasVariables spec
              then keys_permitted permitted version (wh_Range h values) else None),
             sources_permitted permitted version 0 (crs_ValueFrom spec),
             inputs_present values (crs_ValueFrom spec) version (rvs_Inputs (rv_Spec rv))]) in
      if CloudResource_HasVariables spec
      then (case lib_JSONObject (wh_lib h) (case crs_Variables spec of None \<Rightarrow> [] | Some v \<Rightarrow> re_Raw v) of
              Inl err \<Rightarrow> Some (wrapped ''failed to decode variables: %w'' err)
            | Inr values \<Rightarrow> rest values)
      else rest Map.empty)"

definition plan_is_ready :: "Plan \<Rightarrow> bool" where
  "plan_is_ready plan =
     (case GetCondition (plst_Common (pln_Status plan)) ConditionReady of
        None \<Rightarrow> False
      | Some c \<Rightarrow> cd_Status c = ConditionTrue)"

definition cr_validate_revision ::
  "('w, 'v) Webhooks \<Rightarrow> CloudResourceSpec \<Rightarrow> PlanRevision \<Rightarrow> ('w, 'o, 't, unit) handler" where
  "cr_validate_revision h spec reference =
     do { q \<leftarrow> GetIfExists (wh_cc h) KRevision as_Revision [] (plv_Name reference);
          case q of
            Inl err \<Rightarrow> reject (wrapped ''spec.plan.revision: failed to retrieve resource %w'' err)
          | Inr None \<Rightarrow> reject (denied ''spec.plan.revision: does not exist'' [])
          | Inr (Some rv) \<Rightarrow>
              if crs_ProviderRef spec = None \<and> cs_ProviderRef (rvs_Configuration (rv_Spec rv)) = None
              then reject (denied ''spec.providerRef is required'' [])
              else unless_error (cr_inputs_error h spec rv) (accept ()) }"

definition cr_validate :: "('w, 'v) Webhooks \<Rightarrow> CloudResource \<Rightarrow> ('w, 'o, 't, unit) handler" where
  "cr_validate h x =
     (let spec = cr_Spec x; ref = crs_Plan spec in
      unless_error (cr_spec_error spec)
        (do { r \<leftarrow> GetIfExists (wh_cc h) KPlan as_Plan [] (plr_Name ref);
              case r of
                Inl err \<Rightarrow>
                  reject (denied ''spec.plan.name failed to retrieve plan {%s %s}: %w''
                    [FStr (plr_Name ref), FStr (plr_Revision ref), FStr (Error err)])
              | Inr None \<Rightarrow> reject (denied ''spec.plan.name does not exist'' [])
              | Inr (Some plan) \<Rightarrow>
                  if \<not> plan_is_ready plan
                  then reject (denied ''spec.plan.name is not is a ready state'' [])
                  else (case GetRevision plan (plr_Revision ref) of
                          None \<Rightarrow>
                            reject (denied ''spec.plan.revision: %s does not exist in plan''
                              [FStr (plr_Revision ref)])
                        | Some reference \<Rightarrow> cr_validate_revision h spec reference) }))"

definition cr_ValidateCreate :: "('w, 'v) Webhooks \<Rightarrow> object option \<Rightarrow> ('w, 'o, 't, unit) handler" where
  "cr_ValidateCreate h obj =
     (case Option.bind obj as_CloudResource of
        None \<Rightarrow>
          reject (denied ''expected a %s, but got: %T'' [FStr CloudResourceKind, FStr (go_type obj)])
      | Some x \<Rightarrow> cr_validate h x)"

text \<open>A nil object passes the type check and is dereferenced.\<close>

definition cr_ValidateUpdate :: "('w, 'v) Webhooks \<Rightarrow> object option \<Rightarrow> ('w, 'o, 't, unit) handler" where
  "cr_ValidateUpdate h newObj =
     (if newObj = None then State_Monad.return Panic else cr_ValidateCreate h newObj)"

section \<open>Configurations\<close>

definition cfg_mutateOnPlan :: "Configuration \<Rightarrow> Configuration" where
  "cfg_mutateOnPlan x =
     (case cs_Plan (cfg_Spec x) of
        None \<Rightarrow> x
      | Some plan \<Rightarrow>
          x\<lparr>cfg_Meta := (cfg_Meta x)\<lparr>om_Labels := MergeStringMaps
             [om_Labels (cfg_Meta x),
              Some [ConfigurationPlanLabel \<mapsto> plr_Name plan,
                    ConfigurationRevisionVersion \<mapsto> plr_Revision plan]]\<rparr>\<rparr>)"

definition cfg_mutateOnProviderDefault ::
  "('w, 'v) Webhooks \<Rightarrow> Configuration \<Rightarrow> ('w, 'o, 't, Configuration) handler" where
  "cfg_mutateOnProviderDefault h x =
     (if cs_ProviderRef (cfg_Spec x) \<noteq> None then accept x
      else do {
        r \<leftarrow> list_objects (wh_cc h) KProvider as_Provider [];
        case r of
          Inl err \<Rightarrow> reject (wrapped ''failed to list providers: %w'' err)
        | Inr items \<Rightarrow>
            (case choose_default items of
               Inl err \<Rightarrow> reject err
             | Inr None \<Rightarrow> accept x
             | Inr (Some ref) \<Rightarrow> accept (x\<lparr>cfg_Spec := (cfg_Spec x)\<lparr>cs_ProviderRef := Some ref\<rparr>\<rparr>)) })"

definition isMatch ::
  "Libs \<Rightarrow> DefaultVariablesSelector \<Rightarrow> Configuration \<Rightarrow> Namespace \<Rightarrow> gerror + bool" where
  "isMatch lib selector configuration namespace =
     (if length (dvs_Modules selector) > 0 \<and> dvs_Namespace selector \<noteq> None
      then (case IsLabelsMatch lib selector (om_Labels (ns_Meta namespace)) of
              Inl err \<Rightarrow> Inl (wrapped ''failed to match label selector: %w'' err)
            | Inr a \<Rightarrow>
                (case IsModulesMatch lib selector configuration of
                   Inl err \<Rightarrow> Inl (wrapped ''failed to match module selector: %w'' err)
                 | Inr b \<Rightarrow> Inr (a \<and> b)))
      else if length (dvs_Modules selector) > 0 then IsModulesMatch lib selector configuration
      else if dvs_Namespace selector \<noteq> None
      then IsLabelsMatch lib selector (om_Labels (ns_Meta namespace))
      else Inr False)"

text \<open>Whether a default applies, and the variables with it merged in.\<close>

definition default_applies ::
  "('w, 'v) Webhooks \<Rightarrow> Namespace \<Rightarrow> Configuration \<Rightarrow> DefaultVariables \<Rightarrow> gerror + bool" where
  "default_applies h namespace o' x =
     (if \<not> DefaultVariables_HasVariables x then Inr False
      else if \<not> HasSelectors x then Inr True
      else (case isMatch (wh_lib h) (dv_Selector x) o' namespace of
              Inl err \<Rightarrow> Inl (wrapped ''failed to match selector: %w'' err)
            | Inr matched \<Rightarrow> Inr matched))"

definition inject_default ::
  "('w, 'v) Webhooks \<Rightarrow> DefaultVariables \<Rightarrow> Configuration \<Rightarrow> gerror + Configuration" where
  "inject_default h x o' =
     (case wh_CreateMergePatch h ''{}'' (re_Raw (dv_Variables x)) of
        Inl err \<Rightarrow> Inl (wrapped ''failed to create merge patch: %w'' err)
      | Inr patch \<Rightarrow>
          if \<not> HasVariables (cfg_Spec o')
          then Inr (o'\<lparr>cfg_Spec := (cfg_Spec o')\<lparr>cs_Variables := Some \<lparr>re_Raw = patch\<rparr>\<rparr>\<rparr>)
          else (case wh_MergePatch h
                       (case cs_Variables (cfg_Spec o') of None \<Rightarrow> [] | Some v \<Rightarrow> re_Raw v) patch of
                  Inl err \<Rightarrow> Inl (wrapped ''failed to merge patch: %w'' err)
                | Inr modified \<Rightarrow>
                    Inr (o'\<lparr>cfg_Spec := (cfg_Spec o')\<lparr>cs_Variables := Some \<lparr>re_Raw = modified\<rparr>\<rparr>\<rparr>)))"

text \<open>The loops over the policies and their defaults, with the names of the policies used.\<close>

fun inject_defaults ::
  "('w, 'v) Webhooks \<Rightarrow> Namespace \<Rightarrow> string \<Rightarrow> DefaultVariables list \<Rightarrow> string list \<times> Configuration \<Rightarrow>
   gerror + string list \<times> Configuration" where
  "inject_defaults h namespace policy [] acc = Inr acc"
| "inject_defaults h namespace policy (x # xs) (names, o') =
     (case default_applies h namespace o' x of
        Inl err \<Rightarrow> Inl err
      | Inr False \<Rightarrow> inject_defaults h namespace policy xs (names, o')
      | Inr True \<Rightarrow>
          (case inject_default h x o' of
             Inl err \<Rightarrow> Inl err
           | Inr o'' \<Rightarrow> inject_defaults h namespace policy xs (names @ [policy], o'')))"

fun inject_policies ::
  "('w, 'v) Webhooks \<Rightarrow> Namespace \<Rightarrow> Policy list \<Rightarrow> string list \<times> Configuration \<Rightarrow>
   gerror + string list \<times> Configuration" where
  "inject_policies h namespace [] acc = Inr acc"
| "inject_policies h namespace (p # ps) acc =
     (case inject_defaults h namespace (om_Name (pol_Meta p)) (ps_Defaults (pol_Spec p)) acc of
        Inl err \<Rightarrow> Inl err
      | Inr acc' \<Rightarrow> inject_policies h namespace ps acc')"

definition annotate_defaults :: "string list \<Rightarrow> Configuration \<Rightarrow> Configuration" where
  "annotate_defaults names x =
     (if length names > 0
      then x\<lparr>cfg_Meta := (cfg_Meta x)\<lparr>om_Annotations := Some
             ((case om_Annotations (cfg_Meta x) of None \<Rightarrow> Map.empty | Some m \<Rightarrow> m)
                (DefaultVariablesAnnotation \<mapsto> Join names '',''))\<rparr>\<rparr>
      else x)"

definition cfg_mutateOnPolicyDefaults ::
  "('w, 'v) Webhooks \<Rightarrow> Policy list \<Rightarrow> Configuration \<Rightarrow> ('w, 'o, 't, Configuration) handler" where
  "cfg_mutateOnPolicyDefaults h items x =
     (if length items = 0 then accept x
      else do {
        r \<leftarrow> GetIfExists (wh_cc h) KNamespace as_Namespace [] (om_Namespace (cfg_Meta x));
        case r of
          Inl err \<Rightarrow> reject (wrapped ''failed to get namespace: %w'' err)
        | Inr None \<Rightarrow>
            reject (denied ''failed to find namespace %s'' [FStr (om_Namespace (cfg_Meta x))])
        | Inr (Some namespace) \<Rightarrow>
            (case inject_policies h namespace items ([], x) of
               Inl err \<Rightarrow> reject err
             | Inr (names, y) \<Rightarrow> accept (annotate_defaults names y)) })"

definition cfg_Default :: "('w, 'v) Webhooks \<Rightarrow> object \<Rightarrow> ('w, 'o, 't, Configuration) handler" where
  "cfg_Default h obj =
     (case as_Configuration obj of
        None \<Rightarrow> reject (denied ''expected terraform configuration, not %T'' [FStr (go_type (Some obj))])
      | Some x \<Rightarrow>
          do { r \<leftarrow> cfg_mutateOnProviderDefault h x;
               case r of
                 Err err \<Rightarrow> reject err
               | Panic \<Rightarrow> State_Monad.return Panic
               | Ok y \<Rightarrow>
                   do { q \<leftarrow> list_objects (wh_cc h) KPolicy as_Policy [];
                        case q of
                          Inl err \<Rightarrow> reject (wrapped ''failed to list policies: %w'' err)
                        | Inr items \<Rightarrow> cfg_mutateOnPolicyDefaults h items (cfg_mutateOnPlan y) } })"

text \<open>
  The policies whose selector matches, then the first that allows the module. Both loops run over
  policies with a module constraint only.
\<close>

fun applicable_policies ::
  "Libs \<Rightarrow> string gomap \<Rightarrow> string gomap \<Rightarrow> Policy list \<Rightarrow> gerror + Policy list" where
  "applicable_policies lib labels nslabels [] = Inr []"
| "applicable_policies lib labels nslabels (x # xs) =
     (case (case Option.bind (Option.bind (ps_Constraints (pol_Spec x)) cn_Modules) mc_Selector of
              None \<Rightarrow> Inr True
            | Some selector \<Rightarrow> IsSelectorMatch lib selector labels nslabels) of
        Inl err \<Rightarrow> Inl err
      | Inr matched \<Rightarrow>
          (case applicable_policies lib labels nslabels xs of
             Inl err \<Rightarrow> Inl err
           | Inr ys \<Rightarrow> Inr (if matched then x # ys else ys)))"

fun module_allowed :: "Libs \<Rightarrow> string \<Rightarrow> Policy list \<Rightarrow> gerror option" where
  "module_allowed lib src [] =
     Some (denied ''spec.module: source has been denied by module policy, contact an administrator'' [])"
| "module_allowed lib src (x # xs) =
     (case Option.bind (ps_Constraints (pol_Spec x)) cn_Modules of
        None \<Rightarrow> module_allowed lib src xs
      | Some constraint \<Rightarrow>
          (case ModuleConstraint_Matches lib constraint src of
             Inl err \<Rightarrow>
               Some (denied ''failed to compile the policy: %s, error: %w''
                 [FStr (om_Name (pol_Meta x)), FStr (Error err)])
           | Inr True \<Rightarrow> None
           | Inr False \<Rightarrow> module_allowed lib src xs))"

definition validateModuleConstriants ::
  "Libs \<Rightarrow> Configuration \<Rightarrow> Policy list \<Rightarrow> Namespace \<Rightarrow> gerror option" where
  "validateModuleConstriants lib configuration items namespace =
     (case applicable_policies lib (om_Labels (cfg_Meta configuration)) (om_Labels (ns_Meta namespace))
             (FindModuleConstraints items) of
        Inl err \<Rightarrow> Some err
      | Inr filtered \<Rightarrow>
          if length filtered = 0 then None
          else module_allowed lib (cs_Module (cfg_Spec configuration)) filtered)"

definition validateProvider ::
  "('w, 'v) Webhooks \<Rightarrow> string \<Rightarrow> Configuration \<Rightarrow> Namespace \<Rightarrow> ('w, 'o, 't, unit) handler" where
  "validateProvider h name configuration namespace =
     do { r \<leftarrow> GetIfExists (wh_cc h) KProvider as_Provider [] name;
          case r of
            Inl err \<Rightarrow> reject err
          | Inr None \<Rightarrow> accept ()
          | Inr (Some provider) \<Rightarrow>
              (case prs_Selector (prv_Spec provider) of
                 None \<Rightarrow> accept ()
               | Some selector \<Rightarrow>
                   (case IsSelectorMatch (wh_lib h) selector (om_Labels (cfg_Meta configuration))
                           (om_Labels (ns_Meta namespace)) of
                      Inl err \<Rightarrow> reject err
                    | Inr matched \<Rightarrow>
                        if \<not> matched
                        then reject (denied ''configuration has been denied by the provider policy'' [])
                        else accept ())) }"

text \<open>The version check: it can only be set where versions are enabled, and removed anywhere.\<close>

definition terraform_version_error :: "bool \<Rightarrow> Configuration option \<Rightarrow> Configuration \<Rightarrow> gerror option" where
  "terraform_version_error enabled before configuration =
     (let version = cs_TerraformVersion (cfg_Spec configuration) in
      case before of
        None \<Rightarrow>
          deny_if (version \<noteq> [] \<and> \<not> enabled)
            (denied ''spec.terraformVersion changes have been disabled'' [])
      | Some b \<Rightarrow>
          let previous = cs_TerraformVersion (cfg_Spec b) in
          if enabled \<or> version = [] then None
          else if previous = []
          then Some (denied ''spec.terraformVersion has been disabled and cannot be changed'' [])
          else deny_if (previous \<noteq> version)
            (denied ''spec.terraformVersion has been disabled, version cannot be changed only removed'' []))"

definition cfg_spec_error :: "bool \<Rightarrow> Configuration option \<Rightarrow> Configuration \<Rightarrow> gerror option" where
  "cfg_spec_error enabled before configuration =
     (let spec = cfg_Spec configuration in
      first_error
        [deny_if (cs_ProviderRef spec = None) (denied ''spec.providerRef is required'' []),
         deny_if (cs_Module spec = []) (denied ''spec.module is required'' []),
         (case cs_Plan spec of None \<Rightarrow> None | Some plan \<Rightarrow> PlanReference_IsValid plan),
         (case cs_Auth spec of
            None \<Rightarrow> None
          | Some auth \<Rightarrow> deny_if (sr_Name auth = []) (denied ''spec.auth.name is required'' [])),
         (case cs_ProviderRef spec of None \<Rightarrow> None | Some ref \<Rightarrow> ProviderReference_IsValid ref),
         terraform_version_error enabled before configuration,
         (case cs_WriteConnectionSecretToRef spec of
            None \<Rightarrow> None | Some w \<Rightarrow> WriteConnectionSecret_IsValid w),
         ValueFromList_IsValid (cs_ValueFrom spec)])"

text \<open>The name of the provider is read after the check that there is a reference.\<close>

definition cfg_validate ::
  "('w, 'v) Webhooks \<Rightarrow> Configuration option \<Rightarrow> Configuration \<Rightarrow> ('w, 'o, 't, unit) handler" where
  "cfg_validate h before configuration =
     unless_error (cfg_spec_error (wh_enableVersions h) before configuration)
       (do { r \<leftarrow> GetIfExists (wh_cc h) KNamespace as_Namespace [] (om_Namespace (cfg_Meta configuration));
             case r of
               Inl err \<Rightarrow> reject err
             | Inr None \<Rightarrow> reject (denied ''configuration namespace was not found'' [])
             | Inr (Some namespace) \<Rightarrow>
                 do { p \<leftarrow> (case cs_ProviderRef (cfg_Spec configuration) of
                              None \<Rightarrow> State_Monad.return Panic
                            | Some ref \<Rightarrow> validateProvider h (pr_Name ref) configuration namespace);
                      case p of
                        Panic \<Rightarrow> State_Monad.return Panic
                      | Err err \<Rightarrow> reject err
                      | Ok _ \<Rightarrow>
                          do { q \<leftarrow> list_objects (wh_cc h) KPolicy as_Policy [];
                               case q of
                                 Inl err \<Rightarrow> reject err
                               | Inr items \<Rightarrow>
                                   if length items > 0
                                   then unless_error
                                          (validateModuleConstriants (wh_lib h) configuration items namespace)
                                          (accept ())
                                   else accept () } } })"

definition cfg_ValidateCreate :: "('w, 'v) Webhooks \<Rightarrow> object option \<Rightarrow> ('w, 'o, 't, unit) handler" where
  "cfg_ValidateCreate h obj =
     (case Option.bind obj as_Configuration of
        None \<Rightarrow> reject (denied ''expected a Configuration, but got: %T'' [FStr (go_type obj)])
      | Some x \<Rightarrow> cfg_validate h None x)"

text \<open>Objects of another type fail the assertions; a nil new object is dereferenced.\<close>

definition cfg_ValidateUpdate ::
  "('w, 'v) Webhooks \<Rightarrow> object option \<Rightarrow> object option \<Rightarrow> ('w, 'o, 't, unit) handler" where
  "cfg_ValidateUpdate h oldObj newObj =
     (case Option.bind newObj as_Configuration of
        None \<Rightarrow> State_Monad.return Panic
      | Some after \<Rightarrow>
          if oldObj \<noteq> None \<and> Option.bind oldObj as_Configuration = None then State_Monad.return Panic
          else cfg_validate h (Option.bind oldObj as_Configuration) after)"

end
