(* ===== verification/Handlers_Catalogue.thy ===== *)
theory Handlers_Catalogue
  imports Handlers
begin

text \<open>
  The admission handlers of contexts, namespaces, policies, providers and revisions
  (\<open>pkg/handlers\<close>). Where the code asserts the type of its object without a check, an object of
  another type is a panic.
\<close>

definition asserting ::
  "(object \<Rightarrow> 'x option) \<Rightarrow> object option \<Rightarrow> ('x \<Rightarrow> ('w, 'o, 't, 'a) handler) \<Rightarrow> ('w, 'o, 't, 'a) handler" where
  "asserting as obj handle =
     (case Option.bind obj as of None \<Rightarrow> State_Monad.return Panic | Some x \<Rightarrow> handle x)"

section \<open>Contexts\<close>

text \<open>A value of a decoded map that is absent or null is nil.\<close>

definition json_nil :: "json option \<Rightarrow> bool" where
  "json_nil v \<longleftrightarrow> v = None \<or> v = Some JNull"

definition context_variable_error :: "Libs \<Rightarrow> string \<Rightarrow> RawExtension \<Rightarrow> gerror option" where
  "context_variable_error lib name variable =
     (if length (re_Raw variable) = 0
      then Some (denied ''spec.variable[\"%s\"] must have a value'' [FStr name])
      else (case lib_JSONObject lib (re_Raw variable) of
              Inl err \<Rightarrow> Some (denied ''spec.variable[\"%s\"] invalid input'' [FStr name])
            | Inr inputs \<Rightarrow>
                if json_nil (inputs ContextDescription)
                then Some (denied ''spec.variables[\"%s\"].description is required'' [FStr name])
                else if json_nil (inputs ContextValue)
                then Some (denied ''spec.variables[\"%s\"].value is required'' [FStr name])
                else None))"

fun context_variables_error :: "Libs \<Rightarrow> (string \<times> RawExtension) list \<Rightarrow> gerror option" where
  "context_variables_error lib [] = None"
| "context_variables_error lib ((name, variable) # vs) =
     (case context_variable_error lib name variable of
        Some err \<Rightarrow> Some err
      | None \<Rightarrow> context_variables_error lib vs)"

definition context_validate :: "('w, 'v) Webhooks \<Rightarrow> Context \<Rightarrow> ('w, 'o, 't, unit) handler" where
  "context_validate h current =
     (case ctx_Variables (ctx_Spec current) of
        None \<Rightarrow> accept ()
      | Some m \<Rightarrow>
          if m = Map.empty then accept ()
          else unless_error (context_variables_error (wh_lib h) (wh_RangeRaw h m)) (accept ()))"

definition context_ValidateCreate :: "('w, 'v) Webhooks \<Rightarrow> object option \<Rightarrow> ('w, 'o, 't, unit) handler" where
  "context_ValidateCreate h obj = asserting as_Context obj (context_validate h)"

text \<open>The old object is only asserted to be a context.\<close>

definition context_ValidateUpdate ::
  "('w, 'v) Webhooks \<Rightarrow> object option \<Rightarrow> object option \<Rightarrow> ('w, 'o, 't, unit) handler" where
  "context_ValidateUpdate h oldObj newObj =
     (if oldObj \<noteq> None \<and> Option.bind oldObj as_Context = None then State_Monad.return Panic
      else asserting as_Context newObj (context_validate h))"

text \<open>The configurations that refer to the context, once for each reference.\<close>

definition namespaced_name :: "ObjectMeta \<Rightarrow> string" where
  "namespaced_name m = om_Namespace m @ ''/'' @ om_Name m"

definition context_users :: "string \<Rightarrow> Configuration list \<Rightarrow> string list" where
  "context_users name items =
     concat (map (\<lambda>x. map (\<lambda>_. namespaced_name (cfg_Meta x))
       (filter (\<lambda>v. (case vf_Context v of None \<Rightarrow> [] | Some c \<Rightarrow> c) = name)
          (cs_ValueFrom (cfg_Spec x)))) items)"

definition context_ValidateDelete :: "('w, 'v) Webhooks \<Rightarrow> object option \<Rightarrow> ('w, 'o, 't, unit) handler" where
  "context_ValidateDelete h obj =
     asserting as_Context obj (\<lambda>current.
       if gomap_get (om_Annotations (ctx_Meta current)) OrphanAnnotation = ''true'' then accept ()
       else do {
         r \<leftarrow> list_objects (wh_cc h) KConfiguration as_Configuration [];
         case r of
           Inl err \<Rightarrow> reject err
         | Inr items \<Rightarrow>
             if length items = 0 then accept ()
             else let inuse = context_users (om_Name (ctx_Meta current)) items in
               if length inuse > 0
               then reject (denied ''resource in use by configuration(s): %v'' [FStr (Join inuse '', '')])
               else accept () })"

section \<open>Namespaces\<close>

definition namespace_ValidateDelete :: "('w, 'v) Webhooks \<Rightarrow> object option \<Rightarrow> ('w, 'o, 't, unit) handler" where
  "namespace_ValidateDelete h obj =
     (if \<not> wh_EnableNamespaceProtection h then accept ()
      else (case Option.bind obj as_Namespace of
              None \<Rightarrow>
                reject (denied ''the object %T is not an expected v1.Namespace'' [FStr (go_type obj)])
            | Some ns \<Rightarrow>
                do { r \<leftarrow> list_objects (wh_cc h) KConfiguration as_Configuration
                            [InNamespace (om_Name (ns_Meta ns))];
                     case r of
                       Inl err \<Rightarrow> reject err
                     | Inr items \<Rightarrow>
                         if length items > 0
                         then reject (denied ''deletion of namespace %s is prevented, ensure Terranetes Configurations are deleted first''
                                [FStr (om_Name (ns_Meta ns))])
                         else accept () }))"

section \<open>Policies\<close>

definition uses_policy :: "string \<Rightarrow> Configuration \<Rightarrow> bool" where
  "uses_policy name x =
     (let items = Split (gomap_get (om_Annotations (cfg_Meta x)) DefaultVariablesAnnotation) (CHR '','') in
      if length items = 0 then False else Contains name items)"

definition policy_ValidateDelete :: "('w, 'v) Webhooks \<Rightarrow> object option \<Rightarrow> ('w, 'o, 't, unit) handler" where
  "policy_ValidateDelete h obj =
     asserting as_Policy obj (\<lambda>o'. do {
       r \<leftarrow> list_objects (wh_cc h) KConfiguration as_Configuration [InNamespace []];
       case r of
         Inl err \<Rightarrow> reject err
       | Inr items \<Rightarrow>
           if gomap_get (om_Annotations (pol_Meta o')) SkipDefaultsValidationCheck = ''true'' then accept ()
           else let using = map (\<lambda>x. namespaced_name (cfg_Meta x))
                        (filter (uses_policy (om_Name (pol_Meta o'))) items) in
             if length using > 0
             then reject (denied ''policy in use by configurations: %s'' [FStr (Join using '', '')])
             else accept () })"

fun default_variables_error :: "int \<Rightarrow> DefaultVariables list \<Rightarrow> gerror option" where
  "default_variables_error i [] = None"
| "default_variables_error i (x # xs) =
     (if length (re_Raw (dv_Variables x)) = 0 \<and> length (dv_Secrets x) = 0
      then Some (denied ''spec.defaults[%d]: must specify at least one variable or secret'' [FInt i])
      else default_variables_error (i + 1) xs)"

definition validateDefaultVariables :: "Policy \<Rightarrow> gerror option" where
  "validateDefaultVariables policy = default_variables_error 0 (ps_Defaults (pol_Spec policy))"

text \<open>The check of the two label selectors of a constraint, whose kind is part of the message.\<close>

definition selector_part_error :: "Libs \<Rightarrow> string \<Rightarrow> LabelSelector option \<Rightarrow> gerror option" where
  "selector_part_error lib message sel =
     (case sel of
        None \<Rightarrow> None
      | Some l \<Rightarrow>
          (case lib_Selector lib (Some l) of
             Inl err \<Rightarrow> Some (wrapped message err)
           | Inr _ \<Rightarrow> None))"

definition selector_error :: "Libs \<Rightarrow> string \<Rightarrow> Selector option \<Rightarrow> gerror option" where
  "selector_error lib kind sel =
     (case sel of
        None \<Rightarrow> None
      | Some s \<Rightarrow>
          first_error
            [selector_part_error lib (''spec.constraints.'' @ kind @ ''.selector.namespace is invalid, %w'')
               (sel_Namespace s),
             selector_part_error lib (''spec.constraints.'' @ kind @ ''.selector.resource is invalid, %w'')
               (sel_Resource s)])"

fun regexps_error :: "Libs \<Rightarrow> int \<Rightarrow> string list \<Rightarrow> gerror option" where
  "regexps_error lib i [] = None"
| "regexps_error lib i (x # xs) =
     (case lib_Regexp lib x of
        Inl err \<Rightarrow>
          Some (denied ''spec.constraints.modules.allowed[%d] is invalid, %w'' [FInt i, FStr (Error err)])
      | Inr _ \<Rightarrow> regexps_error lib (i + 1) xs)"

definition validateModuleConstraint :: "Libs \<Rightarrow> Policy \<Rightarrow> gerror option" where
  "validateModuleConstraint lib policy =
     (case Option.bind (ps_Constraints (pol_Spec policy)) cn_Modules of
        None \<Rightarrow> None
      | Some constraint \<Rightarrow>
          first_error
            [selector_error lib ''modules'' (mc_Selector constraint),
             regexps_error lib 0 (mc_Allowed constraint)])"

fun external_checks_error :: "int \<Rightarrow> ExternalCheck list \<Rightarrow> gerror option" where
  "external_checks_error i [] = None"
| "external_checks_error i (x # xs) =
     (if ec_Name x = []
      then Some (denied ''spec.constraints.checkov.external[%d].name cannot be empty'' [FInt i])
      else if ec_URL x = []
      then Some (denied ''spec.constraints.checkov.external[%d].url cannot be empty'' [FInt i])
      else (case ec_SecretRef x of
              None \<Rightarrow> external_checks_error (i + 1) xs
            | Some ref \<Rightarrow>
                if sr_Name ref = []
                then Some (denied ''spec.constraints.checkov.external[%d].secretRef.name cannot be empty'' [FInt i])
                else if sr_Namespace ref \<noteq> []
                then Some (denied ''spec.constraints.checkov.external[%d].secretRef.namespace should not be set'' [FInt i])
                else external_checks_error (i + 1) xs))"

definition external_source_error :: "PolicyConstraint \<Rightarrow> gerror option" where
  "external_source_error constraint =
     (case pc_Source constraint of
        None \<Rightarrow> None
      | Some src \<Rightarrow>
          first_error
            [deny_if (length (pc_SkipChecks constraint) > 0)
               (denied ''spec.constraints.checkov.skipChecks cannot be used with spec.constraints.checkov.source'' []),
             deny_if (length (pc_Checks constraint) > 0)
               (denied ''spec.constraints.checkov.checks cannot be used with spec.constraints.checkov.source'' []),
             deny_if (es_Configuration src = [])
               (denied ''spec.constraints.checkov.source.configuration is required'' []),
             deny_if (es_URL src = [])
               (denied ''spec.constraints.checkov.source.url is required'' [])])"

definition validateCheckovConstraints :: "Libs \<Rightarrow> Policy \<Rightarrow> gerror option" where
  "validateCheckovConstraints lib policy =
     (case Option.bind (ps_Constraints (pol_Spec policy)) cn_Checkov of
        None \<Rightarrow> None
      | Some constraint \<Rightarrow>
          first_error
            [selector_error lib ''checkov'' (pc_Selector constraint),
             deny_if (length (pc_Checks constraint) > 0 \<and> length (pc_SkipChecks constraint) > 0 \<and>
                      ContainsList (pc_Checks constraint) (pc_SkipChecks constraint))
               (denied ''spec.constraints.checkov.skipChecks cannot contain checks from spec.constraints.checkov.checks'' []),
             external_source_error constraint,
             external_checks_error 0 (pc_External constraint)])"

definition policy_ValidateUpdate :: "('w, 'v) Webhooks \<Rightarrow> object option \<Rightarrow> ('w, 'o, 't, unit) handler" where
  "policy_ValidateUpdate h newObj =
     asserting as_Policy newObj (\<lambda>o'.
       unless_error
         (first_error
            [validateDefaultVariables o',
             validateCheckovConstraints (wh_lib h) o',
             validateModuleConstraint (wh_lib h) o'])
         (accept ()))"

definition policy_ValidateCreate :: "('w, 'v) Webhooks \<Rightarrow> object option \<Rightarrow> ('w, 'o, 't, unit) handler" where
  "policy_ValidateCreate h obj = policy_ValidateUpdate h obj"

section \<open>Providers\<close>

definition provider_source_error :: "string \<Rightarrow> ProviderSpec \<Rightarrow> gerror option" where
  "provider_source_error jobNamespace spec =
     (case prs_Source spec of
        SourceSecret \<Rightarrow>
          (case prs_SecretRef spec of
             None \<Rightarrow> Some (denied ''spec.secretRef: secret is required when source is secret'' [])
           | Some ref \<Rightarrow>
               if sr_Name ref = []
               then Some (denied ''spec.secretRef.name: name is required when source is secret'' [])
               else if sr_Namespace ref = []
               then Some (denied ''spec.secretRef.namespace: namespace is required when source is secret'' [])
               else deny_if (sr_Namespace ref \<noteq> jobNamespace)
                 (denied ''spec.secretRef.namespace: must be in same namespace as the controller'' []))
      | SourceInjected \<Rightarrow>
          deny_if (prs_ServiceAccount spec = None \<or> prs_ServiceAccount spec = Some [])
            (denied ''spec.serviceAccount: serviceAccount is required when source is injected'' [])
      | SourceOther t \<Rightarrow> Some (denied ''spec.source: %s is not supported'' [FStr t]))"

definition preload_error :: "ProviderSpec \<Rightarrow> gerror option" where
  "preload_error spec =
     (case prs_Preload spec of
        None \<Rightarrow> None
      | Some p \<Rightarrow>
          first_error
            [deny_if (plc_Context p = []) (denied ''spec.preload.context: is required'' []),
             deny_if (plc_Cluster p = []) (denied ''spec.preload.cluster: is required'' []),
             deny_if (plc_Region p = []) (denied ''spec.preload.region: is required'' [])])"

text \<open>The loop over the other providers.\<close>

fun other_default :: "string \<Rightarrow> Provider list \<Rightarrow> bool" where
  "other_default name [] = False"
| "other_default name (p # ps) =
     (if om_Name (prv_Meta p) = name then other_default name ps
      else if gomap_get (om_Annotations (prv_Meta p)) DefaultProviderAnnotation = ''true'' then True
      else other_default name ps)"

definition provider_validate :: "('w, 'v) Webhooks \<Rightarrow> Provider \<Rightarrow> ('w, 'o, 't, unit) handler" where
  "provider_validate h provider =
     unless_error (provider_source_error (wh_jobNamespace h) (prv_Spec provider))
       (let finish = unless_error (preload_error (prv_Spec provider)) (accept ()) in
        if is_default_provider provider
        then do {
          r \<leftarrow> list_objects (wh_cc h) KProvider as_Provider [];
          case r of
            Inl err \<Rightarrow> reject (wrapped ''failed to list providers: %w'' err)
          | Inr items \<Rightarrow>
              if other_default (om_Name (prv_Meta provider)) items
              then reject (denied ''only one provider can be set as the default provider'' [])
              else finish }
        else finish)"

text \<open>Creating and updating: only the new object is looked at.\<close>

definition provider_ValidateUpdate :: "('w, 'v) Webhooks \<Rightarrow> object option \<Rightarrow> ('w, 'o, 't, unit) handler" where
  "provider_ValidateUpdate h obj = asserting as_Provider obj (provider_validate h)"

section \<open>Revisions\<close>

definition revision_Default :: "object \<Rightarrow> ('w, 'o, 't, Revision) handler" where
  "revision_Default obj =
     (case as_Revision obj of
        None \<Rightarrow> reject (denied ''expected Revision, not %T'' [FStr (go_type (Some obj))])
      | Some x \<Rightarrow>
          accept (x\<lparr>rv_Meta := (rv_Meta x)\<lparr>om_Labels := MergeStringMaps
            [om_Labels (rv_Meta x),
             Some [RevisionPlanNameLabel \<mapsto> rd_Name (rvs_Plan (rv_Spec x)),
                   RevisionNameLabel \<mapsto> rd_Revision (rvs_Plan (rv_Spec x))]]\<rparr>\<rparr>))"

fun dependencies_error :: "int \<Rightarrow> RevisionDependency list \<Rightarrow> gerror option" where
  "dependencies_error i [] = None"
| "dependencies_error i (x # xs) =
     (case (rdp_Context x, rdp_Provider x, rdp_Terranetes x) of
        (None, None, None) \<Rightarrow>
          Some (denied ''spec.plan.dependencies[%d] is missing a context, provider or terranetes'' [FInt i])
      | (Some c, _, _) \<Rightarrow>
          if rcd_Name c = []
          then Some (denied ''spec.plan.dependencies[%d].context.name is required'' [FInt i])
          else dependencies_error (i + 1) xs
      | (None, Some p, _) \<Rightarrow>
          if rpd_Cloud p = []
          then Some (denied ''spec.plan.dependencies[%d].provider.cloud is required'' [FInt i])
          else dependencies_error (i + 1) xs
      | (None, None, Some t) \<Rightarrow>
          if rtd_Version t = []
          then Some (denied ''spec.plan.dependencies[%d].terranetes.version is required'' [FInt i])
          else dependencies_error (i + 1) xs)"

fun inputs_error :: "Libs \<Rightarrow> int \<Rightarrow> RevisionInput list \<Rightarrow> gerror option" where
  "inputs_error lib i [] = None"
| "inputs_error lib i (x # xs) =
     (if ri_Description x = []
      then Some (denied ''spec.plan.inputs[%d].description is required'' [FInt i])
      else if ri_Key x = []
      then Some (denied ''spec.plan.inputs[%d].key is required'' [FInt i])
      else (case ri_Default x of
              None \<Rightarrow> inputs_error lib (i + 1) xs
            | Some d \<Rightarrow>
                if \<not> gr_Exists (lib_GJSON lib (re_Raw d) ''value'')
                then Some (denied ''spec.plan.inputs[%d].default.value is required'' [FInt i])
                else inputs_error lib (i + 1) xs))"

definition revision_spec_error :: "Libs \<Rightarrow> 'v Semver \<Rightarrow> RevisionSpec \<Rightarrow> gerror option" where
  "revision_spec_error lib sv spec =
     first_error
       [deny_if (rd_Name (rvs_Plan spec) = []) (denied ''spec.plan.name is required'' []),
        deny_if (rd_Description (rvs_Plan spec) = []) (denied ''spec.plan.description is required'' []),
        deny_if (rd_Revision (rvs_Plan spec) = []) (denied ''spec.plan.version is required'' []),
        (case sv_NewVersion sv (rd_Revision (rvs_Plan spec)) of
           Inl err \<Rightarrow> Some (denied ''spec.plan.version is not a valid semver'' [])
         | Inr _ \<Rightarrow> None),
        dependencies_error 0 (rvs_Dependencies spec),
        inputs_error lib 0 (rvs_Inputs spec)]"

text \<open>The other revisions of the same plan and version.\<close>

definition same_version :: "Revision \<Rightarrow> Revision list \<Rightarrow> string list" where
  "same_version revision items =
     map (\<lambda>x. om_Name (rv_Meta x))
       (filter (\<lambda>x. om_Name (rv_Meta x) \<noteq> om_Name (rv_Meta revision) \<and>
          rd_Name (rvs_Plan (rv_Spec x)) = rd_Name (rvs_Plan (rv_Spec revision)) \<and>
          rd_Revision (rvs_Plan (rv_Spec x)) = rd_Revision (rvs_Plan (rv_Spec revision))) items)"

definition update_protection ::
  "('w, 'v) Webhooks \<Rightarrow> Revision \<Rightarrow> Revision \<Rightarrow> ('w, 'o, 't, unit) handler" where
  "update_protection h before revision =
     (if gomap_get (om_Annotations (rv_Meta revision)) RevisionSkipUpdateProtectionAnnotation = ''true''
      then accept ()
      else if wh_DeepEqual h (rv_Spec before) (rv_Spec revision) then accept ()
      else do {
        r \<leftarrow> list_objects (wh_cc h) KCloudResource as_CloudResource
               [MatchingLabels
                  [(CloudResourcePlanNameLabel, rd_Name (rvs_Plan (rv_Spec revision))),
                   (CloudResourceRevisionLabel, rd_Revision (rvs_Plan (rv_Spec revision)))]];
        case r of
          Inl err \<Rightarrow> reject (wrapped ''failed to retrieved list of cloud resources: %w'' err)
        | Inr items \<Rightarrow>
            if length items > 0
            then reject (denied ''in use by cloudresource/s, update denied (use %s to override)''
                   [FStr RevisionSkipUpdateProtectionAnnotation])
            else accept () })"

definition revision_validate ::
  "('w, 'v) Webhooks \<Rightarrow> Revision option \<Rightarrow> Revision \<Rightarrow> ('w, 'o, 't, unit) handler" where
  "revision_validate h before revision =
     unless_error (revision_spec_error (wh_lib h) (wh_sv h) (rv_Spec revision))
       (do { r \<leftarrow> list_objects (wh_cc h) KRevision as_Revision [];
             case r of
               Inl err \<Rightarrow> reject err
             | Inr items \<Rightarrow>
                 let existing = same_version revision items in
                 if length existing > 0
                 then reject (denied ''spec.plan.revision same version already exists on revision/s: %v''
                        [FStr (Join existing '','')])
                 else (case before of
                         None \<Rightarrow> accept ()
                       | Some b \<Rightarrow>
                           if wh_EnableUpdateProtection h then update_protection h b revision
                           else accept ()) })"

definition revision_ValidateCreate :: "('w, 'v) Webhooks \<Rightarrow> object option \<Rightarrow> ('w, 'o, 't, unit) handler" where
  "revision_ValidateCreate h obj =
     (case Option.bind obj as_Revision of
        None \<Rightarrow> reject (denied ''expected a Revision but got a %T'' [FStr (go_type obj)])
      | Some x \<Rightarrow> revision_validate h None x)"

definition revision_ValidateUpdate ::
  "('w, 'v) Webhooks \<Rightarrow> object option \<Rightarrow> object option \<Rightarrow> ('w, 'o, 't, unit) handler" where
  "revision_ValidateUpdate h oldObj newObj =
     (case Option.bind newObj as_Revision of
        None \<Rightarrow> reject (denied ''expected a Revision but got a %T'' [FStr (go_type newObj)])
      | Some after \<Rightarrow>
          (case Option.bind oldObj as_Revision of
             None \<Rightarrow> reject (denied ''expected a Revision but got a %T'' [FStr (go_type oldObj)])
           | Some before \<Rightarrow> revision_validate h (Some before) after))"

end
