(* ===== verification/Handler_Properties.thy ===== *)
theory Handler_Properties
  imports Estate_Properties Handlers_Catalogue
begin

text \<open>
  Properties of the admission handlers, alone and with the handlers and controllers that rely on
  what they accept.
\<close>

lemma wp_handler [simp]:
  "wp (accept x) Q s = Q (Ok x) s" "wp (reject err) Q s = Q (Err err) s"
  "wp (unless_error e m) Q s = (case e of Some err \<Rightarrow> Q (Err err) s | None \<Rightarrow> wp m Q s)"
  by (simp_all add: accept_def reject_def unless_error_def split: option.splits)

lemma first_error_None: "first_error es = None \<longleftrightarrow> (\<forall>e \<in> set es. e = None)"
  by (induction es) (auto split: option.splits)

text \<open>What a listing answers when the client is known to answer with objects of the kind.\<close>

lemma wp_list_objects_known:
  assumes "fst (cc_List cc k opts (world s)) = Inr (map em items)" and "\<And>y. as (em y) = Some y"
  shows "wp (list_objects cc k as opts) Q s = Q (Inr items) (s\<lparr>world := snd (cc_List cc k opts (world s))\<rparr>)"
proof -
  have "list_all (\<lambda>x. as x \<noteq> None) (map em items)" "List.map_filter as (map em items) = items" for items
    by (induction items) (simp_all add: assms(2) List.map_filter_simps)
  then show ?thesis using assms(1) by (simp add: list_objects_def wp_request)
qed

section \<open>The default provider\<close>

lemma is_default_iff:
  "is_default_provider p \<longleftrightarrow> gomap_get (om_Annotations (prv_Meta p)) DefaultProviderAnnotation = ''true''"
  by (simp add: is_default_provider_def gomap_get_def gomap_find_def)

lemma scan_defaults_eq:
  "scan_defaults n q items =
     (let ds = filter is_default_provider items in (n + length ds, if ds = [] then q else Some (last ds)))"
  by (induction items arbitrary: n q) (auto simp: Let_def)

lemma choose_default_eq:
  "choose_default items =
     (case filter is_default_provider items of
        [] \<Rightarrow> Inr None
      | [p] \<Rightarrow> Inr (Some \<lparr>pr_Name = om_Name (prv_Meta p), pr_Namespace = []\<rparr>)
      | _ \<Rightarrow> Inl (denied ''only one provider can be default, please contact your administrator'' []))"
  by (auto simp: choose_default_def scan_defaults_eq Let_def split: list.splits)

lemma other_default_iff:
  "other_default name items \<longleftrightarrow> (\<exists>q \<in> set items. om_Name (prv_Meta q) \<noteq> name \<and> is_default_provider q)"
  by (induction items) (auto simp: is_default_iff)

text \<open>The providers after one of them was written.\<close>

definition with_provider :: "Provider \<Rightarrow> Provider list \<Rightarrow> Provider list" where
  "with_provider p items = p # filter (\<lambda>q. om_Name (prv_Meta q) \<noteq> om_Name (prv_Meta p)) items"

text \<open>
  C20. The default provider is unique: a provider that asks to be the default is rejected when
  another of the listed ones is, and when it is accepted, the handlers that fill in the provider
  of configurations and cloud resources choose it, rather than fail for lack of a unique
  default, from the providers with this one written.
\<close>

theorem default_provider_unique:
  assumes "is_default_provider p"
    and "fst (cc_List (wh_cc h) KProvider [] (world s)) = Inr (map OProvider items)"
  shows "wp (provider_validate h p)
    (\<lambda>r t. r \<noteq> Panic \<and>
       ((\<exists>q \<in> set items. om_Name (prv_Meta q) \<noteq> om_Name (prv_Meta p) \<and> is_default_provider q) \<longrightarrow> (\<exists>e. r = Err e)) \<and>
       (r = Ok () \<longrightarrow> choose_default (with_provider p items) =
          Inr (Some \<lparr>pr_Name = om_Name (prv_Meta p), pr_Namespace = []\<rparr>))) s"
proof -
  have l: "wp (list_objects (wh_cc h) KProvider as_Provider []) Q s =
      Q (Inr items) (s\<lparr>world := snd (cc_List (wh_cc h) KProvider [] (world s))\<rparr>)" for Q
    by (rule wp_list_objects_known [OF assms(2)]) simp
  have "filter is_default_provider (with_provider p items) = [p]"
    if "\<not> other_default (om_Name (prv_Meta p)) items"
    using that assms(1) by (auto simp: with_provider_def other_default_iff filter_empty_conv)
  then show ?thesis
    using assms(1) by (auto simp: provider_validate_def Let_def l wp_if other_default_iff choose_default_eq
        split: option.splits)
qed

section \<open>Module policies\<close>

definition module_constraint :: "Policy \<Rightarrow> ModuleConstraint option" where
  "module_constraint p = Option.bind (ps_Constraints (pol_Spec p)) cn_Modules"

definition selects :: "Libs \<Rightarrow> Configuration \<Rightarrow> Namespace \<Rightarrow> ModuleConstraint \<Rightarrow> gerror + bool" where
  "selects lib x ns m =
     (case mc_Selector m of
        None \<Rightarrow> Inr True
      | Some sel \<Rightarrow> IsSelectorMatch lib sel (om_Labels (cfg_Meta x)) (om_Labels (ns_Meta ns)))"

text \<open>The constraint can be evaluated: its selector and its expressions are valid.\<close>

definition evaluable :: "Libs \<Rightarrow> Configuration \<Rightarrow> Namespace \<Rightarrow> ModuleConstraint \<Rightarrow> bool" where
  "evaluable lib x ns m \<longleftrightarrow>
     (\<exists>b. selects lib x ns m = Inr b) \<and> (\<forall>re \<in> set (mc_Allowed m). \<exists>f. lib_Regexp lib re = Inr f)"

definition allows :: "Libs \<Rightarrow> ModuleConstraint \<Rightarrow> string \<Rightarrow> bool" where
  "allows lib m src \<longleftrightarrow> (\<exists>re \<in> set (mc_Allowed m). \<exists>f. lib_Regexp lib re = Inr f \<and> f src)"

lemma FindModuleConstraints_eq: "FindModuleConstraints items = filter (\<lambda>p. module_constraint p \<noteq> None) items"
proof -
  have "(case ps_Constraints (pol_Spec p) of None \<Rightarrow> False | Some cn \<Rightarrow> if cn_Modules cn = None then False else True) =
      (module_constraint p \<noteq> None)" for p
    by (cases "ps_Constraints (pol_Spec p)") (simp_all add: module_constraint_def)
  then show ?thesis by (simp add: FindModuleConstraints_def)
qed

lemma any_regexp_iff:
  "\<forall>re \<in> set res. \<exists>f. lib_Regexp lib re = Inr f \<Longrightarrow>
     any_regexp lib res src = Inr (\<exists>re \<in> set res. \<exists>f. lib_Regexp lib re = Inr f \<and> f src)"
  by (induction res) (auto split: sum.splits)

lemma applicable_policies_eq:
  assumes "\<forall>p \<in> set ps. \<exists>m. module_constraint p = Some m \<and> evaluable lib x ns m"
  shows "applicable_policies lib (om_Labels (cfg_Meta x)) (om_Labels (ns_Meta ns)) ps =
    Inr (filter (\<lambda>p. \<exists>m. module_constraint p = Some m \<and> selects lib x ns m = Inr True) ps)"
  using assms
proof (induction ps)
  case (Cons p ps)
  then obtain m b where "module_constraint p = Some m" "selects lib x ns m = Inr b"
    by (auto simp: evaluable_def)
  with Cons show ?case
    by (cases "mc_Selector m") (auto simp: selects_def module_constraint_def [symmetric])
qed simp

lemma module_allowed_iff:
  assumes "\<forall>p \<in> set ps. \<exists>m. module_constraint p = Some m \<and> evaluable lib x ns m"
  shows "module_allowed lib src ps = None \<longleftrightarrow> (\<exists>p \<in> set ps. \<exists>m. module_constraint p = Some m \<and> allows lib m src)"
  using assms
proof (induction ps)
  case (Cons p ps)
  then obtain m where m: "module_constraint p = Some m" "evaluable lib x ns m" by auto
  then have "ModuleConstraint_Matches lib m src = Inr (allows lib m src)"
    by (simp add: ModuleConstraint_Matches_def allows_def evaluable_def any_regexp_iff)
  with m Cons show ?case
    by (cases "allows lib m src") (auto simp: module_constraint_def [symmetric])
qed simp

text \<open>
  C21. The module of a configuration is accepted exactly when no module constraint selects the
  configuration, or one of those that select it allows the module, provided that the selectors
  and expressions of the constraints are valid, which the handler of policies checks.
\<close>

theorem module_policy_exact:
  assumes "\<forall>p \<in> set items. \<forall>m. module_constraint p = Some m \<longrightarrow> evaluable lib x ns m"
  shows "validateModuleConstriants lib x items ns = None \<longleftrightarrow>
    (let selecting = {m. \<exists>p \<in> set items. module_constraint p = Some m \<and> selects lib x ns m = Inr True} in
     selecting = {} \<or> (\<exists>m \<in> selecting. allows lib m (cs_Module (cfg_Spec x))))"
proof -
  let ?ps = "FindModuleConstraints items"
  let ?fs = "filter (\<lambda>p. \<exists>m. module_constraint p = Some m \<and> selects lib x ns m = Inr True) ?ps"
  have ps: "\<forall>p \<in> set ?ps. \<exists>m. module_constraint p = Some m \<and> evaluable lib x ns m"
    using assms by (auto simp: FindModuleConstraints_eq)
  then have fs: "\<forall>p \<in> set ?fs. \<exists>m. module_constraint p = Some m \<and> evaluable lib x ns m" by auto
  have "?fs = [] \<longleftrightarrow> (\<forall>p \<in> set items. \<forall>m. module_constraint p = Some m \<longrightarrow> selects lib x ns m \<noteq> Inr True)"
    by (auto simp: FindModuleConstraints_eq filter_empty_conv)
  with applicable_policies_eq [OF ps] module_allowed_iff [OF fs] show ?thesis
    by (auto simp: validateModuleConstriants_def Let_def FindModuleConstraints_eq)
qed

section \<open>Defaults of policies\<close>

lemma Split_Join:
  "names \<noteq> [] \<Longrightarrow> \<forall>n \<in> set names. c \<notin> set n \<Longrightarrow> Split (Join names [c]) c = names"
proof (induction names "[c]" rule: Join.induct)
  case (2 x)
  then show ?case by (simp add: Split_no_sep)
next
  case (3 x y ys)
  then show ?case by (simp add: Split_append_sep)
qed simp

text \<open>Injecting defaults changes the variables only, so the selectors see the same configuration.\<close>

lemma inject_default_frame:
  "inject_default h d x = Inr y \<Longrightarrow> cs_Module (cfg_Spec y) = cs_Module (cfg_Spec x) \<and> cfg_Meta y = cfg_Meta x"
  by (auto simp: inject_default_def split: sum.splits if_splits)

lemma default_applies_frame:
  "cs_Module (cfg_Spec y) = cs_Module (cfg_Spec x) \<Longrightarrow> default_applies h ns y d = default_applies h ns x d"
proof -
  assume "cs_Module (cfg_Spec y) = cs_Module (cfg_Spec x)"
  then have "IsModulesMatch lib sel y = IsModulesMatch lib sel x" for lib sel by (simp add: IsModulesMatch_def)
  then show ?thesis by (simp only: default_applies_def isMatch_def)
qed

lemma inject_defaults_names:
  assumes "inject_defaults h ns policy ds (names, x) = Inr (names', y)"
  shows "cs_Module (cfg_Spec y) = cs_Module (cfg_Spec x) \<and> set names' \<subseteq> set names \<union> {policy} \<and>
    set names \<subseteq> set names' \<and> ((\<exists>d \<in> set ds. default_applies h ns x d = Inr True) \<longrightarrow> policy \<in> set names')"
  using assms
proof (induction ds arbitrary: names x)
  case (Cons d ds)
  show ?case
  proof (cases "default_applies h ns x d")
    case (Inr b)
    show ?thesis
    proof (cases b)
      case True
      with Cons.prems Inr obtain z where z: "inject_default h d x = Inr z"
        "inject_defaults h ns policy ds (names @ [policy], z) = Inr (names', y)"
        by (auto split: sum.splits)
      then show ?thesis using Cons.IH [OF z(2)] inject_default_frame [OF z(1)] by auto
    next
      case False
      with Cons.prems Inr Cons.IH [of names x] show ?thesis by auto
    qed
  qed (use Cons.prems in simp)
qed auto

lemma inject_policies_names:
  assumes "inject_policies h ns ps (names, x) = Inr (names', y)"
  shows "set names' \<subseteq> set names \<union> (\<lambda>p. om_Name (pol_Meta p)) ` set ps \<and> set names \<subseteq> set names' \<and>
    (\<forall>p \<in> set ps. (\<exists>d \<in> set (ps_Defaults (pol_Spec p)). default_applies h ns x d = Inr True) \<longrightarrow>
       om_Name (pol_Meta p) \<in> set names')"
  using assms
proof (induction ps arbitrary: names x)
  case (Cons p ps)
  then obtain n z where z: "inject_defaults h ns (om_Name (pol_Meta p)) (ps_Defaults (pol_Spec p)) (names, x) = Inr (n, z)"
    "inject_policies h ns ps (n, z) = Inr (names', y)" by (auto split: sum.splits)
  note first = inject_defaults_names [OF z(1)] and rest = Cons.IH [OF z(2)]
  have same: "default_applies h ns z d = default_applies h ns x d" for d
    using first by (intro default_applies_frame) simp
  show ?case using first rest unfolding same by auto
qed simp

lemma annotate_defaults_used:
  assumes "\<forall>n \<in> set names. CHR '','' \<notin> set n" and "name \<in> set names"
  shows "uses_policy name (annotate_defaults names x)"
proof -
  have "names \<noteq> []" using assms(2) by auto
  with assms Split_Join [of names "CHR '',''"] show ?thesis
    by (auto simp: uses_policy_def annotate_defaults_def Let_def gomap_get_def gomap_find_def)
qed

lemma policy_delete_rejected:
  assumes "uses_policy (om_Name (pol_Meta p)) y" and "y \<in> set listed"
    and "fst (cc_List (wh_cc h) KConfiguration [InNamespace []] (world s)) = Inr (map OConfiguration listed)"
    and "gomap_get (om_Annotations (pol_Meta p)) SkipDefaultsValidationCheck \<noteq> ''true''"
  shows "wp (policy_ValidateDelete h (Some (OPolicy p))) (\<lambda>r _. \<exists>e. r = Err e) s"
proof -
  have l: "wp (list_objects (wh_cc h) KConfiguration as_Configuration [InNamespace []]) Q s =
      Q (Inr listed) (s\<lparr>world := snd (cc_List (wh_cc h) KConfiguration [InNamespace []] (world s))\<rparr>)" for Q
    by (rule wp_list_objects_known [OF assms(3)]) simp
  have "filter (uses_policy (om_Name (pol_Meta p))) listed \<noteq> []"
    using assms(1,2) by (auto simp: filter_empty_conv)
  with assms(4) show ?thesis by (simp add: policy_ValidateDelete_def asserting_def l Let_def)
qed

text \<open>
  C22. A policy whose defaults were injected cannot be deleted: when the mutating handler accepts a
  configuration for which a default of the policy applies, the configuration it returns names the
  policy, and as long as the configuration is listed the deletion of the policy is rejected,
  unless the policy opts out of the check. Names of policies have no comma.
\<close>

theorem injected_policy_kept:
  fixes h :: "('w, 'v) Webhooks" and s :: "('w, 'o, 't) env"
  assumes "fst (cc_Get (wh_cc h) KNamespace [] (om_Namespace (cfg_Meta x)) (world s)) = Inr (ONamespace ns)"
    and "p \<in> set items" and "\<forall>q \<in> set items. CHR '','' \<notin> set (om_Name (pol_Meta q))"
    and "d \<in> set (ps_Defaults (pol_Spec p))" and "default_applies h ns x d = Inr True"
    and "gomap_get (om_Annotations (pol_Meta p)) SkipDefaultsValidationCheck \<noteq> ''true''"
  shows "wp (cfg_mutateOnPolicyDefaults h items x)
    (\<lambda>r t. \<forall>y listed w. r = Ok y \<longrightarrow> y \<in> set listed \<longrightarrow>
       fst (cc_List (wh_cc h) KConfiguration [InNamespace []] w) = Inr (map OConfiguration listed) \<longrightarrow>
       wp (policy_ValidateDelete h (Some (OPolicy p))) (\<lambda>r' _. \<exists>e. r' = Err e) (t\<lparr>world := w\<rparr>)) s"
proof -
  have used: "uses_policy (om_Name (pol_Meta p)) (annotate_defaults names y)"
    if "inject_policies h ns items ([], x) = Inr (names, y)" for names y
    using inject_policies_names [OF that] assms(2-5) by (intro annotate_defaults_used) auto
  have "items \<noteq> []" using assms(2) by auto
  then show ?thesis
    using assms(1,6) used
    by (auto simp: cfg_mutateOnPolicyDefaults_def GetIfExists_def wp_request intro!: policy_delete_rejected
        split: sum.splits)
qed

section \<open>Labels of cloud resources\<close>

lemma label_cloudresource_revision:
  "gomap_find (om_Labels (cr_Meta (label_cloudresource x))) CloudResourceRevisionLabel =
     Some (plr_Revision (crs_Plan (cr_Spec x)))"
  by (simp add: label_cloudresource_def MergeStringMaps_def merge_into_def gomap_find_def cloud_label_defs)

lemma cr_mutateOnProvider_frame:
  "wp (cr_mutateOnProvider h x) (\<lambda>r _. \<forall>y. r = Ok y \<longrightarrow> cr_Meta y = cr_Meta x \<and> crs_Plan (cr_Spec y) = crs_Plan (cr_Spec x)) s"
  unfolding cr_mutateOnProvider_def
  by (auto simp: wp_if intro!: wp_list_objects_any split: sum.splits option.splits)

text \<open>
  C23. A cloud resource created without a revision is not counted as a user of the revision it gets:
  when the mutating handler accepts it, its specification names a revision, but its label of
  the revision is empty, so that no label selector by which the expire controller, the count of
  users and the update protection look for the cloud resources of a revision matches it.
\<close>

theorem defaulted_revision_unlabelled:
  fixes h :: "('w, 'v) Webhooks" and s :: "('w, 'o, 't) env"
  assumes "plr_Revision (crs_Plan (cr_Spec x)) = []"
  shows "wp (cr_Default h (OCloudResource x))
    (\<lambda>r t. \<forall>y. r = Ok y \<longrightarrow> plr_Revision (crs_Plan (cr_Spec y)) \<noteq> [] \<and>
       (\<forall>rv. rd_Revision (revision_plan rv) = plr_Revision (crs_Plan (cr_Spec y)) \<longrightarrow>
          (\<exists>(k, v) \<in> set (revision_selector rv). gomap_get (om_Labels (cr_Meta y)) k \<noteq> v))) s"
proof -
  let ?l = "label_cloudresource x"
  have lab: "gomap_get (om_Labels (cr_Meta ?l)) CloudResourceRevisionLabel = []"
    using label_cloudresource_revision [of x] assms by (simp add: gomap_get_def)
  have plan: "crs_Plan (cr_Spec ?l) = crs_Plan (cr_Spec x)" by (simp add: label_cloudresource_def)
  have rev: "wp (cr_mutateOnRevision h z) (\<lambda>r _. \<forall>y. r = Ok y \<longrightarrow> cr_Meta y = cr_Meta z \<and>
      plr_Revision (crs_Plan (cr_Spec y)) \<noteq> []) u" for z u
    unfolding cr_mutateOnRevision_def Let_def
    by (auto simp: wp_if intro!: wp_GetIfExists_any split: sum.splits option.splits)
  show ?thesis
    unfolding cr_Default_def as_CloudResource.simps option.case wp_bind
  proof (rule wp_mono [OF cr_mutateOnProvider_frame])
    fix r :: "CloudResource go" and u :: "('w, 'o, 't) env"
    assume r: "\<forall>y. r = Ok y \<longrightarrow> cr_Meta y = cr_Meta ?l \<and> crs_Plan (cr_Spec y) = crs_Plan (cr_Spec ?l)"
    show "wp (case r of Ok y \<Rightarrow> cr_mutateOnRevision h y | Err err \<Rightarrow> reject err | Panic \<Rightarrow> State_Monad.return Panic)
      (\<lambda>r t. \<forall>y. r = Ok y \<longrightarrow> plr_Revision (crs_Plan (cr_Spec y)) \<noteq> [] \<and>
       (\<forall>rv. rd_Revision (revision_plan rv) = plr_Revision (crs_Plan (cr_Spec y)) \<longrightarrow>
          (\<exists>(k, v) \<in> set (revision_selector rv). gomap_get (om_Labels (cr_Meta y)) k \<noteq> v))) u"
      using r lab by (cases r) (auto intro!: wp_mono [OF rev] simp: revision_selector_def)
  qed
qed

text \<open>
  A value sourced from a context under its key alone, which the types allow and the configuration
  controller serves, is never accepted on a cloud resource: the check looks at the name only.
\<close>

lemma nameless_source_rejected:
  assumes "v \<in> set sources" and "vf_Name v = []" and "[] \<notin> set permitted"
  shows "sources_permitted permitted version i sources \<noteq> None"
  using assms by (induction sources arbitrary: i) auto

section \<open>Instances\<close>

definition sample_webhooks :: "(object list, string \<times> nat) Webhooks" where
  "sample_webhooks =
     \<lparr>wh_cc = sample_client, wh_lib = sample_libs,
      wh_sv = sample_semver, wh_CreateMergePatch = (\<lambda>a b. Inr b), wh_MergePatch = (\<lambda>a b. Inr b),
      wh_Range = (\<lambda>_. []), wh_RangeRaw = (\<lambda>_. []), wh_DeepEqual = (=), wh_enableVersions = True,
      wh_EnableNamespaceProtection = True, wh_EnableUpdateProtection = True,
      wh_jobNamespace = ''terraform-system''\<rparr>"

theorem default_provider_unique_witness:
  defines "p \<equiv> sample_provider\<lparr>prv_Meta := (named_meta [] ''gcp'')
      \<lparr>om_Annotations := Some [DefaultProviderAnnotation \<mapsto> ''true'']\<rparr>\<rparr>"
  shows "wp (provider_validate sample_webhooks p)
    (\<lambda>r t. r \<noteq> Panic \<and> (r = Ok () \<longrightarrow> choose_default (with_provider p [sample_provider]) =
       Inr (Some \<lparr>pr_Name = ''gcp'', pr_Namespace = []\<rparr>))) (sample_env [OProvider sample_provider] () ())"
proof -
  let ?s = "sample_env [OProvider sample_provider] () ()"
  have d: "is_default_provider p" by (simp add: p_def is_default_iff gomap_get_def gomap_find_def)
  have l: "fst (cc_List (wh_cc sample_webhooks) KProvider [] (world ?s)) = Inr (map OProvider [sample_provider])"
    by (simp add: sample_webhooks_def sample_client_def)
  show ?thesis by (rule wp_mono [OF default_provider_unique [OF d l]]) (auto simp: p_def)
qed

definition governing_policy :: "ModuleConstraint option \<Rightarrow> DefaultVariables list \<Rightarrow> Policy" where
  "governing_policy constraint defaults =
     \<lparr>pol_Type = \<lparr>tm_Kind = ''Policy'', tm_APIVersion = SchemeGroupVersion\<rparr>,
      pol_Meta = named_meta [] ''modules'',
      pol_Spec = \<lparr>ps_Summary = [], ps_Constraints = Some \<lparr>cn_Modules = constraint, cn_Checkov = None\<rparr>,
        ps_Defaults = defaults\<rparr>,
      pol_Status = empty_common_status\<rparr>"

theorem module_policy_exact_witness:
  defines "items \<equiv> [governing_policy (Some \<lparr>mc_Allowed = [''git::other''], mc_Selector = None\<rparr>) []]"
  shows "validateModuleConstriants (wh_lib sample_webhooks) (sample_configuration None ConditionTrue) items
    \<lparr>ns_Meta = named_meta [] ''apps''\<rparr> \<noteq> None"
proof -
  have "\<forall>p \<in> set items. \<forall>m. module_constraint p = Some m \<longrightarrow>
      evaluable (wh_lib sample_webhooks) (sample_configuration None ConditionTrue) \<lparr>ns_Meta = named_meta [] ''apps''\<rparr> m"
    by (auto simp: items_def governing_policy_def module_constraint_def evaluable_def selects_def sample_webhooks_def
        sample_libs_def)
  from module_policy_exact [OF this] show ?thesis
    by (simp add: items_def governing_policy_def module_constraint_def selects_def allows_def sample_webhooks_def
        sample_libs_def sample_configuration_def)
qed

theorem injected_policy_kept_witness:
  defines "p \<equiv> governing_policy None [\<lparr>dv_Selector = \<lparr>dvs_Namespace = None, dvs_Modules = []\<rparr>, dv_Secrets = [],
      dv_Variables = \<lparr>re_Raw = ''{region: eu}''\<rparr>\<rparr>]"
    and "x \<equiv> sample_configuration None ConditionTrue"
    and "ns \<equiv> \<lparr>ns_Meta = named_meta [] ''apps''\<rparr>"
  shows "wp (cfg_mutateOnPolicyDefaults sample_webhooks [p] x)
    (\<lambda>r t. \<forall>y. r = Ok y \<longrightarrow>
       wp (policy_ValidateDelete sample_webhooks (Some (OPolicy p))) (\<lambda>r' _. \<exists>e. r' = Err e)
         (t\<lparr>world := [OConfiguration y]\<rparr>)) (sample_env [ONamespace ns] () ())"
proof -
  let ?s = "sample_env [ONamespace ns] () ()" and ?d = "hd (ps_Defaults (pol_Spec p))"
  have l: "fst (cc_List (wh_cc sample_webhooks) KConfiguration [InNamespace []] [OConfiguration y]) =
      Inr (map OConfiguration [y])" for y
    by (simp add: sample_webhooks_def sample_client_def)
  have "fst (cc_Get (wh_cc sample_webhooks) KNamespace [] (om_Namespace (cfg_Meta x)) (world ?s)) = Inr (ONamespace ns)"
    by (simp add: sample_webhooks_def sample_client_def x_def ns_def sample_configuration_def)
  moreover have "p \<in> set [p]" "\<forall>q \<in> set [p]. CHR '','' \<notin> set (om_Name (pol_Meta q))"
    "?d \<in> set (ps_Defaults (pol_Spec p))"
    by (simp_all add: p_def governing_policy_def)
  moreover have "default_applies sample_webhooks ns x ?d = Inr True"
    by (simp add: p_def governing_policy_def default_applies_def DefaultVariables_HasVariables_def HasSelectors_def)
  moreover have "gomap_get (om_Annotations (pol_Meta p)) SkipDefaultsValidationCheck \<noteq> ''true''"
    by (simp add: p_def governing_policy_def named_meta_def empty_meta_def gomap_get_def gomap_find_def)
  ultimately have "wp (cfg_mutateOnPolicyDefaults sample_webhooks [p] x)
    (\<lambda>r t. \<forall>y listed w. r = Ok y \<longrightarrow> y \<in> set listed \<longrightarrow>
       fst (cc_List (wh_cc sample_webhooks) KConfiguration [InNamespace []] w) = Inr (map OConfiguration listed) \<longrightarrow>
       wp (policy_ValidateDelete sample_webhooks (Some (OPolicy p))) (\<lambda>r' _. \<exists>e. r' = Err e) (t\<lparr>world := w\<rparr>)) ?s"
    by (rule injected_policy_kept)
  then show ?thesis using l by (elim wp_mono) (metis list.set_intros(1))
qed

theorem defaulted_revision_unlabelled_witness:
  defines "x \<equiv> (NewCloudResource ''apps'' ''bucket'')\<lparr>cr_Spec := empty_cloudresource_spec
      \<lparr>crs_Plan := \<lparr>plr_Name = ''bucket'', plr_Revision = []\<rparr>\<rparr>\<rparr>"
    and "plan \<equiv> (NewPlan ''bucket'')\<lparr>pln_Status := (pln_Status (NewPlan []))
      \<lparr>plst_Latest := \<lparr>plv_Name = ''bucket-1'', plv_Revision = ''1''\<rparr>\<rparr>\<rparr>"
  shows "wp (cr_Default sample_webhooks (OCloudResource x))
    (\<lambda>r t. \<forall>y. r = Ok y \<longrightarrow> plr_Revision (crs_Plan (cr_Spec y)) \<noteq> [] \<and>
       (\<forall>rv. rd_Revision (revision_plan rv) = plr_Revision (crs_Plan (cr_Spec y)) \<longrightarrow>
          (\<exists>(k, v) \<in> set (revision_selector rv). gomap_get (om_Labels (cr_Meta y)) k \<noteq> v)))
    (sample_env [OPlan plan] () ())"
proof -
  have "plr_Revision (crs_Plan (cr_Spec x)) = []" by (simp add: x_def)
  then show ?thesis by (rule defaulted_revision_unlabelled)
qed

end
