(* ===== verification/Host.thy ===== *)
theory Host
  imports Resources
begin

text \<open>
  The machine a tool of the repository runs on: the processes started by the jobs
  (\<open>cmd/step\<close>, \<open>cmd/source\<close>), the API server and the command line client. The operating
  system, the terminal and the clock are functions on an arbitrary world, in the record
  \<open>host\<close>; the options of a command are the resource of the run, which its methods update as
  the Go methods update their receiver, and what the tool did outside the cluster is the log
  kept as its private state. The theory models \<open>pkg/utils/file.go\<close> and \<open>pkg/utils/retry.go\<close>.
\<close>

section \<open>The machine\<close>

text \<open>A context: the earliest deadline set by \<open>context.WithTimeout\<close>, if any.\<close>

type_synonym go_context = "time option"

text \<open>The answers of \<open>os.Stat\<close>: no such file, another error, or whether it is a directory.\<close>

datatype stat = StatNotExist | StatError gerror | StatInfo bool

text \<open>The outcomes of a process: a pipe could not be made, it did not start, it failed, it succeeded.\<close>

datatype exec_outcome = PipeError gerror | StartError gerror | WaitError gerror | Exited

text \<open>
  What a tool did, in order, with the outcome (\<open>None\<close> for success): processes run, files touched,
  read, written or appended to, directories removed, modules fetched (working directory, location,
  destination), objects stored in the cluster, text printed.
\<close>

datatype action =
    Ran "string list" exec_outcome
  | Touched string "gerror option"
  | WroteFile string bytes "gerror option"
  | Appended string bytes "gerror option"
  | RemovedAll string
  | FileRead string "gerror + bytes"
  | Fetched string string string
  | Stored verb object "gerror option"
  | Printed string

text \<open>
  \<open>h_Cancelled\<close> tells whether the parent context was cancelled by a signal, \<open>h_Wait\<close> waits for a
  duration or until the context is done (and then answers \<open>True\<close>), \<open>h_Backoff\<close> is the
  exponential backoff of the retry library (jitter, minimum, attempt), \<open>h_Range\<close> the order in
  which the runtime iterates over the keys of a map, \<open>h_Client\<close> the error of building a client,
  \<open>h_Ask\<close> an answer of the user to a question with a default, \<open>h_Select\<close> a choice from options
  and \<open>h_Confirm\<close> a yes or no.
\<close>

record 'w host =
  h_cc :: "'w client"
  h_Client :: "'w \<Rightarrow> gerror option \<times> 'w"
  h_Cancelled :: "'w \<Rightarrow> bool \<times> 'w"
  h_Wait :: "go_context \<Rightarrow> time \<Rightarrow> 'w \<Rightarrow> bool \<times> 'w"
  h_Backoff :: "bool \<Rightarrow> time \<Rightarrow> nat \<Rightarrow> 'w \<Rightarrow> time \<times> 'w"
  h_Int63n :: "int \<Rightarrow> 'w \<Rightarrow> int \<times> 'w"
  h_Stat :: "string \<Rightarrow> 'w \<Rightarrow> stat \<times> 'w"
  h_Touch :: "string \<Rightarrow> 'w \<Rightarrow> gerror option \<times> 'w"
  h_ReadFile :: "string \<Rightarrow> 'w \<Rightarrow> (gerror + bytes) \<times> 'w"
  h_WriteFile :: "string \<Rightarrow> bytes \<Rightarrow> 'w \<Rightarrow> gerror option \<times> 'w"
  h_Exec :: "string list \<Rightarrow> 'w \<Rightarrow> exec_outcome \<times> 'w"
  h_Getenv :: "string \<Rightarrow> 'w \<Rightarrow> string"
  h_Range :: "string list \<Rightarrow> 'w \<Rightarrow> string list \<times> 'w"
  h_Ask :: "string \<Rightarrow> string \<Rightarrow> 'w \<Rightarrow> (gerror + string) \<times> 'w"
  h_Select :: "string \<Rightarrow> string list \<Rightarrow> 'w \<Rightarrow> (gerror + string) \<times> 'w"
  h_MultiSelect :: "string \<Rightarrow> string list \<Rightarrow> 'w \<Rightarrow> (gerror + string list) \<times> 'w"
  h_Confirm :: "string \<Rightarrow> 'w \<Rightarrow> (gerror + bool) \<times> 'w"

type_synonym ('w, 'o, 'a) tool = "('w, 'o, action list, 'a) prog"

definition note_action :: "action \<Rightarrow> ('w, 'o, unit) tool" where
  "note_action a = modify_state (\<lambda>log. log @ [a])"

definition print :: "string \<Rightarrow> ('w, 'o, unit) tool" where
  "print text = note_action (Printed text)"

text \<open>\<open>factory.Println\<close> (\<open>pkg/cmd/factory.go\<close>)\<close>

definition Println :: "string \<Rightarrow> farg list \<Rightarrow> ('w, 'o, unit) tool" where
  "Println format args = print (Sprintf (format @ [char_of (10 :: nat)]) args)"

definition Printf :: "string \<Rightarrow> farg list \<Rightarrow> ('w, 'o, unit) tool" where
  "Printf format args = print (Sprintf format args)"

section \<open>Files\<close>

definition TouchFile :: "'w host \<Rightarrow> string \<Rightarrow> ('w, 'o, gerror option) tool" where
  "TouchFile h path =
     do { r \<leftarrow> request (h_Touch h path);
          note_action (Touched path r);
          State_Monad.return r }"

definition write_file :: "'w host \<Rightarrow> string \<Rightarrow> bytes \<Rightarrow> ('w, 'o, gerror option) tool" where
  "write_file h path content =
     do { r \<leftarrow> request (h_WriteFile h path content);
          note_action (WroteFile path content r);
          State_Monad.return r }"

definition DirExists :: "'w host \<Rightarrow> string \<Rightarrow> ('w, 'o, gerror + bool) tool" where
  "DirExists h path =
     do { r \<leftarrow> request (h_Stat h path);
          State_Monad.return
            (case r of
               StatNotExist \<Rightarrow> Inr False
             | StatError err \<Rightarrow> Inl err
             | StatInfo dir \<Rightarrow> Inr dir) }"

definition FileExists :: "'w host \<Rightarrow> string \<Rightarrow> ('w, 'o, gerror + bool) tool" where
  "FileExists h path =
     do { r \<leftarrow> request (h_Stat h path);
          State_Monad.return
            (case r of
               StatNotExist \<Rightarrow> Inr False
             | StatError err \<Rightarrow> Inl err
             | StatInfo dir \<Rightarrow> Inr (\<not> dir)) }"

text \<open>\<open>filepath.Base\<close> and \<open>filepath.Join\<close> of two elements, on Unix paths.\<close>

definition Base :: "string \<Rightarrow> string" where
  "Base path =
     (if path = [] then ''.''
      else let trimmed = rev (dropWhile (\<lambda>c. c = CHR ''/'') (rev path)) in
           if trimmed = [] then ''/'' else last (Split trimmed CHR ''/''))"

section \<open>Retries\<close>

definition MaxAttempts :: int where
  "MaxAttempts = 99999999"

definition ErrCancelled :: gerror where
  "ErrCancelled = ErrMsg ''operation cancelled''"

definition ErrReachMaxAttempts :: gerror where
  "ErrReachMaxAttempts = ErrMsg ''reached max attempts''"

definition WithTimeout :: "go_context \<Rightarrow> time \<Rightarrow> time \<Rightarrow> go_context" where
  "WithTimeout ctx now timeout =
     Some (case ctx of None \<Rightarrow> now + timeout | Some deadline \<Rightarrow> min deadline (now + timeout))"

text \<open>Whether \<open>ctx.Done()\<close> is closed: cancelled from outside, or past its deadline.\<close>

definition done_context :: "'w host \<Rightarrow> go_context \<Rightarrow> ('w, 'o, 't, bool) prog" where
  "done_context h ctx =
     do { cancelled \<leftarrow> request (h_Cancelled h);
          w \<leftarrow> gets world;
          State_Monad.return
            (cancelled \<or> (case ctx of None \<Rightarrow> False | Some deadline \<Rightarrow> deadline \<le> cc_Now (h_cc h) w)) }"

definition Sleep :: "'w host \<Rightarrow> go_context \<Rightarrow> time \<Rightarrow> ('w, 'o, 't, bool) prog" where
  "Sleep h ctx d = request (h_Wait h ctx d)"

text \<open>The loop of \<open>Retry\<close>; \<open>n\<close> counts the attempts left and \<open>i\<close> those made.\<close>

fun retry_loop ::
  "'w host \<Rightarrow> go_context \<Rightarrow> bool \<Rightarrow> time \<Rightarrow> ('w, 'o, 't, gerror + bool) prog \<Rightarrow> nat \<Rightarrow> nat \<Rightarrow>
   ('w, 'o, 't, gerror option) prog" where
  "retry_loop h ctx jitter interval fn i 0 = State_Monad.return (Some ErrReachMaxAttempts)"
| "retry_loop h ctx jitter interval fn i (Suc n) =
     do { stop \<leftarrow> done_context h ctx;
          if stop then State_Monad.return (Some ErrCancelled)
          else do { r \<leftarrow> fn;
                    case r of
                      Inl err \<Rightarrow> State_Monad.return (Some err)
                    | Inr finished \<Rightarrow>
                        if finished then State_Monad.return None
                        else do { d \<leftarrow> request (h_Backoff h jitter interval i);
                                  Sleep h ctx d;
                                  retry_loop h ctx jitter interval fn (Suc i) n } } }"

definition Retry ::
  "'w host \<Rightarrow> go_context \<Rightarrow> int \<Rightarrow> bool \<Rightarrow> time \<Rightarrow> ('w, 'o, 't, gerror + bool) prog \<Rightarrow>
   ('w, 'o, 't, gerror option) prog" where
  "Retry h ctx attempts jitter minInterval retryFn =
     (let attempts = (if attempts = 0 then MaxAttempts else attempts) in
      retry_loop h ctx jitter minInterval retryFn 0 (nat attempts))"

definition RetryWithTimeout ::
  "'w host \<Rightarrow> go_context \<Rightarrow> time \<Rightarrow> time \<Rightarrow> ('w, 'o, 't, gerror + bool) prog \<Rightarrow>
   ('w, 'o, 't, gerror option) prog" where
  "RetryWithTimeout h ctx timeout interval retryFn =
     do { w \<leftarrow> gets world;
          Retry h (WithTimeout ctx (cc_Now (h_cc h) w) timeout) 0 True interval retryFn }"

section \<open>Symbolic execution\<close>

text \<open>The rules of \<open>wp\<close> as equations of predicates, for continuations under an abstraction.\<close>

lemma wp_eta:
  "wp (State_Monad.return a) Q = Q a"
  "wp (State_Monad.bind m f) Q = wp m (\<lambda>a. wp (f a) Q)"
  by (simp_all add: fun_eq_iff)

lemma wp_note_action [simp, wp_simps]:
  "wp (note_action a) Q s = Q () (s\<lparr>rstate := rstate s @ [a]\<rparr>)"
  by (simp add: note_action_def)

lemma wp_print [simp, wp_simps]:
  "wp (print text) Q s = Q () (s\<lparr>rstate := rstate s @ [Printed text]\<rparr>)"
  by (simp add: print_def)

lemma wp_TouchFile_any [any_client]:
  assumes "\<And>r w. Q r (s\<lparr>world := w, rstate := rstate s @ [Touched path r]\<rparr>)"
  shows "wp (TouchFile h path) Q s"
  using assms by (simp add: TouchFile_def wp_request)

lemma wp_FileExists_any [any_client]:
  "(\<And>r w. Q r (s\<lparr>world := w\<rparr>)) \<Longrightarrow> wp (FileExists h path) Q s"
  by (simp add: FileExists_def wp_request)

lemma wp_done_context_any [any_client]:
  "(\<And>r w. Q r (s\<lparr>world := w\<rparr>)) \<Longrightarrow> wp (done_context h ctx) Q s"
  by (simp add: done_context_def wp_request)

lemma wp_Sleep_any [any_client]:
  "(\<And>r w. Q r (s\<lparr>world := w\<rparr>)) \<Longrightarrow> wp (Sleep h ctx d) Q s"
  by (simp add: Sleep_def wp_request)

text \<open>
  The rule of a retry: when the function, started in a state with \<open>I\<close>, ends either in such a
  state without having finished, or in a state with \<open>Q\<close>, so does the whole loop. Running out
  of attempts and cancellation leave the state as the last attempt left it.
\<close>

lemma wp_retry_loop:
  assumes inv: "\<And>s w. I s \<Longrightarrow> I (s\<lparr>world := w\<rparr>)"
    and step: "\<And>s. I s \<Longrightarrow> wp fn (\<lambda>r t. if r = Inr False then I t
                 else Q (case r of Inl e \<Rightarrow> Some e | Inr _ \<Rightarrow> None) t) s"
    and gave_up: "\<And>s e. I s \<Longrightarrow> e \<in> {ErrReachMaxAttempts, ErrCancelled} \<Longrightarrow> Q (Some e) s"
  shows "I s \<Longrightarrow> wp (retry_loop h ctx jitter d fn i n) Q s"
proof (induction n arbitrary: i s)
  case 0
  then show ?case using gave_up by simp
next
  case (Suc n)
  have again: "wp (request (h_Backoff h jitter d i))
      (\<lambda>d'. wp (do { Sleep h ctx d'; retry_loop h ctx jitter d fn (Suc i) n }) Q) t" if "I t" for t
    using that inv Suc.IH by (auto simp: wp_request Sleep_def)
  show ?case
    unfolding retry_loop.simps wp_bind
  proof (rule wp_done_context_any)
    fix r w
    have I: "I (s\<lparr>world := w\<rparr>)" using inv [OF Suc.prems] .
    show "wp (if r then State_Monad.return (Some ErrCancelled)
        else do { r \<leftarrow> fn; case r of Inl err \<Rightarrow> State_Monad.return (Some err)
          | Inr finished \<Rightarrow> if finished then State_Monad.return None
              else do { d' \<leftarrow> request (h_Backoff h jitter d i); Sleep h ctx d';
                        retry_loop h ctx jitter d fn (Suc i) n } }) Q (s\<lparr>world := w\<rparr>)"
      using gave_up [OF I]
      by (auto simp: wp_if intro!: wp_mono [OF step [OF I]] again split: sum.splits if_splits)
  qed
qed

lemmas wp_Retry = wp_retry_loop [where i = 0]

end
