(* ===== verification/Step.thy ===== *)
theory Step
  imports Host
begin

text \<open>
  The program that runs inside every container of a terraform job (\<open>cmd/step\<close>): it waits for the
  file of the step before it, runs its commands with retries, uploads files as secrets and
  touches the file that lets the next step start, or the one that tells it to give up.
\<close>

record Step =
  sp_Commands :: "string list"
  sp_RetryMinBackoff :: time
  sp_RetryMaxJitter :: time
  sp_RetryAttempts :: int
  sp_Comment :: string
  sp_ErrorFile :: string
  sp_FailureFile :: string
  sp_Namespace :: string
  sp_Shell :: string
  sp_SuccessFile :: string
  sp_Timeout :: time
  sp_UploadFile :: "string list"
  sp_WaitFile :: string

definition Step_IsValid :: "Step \<Rightarrow> gerror option" where
  "Step_IsValid s =
     (if length (sp_Commands s) = 0 then Some (ErrMsg ''no commands specified'')
      else if sp_Timeout s < 0 then Some (ErrMsg ''timeout must be greater than 0'')
      else if sp_RetryAttempts s < 0
      then Some (ErrMsg ''retry attempts must be greater than or equal to 0'')
      else if sp_RetryAttempts s > 0 \<and> sp_RetryMinBackoff s < 0
      then Some (ErrMsg ''minimum retry backoff must be greater than or equal to 0'')
      else if sp_RetryAttempts s > 0 \<and> sp_RetryMaxJitter s < 0
      then Some (ErrMsg ''maximum jitter must be greater than or equal to 0'')
      else if length (sp_UploadFile s) > 0 \<and> sp_Namespace s = []
      then Some (ErrMsg ''namespace must be specified when uploading files'')
      else if list_ex (\<lambda>x. length (Split x CHR ''='') \<noteq> 2) (sp_UploadFile s)
      then Some (ErrMsg (''upload file must be in the format '' @ [CHR 0x27] @ ''key=path'' @ [CHR 0x27]))
      else None)"

text \<open>The assignments \<open>keys[e[0]] = e[1]\<close> on an association list with distinct keys.\<close>

fun upload_key_pairs :: "(string \<times> string) list \<Rightarrow> string list \<Rightarrow> (string \<times> string) list" where
  "upload_key_pairs keys [] = keys"
| "upload_key_pairs keys (x # xs) =
     (case Split x CHR ''='' of
        [a, b] \<Rightarrow> upload_key_pairs (filter (\<lambda>kv. fst kv \<noteq> a) keys @ [(a, b)]) xs
      | _ \<Rightarrow> upload_key_pairs keys xs)"

definition UploadKeyPairs :: "Step \<Rightarrow> (string \<times> string) list" where
  "UploadKeyPairs s = upload_key_pairs [] (sp_UploadFile s)"

definition calculateBackoff :: "'w host \<Rightarrow> time \<Rightarrow> time \<Rightarrow> ('w, 'o, time) tool" where
  "calculateBackoff h minBackoff maxJitter =
     (if maxJitter \<le> 0 then State_Monad.return minBackoff
      else do { jitter \<leftarrow> request (h_Int63n h maxJitter);
                State_Monad.return (minBackoff + jitter) })"

text \<open>A write of a secret, which is part of the log of the step.\<close>

definition store_secret :: "'w host \<Rightarrow> verb \<Rightarrow> Secret \<Rightarrow> ('w, 'o, gerror option) tool" where
  "store_secret h v secret =
     do { w \<leftarrow> perform (h_cc h) v (OSecret secret);
          note_action (Stored v (OSecret secret) (error_of w));
          State_Monad.return (error_of w) }"

definition uploadSecret :: "'w host \<Rightarrow> string \<Rightarrow> string \<Rightarrow> string \<Rightarrow> ('w, 'o, gerror option) tool" where
  "uploadSecret h namespace name path =
     do { found \<leftarrow> FileExists h path;
          case found of
            Inl err \<Rightarrow> State_Monad.return (Some err)
          | Inr False \<Rightarrow> State_Monad.return (Some (ErrMsg (Sprintf ''file %s does not exist'' [FStr path])))
          | Inr True \<Rightarrow>
              do { content \<leftarrow> request (h_ReadFile h path);
                   note_action (FileRead path content);
                   case content of
                     Inl err \<Rightarrow> State_Monad.return (Some err)
                   | Inr bytes \<Rightarrow>
                       do { current \<leftarrow> GetIfExists (h_cc h) KSecret as_Secret namespace name;
                            case current of
                              Inl err \<Rightarrow> State_Monad.return (Some err)
                            | Inr None \<Rightarrow>
                                store_secret h Create
                                  \<lparr>sec_Meta = named_meta namespace name, sec_Data = Some [Base path \<mapsto> bytes]\<rparr>
                            | Inr (Some secret) \<Rightarrow>
                                (let data = (case sec_Data secret of None \<Rightarrow> Map.empty | Some m \<Rightarrow> m) in
                                 store_secret h Update (secret\<lparr>sec_Data := Some (data(Base path \<mapsto> bytes))\<rparr>)) } } }"

definition banner :: "Step \<Rightarrow> action list" where
  "banner step =
     (if sp_Comment step = [] then []
      else let nl = [char_of (10 :: nat)]; rule = replicate 55 CHR ''='' in
           [Printed (nl @ rule @ nl @ ToUpper (sp_Comment step) @ nl @ rule @ nl)])"

definition print_banner :: "Step \<Rightarrow> ('w, 'o, unit) tool" where
  "print_banner step = modify_state (\<lambda>log. log @ banner step)"

text \<open>The function retried while waiting: stop on the failure file, finish on the awaited one.\<close>

definition check_signals :: "'w host \<Rightarrow> Step \<Rightarrow> ('w, 'o, gerror + bool) tool" where
  "check_signals h step =
     do { failed \<leftarrow> (if sp_FailureFile step \<noteq> [] then FileExists h (sp_FailureFile step)
                     else State_Monad.return (Inr False));
          if failed = Inr True
          then State_Monad.return (Inl (ErrMsg ''found error signal file, refusing to execute''))
          else do { found \<leftarrow> FileExists h (sp_WaitFile step);
                    State_Monad.return (Inr (found = Inr True)) } }"

definition wait_for_signal :: "'w host \<Rightarrow> Step \<Rightarrow> ('w, 'o, gerror option) tool" where
  "wait_for_signal h step =
     (if sp_WaitFile step = [] then State_Monad.return None
      else RetryWithTimeout h None (sp_Timeout step) second (check_signals h step))"

definition argv :: "Step \<Rightarrow> string \<Rightarrow> string list" where
  "argv step command = [sp_Shell step, ''-c'', command]"

text \<open>
  The loop of attempts of one command, \<open>n\<close> of them left: \<open>Inl\<close> is an early return of the whole
  step, \<open>Inr\<close> the number of failed attempts and the error of the last one.
\<close>

fun run_attempts ::
  "'w host \<Rightarrow> Step \<Rightarrow> string \<Rightarrow> int \<Rightarrow> gerror option \<Rightarrow> nat \<Rightarrow>
   ('w, 'o, gerror + int \<times> gerror option) tool" where
  "run_attempts h step command attempt lastErr 0 = State_Monad.return (Inr (attempt, lastErr))"
| "run_attempts h step command attempt lastErr (Suc n) =
     do { cancelled \<leftarrow> (if attempt > 0
            then do { backoff \<leftarrow> calculateBackoff h (sp_RetryMinBackoff step) (sp_RetryMaxJitter step);
                      request (h_Wait h None backoff) }
            else State_Monad.return False);
          if cancelled then State_Monad.return (Inl (ErrMsg ''context canceled''))
          else do { r \<leftarrow> request (h_Exec h (argv step command));
                    note_action (Ran (argv step command) r);
                    case r of
                      PipeError err \<Rightarrow> State_Monad.return (Inl err)
                    | StartError err \<Rightarrow> run_attempts h step command (attempt + 1) (Some err) n
                    | WaitError err \<Rightarrow> run_attempts h step command (attempt + 1) (Some err) n
                    | Exited \<Rightarrow> State_Monad.return (Inr (attempt, None)) } }"

fun run_commands :: "'w host \<Rightarrow> Step \<Rightarrow> string list \<Rightarrow> ('w, 'o, gerror option) tool" where
  "run_commands h step [] = State_Monad.return None"
| "run_commands h step (command # commands) =
     do { r \<leftarrow> run_attempts h step command 0 None (nat (sp_RetryAttempts step + 1));
          case r of
            Inl err \<Rightarrow> State_Monad.return (Some err)
          | Inr (attempt, None) \<Rightarrow> run_commands h step commands
          | Inr (attempt, Some lastErr) \<Rightarrow>
              do { t \<leftarrow> (if sp_ErrorFile step \<noteq> [] then TouchFile h (sp_ErrorFile step)
                        else State_Monad.return None);
                   State_Monad.return
                     (case t of
                        Some err \<Rightarrow> Some err
                      | None \<Rightarrow> Some (ErrMsg (Sprintf ''command failed after %d attempts: %w''
                                  [FInt attempt, FStr (Error lastErr)]))) } }"

fun upload_all :: "'w host \<Rightarrow> Step \<Rightarrow> (string \<times> string) list \<Rightarrow> ('w, 'o, gerror option) tool" where
  "upload_all h step [] = State_Monad.return None"
| "upload_all h step ((name, path) # rest) =
     do { r \<leftarrow> Retry h None 2 True (5 * second)
                (do { err \<leftarrow> uploadSecret h (sp_Namespace step) name path;
                      State_Monad.return (Inr (err = None)) });
          case r of
            Some err \<Rightarrow> State_Monad.return (Some err)
          | None \<Rightarrow> upload_all h step rest }"

text \<open>The iteration over the map of uploads follows the order of the runtime.\<close>

definition in_order :: "(string \<times> string) list \<Rightarrow> string list \<Rightarrow> (string \<times> string) list" where
  "in_order kvs names =
     List.map_filter (\<lambda>n. map_option (Pair n) (map_of kvs n)) names"

definition finish_step :: "'w host \<Rightarrow> Step \<Rightarrow> ('w, 'o, gerror option) tool" where
  "finish_step h step =
     (if sp_SuccessFile step \<noteq> [] then TouchFile h (sp_SuccessFile step)
      else State_Monad.return None)"

definition step_Run :: "'w host \<Rightarrow> Step \<Rightarrow> ('w, 'o, gerror option) tool" where
  "step_Run h step =
     (case Step_IsValid step of
        Some err \<Rightarrow> State_Monad.return (Some err)
      | None \<Rightarrow>
          do { c \<leftarrow> (if length (sp_UploadFile step) > 0 then request (h_Client h)
                     else State_Monad.return None);
               case c of
                 Some err \<Rightarrow> State_Monad.return (Some err)
               | None \<Rightarrow>
                   do { print_banner step;
                        waited \<leftarrow> wait_for_signal h step;
                        case waited of
                          Some err \<Rightarrow> State_Monad.return (Some err)
                        | None \<Rightarrow>
                            do { ran \<leftarrow> run_commands h step (sp_Commands step);
                                 case ran of
                                   Some err \<Rightarrow> State_Monad.return (Some err)
                                 | None \<Rightarrow>
                                     (let kvs = UploadKeyPairs step in
                                      do { names \<leftarrow> request (h_Range h (map fst kvs));
                                           up \<leftarrow> upload_all h step (in_order kvs names);
                                           case up of
                                             Some err \<Rightarrow> State_Monad.return (Some err)
                                           | None \<Rightarrow> finish_step h step }) } } })"

section \<open>Key pairs\<close>

lemma upload_key_pairs_distinct: "distinct (map fst keys) \<Longrightarrow> distinct (map fst (upload_key_pairs keys xs))"
proof (induction keys xs rule: upload_key_pairs.induct)
  case (2 keys x xs)
  have "distinct (map fst (filter (\<lambda>kv. fst kv \<noteq> a) keys @ [(a, b)]))" for a b
    using "2.prems" by (auto simp: distinct_map_filter)
  with 2 show ?case by (auto split: list.splits)
qed simp

lemma in_order_set:
  assumes "set names = fst ` set kvs" and "distinct (map fst kvs)"
  shows "set (in_order kvs names) = set kvs"
  using assms by (force simp: in_order_def map_filter_def)

section \<open>The attempts of a command\<close>

text \<open>A run of the command that failed, and the log of a command that succeeded in the end.\<close>

definition failed_run :: "Step \<Rightarrow> string \<Rightarrow> action \<Rightarrow> bool" where
  "failed_run step command a \<longleftrightarrow>
     (\<exists>e. a = Ran (argv step command) (StartError e) \<or> a = Ran (argv step command) (WaitError e))"

definition settled :: "Step \<Rightarrow> string \<Rightarrow> action list \<Rightarrow> bool" where
  "settled step command block \<longleftrightarrow>
     (\<exists>fs. block = fs @ [Ran (argv step command) Exited] \<and> int (length fs) \<le> sp_RetryAttempts step \<and>
        list_all (failed_run step command) fs)"

text \<open>
  The log of a command that ended the step: it failed in every attempt allowed, and then the
  error file is touched, or the step was interrupted before.
\<close>

definition gave_up :: "Step \<Rightarrow> string \<Rightarrow> action list \<Rightarrow> bool" where
  "gave_up step command tail \<longleftrightarrow>
     (\<exists>fs signal. tail = fs @ signal \<and> int (length fs) = sp_RetryAttempts step + 1 \<and>
        list_all (failed_run step command) fs \<and>
        (if sp_ErrorFile step = [] then signal = [] else \<exists>r. signal = [Touched (sp_ErrorFile step) r]))"

definition broken_off :: "Step \<Rightarrow> string \<Rightarrow> nat \<Rightarrow> action list \<Rightarrow> bool" where
  "broken_off step command n tail \<longleftrightarrow>
     (\<exists>fs last. tail = fs @ last \<and> length fs < n \<and> list_all (failed_run step command) fs \<and>
        (last = [] \<or> (\<exists>e. last = [Ran (argv step command) (PipeError e)])))"

definition interrupted :: "Step \<Rightarrow> string \<Rightarrow> action list \<Rightarrow> bool" where
  "interrupted step command tail \<longleftrightarrow> broken_off step command (nat (sp_RetryAttempts step + 1)) tail"

lemma broken_off_intros:
  "0 < n \<Longrightarrow> broken_off step command n []"
  "0 < n \<Longrightarrow> broken_off step command n [Ran (argv step command) (PipeError e)]"
  by (force simp: broken_off_def)+

lemma broken_off_Cons:
  assumes "failed_run step command a" and "broken_off step command n L"
  shows "broken_off step command (Suc n) (a # L)"
proof -
  obtain fs l where "a # L = (a # fs) @ l" "length (a # fs) < Suc n" "list_all (failed_run step command) (a # fs)"
    "l = [] \<or> (\<exists>e. l = [Ran (argv step command) (PipeError e)])"
    using assms by (auto simp: broken_off_def)
  then show ?thesis unfolding broken_off_def by blast
qed

text \<open>What a command with \<open>n\<close> attempts left adds to the log, by its result.\<close>

fun attempts_log :: "Step \<Rightarrow> string \<Rightarrow> nat \<Rightarrow> gerror + int \<times> gerror option \<Rightarrow> action list \<Rightarrow> bool" where
  "attempts_log step command n (Inr (a, None)) L \<longleftrightarrow>
     (\<exists>fs. L = fs @ [Ran (argv step command) Exited] \<and> length fs < n \<and> list_all (failed_run step command) fs)"
| "attempts_log step command n (Inr (a, Some e)) L \<longleftrightarrow>
     length L = n \<and> list_all (failed_run step command) L"
| "attempts_log step command n (Inl e) L \<longleftrightarrow> broken_off step command n L"

lemma attempts_log_Cons:
  "failed_run step command a \<Longrightarrow> attempts_log step command n r L \<Longrightarrow> attempts_log step command (Suc n) r (a # L)"
proof (induction step command n r L rule: attempts_log.induct)
  case (1 step command n b L)
  then obtain fs where "a # L = (a # fs) @ [Ran (argv step command) Exited]" "length (a # fs) < Suc n"
    "list_all (failed_run step command) (a # fs)" by auto
  then show ?case unfolding attempts_log.simps by blast
qed (simp_all add: broken_off_Cons)

lemma run_attempts_log:
  assumes "lastErr = None \<Longrightarrow> 0 < n"
  shows "wp (run_attempts h step command attempt lastErr n)
     (\<lambda>r t. effects t = effects s \<and> (\<exists>L. rstate t = rstate s @ L \<and> attempts_log step command n r L)) s"
    (is "wp _ (?Q n s) s")
  using assms
proof (induction n arbitrary: attempt lastErr s)
  case 0
  then show ?case by (cases lastErr) auto
next
  case (Suc n)
  have again: "wp (run_attempts h step command (attempt + 1) (Some e) n) (?Q (Suc n) s)
      (s\<lparr>world := w, rstate := rstate s @ [a]\<rparr>)" if "failed_run step command a" for e a w
    using attempts_log_Cons [OF that] by (auto intro: wp_mono [OF Suc.IH])
  have body: "wp (do { r \<leftarrow> request (h_Exec h (argv step command));
        note_action (Ran (argv step command) r);
        case r of
          PipeError err \<Rightarrow> State_Monad.return (Inl err)
        | StartError err \<Rightarrow> run_attempts h step command (attempt + 1) (Some err) n
        | WaitError err \<Rightarrow> run_attempts h step command (attempt + 1) (Some err) n
        | Exited \<Rightarrow> State_Monad.return (Inr (attempt, None)) }) (?Q (Suc n) s) (s\<lparr>world := w\<rparr>)" for w
    using again by (auto simp: wp_request failed_run_def broken_off_intros split: exec_outcome.splits)
  show ?case
    using body by (auto simp: wp_request calculateBackoff_def wp_if broken_off_intros)
qed

section \<open>The commands of a step\<close>

text \<open>
  What a list of commands adds to the log: a prefix of them succeeds, each after at most the
  allowed number of retries, and either that is all of them and the result is no error, or the
  next one gave up or was interrupted and no later one ran.
\<close>

definition commands_log :: "Step \<Rightarrow> string list \<Rightarrow> gerror option \<Rightarrow> action list \<Rightarrow> bool" where
  "commands_log step commands r L \<longleftrightarrow>
     (\<exists>pre post blocks tail. commands = pre @ post \<and> list_all2 (settled step) pre blocks \<and>
        L = concat blocks @ tail \<and>
        (if r = None then post = [] \<and> tail = []
         else \<exists>c rest. post = c # rest \<and> (gave_up step c tail \<or> interrupted step c tail)))"

lemma commands_log_Nil: "commands_log step [] None []"
  by (auto simp: commands_log_def)

lemma commands_log_stop:
  "gave_up step c tail \<or> interrupted step c tail \<Longrightarrow> commands_log step (c # cs) (Some e) tail"
  unfolding commands_log_def
  by (rule exI [of _ "[]"], rule exI [of _ "c # cs"], rule exI [of _ "[]"], rule exI [of _ tail]) simp

lemma commands_log_Cons:
  assumes "settled step c block" and "commands_log step cs r L"
  shows "commands_log step (c # cs) r (block @ L)"
proof -
  obtain pre post blocks tail where "cs = pre @ post" "list_all2 (settled step) pre blocks" "L = concat blocks @ tail"
    and r: "if r = None then post = [] \<and> tail = []
       else \<exists>c rest. post = c # rest \<and> (gave_up step c tail \<or> interrupted step c tail)"
    using assms(2) unfolding commands_log_def by blast
  with assms(1) have "c # cs = (c # pre) @ post" "list_all2 (settled step) (c # pre) (block # blocks)"
    "block @ L = concat (block # blocks) @ tail" by auto
  with r show ?thesis unfolding commands_log_def by blast
qed

lemma run_commands_log:
  assumes "0 \<le> sp_RetryAttempts step"
  shows "wp (run_commands h step commands)
     (\<lambda>r t. effects t = effects s \<and> (\<exists>L. rstate t = rstate s @ L \<and> commands_log step commands r L)) s"
    (is "wp _ (?Q commands s) s")
proof (induction commands arbitrary: s)
  case Nil
  show ?case by (simp add: commands_log_Nil)
next
  case (Cons c cs)
  let ?n = "nat (sp_RetryAttempts step + 1)"
  have on: "wp (run_commands h step cs) (?Q (c # cs) s) t"
    if "rstate t = rstate s @ block" "effects t = effects s" "settled step c block" for t block
    using that commands_log_Cons by (fastforce intro: wp_mono [OF Cons.IH])
  show ?case
    unfolding run_commands.simps wp_bind
  proof (rule wp_mono [OF run_attempts_log [where s = s]], goal_cases)
    case 1
    then show ?case using assms by simp
  next
    case (2 r t)
    then obtain L where log: "rstate t = rstate s @ L" "effects t = effects s" "attempts_log step c ?n r L"
      by blast
    consider e where "r = Inl e" | a where "r = Inr (a, None)" | a e where "r = Inr (a, Some e)"
      by (metis option.exhaust prod.exhaust sum.exhaust)
    then show ?case
    proof cases
      case 1
      then have "interrupted step c L" using log(3) by (simp add: interrupted_def)
      with 1 log show ?thesis by (auto intro: commands_log_stop)
    next
      case 2
      then have "settled step c L" using log(3) assms by (auto simp: settled_def)
      with 2 log show ?thesis by (auto intro: on)
    next
      case 3
      have "gave_up step c (L @ (if sp_ErrorFile step = [] then [] else [Touched (sp_ErrorFile step) x]))"
        (is "gave_up _ _ (L @ ?signal x)") for x
        unfolding gave_up_def by (rule exI [of _ L], rule exI [of _ "?signal x"]) (use 3 log(3) assms in auto)
      note commands_log_stop [OF disjI1, OF this, of cs]
      with 3 log show ?thesis
        by (auto simp: TouchFile_def wp_request split: option.splits if_splits)
    qed
  qed
qed

end
