(* ===== verification/Similarity.thy ===== *)
theory Similarity
  imports Host
begin

text \<open>
  The similarity of sentences (\<open>pkg/utils/similarity\<close>) and the suggestion of a context variable
  for an input of a module (\<open>pkg/cmd/tnctl/create/helper.go\<close>). Scores are exact fractions; the
  removal of stop words and the singular of a word come from third-party packages and are
  parameters, as is the order in which the runtime iterates over maps.
\<close>

section \<open>Tokens\<close>

record Tokenizer =
  tk_CleanString :: "string \<Rightarrow> string"
  tk_Singular :: "string \<Rightarrow> string"

text \<open>\<open>regexp.MustCompile(`\w+`).FindAllString(s, -1)\<close>: the maximal runs of word characters.\<close>

definition word_char :: "char \<Rightarrow> bool" where
  "word_char c =
     (let n = (of_char c :: nat) in
      (48 \<le> n \<and> n \<le> 57) \<or> (65 \<le> n \<and> n \<le> 90) \<or> n = 95 \<or> (97 \<le> n \<and> n \<le> 122))"

fun find_words :: "string \<Rightarrow> string \<Rightarrow> string list" where
  "find_words acc [] = (if acc = [] then [] else [acc])"
| "find_words acc (c # cs) =
     (if word_char c then find_words (acc @ [c]) cs
      else (if acc = [] then [] else [acc]) @ find_words [] cs)"

definition Tokenize :: "Tokenizer \<Rightarrow> string \<Rightarrow> string list" where
  "Tokenize tk sentence =
     map (\<lambda>w. tk_Singular tk (ToLower w)) (find_words [] (tk_CleanString tk sentence))"

section \<open>Scores\<close>

record Filter =
  fl_Min :: rat
  fl_TopN :: int

definition Filter_IsEmpty :: "Filter \<Rightarrow> bool" where
  "Filter_IsEmpty f \<longleftrightarrow> fl_Min f = 0 \<and> fl_TopN f = 0"

text \<open>The word count is a map; an association list with distinct keys.\<close>

record Score =
  sc_Input :: string
  sc_Similarity :: rat
  sc_Words :: "(string \<times> nat) list"

record Similarity =
  sm_Input :: string
  sm_Scores :: "Score list"
  sm_Tokens :: "string list"

text \<open>\<open>Hightest\<close> keeps the index of the last score above the initial 0, which it never raises.\<close>

fun highest_index :: "nat \<Rightarrow> nat \<Rightarrow> Score list \<Rightarrow> nat" where
  "highest_index index i [] = index"
| "highest_index index i (s # ss) = highest_index (if sc_Similarity s > 0 then i else index) (Suc i) ss"

definition Hightest :: "Similarity \<Rightarrow> Score go" where
  "Hightest h =
     (let index = highest_index 0 0 (sm_Scores h) in
      if index < length (sm_Scores h) then Ok (sm_Scores h ! index) else Panic)"

definition Matches :: "Score \<Rightarrow> nat" where
  "Matches h = sum_list (map snd (sc_Words h))"

fun increment :: "string \<Rightarrow> (string \<times> nat) list \<Rightarrow> (string \<times> nat) list" where
  "increment k [] = [(k, 1)]"
| "increment k ((a, n) # kvs) = (if a = k then (a, Suc n) # kvs else (a, n) # increment k kvs)"

fun count_words :: "string list \<Rightarrow> (string \<times> nat) list \<Rightarrow> string list \<Rightarrow> (string \<times> nat) list" where
  "count_words tokens words [] = words"
| "count_words tokens words (expected # rest) =
     count_words tokens (if Contains expected tokens then increment expected words else words) rest"

fun score_list :: "Tokenizer \<Rightarrow> string list \<Rightarrow> string list \<Rightarrow> Score list" where
  "score_list tk wanted [] = []"
| "score_list tk wanted (x # xs) =
     (let words = count_words (Tokenize tk x) [] wanted;
          score = \<lparr>sc_Input = x, sc_Similarity = 0, sc_Words = words\<rparr> in
      if length words > 0
      then score\<lparr>sc_Similarity := of_nat (Matches score) / of_nat (length wanted)\<rparr> # score_list tk wanted xs
      else score_list tk wanted xs)"

text \<open>The first score of a similarity, for each similarity of the sorted list that was cut.\<close>

definition pick_scores :: "rat list \<Rightarrow> Score list \<Rightarrow> Score list" where
  "pick_scores similarities scores =
     List.map_filter (\<lambda>x. find (\<lambda>s. sc_Similarity s = x) scores) similarities"

definition Closeness :: "Tokenizer \<Rightarrow> string \<Rightarrow> string list \<Rightarrow> Filter \<Rightarrow> Similarity" where
  "Closeness tk sentence list f =
     (let tokens = Tokenize tk sentence;
          scores = score_list tk tokens list;
          h = \<lparr>sm_Input = sentence, sm_Scores = [], sm_Tokens = tokens\<rparr> in
      if Filter_IsEmpty f then h\<lparr>sm_Scores := scores\<rparr>
      else
        let scores = (if fl_Min f > 0 then filter (\<lambda>s. fl_Min f \<le> sc_Similarity s) scores else scores);
            scores =
              (if fl_TopN f > 0
               then let similarities = sort (map sc_Similarity scores);
                        similarities =
                          (if int (length similarities) > fl_TopN f
                           then take (nat (fl_TopN f)) similarities else similarities)
                    in pick_scores similarities scores
               else scores)
        in h\<lparr>sm_Scores := scores\<rparr>)"

fun closest_score :: "rat \<Rightarrow> string \<Rightarrow> Score list \<Rightarrow> string" where
  "closest_score highest closest [] = closest"
| "closest_score highest closest (s # ss) =
     (if sc_Similarity s > highest then closest_score (sc_Similarity s) (sc_Input s) ss
      else closest_score highest closest ss)"

definition Closest :: "Tokenizer \<Rightarrow> string \<Rightarrow> string list \<Rightarrow> string" where
  "Closest tk sentence list =
     closest_score 0 [] (sm_Scores (Closeness tk sentence list \<lparr>fl_Min = 0, fl_TopN = 0\<rparr>))"

section \<open>Suggestions from contexts\<close>

record Input =
  in_Context :: string
  in_Default :: "(string \<rightharpoonup> json) option"
  in_Description :: string
  in_Key :: string
  in_Required :: bool
  in_Type :: string

definition empty_input :: Input where
  "empty_input = \<lparr>in_Context = [], in_Default = None, in_Description = [], in_Key = [],
     in_Required = False, in_Type = []\<rparr>"

text \<open>
  \<open>sg_Keys\<close> lists the variables of a context and \<open>sg_Range\<close> the descriptions, in the order the
  runtime iterates over the two maps.
\<close>

record Suggester =
  sg_Tokenizer :: Tokenizer
  sg_Libs :: Libs
  sg_Keys :: "Context \<Rightarrow> string list"
  sg_Range :: "string list \<Rightarrow> string list"

text \<open>
  The options found so far, by description: the name of the variable and of its context. A
  variable that does not decode ends the search (\<open>None\<close>); one without a description is skipped.
\<close>

fun collect_options ::
  "Suggester \<Rightarrow> Context \<Rightarrow> (string \<times> string \<times> string) list \<Rightarrow> string list \<Rightarrow>
   (string \<times> string \<times> string) list option" where
  "collect_options sg x options [] = Some options"
| "collect_options sg x options (name # names) =
     (case gomap_find (ctx_Variables (ctx_Spec x)) name of
        None \<Rightarrow> collect_options sg x options names
      | Some variable \<Rightarrow>
          (case lib_JSONObject (sg_Libs sg) (re_Raw variable) of
             Inl _ \<Rightarrow> None
           | Inr item \<Rightarrow>
               (case item ''description'' of
                  Some (JStr description) \<Rightarrow>
                    collect_options sg x
                      (filter (\<lambda>kv. fst kv \<noteq> description) options @ [(description, name, om_Name (ctx_Meta x))])
                      names
                | _ \<Rightarrow> collect_options sg x options names)))"

fun suggest_scores ::
  "Suggester \<Rightarrow> string \<Rightarrow> rat \<Rightarrow> (string \<times> string \<times> string) list \<Rightarrow> Score list \<Rightarrow> Context list \<Rightarrow>
   ((string \<times> string \<times> string) list \<times> Score list) option" where
  "suggest_scores sg text mn options scores [] = Some (options, scores)"
| "suggest_scores sg text mn options scores (x # xs) =
     (case collect_options sg x options (sg_Keys sg x) of
        None \<Rightarrow> None
      | Some options \<Rightarrow>
          suggest_scores sg text mn options
            (scores @ sm_Scores (Closeness (sg_Tokenizer sg) text (sg_Range sg (map fst options))
                \<lparr>fl_Min = mn, fl_TopN = 1\<rparr>)) xs)"

definition SuggestContextualInput ::
  "Suggester \<Rightarrow> string \<Rightarrow> Context list option \<Rightarrow> rat \<Rightarrow> Input option" where
  "SuggestContextualInput sg text list mn =
     (case list of
        None \<Rightarrow> None
      | Some [] \<Rightarrow> None
      | Some items \<Rightarrow>
          (case suggest_scores sg text mn [] [] items of
             None \<Rightarrow> None
           | Some (options, []) \<Rightarrow> None
           | Some (options, score # _) \<Rightarrow>
               (case map_of options (sc_Input score) of
                  None \<Rightarrow> None
                | Some (name, ctx) \<Rightarrow>
                    Some (empty_input\<lparr>in_Context := ctx, in_Description := sc_Input score, in_Key := name\<rparr>))))"

section \<open>What a score counts\<close>

lemma sum_increment: "sum_list (map snd (increment k kvs)) = Suc (sum_list (map snd kvs))"
  by (induction k kvs rule: increment.induct) auto

lemma increment_nonempty [simp]: "increment k kvs \<noteq> []"
  by (cases kvs) (auto split: if_splits)

lemma sum_count_words:
  "sum_list (map snd (count_words tokens words wanted)) =
     sum_list (map snd words) + length (filter (\<lambda>x. x \<in> set tokens) wanted)"
  by (induction tokens words wanted rule: count_words.induct) (auto simp: sum_increment)

lemma count_words_empty:
  "count_words tokens words wanted = [] \<longleftrightarrow> words = [] \<and> filter (\<lambda>x. x \<in> set tokens) wanted = []"
  by (induction tokens words wanted rule: count_words.induct) auto

text \<open>The fraction of the wanted tokens, with repetition, that occur in a sentence.\<close>

definition overlap :: "Tokenizer \<Rightarrow> string list \<Rightarrow> string \<Rightarrow> rat" where
  "overlap tk wanted x =
     of_nat (length (filter (\<lambda>w. w \<in> set (Tokenize tk x)) wanted)) / of_nat (length wanted)"

lemma overlap_bounds: "0 \<le> overlap tk wanted x" "overlap tk wanted x \<le> 1"
  by (auto simp: overlap_def divide_le_eq)

lemma overlap_pos: "0 < overlap tk wanted x \<longleftrightarrow> filter (\<lambda>w. w \<in> set (Tokenize tk x)) wanted \<noteq> []"
  by (auto simp: overlap_def zero_less_divide_iff)

lemma score_list_eq:
  "map (\<lambda>s. (sc_Input s, sc_Similarity s)) (score_list tk wanted xs) =
     map (\<lambda>x. (x, overlap tk wanted x)) (filter (\<lambda>x. 0 < overlap tk wanted x) xs)"
proof (induction xs)
  case (Cons x xs)
  have "length (count_words (Tokenize tk x) [] wanted) > 0 \<longleftrightarrow> 0 < overlap tk wanted x"
    by (simp add: count_words_empty overlap_pos)
  then show ?case
    using Cons by (simp add: Let_def Matches_def sum_count_words overlap_def)
qed simp


lemma set_pick_scores: "set (pick_scores sims scores) \<subseteq> set scores"
proof
  fix s assume "s \<in> set (pick_scores sims scores)"
  then obtain x where "find (\<lambda>s. sc_Similarity s = x) scores = Some s"
    by (auto simp: pick_scores_def map_filter_def)
  then show "s \<in> set scores" by (auto simp: find_Some_iff)
qed

lemma pick_scores_sims:
  assumes "set sims \<subseteq> sc_Similarity ` set scores"
  shows "map sc_Similarity (pick_scores sims scores) = sims"
  using assms
proof (induction sims)
  case (Cons x sims)
  then obtain s where "find (\<lambda>s. sc_Similarity s = x) scores = Some s" "sc_Similarity s = x"
    by (cases "find (\<lambda>s. sc_Similarity s = x) scores") (auto simp: find_None_iff find_Some_iff)
  with Cons show ?case by (simp add: pick_scores_def map_filter_def)
qed (simp add: pick_scores_def map_filter_def)

text \<open>The candidates of a search: the sentences above the minimum that share a word.\<close>

definition candidates :: "Tokenizer \<Rightarrow> string list \<Rightarrow> rat \<Rightarrow> string list \<Rightarrow> string list" where
  "candidates tk wanted mn xs =
     filter (\<lambda>x. 0 < overlap tk wanted x \<and> (0 < mn \<longrightarrow> mn \<le> overlap tk wanted x)) xs"

lemma map_filter_scores:
  assumes "map (\<lambda>s. (sc_Input s, sc_Similarity s)) scores = map (\<lambda>x. (x, g x)) xs"
  shows "map (\<lambda>s. (sc_Input s, sc_Similarity s)) (filter (\<lambda>s. P (sc_Similarity s)) scores) =
    map (\<lambda>x. (x, g x)) (filter (\<lambda>x. P (g x)) xs)"
  using assms by (induction scores arbitrary: xs) (auto simp: map_eq_Cons_conv Cons_eq_map_conv)

lemma Closeness_topn:
  assumes "0 < fl_TopN f"
  shows "map sc_Similarity (sm_Scores (Closeness tk sentence list f)) =
    take (nat (fl_TopN f))
      (sort (map (overlap tk (Tokenize tk sentence)) (candidates tk (Tokenize tk sentence) (fl_Min f) list)))"
proof -
  let ?wanted = "Tokenize tk sentence"
  define scores where "scores = (if fl_Min f > 0 then filter (\<lambda>s. fl_Min f \<le> sc_Similarity s) (score_list tk ?wanted list)
    else score_list tk ?wanted list)"
  have "map (\<lambda>s. (sc_Input s, sc_Similarity s)) scores =
      map (\<lambda>x. (x, overlap tk ?wanted x)) (candidates tk ?wanted (fl_Min f) list)"
    unfolding scores_def candidates_def
    using map_filter_scores [OF score_list_eq, of "\<lambda>y. fl_Min f \<le> y" tk ?wanted list]
    by (simp add: score_list_eq conj_commute)
  then have "map snd (map (\<lambda>s. (sc_Input s, sc_Similarity s)) scores) =
      map snd (map (\<lambda>x. (x, overlap tk ?wanted x)) (candidates tk ?wanted (fl_Min f) list))" by (rule arg_cong)
  then have sims: "map sc_Similarity scores = map (overlap tk ?wanted) (candidates tk ?wanted (fl_Min f) list)"
    by (simp add: comp_def)
  have "\<not> Filter_IsEmpty f" using assms by (simp add: Filter_IsEmpty_def)
  then have "sm_Scores (Closeness tk sentence list f) =
      pick_scores (take (nat (fl_TopN f)) (sort (map sc_Similarity scores))) scores"
    using assms by (simp add: Closeness_def Let_def scores_def [symmetric])
  moreover have "set (take (nat (fl_TopN f)) (sort (map sc_Similarity scores))) \<subseteq> sc_Similarity ` set scores"
    using set_take_subset by fastforce
  ultimately show ?thesis by (simp add: pick_scores_sims sims)
qed

lemma closest_score_spec:
  "closest_score m c ss = c \<and> (\<forall>s \<in> set ss. sc_Similarity s \<le> m) \<or>
   (\<exists>s \<in> set ss. closest_score m c ss = sc_Input s \<and> m < sc_Similarity s \<and>
      (\<forall>t \<in> set ss. sc_Similarity t \<le> sc_Similarity s))"
proof (induction ss arbitrary: m c)
  case (Cons s ss)
  show ?case
  proof (cases "sc_Similarity s > m")
    case True
    with Cons.IH [of "sc_Similarity s" "sc_Input s"] show ?thesis by fastforce
  next
    case False
    with Cons.IH [of m c] show ?thesis by fastforce
  qed
qed simp

end
