(* ===== verification/Go_Strings.thy ===== *)
theory Go_Strings
  imports Host
begin

text \<open>The functions of the packages \<open>strings\<close> and \<open>path/filepath\<close> that the tools use.\<close>

definition TrimPrefix :: "string \<Rightarrow> string \<Rightarrow> string" where
  "TrimPrefix s p = (if HasPrefix s p then drop (length p) s else s)"

definition HasSuffix :: "string \<Rightarrow> string \<Rightarrow> bool" where
  "HasSuffix s p \<longleftrightarrow> HasPrefix (rev s) (rev p)"

definition TrimSuffix :: "string \<Rightarrow> string \<Rightarrow> string" where
  "TrimSuffix s p = (if HasSuffix s p then take (length s - length p) s else s)"

text \<open>\<open>strings.Contains\<close>\<close>

fun StringContains :: "string \<Rightarrow> string \<Rightarrow> bool" where
  "StringContains [] sub = (sub = [])"
| "StringContains (c # cs) sub = (if HasPrefix (c # cs) sub then True else StringContains cs sub)"

text \<open>\<open>strings.Replace(s, old, new, n)\<close> for a non-empty \<open>old\<close>, and \<open>strings.ReplaceAll\<close>.\<close>

function Replace :: "string \<Rightarrow> string \<Rightarrow> string \<Rightarrow> nat \<Rightarrow> string" where
  "Replace s old new n =
     (if old = [] \<or> n = 0 then s
      else case s of
             [] \<Rightarrow> []
           | c # cs \<Rightarrow>
               if HasPrefix s old then new @ Replace (drop (length old) s) old new (n - 1)
               else c # Replace cs old new n)"
  by pat_completeness auto

termination
  by (relation "measure (\<lambda>(s, _, _, _). length s)") auto

declare Replace.simps [simp del]

definition ReplaceAll :: "string \<Rightarrow> string \<Rightarrow> string \<Rightarrow> string" where
  "ReplaceAll s old new = Replace s old new (length s)"

text \<open>\<open>strings.TrimSpace\<close>, on the ASCII white space.\<close>

definition is_space :: "char \<Rightarrow> bool" where
  "is_space c = (let n = (of_char c :: nat) in (9 \<le> n \<and> n \<le> 13) \<or> n = 32)"

definition TrimSpace :: "string \<Rightarrow> string" where
  "TrimSpace s = rev (dropWhile is_space (rev (dropWhile is_space s)))"

text \<open>
  \<open>filepath.Clean\<close> and \<open>filepath.Join\<close>: empty elements and \<open>.\<close> are dropped, \<open>..\<close> removes the
  element before it, or stays when there is none and the path is not rooted. The first argument
  of \<open>clean_elems\<close> holds the elements kept so far, the last one first.
\<close>

fun clean_elems :: "bool \<Rightarrow> string list \<Rightarrow> string list \<Rightarrow> string list" where
  "clean_elems rooted kept [] = rev kept"
| "clean_elems rooted kept (e # es) =
     (if e = [] \<or> e = ''.'' then clean_elems rooted kept es
      else if e = ''..'' then
        (case kept of
           k # ks \<Rightarrow> if k = ''..'' then clean_elems rooted (e # kept) es else clean_elems rooted ks es
         | [] \<Rightarrow> if rooted then clean_elems rooted [] es else clean_elems rooted [e] es)
      else clean_elems rooted (e # kept) es)"

definition IsAbs :: "string \<Rightarrow> bool" where
  "IsAbs path \<longleftrightarrow> HasPrefix path ''/''"

definition Clean :: "string \<Rightarrow> string" where
  "Clean path =
     (let rooted = IsAbs path;
          out = (if rooted then ''/'' else []) @ Join (clean_elems rooted [] (Split path CHR ''/'')) ''/''
      in if out = [] then ''.'' else out)"

definition JoinPath :: "string \<Rightarrow> string \<Rightarrow> string" where
  "JoinPath dir name =
     (if dir = [] \<and> name = [] then []
      else if dir = [] then Clean name
      else if name = [] then Clean dir
      else Clean (dir @ ''/'' @ name))"

text \<open>\<open>filepath.Ext\<close>: from the last dot of the last element on.\<close>

definition Ext :: "string \<Rightarrow> string" where
  "Ext path =
     (let elem = last (Split path CHR ''/'') in
      if CHR ''.'' \<in> set elem then CHR ''.'' # rev (takeWhile (\<lambda>c. c \<noteq> CHR ''.'') (rev elem)) else [])"

text \<open>
  \<open>bufio.Scanner\<close> on lines: the terminator and a carriage return before it are dropped, and a line
  that does not fit the buffer of 64 KiB ends the scan.
\<close>

definition drop_cr :: "string \<Rightarrow> string" where
  "drop_cr l = (if l \<noteq> [] \<and> last l = char_of (13 :: nat) then butlast l else l)"

definition scan_lines :: "string \<Rightarrow> string list" where
  "scan_lines text =
     (let ls = Split text (char_of (10 :: nat));
          ls = (if last ls = [] then butlast ls else ls)
      in map drop_cr (takeWhile (\<lambda>l. length l < 65536) ls))"

lemma HasPrefix_append [simp]: "HasPrefix (p @ s) p"
  by (simp add: HasPrefix_def)

lemma HasPrefix_iff: "HasPrefix s p \<longleftrightarrow> (\<exists>t. s = p @ t)"
  by (metis HasPrefix_append HasPrefix_def append_take_drop_id)

lemma TrimPrefix_append [simp]: "TrimPrefix (p @ s) p = s"
  by (simp add: TrimPrefix_def)

lemma HasSuffix_iff: "HasSuffix s p \<longleftrightarrow> (\<exists>t. s = t @ p)"
  by (metis HasPrefix_iff HasSuffix_def rev_append rev_rev_ident)

lemma StringContains_iff: "StringContains s sub \<longleftrightarrow> (\<exists>a b. s = a @ sub @ b)"
proof (induction s)
  case (Cons c cs)
  show ?case
  proof (cases "HasPrefix (c # cs) sub")
    case True
    then obtain t where "c # cs = [] @ sub @ t" by (auto simp: HasPrefix_iff)
    with True show ?thesis by (metis StringContains.simps(2))
  next
    case False
    then show ?thesis using Cons by (auto simp: HasPrefix_iff Cons_eq_append_conv)
  qed
qed simp

lemma Replace_char:
  "length s \<le> n \<Longrightarrow> Replace s [x] [y] n = map (\<lambda>c. if c = x then y else c) s"
proof (induction s arbitrary: n)
  case Nil
  then show ?case by (subst Replace.simps) simp
next
  case (Cons c cs)
  then show ?case by (subst Replace.simps) (auto simp: HasPrefix_def)
qed

text \<open>Replacing one character by another.\<close>

lemma ReplaceAll_char: "ReplaceAll s [x] [y] = map (\<lambda>c. if c = x then y else c) s"
  by (simp add: ReplaceAll_def Replace_char)

end
