(* ===== verification/Preload.thy ===== *)
theory Preload
  imports Go_Strings Providers
begin

text \<open>
  The preloader (\<open>pkg/utils/preload\<close>, \<open>pkg/utils/preload/eks\<close>) and its command
  (\<open>pkg/cmd/preload\<close>): it reads an EKS cluster and its network from the account and stores
  them as the variables of a Context. The AWS clients are functions on the world, in the
  record \<open>Aws\<close>; a pointer of the AWS types is an option.
\<close>

section \<open>Data\<close>

datatype preload_value =
    PString string
  | PStrings "string list"
  | PBool bool
  | PTags "(string \<times> string list) list"

record Entry =
  en_Description :: string
  en_Value :: preload_value

text \<open>\<open>Data\<close> is a map from names to entries.\<close>

type_synonym Data = "string \<rightharpoonup> Entry"

definition data_Add :: "string \<Rightarrow> string \<Rightarrow> preload_value \<Rightarrow> Data \<Rightarrow> Data" where
  "data_Add name description v d = d(name \<mapsto> \<lparr>en_Description = description, en_Value = v\<rparr>)"

text \<open>\<open>data.Get(name).Value.([]string)\<close> and \<open>.(string)\<close>: \<open>None\<close> is the panic of a missing entry or another type.\<close>

definition get_strings :: "Data \<Rightarrow> string \<Rightarrow> string list option" where
  "get_strings d name =
     (case d name of Some e \<Rightarrow> (case en_Value e of PStrings l \<Rightarrow> Some l | _ \<Rightarrow> None) | None \<Rightarrow> None)"

definition get_string :: "Data \<Rightarrow> string \<Rightarrow> string option" where
  "get_string d name =
     (case d name of Some e \<Rightarrow> (case en_Value e of PString s \<Rightarrow> Some s | _ \<Rightarrow> None) | None \<Rightarrow> None)"

definition ErrNotReady :: gerror where
  "ErrNotReady = ErrMsg ''cloud resources not ready''"

section \<open>The AWS types\<close>

text \<open>\<open>aws.StringValue\<close>, \<open>aws.BoolValue\<close> and \<open>aws.StringValueSlice\<close>\<close>

definition StringValue :: "string option \<Rightarrow> string" where
  "StringValue v = (case v of None \<Rightarrow> [] | Some s \<Rightarrow> s)"

definition BoolValue :: "bool option \<Rightarrow> bool" where
  "BoolValue v = (case v of None \<Rightarrow> False | Some b \<Rightarrow> b)"

definition StringValueSlice :: "string option list \<Rightarrow> string list" where
  "StringValueSlice vs = map StringValue vs"

record Tag =
  tg_Key :: "string option"
  tg_Value :: "string option"

record VpcConfig =
  vc_ClusterSecurityGroupId :: "string option"
  vc_EndpointPrivateAccess :: "bool option"
  vc_EndpointPublicAccess :: "bool option"
  vc_PublicAccessCidrs :: "string option list"
  vc_SecurityGroupIds :: "string option list"
  vc_SubnetIds :: "string option list"
  vc_VpcId :: "string option"

record NetworkConfig =
  nc_ServiceIpv4Cidr :: "string option"
  nc_ServiceIpv6Cidr :: "string option"

text \<open>
  The certificate authority and the OIDC issuer are pointers of pointers: the outer option is
  the structure, the inner one the field.
\<close>

record EksCluster =
  ec_Arn :: "string option"
  ec_CertificateAuthority :: "string option option"
  ec_Endpoint :: "string option"
  ec_Id :: "string option"
  ec_Name :: "string option"
  ec_Oidc :: "string option option"
  ec_KubernetesNetworkConfig :: "NetworkConfig option"
  ec_PlatformVersion :: "string option"
  ec_ResourcesVpcConfig :: "VpcConfig option"
  ec_RoleArn :: "string option"
  ec_Status :: "string option"
  ec_Tags :: "(string \<times> string option) list"
  ec_Version :: "string option"

record Subnet =
  sn_SubnetId :: "string option"
  sn_Tags :: "Tag list"

record Association =
  as_RouteTableId :: "string option"
  as_SubnetId :: "string option"

record RouteTable =
  rt_RouteTableId :: "string option"
  rt_Associations :: "Association list"
  rt_Tags :: "Tag list"

record SecurityGroup =
  sg_GroupId :: "string option"
  sg_Tags :: "Tag list"

datatype aws_error = AwsError string string | OtherError gerror

text \<open>
  The calls of the loader: the cluster of a name, the account, and the subnets, route tables and
  security groups of a VPC; \<open>aw_Range\<close> is the order of an iteration over the keys of a map.
\<close>

record 'w Aws =
  aw_Region :: string
  aw_DescribeCluster :: "string \<Rightarrow> 'w \<Rightarrow> (aws_error + EksCluster) \<times> 'w"
  aw_GetCallerIdentity :: "'w \<Rightarrow> (gerror + string option) \<times> 'w"
  aw_DescribeSubnets :: "string \<Rightarrow> 'w \<Rightarrow> (gerror + Subnet list) \<times> 'w"
  aw_DescribeRouteTables :: "string \<Rightarrow> 'w \<Rightarrow> (gerror + RouteTable list) \<times> 'w"
  aw_DescribeSecurityGroups :: "string \<Rightarrow> 'w \<Rightarrow> (gerror + SecurityGroup list) \<times> 'w"
  aw_Range :: "string list \<Rightarrow> 'w \<Rightarrow> string list \<times> 'w"
  aw_Base64 :: "bytes \<Rightarrow> string"
  aw_Libs :: Libs

section \<open>Helpers\<close>

definition SanitizeName :: "string \<Rightarrow> string" where
  "SanitizeName name = ReplaceAll (ToLower name) ''-'' ''_''"

definition IsAWSError :: "aws_error \<Rightarrow> string \<Rightarrow> bool" where
  "IsAWSError err code = (case err of AwsError c _ \<Rightarrow> c = code | OtherError _ \<Rightarrow> False)"

definition IsResourceNotFoundException :: "aws_error \<Rightarrow> bool" where
  "IsResourceNotFoundException err = IsAWSError err ''ResourceNotFoundException''"

definition aws_Error :: "aws_error \<Rightarrow> string" where
  "aws_Error err = (case err of AwsError c m \<Rightarrow> c @ '': '' @ m | OtherError e \<Rightarrow> Error e)"

definition ToMapTags :: "(string \<times> string option) list \<Rightarrow> (string \<times> string list) list" where
  "ToMapTags tags = map (\<lambda>(key, v). (key, [StringValue v])) tags"

text \<open>\<open>regexp.MustCompile("^" + pattern + "$")\<close> panics on an invalid pattern.\<close>

definition whole :: "Libs \<Rightarrow> string \<Rightarrow> (string \<Rightarrow> bool) option" where
  "whole lib pattern =
     (case lib_Regexp lib (''^'' @ pattern @ ''$'') of Inl _ \<Rightarrow> None | Inr m \<Rightarrow> Some m)"

definition GetTag :: "Libs \<Rightarrow> Tag list \<Rightarrow> string \<Rightarrow> Tag option go" where
  "GetTag lib tags key =
     (case whole lib key of
        None \<Rightarrow> Panic
      | Some km \<Rightarrow> Ok (find (\<lambda>tag. km (StringValue (tg_Key tag))) tags))"

definition GetTagValue :: "Libs \<Rightarrow> Tag list \<Rightarrow> string \<Rightarrow> string option go" where
  "GetTagValue lib tags key =
     (case GetTag lib tags key of
        Ok None \<Rightarrow> Ok None
      | Ok (Some tag) \<Rightarrow> Ok (Some (StringValue (tg_Value tag)))
      | Err e \<Rightarrow> Err e
      | Panic \<Rightarrow> Panic)"

definition HasTag :: "Libs \<Rightarrow> Tag list \<Rightarrow> string \<Rightarrow> string \<Rightarrow> bool go" where
  "HasTag lib tags key v =
     (case whole lib v of
        None \<Rightarrow> Panic
      | Some vm \<Rightarrow>
          (case GetTag lib tags key of
             Ok None \<Rightarrow> Ok False
           | Ok (Some tag) \<Rightarrow> Ok (vm (StringValue (tg_Value tag)))
           | Err e \<Rightarrow> Err e
           | Panic \<Rightarrow> Panic))"

text \<open>The first of several tests that holds, as in a \<open>case\<close> with a list of expressions.\<close>

fun any_tag :: "Libs \<Rightarrow> Tag list \<Rightarrow> (string \<times> string) list \<Rightarrow> bool go" where
  "any_tag lib tags [] = Ok False"
| "any_tag lib tags ((key, v) # rest) =
     (case HasTag lib tags key v of
        Ok True \<Rightarrow> Ok True
      | Ok False \<Rightarrow> any_tag lib tags rest
      | Err e \<Rightarrow> Err e
      | Panic \<Rightarrow> Panic)"

definition private_tags :: "(string \<times> string) list" where
  "private_tags = [(''kubernetes.io/role/internal-elb'', ''1''), (''[pP]rivate'', ''[Tt]rue''), (''[pP]rivate'', ''1'')]"

definition public_tags :: "(string \<times> string) list" where
  "public_tags = [(''kubernetes.io/role/elb'', ''1''), (''[pP]ublic'', ''[Tt]rue''), (''[pP]ublic'', ''1'')]"

section \<open>The parts of the data\<close>

definition findCluster :: "'w Aws \<Rightarrow> EksCluster \<Rightarrow> Data \<Rightarrow> Data go" where
  "findCluster aws cluster d0 =
     (case (ec_ResourcesVpcConfig cluster, ec_KubernetesNetworkConfig cluster) of
        (Some vpc, Some net) \<Rightarrow>
          (let d = data_Add ''eks'' ''AWS ARN for the Kubernetes cluster'' (PString (StringValue (ec_Arn cluster))) d0;
               d = data_Add ''eks_id'' ''The ID of the EKS cluster'' (PString (StringValue (ec_Id cluster))) d;
               d = data_Add ''eks_cluster_security_group_id'' ''The security group ID attached to the EKS cluster''
                     (PString (StringValue (vc_ClusterSecurityGroupId vpc))) d;
               d = data_Add ''eks_cluster_security_group_ids''
                     ''The cluster security group id attached to the EKS cluster as a list''
                     (PStrings [StringValue (vc_ClusterSecurityGroupId vpc)]) d;
               d = data_Add ''eks_endpoint'' ''The endpoint for the EKS cluster'' (PString (StringValue (ec_Endpoint cluster))) d;
               d = data_Add ''eks_name'' ''The name of the EKS cluster'' (PString (StringValue (ec_Name cluster))) d;
               d = data_Add ''eks_platform_version'' ''The platform version of the EKS cluster''
                     (PString (StringValue (ec_PlatformVersion cluster))) d;
               d = data_Add ''eks_private_access'' ''Indicates whether or not the EKS cluster has private access enabled''
                     (PBool (BoolValue (vc_EndpointPrivateAccess vpc))) d;
               d = data_Add ''eks_public_access'' ''Indicates whether or not the EKS cluster has public access enabled''
                     (PBool (BoolValue (vc_EndpointPublicAccess vpc))) d;
               d = data_Add ''eks_public_access_cidrs''
                     ''The CIDR blocks that are allowed access to the EKS cluster when public access is enabled''
                     (PStrings (StringValueSlice (vc_PublicAccessCidrs vpc))) d;
               d = data_Add ''eks_role_arn'' ''The ARN of the IAM role that provides permissions for the EKS cluster''
                     (PString (StringValue (ec_RoleArn cluster))) d;
               d = data_Add ''eks_security_group_ids'' ''The additional security group IDs attached to the EKS cluster''
                     (PStrings (StringValueSlice (vc_SecurityGroupIds vpc))) d;
               d = data_Add ''eks_service_cidr_ipv4''
                     ''The CIDR block used by the EKS cluster for Kubernetes service IPv4 addresses''
                     (PString (StringValue (nc_ServiceIpv4Cidr net))) d;
               d = data_Add ''eks_service_cidr_ipv6''
                     ''The CIDR block used by the EKS cluster for Kubernetes service IPv6 addresses''
                     (PString (StringValue (nc_ServiceIpv6Cidr net))) d;
               d = data_Add ''eks_subnet_ids''
                     ''The subnets associated to the EKS cluster definition, where nodegroups live''
                     (PStrings (StringValueSlice (vc_SubnetIds vpc))) d;
               d = data_Add ''eks_tags'' ''The resource tags associated to the EKS cluster'' (PTags (ToMapTags (ec_Tags cluster))) d;
               d = data_Add ''eks_version'' ''The current Kubernetes version of the EKS cluster''
                     (PString (StringValue (ec_Version cluster))) d;
               d = data_Add ''eks_vpc_id'' ''The ID of the VPC where the EKS cluster is deployed''
                     (PString (StringValue (vc_VpcId vpc))) d;
               d = data_Add ''vpc_id'' ''The ID of the VPC where the EKS cluster is deployed''
                     (PString (StringValue (vc_VpcId vpc))) d;
               d = (case ec_CertificateAuthority cluster of
                      None \<Rightarrow> d
                    | Some ca \<Rightarrow> data_Add ''eks_certificate_authority'' ''The certificate authority data for the EKS cluster''
                                  (PString (aw_Base64 aws (StringValue ca))) d)
           in (case ec_Oidc cluster of
                 None \<Rightarrow> Ok d
               | Some issuer \<Rightarrow>
                   (let d = data_Add ''eks_oidc_issuer'' ''The OIDC issuer URL of the EKS cluster'' (PString (StringValue issuer)) d in
                    case get_string d ''account_id'' of
                      None \<Rightarrow> Panic
                    | Some account \<Rightarrow>
                        Ok (data_Add ''eks_oidc_issuer_arn'' ''The ARN of the OIDC issuer URL of the EKS cluster''
                          (PString (Sprintf ''arn:aws:iam::%s:oidc-provider/%s''
                             [FStr account, FStr (TrimPrefix (StringValue issuer) ''https://'')])) d))))
      | _ \<Rightarrow> Panic)"

definition findAccount :: "'w Aws \<Rightarrow> Data \<Rightarrow> ('w, 'o, 't, Data go) prog" where
  "findAccount aws d =
     do { r \<leftarrow> request (aw_GetCallerIdentity aws);
          case r of
            Inl err \<Rightarrow> State_Monad.return (Err err)
          | Inr account \<Rightarrow>
              State_Monad.return (Ok
                (data_Add ''account_ids'' ''The AWS account the cluster resides in a list'' (PStrings [StringValue account])
                  (data_Add ''account_id'' ''The AWS account the cluster resides in'' (PString (StringValue account)) d))) }"

text \<open>The entries of one security group, named by its \<open>Name\<close> tag.\<close>

fun add_security_groups :: "Libs \<Rightarrow> Data \<Rightarrow> SecurityGroup list \<Rightarrow> Data go" where
  "add_security_groups lib d [] = Ok d"
| "add_security_groups lib d (sg # sgs) =
     (case GetTagValue lib (sg_Tags sg) ''Name'' of
        Ok None \<Rightarrow> add_security_groups lib d sgs
      | Ok (Some name) \<Rightarrow>
          add_security_groups lib
            (data_Add (Sprintf ''security_group_%s_ids'' [FStr (SanitizeName name)])
               (Sprintf ''The security group ID associated to the security group tagged with Name: %s as a list'' [FStr name])
               (PStrings [StringValue (sg_GroupId sg)])
               (data_Add (Sprintf ''security_group_%s_id'' [FStr (SanitizeName name)])
                  (Sprintf ''The security group ID associated to the security group tagged with Name: %s'' [FStr name])
                  (PString (StringValue (sg_GroupId sg))) d)) sgs
      | Err e \<Rightarrow> Err e
      | Panic \<Rightarrow> Panic)"

definition findSecurityGroups :: "'w Aws \<Rightarrow> Data \<Rightarrow> ('w, 'o, 't, Data go) prog" where
  "findSecurityGroups aws d =
     (case get_string d ''vpc_id'' of
        None \<Rightarrow> State_Monad.return Panic
      | Some vpc \<Rightarrow>
          do { r \<leftarrow> request (aw_DescribeSecurityGroups aws vpc);
               State_Monad.return
                 (case r of Inl err \<Rightarrow> Err err | Inr sgs \<Rightarrow> add_security_groups (aw_Libs aws) d sgs) })"

text \<open>\<open>m[key] = append(m[key], v)\<close> on an association list.\<close>

fun append_at :: "string \<Rightarrow> 'a \<Rightarrow> (string \<times> 'a list) list \<Rightarrow> (string \<times> 'a list) list" where
  "append_at k v [] = [(k, [v])]"
| "append_at k v ((a, l) # kvs) = (if a = k then (a, l @ [v]) # kvs else (a, l) # append_at k v kvs)"

fun group_subnets :: "Libs \<Rightarrow> (string \<times> string list) list \<Rightarrow> Subnet list \<Rightarrow> (string \<times> string list) list go" where
  "group_subnets lib ds [] = Ok ds"
| "group_subnets lib ds (subnet # subnets) =
     (case GetTagValue lib (sn_Tags subnet) ''Network'' of
        Ok None \<Rightarrow> group_subnets lib ds subnets
      | Ok (Some v) \<Rightarrow> group_subnets lib (append_at v (StringValue (sn_SubnetId subnet)) ds) subnets
      | Err e \<Rightarrow> Err e
      | Panic \<Rightarrow> Panic)"

definition network_routes :: "RouteTable list \<Rightarrow> string list \<Rightarrow> string list" where
  "network_routes routes subnets =
     concat (map (\<lambda>route. List.map_filter
       (\<lambda>a. if Contains (StringValue (as_SubnetId a)) subnets then Some (StringValue (as_RouteTableId a)) else None)
       (rt_Associations route)) routes)"

definition at_key :: "(string \<times> string list) list \<Rightarrow> string \<Rightarrow> string list" where
  "at_key kvs k = (case map_of kvs k of None \<Rightarrow> [] | Some l \<Rightarrow> l)"

fun add_networks :: "string \<Rightarrow> string \<Rightarrow> (string \<times> string list) list \<Rightarrow> Data \<Rightarrow> string list \<Rightarrow> Data" where
  "add_networks kind description kvs d [] = d"
| "add_networks kind description kvs d (name # names) =
     add_networks kind description kvs
       (data_Add (Sprintf kind [FStr (SanitizeName name)]) (Sprintf description [FStr name])
          (PStrings (Unique (Sorted (at_key kvs name)))) d) names"

definition findSubnets ::
  "'w Aws \<Rightarrow> Subnet list \<Rightarrow> RouteTable list \<Rightarrow> Data \<Rightarrow> ('w, 'o, 't, Data go) prog" where
  "findSubnets aws subnets routes d =
     (case group_subnets (aw_Libs aws) [] subnets of
        Err e \<Rightarrow> State_Monad.return (Err e)
      | Panic \<Rightarrow> State_Monad.return Panic
      | Ok ds \<Rightarrow>
          do { names \<leftarrow> request (aw_Range aws (map fst ds));
               let d = add_networks ''network_%s_subnet_ids''
                         ''A list of all subnets ids associated with the subnet tagged with %s'' ds d names;
               let dr = filter (\<lambda>kv. snd kv \<noteq> []) (map (\<lambda>(name, ids). (name, network_routes routes ids)) ds);
               names \<leftarrow> request (aw_Range aws (map fst dr));
               State_Monad.return (Ok
                 (add_networks ''network_%s_route_table_ids''
                    ''A list of all route table ids associated to the subnet tagged with %s'' dr d names)) })"

fun findRouteTables :: "Libs \<Rightarrow> Data \<Rightarrow> RouteTable list \<Rightarrow> Data go" where
  "findRouteTables lib d [] = Ok d"
| "findRouteTables lib d (route # routes) =
     (case GetTagValue lib (rt_Tags route) ''Name'' of
        Ok None \<Rightarrow> findRouteTables lib d routes
      | Ok (Some v) \<Rightarrow>
          findRouteTables lib
            (data_Add (Sprintf ''network_%s_route_table_id'' [FStr (SanitizeName v)])
               (Sprintf ''The route table id of the route table named %s'' [FStr v])
               (PString (StringValue (rt_RouteTableId route))) d) routes
      | Err e \<Rightarrow> Err e
      | Panic \<Rightarrow> Panic)"

text \<open>The loop over the subnets: the private, the public and all ids, in the order they are appended.\<close>

fun classify_subnets ::
  "Libs \<Rightarrow> string list \<times> string list \<times> string list \<Rightarrow> Subnet list \<Rightarrow>
   (string list \<times> string list \<times> string list) go" where
  "classify_subnets lib acc [] = Ok acc"
| "classify_subnets lib (priv, pub, every) (subnet # subnets) =
     (let i = StringValue (sn_SubnetId subnet) in
      case any_tag lib (sn_Tags subnet) private_tags of
        Ok True \<Rightarrow> classify_subnets lib (priv @ [i], pub, every @ [i]) subnets
      | Ok False \<Rightarrow>
          (case any_tag lib (sn_Tags subnet) public_tags of
             Ok True \<Rightarrow> classify_subnets lib (priv, pub @ [i], every @ [i]) subnets
           | Ok False \<Rightarrow> classify_subnets lib (priv, pub, every @ [i]) subnets
           | Err e \<Rightarrow> Err e
           | Panic \<Rightarrow> Panic)
      | Err e \<Rightarrow> Err e
      | Panic \<Rightarrow> Panic)"

text \<open>The ids of the route tables with an association to one of the subnets, once for each.\<close>

definition associated :: "RouteTable list \<Rightarrow> string list \<Rightarrow> string list" where
  "associated routes subnets =
     concat (map (\<lambda>route. map (\<lambda>_. StringValue (rt_RouteTableId route))
       (filter (\<lambda>a. Contains (StringValue (as_SubnetId a)) subnets) (rt_Associations route))) routes)"

text \<open>The part of \<open>Load\<close> between the discovery of the networks and of the security groups.\<close>

definition add_lists :: "Libs \<Rightarrow> Subnet list \<Rightarrow> RouteTable list \<Rightarrow> Data \<Rightarrow> Data go" where
  "add_lists lib subnets routes d =
     (case classify_subnets lib ([], [], []) subnets of
        Err e \<Rightarrow> Err e
      | Panic \<Rightarrow> Panic
      | Ok (priv, pub, every) \<Rightarrow>
          (let tidy = (\<lambda>l. Unique (Sorted l));
               d = data_Add ''private_subnet_ids''
                     ''A list of all subnets associated to the EKS cluster network which are tagged private''
                     (PStrings (tidy priv)) d;
               d = data_Add ''public_subnet_ids''
                     ''A list of all subnets associated to the EKS cluster network which are tagged public''
                     (PStrings (tidy pub)) d;
               d = data_Add ''subnet_ids''
                     ''A list of all subnets associated to the network the EKS cluster is deployed in''
                     (PStrings (tidy every)) d
           in if routes \<noteq> [] \<and> list_ex (\<lambda>r. rt_Associations r \<noteq> []) routes \<and> get_strings d ''eks_subnet_ids'' = None
              then Panic
              else
                let eks = (case get_strings d ''eks_subnet_ids'' of None \<Rightarrow> [] | Some l \<Rightarrow> l);
                    d = data_Add ''eks_route_tables_ids''
                          ''A list of all route tables ids associated to the subnets in the EKS definition''
                          (PStrings (tidy (associated routes eks))) d;
                    d = data_Add ''route_tables_ids''
                          ''A list of all route tables ids associated to the network the EKS cluster is part of''
                          (PStrings (tidy (map (\<lambda>r. StringValue (rt_RouteTableId r)) routes))) d;
                    d = data_Add ''private_route_tables_ids''
                          ''A list of all route tables ids which are associated to subnets labeled private in the network the EKS cluster is part of''
                          (PStrings (tidy (associated routes (tidy priv)))) d
                in Ok (data_Add ''public_route_tables_ids''
                     ''A list of all route tables ids which are associated to subnets labeled public in the network the EKS cluster is part of''
                     (PStrings (tidy (associated routes (tidy pub)))) d)))"

section \<open>The loader\<close>

text \<open>The check of the status of the cluster.\<close>

definition check_status :: "string \<Rightarrow> gerror option" where
  "check_status status =
     (if status \<in> {''CREATING'', ''DELETING'', ''FAILED'', ''PENDING''} then Some ErrNotReady
      else if status \<in> {''UPDATING'', ''ACTIVE''} then None
      else Some (ErrMsg (Sprintf ''unknown cluster status: %s'' [FStr status])))"

definition load_network ::
  "'w Aws \<Rightarrow> string \<Rightarrow> string \<Rightarrow> Data \<Rightarrow> ('w, 'o, 't, Data go) prog" where
  "load_network aws clusterName vpc d =
     do { sn \<leftarrow> request (aw_DescribeSubnets aws vpc);
          case sn of
            Inl err \<Rightarrow> State_Monad.return (Err (ErrMsg
              (Sprintf ''unable to retrieve subnets for cluster: %s, error: %w'' [FStr clusterName, FStr (Error err)])))
          | Inr subnets \<Rightarrow>
              do { rt \<leftarrow> request (aw_DescribeRouteTables aws vpc);
                   case rt of
                     Inl err \<Rightarrow> State_Monad.return (Err (ErrMsg
                       (Sprintf ''unable to retrieve route tables for cluster: %s, error: %w''
                          [FStr clusterName, FStr (Error err)])))
                   | Inr routes \<Rightarrow>
                       do { d1 \<leftarrow> findSubnets aws subnets routes d;
                            State_Monad.return
                              (case d1 of
                                 Ok d \<Rightarrow>
                                   (case findRouteTables (aw_Libs aws) d routes of
                                      Ok d \<Rightarrow> add_lists (aw_Libs aws) subnets routes d
                                    | Err e \<Rightarrow> Err e
                                    | Panic \<Rightarrow> Panic)
                               | Err e \<Rightarrow> Err e
                               | Panic \<Rightarrow> Panic) } } }"

definition Load :: "'w Aws \<Rightarrow> string \<Rightarrow> ('w, 'o, 't, Data go) prog" where
  "Load aws clusterName =
     do { r \<leftarrow> request (aw_DescribeCluster aws clusterName);
          case r of
            Inl err \<Rightarrow>
              State_Monad.return (Err (ErrMsg
                (if IsResourceNotFoundException err
                 then Sprintf ''failed to find eks cluster: %s'' [FStr clusterName]
                 else Sprintf ''failed to retrieve the eks cluster details, error: %w'' [FStr (aws_Error err)])))
          | Inr cluster \<Rightarrow>
              (case check_status (StringValue (ec_Status cluster)) of
                 Some err \<Rightarrow> State_Monad.return (Err err)
               | None \<Rightarrow>
                   do { account \<leftarrow> findAccount aws
                          (data_Add ''region'' ''AWS region the cluster is running in'' (PString (aw_Region aws)) Map.empty);
                        case account of
                          Err e \<Rightarrow> State_Monad.return (Err e)
                        | Panic \<Rightarrow> State_Monad.return Panic
                        | Ok d \<Rightarrow>
                            (case findCluster aws cluster d of
                               Err e \<Rightarrow> State_Monad.return (Err e)
                             | Panic \<Rightarrow> State_Monad.return Panic
                             | Ok d \<Rightarrow>
                                 (case ec_ResourcesVpcConfig cluster of
                                    None \<Rightarrow> State_Monad.return Panic
                                  | Some vpc \<Rightarrow>
                                      do { n \<leftarrow> load_network aws clusterName (StringValue (vc_VpcId vpc)) d;
                                           case n of
                                             Err e \<Rightarrow> State_Monad.return (Err e)
                                           | Panic \<Rightarrow> State_Monad.return Panic
                                           | Ok d \<Rightarrow> findSecurityGroups aws d })) }) }"

section \<open>The command\<close>

record PreloadCommand =
  pl_Cloud :: string
  pl_Cluster :: string
  pl_Context :: string
  pl_EnableOverride :: bool
  pl_Provider :: string
  pl_Region :: string

text \<open>
  The JSON encoding of entries and the client of the cluster; \<open>pm_Keys\<close> lists the keys of the
  data in the order of the runtime.
\<close>

record 'w PreloadEnv =
  pm_Aws :: "'w Aws"
  pm_cc :: "'w client"
  pm_Session :: "'w \<Rightarrow> gerror option \<times> 'w"
  pm_Client :: "'w \<Rightarrow> gerror option \<times> 'w"
  pm_Encode :: "Entry \<Rightarrow> gerror + bytes"
  pm_Keys :: "Data \<Rightarrow> string list"

text \<open>The whole data encoded and decoded again gives each entry as its own encoding.\<close>

fun encode_entries :: "(Entry \<Rightarrow> gerror + bytes) \<Rightarrow> Data \<Rightarrow> string list \<Rightarrow> gerror + (string \<times> RawExtension) list" where
  "encode_entries enc d [] = Inr []"
| "encode_entries enc d (k # ks) =
     (case d k of
        None \<Rightarrow> encode_entries enc d ks
      | Some e \<Rightarrow>
          (case enc e of
             Inl err \<Rightarrow> Inl err
           | Inr raw \<Rightarrow>
               (case encode_entries enc d ks of
                  Inl err \<Rightarrow> Inl err
                | Inr rest \<Rightarrow> Inr ((k, \<lparr>re_Raw = raw\<rparr>) # rest))))"

definition new_context :: "PreloadCommand \<Rightarrow> (string \<times> RawExtension) list \<Rightarrow> Context" where
  "new_context c vars =
     \<lparr>ctx_Type = \<lparr>tm_Kind = [], tm_APIVersion = []\<rparr>,
      ctx_Meta = (named_meta [] (pl_Context c))\<lparr>om_Labels := Some [PreloadProviderLabel \<mapsto> pl_Provider c]\<rparr>,
      ctx_Spec = \<lparr>ctx_Variables = Some (map_of vars)\<rparr>, ctx_Status = empty_common_status\<rparr>"

text \<open>Assigning to an entry of a nil map panics; a context without variables has a nil map.\<close>

definition makeContext :: "'w PreloadEnv \<Rightarrow> PreloadCommand \<Rightarrow> Data \<Rightarrow> ('w, 'o, 't, unit go) prog" where
  "makeContext pe c d =
     do { cl \<leftarrow> request (pm_Client pe);
          case cl of
            Some err \<Rightarrow> State_Monad.return (Err err)
          | None \<Rightarrow>
              (case encode_entries (pm_Encode pe) d (pm_Keys pe d) of
                 Inl err \<Rightarrow> State_Monad.return (Err err)
               | Inr vars \<Rightarrow>
                   do { r \<leftarrow> GetIfExists (pm_cc pe) KContext as_Context [] (pl_Context c);
                        case r of
                          Inl err \<Rightarrow> State_Monad.return (Err err)
                        | Inr None \<Rightarrow>
                            do { w \<leftarrow> perform (pm_cc pe) Create (OContext (new_context c vars));
                                 State_Monad.return (case error_of w of Some err \<Rightarrow> Err err | None \<Rightarrow> Ok ()) }
                        | Inr (Some current) \<Rightarrow>
                            (case ctx_Variables (ctx_Spec current) of
                               None \<Rightarrow>
                                 if vars \<noteq> [] then State_Monad.return Panic
                                 else do { w \<leftarrow> perform (pm_cc pe) (Patch (OContext current)) (OContext current);
                                           State_Monad.return (case error_of w of Some err \<Rightarrow> Err err | None \<Rightarrow> Ok ()) }
                             | Some m \<Rightarrow>
                                 do { w \<leftarrow> perform (pm_cc pe) (Patch (OContext current))
                                        (OContext (current\<lparr>ctx_Spec := \<lparr>ctx_Variables = Some (m ++ map_of vars)\<rparr>\<rparr>));
                                      State_Monad.return (case error_of w of Some err \<Rightarrow> Err err | None \<Rightarrow> Ok ()) }) }) }"

definition preload_Run :: "'w PreloadEnv \<Rightarrow> PreloadCommand \<Rightarrow> ('w, 'o, 't, unit go) prog" where
  "preload_Run pe c =
     (if pl_Cloud c = [] then State_Monad.return (Err (ErrMsg ''cloud is required''))
      else if pl_Cluster c = [] then State_Monad.return (Err (ErrMsg ''cluster is required''))
      else if pl_Provider c = [] then State_Monad.return (Err (ErrMsg ''provider is required''))
      else if pl_Region c = [] then State_Monad.return (Err (ErrMsg ''region is required''))
      else if pl_Cloud c \<noteq> ''aws''
      then State_Monad.return (Err (ErrMsg (Sprintf ''%s cloud is not supported'' [FStr (pl_Cloud c)])))
      else do { s \<leftarrow> request (pm_Session pe);
                case s of
                  Some err \<Rightarrow> State_Monad.return (Err (ErrMsg
                    (Sprintf ''failed to create aws session, error: %w'' [FStr (Error err)])))
                | None \<Rightarrow>
                    do { r \<leftarrow> Load (pm_Aws pe) (pl_Cluster c);
                         case r of
                           Err err \<Rightarrow> State_Monad.return (Err err)
                         | Panic \<Rightarrow> State_Monad.return Panic
                         | Ok d \<Rightarrow>
                             if pl_Context c = [] then State_Monad.return (Ok ())
                             else makeContext pe c d } })"

section \<open>Sorted lists without repetition\<close>

lemma unique_snoc_sorted:
  "sorted xs \<Longrightarrow> sorted l \<Longrightarrow> \<forall>x \<in> set l. \<forall>y \<in> set xs. x \<le> y \<Longrightarrow> sorted (unique l xs)"
proof (induction l xs rule: unique.induct)
  case (2 l item items)
  then show ?case by (auto simp: sorted_append)
qed simp

lemma tidy_eq: "Unique (Sorted xs) = sorted_list_of_set (set xs)"
proof -
  have "sorted (Unique (Sorted xs))" "distinct (Unique (Sorted xs))" "set (Unique (Sorted xs)) = set xs"
    by (simp_all add: Unique_def Sorted_def unique_snoc_sorted unique_distinct unique_set)
  then show ?thesis by (metis sorted_list_of_set.idem_if_sorted_distinct)
qed

section \<open>Classification\<close>

definition subnet_id :: "Subnet \<Rightarrow> string" where
  "subnet_id subnet = StringValue (sn_SubnetId subnet)"

definition is_private :: "Libs \<Rightarrow> Subnet \<Rightarrow> bool" where
  "is_private lib subnet \<longleftrightarrow> any_tag lib (sn_Tags subnet) private_tags = Ok True"

definition is_public :: "Libs \<Rightarrow> Subnet \<Rightarrow> bool" where
  "is_public lib subnet \<longleftrightarrow> \<not> is_private lib subnet \<and> any_tag lib (sn_Tags subnet) public_tags = Ok True"

lemma classify_subnets_Ok:
  "classify_subnets lib (priv, pub, every) subnets = Ok (a, b, c) \<Longrightarrow>
     a = priv @ map subnet_id (filter (is_private lib) subnets) \<and>
     b = pub @ map subnet_id (filter (is_public lib) subnets) \<and>
     c = every @ map subnet_id subnets"
proof (induction subnets arbitrary: priv pub every)
  case (Cons subnet subnets)
  consider "is_private lib subnet" "\<not> is_public lib subnet"
      "classify_subnets lib (priv @ [subnet_id subnet], pub, every @ [subnet_id subnet]) subnets = Ok (a, b, c)"
    | "\<not> is_private lib subnet" "is_public lib subnet"
      "classify_subnets lib (priv, pub @ [subnet_id subnet], every @ [subnet_id subnet]) subnets = Ok (a, b, c)"
    | "\<not> is_private lib subnet" "\<not> is_public lib subnet"
      "classify_subnets lib (priv, pub, every @ [subnet_id subnet]) subnets = Ok (a, b, c)"
    using Cons.prems
    by (cases "any_tag lib (sn_Tags subnet) private_tags"; cases "any_tag lib (sn_Tags subnet) public_tags")
      (simp_all add: Let_def is_private_def is_public_def subnet_id_def split: bool.splits)
  then show ?case by cases (auto dest: Cons.IH)
qed simp

lemma set_associated:
  "set (associated routes subnets) =
     {StringValue (rt_RouteTableId r) |r a. r \<in> set routes \<and> a \<in> set (rt_Associations r) \<and>
        StringValue (as_SubnetId a) \<in> set subnets}"
  by (auto simp: associated_def)

lemma get_strings_Add:
  "get_strings (data_Add name description v d) k =
     (if k = name then (case v of PStrings l \<Rightarrow> Some l | _ \<Rightarrow> None) else get_strings d k)"
  by (simp add: get_strings_def data_Add_def)

lemma add_security_groups_keeps:
  "add_security_groups lib d sgs = Ok d' \<Longrightarrow> \<not> HasPrefix k ''security_group_'' \<Longrightarrow> get_strings d' k = get_strings d k"
proof (induction lib d sgs rule: add_security_groups.induct)
  case (2 lib d sg sgs)
  have "k \<noteq> Sprintf ''security_group_%s_ids'' [FStr x] \<and> k \<noteq> Sprintf ''security_group_%s_id'' [FStr x]" for x
    using "2.prems"(2) by (auto simp: HasPrefix_def)
  with 2 show ?case
    by (auto simp: get_strings_Add simp del: Sprintf.simps split: go.splits option.splits)
qed simp

text \<open>The lists of the data, from the subnets and the route tables they are computed from.\<close>

definition lists_of :: "Libs \<Rightarrow> Subnet list \<Rightarrow> RouteTable list \<Rightarrow> Data \<Rightarrow> bool" where
  "lists_of lib subnets routes d \<longleftrightarrow>
     (let ids = (\<lambda>P. subnet_id ` {s \<in> set subnets. P s});
          tables = (\<lambda>S. {StringValue (rt_RouteTableId r) |r a. r \<in> set routes \<and> a \<in> set (rt_Associations r) \<and>
                           StringValue (as_SubnetId a) \<in> S}) in
      get_strings d ''subnet_ids'' = Some (sorted_list_of_set (subnet_id ` set subnets)) \<and>
      get_strings d ''private_subnet_ids'' = Some (sorted_list_of_set (ids (is_private lib))) \<and>
      get_strings d ''public_subnet_ids'' = Some (sorted_list_of_set (ids (is_public lib))) \<and>
      get_strings d ''route_tables_ids'' =
        Some (sorted_list_of_set ((\<lambda>r. StringValue (rt_RouteTableId r)) ` set routes)) \<and>
      get_strings d ''private_route_tables_ids'' = Some (sorted_list_of_set (tables (ids (is_private lib)))) \<and>
      get_strings d ''public_route_tables_ids'' = Some (sorted_list_of_set (tables (ids (is_public lib)))))"

lemma add_lists_lists_of:
  assumes "add_lists lib subnets routes d = Ok d'"
  shows "lists_of lib subnets routes d'"
proof -
  obtain priv pub every where c: "classify_subnets lib ([], [], []) subnets = Ok (priv, pub, every)"
    using assms by (auto simp: add_lists_def split: go.splits prod.splits)
  from classify_subnets_Ok [OF c]
  have sets: "set priv = subnet_id ` {s \<in> set subnets. is_private lib s}"
    "set pub = subnet_id ` {s \<in> set subnets. is_public lib s}" "set every = subnet_id ` set subnets"
    by auto
  show ?thesis
    using assms unfolding lists_of_def Let_def
    by (auto simp: add_lists_def c Let_def tidy_eq get_strings_Add set_associated sets [symmetric]
        split: if_splits)
qed

lemma add_security_groups_lists_of:
  assumes "add_security_groups lib d sgs = Ok d'" and "lists_of lib' subnets routes d"
  shows "lists_of lib' subnets routes d'"
  using assms(2) add_security_groups_keeps [OF assms(1)] by (simp add: lists_of_def HasPrefix_def)

lemma Load_lists:
  assumes "\<And>vpc w. fst (aw_DescribeSubnets aws vpc w) = Inr subnets"
    and "\<And>vpc w. fst (aw_DescribeRouteTables aws vpc w) = Inr routes"
  shows "wp (Load aws clusterName) (\<lambda>r t. \<forall>d. r = Ok d \<longrightarrow> lists_of (aw_Libs aws) subnets routes d) s"
proof -
  let ?Q = "\<lambda>r t. \<forall>d. r = Ok d \<longrightarrow> lists_of (aw_Libs aws) subnets routes d"
  have net: "wp (load_network aws clusterName vpc d) ?Q u" for vpc d and u :: "('a, 'b, 'c) env"
    using assms add_lists_lists_of
    by (auto simp: load_network_def findSubnets_def wp_request Let_def wp_case_go split: go.splits)
  have groups: "wp (findSecurityGroups aws d) ?Q u" if "lists_of (aw_Libs aws) subnets routes d"
    for d and u :: "('a, 'b, 'c) env"
    using that add_security_groups_lists_of
    by (auto simp: findSecurityGroups_def wp_request wp_case_option split: sum.splits)
  show ?thesis
    unfolding Load_def findAccount_def
    using groups
    by (auto simp: wp_request wp_case_sum wp_case_option wp_case_go intro!: wp_mono [OF net])
qed

section \<open>The types of the entries\<close>

text \<open>
  The entries that later parts of the loader read with a type assertion. Names discovered in the
  account only ever extend the prefixes \<open>network_\<close> and \<open>security_group_\<close>, so they cannot replace
  an entry that is read.
\<close>

definition typed_entries :: "Data \<Rightarrow> bool" where
  "typed_entries d \<longleftrightarrow>
     get_string d ''account_id'' \<noteq> None \<and> get_string d ''vpc_id'' \<noteq> None \<and> get_strings d ''eks_subnet_ids'' \<noteq> None"

definition discovered :: "string \<Rightarrow> bool" where
  "discovered k \<longleftrightarrow> HasPrefix k ''network_'' \<or> HasPrefix k ''security_group_''"

definition agrees :: "Data \<Rightarrow> Data \<Rightarrow> bool" where
  "agrees d d' \<longleftrightarrow> (\<forall>k. \<not> discovered k \<longrightarrow> d' k = d k)"

definition patterns :: "string list" where
  "patterns = [''Name'', ''Network''] @ concat (map (\<lambda>(k, v). [k, v]) (private_tags @ public_tags))"

definition patterns_compile :: "Libs \<Rightarrow> bool" where
  "patterns_compile lib \<longleftrightarrow> (\<forall>p \<in> set patterns. whole lib p \<noteq> None)"

lemma agrees_refl: "agrees d d" by (simp add: agrees_def)

lemma agrees_Add: "agrees d d' \<Longrightarrow> discovered name \<Longrightarrow> agrees d (data_Add name description v d')"
  by (auto simp: agrees_def data_Add_def)

lemma agrees_typed: "agrees d d' \<Longrightarrow> typed_entries d \<Longrightarrow> typed_entries d'"
  by (simp add: agrees_def typed_entries_def get_string_def get_strings_def discovered_def HasPrefix_def)

lemma discovered_names [simp]:
  "discovered (Sprintf ''security_group_%s_ids'' [FStr x])" "discovered (Sprintf ''security_group_%s_id'' [FStr x])"
  "discovered (Sprintf ''network_%s_subnet_ids'' [FStr x])" "discovered (Sprintf ''network_%s_route_table_ids'' [FStr x])"
  "discovered (Sprintf ''network_%s_route_table_id'' [FStr x])"
  by (simp_all add: discovered_def HasPrefix_def)

lemma GetTagValue_compiles:
  assumes "patterns_compile lib" and "k \<in> set patterns"
  shows "\<exists>r. GetTagValue lib tags k = Ok r"
proof -
  obtain km where "whole lib k = Some km" using assms by (auto simp: patterns_compile_def)
  then show ?thesis by (simp add: GetTagValue_def GetTag_def split: option.splits)
qed

lemma any_tag_compiles:
  assumes "patterns_compile lib" and "\<forall>(k, v) \<in> set kvs. k \<in> set patterns \<and> v \<in> set patterns"
  shows "\<exists>b. any_tag lib tags kvs = Ok b"
  using assms(2)
proof (induction kvs)
  case (Cons kv kvs)
  obtain k v where kv: "kv = (k, v)" by force
  then obtain km vm where "whole lib k = Some km" "whole lib v = Some vm"
    using Cons.prems assms(1) by (fastforce simp: patterns_compile_def)
  moreover obtain c where "any_tag lib tags kvs = Ok c" using Cons by auto
  ultimately show ?case
    by (cases "find (\<lambda>tag. km (StringValue (tg_Key tag))) tags") (auto simp: kv HasTag_def GetTag_def split: bool.splits)
qed (simp add: exI [of _ False])

lemma add_security_groups_typed:
  assumes "patterns_compile lib" and "agrees d0 d"
  shows "\<exists>d'. add_security_groups lib d sgs = Ok d' \<and> agrees d0 d'"
  using assms(2)
proof (induction sgs arbitrary: d)
  case (Cons sg sgs)
  obtain r where "GetTagValue lib (sg_Tags sg) ''Name'' = Ok r"
    using GetTagValue_compiles [OF assms(1)] by (force simp: patterns_def)
  then show ?case
    using Cons by (cases r) (simp_all add: agrees_Add del: Sprintf.simps)
qed simp

lemma findRouteTables_typed:
  assumes "patterns_compile lib" and "agrees d0 d"
  shows "\<exists>d'. findRouteTables lib d routes = Ok d' \<and> agrees d0 d'"
  using assms(2)
proof (induction routes arbitrary: d)
  case (Cons route routes)
  obtain r where "GetTagValue lib (rt_Tags route) ''Name'' = Ok r"
    using GetTagValue_compiles [OF assms(1)] by (force simp: patterns_def)
  then show ?case
    using Cons by (cases r) (simp_all add: agrees_Add del: Sprintf.simps)
qed simp

lemma group_subnets_typed:
  assumes "patterns_compile lib"
  shows "\<exists>ds'. group_subnets lib ds subnets = Ok ds'"
proof (induction subnets arbitrary: ds)
  case (Cons subnet subnets)
  obtain r where "GetTagValue lib (sn_Tags subnet) ''Network'' = Ok r"
    using GetTagValue_compiles [OF assms(1)] by (force simp: patterns_def)
  then show ?case using Cons by (cases r) auto
qed simp

lemma patterns_cover:
  "\<forall>(k, v) \<in> set private_tags. k \<in> set patterns \<and> v \<in> set patterns"
  "\<forall>(k, v) \<in> set public_tags. k \<in> set patterns \<and> v \<in> set patterns"
  by (auto simp: patterns_def)

lemma classify_subnets_typed:
  assumes "patterns_compile lib"
  shows "\<exists>acc'. classify_subnets lib acc subnets = Ok acc'"
proof (induction subnets arbitrary: acc)
  case (Cons subnet subnets)
  obtain b where b: "any_tag lib (sn_Tags subnet) private_tags = Ok b"
    using any_tag_compiles [OF assms patterns_cover(1)] by blast
  obtain c where c: "any_tag lib (sn_Tags subnet) public_tags = Ok c"
    using any_tag_compiles [OF assms patterns_cover(2)] by blast
  show ?case using Cons.IH by (cases acc; cases b; cases c) (simp_all add: b c Let_def)
qed (metis classify_subnets.simps(1) prod_cases3)

lemma add_networks_agrees:
  "agrees d0 d \<Longrightarrow> (\<And>x. discovered (Sprintf kind [FStr x])) \<Longrightarrow> agrees d0 (add_networks kind description kvs d names)"
  by (induction kind description kvs d names rule: add_networks.induct) (simp_all add: agrees_Add del: Sprintf.simps)

lemma get_string_Add:
  "get_string (data_Add name description v d) k =
     (if k = name then (case v of PString x \<Rightarrow> Some x | _ \<Rightarrow> None) else get_string d k)"
  by (simp add: get_string_def data_Add_def)

lemma findCluster_typed:
  assumes "ec_ResourcesVpcConfig cluster \<noteq> None" "ec_KubernetesNetworkConfig cluster \<noteq> None"
    and "get_string d ''account_id'' \<noteq> None"
  shows "\<exists>d'. findCluster aws cluster d = Ok d' \<and> typed_entries d'"
proof -
  obtain vpc net account where "ec_ResourcesVpcConfig cluster = Some vpc"
    "ec_KubernetesNetworkConfig cluster = Some net" "get_string d ''account_id'' = Some account"
    using assms by blast
  then show ?thesis
    by (cases "ec_CertificateAuthority cluster"; cases "ec_Oidc cluster")
      (simp_all add: findCluster_def Let_def typed_entries_def get_string_Add get_strings_Add)
qed

lemma findSubnets_typed:
  assumes "patterns_compile (aw_Libs aws)"
  shows "wp (findSubnets aws subnets routes d) (\<lambda>r t. \<exists>d'. r = Ok d' \<and> agrees d d') s"
proof -
  obtain ds where ds: "group_subnets (aw_Libs aws) [] subnets = Ok ds"
    using group_subnets_typed [OF assms] by blast
  show ?thesis
    unfolding findSubnets_def ds
    by (simp add: wp_request Let_def add_networks_agrees agrees_refl del: Sprintf.simps)
qed

lemma add_lists_typed:
  assumes "patterns_compile lib" and "typed_entries d"
  shows "\<exists>d'. add_lists lib subnets routes d = Ok d' \<and> typed_entries d'"
proof -
  obtain priv pub every where c: "classify_subnets lib ([], [], []) subnets = Ok (priv, pub, every)"
    using classify_subnets_typed [OF assms(1)] by (metis prod_cases3)
  show ?thesis
    using assms(2)
    by (auto simp: add_lists_def c Let_def typed_entries_def get_string_Add get_strings_Add)
qed

lemma load_network_typed:
  assumes "patterns_compile (aw_Libs aws)" and "typed_entries d"
  shows "wp (load_network aws clusterName vpc d) (\<lambda>r t. r \<noteq> Panic \<and> (\<forall>d'. r = Ok d' \<longrightarrow> typed_entries d')) s"
proof -
  have rest: "\<exists>d''. (case findRouteTables (aw_Libs aws) d' routes of
      Ok d \<Rightarrow> add_lists (aw_Libs aws) subnets routes d | Err e \<Rightarrow> Err e | Panic \<Rightarrow> Panic) = Ok d'' \<and> typed_entries d''"
    if d': "agrees d d'" for d' routes subnets
  proof -
    obtain d1 where "findRouteTables (aw_Libs aws) d' routes = Ok d1" "agrees d d1"
      using findRouteTables_typed [OF assms(1) d'] by blast
    then show ?thesis using add_lists_typed [OF assms(1)] agrees_typed [OF _ assms(2)] by auto
  qed
  have rest: "(case findRouteTables (aw_Libs aws) d' routes of
      Ok d \<Rightarrow> add_lists (aw_Libs aws) subnets routes d | Err e \<Rightarrow> Err e | Panic \<Rightarrow> Panic) = r \<Longrightarrow>
      r \<noteq> Panic \<and> (\<forall>d''. r = Ok d'' \<longrightarrow> typed_entries d'')" if "agrees d d'" for d' routes subnets r
    using rest [OF that, of subnets routes] by auto
  show ?thesis
    by (auto simp: load_network_def wp_request wp_case_sum dest: rest
        intro!: wp_mono [OF findSubnets_typed [OF assms(1)]])
qed

lemma Load_typed:
  assumes "patterns_compile (aw_Libs aws)"
    and "\<And>name w cluster. fst (aw_DescribeCluster aws name w) = Inr cluster \<Longrightarrow>
      ec_ResourcesVpcConfig cluster \<noteq> None \<and> ec_KubernetesNetworkConfig cluster \<noteq> None"
  shows "wp (Load aws clusterName) (\<lambda>r t. r \<noteq> Panic \<and> (\<forall>d. r = Ok d \<longrightarrow> typed_entries d)) s"
proof -
  let ?Q = "\<lambda>r t. r \<noteq> Panic \<and> (\<forall>d. r = Ok d \<longrightarrow> typed_entries d)"
  have groups: "wp (findSecurityGroups aws d) ?Q u" if "typed_entries d" for d and u :: "('a, 'b, 'c) env"
  proof -
    from that have "get_string d ''vpc_id'' \<noteq> None" unfolding typed_entries_def by blast
    then obtain vpc where vpc: "get_string d ''vpc_id'' = Some vpc" by blast
    have "add_security_groups (aw_Libs aws) d sgs = r \<Longrightarrow> r \<noteq> Panic \<and> (\<forall>d'. r = Ok d' \<longrightarrow> typed_entries d')" for sgs r
      using add_security_groups_typed [OF assms(1) agrees_refl, of d sgs] agrees_typed [OF _ that] by auto
    then show ?thesis by (auto simp: findSecurityGroups_def vpc wp_request split: sum.splits)
  qed
  have cluster: "findCluster aws cluster (data_Add ''account_ids'' a b (data_Add ''account_id'' e (PString v) d)) = r \<Longrightarrow>
      r \<noteq> Panic \<and> (\<forall>d'. r = Ok d' \<longrightarrow> typed_entries d')"
    if "fst (aw_DescribeCluster aws clusterName (world s)) = Inr cluster" for cluster a b e v d r
    using findCluster_typed [of cluster "data_Add ''account_ids'' a b (data_Add ''account_id'' e (PString v) d)" aws]
      assms(2) [OF that] by (auto simp: get_string_Add)
  have vpc: "ec_ResourcesVpcConfig cluster \<noteq> None"
    if "fst (aw_DescribeCluster aws clusterName (world s)) = Inr cluster" for cluster
    using assms(2) [OF that] by blast
  show ?thesis
    unfolding Load_def findAccount_def
    using vpc
    by (auto simp: wp_request wp_case_sum wp_case_option wp_case_go dest: cluster
        intro!: groups wp_mono [OF load_network_typed [OF assms(1)]])
qed

end
