(* ===== verification/Apiserver.thy ===== *)
theory Apiserver
  imports Go_Strings
begin

text \<open>
  The API server (\<open>pkg/apiserver\<close>) that streams the logs of a build: the watcher jobs in the user
  namespaces ask it for the logs of a configuration at a stage and generation. The state of a
  request is the trace of what it did so far; the typed Kubernetes client is a parameter.
\<close>

text \<open>
  What a request did, in order: headers and parts of the body written, jobs and pods listed
  (namespace and selector), logs read (namespace, pod and container).
\<close>

datatype response =
    WriteHeader nat
  | Body string
  | JobsListed string string
  | PodsListed string string
  | LogsRead string string string

record 'w Server =
  sv_cc :: "'w client"
  sv_host :: "'w host"
  sv_Namespace :: string
  sv_Jobs :: "string \<Rightarrow> string \<Rightarrow> 'w \<Rightarrow> (gerror + Job list) \<times> 'w"
  sv_Flusher :: bool

text \<open>
  The regular expression \<open>^[a-zA-Z0-9\-\.\:]{1,64}$\<close>, as its meaning: one to 64 letters, digits,
  dashes, dots or colons.
\<close>

definition sanitize_char :: "char \<Rightarrow> bool" where
  "sanitize_char c =
     (let n = (of_char c :: nat) in
      (97 \<le> n \<and> n \<le> 122) \<or> (65 \<le> n \<and> n \<le> 90) \<or> (48 \<le> n \<and> n \<le> 57) \<or> n = 45 \<or> n = 46 \<or> n = 58)"

definition sanitizeRegEx :: "string \<Rightarrow> bool" where
  "sanitizeRegEx v \<longleftrightarrow> 1 \<le> length v \<and> length v \<le> 64 \<and> list_all sanitize_char v"

definition sanitize_pattern :: string where
  "sanitize_pattern =
     ''^[a-zA-Z0-9'' @ [CHR 0x5C] @ ''-'' @ [CHR 0x5C] @ ''.'' @ [CHR 0x5C] @ '':]{1,64}$''"

definition validateInput :: "string \<Rightarrow> string \<Rightarrow> gerror option" where
  "validateInput name v =
     (if v = [] then Some (ErrMsg (Sprintf ''%s is empty'' [FStr name]))
      else if \<not> sanitizeRegEx v
      then Some (ErrMsg (Sprintf ''%s does not match input regex: %s'' [FStr name, FStr sanitize_pattern]))
      else None)"

definition respond :: "response \<Rightarrow> ('w, 'o, response list, unit) prog" where
  "respond r = modify_state (\<lambda>rs. rs @ [r])"

definition body :: "string \<Rightarrow> farg list \<Rightarrow> ('w, 'o, response list, unit) prog" where
  "body format args = respond (Body (Sprintf (format @ [char_of (10 :: nat)]) args))"

definition handleHealth :: "('w, 'o, response list, unit) prog" where
  "handleHealth = body ''OK'' []"

definition params :: "string list" where
  "params = [''generation'', ''name'', ''namespace'', ''stage'', ''uid'']"

text \<open>The loop over the parameters stops at the first invalid one.\<close>

fun read_params :: "(string \<Rightarrow> string) \<Rightarrow> string list \<Rightarrow> gerror + (string \<rightharpoonup> string)" where
  "read_params query [] = Inr Map.empty"
| "read_params query (key # keys) =
     (case validateInput key (query key) of
        Some err \<Rightarrow> Inl err
      | None \<Rightarrow>
          (case read_params query keys of
             Inl err \<Rightarrow> Inl err
           | Inr vals \<Rightarrow> Inr (vals(key \<mapsto> query key))))"

definition build_labels :: "(string \<Rightarrow> string) \<Rightarrow> string list" where
  "build_labels vals =
     [ConfigurationGenerationLabel @ ''='' @ vals ''generation'',
      ConfigurationNameLabel @ ''='' @ vals ''name'',
      ConfigurationNamespaceLabel @ ''='' @ vals ''namespace'',
      ConfigurationStageLabel @ ''='' @ vals ''stage'',
      ConfigurationUIDLabel @ ''='' @ vals ''uid'']"

definition build_filter :: "(string \<Rightarrow> string) \<Rightarrow> Job list \<Rightarrow> JobFilter" where
  "build_filter vals jobs =
     WithUID (vals ''uid'') (WithStage (vals ''stage'') (WithNamespace (vals ''namespace'')
       (WithName (vals ''name'') (WithGeneration (vals ''generation'') (Jobs jobs)))))"

text \<open>
  One attempt to find the pod. The variable \<open>pod\<close> that the attempts assign is the resource of the
  run.
\<close>

definition find_pod :: "'w Server \<Rightarrow> (string \<Rightarrow> string) \<Rightarrow> ('w, Pod option, response list, gerror + bool) prog" where
  "find_pod s vals =
     do { respond (Body ''.'');
          respond (JobsListed (sv_Namespace s) (Join (build_labels vals) '',''));
          r \<leftarrow> request (sv_Jobs s (sv_Namespace s) (Join (build_labels vals) '',''));
          case r of
            Inl _ \<Rightarrow> State_Monad.return (Inr False)
          | Inr jobs \<Rightarrow>
              if length jobs = 0 then State_Monad.return (Inr False)
              else (case Latest (build_filter vals jobs) of
                      None \<Rightarrow> State_Monad.return (Inr False)
                    | Some latest \<Rightarrow>
                        do { respond (PodsListed (sv_Namespace s) (''job-name='' @ om_Name (job_Meta latest)));
                             q \<leftarrow> request (kc_Pods (sv_cc s) (sv_Namespace s)
                                     (''job-name='' @ om_Name (job_Meta latest)));
                             case q of
                               Inl _ \<Rightarrow> State_Monad.return (Inr False)
                             | Inr pods \<Rightarrow>
                                 if length pods = 0 then State_Monad.return (Inr False)
                                 else do { modify_resource (\<lambda>_. FindLatestPod pods);
                                           pod \<leftarrow> gets resource;
                                           State_Monad.return (Inr (case pod of
                                             Some p \<Rightarrow> pod_Phase p \<in> {PodRunning, PodSucceeded, PodFailed}
                                           | None \<Rightarrow> False)) } }) }"

fun stream_logs :: "'w Server \<Rightarrow> string \<Rightarrow> string list \<Rightarrow> ('w, 'o, response list, gerror option) prog" where
  "stream_logs s pod [] = State_Monad.return None"
| "stream_logs s pod (container # containers) =
     do { respond (LogsRead (sv_Namespace s) pod container);
          r \<leftarrow> request (kc_Logs (sv_cc s) (sv_Namespace s) pod container);
          case r of
            Inl err \<Rightarrow> State_Monad.return (Some err)
          | Inr text \<Rightarrow>
              do { modify_state (\<lambda>rs. rs @
                     (if sv_Flusher s then map (\<lambda>l. Body (l @ [char_of (10 :: nat)])) (scan_lines text)
                      else [Body text]));
                   stream_logs s pod containers } }"

definition handleBuilds :: "'w Server \<Rightarrow> (string \<Rightarrow> string) \<Rightarrow> ('w, Pod option, response list, unit) prog" where
  "handleBuilds s query =
     (case read_params query params of
        Inl _ \<Rightarrow> respond (WriteHeader 400)
      | Inr m \<Rightarrow>
          (let vals = (\<lambda>k. case m k of None \<Rightarrow> [] | Some v \<Rightarrow> v) in
           do { body ''[info] waiting for the job to be scheduled'' [];
                body ''[info] watching build: %s, generation: %s for the job to be scheduled''
                  [FStr (vals ''name''), FStr (vals ''generation'')];
                err \<leftarrow> RetryWithTimeout (sv_host s) None (3 * minute) (2 * second) (find_pod s vals);
                case err of
                  Some _ \<Rightarrow> body ''[error] failed to find associated pod in time'' []
                | None \<Rightarrow>
                    do { pod \<leftarrow> gets resource;
                         case pod of
                           None \<Rightarrow> State_Monad.return ()
                         | Some p \<Rightarrow>
                             do { e \<leftarrow> stream_logs s (om_Name (pod_Meta p)) (pod_InitContainers p @ pod_Containers p);
                                  case e of
                                    Some _ \<Rightarrow>
                                      do { respond (WriteHeader 500);
                                           body ''[error] failed to retrieve the logs'' [] }
                                  | None \<Rightarrow> body ''[build] completed'' [] } } }))"

lemma wp_respond [simp, wp_simps]: "wp (respond r) Q s = Q () (s\<lparr>rstate := rstate s @ [r]\<rparr>)"
  by (simp add: respond_def)

lemma wp_body [simp, wp_simps]:
  "wp (body format args) Q s =
     Q () (s\<lparr>rstate := rstate s @ [Body (Sprintf (format @ [char_of (10 :: nat)]) args)]\<rparr>)"
  by (simp add: body_def)

section \<open>Validated values\<close>

lemma sanitize_char_no_separators:
  "\<not> sanitize_char CHR '',''" "\<not> sanitize_char CHR ''=''"
  by (simp_all add: sanitize_char_def)

lemma validateInput_None: "validateInput name v = None \<longleftrightarrow> sanitizeRegEx v"
  by (auto simp: validateInput_def sanitizeRegEx_def)

lemma sanitized_separators: "sanitizeRegEx v \<Longrightarrow> CHR '','' \<notin> set v \<and> CHR ''='' \<notin> set v \<and> v \<noteq> []"
  using sanitize_char_no_separators by (auto simp: sanitizeRegEx_def list_all_iff)

lemma read_params_Inr:
  "read_params query keys = Inr m \<Longrightarrow>
     (\<forall>k \<in> set keys. m k = Some (query k) \<and> sanitizeRegEx (query k)) \<and> dom m = set keys"
  by (induction keys arbitrary: m)
    (auto simp: validateInput_None split: option.splits sum.splits)

lemma validateInput_Some: "validateInput name v = Some e \<Longrightarrow> \<not> sanitizeRegEx v"
  using validateInput_None [of name v] by simp

lemma read_params_Inl:
  "(\<exists>e. read_params query keys = Inl e) \<longleftrightarrow> (\<exists>k \<in> set keys. \<not> sanitizeRegEx (query k))"
  by (induction keys) (auto simp: validateInput_None dest: validateInput_Some split: option.splits sum.splits)

section \<open>The selector of a request\<close>

lemma label_names_plain:
  "CHR '','' \<notin> set ConfigurationGenerationLabel" "CHR ''='' \<notin> set ConfigurationGenerationLabel"
  "CHR '','' \<notin> set ConfigurationNameLabel" "CHR ''='' \<notin> set ConfigurationNameLabel"
  "CHR '','' \<notin> set ConfigurationNamespaceLabel" "CHR ''='' \<notin> set ConfigurationNamespaceLabel"
  "CHR '','' \<notin> set ConfigurationStageLabel" "CHR ''='' \<notin> set ConfigurationStageLabel"
  "CHR '','' \<notin> set ConfigurationUIDLabel" "CHR ''='' \<notin> set ConfigurationUIDLabel"
  by (simp_all add: ConfigurationGenerationLabel_def ConfigurationNameLabel_def
      ConfigurationNamespaceLabel_def ConfigurationStageLabel_def ConfigurationUIDLabel_def)

lemma Split_pair: "c \<notin> set a \<Longrightarrow> c \<notin> set b \<Longrightarrow> Split (a @ c # b) c = [a, b]"
  by (simp add: Split_append_sep Split_no_sep)

text \<open>Splitting a selector at commas and equal signs, as the API server of the cluster reads it.\<close>

definition selector_pairs :: "string \<Rightarrow> string list list" where
  "selector_pairs selector = map (\<lambda>l. Split l CHR ''='') (Split selector CHR '','')"

lemma selector_pairs_labels:
  assumes "\<forall>k \<in> set params. sanitizeRegEx (query k)"
  shows "selector_pairs (Join (build_labels query) '','') =
    [[ConfigurationGenerationLabel, query ''generation''], [ConfigurationNameLabel, query ''name''],
     [ConfigurationNamespaceLabel, query ''namespace''], [ConfigurationStageLabel, query ''stage''],
     [ConfigurationUIDLabel, query ''uid'']]"
proof -
  have plain: "CHR '','' \<notin> set (query k)" "CHR ''='' \<notin> set (query k)" if "k \<in> set params" for k
    using sanitized_separators assms that by blast+
  have Split_comma: "Split (a @ CHR ''='' # b @ CHR '','' # t) CHR '','' = (a @ CHR ''='' # b) # Split t CHR '',''"
    if "CHR '','' \<notin> set a" "CHR '','' \<notin> set b" for a b t
    using Split_append_sep [of "CHR '',''" "a @ CHR ''='' # b" t] that by simp
  have last: "Split (a @ CHR ''='' # b) CHR '','' = [a @ CHR ''='' # b]"
    if "CHR '','' \<notin> set a" "CHR '','' \<notin> set b" for a b
    using that by (simp add: Split_no_sep)
  show ?thesis
    by (simp add: selector_pairs_def build_labels_def Split_comma last Split_pair label_names_plain
        plain params_def)
qed

section \<open>The trace of a request\<close>

text \<open>
  The newest job that the cluster returned for the selector of the request and whose labels have
  the values of the request, and the latest pod listed for such a job.
\<close>

definition newest_job :: "'w Server \<Rightarrow> (string \<Rightarrow> string) \<Rightarrow> Job \<Rightarrow> bool" where
  "newest_job s vals latest \<longleftrightarrow>
     (\<exists>w jobs. fst (sv_Jobs s (sv_Namespace s) (Join (build_labels vals) '','') w) = Inr jobs \<and>
        Latest (build_filter vals jobs) = Some latest)"

definition requested :: "'w Server \<Rightarrow> (string \<Rightarrow> string) \<Rightarrow> Pod \<Rightarrow> bool" where
  "requested s vals p \<longleftrightarrow>
     (\<exists>latest w pods. newest_job s vals latest \<and>
        fst (kc_Pods (sv_cc s) (sv_Namespace s) (''job-name='' @ om_Name (job_Meta latest)) w) = Inr pods \<and>
        FindLatestPod pods = Some p)"

definition pod_containers :: "Pod \<Rightarrow> string list" where
  "pod_containers p = pod_InitContainers p @ pod_Containers p"

text \<open>The texts of its own that the handler writes, and those it copies from the logs.\<close>

definition messages :: "(string \<Rightarrow> string) \<Rightarrow> string list" where
  "messages vals =
     ''.'' #
     map (\<lambda>(format, args). Sprintf (format @ [char_of (10 :: nat)]) args)
       [(''[info] waiting for the job to be scheduled'', []),
        (''[info] watching build: %s, generation: %s for the job to be scheduled'',
          [FStr (vals ''name''), FStr (vals ''generation'')]),
        (''[error] failed to find associated pod in time'', []),
        (''[error] failed to retrieve the logs'', []),
        (''[build] completed'', [])]"

definition log_text :: "'w Server \<Rightarrow> (string \<Rightarrow> string) \<Rightarrow> string \<Rightarrow> bool" where
  "log_text s vals text \<longleftrightarrow>
     (\<exists>p c w content. requested s vals p \<and> c \<in> set (pod_containers p) \<and>
        fst (kc_Logs (sv_cc s) (sv_Namespace s) (om_Name (pod_Meta p)) c w) = Inr content \<and>
        (text = content \<or> (\<exists>l \<in> set (scan_lines content). text = l @ [char_of (10 :: nat)])))"

text \<open>What a request may do: nothing that concerns another build.\<close>

fun confined :: "'w Server \<Rightarrow> (string \<Rightarrow> string) \<Rightarrow> response \<Rightarrow> bool" where
  "confined s vals (WriteHeader status) \<longleftrightarrow> status = 500"
| "confined s vals (Body text) \<longleftrightarrow> text \<in> set (messages vals) \<or> log_text s vals text"
| "confined s vals (JobsListed ns selector) \<longleftrightarrow>
     ns = sv_Namespace s \<and> selector = Join (build_labels vals) '',''"
| "confined s vals (PodsListed ns selector) \<longleftrightarrow>
     ns = sv_Namespace s \<and> (\<exists>latest. newest_job s vals latest \<and> selector = ''job-name='' @ om_Name (job_Meta latest))"
| "confined s vals (LogsRead ns pod container) \<longleftrightarrow>
     ns = sv_Namespace s \<and>
     (\<exists>p. requested s vals p \<and> pod = om_Name (pod_Meta p) \<and> container \<in> set (pod_containers p))"

lemma confined_cong:
  assumes "\<forall>k \<in> set params. vals k = vals' k"
  shows "confined s vals = confined s vals'" "requested s vals = requested s vals'"
proof -
  have labels: "build_labels vals = build_labels vals'" "build_filter vals = build_filter vals'" "messages vals = messages vals'"
    using assms by (simp_all add: build_labels_def build_filter_def messages_def params_def fun_eq_iff)
  then have "newest_job s vals = newest_job s vals'" by (simp add: newest_job_def fun_eq_iff)
  then show requested: "requested s vals = requested s vals'" by (simp add: requested_def fun_eq_iff)
  show "confined s vals = confined s vals'"
  proof
    show "confined s vals e = confined s vals' e" for e
      by (cases e) (simp_all add: labels requested \<open>newest_job s vals = _\<close> log_text_def)
  qed
qed

text \<open>The pod variable is unset or the pod of the request, and only such actions were added since \<open>u\<close>.\<close>

definition serves ::
  "'w Server \<Rightarrow> (string \<Rightarrow> string) \<Rightarrow> ('w, Pod option, response list) env \<Rightarrow> ('w, Pod option, response list) env \<Rightarrow> bool" where
  "serves s vals u t \<longleftrightarrow>
     (\<forall>p. resource t = Some p \<longrightarrow> requested s vals p) \<and> (\<exists>rs. rstate t = rstate u @ rs \<and> list_all (confined s vals) rs)"

lemma serves_respond:
  "serves s vals u t \<Longrightarrow> confined s vals e \<Longrightarrow> serves s vals u (t\<lparr>rstate := rstate t @ [e]\<rparr>)"
  by (auto simp: serves_def)

lemma serves_world [simp]: "serves s vals u (t\<lparr>world := w\<rparr>) \<longleftrightarrow> serves s vals u t"
  by (simp add: serves_def)

lemma find_pod_serves:
  assumes "serves s vals u t"
  shows "wp (find_pod s vals) (\<lambda>_. serves s vals u) t"
proof -
  have pod: "requested s vals p"
    if "newest_job s vals latest" "FindLatestPod pods = Some p"
      "fst (kc_Pods (sv_cc s) (sv_Namespace s) (''job-name='' @ om_Name (job_Meta latest)) w) = Inr pods" for latest w pods p
    using that unfolding requested_def by blast
  have job: "newest_job s vals latest"
    if "fst (sv_Jobs s (sv_Namespace s) (Join (build_labels vals) '','') w) = Inr jobs"
      "Latest (build_filter vals jobs) = Some latest" for w jobs latest
    using that unfolding newest_job_def by blast
  show ?thesis
    using assms pod job
    by (auto simp: find_pod_def wp_request wp_case_sum wp_case_option wp_if serves_def messages_def; blast)
qed

lemma stream_logs_serves:
  assumes "serves s vals u t" and "requested s vals p" and "set cs \<subseteq> set (pod_containers p)"
  shows "wp (stream_logs s (om_Name (pod_Meta p)) cs) (\<lambda>_. serves s vals u) t"
  using assms(1,3)
proof (induction cs arbitrary: t)
  case (Cons c cs)
  have read: "confined s vals (LogsRead (sv_Namespace s) (om_Name (pod_Meta p)) c)"
    using assms(2) Cons.prems(2) by auto
  have logged: "log_text s vals x"
    if "fst (kc_Logs (sv_cc s) (sv_Namespace s) (om_Name (pod_Meta p)) c (world t)) = Inr content"
      "x = content \<or> (\<exists>l \<in> set (scan_lines content). x = l @ [char_of (10 :: nat)])" for content x
    using that assms(2) Cons.prems(2) unfolding log_text_def
    by (intro exI [of _ p] exI [of _ c] exI [of _ "world t"] exI [of _ content]) auto
  have added: "serves s vals u (t\<lparr>world := w, rstate := rstate t @ LogsRead (sv_Namespace s) (om_Name (pod_Meta p)) c #
        (if sv_Flusher s then map (\<lambda>l. Body (l @ [char_of (10 :: nat)])) (scan_lines content) else [Body content])\<rparr>)"
    if "fst (kc_Logs (sv_cc s) (sv_Namespace s) (om_Name (pod_Meta p)) c (world t)) = Inr content" for content w
    using Cons.prems(1) read logged [OF that] by (auto simp: serves_def list_all_iff)
  show ?case
    using Cons.prems Cons.IH added serves_respond [OF Cons.prems(1) read]
    by (auto simp: wp_request wp_case_sum)
qed simp

end
