(* ===== verification/Tool_Properties.thy ===== *)
theory Tool_Properties
  imports Scenario Step Similarity Preload Apiserver
begin

text \<open>
  Properties of the programs that run beside the controllers, with their instances on a
  concrete machine.
\<close>

section \<open>Steps of a job\<close>

text \<open>The API returns the object that was asked for.\<close>

definition named_answers :: "'w client \<Rightarrow> bool" where
  "named_answers cc \<longleftrightarrow> (\<forall>k ns n w x. fst (cc_Get cc k ns n w) = Inr x \<longrightarrow>
     om_Namespace (meta_of x) = ns \<and> om_Name (meta_of x) = n)"

text \<open>
  The actions of an upload: the file is read, and the secret of that name is created or updated.
\<close>

definition upload_action :: "Step \<Rightarrow> string \<times> string \<Rightarrow> action \<Rightarrow> bool" where
  "upload_action step kv a \<longleftrightarrow>
     (\<exists>c. a = FileRead (snd kv) c) \<or>
     (\<exists>v y e. a = Stored v (OSecret y) e \<and> v \<in> {Create, Update} \<and>
        om_Namespace (sec_Meta y) = sp_Namespace step \<and> om_Name (sec_Meta y) = fst kv)"

definition of_uploads :: "Step \<Rightarrow> action \<Rightarrow> bool" where
  "of_uploads step a \<longleftrightarrow> (\<exists>kv \<in> set (UploadKeyPairs step). upload_action step kv a)"

text \<open>
  An upload that is done: the file was read, and next the secret was stored in the cluster with
  exactly that content under the name of the file.
\<close>

definition uploaded :: "'w host \<Rightarrow> Step \<Rightarrow> string \<times> string \<Rightarrow> effect list \<Rightarrow> action list \<Rightarrow> bool" where
  "uploaded h step kv es U \<longleftrightarrow>
     (\<exists>pre post v y bytes w. U = pre @ [FileRead (snd kv) (Inr bytes), Stored v (OSecret y) None] @ post \<and>
        fst (h_ReadFile h (snd kv) w) = Inr bytes \<and> Wrote v (OSecret y) None \<in> set es \<and> v \<in> {Create, Update} \<and>
        om_Namespace (sec_Meta y) = sp_Namespace step \<and> om_Name (sec_Meta y) = fst kv \<and>
        gomap_find (sec_Data y) (Base (snd kv)) = Some bytes)"

lemma uploaded_mono: "uploaded h step kv es U \<Longrightarrow> uploaded h step kv (es0 @ es @ es1) (U0 @ U @ U1)"
  unfolding uploaded_def
proof (elim exE conjE)
  fix pre post v y bytes w
  assume U: "U = pre @ [FileRead (snd kv) (Inr bytes), Stored v (OSecret y) None] @ post"
    and "fst (h_ReadFile h (snd kv) w) = Inr bytes" "Wrote v (OSecret y) None \<in> set es" "v \<in> {Create, Update}"
      "om_Namespace (sec_Meta y) = sp_Namespace step" "om_Name (sec_Meta y) = fst kv"
      "gomap_find (sec_Data y) (Base (snd kv)) = Some bytes"
  moreover from U have "U0 @ U @ U1 = (U0 @ pre) @ [FileRead (snd kv) (Inr bytes), Stored v (OSecret y) None] @ (post @ U1)"
    by simp
  ultimately show "\<exists>pre post v y bytes w.
      U0 @ U @ U1 = pre @ [FileRead (snd kv) (Inr bytes), Stored v (OSecret y) None] @ post \<and>
      fst (h_ReadFile h (snd kv) w) = Inr bytes \<and> Wrote v (OSecret y) None \<in> set (es0 @ es @ es1) \<and> v \<in> {Create, Update} \<and>
      om_Namespace (sec_Meta y) = sp_Namespace step \<and> om_Name (sec_Meta y) = fst kv \<and>
      gomap_find (sec_Data y) (Base (snd kv)) = Some bytes"
    by (metis UnCI set_append)
qed

lemma uploaded_parts:
  "uploaded h step kv es U \<Longrightarrow> uploaded h step kv (es @ es') (U @ U')"
  "uploaded h step kv es' U' \<Longrightarrow> uploaded h step kv (es @ es') (U @ U')"
  using uploaded_mono [of h step kv es U "[]" es' "[]" U'] uploaded_mono [of h step kv es' U' es "[]" U "[]"] by simp_all

text \<open>From \<open>s\<close> to \<open>t\<close> only actions of a kind were added, and the additions satisfy a predicate.\<close>

definition advance ::
  "(action \<Rightarrow> bool) \<Rightarrow> (effect list \<Rightarrow> action list \<Rightarrow> bool) \<Rightarrow> ('w, 'o, action list) env \<Rightarrow> ('w, 'o, action list) env \<Rightarrow> bool" where
  "advance A P s t \<longleftrightarrow>
     (\<exists>es U. effects t = effects s @ es \<and> rstate t = rstate s @ U \<and> list_all A U \<and> P es U)"

lemma advance_refl: "P [] [] \<Longrightarrow> advance A P s s"
  by (simp add: advance_def)

lemma advance_mono: "advance A P s t \<Longrightarrow> (\<And>a. A a \<Longrightarrow> B a) \<Longrightarrow> (\<And>es U. P es U \<Longrightarrow> Q es U) \<Longrightarrow> advance B Q s t"
  unfolding advance_def by (metis list.pred_mono_strong)

lemma advance_trans:
  assumes "advance A P s t" and "advance A P' t u" and "\<And>es U es' U'. P es U \<Longrightarrow> P' es' U' \<Longrightarrow> Q (es @ es') (U @ U')"
  shows "advance A Q s u"
  using assms unfolding advance_def by (metis append.assoc list_all_append)

lemma advance_world [simp]: "advance A P s (t\<lparr>world := w\<rparr>) \<longleftrightarrow> advance A P s t"
  by (simp add: advance_def)

lemma wp_GetSecret_named:
  assumes "named_answers cc"
    and "\<And>err w. Q (Inl err) (s\<lparr>world := w\<rparr>)"
    and "\<And>w a. Q (Inr None) (s\<lparr>world := w, absent := a\<rparr>)"
    and "\<And>y w. om_Namespace (sec_Meta y) = ns \<Longrightarrow> om_Name (sec_Meta y) = n \<Longrightarrow> Q (Inr (Some y)) (s\<lparr>world := w\<rparr>)"
  shows "wp (GetIfExists cc KSecret as_Secret ns n) Q s"
proof -
  have "om_Namespace (sec_Meta y) = ns \<and> om_Name (sec_Meta y) = n"
    if "fst (cc_Get cc KSecret ns n w) = Inr x" "as_Secret x = Some y" for w x y
    using assms(1) that by (cases x) (fastforce simp: named_answers_def)+
  then show ?thesis
    using assms(2-4) by (auto simp: GetIfExists_def wp_request wp_if split: sum.splits option.splits)
qed

lemma store_secret_result:
  assumes "v \<in> {Create, Update}" "om_Namespace (sec_Meta y) = sp_Namespace step" "om_Name (sec_Meta y) = name"
    "gomap_find (sec_Data y) (Base path) = Some bytes" "fst (h_ReadFile h path w) = Inr bytes"
    and "effects t = effects s" "rstate t = rstate s @ [FileRead path (Inr bytes)]"
  shows "wp (store_secret h v y)
    (\<lambda>r. advance (upload_action step (name, path)) (\<lambda>es U. r = None \<longrightarrow> uploaded h step (name, path) es U) s) t"
proof -
  have stored: "uploaded h step (name, path) [Wrote v (OSecret y) None] [FileRead path (Inr bytes), Stored v (OSecret y) None]"
    unfolding uploaded_def using assms(1-5) by (intro exI [of _ "[]"]) auto
  have "advance (upload_action step (name, path)) (\<lambda>es U. e = None \<longrightarrow> uploaded h step (name, path) es U) s
      (t\<lparr>world := w', effects := effects t @ [Wrote v (OSecret y) e],
         rstate := rstate t @ [Stored v (OSecret y) e]\<rparr>)" for e w'
    unfolding advance_def using assms stored
    by (intro exI [of _ "[Wrote v (OSecret y) e]"] exI [of _ "[FileRead path (Inr bytes), Stored v (OSecret y) e]"])
      (auto simp: upload_action_def)
  then show ?thesis by (simp add: store_secret_def perform_def wp_request)
qed

lemma uploadSecret_result:
  assumes "named_answers (h_cc h)"
  shows "wp (uploadSecret h (sp_Namespace step) name path)
    (\<lambda>r. advance (upload_action step (name, path)) (\<lambda>es U. r = None \<longrightarrow> uploaded h step (name, path) es U) s) s"
proof -
  let ?Q = "\<lambda>r. advance (upload_action step (name, path)) (\<lambda>es U. r = None \<longrightarrow> uploaded h step (name, path) es U) s"
  have quiet: "?Q (Some e) t" if "effects t = effects s" "rstate t = rstate s @ [FileRead path c]" for e t c
    unfolding advance_def using that by (intro exI [of _ "[]"] exI [of _ "[FileRead path c]"]) (simp add: upload_action_def)
  have nothing_done: "?Q (Some e) (s\<lparr>world := w\<rparr>)" for e w by (simp add: advance_refl)
  have get: "wp (GetIfExists (h_cc h) KSecret as_Secret (sp_Namespace step) name)
      (\<lambda>current. wp (case current of
          Inl err \<Rightarrow> State_Monad.return (Some err)
        | Inr None \<Rightarrow> store_secret h Create \<lparr>sec_Meta = named_meta (sp_Namespace step) name,
              sec_Data = Some [Base path \<mapsto> bytes]\<rparr>
        | Inr (Some secret) \<Rightarrow>
            (let data = (case sec_Data secret of None \<Rightarrow> Map.empty | Some m \<Rightarrow> m) in
             store_secret h Update (secret\<lparr>sec_Data := Some (data(Base path \<mapsto> bytes))\<rparr>))) ?Q) t"
    if "effects t = effects s" "rstate t = rstate s @ [FileRead path (Inr bytes)]" "fst (h_ReadFile h path w) = Inr bytes"
    for bytes t w
    by (rule wp_GetSecret_named [OF assms])
      (use that quiet in \<open>auto simp: Let_def named_meta_def intro!: store_secret_result [where w = w]\<close>)
  show ?thesis
    unfolding uploadSecret_def wp_bind FileExists_def wp_request wp_return
    using get [unfolded Let_def] quiet nothing_done
    by (auto simp: wp_request wp_case_sum wp_if Let_def split: stat.splits bool.splits)
qed

lemma upload_retry:
  assumes "named_answers (h_cc h)"
  shows "wp (Retry h None 2 True (5 * second)
       (do { err \<leftarrow> uploadSecret h (sp_Namespace step) name path; State_Monad.return (Inr (err = None)) }))
    (\<lambda>r. advance (upload_action step (name, path)) (\<lambda>es U. r = None \<longrightarrow> uploaded h step (name, path) es U) s) s"
  unfolding Retry_def Let_def
proof (rule wp_retry_loop [where I = "advance (upload_action step (name, path)) (\<lambda>_ _. True) s"])
  fix u
  assume u: "advance (upload_action step (name, path)) (\<lambda>_ _. True) s u"
  show "wp (do { err \<leftarrow> uploadSecret h (sp_Namespace step) name path; State_Monad.return (Inr (err = None)) })
      (\<lambda>r t. if r = Inr False then advance (upload_action step (name, path)) (\<lambda>_ _. True) s t
        else advance (upload_action step (name, path))
          (\<lambda>es U. (case r of Inl e \<Rightarrow> Some e | Inr _ \<Rightarrow> None) = None \<longrightarrow> uploaded h step (name, path) es U) s t) u"
    unfolding wp_bind
    by (intro wp_mono [OF uploadSecret_result [OF assms, where s = u]])
      (auto intro!: advance_trans [OF u] intro: uploaded_parts)
qed (auto simp: advance_refl elim: advance_mono)

lemma upload_all_result:
  assumes "named_answers (h_cc h)"
  shows "wp (upload_all h step kvs)
    (\<lambda>r. advance (\<lambda>a. \<exists>kv \<in> set kvs. upload_action step kv a)
       (\<lambda>es U. r = None \<longrightarrow> (\<forall>kv \<in> set kvs. uploaded h step kv es U)) s) s"
proof (induction kvs arbitrary: s)
  case Nil
  show ?case by (simp add: advance_refl)
next
  case (Cons kv kvs)
  obtain name path where kv: "kv = (name, path)" by (cases kv)
  let ?A = "\<lambda>a. \<exists>kv \<in> set (kv # kvs). upload_action step kv a"
  have rest: "wp (upload_all h step kvs)
      (\<lambda>r. advance ?A (\<lambda>es U. r = None \<longrightarrow> (\<forall>kv \<in> set (kv # kvs). uploaded h step kv es U)) s) t"
    if t: "advance ?A (\<lambda>es U. uploaded h step kv es U) s t" for t
  proof (rule wp_mono [OF Cons.IH])
    fix r t'
    assume "advance (\<lambda>a. \<exists>kv \<in> set kvs. upload_action step kv a)
       (\<lambda>es U. r = None \<longrightarrow> (\<forall>kv \<in> set kvs. uploaded h step kv es U)) t t'"
    then have "advance ?A (\<lambda>es U. r = None \<longrightarrow> (\<forall>kv \<in> set kvs. uploaded h step kv es U)) t t'"
      by (rule advance_mono) auto
    from t this show "advance ?A (\<lambda>es U. r = None \<longrightarrow> (\<forall>kv \<in> set (kv # kvs). uploaded h step kv es U)) s t'"
      by (rule advance_trans) (auto intro: uploaded_parts)
  qed
  have first: "advance ?A P s t" if "advance (upload_action step kv) P s t" for P t
    by (rule advance_mono [OF that]) auto
  show ?case
    unfolding kv upload_all.simps wp_bind
  proof (rule wp_mono [OF upload_retry [OF assms, where s = s]], fold kv)
    fix r :: "gerror option" and t
    assume "advance (upload_action step kv) (\<lambda>es U. r = None \<longrightarrow> uploaded h step kv es U) s t"
    note added = first [OF this]
    show "wp (case r of Some err \<Rightarrow> State_Monad.return (Some err) | None \<Rightarrow> upload_all h step kvs)
      (\<lambda>r. advance ?A (\<lambda>es U. r = None \<longrightarrow> (\<forall>kv \<in> set (kv # kvs). uploaded h step kv es U)) s) t"
    proof (cases r)
      case None
      with added rest [of t] show ?thesis by simp
    next
      case (Some err)
      with added show ?thesis by (auto elim!: advance_mono)
    qed
  qed
qed

lemma wait_for_signal_quiet:
  "wp (wait_for_signal h step) (\<lambda>_ t. rstate t = rstate s \<and> effects t = effects s) s"
proof -
  have "wp (retry_loop h ctx True second (check_signals h step) 0 n)
      (\<lambda>_ t. rstate t = rstate s \<and> effects t = effects s) s" for ctx n
    by (rule wp_retry_loop [where I = "\<lambda>t. rstate t = rstate s \<and> effects t = effects s"])
      (auto simp: check_signals_def FileExists_def wp_request wp_if)
  then show ?thesis
    by (simp add: wait_for_signal_def RetryWithTimeout_def Retry_def wp_if)
qed

lemma not_touched_commands:
  assumes "commands_log step commands r L" and "sp_ErrorFile step \<noteq> file"
  shows "Touched file x \<notin> set L"
proof -
  have 1: "Touched file x \<notin> set block" if "settled step c block" for c block
    using that by (auto simp: settled_def failed_run_def list_all_iff)
  have 2: "Touched file x \<notin> set tail" if "gave_up step c tail \<or> interrupted step c tail" for c tail
    using that assms(2)
    by (auto simp: gave_up_def interrupted_def broken_off_def failed_run_def list_all_iff split: if_splits)
  have 3: "Touched file x \<notin> set (concat blocks)" if "list_all2 (settled step) pre blocks" for pre blocks
    using that by (induction rule: list_all2_induct) (auto dest: 1)
  from assms(1) show ?thesis
    unfolding commands_log_def using 2 3 by (fastforce split: if_splits)
qed

text \<open>
  How a run of a step ends: refused before any command ran, stopped by a command, stopped by
  an upload, or finished, with the success file touched when there is one.
\<close>

inductive step_log :: "'w host \<Rightarrow> Step \<Rightarrow> effect list \<Rightarrow> gerror option \<Rightarrow> effect list \<Rightarrow> action list \<Rightarrow> bool"
  for h :: "'w host" and step :: Step and es :: "effect list" where
  refused: "L = [] \<or> L = banner step \<Longrightarrow> step_log h step es (Some e) es L"
| stopped: "commands_log step (sp_Commands step) (Some e) L \<Longrightarrow> step_log h step es (Some e) es (banner step @ L)"
| not_uploaded: "commands_log step (sp_Commands step) None L \<Longrightarrow> list_all (of_uploads step) U \<Longrightarrow>
    step_log h step es (Some e) (es @ es') (banner step @ L @ U)"
| finished: "commands_log step (sp_Commands step) None L \<Longrightarrow> list_all (of_uploads step) U \<Longrightarrow>
    \<forall>kv \<in> set (UploadKeyPairs step). uploaded h step kv es' U \<Longrightarrow> sp_SuccessFile step = [] \<Longrightarrow>
    step_log h step es None (es @ es') (banner step @ L @ U)"
| signalled: "commands_log step (sp_Commands step) None L \<Longrightarrow> list_all (of_uploads step) U \<Longrightarrow>
    \<forall>kv \<in> set (UploadKeyPairs step). uploaded h step kv es' U \<Longrightarrow> sp_SuccessFile step \<noteq> [] \<Longrightarrow>
    step_log h step es r (es @ es') (banner step @ L @ U @ [Touched (sp_SuccessFile step) r])"

lemma step_Run_log:
  fixes h :: "'w host" and s :: "('w, 'o, action list) env"
  assumes "named_answers (h_cc h)" and "\<forall>ks w. set (fst (h_Range h ks w)) = set ks"
  shows "wp (step_Run h step)
    (\<lambda>r t. \<exists>L. rstate t = rstate s @ L \<and> step_log h step (effects s) r (effects t) L) s" (is "wp _ ?Q s")
proof (cases "Step_IsValid step")
  case (Some err)
  then show ?thesis by (simp add: step_Run_def refused)
next
  case None
  then have retries: "0 \<le> sp_RetryAttempts step" by (simp add: Step_IsValid_def split: if_splits)
  let ?kvs = "UploadKeyPairs step"
  have order: "set (in_order ?kvs (fst (h_Range h (map fst ?kvs) w))) = set ?kvs" for w
    using assms(2) by (intro in_order_set) (auto simp: UploadKeyPairs_def upload_key_pairs_distinct)
  have fin: "wp (finish_step h step) ?Q t"
    if "rstate t = rstate s @ banner step @ L' @ U" "effects t = effects s @ es" "commands_log step (sp_Commands step) None L'"
      "list_all (of_uploads step) U" "\<forall>kv \<in> set ?kvs. uploaded h step kv es U" for t L' U es
    using that by (auto simp: finish_step_def TouchFile_def wp_request wp_if intro: finished signalled)
  have up: "wp (do { names \<leftarrow> request (h_Range h (map fst ?kvs));
        up \<leftarrow> upload_all h step (in_order ?kvs names);
        case up of Some err \<Rightarrow> State_Monad.return (Some err) | None \<Rightarrow> finish_step h step }) ?Q t"
    if "rstate t = rstate s @ banner step @ L'" "effects t = effects s" "commands_log step (sp_Commands step) None L'" for t L'
    unfolding wp_bind wp_request
  proof (rule wp_mono [OF upload_all_result [OF assms(1)]], unfold order advance_def of_uploads_def [symmetric], elim exE conjE)
    fix r :: "gerror option" and t' :: "('w, 'o, action list) env" and es U
    assume t': "effects t' = effects (t\<lparr>world := snd (h_Range h (map fst ?kvs) (world t))\<rparr>) @ es"
      "rstate t' = rstate (t\<lparr>world := snd (h_Range h (map fst ?kvs) (world t))\<rparr>) @ U"
      "list_all (of_uploads step) U" "r = None \<longrightarrow> (\<forall>kv \<in> set ?kvs. uploaded h step kv es U)"
    then show "wp (case r of Some err \<Rightarrow> State_Monad.return (Some err) | None \<Rightarrow> finish_step h step) ?Q t'"
      using that by (cases r) (auto intro: fin not_uploaded)
  qed
  have cmds: "wp (run_commands h step (sp_Commands step))
      (\<lambda>ran. wp (case ran of Some err \<Rightarrow> State_Monad.return (Some err)
        | None \<Rightarrow> (let kvs = ?kvs in
            do { names \<leftarrow> request (h_Range h (map fst kvs));
                 up \<leftarrow> upload_all h step (in_order kvs names);
                 case up of Some err \<Rightarrow> State_Monad.return (Some err) | None \<Rightarrow> finish_step h step })) ?Q) t"
    if "rstate t = rstate s @ banner step" "effects t = effects s" for t
    by (rule wp_mono [OF run_commands_log [OF retries]])
      (use that up in \<open>auto simp: wp_case_option Let_def simp del: wp_bind intro: stopped\<close>)
  have wait: "wp (wait_for_signal h step)
      (\<lambda>waited. wp (case waited of Some err \<Rightarrow> State_Monad.return (Some err)
        | None \<Rightarrow> do { ran \<leftarrow> run_commands h step (sp_Commands step);
            case ran of Some err \<Rightarrow> State_Monad.return (Some err)
            | None \<Rightarrow> (let kvs = ?kvs in
                do { names \<leftarrow> request (h_Range h (map fst kvs));
                     up \<leftarrow> upload_all h step (in_order kvs names);
                     case up of Some err \<Rightarrow> State_Monad.return (Some err) | None \<Rightarrow> finish_step h step }) }) ?Q) t"
    if "rstate t = rstate s @ banner step" "effects t = effects s" for t
    by (rule wp_mono [OF wait_for_signal_quiet [of h step t]])
      (use that cmds refused [of "banner step" step h "effects s"] in \<open>auto simp: wp_case_option wp_bind [of "run_commands h step (sp_Commands step)"] simp del: wp_bind\<close>)
  show ?thesis
    unfolding step_Run_def None option.case
    by (auto simp: wp_if wp_request wp_case_option print_banner_def intro: refused wait [unfolded wp_bind])
qed

text \<open>
  C24. The file that lets the next step of a job start is touched exactly when the step returns
  without an error, as the last thing it does. Before that, in this order, all of its commands
  succeeded, one after the other and each within the allowed number of retries, and then every
  file it uploads was read and stored in its secret with the content that was read; nothing
  else happened in between.
\<close>

theorem step_success_signalled:
  assumes "named_answers (h_cc h)" and "\<forall>ks w. set (fst (h_Range h ks w)) = set ks"
    and "sp_SuccessFile step \<noteq> []" and "sp_ErrorFile step \<noteq> sp_SuccessFile step"
  shows "wp (step_Run h step)
    (\<lambda>r t. \<exists>L. rstate t = rstate s @ L \<and>
       (Touched (sp_SuccessFile step) None \<in> set L \<longleftrightarrow> r = None) \<and>
       (r = None \<longrightarrow>
          (\<exists>blocks U es. list_all2 (settled step) (sp_Commands step) blocks \<and>
             L = banner step @ concat blocks @ U @ [Touched (sp_SuccessFile step) None] \<and>
             list_all (of_uploads step) U \<and> effects t = effects s @ es \<and>
             (\<forall>kv \<in> set (UploadKeyPairs step). uploaded h step kv es U)))) s"
proof -
  have quiet: "Touched (sp_SuccessFile step) x \<notin> set (banner step)" for x
    by (simp add: banner_def Let_def)
  have no_upload: "Touched (sp_SuccessFile step) x \<notin> set U" if "list_all (of_uploads step) U" for U x
    using that by (auto simp: list_all_iff of_uploads_def upload_action_def)
  have blocks: "\<exists>blocks. list_all2 (settled step) (sp_Commands step) blocks \<and> L = concat blocks"
    if "commands_log step (sp_Commands step) None L" for L
    using that by (auto simp: commands_log_def)
  show ?thesis
  proof (rule wp_mono [OF step_Run_log [OF assms(1,2)]], elim exE conjE)
    fix r t L
    assume L: "rstate t = rstate s @ L" "step_log h step (effects s) r (effects t) L"
    show "\<exists>L. rstate t = rstate s @ L \<and>
       (Touched (sp_SuccessFile step) None \<in> set L \<longleftrightarrow> r = None) \<and>
       (r = None \<longrightarrow>
          (\<exists>blocks U es. list_all2 (settled step) (sp_Commands step) blocks \<and>
             L = banner step @ concat blocks @ U @ [Touched (sp_SuccessFile step) None] \<and>
             list_all (of_uploads step) U \<and> effects t = effects s @ es \<and>
             (\<forall>kv \<in> set (UploadKeyPairs step). uploaded h step kv es U)))"
      using L(2)
    proof cases
      case (signalled L' U es')
      obtain bs where "list_all2 (settled step) (sp_Commands step) bs" "L' = concat bs" using blocks signalled(3) by blast
      with signalled L(1) quiet no_upload not_touched_commands [OF signalled(3) assms(4)] show ?thesis
        by (intro exI [of _ L]) auto
    qed (use L(1) assms(3) quiet no_upload not_touched_commands [OF _ assms(4)] in auto)
  qed
qed

text \<open>The number of processes in a log.\<close>

definition is_run :: "action \<Rightarrow> bool" where
  "is_run a \<longleftrightarrow> (\<exists>argv r. a = Ran argv r)"

lemma runs_bounded:
  assumes "commands_log step commands r L" and "0 \<le> sp_RetryAttempts step"
  shows "length (filter is_run L) \<le> length commands * nat (sp_RetryAttempts step + 1)"
proof -
  let ?n = "nat (sp_RetryAttempts step + 1)"
  have failed: "list_all (failed_run step c) fs \<Longrightarrow> filter is_run fs = fs" for c fs
    by (intro filter_True) (auto simp: list_all_iff failed_run_def is_run_def)
  have 1: "length (filter is_run block) \<le> ?n" if "settled step c block" for c block
    using that failed by (auto simp: settled_def is_run_def)
  have 2: "length (filter is_run tail) \<le> ?n" if "gave_up step c tail \<or> interrupted step c tail" for c tail
    using that failed
    by (auto simp: gave_up_def interrupted_def broken_off_def is_run_def split: if_splits)
  have 3: "length (filter is_run (concat blocks)) \<le> length pre * ?n"
    if "list_all2 (settled step) pre blocks" for pre blocks
    using that
  proof (induction rule: list_all2_induct)
    case (Cons x xs y ys)
    then show ?case using 1 [of x y] by simp
  qed simp
  obtain pre post blocks tail where c: "commands = pre @ post" "list_all2 (settled step) pre blocks" "L = concat blocks @ tail"
    and r: "if r = None then post = [] \<and> tail = [] else \<exists>c rest. post = c # rest \<and> (gave_up step c tail \<or> interrupted step c tail)"
    using assms(1) unfolding commands_log_def by blast
  have "length (filter is_run tail) \<le> length post * ?n"
    using r by (auto split: if_splits dest!: 2 [OF disjI1] 2 [OF disjI2])
  with c 3 [OF c(2)] show ?thesis by (simp add: algebra_simps)
qed

text \<open>
  C25. Every run of a step returns, after at most one more process than the allowed retries for each
  of its commands. When it returns an error after a command used up its attempts, the error file is
  touched as the last thing it did, no later command ran and nothing was uploaded; a step refused
  before its commands ran no process at all.
\<close>

theorem step_failure_signalled:
  assumes "named_answers (h_cc h)" and "\<forall>ks w. set (fst (h_Range h ks w)) = set ks"
    and "0 \<le> sp_RetryAttempts step"
  shows "wp (step_Run h step)
    (\<lambda>r t. \<exists>L. rstate t = rstate s @ L \<and>
       length (filter is_run L) \<le> length (sp_Commands step) * nat (sp_RetryAttempts step + 1) \<and>
       (r = None \<or> filter is_run L = [] \<or>
        (\<exists>pre c rest blocks tail. sp_Commands step = pre @ c # rest \<and> list_all2 (settled step) pre blocks \<and>
           L = banner step @ concat blocks @ tail \<and> (gave_up step c tail \<or> interrupted step c tail) \<and>
           effects t = effects s) \<or>
        (\<exists>L'. commands_log step (sp_Commands step) None L' \<and>
           (\<exists>U. list_all (of_uploads step) U \<and>
              (L = banner step @ L' @ U \<or> L = banner step @ L' @ U @ [Touched (sp_SuccessFile step) r]))))) s"
proof -
  have [simp]: "filter is_run (banner step) = []" "\<not> is_run (Touched f x)" for f x
    by (auto simp: banner_def is_run_def Let_def)
  have [simp]: "filter is_run U = []" if "list_all (of_uploads step) U" for U
    using that by (auto simp: list_all_iff of_uploads_def upload_action_def is_run_def filter_empty_conv)
  note bound = runs_bounded [OF _ assms(3)]
  have stop: "\<exists>pre c rest blocks tail. commands = pre @ c # rest \<and> list_all2 (settled step) pre blocks \<and>
      L = concat blocks @ tail \<and> (gave_up step c tail \<or> interrupted step c tail)"
    if "commands_log step commands (Some e) L" for commands e L
    using that by (fastforce simp: commands_log_def)
  show ?thesis
  proof (rule wp_mono [OF step_Run_log [OF assms(1,2)]], goal_cases)
    case (1 r t)
    then obtain L where L: "rstate t = rstate s @ L" "step_log h step (effects s) r (effects t) L" by blast
    from L(2) show ?case
    proof cases
      case (stopped e L')
      with L(1) bound [OF stopped(4)] stop [OF stopped(4)] show ?thesis by auto
    qed (use L(1) bound in auto)
  qed
qed

section \<open>Similarity\<close>

text \<open>
  \<open>Closest\<close> returns one of the sentences, and no sentence of the list shares a larger fraction
  of the words, whenever some sentence shares a word at all.
\<close>

theorem closest_maximal:
  assumes "\<exists>x \<in> set list. 0 < overlap tk (Tokenize tk sentence) x"
  shows "Closest tk sentence list \<in> set list \<and>
    (\<forall>x \<in> set list. overlap tk (Tokenize tk sentence) x \<le>
       overlap tk (Tokenize tk sentence) (Closest tk sentence list))"
proof -
  let ?o = "overlap tk (Tokenize tk sentence)" and ?ss = "score_list tk (Tokenize tk sentence) list"
  have c: "Closest tk sentence list = closest_score 0 [] ?ss"
    by (simp add: Closest_def Closeness_def Filter_IsEmpty_def Let_def)
  have pairs: "(\<lambda>s. (sc_Input s, sc_Similarity s)) ` set ?ss = (\<lambda>x. (x, ?o x)) ` {x \<in> set list. 0 < ?o x}"
    using arg_cong [OF score_list_eq [of tk "Tokenize tk sentence" list], of set] by auto
  have in_list: "sc_Input s \<in> set list \<and> sc_Similarity s = ?o (sc_Input s)" if "s \<in> set ?ss" for s
    using imageI [OF that, of "\<lambda>s. (sc_Input s, sc_Similarity s)"] unfolding pairs by auto
  have scored: "\<exists>s \<in> set ?ss. sc_Similarity s = ?o x" if "x \<in> set list" "0 < ?o x" for x
  proof -
    have "(x, ?o x) \<in> (\<lambda>s. (sc_Input s, sc_Similarity s)) ` set ?ss" using that unfolding pairs by auto
    then show ?thesis by auto
  qed
  obtain s where "s \<in> set ?ss" "Closest tk sentence list = sc_Input s"
    and top: "\<forall>t \<in> set ?ss. sc_Similarity t \<le> sc_Similarity s" "0 < sc_Similarity s"
    using closest_score_spec [of 0 "[]" ?ss] assms scored unfolding c by (metis not_le)
  moreover have "?o x \<le> sc_Similarity s" if "x \<in> set list" for x
    using scored [OF that] top by (cases "0 < ?o x") auto
  ultimately show ?thesis using in_list by auto
qed

text \<open>
  The search for the \<open>n\<close> most similar sentences keeps the \<open>n\<close> least similar of the candidates:
  the similarities of its scores are the head of the candidates' similarities in ascending order.
\<close>

theorem topn_keeps_lowest:
  assumes "0 < fl_TopN f"
  shows "map sc_Similarity (sm_Scores (Closeness tk sentence list f)) =
    take (nat (fl_TopN f))
      (sort (map (overlap tk (Tokenize tk sentence)) (candidates tk (Tokenize tk sentence) (fl_Min f) list)))"
  using assms by (rule Closeness_topn)

section \<open>Preloaded data\<close>

text \<open>
  Whatever else the account holds, the lists the preloader stores of the network of the cluster
  are sorted and without repetition: all subnets, those tagged private, those tagged public and not
  private, all route tables, and the route tables associated to a private or a public subnet.
\<close>

theorem preload_lists_exact:
  assumes "\<And>vpc w. fst (aw_DescribeSubnets aws vpc w) = Inr subnets"
    and "\<And>vpc w. fst (aw_DescribeRouteTables aws vpc w) = Inr routes"
  shows "wp (Load aws clusterName) (\<lambda>r t. \<forall>d. r = Ok d \<longrightarrow> lists_of (aw_Libs aws) subnets routes d) s"
  using assms by (rule Load_lists)

text \<open>
  C27. The entries of the preloaded data keep the types they are read back with: whatever the names
  of networks, route tables and security groups in the account, no type assertion of the loader
  fails and it never panics, as long as its own patterns compile and the cluster is described with
  its network. Without the network configuration of the cluster it does panic.
\<close>

theorem preload_type_safe:
  assumes "patterns_compile (aw_Libs aws)"
    and "\<And>name w cluster. fst (aw_DescribeCluster aws name w) = Inr cluster \<Longrightarrow>
      ec_ResourcesVpcConfig cluster \<noteq> None \<and> ec_KubernetesNetworkConfig cluster \<noteq> None"
  shows "wp (Load aws clusterName) (\<lambda>r t. r \<noteq> Panic \<and> (\<forall>d. r = Ok d \<longrightarrow> typed_entries d)) s \<and>
    findCluster aws (cluster\<lparr>ec_KubernetesNetworkConfig := None\<rparr>) d = Panic"
proof
  show "wp (Load aws clusterName) (\<lambda>r t. r \<noteq> Panic \<and> (\<forall>d. r = Ok d \<longrightarrow> typed_entries d)) s"
    using assms by (rule Load_typed)
  show "findCluster aws (cluster\<lparr>ec_KubernetesNetworkConfig := None\<rparr>) d = Panic"
    by (simp add: findCluster_def split: option.splits)
qed

section \<open>The API server\<close>

text \<open>
  C26. A request for the logs of a build with an invalid parameter is answered with status 400 and
  touches nothing. Otherwise the values cannot change the shape of the label selector sent to the
  cluster, which reads back as exactly the five labels of the request, and the whole trace is
  confined to the build: every listing of jobs has that selector, every listing of pods is for the
  newest job with these labels, logs are only read of the latest pod listed for such a job, and
  whatever is written is a message of the handler itself or was read from those logs.
\<close>

theorem builds_confined:
  assumes "resource s = None"
  shows "wp (handleBuilds sv query)
    (\<lambda>_ t. if \<exists>k \<in> set params. \<not> sanitizeRegEx (query k)
           then world t = world s \<and> rstate t = rstate s @ [WriteHeader 400]
           else selector_pairs (Join (build_labels query) '','') =
             [[ConfigurationGenerationLabel, query ''generation''], [ConfigurationNameLabel, query ''name''],
              [ConfigurationNamespaceLabel, query ''namespace''], [ConfigurationStageLabel, query ''stage''],
              [ConfigurationUIDLabel, query ''uid'']] \<and>
             (\<forall>p. resource t = Some p \<longrightarrow> requested sv query p) \<and>
             (\<exists>rs. rstate t = rstate s @ rs \<and> list_all (confined sv query) rs)) s"
proof (cases "read_params query params")
  case (Inl e)
  then have "\<exists>k \<in> set params. \<not> sanitizeRegEx (query k)" using read_params_Inl by blast
  with Inl show ?thesis by (simp add: handleBuilds_def)
next
  case (Inr m)
  let ?vals = "\<lambda>k. case m k of None \<Rightarrow> [] | Some v \<Rightarrow> v"
  let ?P = "serves sv ?vals s"
  have ok: "\<forall>k \<in> set params. sanitizeRegEx (query k)" and m: "\<forall>k \<in> set params. m k = Some (query k)"
    using read_params_Inr [OF Inr] by auto
  from m have vals: "\<forall>k \<in> set params. ?vals k = query k" by simp
  have start: "?P s" using assms by (simp add: serves_def)
  have wait: "wp (RetryWithTimeout (sv_host sv) None d d' (find_pod sv ?vals)) (\<lambda>_. ?P) u" if "?P u" for d d' u
    unfolding RetryWithTimeout_def Retry_def Let_def wp_bind wp_gets
    by (rule wp_retry_loop [where I = ?P]) (use that in \<open>auto intro: wp_mono [OF find_pod_serves]\<close>)
  have stream: "wp (stream_logs sv (om_Name (pod_Meta p)) (pod_containers p)) (\<lambda>e. wp (case e of
        Some x \<Rightarrow> do { respond (WriteHeader 500); body ''[error] failed to retrieve the logs'' [] }
      | None \<Rightarrow> body ''[build] completed'' []) (\<lambda>_. ?P)) u" if "?P u" "resource u = Some p" for p u
    by (rule wp_mono [OF stream_logs_serves [OF that(1)]])
      (use that in \<open>auto simp: wp_case_option serves_def messages_def\<close>)
  have "wp (handleBuilds sv query) (\<lambda>_. ?P) s"
    unfolding handleBuilds_def Inr sum.case Let_def wp_bind wp_body
    by (rule wp_mono [OF wait])
      (use start stream in \<open>auto simp: wp_case_option pod_containers_def serves_def messages_def\<close>)
  moreover have "serves sv ?vals s = serves sv query s"
    unfolding serves_def [abs_def] confined_cong [OF vals] ..
  ultimately have "wp (handleBuilds sv query) (\<lambda>_. serves sv query s) s" by (simp only:)
  then show ?thesis by (rule wp_mono) (use ok selector_pairs_labels [OF ok] in \<open>auto simp: serves_def\<close>)
qed

section \<open>Instances\<close>

definition sample_host :: "object list host" where
  "sample_host =
     \<lparr>h_cc = sample_client, h_Client = (\<lambda>w. (None, w)), h_Cancelled = (\<lambda>w. (False, w)),
      h_Wait = (\<lambda>_ _ w. (False, w)), h_Backoff = (\<lambda>_ d _ w. (d, w)), h_Int63n = (\<lambda>_ w. (0, w)),
      h_Stat = (\<lambda>_ w. (StatInfo False, w)), h_Touch = (\<lambda>_ w. (None, w)),
      h_ReadFile = (\<lambda>_ w. (Inr ''content'', w)), h_WriteFile = (\<lambda>_ _ w. (None, w)),
      h_Exec = (\<lambda>argv w. (if argv = [''/bin/sh'', ''-c'', ''false''] then WaitError (ErrMsg ''exit status 1'')
        else Exited, w)),
      h_Getenv = (\<lambda>_ _. []), h_Range = (\<lambda>ks w. (ks, w)),
      h_Ask = (\<lambda>_ d w. (Inr d, w)), h_Select = (\<lambda>_ xs w. (Inr (hd xs), w)),
      h_MultiSelect = (\<lambda>_ xs w. (Inr xs, w)), h_Confirm = (\<lambda>_ w. (Inr True, w))\<rparr>"

lemma find_object_named:
  "find_object k ns n w = Some x \<Longrightarrow> om_Namespace (meta_of x) = ns \<and> om_Name (meta_of x) = n"
  by (induction w) (auto split: if_splits)

lemma sample_host_laws [simp]:
  "h_cc sample_host = sample_client" "named_answers sample_client"
  "set (fst (h_Range sample_host ks w)) = set ks"
  by (auto simp: sample_host_def named_answers_def sample_client_def dest: find_object_named split: option.splits)

definition sample_step :: "string list \<Rightarrow> Step" where
  "sample_step commands =
     \<lparr>sp_Commands = commands, sp_RetryMinBackoff = second, sp_RetryMaxJitter = 0, sp_RetryAttempts = 2,
      sp_Comment = [], sp_ErrorFile = ''/run/steps/terraform.failed'', sp_FailureFile = [],
      sp_Namespace = ''terraform-system'', sp_Shell = ''/bin/sh'',
      sp_SuccessFile = ''/run/steps/terraform.complete'', sp_Timeout = 0,
      sp_UploadFile = [''tfplan=/run/tfplan.json''], sp_WaitFile = []\<rparr>"

theorem step_success_signalled_witness:
  defines "step \<equiv> sample_step [''terraform init'', ''terraform plan'']"
  shows "wp (step_Run sample_host step)
    (\<lambda>r t. Touched ''/run/steps/terraform.complete'' None \<in> set (rstate t) \<longleftrightarrow> r = None) (sample_env [] () [])"
proof -
  have "sp_SuccessFile step \<noteq> []" "sp_ErrorFile step \<noteq> sp_SuccessFile step"
    and path: "sp_SuccessFile step = ''/run/steps/terraform.complete''"
    by (simp_all add: step_def sample_step_def)
  from step_success_signalled [of sample_host step "sample_env [] () []", OF _ _ this(1,2)]
  show ?thesis unfolding path by simp (erule wp_mono, auto)
qed

theorem step_failure_signalled_witness:
  defines "step \<equiv> sample_step [''terraform init'', ''false'', ''terraform plan'']"
  shows "wp (step_Run sample_host step)
    (\<lambda>r t. length (filter is_run (rstate t)) \<le> 9) (sample_env [] () [])"
proof -
  have "0 \<le> sp_RetryAttempts step" and "length (sp_Commands step) * nat (sp_RetryAttempts step + 1) = 9"
    by (simp_all add: step_def sample_step_def)
  then show ?thesis
    using step_failure_signalled [of sample_host step "sample_env [] () []"]
    by (simp, elim wp_mono) auto
qed

definition plain_tokenizer :: Tokenizer where
  "plain_tokenizer = \<lparr>tk_CleanString = (\<lambda>s. s), tk_Singular = (\<lambda>s. s)\<rparr>"

theorem closest_maximal_witness:
  "Closest plain_tokenizer ''vpc id'' [''subnet'', ''vpc id'', ''vpc''] \<in> {''subnet'', ''vpc id'', ''vpc''}"
proof -
  have "\<exists>x \<in> set [''subnet'', ''vpc id'', ''vpc'']. 0 < overlap plain_tokenizer (Tokenize plain_tokenizer ''vpc id'') x"
    by (simp add: overlap_def Tokenize_def plain_tokenizer_def word_char_def ToLower_def lower_char_def)
  from closest_maximal [OF this] show ?thesis by simp
qed

theorem topn_keeps_lowest_witness:
  "map sc_Similarity (sm_Scores (Closeness plain_tokenizer ''vpc id'' [''vpc id'', ''vpc''] \<lparr>fl_Min = 1 / 5, fl_TopN = 1\<rparr>)) =
     [1 / 2]"
proof -
  have c: "candidates plain_tokenizer (Tokenize plain_tokenizer ''vpc id'') (1 / 5) [''vpc id'', ''vpc''] = [''vpc id'', ''vpc'']"
    and sims: "overlap plain_tokenizer (Tokenize plain_tokenizer ''vpc id'') ''vpc id'' = 1"
      "overlap plain_tokenizer (Tokenize plain_tokenizer ''vpc id'') ''vpc'' = 1 / 2"
    by (simp_all add: candidates_def overlap_def Tokenize_def plain_tokenizer_def word_char_def ToLower_def lower_char_def)
  have "0 < fl_TopN \<lparr>fl_Min = 1 / 5, fl_TopN = 1\<rparr>" by simp
  from topn_keeps_lowest [OF this, of plain_tokenizer "''vpc id''" "[''vpc id'', ''vpc'']"]
  show ?thesis by (simp add: c sims)
qed

definition literal_libs :: Libs where
  "literal_libs = sample_libs\<lparr>lib_Regexp := (\<lambda>p. Inr (\<lambda>s. ''^'' @ s @ ''$'' = p))\<rparr>"

definition sample_subnets :: "Subnet list" where
  "sample_subnets =
     [\<lparr>sn_SubnetId = Some ''subnet-b'', sn_Tags = [\<lparr>tg_Key = Some ''kubernetes.io/role/elb'', tg_Value = Some ''1''\<rparr>]\<rparr>,
      \<lparr>sn_SubnetId = Some ''subnet-a'', sn_Tags = []\<rparr>]"

definition sample_cluster :: EksCluster where
  "sample_cluster =
     \<lparr>ec_Arn = Some ''arn'', ec_CertificateAuthority = None, ec_Endpoint = None, ec_Id = None,
      ec_Name = Some ''production'', ec_Oidc = None,
      ec_KubernetesNetworkConfig = Some \<lparr>nc_ServiceIpv4Cidr = None, nc_ServiceIpv6Cidr = None\<rparr>,
      ec_PlatformVersion = None,
      ec_ResourcesVpcConfig = Some \<lparr>vc_ClusterSecurityGroupId = None, vc_EndpointPrivateAccess = None,
        vc_EndpointPublicAccess = None, vc_PublicAccessCidrs = [], vc_SecurityGroupIds = [],
        vc_SubnetIds = [Some ''subnet-a''], vc_VpcId = Some ''vpc''\<rparr>,
      ec_RoleArn = None, ec_Status = Some ''ACTIVE'', ec_Tags = [], ec_Version = None\<rparr>"

definition sample_aws :: "object list Aws" where
  "sample_aws =
     \<lparr>aw_Region = ''eu-west-2'', aw_DescribeCluster = (\<lambda>n w. (Inr sample_cluster, w)),
      aw_GetCallerIdentity = (\<lambda>w. (Inr (Some ''0123''), w)),
      aw_DescribeSubnets = (\<lambda>_ w. (Inr sample_subnets, w)),
      aw_DescribeRouteTables = (\<lambda>_ w. (Inr [], w)),
      aw_DescribeSecurityGroups = (\<lambda>_ w. (Inr [], w)),
      aw_Range = (\<lambda>ks w. (ks, w)), aw_Base64 = (\<lambda>b. b), aw_Libs = literal_libs\<rparr>"

theorem preload_lists_exact_witness:
  "wp (Load sample_aws ''production'')
     (\<lambda>r t. \<forall>d. r = Ok d \<longrightarrow> lists_of literal_libs sample_subnets [] d) (sample_env [] () ())"
  using preload_lists_exact [of sample_aws sample_subnets "[]" "''production''" "sample_env [] () ()"]
  by (simp add: sample_aws_def)

definition sample_server :: "object list Server" where
  "sample_server = \<lparr>sv_cc = sample_client, sv_host = sample_host, sv_Namespace = ''terraform-system'',
     sv_Jobs = (\<lambda>_ _ w. (Inr [], w)), sv_Flusher = True\<rparr>"

theorem preload_type_safe_witness:
  "patterns_compile (aw_Libs sample_aws) \<and>
   wp (Load sample_aws ''production'') (\<lambda>r t. r \<noteq> Panic \<and> (\<forall>d. r = Ok d \<longrightarrow> typed_entries d)) (sample_env [] () ())"
proof -
  have "patterns_compile (aw_Libs sample_aws)"
    by (simp add: patterns_compile_def whole_def sample_aws_def literal_libs_def)
  then show ?thesis
    using preload_type_safe [of sample_aws "''production''" "sample_env [] () ()"]
    by (simp add: sample_aws_def sample_cluster_def)
qed

theorem builds_confined_witness:
  "wp (handleBuilds sample_server (\<lambda>_. ''a,b=c''))
     (\<lambda>_ t. world t = [] \<and> rstate t = [WriteHeader 400]) (sample_env [] None []) \<and>
   wp (handleBuilds sample_server (\<lambda>_. ''bucket''))
     (\<lambda>_ t. list_all (confined sample_server (\<lambda>_. ''bucket'')) (rstate t)) (sample_env [] None [])"
proof
  have "\<exists>k \<in> set params. \<not> sanitizeRegEx ''a,b=c''" by (auto simp: params_def sanitizeRegEx_def sanitize_char_def)
  then show "wp (handleBuilds sample_server (\<lambda>_. ''a,b=c''))
     (\<lambda>_ t. world t = [] \<and> rstate t = [WriteHeader 400]) (sample_env [] None [])"
    using builds_confined [of "sample_env [] None []" sample_server "\<lambda>_. ''a,b=c''"] by simp
  have valid: "sanitizeRegEx ''bucket''" by (simp add: sanitizeRegEx_def sanitize_char_def)
  have "resource (sample_env [] None [] :: (object list, Pod option, response list) env) = None" by simp
  from builds_confined [OF this, of sample_server "\<lambda>_. ''bucket''"]
  show "wp (handleBuilds sample_server (\<lambda>_. ''bucket''))
     (\<lambda>_ t. list_all (confined sample_server (\<lambda>_. ''bucket'')) (rstate t)) (sample_env [] None [])"
    by (rule wp_mono) (use valid in auto)
qed

end
