(* ===== verification/Cli.thy ===== *)
theory Cli
  imports Go_Strings Terraform_Jobs
begin

text \<open>
  What the commands of \<open>tnctl\<close> share: the early return on an error, the libraries and services
  behind the client factory (\<open>pkg/cmd/factory.go\<close>), its configuration file (\<open>pkg/cmd/config.go\<close>)
  and the documents it reads and writes (\<open>pkg/utils/yaml.go\<close>).
\<close>

section \<open>Early returns\<close>

text \<open>\<open>attempt m f\<close> goes on with \<open>f\<close> when \<open>m\<close> returned no error, as \<open>if err != nil { return err }\<close>.\<close>

definition attempt ::
  "('w, 'o, 't, 'a go) prog \<Rightarrow> ('a \<Rightarrow> ('w, 'o, 't, 'b go) prog) \<Rightarrow> ('w, 'o, 't, 'b go) prog" where
  "attempt m f =
     do { r \<leftarrow> m;
          case r of
            Ok x \<Rightarrow> f x
          | Err e \<Rightarrow> State_Monad.return (Err e)
          | Panic \<Rightarrow> State_Monad.return Panic }"

definition of_sum :: "gerror + 'a \<Rightarrow> 'a go" where
  "of_sum r = (case r of Inl e \<Rightarrow> Err e | Inr x \<Rightarrow> Ok x)"

definition of_error :: "gerror option \<Rightarrow> unit go" where
  "of_error r = (case r of Some e \<Rightarrow> Err e | None \<Rightarrow> Ok ())"

definition or_error :: "('w, 'o, 't, gerror + 'a) prog \<Rightarrow> ('w, 'o, 't, 'a go) prog" where
  "or_error m = do { r \<leftarrow> m; State_Monad.return (of_sum r) }"

definition no_error :: "('w, 'o, 't, gerror option) prog \<Rightarrow> ('w, 'o, 't, unit go) prog" where
  "no_error m = do { r \<leftarrow> m; State_Monad.return (of_error r) }"

definition succeed :: "'a \<Rightarrow> ('w, 'o, 't, 'a go) prog" where
  "succeed x = State_Monad.return (Ok x)"

definition fail :: "string \<Rightarrow> farg list \<Rightarrow> ('w, 'o, 't, 'a go) prog" where
  "fail format args = State_Monad.return (Err (ErrMsg (Sprintf format args)))"

text \<open>\<open>fmt.Errorf("...: %w", err)\<close> around the error of a call.\<close>

definition wrap_error :: "string \<Rightarrow> ('w, 'o, 't, 'a go) prog \<Rightarrow> ('w, 'o, 't, 'a go) prog" where
  "wrap_error format m =
     do { r \<leftarrow> m;
          State_Monad.return
            (case r of
               Ok x \<Rightarrow> Ok x
             | Err e \<Rightarrow> Err (ErrMsg (Sprintf format [FStr (Error e)]))
             | Panic \<Rightarrow> Panic) }"

section \<open>The factory\<close>

record Config =
  cf_Workflow :: string
  cf_Sources :: "string list"

definition NewDefaultConfig :: Config where
  "NewDefaultConfig =
     \<lparr>cf_Workflow = ''https://github.com/appvia/terranetes-workflows'',
      cf_Sources = [''https://registry.terraform.io'']\<rparr>"

text \<open>
  The machine, the decoders and encoders of the YAML library, \<open>sjson.SetBytes\<close>, the template of a
  module and of a checkov policy (with its framework), the list of files under a directory, and
  the processes whose combined output is read. \<open>tn_Args\<close> reads the deployment of the controller
  (\<open>terraform-system/terranetes-controller\<close>): the arguments of its containers, or \<open>None\<close> when there
  is none. \<open>tn_Report\<close> reads a list of checks from a report with \<open>gjson\<close>: whether it is an array, and
  its elements (a single value that is no array is a list of one). \<open>tn_Line\<close>, \<open>tn_Table\<close> and \<open>tn_Icon\<close> are the text that the colour, table and emoji
  libraries make of a line, of the rows of a table and of an icon.
\<close>

record ReportCheck =
  rk_check_name :: string
  rk_check_id :: string
  rk_resource :: string
  rk_guideline :: string

record 'w Tnctl =
  tn_host :: "'w host"
  tn_Libs :: Libs
  tn_Renderers :: Renderers
  tn_SetBytes :: "bytes \<Rightarrow> string \<Rightarrow> json \<Rightarrow> gerror + bytes"
  tn_Module :: "string \<Rightarrow> (string \<rightharpoonup> json) option \<Rightarrow> gerror + bytes"
  tn_Checkov :: "string \<Rightarrow> PolicyConstraint \<Rightarrow> gerror + bytes"
  tn_DecodeConfiguration :: "bytes \<Rightarrow> gerror + Configuration"
  tn_DecodeRevision :: "bytes \<Rightarrow> gerror + Revision"
  tn_DecodeContext :: "bytes \<Rightarrow> gerror + Context"
  tn_DecodePolicy :: "bytes \<Rightarrow> gerror + Policy"
  tn_DecodeProvider :: "bytes \<Rightarrow> gerror + Provider"
  tn_EncodeCloudResource :: "CloudResource \<Rightarrow> gerror + bytes"
  tn_DecodeConfig :: "bytes \<Rightarrow> gerror + Config"
  tn_EncodeConfig :: "Config \<Rightarrow> gerror + bytes"
  tn_MkdirAll :: "string \<Rightarrow> 'w \<Rightarrow> gerror option \<times> 'w"
  tn_MkdirTemp :: "string \<Rightarrow> 'w \<Rightarrow> (gerror + string) \<times> 'w"
  tn_Getwd :: "'w \<Rightarrow> (gerror + string) \<times> 'w"
  tn_Walk :: "string \<Rightarrow> 'w \<Rightarrow> (string \<times> (gerror + bool)) list \<times> 'w"
  tn_LookPath :: "string \<Rightarrow> 'w \<Rightarrow> (gerror + string) \<times> 'w"
  tn_Getuid :: int
  tn_RemoveAll :: "string \<Rightarrow> 'w \<Rightarrow> gerror option \<times> 'w"
  tn_CombinedOutput :: "string list \<Rightarrow> 'w \<Rightarrow> (string \<times> gerror option) \<times> 'w"
  tn_Args :: "'w \<Rightarrow> (gerror + string list list option) \<times> 'w"
  tn_Report :: "bytes \<Rightarrow> string \<Rightarrow> bool \<times> ReportCheck list"
  tn_ReadLine :: "'w \<Rightarrow> (gerror + string) \<times> 'w"
  tn_HumanDuration :: "time \<Rightarrow> string"
  tn_Table :: "string list \<Rightarrow> string list list \<Rightarrow> string"
  tn_Line :: "string \<Rightarrow> string \<Rightarrow> string"
  tn_Icon :: "string \<Rightarrow> string"

abbreviation tn_cc :: "'w Tnctl \<Rightarrow> 'w client" where
  "tn_cc tn \<equiv> h_cc (tn_host tn)"

definition GetClient :: "'w Tnctl \<Rightarrow> ('w, 'o, 't, unit go) prog" where
  "GetClient tn = no_error (request (h_Client (tn_host tn)))"

definition ErrMissingArgument :: "string \<Rightarrow> gerror" where
  "ErrMissingArgument argument = ErrMsg (Sprintf ''missing required argument: %q'' [FStr argument])"

section \<open>Documents\<close>

definition LoadYAML :: "'w host \<Rightarrow> (bytes \<Rightarrow> gerror + 'a) \<Rightarrow> string \<Rightarrow> ('w, 'o, 'a go) tool" where
  "LoadYAML h dec path =
     attempt (or_error (FileExists h path)) (\<lambda>found.
       if \<not> found then fail ''file does not exist'' []
       else attempt (or_error (request (h_ReadFile h path))) (\<lambda>content.
         State_Monad.return (of_sum (dec content))))"

definition WriteYAML :: "'w host \<Rightarrow> ('a \<Rightarrow> gerror + bytes) \<Rightarrow> string \<Rightarrow> 'a \<Rightarrow> ('w, 'o, unit go) tool" where
  "WriteYAML h enc path x =
     (case enc x of
        Inl err \<Rightarrow> State_Monad.return (Err err)
      | Inr raw \<Rightarrow> no_error (write_file h path raw))"

text \<open>
  The documents of a file: the pieces between the matches of \<open>(?m)^---\n\<close>, without the blank ones.
  \<open>split_documents bol acc s\<close> holds the piece read so far and whether a line starts here.
\<close>

definition separator :: string where
  "separator = ''---'' @ [char_of (10 :: nat)]"

function split_documents :: "bool \<Rightarrow> string \<Rightarrow> string \<Rightarrow> string list" where
  "split_documents bol acc [] = [acc]"
| "split_documents bol acc (c # cs) =
     (if bol \<and> HasPrefix (c # cs) separator
      then acc # split_documents True [] (drop 4 (c # cs))
      else split_documents (c = char_of (10 :: nat)) (acc @ [c]) cs)"
  by pat_completeness auto

termination
  by (relation "measure (\<lambda>(_, _, s). length s)") auto

definition YAMLDocuments :: "string \<Rightarrow> string list" where
  "YAMLDocuments content = filter (\<lambda>d. TrimSpace d \<noteq> []) (split_documents True [] content)"

section \<open>The configuration file\<close>

definition ConfigPathEnvName :: string where
  "ConfigPathEnvName = ''TNCTL_CONFIG''"

definition ConfigPath :: "'w host \<Rightarrow> 'w \<Rightarrow> string" where
  "ConfigPath h w =
     (if h_Getenv h ConfigPathEnvName w \<noteq> [] then h_Getenv h ConfigPathEnvName w
      else JoinPath (JoinPath (h_Getenv h ''HOME'' w) ''.tnctl'') ''config.yaml'')"

text \<open>\<open>fileConfig.GetConfig\<close>, \<open>HasConfig\<close> and \<open>SaveConfig\<close>\<close>

definition HasConfig :: "'w host \<Rightarrow> string \<Rightarrow> ('w, 'o, bool go) tool" where
  "HasConfig h path = or_error (FileExists h path)"

definition file_GetConfig :: "'w Tnctl \<Rightarrow> string \<Rightarrow> ('w, 'o, Config go) tool" where
  "file_GetConfig tn path =
     attempt (or_error (FileExists (tn_host tn) path)) (\<lambda>found.
       if \<not> found then succeed \<lparr>cf_Workflow = [], cf_Sources = []\<rparr>
       else attempt (or_error (request (h_ReadFile (tn_host tn) path))) (\<lambda>raw.
         State_Monad.return (of_sum (tn_DecodeConfig tn raw))))"

definition Dir :: "string \<Rightarrow> string" where
  "Dir path = Clean (rev (dropWhile (\<lambda>c. c \<noteq> CHR ''/'') (rev path)))"

definition file_SaveConfig :: "'w Tnctl \<Rightarrow> string \<Rightarrow> Config \<Rightarrow> ('w, 'o, unit go) tool" where
  "file_SaveConfig tn path config =
     (case tn_EncodeConfig tn config of
        Inl err \<Rightarrow> State_Monad.return (Err err)
      | Inr encoded \<Rightarrow>
          attempt (no_error (request (tn_MkdirAll tn (Dir path)))) (\<lambda>_.
            no_error (write_file (tn_host tn) path encoded)))"

text \<open>The factory is built with the file configuration, so it always has a provider.\<close>

definition GetConfig :: "'w Tnctl \<Rightarrow> ('w, 'o, (Config \<times> bool) go) tool" where
  "GetConfig tn =
     do { w \<leftarrow> gets world;
          let path = ConfigPath (tn_host tn) w;
          attempt (HasConfig (tn_host tn) path) (\<lambda>found.
            if \<not> found then succeed (\<lparr>cf_Workflow = [], cf_Sources = []\<rparr>, False)
            else attempt (file_GetConfig tn path) (\<lambda>cfg. succeed (cfg, True))) }"

definition SaveConfig :: "'w Tnctl \<Rightarrow> Config \<Rightarrow> ('w, 'o, unit go) tool" where
  "SaveConfig tn config =
     do { w \<leftarrow> gets world; file_SaveConfig tn (ConfigPath (tn_host tn) w) config }"

definition ListAvailableProviders :: "'w Tnctl \<Rightarrow> ('w, 'o, string list go) tool" where
  "ListAvailableProviders tn =
     attempt (GetClient tn) (\<lambda>_.
       attempt (or_error (list_objects (tn_cc tn) KProvider as_Provider [])) (\<lambda>items.
         succeed (map (\<lambda>p. om_Name (prv_Meta p)) items)))"

section \<open>Sources\<close>

definition AddSource_Run :: "'w Tnctl \<Rightarrow> string \<Rightarrow> ('w, 'o, unit go) tool" where
  "AddSource_Run tn src =
     attempt (GetConfig tn) (\<lambda>(config, _).
       if Contains src (cf_Sources config)
       then do { Println ''%s Source already exists'' [FStr (tn_Icon tn ''good'')]; succeed () }
       else
         (let config = config\<lparr>cf_Sources := cf_Sources config @ [src]\<rparr> in
          attempt (SaveConfig tn config) (\<lambda>_.
            do { Println ''%s Successfully saved configuration'' [FStr (tn_Icon tn ''good'')];
                 SaveConfig tn config })))"

definition RemoveSource_Run :: "'w Tnctl \<Rightarrow> string \<Rightarrow> ('w, 'o, unit go) tool" where
  "RemoveSource_Run tn src =
     attempt (GetConfig tn) (\<lambda>(config, _).
       attempt (if Contains src (cf_Sources config)
                then SaveConfig tn (config\<lparr>cf_Sources := filter (\<lambda>s. s \<noteq> src) (cf_Sources config)\<rparr>)
                else succeed ()) (\<lambda>_.
         do { Println ''%s Successfully saved configuration'' [FStr (tn_Icon tn ''good'')]; succeed () }))"

fun print_sources :: "string list \<Rightarrow> ('w, 'o, unit) tool" where
  "print_sources [] = State_Monad.return ()"
| "print_sources (x # xs) = do { Println ''- %s'' [FStr x]; print_sources xs }"

definition ListSources_Run :: "'w Tnctl \<Rightarrow> ('w, 'o, unit go) tool" where
  "ListSources_Run tn =
     attempt (GetConfig tn) (\<lambda>(config, found).
       if \<not> found then fail ''no configuration found'' []
       else do { Println ''You currently have the following sources active'' [];
                 print_sources (cf_Sources config);
                 succeed () })"

section \<open>Symbolic execution\<close>

lemma wp_attempt [simp, wp_simps]:
  "wp (attempt m f) Q s =
     wp m (\<lambda>r t. case r of Ok x \<Rightarrow> wp (f x) Q t | Err e \<Rightarrow> Q (Err e) t | Panic \<Rightarrow> Q Panic t) s"
  unfolding attempt_def wp_bind
  by (rule arg_cong [of _ _ "\<lambda>R. wp m R s"]) (auto simp: fun_eq_iff split: go.splits)

lemma wp_or_error [simp, wp_simps]: "wp (or_error m) Q s = wp m (\<lambda>r. Q (of_sum r)) s"
  by (simp add: or_error_def wp_eta)

lemma wp_no_error [simp, wp_simps]: "wp (no_error m) Q s = wp m (\<lambda>r. Q (of_error r)) s"
  by (simp add: no_error_def wp_eta)

lemma wp_succeed [simp, wp_simps]: "wp (succeed x) Q s = Q (Ok x) s"
  by (simp add: succeed_def)

lemma wp_fail [simp, wp_simps]: "wp (fail format args) Q s = Q (Err (ErrMsg (Sprintf format args))) s"
  by (simp add: fail_def)

lemma wp_wrap_error [simp, wp_simps]:
  "wp (wrap_error format m) Q s =
     wp m (\<lambda>r. Q (case r of Ok x \<Rightarrow> Ok x | Err e \<Rightarrow> Err (ErrMsg (Sprintf format [FStr (Error e)])) | Panic \<Rightarrow> Panic)) s"
  by (simp add: wrap_error_def wp_eta)

lemma of_sum_simps [simp]:
  "of_sum (Inl e) = Err e" "of_sum (Inr x) = Ok x"
  "of_sum r = Ok y \<longleftrightarrow> r = Inr y" "of_sum r = Err e \<longleftrightarrow> r = Inl e" "of_sum r \<noteq> Panic" "Panic \<noteq> of_sum r"
  by (cases r; auto simp: of_sum_def)+

lemma of_error_simps [simp]:
  "of_error None = Ok ()" "of_error (Some e) = Err e"
  "of_error r = Ok u \<longleftrightarrow> r = None" "of_error r = Err e \<longleftrightarrow> r = Some e" "of_error r \<noteq> Panic" "Panic \<noteq> of_error r"
  by (cases r; auto simp: of_error_def)+

end
