(* ===== verification/Convert.thy ===== *)
theory Convert
  imports Cli Api_Cloud Policies
begin

text \<open>
  The commands that turn a Configuration, a Revision or a CloudResource back into terraform files
  (\<open>pkg/cmd/tnctl/convert\<close>). A method takes the options of its command and returns them updated.
\<close>

section \<open>Configurations\<close>

record ConfigurationCommand =
  cv_File :: string
  cv_Name :: string
  cv_Namespace :: string
  cv_IncludeProvider :: bool
  cv_IncludeCheckov :: bool
  cv_IncludeTerraform :: bool
  cv_Directory :: string
  cv_Configuration :: "Configuration option"
  cv_Contexts :: "Context list option"
  cv_Policies :: "Policy list option"
  cv_Providers :: "Provider list option"

text \<open>
  The loop over the secret references. The value of a secret is looked up under the name the
  variable gets, and stored under the plain name.
\<close>

fun resolve_secrets ::
  "'w Tnctl \<Rightarrow> string \<Rightarrow> bytes \<Rightarrow> nat \<Rightarrow> ValueFromSource list \<Rightarrow> ('w, 'o, bytes go) tool" where
  "resolve_secrets tn namespace raw i [] = succeed raw"
| "resolve_secrets tn namespace raw i (x # xs) =
     (case vf_Secret x of
        None \<Rightarrow> resolve_secrets tn namespace raw (Suc i) xs
      | Some name \<Rightarrow>
          attempt (or_error (GetIfExists (tn_cc tn) KSecret as_Secret namespace name)) (\<lambda>r.
            case r of
              None \<Rightarrow> fail ''spec.valueFrom[%d].secret: %q does not exist'' [FInt (int i), FStr name]
            | Some secret \<Rightarrow>
                (case gomap_find (sec_Data secret) (ValueFrom_GetName x) of
                   None \<Rightarrow> fail ''spec.valueFrom[%d].key: data key %q does not exist in secret''
                            [FInt (int i), FStr (vf_Key x)]
                 | Some v \<Rightarrow>
                     (case tn_SetBytes tn raw (vf_Name x) (JStr v) of
                        Inl err \<Rightarrow> State_Monad.return (Err err)
                      | Inr raw' \<Rightarrow> resolve_secrets tn namespace raw' (Suc i) xs))))"

fun resolve_contexts ::
  "'w Tnctl \<Rightarrow> Context list \<Rightarrow> bytes \<Rightarrow> ValueFromSource list \<Rightarrow> bytes go" where
  "resolve_contexts tn items raw [] = Ok raw"
| "resolve_contexts tn items raw (x # xs) =
     (case vf_Context x of
        None \<Rightarrow> resolve_contexts tn items raw xs
      | Some name \<Rightarrow>
          (case ContextList_GetItem items name of
             None \<Rightarrow> Err (ErrMsg (Sprintf ''context: %q not found in cluster, unable to resolve'' [FStr name]))
           | Some txt \<Rightarrow>
               (case GetVariable (tn_Libs tn) (ctx_Spec txt) (vf_Key x) of
                  Inl err \<Rightarrow> Err err
                | Inr None \<Rightarrow> Err (ErrMsg (Sprintf ''context: %q does not contain the key: %q''
                                  [FStr name, FStr (vf_Key x)]))
                | Inr (Some v) \<Rightarrow>
                    (case tn_SetBytes tn raw (vf_Name x) v of
                       Inl err \<Rightarrow> Err err
                     | Inr raw' \<Rightarrow> resolve_contexts tn items raw' xs))))"

text \<open>The configuration, from the options, a file or the cluster.\<close>

definition find_configuration :: "'w Tnctl \<Rightarrow> ConfigurationCommand \<Rightarrow> ('w, 'o, Configuration go) tool" where
  "find_configuration tn cmd =
     (case cv_Configuration cmd of
        Some configuration \<Rightarrow> succeed configuration
      | None \<Rightarrow>
          if cv_File cmd \<noteq> []
          then wrap_error ''failed to read configuration file: %w''
                 (LoadYAML (tn_host tn) (tn_DecodeConfiguration tn) (cv_File cmd))
          else attempt (GetClient tn) (\<lambda>_.
            attempt (or_error (GetIfExists (tn_cc tn) KConfiguration as_Configuration
                                 (cv_Namespace cmd) (cv_Name cmd))) (\<lambda>r.
              case r of
                None \<Rightarrow> fail ''configuration (%s/%s) does not exist'' [FStr (cv_Namespace cmd), FStr (cv_Name cmd)]
              | Some configuration \<Rightarrow> succeed configuration)))"

definition put_variables :: "bytes \<Rightarrow> Configuration \<Rightarrow> Configuration" where
  "put_variables raw configuration =
     configuration\<lparr>cfg_Spec := (cfg_Spec configuration)\<lparr>cs_Variables := Some \<lparr>re_Raw = raw\<rparr>\<rparr>\<rparr>"

text \<open>The secrets are resolved when the user answers no.\<close>

definition ask_secrets :: "'w Tnctl \<Rightarrow> Configuration \<Rightarrow> bytes \<Rightarrow> ('w, 'o, bytes go) tool" where
  "ask_secrets tn configuration raw =
     (if HasSecretReferences (cs_ValueFrom (cfg_Spec configuration))
      then attempt (or_error (request (h_Confirm (tn_host tn)
             ''The resource contains references to Secrets, do you want to resolve them?''))) (\<lambda>answer.
               if \<not> answer
               then attempt (GetClient tn) (\<lambda>_.
                      resolve_secrets tn (om_Namespace (cfg_Meta configuration)) raw 0
                        (cs_ValueFrom (cfg_Spec configuration)))
               else succeed raw)
      else succeed raw)"

definition ask_contexts ::
  "'w Tnctl \<Rightarrow> ConfigurationCommand \<Rightarrow> Configuration \<Rightarrow> bytes \<Rightarrow> ('w, 'o, (bytes \<times> Context list option) go) tool" where
  "ask_contexts tn cmd configuration raw =
     (if HasContextReferences (cs_ValueFrom (cfg_Spec configuration))
      then attempt (or_error (request (h_Confirm (tn_host tn)
             ''The resource contains references to Contexts, do you want to resolve them?''))) (\<lambda>answer.
               if answer
               then attempt
                      (case cv_Contexts cmd of
                         Some items \<Rightarrow> succeed items
                       | None \<Rightarrow>
                           attempt (GetClient tn) (\<lambda>_. or_error (list_objects (tn_cc tn) KContext as_Context []))) (\<lambda>items.
                      State_Monad.return
                        (case resolve_contexts tn items raw (cs_ValueFrom (cfg_Spec configuration)) of
                           Ok raw' \<Rightarrow> Ok (raw', Some items)
                         | Err e \<Rightarrow> Err e
                         | Panic \<Rightarrow> Panic))
               else succeed (raw, cv_Contexts cmd))
      else succeed (raw, cv_Contexts cmd))"

definition resolveConfiguration ::
  "'w Tnctl \<Rightarrow> ConfigurationCommand \<Rightarrow> ('w, 'o, (Configuration \<times> ConfigurationCommand) go) tool" where
  "resolveConfiguration tn cmd =
     attempt (find_configuration tn cmd) (\<lambda>configuration.
       if length (cs_ValueFrom (cfg_Spec configuration)) = 0
       then succeed (configuration, cmd\<lparr>cv_Configuration := Some configuration\<rparr>)
       else
         (let raw = (case cs_Variables (cfg_Spec configuration) of None \<Rightarrow> [] | Some v \<Rightarrow> re_Raw v) in
          attempt (ask_secrets tn configuration raw) (\<lambda>raw.
            attempt (ask_contexts tn cmd configuration raw) (\<lambda>(raw, contexts).
              (let configuration = put_variables raw configuration in
               succeed (configuration, cmd\<lparr>cv_Configuration := Some configuration, cv_Contexts := contexts\<rparr>))))))"

text \<open>
  The file \<open>main.tf\<close> is the rendered module, line by line: a blank line follows the source, and
  lines of two blanks are left out. The outcome of the write is that of opening the file; the
  results of the single writes are ignored.
\<close>

definition newline :: string where
  "newline = [char_of (10 :: nat)]"

definition module_line :: "string \<Rightarrow> string" where
  "module_line line =
     (if HasPrefix line ''  source = '' then line @ newline @ newline
      else if line = ''  '' then []
      else line @ newline)"

definition module_source :: "string \<Rightarrow> string" where
  "module_source src =
     (if StringContains src ''github.com'' \<and> HasPrefix src ''https://'' then TrimPrefix src ''https://''
      else src)"

definition renderConfiguration ::
  "'w Tnctl \<Rightarrow> ConfigurationCommand \<Rightarrow> Configuration \<Rightarrow> ('w, 'o, unit go) tool" where
  "renderConfiguration tn cmd configuration =
     (if \<not> cv_IncludeTerraform cmd then succeed ()
      else if cs_Module (cfg_Spec configuration) = [] then fail ''spec.module name is required'' []
      else
        attempt
          (if HasVariables (cfg_Spec configuration)
           then (case lib_JSONObject (tn_Libs tn)
                        (case cs_Variables (cfg_Spec configuration) of None \<Rightarrow> [] | Some v \<Rightarrow> re_Raw v) of
                   Inl err \<Rightarrow> fail ''failed to parse spec.variables: %w'' [FStr (Error err)]
                 | Inr vals \<Rightarrow> succeed (Some vals))
           else succeed None) (\<lambda>variables.
          case tn_Module tn (module_source (cs_Module (cfg_Spec configuration))) variables of
            Inl err \<Rightarrow> State_Monad.return (Err err)
          | Inr tmpl \<Rightarrow>
              no_error (write_file (tn_host tn) (JoinPath (cv_Directory cmd) ''main.tf'')
                (concat (map module_line (scan_lines tmpl))))))"

definition renderProvider ::
  "'w Tnctl \<Rightarrow> ConfigurationCommand \<Rightarrow> Configuration \<Rightarrow> ('w, 'o, ConfigurationCommand go) tool" where
  "renderProvider tn cmd configuration =
     (if cv_File cmd \<noteq> []
      then do { Println ''Skipping provider as file was provided'' []; succeed cmd }
      else if \<not> cv_IncludeProvider cmd then succeed cmd
      else
        (case cs_ProviderRef (cfg_Spec configuration) of
           None \<Rightarrow> succeed cmd
         | Some ref \<Rightarrow>
             attempt
               (case cv_Providers cmd of
                  Some items \<Rightarrow> succeed items
                | None \<Rightarrow>
                    attempt (GetClient tn) (\<lambda>_. or_error (list_objects (tn_cc tn) KProvider as_Provider []))) (\<lambda>items.
               case ProviderList_GetItem items (pr_Name ref) of
                 None \<Rightarrow> fail ''provider: %q does not exist in cluster'' [FStr []]
               | Some provider \<Rightarrow>
                   (case NewTerraformProvider (tn_Libs tn) (tn_Renderers tn) (om_Name (prv_Meta provider))
                           (case prs_Configuration (prv_Spec provider) of None \<Rightarrow> [] | Some c \<Rightarrow> re_Raw c) of
                      Inl err \<Rightarrow> State_Monad.return (Err err)
                    | Inr tmpl \<Rightarrow>
                        attempt (no_error (write_file (tn_host tn) (JoinPath (cv_Directory cmd) ''provider.tf'') tmpl)) (\<lambda>_.
                          succeed (cmd\<lparr>cv_Providers := Some items\<rparr>))))))"

definition renderPolicy ::
  "'w Tnctl \<Rightarrow> ConfigurationCommand \<Rightarrow> Configuration \<Rightarrow> ('w, 'o, unit go) tool" where
  "renderPolicy tn cmd configuration =
     (if cv_File cmd \<noteq> []
      then do { Println ''Skipping checkov policy as file was provided'' []; succeed () }
      else if \<not> cv_IncludeCheckov cmd then succeed ()
      else attempt (GetClient tn) (\<lambda>_.
        (let name = om_Namespace (cfg_Meta configuration) in
         attempt (or_error (GetIfExists (tn_cc tn) KNamespace as_Namespace [] name)) (\<lambda>r.
           case r of
             None \<Rightarrow> fail ''namespace %q not found'' [FStr name]
           | Some namespace \<Rightarrow>
               attempt
                 (case cv_Policies cmd of
                    Some items \<Rightarrow> succeed items
                  | None \<Rightarrow> or_error (list_objects (tn_cc tn) KPolicy as_Policy [])) (\<lambda>items.
                 case FindMatchingPolicy (tn_Libs tn) configuration namespace items of
                   Inl err \<Rightarrow> State_Monad.return (Err err)
                 | Inr None \<Rightarrow> succeed ()
                 | Inr (Some policy) \<Rightarrow>
                     (case tn_Checkov tn ''terraform'' policy of
                        Inl err \<Rightarrow> State_Monad.return (Err err)
                      | Inr generated \<Rightarrow>
                          no_error (write_file (tn_host tn) (JoinPath (cv_Directory cmd) ''.checkov.yml'') generated)))))))"

text \<open>The run returns the configuration as it was rendered.\<close>

definition Configuration_Run :: "'w Tnctl \<Rightarrow> ConfigurationCommand \<Rightarrow> ('w, 'o, Configuration go) tool" where
  "Configuration_Run tn cmd =
     (if cv_File cmd = [] \<and> (cv_Name cmd = [] \<or> cv_Namespace cmd = []) \<and> cv_Configuration cmd = None
      then fail ''either file or name and namespace must be provided'' []
      else attempt (resolveConfiguration tn cmd) (\<lambda>(configuration, cmd).
        attempt (renderConfiguration tn cmd configuration) (\<lambda>_.
          attempt (renderProvider tn cmd configuration) (\<lambda>cmd.
            attempt (renderPolicy tn cmd configuration) (\<lambda>_. succeed configuration)))))"

section \<open>Cloud resources\<close>

record CloudResourceCommand =
  crc_Name :: string
  crc_Namespace :: string
  crc_IncludeProvider :: bool
  crc_IncludeCheckov :: bool
  crc_Directory :: string

text \<open>The name of the configuration of a cloud resource that is ready, or the error.\<close>

definition ready_configuration :: "string \<Rightarrow> string \<Rightarrow> CloudResource \<Rightarrow> string go" where
  "ready_configuration namespace name x =
     (let args = [FStr namespace, FStr name] in
      case GetCondition (crst_Common (cr_Status x)) ConditionConfigurationReady of
        None \<Rightarrow> Err (ErrMsg (Sprintf ''cloudresource (%s/%s) is not ready'' args))
      | Some cond \<Rightarrow>
          if cd_Reason cond = ReasonError
          then Err (ErrMsg (Sprintf ''cloudresource (%s/%s) has failed: %s'' (args @ [FStr (cd_Message cond)])))
          else if cd_Status cond \<noteq> ConditionTrue
          then Err (ErrMsg (Sprintf ''cloudresource (%s/%s) is not ready'' args))
          else if crst_ConfigurationName (cr_Status x) = []
          then Err (ErrMsg (Sprintf ''cloudresource (%s/%s) does not have a configuration'' args))
          else Ok (crst_ConfigurationName (cr_Status x)))"

definition CloudResource_Run :: "'w Tnctl \<Rightarrow> CloudResourceCommand \<Rightarrow> ('w, 'o, unit go) tool" where
  "CloudResource_Run tn cmd =
     (if crc_Name cmd = [] then fail ''name is required'' []
      else if crc_Namespace cmd = [] then fail ''namespace is required'' []
      else attempt (GetClient tn) (\<lambda>_.
        attempt (or_error (GetIfExists (tn_cc tn) KCloudResource as_CloudResource
                   (crc_Namespace cmd) (crc_Name cmd))) (\<lambda>r.
          case r of
            None \<Rightarrow> fail ''cloudresource (%s/%s) does not exist'' [FStr (crc_Namespace cmd), FStr (crc_Name cmd)]
          | Some x \<Rightarrow>
              attempt (State_Monad.return (ready_configuration (crc_Namespace cmd) (crc_Name cmd) x)) (\<lambda>configuration.
                attempt (Configuration_Run tn
                  \<lparr>cv_File = [], cv_Name = configuration, cv_Namespace = crc_Namespace cmd,
                   cv_IncludeProvider = crc_IncludeProvider cmd, cv_IncludeCheckov = crc_IncludeCheckov cmd,
                   cv_IncludeTerraform = True, cv_Directory = crc_Directory cmd, cv_Configuration = None,
                   cv_Contexts = None, cv_Policies = None, cv_Providers = None\<rparr>) (\<lambda>_. succeed ())))))"

section \<open>Revisions\<close>

record RevisionCommand =
  rc_Name :: string
  rc_Namespace :: string
  rc_IncludeProvider :: bool
  rc_IncludeCheckov :: bool
  rc_IncludeTerraform :: bool
  rc_Directory :: string
  rc_File :: string
  rc_Revision :: "Revision option"
  rc_Contexts :: "Context list option"
  rc_Policies :: "Policy list option"
  rc_Providers :: "Provider list option"

definition retrieveRevision :: "'w Tnctl \<Rightarrow> RevisionCommand \<Rightarrow> ('w, 'o, Revision go) tool" where
  "retrieveRevision tn cmd =
     (case rc_Revision cmd of
        Some revision \<Rightarrow> succeed revision
      | None \<Rightarrow>
          if rc_File cmd \<noteq> [] then LoadYAML (tn_host tn) (tn_DecodeRevision tn) (rc_File cmd)
          else attempt (GetClient tn) (\<lambda>_.
            attempt (or_error (GetIfExists (tn_cc tn) KRevision as_Revision (rc_Namespace cmd) (rc_Name cmd))) (\<lambda>r.
              case r of
                None \<Rightarrow> fail ''revision not found'' []
              | Some revision \<Rightarrow> succeed revision)))"

text \<open>Whether the user is asked for an input: it says whether it is required, has a type, but no default.\<close>

definition asks_for :: "RevisionInput \<Rightarrow> bool" where
  "asks_for input \<longleftrightarrow> ri_Required input \<noteq> None \<and> ri_Default input = None \<and> ri_Type input \<noteq> None"

fun check_types :: "nat \<Rightarrow> RevisionInput list \<Rightarrow> gerror option" where
  "check_types i [] = None"
| "check_types i (input # inputs) =
     (if \<not> asks_for input then check_types (Suc i) inputs
      else
        (let t = (case ri_Type input of None \<Rightarrow> [] | Some t \<Rightarrow> t) in
         if t \<in> {''string'', ''number'', ''bool''} then check_types (Suc i) inputs
         else if t = []
         then Some (ErrMsg (Sprintf ''spec.inputs[%d].type is required (if a complex type and no default set, use an editor to define)''
                [FInt (int i)]))
         else Some (ErrMsg (Sprintf ''spec.inputs[%d] is a complex type, please use an editor to specify a default''
                [FInt (int i)]))))"

text \<open>
  The default made of an answer. The verb \<open>%T\<close> of the boolean prints the type of the answer, which
  is a string.
\<close>

definition quoted :: "string \<Rightarrow> string" where
  "quoted s = [char_of (34 :: nat)] @ s @ [char_of (34 :: nat)]"

definition parse_error :: "string \<Rightarrow> gerror" where
  "parse_error s =
     ErrMsg (Sprintf ''strconv.ParseInt: parsing %q: %s'' [FStr s,
       FStr (if parse_unsigned s \<noteq> None \<or>
                (s \<noteq> [] \<and> hd s \<in> {CHR ''-'', CHR ''+''} \<and> parse_unsigned (tl s) \<noteq> None)
             then ''value out of range'' else ''invalid syntax'')])"

definition input_default :: "string \<Rightarrow> string \<Rightarrow> gerror + bytes" where
  "input_default t selected =
     (if t = ''bool'' then Inr (''{'' @ quoted ''value'' @ '':string}'')
      else if t = ''number'' then
        (case ParseInt64 selected of
           None \<Rightarrow> Inl (parse_error selected)
         | Some n \<Rightarrow> Inr (''{'' @ quoted ''value'' @ '':'' @ string_of_int n @ ''}''))
      else Inr (''{'' @ quoted ''value'' @ '': '' @ quoted selected @ ''}''))"

fun ask_inputs :: "'w Tnctl \<Rightarrow> RevisionInput list \<Rightarrow> ('w, 'o, RevisionInput list go) tool" where
  "ask_inputs tn [] = succeed []"
| "ask_inputs tn (input # inputs) =
     (let t = (case ri_Type input of None \<Rightarrow> [] | Some t \<Rightarrow> t) in
      attempt
        (if asks_for input \<and> t \<in> {''string'', ''number'', ''bool''}
         then attempt (or_error (request (h_Ask (tn_host tn)
                (Sprintf ''Input %s is a mandatory input, what should it%ss value be?''
                   [FStr (ri_Key input), FStr [CHR 0x27]]) []))) (\<lambda>selected.
                case input_default t selected of
                  Inl err \<Rightarrow> State_Monad.return (Err err)
                | Inr raw \<Rightarrow> succeed (input\<lparr>ri_Default := Some \<lparr>re_Raw = raw\<rparr>\<rparr>))
         else succeed input) (\<lambda>input.
        attempt (ask_inputs tn inputs) (\<lambda>inputs. succeed (input # inputs))))"

definition set_inputs :: "RevisionInput list \<Rightarrow> Revision \<Rightarrow> Revision" where
  "set_inputs inputs revision = revision\<lparr>rv_Spec := (rv_Spec revision)\<lparr>rvs_Inputs := inputs\<rparr>\<rparr>"

definition retrieveInputs :: "'w Tnctl \<Rightarrow> Revision \<Rightarrow> ('w, 'o, Revision go) tool" where
  "retrieveInputs tn revision =
     (case check_types 0 (rvs_Inputs (rv_Spec revision)) of
        Some err \<Rightarrow> State_Monad.return (Err err)
      | None \<Rightarrow>
          attempt (ask_inputs tn (rvs_Inputs (rv_Spec revision))) (\<lambda>inputs.
            succeed (set_inputs inputs revision)))"

text \<open>
  The defaults of the inputs become variables. The variables are a pointer that the revision and
  the configuration made of it share; when it is nil the first assignment panics.
\<close>

fun input_variables :: "'w Tnctl \<Rightarrow> RevisionSpec \<Rightarrow> RawExtension option \<Rightarrow> RevisionInput list \<Rightarrow> RawExtension option go" where
  "input_variables tn spec vars [] = Ok vars"
| "input_variables tn spec vars (input # inputs) =
     (if ri_Default input = None then input_variables tn spec vars inputs
      else (case GetInputDefaultValue (tn_Libs tn) spec (ri_Key input) of
              Inl err \<Rightarrow> Err err
            | Inr (v, found) \<Rightarrow>
                if \<not> found then input_variables tn spec vars inputs
                else (case vars of
                        None \<Rightarrow> Panic
                      | Some raw \<Rightarrow>
                          (case tn_SetBytes tn (re_Raw raw) (ri_Key input) (case v of None \<Rightarrow> JNull | Some x \<Rightarrow> x) of
                             Inl err \<Rightarrow> Err err
                           | Inr raw' \<Rightarrow> input_variables tn spec (Some \<lparr>re_Raw = raw'\<rparr>) inputs))))"

definition share_variables :: "RawExtension option \<Rightarrow> Revision \<Rightarrow> Revision" where
  "share_variables vars revision =
     revision\<lparr>rv_Spec := (rv_Spec revision)
       \<lparr>rvs_Configuration := (rvs_Configuration (rv_Spec revision))\<lparr>cs_Variables := vars\<rparr>\<rparr>\<rparr>"

definition revision_configuration :: "Revision \<Rightarrow> Configuration" where
  "revision_configuration revision =
     \<lparr>cfg_Type = \<lparr>tm_Kind = [], tm_APIVersion = []\<rparr>,
      cfg_Meta = (named_meta ''default'' (om_Name (rv_Meta revision)))
        \<lparr>om_Annotations := om_Annotations (rv_Meta revision), om_Labels := om_Labels (rv_Meta revision)\<rparr>,
      cfg_Spec = rvs_Configuration (rv_Spec revision),
      cfg_Status = empty_configuration_status\<rparr>"

definition revision_renderConfiguration :: "'w Tnctl \<Rightarrow> Revision \<Rightarrow> (Configuration \<times> Revision) go" where
  "revision_renderConfiguration tn revision =
     (case input_variables tn (rv_Spec revision) (cs_Variables (rvs_Configuration (rv_Spec revision)))
             (rvs_Inputs (rv_Spec revision)) of
        Err e \<Rightarrow> Err e
      | Panic \<Rightarrow> Panic
      | Ok vars \<Rightarrow>
          (let revision = share_variables vars revision in Ok (revision_configuration revision, revision)))"

definition renderCloudResource :: "'w Tnctl \<Rightarrow> string \<Rightarrow> Revision \<Rightarrow> ('w, 'o, unit go) tool" where
  "renderCloudResource tn directory revision =
     (case NewCloudResourceFromRevision (tn_Libs tn) revision of
        Inl err \<Rightarrow> State_Monad.return (Err err)
      | Inr x \<Rightarrow>
          WriteYAML (tn_host tn) (tn_EncodeCloudResource tn) (JoinPath directory ''cloudresource.yaml'') x)"

text \<open>The run returns the revision as it is afterwards: its inputs and variables may have changed.\<close>

definition Revision_Run :: "'w Tnctl \<Rightarrow> RevisionCommand \<Rightarrow> ('w, 'o, Revision go) tool" where
  "Revision_Run tn cmd =
     (if rc_File cmd = [] \<and> (rc_Name cmd = [] \<or> rc_Namespace cmd = []) \<and> rc_Revision cmd = None
      then fail ''either file or name and namespace must be provided'' []
      else attempt (retrieveRevision tn cmd) (\<lambda>revision.
        attempt (retrieveInputs tn revision) (\<lambda>revision.
          attempt (State_Monad.return (revision_renderConfiguration tn revision)) (\<lambda>(configuration, revision).
            attempt (renderCloudResource tn (rc_Directory cmd) revision) (\<lambda>_.
              attempt (Configuration_Run tn
                \<lparr>cv_File = [], cv_Name = [], cv_Namespace = [], cv_IncludeProvider = rc_IncludeProvider cmd,
                 cv_IncludeCheckov = rc_IncludeCheckov cmd, cv_IncludeTerraform = rc_IncludeTerraform cmd,
                 cv_Directory = rc_Directory cmd, cv_Configuration = Some configuration,
                 cv_Contexts = rc_Contexts cmd, cv_Policies = rc_Policies cmd, cv_Providers = rc_Providers cmd\<rparr>)
                (\<lambda>configuration.
                  succeed (if cs_Variables (rvs_Configuration (rv_Spec revision)) = None then revision
                           else share_variables (cs_Variables (cfg_Spec configuration)) revision)))))))"

end
