(* ===== verification/Verify.thy ===== *)
theory Verify
  imports Convert
begin

text \<open>
  The command that checks a Revision before it is published (\<open>pkg/cmd/tnctl/verify\<close>): the
  recorded checks, the sources of contexts, policies and providers, the checks themselves and
  the run. The options of the command are the resource of the run.
\<close>

section \<open>Recorded checks\<close>

record Check =
  ck_Severity :: string
  ck_Status :: string
  ck_Detail :: string

record CheckGroup =
  cg_Title :: string
  cg_Checks :: "Check list"

definition PassedStatus :: string where "PassedStatus = ''PASSED''"

definition FailedStatus :: string where "FailedStatus = ''FAILED''"

definition SkippedStatus :: string where "SkippedStatus = ''SKIPPED''"

definition WarningStatus :: string where "WarningStatus = ''WARNING''"

definition InfoStatus :: string where "InfoStatus = ''INFO''"

definition SeverityWarning :: string where "SeverityWarning = ''WARNING''"

definition SeverityHigh :: string where "SeverityHigh = ''HIGH''"

definition StatusCount :: "CheckGroup list \<Rightarrow> string \<Rightarrow> nat" where
  "StatusCount groups status =
     sum_list (map (\<lambda>g. length (filter (\<lambda>c. ck_Status c = status) (cg_Checks g))) groups)"

definition WarningCount :: "CheckGroup list \<Rightarrow> nat" where
  "WarningCount groups = StatusCount groups WarningStatus"

definition FailedCount :: "CheckGroup list \<Rightarrow> nat" where
  "FailedCount groups = StatusCount groups FailedStatus"

definition PassedCount :: "CheckGroup list \<Rightarrow> nat" where
  "PassedCount groups = StatusCount groups PassedStatus"

fun GetGroup :: "CheckGroup list \<Rightarrow> string \<Rightarrow> CheckGroup option" where
  "GetGroup [] title = None"
| "GetGroup (g # gs) title = (if cg_Title g = title then Some g else GetGroup gs title)"

fun append_check :: "string \<Rightarrow> Check \<Rightarrow> CheckGroup list \<Rightarrow> CheckGroup list" where
  "append_check title c [] = []"
| "append_check title c (g # gs) =
     (if cg_Title g = title then g\<lparr>cg_Checks := cg_Checks g @ [c]\<rparr> # gs else g # append_check title c gs)"

section \<open>The command\<close>

record VerifyCommand =
  vy_File :: string
  vy_SourceDir :: string
  vy_CheckovImage :: string
  vy_TerraformImage :: string
  vy_Directory :: string
  vy_EnableCluster :: bool
  vy_EnableTerraformPlan :: bool
  vy_ShowGuidelines :: bool
  vy_Contexts :: "Context list option"
  vy_Policies :: "Policy list option"
  vy_Providers :: "Provider list option"
  vy_Verify :: "CheckGroup list"
  vy_KeepTempDir :: bool

type_synonym ('w, 'a) verifier = "('w, VerifyCommand, 'a) tool"

text \<open>One recorded check: its severity and status, and the line printed for it.\<close>

definition verdict ::
  "'w Tnctl \<Rightarrow> string \<Rightarrow> string \<Rightarrow> string \<Rightarrow> string \<Rightarrow> farg list \<Rightarrow> ('w, unit) verifier" where
  "verdict tn title severity status detail args =
     do { modify_resource (\<lambda>cmd. cmd\<lparr>vy_Verify := append_check title
            \<lparr>ck_Severity = severity, ck_Status = status, ck_Detail = Sprintf detail args\<rparr> (vy_Verify cmd)\<rparr>);
          print (tn_Line tn status (Sprintf detail args)) }"

definition Additional :: "'w Tnctl \<Rightarrow> string \<Rightarrow> string \<Rightarrow> farg list \<Rightarrow> ('w, unit) verifier" where
  "Additional tn title detail args = verdict tn title [] InfoStatus detail args"

definition Info :: "'w Tnctl \<Rightarrow> string \<Rightarrow> string \<Rightarrow> farg list \<Rightarrow> ('w, unit) verifier" where
  "Info tn title detail args = verdict tn title SeverityHigh InfoStatus detail args"

definition Warning :: "'w Tnctl \<Rightarrow> string \<Rightarrow> string \<Rightarrow> farg list \<Rightarrow> ('w, unit) verifier" where
  "Warning tn title detail args = verdict tn title SeverityWarning WarningStatus detail args"

definition Skipped :: "'w Tnctl \<Rightarrow> string \<Rightarrow> string \<Rightarrow> farg list \<Rightarrow> ('w, unit) verifier" where
  "Skipped tn title detail args = verdict tn title SeverityHigh SkippedStatus detail args"

definition Failed :: "'w Tnctl \<Rightarrow> string \<Rightarrow> string \<Rightarrow> farg list \<Rightarrow> ('w, unit) verifier" where
  "Failed tn title detail args = verdict tn title SeverityHigh FailedStatus detail args"

definition Passed :: "'w Tnctl \<Rightarrow> string \<Rightarrow> string \<Rightarrow> farg list \<Rightarrow> ('w, unit) verifier" where
  "Passed tn title detail args = verdict tn title SeverityHigh PassedStatus detail args"

text \<open>\<open>CheckResult.Check\<close> hands the group of the title, made when it is new, to the function.\<close>

definition with_group :: "'w Tnctl \<Rightarrow> string \<Rightarrow> (string \<Rightarrow> ('w, 'a) verifier) \<Rightarrow> ('w, 'a) verifier" where
  "with_group tn title call =
     do { cmd \<leftarrow> gets resource;
          (if GetGroup (vy_Verify cmd) title = None
           then do { modify_resource (\<lambda>cmd. cmd\<lparr>vy_Verify := vy_Verify cmd @ [\<lparr>cg_Title = title, cg_Checks = []\<rparr>]\<rparr>);
                     print (tn_Line tn ''TITLE'' title) }
           else State_Monad.return ());
          call title }"

section \<open>Sources\<close>

fun source_documents :: "'w Tnctl \<Rightarrow> string \<Rightarrow> string \<Rightarrow> string list \<Rightarrow> ('w, unit go) verifier" where
  "source_documents tn v path [] = succeed ()"
| "source_documents tn v path (doc # docs) =
     (if \<not> StringContains doc ''kind'' then source_documents tn v path docs
      else if StringContains doc ''kind: Context''
      then do { Info tn v ''Sourcing additional Context from %s'' [FStr path];
                attempt (State_Monad.return (of_sum (tn_DecodeContext tn doc))) (\<lambda>x.
                  do { modify_resource (\<lambda>cmd. cmd\<lparr>vy_Contexts := map_option (\<lambda>l. l @ [x]) (vy_Contexts cmd)\<rparr>);
                       source_documents tn v path docs }) }
      else if StringContains doc ''kind: Policy''
      then do { Info tn v ''Sourcing additional Policy from %s'' [FStr path];
                attempt (State_Monad.return (of_sum (tn_DecodePolicy tn doc))) (\<lambda>x.
                  do { modify_resource (\<lambda>cmd. cmd\<lparr>vy_Policies := map_option (\<lambda>l. l @ [x]) (vy_Policies cmd)\<rparr>);
                       source_documents tn v path docs }) }
      else if StringContains doc ''kind: Provider''
      then do { Info tn v ''Sourcing additional Provider from %s'' [FStr path];
                attempt (State_Monad.return (of_sum (tn_DecodeProvider tn doc))) (\<lambda>x.
                  do { modify_resource (\<lambda>cmd. cmd\<lparr>vy_Providers := map_option (\<lambda>l. l @ [x]) (vy_Providers cmd)\<rparr>);
                       source_documents tn v path docs }) }
      else source_documents tn v path docs)"

text \<open>The function given to \<open>filepath.Walk\<close>, on each visited path; its first error ends the walk.\<close>

fun walk_files :: "'w Tnctl \<Rightarrow> string \<Rightarrow> (string \<times> (gerror + bool)) list \<Rightarrow> ('w, unit go) verifier" where
  "walk_files tn v [] = succeed ()"
| "walk_files tn v ((path, info) # rest) =
     (case info of
        Inl err \<Rightarrow> State_Monad.return (Err err)
      | Inr dir \<Rightarrow>
          if dir \<or> \<not> Contains (Ext path) [''.yaml'', ''.yml''] then walk_files tn v rest
          else attempt (or_error (request (h_ReadFile (tn_host tn) path))) (\<lambda>content.
            attempt (source_documents tn v path (YAMLDocuments content)) (\<lambda>_. walk_files tn v rest)))"

definition sourceFiles :: "'w Tnctl \<Rightarrow> ('w, unit go) verifier" where
  "sourceFiles tn =
     do { modify_resource (\<lambda>cmd. cmd
            \<lparr>vy_Contexts := Some (case vy_Contexts cmd of None \<Rightarrow> [] | Some l \<Rightarrow> l),
             vy_Policies := Some (case vy_Policies cmd of None \<Rightarrow> [] | Some l \<Rightarrow> l),
             vy_Providers := Some (case vy_Providers cmd of None \<Rightarrow> [] | Some l \<Rightarrow> l)\<rparr>);
          cmd \<leftarrow> gets resource;
          if vy_SourceDir cmd = [] then succeed ()
          else attempt (or_error (DirExists (tn_host tn) (vy_SourceDir cmd))) (\<lambda>found.
            if \<not> found then fail ''source directory: %q does not exist'' [FStr (vy_SourceDir cmd)]
            else with_group tn ''Validating Sources Directory'' (\<lambda>v.
              do { Info tn v ''Loading sources from directory: %s'' [FStr (vy_SourceDir cmd)];
                   visited \<leftarrow> request (tn_Walk tn (vy_SourceDir cmd));
                   walk_files tn v visited })) }"

definition merged :: "('a list \<Rightarrow> 'a list \<Rightarrow> 'a list) \<Rightarrow> 'a list option \<Rightarrow> 'a list \<Rightarrow> 'a list option" where
  "merged merge current items = Some (case current of None \<Rightarrow> items | Some l \<Rightarrow> merge l items)"

definition sourceFromCluster :: "'w Tnctl \<Rightarrow> ('w, unit go) verifier" where
  "sourceFromCluster tn =
     do { cmd \<leftarrow> gets resource;
          if \<not> vy_EnableCluster cmd then succeed ()
          else attempt (wrap_error ''failed to create client on current kubeconfig: %w'' (GetClient tn)) (\<lambda>_.
            attempt (wrap_error ''failed to retrieves contexts from cluster: %w''
                       (or_error (list_objects (tn_cc tn) KContext as_Context []))) (\<lambda>items.
              do { modify_resource (\<lambda>cmd. cmd\<lparr>vy_Contexts := merged ContextList_Merge (vy_Contexts cmd) items\<rparr>);
                   attempt (wrap_error ''failed to retrieves providers from cluster: %w''
                              (or_error (list_objects (tn_cc tn) KProvider as_Provider []))) (\<lambda>items.
                     do { modify_resource (\<lambda>cmd. cmd\<lparr>vy_Providers := merged ProviderList_Merge (vy_Providers cmd) items\<rparr>);
                          attempt (wrap_error ''failed to retrieves policies from cluster: %w''
                                     (or_error (list_objects (tn_cc tn) KPolicy as_Policy []))) (\<lambda>items.
                            do { modify_resource (\<lambda>cmd. cmd\<lparr>vy_Policies := merged PolicyList_Merge (vy_Policies cmd) items\<rparr>);
                                 succeed () }) }) })) }"

text \<open>The directory the terraform files are written to.\<close>

definition choose_directory :: "'w Tnctl \<Rightarrow> string \<Rightarrow> ('w, string go) verifier" where
  "choose_directory tn dir =
     (if dir = []
      then wrap_error ''failed to create temporary directory, error: %w'' (or_error (request (tn_MkdirTemp tn ''revision-*'')))
      else if dir = ''.''
      then wrap_error ''failed to get the current working directory, error: %w'' (or_error (request (tn_Getwd tn)))
      else if \<not> IsAbs dir
      then attempt (wrap_error ''failed to get the current working directory, error: %w'' (or_error (request (tn_Getwd tn))))
             (\<lambda>path. succeed (JoinPath path dir))
      else succeed dir)"

definition convertRevision :: "'w Tnctl \<Rightarrow> Revision \<Rightarrow> ('w, Revision go) verifier" where
  "convertRevision tn revision =
     do { cmd \<leftarrow> gets resource;
          attempt (choose_directory tn (vy_Directory cmd)) (\<lambda>dir.
            do { modify_resource (\<lambda>cmd. cmd\<lparr>vy_Directory := dir\<rparr>);
                 case vy_Providers cmd of
                   None \<Rightarrow> State_Monad.return Panic
                 | Some providers \<Rightarrow>
                     wrap_error ''failed to convert revision to terraform code, error: %w''
                       (Revision_Run tn
                         \<lparr>rc_Name = [], rc_Namespace = [], rc_IncludeProvider = (length providers > 0),
                          rc_IncludeCheckov = False, rc_IncludeTerraform = True, rc_Directory = dir, rc_File = [],
                          rc_Revision = Some revision, rc_Contexts = vy_Contexts cmd,
                          rc_Policies = vy_Policies cmd, rc_Providers = Some providers\<rparr>) }) }"

section \<open>The checks of the revision\<close>

text \<open>A check that reads nothing: the verdicts it records, in order.\<close>

type_synonym finding = "string \<times> string \<times> string \<times> farg list"

fun record_all :: "'w Tnctl \<Rightarrow> string \<Rightarrow> finding list \<Rightarrow> ('w, unit) verifier" where
  "record_all tn v [] = State_Monad.return ()"
| "record_all tn v ((severity, status, detail, args) # fs) =
     do { verdict tn v severity status detail args; record_all tn v fs }"

definition passed_finding :: "string \<Rightarrow> finding" where "passed_finding detail = (SeverityHigh, PassedStatus, detail, [])"

definition failed_finding :: "string \<Rightarrow> finding" where "failed_finding detail = (SeverityHigh, FailedStatus, detail, [])"

definition warned_finding :: "string \<Rightarrow> finding" where "warned_finding detail = (SeverityWarning, WarningStatus, detail, [])"

definition spec_findings :: "RevisionDefinition \<Rightarrow> finding list" where
  "spec_findings plan =
     (if length (rd_Categories plan) = 0
      then [warned_finding ''The Revision does not have any categories defined'']
      else [passed_finding ''The Revision has categories defined'']) @
     (if length (rd_Description plan) = 0
      then [failed_finding ''The Revision does not have a description defined'']
      else [passed_finding ''The Revision has a description defined'']) @
     (if rd_Description plan = ''ADD DESCRIPTION''
      then [warned_finding ''The Revision has the default description defined''] else []) @
     (if length (rd_ChangeLog plan) = 0
      then [warned_finding ''You should consider adding a changelog to the spec.plan definition'']
      else [passed_finding ''The Revision has a changelog defined'']) @
     (if rd_ChangeLog plan = ''ADD CHANGELOG''
      then [warned_finding ''The Revision has the default changelog defined''] else []) @
     (if length (rd_Name plan) = 0
      then [failed_finding ''The Revision does not have a spec.plan.name defined''] else [])"

definition checkRevisionSpec :: "'w Tnctl \<Rightarrow> Revision \<Rightarrow> ('w, unit go) verifier" where
  "checkRevisionSpec tn revision =
     with_group tn ''Validating Revision Specification'' (\<lambda>v.
       do { record_all tn v (spec_findings (rvs_Plan (rv_Spec revision))); succeed () })"

definition input_findings :: "nat \<Rightarrow> RevisionInput \<Rightarrow> finding list" where
  "input_findings i input =
     (let pos = [FInt (int i)] in
      [(SeverityHigh, InfoStatus, ''Checking input: %s'', [FStr (ri_Key input)])] @
      (if ri_Type input = None
       then [(SeverityWarning, WarningStatus, ''Input (spec.inputs[%d]) does not have a type defined'', pos)] else []) @
      (if ri_Description input = []
       then [(SeverityHigh, FailedStatus, ''Input (spec.inputs[%d].description) does not have a description defined'', pos)] else []) @
      (if ri_Key input = []
       then [(SeverityHigh, FailedStatus, ''Input (spec.inputs[%d].key) does not have a key defined'', pos)] else []) @
      (if ri_Default input = None \<and> (case ri_Required input of None \<Rightarrow> False | Some b \<Rightarrow> b)
       then [(SeverityWarning, WarningStatus, ''Input (spec.inputs[%d].default) does not have a default defined'', pos)] else []))"

fun inputs_findings :: "nat \<Rightarrow> RevisionInput list \<Rightarrow> finding list" where
  "inputs_findings i [] = []"
| "inputs_findings i (input # inputs) = input_findings i input @ inputs_findings (Suc i) inputs"

definition checkRevisionInputs :: "'w Tnctl \<Rightarrow> Revision \<Rightarrow> ('w, unit go) verifier" where
  "checkRevisionInputs tn revision =
     with_group tn ''Validating Revision Inputs'' (\<lambda>v.
       do { record_all tn v (inputs_findings 0 (rvs_Inputs (rv_Spec revision))); succeed () })"

text \<open>The image named by the last argument of the form \<open>flag=image\<close>, and whether there was one.\<close>

fun find_image :: "string \<Rightarrow> string \<times> bool \<Rightarrow> string list \<Rightarrow> string \<times> bool" where
  "find_image flag acc [] = acc"
| "find_image flag acc (x # xs) =
     (if \<not> StringContains x flag then find_image flag acc xs
      else (case Split x CHR ''='' of
              [_, img] \<Rightarrow> find_image flag (img, True) xs
            | _ \<Rightarrow> find_image flag acc xs))"

definition discover_image ::
  "'w Tnctl \<Rightarrow> string \<Rightarrow> string \<Rightarrow> string \<Rightarrow> (string \<Rightarrow> VerifyCommand \<Rightarrow> VerifyCommand) \<Rightarrow>
   string \<Rightarrow> ('w, unit go) verifier" where
  "discover_image tn v flag name set_image latest =
     do { c \<leftarrow> request (h_Client (tn_host tn));
          if c \<noteq> None then do { Warning tn v latest []; succeed () }
          else do { r \<leftarrow> request (tn_Args tn);
                    case r of
                      Inr (Some (args # _)) \<Rightarrow>
                        (case find_image flag (''latest'', False) args of
                           (img, found) \<Rightarrow>
                             do { modify_resource (set_image img);
                                  (if \<not> found
                                   then Info tn v (''Unable to discover '' @ name @ '' version from cluster, using: %q'') [FStr img]
                                   else Passed tn v (''Discovered '' @ name @ '' version: %q'') [FStr img]);
                                  succeed () })
                    | _ \<Rightarrow> do { Warning tn v latest []; succeed () } } }"

definition retrieveCheckovVersion :: "'w Tnctl \<Rightarrow> ('w, unit go) verifier" where
  "retrieveCheckovVersion tn =
     do { cmd \<leftarrow> gets resource;
          if vy_CheckovImage cmd \<noteq> [] then succeed ()
          else do { modify_resource (\<lambda>cmd. cmd\<lparr>vy_CheckovImage := ''latest''\<rparr>);
                    with_group tn ''Retrieving Checkov Version'' (\<lambda>v.
                      discover_image tn v ''--policy-image='' ''Checkov'' (\<lambda>img cmd. cmd\<lparr>vy_CheckovImage := img\<rparr>)
                        ''Unable to discover Checkov version from cluster, defaulting to latest'') } }"

definition retrieveTerraformVersion :: "'w Tnctl \<Rightarrow> ('w, unit go) verifier" where
  "retrieveTerraformVersion tn =
     do { cmd \<leftarrow> gets resource;
          if vy_TerraformImage cmd \<noteq> [] then succeed ()
          else do { modify_resource (\<lambda>cmd. cmd\<lparr>vy_TerraformImage := ''latest''\<rparr>);
                    with_group tn ''Retrieving Terraform Version'' (\<lambda>v.
                      discover_image tn v ''--terraform-image='' ''Terraform'' (\<lambda>img cmd. cmd\<lparr>vy_TerraformImage := img\<rparr>)
                        ''Unable discover Terraform version from cluster, defaulting to latest'') } }"

text \<open>The loop over the module constraints stops at the first policy that permits the module; a policy that fails to match is passed over.\<close>

fun permitting_policy :: "Libs \<Rightarrow> string \<Rightarrow> Policy list \<Rightarrow> Policy option" where
  "permitting_policy lib src [] = None"
| "permitting_policy lib src (p # ps) =
     (case Option.bind (ps_Constraints (pol_Spec p)) cn_Modules of
        None \<Rightarrow> permitting_policy lib src ps
      | Some m \<Rightarrow> if ModuleConstraint_Matches lib m src = Inr True then Some p else permitting_policy lib src ps)"

definition judge_module :: "'w Tnctl \<Rightarrow> string \<Rightarrow> string \<Rightarrow> Policy list \<Rightarrow> ('w, unit) verifier" where
  "judge_module tn v src policies =
     (case permitting_policy (tn_Libs tn) src policies of
        Some policy \<Rightarrow>
          Passed tn v ''Revision is permitted by policy constraint %q'' [FStr (om_Name (pol_Meta policy))]
      | None \<Rightarrow> Failed tn v ''Revision is not permitted by any policy'' [])"

definition check_module :: "'w Tnctl \<Rightarrow> string \<Rightarrow> string \<Rightarrow> Policy list \<Rightarrow> ('w, unit) verifier" where
  "check_module tn v src items =
     (let policies = FindModuleConstraints items in
      do { (if ContainsPrefix src [''/'', ''.'']
            then Warning tn v ''Revision is using a local directory, skipping policy check'' []
            else State_Monad.return ());
           if length policies = 0
           then Warning tn v ''No module constraint policies found, the Revision will be permitted'' []
           else do { Info tn v ''Found %d module constraint policies'' [FInt (int (length policies))];
                     judge_module tn v src policies } })"

definition checkModuleSecurityPolicy :: "'w Tnctl \<Rightarrow> Revision \<Rightarrow> ('w, unit go) verifier" where
  "checkModuleSecurityPolicy tn revision =
     with_group tn ''Validating Module Policy permits Revision'' (\<lambda>v.
       do { cmd \<leftarrow> gets resource;
            (if vy_Policies cmd = None \<or> vy_Policies cmd = Some []
             then Warning tn v ''No module constraint policies found, the Revision will be permitted'' []
             else check_module tn v (cs_Module (rvs_Configuration (rv_Spec revision)))
                    (case vy_Policies cmd of None \<Rightarrow> [] | Some items \<Rightarrow> items));
            succeed () })"

definition checkProvider :: "'w Tnctl \<Rightarrow> Revision \<Rightarrow> ('w, unit go) verifier" where
  "checkProvider tn revision =
     with_group tn ''Validating Cloud Credentials Provider'' (\<lambda>v.
       do { Info tn v ''Checking if we providers associated with the revision'' [];
            cmd \<leftarrow> gets resource;
            (case (cs_ProviderRef (rvs_Configuration (rv_Spec revision)), vy_Providers cmd) of
               (None, _) \<Rightarrow> Skipped tn v ''Revision does not have a provider defined'' []
             | (Some ref, None) \<Rightarrow> Warning tn v ''No providers were found in the cluster or sources directory'' []
             | (Some ref, Some items) \<Rightarrow>
                 if \<not> ProviderList_HasItem items (pr_Name ref)
                 then Warning tn v ''Provider %q not found or skipped (use-cluster)'' [FStr (pr_Name ref)]
                 else Passed tn v ''Provider referenced exists in cluster'' []);
            succeed () })"

text \<open>The loop over the references. One without a context is a nil pointer that is dereferenced.\<close>

fun check_references :: "'w Tnctl \<Rightarrow> string \<Rightarrow> Context list option \<Rightarrow> ValueFromSource list \<Rightarrow> ('w, unit go) verifier" where
  "check_references tn v contexts [] = succeed ()"
| "check_references tn v contexts (x # xs) =
     (case vf_Context x of
        None \<Rightarrow> State_Monad.return Panic
      | Some name \<Rightarrow>
          do { (case contexts of
                  None \<Rightarrow>
                    Warning tn v ''Revision references a context: %q, key: %q, but none available to check against''
                      [FStr name, FStr (vf_Key x)]
                | Some items \<Rightarrow>
                    (case ContextList_GetItem items name of
                       None \<Rightarrow> Failed tn v ''Revision references a context %q which does not exist'' [FStr name]
                     | Some txt \<Rightarrow>
                         do { Passed tn v ''Revision references a context %q, key %q which exists''
                                [FStr (om_Name (ctx_Meta txt)), FStr (vf_Key x)];
                              if gomap_find (ctx_Variables (ctx_Spec txt)) (vf_Key x) = None
                              then Failed tn v ''Revision references key %q, in Context %q which does not exist''
                                     [FStr (vf_Key x), FStr name]
                              else State_Monad.return () }));
               check_references tn v contexts xs })"

definition checkValueFromReferences :: "'w Tnctl \<Rightarrow> Revision \<Rightarrow> ('w, unit go) verifier" where
  "checkValueFromReferences tn revision =
     with_group tn ''Validating of Context References'' (\<lambda>v.
       do { cmd \<leftarrow> gets resource;
            if length (cs_ValueFrom (rvs_Configuration (rv_Spec revision))) = 0
            then do { Passed tn v ''Revision does not reference any values from context/s'' []; succeed () }
            else check_references tn v (vy_Contexts cmd) (cs_ValueFrom (rvs_Configuration (rv_Spec revision))) })"

section \<open>The terraform plan\<close>

text \<open>A process whose output is read, and its place in the log.\<close>

definition docker :: "'w Tnctl \<Rightarrow> string list \<Rightarrow> ('w, string \<times> gerror option) verifier" where
  "docker tn options =
     do { r \<leftarrow> request (tn_CombinedOutput tn (''docker'' # options));
          note_action (Ran (''docker'' # options) (case snd r of None \<Rightarrow> Exited | Some err \<Rightarrow> WaitError err));
          State_Monad.return r }"

fun require_env :: "'w Tnctl \<Rightarrow> string \<Rightarrow> string list \<Rightarrow> string list \<Rightarrow> ('w, string list option) verifier" where
  "require_env tn v options [] = State_Monad.return (Some options)"
| "require_env tn v options (x # xs) =
     do { w \<leftarrow> gets world;
          if h_Getenv (tn_host tn) x w = []
          then do { Failed tn v ''Missing: %s, in environment'' [FStr x]; State_Monad.return None }
          else require_env tn v (options @ [Sprintf ''--env=%s'' [FStr x]]) xs }"

definition optional_env :: "'w host \<Rightarrow> 'w \<Rightarrow> string list \<Rightarrow> string list" where
  "optional_env h w names =
     map (\<lambda>x. Sprintf ''--env=%s'' [FStr x]) (filter (\<lambda>x. h_Getenv h x w \<noteq> []) names)"

text \<open>
  The options with the credentials of the provider, or \<open>None\<close> when the function returns here: a
  credential is missing, or the provider is of another type than AWS, Google and Azure.
\<close>

definition plan_env :: "'w Tnctl \<Rightarrow> string \<Rightarrow> ProviderType \<Rightarrow> ('w, string list option) verifier" where
  "plan_env tn v t =
     (let options = [''run'', ''--interactive'', ''--rm''] in
      if t = AWSProviderType
      then do { r \<leftarrow> require_env tn v options [''AWS_ACCESS_KEY_ID'', ''AWS_SECRET_ACCESS_KEY''];
                w \<leftarrow> gets world;
                State_Monad.return (map_option (\<lambda>options. options @
                  optional_env (tn_host tn) w [''AWS_DEFAULT_REGION'', ''AWS_REGION'', ''AWS_SESSION_TOKEN'']) r) }
      else if t = GCPProviderType
      then do { w \<leftarrow> gets world;
                State_Monad.return (Some (options @ optional_env (tn_host tn) w
                  [''GCLOUD_KEYFILE_JSON'', ''GOOGLE_APPLICATION_CREDENTIALS'', ''GOOGLE_CLOUD_KEYFILE_JSON'',
                   ''GOOGLE_CREDENTIALS''])) }
      else if t = AzureProviderType then State_Monad.return (Some options)
      else do { require_env tn v options
                  [''ARM_CLIENT_ID'', ''ARM_CLIENT_SECRET'', ''ARM_SUBSCRIPTION_ID'', ''ARM_TENANT_ID''];
                State_Monad.return None })"

definition mount_options :: "'w Tnctl \<Rightarrow> VerifyCommand \<Rightarrow> string list" where
  "mount_options tn cmd =
     [''--user'', Sprintf ''%d'' [FInt (tn_Getuid tn)],
      ''--volume'', Sprintf ''%s:/source'' [FStr (vy_Directory cmd)],
      ''--workdir'', ''/source'']"

definition verify_plan :: "'w Tnctl \<Rightarrow> string \<Rightarrow> VerifyCommand \<Rightarrow> string list \<Rightarrow> ('w, unit go) verifier" where
  "verify_plan tn v cmd options =
     do { p \<leftarrow> docker tn (options @ mount_options tn cmd @ [vy_TerraformImage cmd,
                 ''plan'', ''-no-color'', ''-out=plan.tfplan'', ''-refresh=false'', ''-lock=false'']);
          case snd p of
            Some err \<Rightarrow>
              do { Failed tn v (''Unable to generate terraform plan, error: %s, output: '' @ newline @ ''%s'')
                     [FStr (Error err), FStr (fst p)];
                   succeed () }
          | None \<Rightarrow>
              do { Info tn v ''Successfully generated a terraform plan from Revision'' [];
                   Info tn v ''Converting terraform plan to json for Checkov to verify'' [];
                   j \<leftarrow> docker tn ([''run'', ''--interactive'', ''--rm''] @ mount_options tn cmd @
                          [''--entrypoint'', ''sh'', vy_TerraformImage cmd,
                           ''-c'', ''terraform show -json plan.tfplan > plan.json'']);
                   (case snd j of
                      Some err \<Rightarrow> Failed tn v ''Unable to convert terraform plan, error: %s, output: %s''
                                    [FStr (Error err), FStr (fst j)]
                    | None \<Rightarrow> State_Monad.return ());
                   succeed () } }"

definition checkTerraformPlan :: "'w Tnctl \<Rightarrow> Revision \<Rightarrow> ('w, unit go) verifier" where
  "checkTerraformPlan tn revision =
     do { cmd \<leftarrow> gets resource;
          case (cs_ProviderRef (rvs_Configuration (rv_Spec revision)), vy_Providers cmd) of
            (Some ref, Some (p # ps)) \<Rightarrow>
              if \<not> vy_EnableTerraformPlan cmd \<or> pr_Name ref = [] then succeed ()
              else with_group tn ''Validating Security Policies against Terraform Plan'' (\<lambda>v.
                do { Info tn v ''Checking security policies against terraform plan'' [];
                     case ProviderList_GetItem (p # ps) (pr_Name ref) of
                       None \<Rightarrow>
                         do { Failed tn v ''Unable to find the provider: %s, cannot verify security policy'' [FStr (pr_Name ref)];
                              succeed () }
                     | Some provider \<Rightarrow>
                         do { i \<leftarrow> docker tn ([''run'', ''--interactive''] @ mount_options tn cmd @
                                [vy_TerraformImage cmd, ''init'', ''-lock=false'']);
                              if snd i \<noteq> None
                              then do { Failed tn v ''Unable to perform terraform init: %s'' [FStr (fst i)]; succeed () }
                              else do { Info tn v ''Successfully performed terraform init on the source'' [];
                                        Info tn v ''Attempting to generate terraform plan from Revision'' [];
                                        e \<leftarrow> plan_env tn v (prs_Provider (prv_Spec provider));
                                        case e of
                                          None \<Rightarrow> succeed ()
                                        | Some options \<Rightarrow> verify_plan tn v cmd options } } })
          | _ \<Rightarrow> succeed () }"

section \<open>The security policies\<close>

fun report_failures :: "'w Tnctl \<Rightarrow> string \<Rightarrow> bool \<Rightarrow> ReportCheck list \<Rightarrow> ('w, unit go) verifier" where
  "report_failures tn v guidelines [] = succeed ()"
| "report_failures tn v guidelines (c # cs) =
     (case MaxChars (rk_check_name c) 69 of
        Ok name \<Rightarrow>
          do { Failed tn v ''%v'' [FStr name];
               (if rk_check_id c \<noteq> [] then Additional tn v ''Check ID: %v'' [FStr (rk_check_id c)]
                else State_Monad.return ());
               (if rk_resource c \<noteq> [] then Additional tn v ''Resource: %v'' [FStr (rk_resource c)]
                else State_Monad.return ());
               (if guidelines \<and> rk_guideline c \<noteq> [] then Additional tn v ''Guideline: %v'' [FStr (rk_guideline c)]
                else State_Monad.return ());
               report_failures tn v guidelines cs }
      | Err e \<Rightarrow> State_Monad.return (Err e)
      | Panic \<Rightarrow> State_Monad.return Panic)"

text \<open>The results of one policy: how many checks passed, each failed check, and the verdict.\<close>

definition report_policy :: "'w Tnctl \<Rightarrow> string \<Rightarrow> bool \<Rightarrow> string \<Rightarrow> bytes \<Rightarrow> ('w, unit go) verifier" where
  "report_policy tn v guidelines name results =
     (case (tn_Report tn results ''results.passed_checks'', tn_Report tn results ''results.failed_checks'') of
        ((passed_array, passed_checks), (failed_array, failed_checks)) \<Rightarrow>
          do { (if passed_array
                then Passed tn v ''Revision has passed %d checks in policy: %q'' [FInt (int (length passed_checks)), FStr name]
                else State_Monad.return ());
               attempt
                 (if failed_array
                  then do { (if length failed_checks > 0
                             then Info tn v ''Checks: https://www.checkov.io/5.Policy%%20Index/all.html'' []
                             else State_Monad.return ());
                            report_failures tn v guidelines failed_checks }
                  else succeed ()) (\<lambda>_.
                 do { (if length failed_checks > 0
                       then Failed tn v ''Revision will fail on security policy: %q'' [FStr name]
                       else Passed tn v ''Revision is permitted by the policy: %q'' [FStr name]);
                      succeed () }) })"

fun scan_policies :: "'w Tnctl \<Rightarrow> string \<Rightarrow> VerifyCommand \<Rightarrow> string \<Rightarrow> Policy list \<Rightarrow> ('w, unit go) verifier" where
  "scan_policies tn v cmd framework [] = succeed ()"
| "scan_policies tn v cmd framework (x # xs) =
     (case checkov_of x of
        None \<Rightarrow> fail ''no policy provided'' []
      | Some policy \<Rightarrow>
          (case tn_Checkov tn framework policy of
             Inl err \<Rightarrow> State_Monad.return (Err err)
           | Inr checkov \<Rightarrow>
               attempt (no_error (write_file (tn_host tn) (JoinPath (vy_Directory cmd) ''.checkov.yml'') checkov)) (\<lambda>_.
                 do { r \<leftarrow> docker tn ([''run'', ''--interactive''] @ mount_options tn cmd @
                        [vy_CheckovImage cmd, ''--directory'', ''/source'', ''--framework'', framework,
                         ''--download-external-module'', ''true'', ''--repo-root-for-plan-enrichment'', ''/source'',
                         ''--output'', ''json'', ''--output-file-path'', ''/source'']);
                      case snd r of
                        Some err \<Rightarrow> fail ''failed to run checkov: %s, error: %w'' [FStr (fst r), FStr (Error err)]
                      | None \<Rightarrow>
                          attempt (or_error (request (h_ReadFile (tn_host tn) (JoinPath (vy_Directory cmd) ''results_json.json'')))) (\<lambda>results.
                            attempt (report_policy tn v (vy_ShowGuidelines cmd) (om_Name (pol_Meta x)) results) (\<lambda>_.
                              scan_policies tn v cmd framework xs)) })))"

text \<open>
  The verb \<open>%w\<close> is only known to \<open>fmt.Errorf\<close>; in the warning about the binary it prints
  \<open>%!w(\<close> and a rendering of the error.
\<close>

definition checkSecurityPolicy :: "'w Tnctl \<Rightarrow> ('w, unit go) verifier" where
  "checkSecurityPolicy tn =
     with_group tn ''Validating against Checkov Security Policy'' (\<lambda>v.
       do { cmd \<leftarrow> gets resource;
            (let constraints = (case vy_Policies cmd of None \<Rightarrow> [] | Some items \<Rightarrow> FindSecurityPolicyConstraints items) in
             if length constraints = 0
             then do { Warning tn v ''No Checkov Security Policies found'' []; succeed () }
             else do {
               path \<leftarrow> request (tn_LookPath tn ''docker'');
               case path of
                 Inl err \<Rightarrow>
                   do { Warning tn v ''Unable to check for docker binary: %s, used for checkov policy validation''
                          [FStr (''%!w('' @ Error err @ '')'')];
                        succeed () }
               | Inr found \<Rightarrow>
                   do { (if found = []
                         then Warning tn v ''Unable to find docker binary, used for checkov policy validation'' []
                         else State_Monad.return ());
                        (if \<not> vy_EnableTerraformPlan cmd
                         then Warning tn v ''Checkov is using the code, not the plan, consider --use-terraform-plan'' []
                         else State_Monad.return ());
                        Info tn v ''Found %d security policies to validate against'' [FInt (int (length constraints))];
                        scan_policies tn v cmd
                          (if vy_EnableTerraformPlan cmd then ''terraform_plan'' else ''terraform'') constraints } }) })"

section \<open>The run\<close>

definition retrieveSummary :: "'w Tnctl \<Rightarrow> ('w, unit go) verifier" where
  "retrieveSummary tn =
     do { cmd \<leftarrow> gets resource;
          Println (newline @ ''%v Passed: %d, Warning: %d'')
            [FStr (tn_Icon tn ''green''), FInt (int (PassedCount (vy_Verify cmd))), FInt (int (WarningCount (vy_Verify cmd)))];
          (if FailedCount (vy_Verify cmd) > 0
           then Println ''%v Failed: %d'' [FStr (tn_Icon tn ''red''), FInt (int (FailedCount (vy_Verify cmd)))]
           else State_Monad.return ());
          succeed () }"

text \<open>The checks, in the order of the run, and the final count.\<close>

definition run_checks :: "'w Tnctl \<Rightarrow> Revision \<Rightarrow> ('w, unit go) verifier" where
  "run_checks tn revision =
     do { with_group tn ''Validating Revision Syntax'' (\<lambda>v.
            Passed tn v ''The Revision CRD is syntactically correct with no errors found'' []);
          attempt (checkRevisionSpec tn revision) (\<lambda>_.
          attempt (checkRevisionInputs tn revision) (\<lambda>_.
          attempt (retrieveCheckovVersion tn) (\<lambda>_.
          attempt (retrieveTerraformVersion tn) (\<lambda>_.
          attempt (checkModuleSecurityPolicy tn revision) (\<lambda>_.
          attempt (checkProvider tn revision) (\<lambda>_.
          attempt (checkValueFromReferences tn revision) (\<lambda>_.
          attempt (checkTerraformPlan tn revision) (\<lambda>_.
          attempt (checkSecurityPolicy tn) (\<lambda>_.
          attempt (retrieveSummary tn) (\<lambda>_.
            do { cmd \<leftarrow> gets resource;
                 if FailedCount (vy_Verify cmd) > 0 then fail ''revision failed verification checks'' []
                 else succeed () })))))))))) }"

text \<open>The deferred function, which runs whatever the checks return.\<close>

definition clean_up :: "'w Tnctl \<Rightarrow> ('w, unit) verifier" where
  "clean_up tn =
     do { cmd \<leftarrow> gets resource;
          if \<not> vy_KeepTempDir cmd
          then do { request (tn_RemoveAll tn (vy_Directory cmd)); note_action (RemovedAll (vy_Directory cmd)) }
          else Println ''Keeping temporary directory: %s'' [FStr (vy_Directory cmd)] }"

definition verify_Run :: "'w Tnctl \<Rightarrow> ('w, unit go) verifier" where
  "verify_Run tn =
     do { modify_resource (\<lambda>cmd. cmd\<lparr>vy_Verify := []\<rparr>);
          cmd \<leftarrow> gets resource;
          attempt (LoadYAML (tn_host tn) (tn_DecodeRevision tn) (vy_File cmd)) (\<lambda>revision.
            attempt (sourceFiles tn) (\<lambda>_.
              attempt (sourceFromCluster tn) (\<lambda>_.
                attempt (convertRevision tn revision) (\<lambda>revision.
                  do { r \<leftarrow> run_checks tn revision;
                       clean_up tn;
                       State_Monad.return r })))) }"

end
