(* ===== verification/Verified.thy ===== *)
theory Verified
  imports Verify
begin

text \<open>
  What a passed verification means. A check of the command shares a contract with the others: it
  keeps the sources that were gathered, it never takes back a failure, and when its demand on the
  revision does not hold it records one. The run, which ends with an error as soon as a failure is
  recorded, therefore succeeds only when all the demands hold.
\<close>

named_theorems steady_intros \<open>programs that keep every tolerant predicate on the options\<close>

section \<open>Recorded failures\<close>

definition broken :: "('w, VerifyCommand, 't) env \<Rightarrow> bool" where
  "broken s \<longleftrightarrow> FailedCount (vy_Verify (resource s)) > 0"

definition sourced :: "Context list option \<Rightarrow> Policy list option \<Rightarrow> ('w, VerifyCommand, 't) env \<Rightarrow> bool" where
  "sourced contexts policies s \<longleftrightarrow> vy_Contexts (resource s) = contexts \<and> vy_Policies (resource s) = policies"

lemma FailedCount_append_check:
  "FailedCount gs \<le> FailedCount (append_check title c gs)"
  "GetGroup gs title \<noteq> None \<Longrightarrow> ck_Status c = FailedStatus \<Longrightarrow> 0 < FailedCount (append_check title c gs)"
  by (induction gs) (auto simp: FailedCount_def StatusCount_def split: if_splits)

lemma GetGroup_append_check: "GetGroup (append_check title c gs) v = None \<longleftrightarrow> GetGroup gs v = None"
  by (induction gs) auto

lemma GetGroup_snoc: "GetGroup (gs @ [\<lparr>cg_Title = v, cg_Checks = []\<rparr>]) v \<noteq> None"
  by (induction gs) auto

section \<open>Predicates on the options of the command\<close>

text \<open>
  The predicates at hand look only at the options: reads, prints and processes keep them, and so
  does a verdict when they tolerate another recorded check.
\<close>

definition tolerant :: "(VerifyCommand \<Rightarrow> bool) \<Rightarrow> bool" where
  "tolerant P \<longleftrightarrow>
     (\<forall>cmd title c. P cmd \<longrightarrow> P (cmd\<lparr>vy_Verify := append_check title c (vy_Verify cmd)\<rparr>)) \<and>
     (\<forall>cmd g. P cmd \<longrightarrow> P (cmd\<lparr>vy_Verify := vy_Verify cmd @ [g]\<rparr>)) \<and>
     (\<forall>cmd img. P cmd \<longrightarrow> P (cmd\<lparr>vy_CheckovImage := img\<rparr>) \<and> P (cmd\<lparr>vy_TerraformImage := img\<rparr>))"

lemma tolerant_broken: "tolerant (\<lambda>cmd. FailedCount (vy_Verify cmd) > 0)"
proof -
  have "FailedCount gs \<le> FailedCount (gs @ [g])" for gs g
    by (simp add: FailedCount_def StatusCount_def)
  then show ?thesis
    using FailedCount_append_check(1) by (auto simp: tolerant_def intro: less_le_trans)
qed

lemma tolerant_sourced: "tolerant (\<lambda>cmd. vy_Contexts cmd = contexts \<and> vy_Policies cmd = policies)"
  by (simp add: tolerant_def)

lemma tolerant_group: "tolerant (\<lambda>cmd. GetGroup (vy_Verify cmd) v \<noteq> None)"
proof -
  have "GetGroup gs v \<noteq> None \<Longrightarrow> GetGroup (gs @ [g]) v \<noteq> None" for gs g
    by (induction gs) auto
  then show ?thesis by (simp add: tolerant_def GetGroup_append_check del: not_None_eq)
qed

lemma tolerant_conj: "tolerant P \<Longrightarrow> tolerant P' \<Longrightarrow> tolerant (\<lambda>cmd. P cmd \<and> P' cmd)"
  unfolding tolerant_def by blast

definition steady :: "('w, VerifyCommand, action list, 'a) prog \<Rightarrow> bool" where
  "steady m \<longleftrightarrow> (\<forall>P. tolerant P \<longrightarrow> keeps (\<lambda>s. P (resource s)) m)"

lemma steadyI: "(\<And>P. tolerant P \<Longrightarrow> keeps (\<lambda>s. P (resource s)) m) \<Longrightarrow> steady m"
  by (simp add: steady_def)

lemma steady_bind [steady_intros]: "steady m \<Longrightarrow> (\<And>a. steady (f a)) \<Longrightarrow> steady (State_Monad.bind m f)"
  by (simp add: steady_def keeps_bind)

lemma steady_attempt [steady_intros]: "steady m \<Longrightarrow> (\<And>a. steady (f a)) \<Longrightarrow> steady (attempt m f)"
  unfolding attempt_def by (auto simp: steady_def intro!: keeps_intros)

lemma steady_basic [steady_intros]:
  "steady (State_Monad.return a)" "steady (gets f)" "steady (request g)" "steady (note_action x)"
  "steady (print text)" "steady (succeed b)" "steady (fail format args)"
  by (auto simp: steady_def succeed_def fail_def note_action_def print_def worldless_def
      intro!: keeps_intros keeps_modify_state)

lemma steady_wrappers [steady_intros]:
  "steady m \<Longrightarrow> steady (or_error m)" "steady n \<Longrightarrow> steady (no_error n)" "steady k \<Longrightarrow> steady (wrap_error format k)"
  by (simp_all add: or_error_def no_error_def wrap_error_def steady_bind steady_basic)

lemma steady_if [steady_intros]: "steady m \<Longrightarrow> steady n \<Longrightarrow> steady (if b then m else n)"
  by simp

lemma steady_cases [steady_intros]:
  "steady m \<Longrightarrow> (\<And>x. steady (f x)) \<Longrightarrow> steady (case v of None \<Rightarrow> m | Some x \<Rightarrow> f x)"
  "(\<And>x. steady (g x)) \<Longrightarrow> (\<And>x. steady (h x)) \<Longrightarrow> steady (case e of Inl x \<Rightarrow> g x | Inr x \<Rightarrow> h x)"
  "(\<And>x. steady (i x)) \<Longrightarrow> (\<And>x. steady (j x)) \<Longrightarrow> steady k \<Longrightarrow> steady (case r of Ok x \<Rightarrow> i x | Err x \<Rightarrow> j x | Panic \<Rightarrow> k)"
  "steady m \<Longrightarrow> (\<And>x xs. steady (l x xs)) \<Longrightarrow> steady (case ys of [] \<Rightarrow> m | x # xs \<Rightarrow> l x xs)"
  "(\<And>x y. steady (p x y)) \<Longrightarrow> steady (case q of (x, y) \<Rightarrow> p x y)"
  by (auto split: option.splits sum.splits go.splits list.splits prod.splits)

lemma steady_Let [steady_intros]: "steady (f v) \<Longrightarrow> steady (Let v f)"
  by simp

lemma steady_verdict [steady_intros]: "steady (verdict tn title severity status detail args)"
  unfolding verdict_def
  by (intro steadyI keeps_bind keeps_modify_resource) (auto simp: tolerant_def intro: steady_basic(5) [unfolded steady_def, rule_format])

lemma steady_shorthands [steady_intros]:
  "steady (Additional tn v detail args)" "steady (Info tn v detail args)" "steady (Warning tn v detail args)"
  "steady (Skipped tn v detail args)" "steady (Failed tn v detail args)" "steady (Passed tn v detail args)"
  "steady (Println format args)" "steady (write_file h path content)" "steady (docker tn options)"
  by (simp_all add: Additional_def Info_def Warning_def Skipped_def Failed_def Passed_def Println_def
      write_file_def docker_def steady_intros)

lemma steady_with_group [steady_intros]:
  assumes "\<And>v. steady (call v)"
  shows "steady (with_group tn title call)"
proof -
  have "steady (modify_resource (\<lambda>cmd. cmd\<lparr>vy_Verify := vy_Verify cmd @ [g]\<rparr>))" for g
    by (intro steadyI keeps_modify_resource) (simp add: tolerant_def)
  then show ?thesis unfolding with_group_def by (intro steady_intros assms)
qed

lemma steady_record_all [steady_intros]: "steady (record_all tn v fs)"
  by (induction tn v fs rule: record_all.induct) (simp_all add: steady_intros)

lemma steady_references [steady_intros]: "steady (check_references tn v contexts xs)"
  by (induction xs) (simp_all add: steady_intros)

lemma steady_report [steady_intros]: "steady (report_failures tn v guidelines cs)"
  by (induction cs) (simp_all add: steady_intros split: go.splits)

lemma steady_policies [steady_intros]: "steady (scan_policies tn v cmd framework xs)"
  by (induction xs) (simp_all add: report_policy_def steady_intros)

lemma steady_env [steady_intros]: "steady (require_env tn v options xs)"
  by (induction xs arbitrary: options) (simp_all add: steady_intros)

lemma steady_images:
  "steady (modify_resource (\<lambda>cmd. cmd\<lparr>vy_CheckovImage := img\<rparr>))"
  "steady (modify_resource (\<lambda>cmd. cmd\<lparr>vy_TerraformImage := img\<rparr>))"
  by (intro steadyI keeps_modify_resource; simp add: tolerant_def)+

lemma steady_discover:
  fixes tn :: "'w Tnctl"
  assumes "\<And>img. steady (modify_resource (set_image img) :: ('w, unit) verifier)"
  shows "steady (discover_image tn v flag name set_image latest)"
  unfolding discover_image_def by (intro steady_intros assms)

lemma steady_checks:
  "steady (checkRevisionSpec tn revision)" "steady (checkRevisionInputs tn revision)"
  "steady (retrieveCheckovVersion tn)" "steady (retrieveTerraformVersion tn)"
  "steady (checkModuleSecurityPolicy tn revision)" "steady (checkProvider tn revision)"
  "steady (checkValueFromReferences tn revision)" "steady (checkTerraformPlan tn revision)"
  "steady (checkSecurityPolicy tn)" "steady (retrieveSummary tn)"
  unfolding checkRevisionSpec_def checkRevisionInputs_def retrieveCheckovVersion_def retrieveTerraformVersion_def
    checkModuleSecurityPolicy_def checkProvider_def checkValueFromReferences_def checkTerraformPlan_def
    checkSecurityPolicy_def retrieveSummary_def plan_env_def verify_plan_def check_module_def judge_module_def
  by (intro steady_intros steady_images steady_discover)+

lemma steady_keeps:
  assumes "steady m"
  shows "keeps broken m" "keeps (sourced contexts policies) m"
  using assms tolerant_broken tolerant_sourced [of contexts policies]
  unfolding steady_def broken_def sourced_def by blast+

section \<open>The contract of a check\<close>

text \<open>
  \<open>settles\<close>: started with the sources, the rest of the run succeeds only when \<open>R\<close> holds and
  nothing failed; started after a failure, it does not succeed.
\<close>

definition settles ::
  "(('w, VerifyCommand, action list) env \<Rightarrow> bool) \<Rightarrow> ('w, unit go) verifier \<Rightarrow> bool \<Rightarrow> bool" where
  "settles src rest R \<longleftrightarrow>
     (\<forall>s. src s \<longrightarrow> wp rest (\<lambda>r t. r = Ok () \<longrightarrow> R \<and> \<not> broken t \<and> src t) s) \<and>
     (\<forall>s. broken s \<longrightarrow> wp rest (\<lambda>r t. r \<noteq> Ok ()) s)"

locale verification_check =
  fixes src :: "('w, VerifyCommand, action list) env \<Rightarrow> bool"
    and check :: "('w, unit go) verifier"
    and demand :: bool
  assumes keeps_sources: "keeps src check"
    and keeps_broken: "keeps broken check"
    and demands: "src s \<Longrightarrow> wp check (\<lambda>r t. r = Ok () \<longrightarrow> demand \<or> broken t) s"
begin

lemma before:
  assumes "settles src rest R"
  shows "settles src (attempt check (\<lambda>_. rest)) (demand \<and> R)"
proof -
  have 1: "wp (attempt check (\<lambda>_. rest)) (\<lambda>r t. r = Ok () \<longrightarrow> (demand \<and> R) \<and> \<not> broken t \<and> src t) s" if "src s" for s
  proof -
    have "wp check (\<lambda>r t. (r = Ok () \<longrightarrow> demand \<or> broken t) \<and> src t) s"
      using wp_conj [OF demands [OF that] keeps_wp [OF keeps_sources that]] by simp
    then show ?thesis
      unfolding wp_attempt
    proof (rule wp_mono)
      fix r t
      assume "(r = Ok () \<longrightarrow> demand \<or> broken t) \<and> src t"
      then show "case r of Ok x \<Rightarrow> wp rest (\<lambda>r t. r = Ok () \<longrightarrow> (demand \<and> R) \<and> \<not> broken t \<and> src t) t
          | Err e \<Rightarrow> (Err e = Ok () \<longrightarrow> (demand \<and> R) \<and> \<not> broken t \<and> src t)
          | Panic \<Rightarrow> (Panic = Ok () \<longrightarrow> (demand \<and> R) \<and> \<not> broken t \<and> src t)"
        using assms unfolding settles_def
        by (cases r) (auto intro: wp_mono)
    qed
  qed
  have 2: "wp (attempt check (\<lambda>_. rest)) (\<lambda>r t. r \<noteq> Ok ()) s" if "broken s" for s
    unfolding wp_attempt
    by (rule wp_mono [OF keeps_wp [OF keeps_broken that]])
      (use assms in \<open>auto simp: settles_def split: go.splits\<close>)
  show ?thesis unfolding settles_def using 1 2 by blast
qed

end

section \<open>The demands\<close>

definition described :: "Revision \<Rightarrow> bool" where
  "described revision \<longleftrightarrow> rd_Name (rvs_Plan (rv_Spec revision)) \<noteq> [] \<and> rd_Description (rvs_Plan (rv_Spec revision)) \<noteq> []"

definition inputs_described :: "Revision \<Rightarrow> bool" where
  "inputs_described revision \<longleftrightarrow>
     (\<forall>i \<in> set (rvs_Inputs (rv_Spec revision)). ri_Key i \<noteq> [] \<and> ri_Description i \<noteq> [])"

text \<open>No policy constrains modules, or one that does allows the module.\<close>

definition module_permitted :: "Libs \<Rightarrow> Policy list option \<Rightarrow> string \<Rightarrow> bool" where
  "module_permitted lib policies src \<longleftrightarrow>
     (\<forall>ps. policies = Some ps \<longrightarrow>
        FindModuleConstraints ps = [] \<or>
        (\<exists>p \<in> set ps. \<exists>cn m. ps_Constraints (pol_Spec p) = Some cn \<and> cn_Modules cn = Some m \<and>
           ModuleConstraint_Matches lib m src = Inr True))"

text \<open>Every reference names a context that has the key.\<close>

definition references_known :: "Context list option \<Rightarrow> ValueFromSource list \<Rightarrow> bool" where
  "references_known contexts xs \<longleftrightarrow>
     (\<forall>x \<in> set xs. \<exists>name. vf_Context x = Some name \<and>
        (\<forall>items. contexts = Some items \<longrightarrow>
           (\<exists>txt. ContextList_GetItem items name = Some txt \<and>
              gomap_find (ctx_Variables (ctx_Spec txt)) (vf_Key x) \<noteq> None)))"

definition in_group :: "string \<Rightarrow> ('w, VerifyCommand, 't) env \<Rightarrow> bool" where
  "in_group v s \<longleftrightarrow> GetGroup (vy_Verify (resource s)) v \<noteq> None"

lemma wp_with_group:
  assumes "\<And>t. in_group title t \<Longrightarrow> sourced contexts policies t \<Longrightarrow> wp (call title) Q t"
    and "sourced contexts policies s"
  shows "wp (with_group tn title call) Q s"
  using assms
  by (auto simp: with_group_def wp_if in_group_def sourced_def modify_resource_def GetGroup_snoc simp del: not_None_eq)

lemma wp_verdict:
  assumes "in_group v s"
  shows "wp (verdict tn v severity status detail args) (\<lambda>_ t. in_group v t \<and> (status = FailedStatus \<or> broken s \<longrightarrow> broken t)) s"
  using assms FailedCount_append_check(2) less_le_trans [OF _ FailedCount_append_check(1)]
  by (auto simp: verdict_def modify_resource_def in_group_def broken_def GetGroup_append_check simp del: not_None_eq)

lemma wp_record_all:
  "in_group v s \<Longrightarrow>
   wp (record_all tn v fs) (\<lambda>_ t. (\<exists>f \<in> set fs. fst (snd f) = FailedStatus) \<or> broken s \<longrightarrow> broken t) s"
proof (induction tn v fs arbitrary: s rule: record_all.induct)
  case (2 tn v severity status detail args fs)
  show ?case
    unfolding record_all.simps wp_bind
    by (rule wp_mono [OF wp_verdict [OF "2.prems"]], rule wp_mono [OF "2.IH"]) auto
qed simp

lemma status_distinct [simp]:
  "WarningStatus \<noteq> FailedStatus" "PassedStatus \<noteq> FailedStatus" "InfoStatus \<noteq> FailedStatus"
  by (simp_all add: WarningStatus_def PassedStatus_def InfoStatus_def FailedStatus_def)

lemma spec_findings_failed:
  "(\<exists>f \<in> set (spec_findings plan). fst (snd f) = FailedStatus) \<longleftrightarrow> rd_Name plan = [] \<or> rd_Description plan = []"
  by (auto simp: spec_findings_def passed_finding_def failed_finding_def warned_finding_def)

lemma inputs_findings_failed:
  "(\<exists>f \<in> set (inputs_findings i inputs). fst (snd f) = FailedStatus) \<longleftrightarrow>
     (\<exists>x \<in> set inputs. ri_Key x = [] \<or> ri_Description x = [])"
proof (induction inputs arbitrary: i)
  case (Cons x xs)
  have "(\<exists>f \<in> set (input_findings i x). fst (snd f) = FailedStatus) \<longleftrightarrow> ri_Key x = [] \<or> ri_Description x = []"
    by (auto simp: input_findings_def Let_def)
  then show ?case using Cons [of "Suc i"] by (simp add: bex_Un)
qed simp

lemma permitting_policy_Some:
  "permitting_policy lib src ps = Some p \<Longrightarrow>
     p \<in> set ps \<and> (\<exists>cn m. ps_Constraints (pol_Spec p) = Some cn \<and> cn_Modules cn = Some m \<and>
       ModuleConstraint_Matches lib m src = Inr True)"
  by (induction ps) (auto split: option.splits if_splits simp: bind_eq_Some_conv)

lemma wp_references:
  assumes "in_group v s"
  shows "wp (check_references tn v contexts xs)
    (\<lambda>r t. r = Ok () \<longrightarrow> (broken s \<longrightarrow> broken t) \<and> (references_known contexts xs \<or> broken t)) s"
  using assms
proof (induction xs arbitrary: s)
  case Nil
  then show ?case by (simp add: references_known_def)
next
  case (Cons x xs)
  show ?case
  proof (cases "vf_Context x")
    case (Some name)
    let ?known = "\<forall>items. contexts = Some items \<longrightarrow>
      (\<exists>txt. ContextList_GetItem items name = Some txt \<and> gomap_find (ctx_Variables (ctx_Spec txt)) (vf_Key x) \<noteq> None)"
    have split: "references_known contexts (x # xs) \<longleftrightarrow> ?known \<and> references_known contexts xs"
      by (auto simp: references_known_def Some)
    have rest: "wp (check_references tn v contexts xs)
        (\<lambda>r t. r = Ok () \<longrightarrow> (broken s \<longrightarrow> broken t) \<and> (references_known contexts (x # xs) \<or> broken t)) u"
      if "in_group v u" "broken s \<longrightarrow> broken u" "?known \<or> broken u" for u
      by (rule wp_mono [OF Cons.IH [OF that(1)]]) (use that split in auto)
    show ?thesis
      using Cons.prems rest
      by (auto simp: Some Warning_def Failed_def Passed_def wp_case_option wp_if simp del: not_None_eq
          split: option.splits intro!: wp_mono [OF wp_verdict] )
  qed simp
qed

section \<open>The checks meet the contract\<close>

interpretation spec_check: verification_check "sourced contexts policies" "checkRevisionSpec tn revision" "described revision"
  for contexts policies tn revision
proof
  fix s :: "('a, VerifyCommand, action list) env"
  assume "sourced contexts policies s"
  then show "wp (checkRevisionSpec tn revision) (\<lambda>r t. r = Ok () \<longrightarrow> described revision \<or> broken t) s"
    unfolding checkRevisionSpec_def
    by (rule wp_with_group [rotated])
      (use spec_findings_failed in \<open>auto simp: described_def intro!: wp_mono [OF wp_record_all]\<close>)
qed (simp_all add: steady_keeps steady_checks)

interpretation inputs_check: verification_check "sourced contexts policies" "checkRevisionInputs tn revision" "inputs_described revision"
  for contexts policies tn revision
proof
  fix s :: "('a, VerifyCommand, action list) env"
  assume "sourced contexts policies s"
  then show "wp (checkRevisionInputs tn revision) (\<lambda>r t. r = Ok () \<longrightarrow> inputs_described revision \<or> broken t) s"
    unfolding checkRevisionInputs_def
    by (rule wp_with_group [rotated])
      (use inputs_findings_failed in \<open>auto simp: inputs_described_def intro!: wp_mono [OF wp_record_all]\<close>)
qed (simp_all add: steady_keeps steady_checks)

lemma module_unconstrained:
  "module_permitted lib None src" "FindModuleConstraints ps = [] \<Longrightarrow> module_permitted lib (Some ps) src"
  "module_permitted lib (Some []) src"
  by (simp_all add: module_permitted_def FindModuleConstraints_def)

lemma wp_judge_module:
  assumes "in_group v s"
  shows "wp (judge_module tn v src (FindModuleConstraints ps)) (\<lambda>_ t. module_permitted (tn_Libs tn) (Some ps) src \<or> broken t) s"
proof (cases "permitting_policy (tn_Libs tn) src (FindModuleConstraints ps)")
  case None
  then show ?thesis
    using assms by (auto simp: judge_module_def Failed_def intro!: wp_mono [OF wp_verdict])
next
  case (Some p)
  then have "module_permitted (tn_Libs tn) (Some ps) src"
    using permitting_policy_Some [OF Some] by (auto simp: module_permitted_def FindModuleConstraints_def)
  then show ?thesis
    using assms Some by (auto simp: judge_module_def Passed_def intro!: wp_mono [OF wp_verdict])
qed

lemma wp_quiet:
  assumes "in_group v s"
  shows "wp (Warning tn v detail args) (\<lambda>_. in_group v) s" "wp (Info tn v detail args) (\<lambda>_. in_group v) s"
  unfolding Warning_def Info_def by (rule wp_mono [OF wp_verdict [OF assms]]; simp)+

lemma wp_any: "(\<And>a t. Q a t) \<Longrightarrow> wp m Q s"
  by (rule wpI)

lemma wp_check_module:
  assumes "in_group v s"
  shows "wp (check_module tn v src ps) (\<lambda>_ t. module_permitted (tn_Libs tn) (Some ps) src \<or> broken t) s"
proof -
  let ?Q = "\<lambda>_ t. module_permitted (tn_Libs tn) (Some ps) src \<or> broken t"
  have rest: "wp (if length (FindModuleConstraints ps) = 0 then Warning tn v d []
      else do { Info tn v d' args; judge_module tn v src (FindModuleConstraints ps) }) ?Q t"
    if t: "in_group v t" for t d d' args
  proof (cases "FindModuleConstraints ps = []")
    case True
    then show ?thesis using module_unconstrained(2) [OF True] by (simp add: wp_any)
  next
    case False
    have "wp (Info tn v d' args) (\<lambda>_. wp (judge_module tn v src (FindModuleConstraints ps)) ?Q) t"
      by (rule wp_mono [OF wp_quiet(2) [OF t]]) (rule wp_judge_module)
    with False show ?thesis by simp
  qed
  have "wp (if ContainsPrefix src [''/'', ''.''] then Warning tn v d [] else State_Monad.return ()) (\<lambda>_. in_group v) s" for d
    using wp_quiet(1) [OF assms] assms by simp
  then show ?thesis
    unfolding check_module_def Let_def wp_bind by (rule wp_mono) (rule rest)
qed

interpretation module_check: verification_check "sourced contexts policies" "checkModuleSecurityPolicy tn revision"
    "module_permitted (tn_Libs tn) policies (cs_Module (rvs_Configuration (rv_Spec revision)))"
  for contexts policies tn revision
proof
  fix s :: "('a, VerifyCommand, action list) env"
  assume "sourced contexts policies s"
  then show "wp (checkModuleSecurityPolicy tn revision)
      (\<lambda>r t. r = Ok () \<longrightarrow> module_permitted (tn_Libs tn) policies (cs_Module (rvs_Configuration (rv_Spec revision))) \<or> broken t) s"
    unfolding checkModuleSecurityPolicy_def
    by (rule wp_with_group [rotated])
      (auto simp: wp_if sourced_def module_unconstrained wp_any intro!: wp_mono [OF wp_check_module])
qed (simp_all add: steady_keeps steady_checks)

interpretation reference_check: verification_check "sourced contexts policies" "checkValueFromReferences tn revision"
    "references_known contexts (cs_ValueFrom (rvs_Configuration (rv_Spec revision)))"
  for contexts policies tn revision
proof
  fix s :: "('a, VerifyCommand, action list) env"
  assume "sourced contexts policies s"
  then show "wp (checkValueFromReferences tn revision)
      (\<lambda>r t. r = Ok () \<longrightarrow> references_known contexts (cs_ValueFrom (rvs_Configuration (rv_Spec revision))) \<or> broken t) s"
    unfolding checkValueFromReferences_def
    by (rule wp_with_group [rotated])
      (auto simp: wp_if sourced_def references_known_def Passed_def
        intro!: wp_mono [OF wp_references [unfolded references_known_def]] wp_mono [OF wp_verdict])
qed (simp_all add: steady_keeps steady_checks)

text \<open>The other checks demand nothing of the revision itself.\<close>

lemma undemanding: "steady m \<Longrightarrow> verification_check (sourced contexts policies) m True"
  by unfold_locales (simp_all add: steady_keeps wp_any)

section \<open>The run\<close>

definition acceptable :: "Libs \<Rightarrow> Context list option \<Rightarrow> Policy list option \<Rightarrow> Revision \<Rightarrow> bool" where
  "acceptable lib contexts policies revision \<longleftrightarrow>
     described revision \<and> inputs_described revision \<and>
     module_permitted lib policies (cs_Module (rvs_Configuration (rv_Spec revision))) \<and>
     references_known contexts (cs_ValueFrom (rvs_Configuration (rv_Spec revision)))"

lemma settles_count:
  "settles (sourced contexts policies)
     (do { cmd \<leftarrow> gets resource;
           if FailedCount (vy_Verify cmd) > 0 then fail ''revision failed verification checks'' [] else succeed () }) True"
  by (simp add: settles_def broken_def)

lemmas undemanding_before = verification_check.before [OF undemanding]

lemma settles_checks:
  "settles (sourced contexts policies)
     (attempt (checkRevisionSpec tn revision) (\<lambda>_.
      attempt (checkRevisionInputs tn revision) (\<lambda>_.
      attempt (retrieveCheckovVersion tn) (\<lambda>_.
      attempt (retrieveTerraformVersion tn) (\<lambda>_.
      attempt (checkModuleSecurityPolicy tn revision) (\<lambda>_.
      attempt (checkProvider tn revision) (\<lambda>_.
      attempt (checkValueFromReferences tn revision) (\<lambda>_.
      attempt (checkTerraformPlan tn revision) (\<lambda>_.
      attempt (checkSecurityPolicy tn) (\<lambda>_.
      attempt (retrieveSummary tn) (\<lambda>_.
        do { cmd \<leftarrow> gets resource;
             if FailedCount (vy_Verify cmd) > 0 then fail ''revision failed verification checks'' []
             else succeed () })))))))))))
     (described revision \<and> inputs_described revision \<and> True \<and> True \<and>
      module_permitted (tn_Libs tn) policies (cs_Module (rvs_Configuration (rv_Spec revision))) \<and> True \<and>
      references_known contexts (cs_ValueFrom (rvs_Configuration (rv_Spec revision))) \<and> True \<and> True \<and> True \<and> True)"
  by (intro spec_check.before inputs_check.before module_check.before reference_check.before
      undemanding_before steady_checks settles_count)

lemma run_checks_sound:
  assumes "sourced contexts policies s"
  shows "wp (run_checks tn revision)
    (\<lambda>r t. r = Ok () \<longrightarrow> acceptable (tn_Libs tn) contexts policies revision \<and> \<not> broken t \<and> sourced contexts policies t) s"
proof -
  have "steady (with_group tn title (\<lambda>v. Passed tn v detail []))" for title detail
    by (intro steady_intros)
  from keeps_wp [OF steady_keeps(2) [OF this] assms]
  show ?thesis
    unfolding run_checks_def wp_bind
    by (rule wp_mono) (use settles_checks [of contexts policies tn revision] in
      \<open>auto simp: settles_def acceptable_def simp del: wp_attempt intro: wp_mono\<close>)
qed

text \<open>The conversion asks for inputs and fills in variables, but leaves what is checked as it was.\<close>

definition same_text :: "Revision \<Rightarrow> Revision \<Rightarrow> bool" where
  "same_text a b \<longleftrightarrow>
     rvs_Plan (rv_Spec b) = rvs_Plan (rv_Spec a) \<and>
     cs_Module (rvs_Configuration (rv_Spec b)) = cs_Module (rvs_Configuration (rv_Spec a)) \<and>
     cs_ValueFrom (rvs_Configuration (rv_Spec b)) = cs_ValueFrom (rvs_Configuration (rv_Spec a)) \<and>
     map (\<lambda>i. (ri_Key i, ri_Description i)) (rvs_Inputs (rv_Spec b)) =
       map (\<lambda>i. (ri_Key i, ri_Description i)) (rvs_Inputs (rv_Spec a))"

lemma same_text_acceptable: "same_text a b \<Longrightarrow> acceptable lib contexts policies b \<Longrightarrow> acceptable lib contexts policies a"
proof -
  assume st: "same_text a b" and ok: "acceptable lib contexts policies b"
  have "(\<lambda>i. (ri_Key i, ri_Description i)) ` set (rvs_Inputs (rv_Spec b)) =
      (\<lambda>i. (ri_Key i, ri_Description i)) ` set (rvs_Inputs (rv_Spec a))"
    using st unfolding same_text_def by (metis set_map)
  then have "inputs_described a"
    using ok unfolding acceptable_def inputs_described_def by (smt (verit) image_iff prod.inject)
  then show ?thesis using st ok by (simp add: same_text_def acceptable_def described_def)
qed

lemma ask_inputs_text:
  "wp (ask_inputs tn inputs) (\<lambda>r t. \<forall>is. r = Ok is \<longrightarrow>
     map (\<lambda>i. (ri_Key i, ri_Description i)) is = map (\<lambda>i. (ri_Key i, ri_Description i)) inputs) s"
proof (induction inputs arbitrary: s)
  case (Cons input inputs)
  show ?case
    by (auto simp: Let_def wp_if wp_request wp_case_sum intro!: wp_mono [OF Cons] split: go.splits)
qed simp

lemma share_variables_text: "same_text a b \<Longrightarrow> same_text a (share_variables vars b)"
  by (simp add: same_text_def share_variables_def)

lemma same_text_refl: "same_text a a"
  by (simp add: same_text_def)

lemma Revision_Run_text:
  assumes "rc_Revision cmd = Some revision"
  shows "wp (Revision_Run tn cmd) (\<lambda>r t. \<forall>b. r = Ok b \<longrightarrow> same_text revision b) s"
proof -
  have filled: "same_text revision (set_inputs is revision)"
    if "map (\<lambda>i. (ri_Key i, ri_Description i)) is = map (\<lambda>i. (ri_Key i, ri_Description i)) (rvs_Inputs (rv_Spec revision))" for "is"
    using that by (simp add: same_text_def set_inputs_def)
  have inputs: "wp (retrieveInputs tn revision) (\<lambda>r t. \<forall>b. r = Ok b \<longrightarrow> same_text revision b) u" for u
    unfolding retrieveInputs_def
    by (auto simp: wp_case_option intro!: wp_mono [OF ask_inputs_text] filled split: go.splits)
  have rendered: "revision_renderConfiguration tn b = Ok (configuration, c) \<Longrightarrow> same_text revision b \<Longrightarrow> same_text revision c"
    for b c configuration
    by (auto simp: revision_renderConfiguration_def Let_def share_variables_text split: go.splits)
  let ?Q = "\<lambda>r t. \<forall>b. r = Ok b \<longrightarrow> same_text revision b"
  have rest: "wp (attempt (State_Monad.return (revision_renderConfiguration tn b)) f) ?Q u"
    if "same_text revision b" "\<And>configuration c v. same_text revision c \<Longrightarrow> wp (f (configuration, c)) ?Q v"
    for b f and u :: "('a, 'b, action list) env"
    using that rendered by (auto split: go.splits)
  show ?thesis
    unfolding Revision_Run_def retrieveRevision_def assms
    by (auto simp del: wp_attempt simp: wp_attempt [of "retrieveInputs tn revision"] wp_attempt [of "succeed revision"]
        intro!: wp_mono [OF inputs] rest split: go.splits)
      (auto intro!: wp_any share_variables_text split: go.splits)
qed

lemma steady_reads [steady_intros]:
  "steady (GetIfExists cc k as ns n)" "steady (list_objects cc k as opts)" "steady (FileExists h path)"
  "steady (DirExists h path)" "steady (GetClient tn)"
proof -
  show "steady (GetIfExists cc k as ns n)"
    by (intro steadyI keeps_GetIfExists) (simp_all add: worldless_def missless_def)
qed (simp_all add: list_objects_def FileExists_def DirExists_def GetClient_def steady_intros)

lemma steady_resolve [steady_intros]: "steady (resolve_secrets tn namespace raw i xs)"
  by (induction tn namespace raw i xs rule: resolve_secrets.induct) (simp_all add: steady_intros split: option.splits sum.splits)

lemma steady_ask [steady_intros]: "steady (ask_inputs tn inputs)"
  by (induction inputs) (simp_all add: Let_def steady_intros)

lemma steady_configuration [steady_intros]: "steady (Configuration_Run tn cmd)"
  unfolding Configuration_Run_def resolveConfiguration_def find_configuration_def ask_secrets_def ask_contexts_def
    renderConfiguration_def renderProvider_def renderPolicy_def LoadYAML_def
  by (intro steady_intros)

lemma steady_revision [steady_intros]: "steady (Revision_Run tn cmd)"
  unfolding Revision_Run_def retrieveRevision_def retrieveInputs_def renderCloudResource_def WriteYAML_def LoadYAML_def
  by (intro steady_intros)

lemma convertRevision_text:
  "wp (convertRevision tn revision) (\<lambda>r t. \<forall>b. r = Ok b \<longrightarrow> same_text revision b) s"
  unfolding convertRevision_def wp_bind wp_gets wp_attempt
  by (rule wp_any)
    (auto simp: modify_resource_def wp_case_option split: go.splits option.splits intro!: wp_mono [OF Revision_Run_text])

lemma LoadYAML_result:
  "wp (LoadYAML h dec path) (\<lambda>r t. resource t = resource s \<and>
     (\<forall>x. r = Ok x \<longrightarrow> (\<exists>content w. fst (h_ReadFile h path w) = Inr content \<and> dec content = Inr x))) s"
  by (auto simp: LoadYAML_def FileExists_def wp_request wp_if split: go.splits stat.splits sum.splits)

lemma steady_clean_up: "steady (clean_up tn)"
  unfolding clean_up_def by (intro steady_intros)

lemma verify_Run_sound:
  fixes s :: "('w, VerifyCommand, action list) env"
  shows "wp (verify_Run tn)
    (\<lambda>r t. r = Ok () \<longrightarrow>
       FailedCount (vy_Verify (resource t)) = 0 \<and>
       (\<exists>content w revision. fst (h_ReadFile (tn_host tn) (vy_File (resource s)) w) = Inr content \<and>
          tn_DecodeRevision tn content = Inr revision \<and>
          acceptable (tn_Libs tn) (vy_Contexts (resource t)) (vy_Policies (resource t)) revision)) s"
proof -
  let ?loaded = "\<lambda>revision. \<exists>content w. fst (h_ReadFile (tn_host tn) (vy_File (resource s)) w) = Inr content \<and>
    tn_DecodeRevision tn content = Inr revision"
  let ?Q = "\<lambda>r t. r = Ok () \<longrightarrow> FailedCount (vy_Verify (resource t)) = 0 \<and>
    (\<exists>revision. ?loaded revision \<and>
       acceptable (tn_Libs tn) (vy_Contexts (resource t)) (vy_Policies (resource t)) revision)"
  have checks: "wp (do { r \<leftarrow> run_checks tn b; clean_up tn; State_Monad.return r }) ?Q u"
    if "?loaded revision" "same_text revision b" for revision b and u :: "('w, VerifyCommand, action list) env"
  proof -
    let ?c = "vy_Contexts (resource u)" and ?p = "vy_Policies (resource u)"
    have tidy: "wp (clean_up tn) (\<lambda>_ t. \<not> broken t \<and> sourced ?c ?p t) v" if "\<not> broken v" "sourced ?c ?p v" for v
      using that
      by (auto simp: clean_up_def wp_if wp_request Println_def broken_def sourced_def)
    show ?thesis
      unfolding wp_bind wp_return
    proof (rule wp_mono [OF run_checks_sound [of ?c ?p]])
      show "sourced ?c ?p u" by (simp add: sourced_def)
      fix r and v :: "('w, VerifyCommand, action list) env"
      assume r: "r = Ok () \<longrightarrow> acceptable (tn_Libs tn) ?c ?p b \<and> \<not> broken v \<and> sourced ?c ?p v"
      show "wp (clean_up tn) (\<lambda>_. ?Q r) v"
      proof (cases "r = Ok ()")
        case True
        with r have ok: "acceptable (tn_Libs tn) ?c ?p revision" "\<not> broken v" "sourced ?c ?p v"
          using same_text_acceptable [OF that(2)] by auto
        show ?thesis
          by (rule wp_mono [OF tidy [OF ok(2,3)]]) (use ok(1) that(1) in \<open>auto simp: broken_def sourced_def\<close>)
      qed (simp add: wp_any)
    qed
  qed
  have rest: "wp (attempt (sourceFiles tn) (\<lambda>_. attempt (sourceFromCluster tn) (\<lambda>_.
      attempt (convertRevision tn revision) (\<lambda>b.
        do { r \<leftarrow> run_checks tn b; clean_up tn; State_Monad.return r })))) ?Q u"
    if "?loaded revision" for revision and u :: "('w, VerifyCommand, action list) env"
  proof -
    have "wp (attempt (convertRevision tn revision) (\<lambda>b.
        do { r \<leftarrow> run_checks tn b; clean_up tn; State_Monad.return r })) ?Q v" for v :: "('w, VerifyCommand, action list) env"
      unfolding wp_attempt
      by (rule wp_mono [OF convertRevision_text]) (use checks [OF that] in \<open>auto split: go.splits simp del: wp_bind\<close>)
    then show ?thesis
      unfolding wp_attempt [of "sourceFiles tn"] wp_attempt [of "sourceFromCluster tn"]
      by (intro wp_any) (auto split: go.splits simp del: wp_attempt intro!: wp_any)
  qed
  have "wp (verify_Run tn) ?Q s"
    unfolding verify_Run_def wp_bind wp_gets modify_resource_def wp_update wp_attempt [of "LoadYAML h dec path" for h dec path]
    by (rule wp_mono [OF LoadYAML_result]) (use rest in \<open>auto split: go.splits simp del: wp_attempt\<close>)
  then show ?thesis by (rule wp_mono) blast
qed

end
