(* ===== verification/Tnctl_Resources.thy ===== *)
theory Tnctl_Resources
  imports Cli Api_Cloud
begin

text \<open>
  The commands of \<open>tnctl\<close> that work on the resources of a cluster: approving and retrying them,
  their logs, the secrets that hold their state, and creating and describing them
  (\<open>pkg/cmd/tnctl\<close>: \<open>approve\<close>, \<open>retry\<close>, \<open>logs\<close>, \<open>state\<close>, \<open>create/cloudresource.go\<close>,
  \<open>describe\<close>, \<open>kubectl\<close>).
\<close>

section \<open>Objects of two kinds\<close>

text \<open>The object of the kind that was asked for, and its metadata changed.\<close>

definition as_kind :: "kind \<Rightarrow> object \<Rightarrow> object option" where
  "as_kind k x = (if kind_of x = k then Some x else None)"

fun map_meta :: "(ObjectMeta \<Rightarrow> ObjectMeta) \<Rightarrow> object \<Rightarrow> object" where
  "map_meta f (OConfiguration x) = OConfiguration (x\<lparr>cfg_Meta := f (cfg_Meta x)\<rparr>)"
| "map_meta f (OCloudResource x) = OCloudResource (x\<lparr>cr_Meta := f (cr_Meta x)\<rparr>)"
| "map_meta f x = x"

definition annotate :: "string \<Rightarrow> string \<Rightarrow> ObjectMeta \<Rightarrow> ObjectMeta" where
  "annotate k v m =
     m\<lparr>om_Annotations := Some ((case om_Annotations m of None \<Rightarrow> Map.empty | Some f \<Rightarrow> f)(k \<mapsto> v))\<rparr>"

section \<open>Approval\<close>

record ApproveCommand =
  ap_Names :: "string list"
  ap_Namespace :: string
  ap_Kind :: string

definition approve_kind :: "ApproveCommand \<Rightarrow> kind" where
  "approve_kind cmd = (if ap_Kind cmd = ConfigurationKind then KConfiguration else KCloudResource)"

fun approve_all :: "'w Tnctl \<Rightarrow> ApproveCommand \<Rightarrow> string list \<Rightarrow> ('w, 'o, unit go) tool" where
  "approve_all tn cmd [] = succeed ()"
| "approve_all tn cmd (name # names) =
     attempt (or_error (GetIfExists (tn_cc tn) (approve_kind cmd) (as_kind (approve_kind cmd)) (ap_Namespace cmd) name)) (\<lambda>r.
       case r of
         None \<Rightarrow> fail ''resource %s not found'' [FStr name]
       | Some original \<Rightarrow>
           (let current = om_Annotations (meta_of original) in
            if current = None \<or> gomap_get current ApplyAnnotation \<in> {[], ''true''}
            then approve_all tn cmd names
            else attempt (or_error (perform (tn_cc tn) (Patch original)
                            (map_meta (annotate ApplyAnnotation ''true'') original))) (\<lambda>_.
              do { Println (if ap_Kind cmd = ConfigurationKind then ''%s Configuration %s has been approved''
                            else ''%s CloudResource %s has been approved'')
                     [FStr (tn_Icon tn ''good''), FStr (om_Name (meta_of original))];
                   approve_all tn cmd names })))"

definition approve_Run :: "'w Tnctl \<Rightarrow> ApproveCommand \<Rightarrow> ('w, 'o, unit go) tool" where
  "approve_Run tn cmd =
     (if ap_Namespace cmd = [] then fail ''namespace is required'' []
      else if length (ap_Names cmd) = 0 then fail ''name is required'' []
      else attempt (GetClient tn) (\<lambda>_. approve_all tn cmd (ap_Names cmd)))"

section \<open>Logs\<close>

record LogsCommand =
  lg_Name :: string
  lg_Namespace :: string
  lg_Follow :: bool
  lg_Stage :: string
  lg_WaitInterval :: time

definition log_labels :: "string \<Rightarrow> Configuration \<Rightarrow> string list" where
  "log_labels stage configuration =
     [ConfigurationGenerationLabel @ ''='' @ string_of_int (om_Generation (cfg_Meta configuration)),
      ConfigurationNameLabel @ ''='' @ om_Name (cfg_Meta configuration),
      ConfigurationStageLabel @ ''='' @ stage,
      ConfigurationUIDLabel @ ''='' @ om_UID (cfg_Meta configuration)]"

fun print_logs :: "'w Tnctl \<Rightarrow> string \<Rightarrow> string \<Rightarrow> string list \<Rightarrow> ('w, 'o, unit go) tool" where
  "print_logs tn namespace pod [] = succeed ()"
| "print_logs tn namespace pod (container # containers) =
     attempt (or_error (request (kc_Logs (tn_cc tn) namespace pod container))) (\<lambda>text.
       do { print text; print_logs tn namespace pod containers })"

text \<open>The list of pods, a variable that the retried function assigns, is the resource of the run.\<close>

definition find_pods :: "'w Tnctl \<Rightarrow> string \<Rightarrow> string \<Rightarrow> ('w, Pod list, gerror + bool) tool" where
  "find_pods tn namespace selector =
     do { r \<leftarrow> request (kc_Pods (tn_cc tn) namespace selector);
          case r of
            Inl _ \<Rightarrow> State_Monad.return (Inr False)
          | Inr pods \<Rightarrow> do { modify_resource (\<lambda>_. pods); State_Monad.return (Inr (length pods > 0)) } }"

definition showLogs :: "'w Tnctl \<Rightarrow> LogsCommand \<Rightarrow> string \<Rightarrow> Configuration \<Rightarrow> ('w, Pod list, unit go) tool" where
  "showLogs tn cmd stage configuration =
     attempt (GetClient tn) (\<lambda>_.
       do { r \<leftarrow> Retry (tn_host tn) None 3 True
                   (if lg_WaitInterval cmd = 0 then 2 * second else lg_WaitInterval cmd)
                   (find_pods tn (om_Namespace (cfg_Meta configuration)) (Join (log_labels stage configuration) '',''));
            if r \<noteq> None then fail ''no pods found for resource %q'' [FStr (om_Name (cfg_Meta configuration))]
            else do { pods \<leftarrow> gets resource;
                      case FindLatestPod pods of
                        None \<Rightarrow> State_Monad.return Panic
                      | Some pod \<Rightarrow>
                          print_logs tn (om_Namespace (cfg_Meta configuration)) (om_Name (pod_Meta pod))
                            (pod_InitContainers pod @ pod_Containers pod) } })"

text \<open>The stage whose logs are shown when none is given.\<close>

definition current_stage :: "Configuration \<Rightarrow> string option" where
  "current_stage configuration =
     (let generation = om_Generation (cfg_Meta configuration);
          condition = GetCondition (cst_Common (cfg_Status configuration)) in
      if om_DeletionTimestamp (cfg_Meta configuration) \<noteq> None then Some StageTerraformDestroy
      else (case condition ConditionTerraformApply of
              Some c \<Rightarrow>
                if cd_ObservedGeneration c = generation \<and> cd_Reason c \<noteq> ReasonNotDetermined
                then Some (if cd_Reason c = ReasonActionRequired \<and>
                              StringContains (cd_Message c) ''Waiting for terraform apply annotation''
                           then StageTerraformPlan else StageTerraformApply)
                else (case condition ConditionTerraformPlan of
                        Some p \<Rightarrow> if cd_ObservedGeneration p = generation then Some StageTerraformPlan else None
                      | None \<Rightarrow> None)
            | None \<Rightarrow>
                (case condition ConditionTerraformPlan of
                   Some p \<Rightarrow> if cd_ObservedGeneration p = generation then Some StageTerraformPlan else None
                 | None \<Rightarrow> None)))"

definition logs_Run :: "'w Tnctl \<Rightarrow> LogsCommand \<Rightarrow> ('w, Pod list, unit go) tool" where
  "logs_Run tn cmd =
     (if lg_Name cmd = [] then State_Monad.return (Err (ErrMissingArgument ''name''))
      else if lg_Namespace cmd = [] then State_Monad.return (Err (ErrMissingArgument ''namespace''))
      else if lg_Stage cmd \<noteq> [] \<and>
              \<not> Contains (lg_Stage cmd) [StageTerraformApply, StageTerraformDestroy, StageTerraformPlan]
      then fail ''invalid stage (must be one of: plan, apply or destroy)'' []
      else attempt (GetClient tn) (\<lambda>_.
        attempt (or_error (GetIfExists (tn_cc tn) KConfiguration as_Configuration (lg_Namespace cmd) (lg_Name cmd))) (\<lambda>r.
          case r of
            None \<Rightarrow> fail ''resource %q not found'' [FStr (lg_Name cmd)]
          | Some configuration \<Rightarrow>
              if lg_Stage cmd \<noteq> [] then showLogs tn cmd (lg_Stage cmd) configuration
              else (case current_stage configuration of
                      None \<Rightarrow> fail ''neither plan, apply or destroy have been run for this resource'' []
                    | Some stage \<Rightarrow> showLogs tn cmd stage configuration))))"

definition cloud_logs_Run :: "'w Tnctl \<Rightarrow> LogsCommand \<Rightarrow> ('w, Pod list, unit go) tool" where
  "cloud_logs_Run tn cmd =
     attempt (GetClient tn) (\<lambda>_.
       attempt (or_error (GetIfExists (tn_cc tn) KCloudResource as_CloudResource (lg_Namespace cmd) (lg_Name cmd))) (\<lambda>r.
         (let args = [FStr (lg_Namespace cmd), FStr (lg_Name cmd)] in
          case r of
            None \<Rightarrow> fail ''cloudresource (%s/%s) does not exist'' args
          | Some x \<Rightarrow>
              (case GetCondition (crst_Common (cr_Status x)) ConditionConfigurationReady of
                 None \<Rightarrow> fail ''cloudresource (%s/%s) has no conditions yet'' args
               | Some cond \<Rightarrow>
                   if cd_Status cond \<noteq> ConditionTrue
                   then (if cd_Reason cond = ReasonError
                         then fail ''cloudresource (%s/%s) failed to provison configuration: %s''
                                (args @ [FStr (cd_Message cond)])
                         else fail ''cloudresource (%s/%s) has no configuration yet'' args)
                   else logs_Run tn (cmd\<lparr>lg_Name := crst_ConfigurationName (cr_Status x)\<rparr>)))))"

section \<open>Retry\<close>

record RetryCommand =
  rt_Name :: string
  rt_Namespace :: string
  rt_Kind :: string
  rt_WatchLogs :: bool

definition retry_kind :: "RetryCommand \<Rightarrow> kind" where
  "retry_kind cmd = (if rt_Kind cmd = CloudResourceKind then KCloudResource else KConfiguration)"

text \<open>\<open>time.Now().Unix()\<close>\<close>

definition unix_time :: "time \<Rightarrow> int" where
  "unix_time t = t div second - 62135596800"

definition retry_Run :: "'w Tnctl \<Rightarrow> RetryCommand \<Rightarrow> ('w, Pod list, unit go) tool" where
  "retry_Run tn cmd =
     attempt (GetClient tn) (\<lambda>_.
       attempt (or_error (GetIfExists (tn_cc tn) (retry_kind cmd) (as_kind (retry_kind cmd))
                            (rt_Namespace cmd) (rt_Name cmd))) (\<lambda>r.
         case r of
           None \<Rightarrow> fail ''resource (%s/%s) does not exist'' [FStr (rt_Namespace cmd), FStr (rt_Name cmd)]
         | Some original \<Rightarrow>
             do { w \<leftarrow> gets world;
                  attempt (or_error (perform (tn_cc tn) (Patch original)
                    (map_meta (annotate RetryAnnotation (string_of_int (unix_time (cc_Now (tn_cc tn) w)))) original))) (\<lambda>_.
                    do { Println ''%s Resource %q has been marked for retry'' [FStr (tn_Icon tn ''good''), FStr (rt_Name cmd)];
                         if rt_WatchLogs cmd then succeed ()
                         else (let logs = \<lparr>lg_Name = rt_Name cmd, lg_Namespace = rt_Namespace cmd, lg_Follow = True,
                                           lg_Stage = [], lg_WaitInterval = 3 * second\<rparr> in
                               if rt_Kind cmd = CloudResourceKind then cloud_logs_Run tn logs else logs_Run tn logs) }) }))"

section \<open>State\<close>

definition SecretPrefixes :: "string list" where
  "SecretPrefixes = [''tfstate-default-'', ''config-'', ''policy-'', ''cost-'']"

text \<open>
  \<open>ConfigurationSecretRegex\<close>: one of the prefixes and a unique identifier, whose groups have 8, 4,
  4, 4 and 12 characters. \<open>secret_uuid\<close> is the second group of the match.
\<close>

definition uuid_char :: "char \<Rightarrow> bool" where
  "uuid_char c \<longleftrightarrow> (let n = (of_char c :: nat) in (97 \<le> n \<and> n \<le> 122) \<or> (48 \<le> n \<and> n \<le> 57))"

definition is_uuid :: "string \<Rightarrow> bool" where
  "is_uuid s \<longleftrightarrow>
     map length (Split s CHR ''-'') = [8, 4, 4, 4, 12] \<and> list_all (list_all uuid_char) (Split s CHR ''-'')"

definition secret_uuid :: "string \<Rightarrow> string option" where
  "secret_uuid name =
     map_option (\<lambda>p. drop (length p) name)
       (find (\<lambda>p. HasPrefix name p \<and> is_uuid (drop (length p) name)) SecretPrefixes)"

fun findSecretByPrefix :: "string \<Rightarrow> string \<Rightarrow> Secret list \<Rightarrow> string option" where
  "findSecretByPrefix prefix uid [] = None"
| "findSecretByPrefix prefix uid (x # xs) =
     (if \<not> HasPrefix (om_Name (sec_Meta x)) prefix then findSecretByPrefix prefix uid xs
      else if \<not> HasSuffix (om_Name (sec_Meta x)) uid then findSecretByPrefix prefix uid xs
      else Some (om_Name (sec_Meta x)))"

fun findMatchingConfiguration :: "string \<Rightarrow> Configuration list \<Rightarrow> bool" where
  "findMatchingConfiguration uuid [] = False"
| "findMatchingConfiguration uuid (x # xs) =
     (if om_UID (cfg_Meta x) = uuid then True else findMatchingConfiguration uuid xs)"

record CleanCommand =
  cl_ControllerNamespace :: string
  cl_Force :: bool

definition label_or_unknown :: "Secret \<Rightarrow> string \<Rightarrow> string" where
  "label_or_unknown secret label =
     (let v = gomap_get (om_Labels (sec_Meta secret)) label in if v \<noteq> [] then v else ''Unknown'')"

text \<open>The rows of the orphaned secrets.\<close>

definition orphans :: "Configuration list \<Rightarrow> Secret list \<Rightarrow> Secret list" where
  "orphans configurations secrets =
     filter (\<lambda>secret. case secret_uuid (om_Name (sec_Meta secret)) of
                        None \<Rightarrow> False
                      | Some uuid \<Rightarrow> \<not> findMatchingConfiguration uuid configurations) secrets"

definition orphan_row :: "'w Tnctl \<Rightarrow> time \<Rightarrow> Secret \<Rightarrow> string list" where
  "orphan_row tn now secret =
     [om_Name (sec_Meta secret), label_or_unknown secret ConfigurationNameLabel,
      label_or_unknown secret ConfigurationNamespaceLabel,
      tn_HumanDuration tn (now - om_CreationTimestamp (sec_Meta secret))]"

fun delete_rows :: "'w Tnctl \<Rightarrow> string \<Rightarrow> string list \<Rightarrow> ('w, 'o, unit go) tool" where
  "delete_rows tn namespace [] = succeed ()"
| "delete_rows tn namespace (name # names) =
     attempt (or_error (perform (tn_cc tn) Delete
                (OSecret \<lparr>sec_Meta = named_meta namespace name, sec_Data = None\<rparr>))) (\<lambda>_.
       delete_rows tn namespace names)"

definition confirm_deletion :: "'w Tnctl \<Rightarrow> nat \<Rightarrow> ('w, 'o, bool go) tool" where
  "confirm_deletion tn n =
     do { Printf ([char_of (10 :: nat)] @ ''You have %d secrets orphaned which can be removed, do you wish to delete? (y/n) '')
            [FInt (int n)];
          attempt (or_error (request (tn_ReadLine tn))) (\<lambda>choice.
            if ToLower (TrimSpace choice) \<noteq> ''y''
            then do { Println ''Skipped deleting orphaned secrets'' []; succeed False }
            else succeed True) }"

definition clean_Run :: "'w Tnctl \<Rightarrow> CleanCommand \<Rightarrow> ('w, 'o, unit go) tool" where
  "clean_Run tn cmd =
     attempt (GetClient tn) (\<lambda>_.
       attempt (or_error (list_objects (tn_cc tn) KConfiguration as_Configuration [])) (\<lambda>configurations.
         attempt (or_error (list_objects (tn_cc tn) KSecret as_Secret [InNamespace (cl_ControllerNamespace cmd)])) (\<lambda>secrets.
           do { w \<leftarrow> gets world;
                let rows = map (orphan_row tn (cc_Now (tn_cc tn) w)) (orphans configurations secrets);
                if length rows = 0
                then do { Println ([char_of (10 :: nat)] @ ''No orphaned secrets found'') []; succeed () }
                else do { print (tn_Table tn [''Name'', ''Configuration'', ''Namespace'', ''Age''] rows);
                          attempt (if \<not> cl_Force cmd then confirm_deletion tn (length rows) else succeed True) (\<lambda>go_on.
                            if go_on then delete_rows tn (cl_ControllerNamespace cmd) (map hd rows) else succeed ()) } })))"

definition list_row :: "'w Tnctl \<Rightarrow> time \<Rightarrow> Secret list \<Rightarrow> Configuration \<Rightarrow> string list" where
  "list_row tn now secrets x =
     [om_Name (cfg_Meta x)] @
     map (\<lambda>prefix. case findSecretByPrefix prefix (om_UID (cfg_Meta x)) secrets of
                     Some name \<Rightarrow> name
                   | None \<Rightarrow> ''None'') SecretPrefixes @
     [tn_HumanDuration tn (now - om_CreationTimestamp (cfg_Meta x))]"

definition list_Run :: "'w Tnctl \<Rightarrow> string \<Rightarrow> string \<Rightarrow> ('w, 'o, unit go) tool" where
  "list_Run tn controllerNamespace namespace =
     attempt (GetClient tn) (\<lambda>_.
       attempt (or_error (list_objects (tn_cc tn) KConfiguration as_Configuration [InNamespace namespace])) (\<lambda>items.
         if length items = 0 then do { Println ''No configurations found'' []; succeed () }
         else attempt (or_error (list_objects (tn_cc tn) KSecret as_Secret [InNamespace controllerNamespace])) (\<lambda>secrets.
           do { w \<leftarrow> gets world;
                print (tn_Table tn [''Configuration'', ''State'', ''Config'', ''Policy'', ''Cost'', ''Age'']
                  (map (list_row tn (cc_Now (tn_cc tn) w) secrets) items));
                succeed () })))"

definition state_get_Run :: "'w Tnctl \<Rightarrow> string \<Rightarrow> string \<Rightarrow> string \<Rightarrow> ('w, 'o, unit go) tool" where
  "state_get_Run tn controllerNamespace namespace name =
     attempt (GetClient tn) (\<lambda>_.
       do { r \<leftarrow> list_objects (tn_cc tn) KSecret as_Secret
                   [InNamespace controllerNamespace,
                    MatchingLabels [(ConfigurationNameLabel, name), (ConfigurationNamespaceLabel, namespace), (''tfstate'', ''true'')]];
            case r of
              Inl err \<Rightarrow>
                do { print (''Failed to retrieve the configuration secret'' @ [char_of (10 :: nat)] @
                       ''%!(EXTRA '' @ Error err @ '')'');
                     State_Monad.return (Err err) }
            | Inr [] \<Rightarrow> do { Println ''No configuration terraform state found'' []; succeed () }
            | Inr (secret # _) \<Rightarrow>
                (case gomap_find (sec_Data secret) TerraformStateSecretKey of
                   None \<Rightarrow> fail ''no terraform state found in the secret: %s'' [FStr (om_Name (sec_Meta secret))]
                 | Some state \<Rightarrow>
                     (case lib_Gunzip (tn_Libs tn) state of
                        Inl err \<Rightarrow> fail ''failed to decode the terraform state: %w'' [FStr (Error err)]
                      | Inr out \<Rightarrow> do { Println out []; succeed () })) })"

end
