(* ===== verification/Cli_Properties.thy ===== *)
theory Cli_Properties
  imports Handler_Properties Tool_Properties Verified Tnctl_Resources
begin

text \<open>
  Properties of the commands of \<open>tnctl\<close>, with their instances on a concrete machine: what a
  passed verification means and that it agrees with the admission of modules, and what the
  commands that write to the cluster write.
\<close>

section \<open>Verification\<close>

text \<open>
  C28. A verification that succeeds recorded no failed check, and the revision that was read from
  the file is acceptable with the contexts and policies that were gathered: its plan is named and
  described, so are its inputs, a module constraint allows its module when there is any, and
  every reference names a context that has the key.
\<close>

theorem verify_sound:
  "wp (verify_Run tn)
    (\<lambda>r t. r = Ok () \<longrightarrow>
       FailedCount (vy_Verify (resource t)) = 0 \<and>
       (\<exists>content w revision. fst (h_ReadFile (tn_host tn) (vy_File (resource s)) w) = Inr content \<and>
          tn_DecodeRevision tn content = Inr revision \<and>
          acceptable (tn_Libs tn) (vy_Contexts (resource t)) (vy_Policies (resource t)) revision)) s"
  by (rule verify_Run_sound)

lemma FailedCount_append_exact:
  "GetGroup gs title \<noteq> None \<Longrightarrow>
   FailedCount (append_check title c gs) = FailedCount gs + (if ck_Status c = FailedStatus then 1 else 0)"
  by (induction gs) (auto simp: FailedCount_def StatusCount_def split: if_splits)

lemma wp_verdict_count:
  assumes "in_group v s"
    and "\<And>t. in_group v t \<Longrightarrow> vy_Policies (resource t) = vy_Policies (resource s) \<Longrightarrow>
      FailedCount (vy_Verify (resource t)) =
        FailedCount (vy_Verify (resource s)) + (if status = FailedStatus then 1 else 0) \<Longrightarrow> Q () t"
  shows "wp (verdict tn v severity status detail args) Q s"
  using assms
  by (auto simp: verdict_def modify_resource_def in_group_def GetGroup_append_check FailedCount_append_exact
      simp del: not_None_eq)

lemma wp_with_group_count:
  assumes "\<And>t. in_group title t \<Longrightarrow> FailedCount (vy_Verify (resource t)) = FailedCount (vy_Verify (resource s)) \<Longrightarrow>
      vy_Policies (resource t) = vy_Policies (resource s) \<Longrightarrow> wp (call title) Q t"
  shows "wp (with_group tn title call) Q s"
proof -
  have "FailedCount (gs @ [\<lparr>cg_Title = v, cg_Checks = []\<rparr>]) = FailedCount gs" for gs v
    by (simp add: FailedCount_def StatusCount_def)
  with assms show ?thesis
    by (auto simp: with_group_def wp_if in_group_def modify_resource_def GetGroup_snoc simp del: not_None_eq)
qed

lemma permitting_policy_iff:
  assumes "\<forall>p \<in> set ps. \<exists>m. module_constraint p = Some m \<and> (\<forall>re \<in> set (mc_Allowed m). \<exists>f. lib_Regexp lib re = Inr f)"
  shows "permitting_policy lib src ps = None \<longleftrightarrow> \<not> (\<exists>p \<in> set ps. \<exists>m. module_constraint p = Some m \<and> allows lib m src)"
  using assms
proof (induction ps)
  case (Cons p ps)
  then obtain m where m: "module_constraint p = Some m" "\<forall>re \<in> set (mc_Allowed m). \<exists>f. lib_Regexp lib re = Inr f" by auto
  then have "ModuleConstraint_Matches lib m src = Inr (allows lib m src)"
    by (simp add: ModuleConstraint_Matches_def allows_def any_regexp_iff)
  with m Cons show ?case
    by (cases "allows lib m src") (auto simp: module_constraint_def [symmetric])
qed simp

text \<open>
  C29. The check of the module agrees with the admission of configurations: with policies whose
  constraints carry no selector and whose expressions compile, it records one failure when the
  handler denies a configuration of the module, and none when it accepts it.
\<close>

theorem verify_agrees_with_admission:
  fixes s :: "('w, VerifyCommand, action list) env"
  assumes "vy_Policies (resource s) = Some items"
    and "\<forall>p \<in> set items. \<forall>m. module_constraint p = Some m \<longrightarrow>
      mc_Selector m = None \<and> (\<forall>re \<in> set (mc_Allowed m). \<exists>f. lib_Regexp (tn_Libs tn) re = Inr f)"
    and "cs_Module (cfg_Spec x) = cs_Module (rvs_Configuration (rv_Spec revision))"
  shows "wp (checkModuleSecurityPolicy tn revision)
    (\<lambda>r t. r = Ok () \<and> FailedCount (vy_Verify (resource t)) = FailedCount (vy_Verify (resource s)) +
       (if validateModuleConstriants (tn_Libs tn) x items ns = None then 0 else 1)) s"
proof -
  let ?lib = "tn_Libs tn" and ?src = "cs_Module (rvs_Configuration (rv_Spec revision))"
  let ?ps = "FindModuleConstraints items"
  have ev: "\<forall>p \<in> set ?ps. \<exists>m. module_constraint p = Some m \<and> evaluable ?lib x ns m \<and> selects ?lib x ns m = Inr True"
    using assms(2) by (fastforce simp: FindModuleConstraints_eq evaluable_def selects_def)
  then have evs: "\<forall>p \<in> set ?ps. \<exists>m. module_constraint p = Some m \<and> evaluable ?lib x ns m" by blast
  have "filter (\<lambda>p. \<exists>m. module_constraint p = Some m \<and> selects ?lib x ns m = Inr True) ?ps = ?ps"
    using ev by (auto intro!: filter_True)
  then have admission: "validateModuleConstriants ?lib x items ns = None \<longleftrightarrow>
      ?ps = [] \<or> (\<exists>p \<in> set ?ps. \<exists>m. module_constraint p = Some m \<and> allows ?lib m ?src)"
    using applicable_policies_eq [OF evs] module_allowed_iff [OF evs] assms(3)
    by (auto simp: validateModuleConstriants_def)
  have "permitting_policy ?lib ?src ?ps = None \<longleftrightarrow>
      \<not> (\<exists>p \<in> set ?ps. \<exists>m. module_constraint p = Some m \<and> allows ?lib m ?src)"
    using assms(2) by (intro permitting_policy_iff) (auto simp: FindModuleConstraints_eq)
  with admission have denied: "validateModuleConstriants ?lib x items ns = None \<longleftrightarrow>
      ?ps = [] \<or> permitting_policy ?lib ?src ?ps \<noteq> None" by simp
  let ?Q = "\<lambda>r t. r = Ok () \<and> FailedCount (vy_Verify (resource t)) = FailedCount (vy_Verify (resource s)) +
       (if validateModuleConstriants ?lib x items ns = None then 0 else 1)"
  have judged: "wp (check_module tn v ?src items) (\<lambda>_. ?Q (Ok ())) t"
    if "in_group v t" "FailedCount (vy_Verify (resource t)) = FailedCount (vy_Verify (resource s))"
    for v and t :: "('w, VerifyCommand, action list) env"
    using that
    by (auto simp: check_module_def judge_module_def Let_def wp_if Warning_def Info_def Passed_def Failed_def denied
        intro!: wp_verdict_count split: option.splits)
  have none: "validateModuleConstriants ?lib x [] ns = None"
    by (simp add: validateModuleConstriants_def FindModuleConstraints_def)
  have eta: "wp (succeed ()) Q = Q (Ok ())" for Q :: "unit go \<Rightarrow> ('w, VerifyCommand, action list) env \<Rightarrow> bool"
    by (simp add: fun_eq_iff)
  let ?v = "''Validating Module Policy permits Revision''"
  have body: "wp (do { cmd \<leftarrow> gets resource;
      (if vy_Policies cmd = None \<or> vy_Policies cmd = Some []
       then Warning tn ?v ''No module constraint policies found, the Revision will be permitted'' []
       else check_module tn ?v ?src (case vy_Policies cmd of None \<Rightarrow> [] | Some items \<Rightarrow> items));
      succeed () }) ?Q t"
    if "in_group ?v t" "FailedCount (vy_Verify (resource t)) = FailedCount (vy_Verify (resource s))"
      "vy_Policies (resource t) = Some items" for t
    using that judged [OF that(1,2)] none
    by (cases items) (auto simp: eta Warning_def intro!: wp_verdict_count)
  show ?thesis
    unfolding checkModuleSecurityPolicy_def
    by (rule wp_with_group_count) (use body assms(1) in \<open>simp del: wp_bind\<close>)
qed

section \<open>Orphaned secrets\<close>

text \<open>The objects of a list as the client reads it.\<close>

definition listed :: "'w client \<Rightarrow> kind \<Rightarrow> (object \<Rightarrow> 'a option) \<Rightarrow> list_option list \<Rightarrow> 'w \<Rightarrow> 'a list" where
  "listed cc k as opts w = (case fst (cc_List cc k opts w) of Inl _ \<Rightarrow> [] | Inr xs \<Rightarrow> List.map_filter as xs)"

definition deletion :: "string \<Rightarrow> string \<Rightarrow> gerror option \<Rightarrow> effect" where
  "deletion namespace name r =
     Wrote Delete (OSecret \<lparr>sec_Meta = named_meta namespace name, sec_Data = None\<rparr>) r"

text \<open>The first deletions of the names, all but the last of them successful.\<close>

definition deleted_in_order :: "string \<Rightarrow> string list \<Rightarrow> unit go \<Rightarrow> effect list \<Rightarrow> bool" where
  "deleted_in_order namespace names r es \<longleftrightarrow>
     (if r = Ok () then es = map (\<lambda>n. deletion namespace n None) names
      else \<exists>done n e rest. names = done @ n # rest \<and> r = Err e \<and>
             es = map (\<lambda>n. deletion namespace n None) done @ [deletion namespace n (Some e)])"

lemma deleted_in_order_Cons:
  "deleted_in_order namespace names r es \<Longrightarrow>
   deleted_in_order namespace (n # names) r (deletion namespace n None # es)"
  by (auto simp: deleted_in_order_def intro: exI [of _ "n # _"])
    (metis append_Cons list.simps(9))

lemma wp_delete_rows:
  fixes s :: "('w, 'o, action list) env"
  shows "wp (delete_rows tn namespace names)
    (\<lambda>r t. \<exists>es. effects t = effects s @ es \<and> deleted_in_order namespace names r es) s"
proof (induction names arbitrary: s)
  case Nil
  show ?case by (simp add: deleted_in_order_def)
next
  case (Cons n names)
  have fails: "deleted_in_order namespace (n # names) (Err e) [deletion namespace n (Some e)]" for e
    by (auto simp: deleted_in_order_def)
  have rest: "wp (delete_rows tn namespace names)
      (\<lambda>r t. \<exists>es. effects t = effects s @ es \<and> deleted_in_order namespace (n # names) r es) u"
    if "effects u = effects s @ [deletion namespace n None]" for u :: "('w, 'o, action list) env"
    by (rule wp_mono [OF Cons.IH [of u]]) (use that deleted_in_order_Cons in fastforce)
  show ?case
    using fails
    by (auto simp: wp_request perform_def error_of_def deletion_def [symmetric] split: sum.splits intro!: rest)
qed

lemma secret_uuid_configuration:
  assumes "n \<in> set (configuration_secrets x)"
  shows "secret_uuid n \<in> {None, Some (om_UID (cfg_Meta x))}"
  using assms
  by (auto simp: configuration_secrets_def secret_name_defs secret_uuid_def SecretPrefixes_def HasPrefix_def)

lemma findMatchingConfiguration_iff: "findMatchingConfiguration uuid xs \<longleftrightarrow> (\<exists>x \<in> set xs. om_UID (cfg_Meta x) = uuid)"
  by (induction xs) auto

lemma orphan_not_owned:
  assumes "y \<in> set (orphans configurations secrets)" and "x \<in> set configurations"
  shows "om_Name (sec_Meta y) \<notin> set (configuration_secrets x)"
  using assms secret_uuid_configuration [of "om_Name (sec_Meta y)" x]
  by (auto simp: orphans_def findMatchingConfiguration_iff split: option.splits)

lemma deleted_in_order_names:
  "deleted_in_order namespace names r es \<Longrightarrow> e \<in> set es \<Longrightarrow> \<exists>n \<in> set names. \<exists>r'. e = deletion namespace n r'"
  by (fastforce simp: deleted_in_order_def split: if_splits)

text \<open>The deletion of the orphans, or a run that deletes nothing.\<close>

lemma wp_confirm_deletion:
  "(\<And>r t. effects t = effects s \<Longrightarrow> Q r t) \<Longrightarrow> wp (confirm_deletion tn n) Q s"
  by (simp add: confirm_deletion_def Printf_def Println_def wp_request wp_if of_sum_def split: sum.splits)

lemma wp_clean_Run:
  fixes s :: "('w, 'o, action list) env" and tn :: "'w Tnctl" and cmd :: CleanCommand
  defines "w \<equiv> snd (h_Client (tn_host tn) (world s))"
  defines "ys \<equiv> orphans (listed (tn_cc tn) KConfiguration as_Configuration [] w)
      (listed (tn_cc tn) KSecret as_Secret [InNamespace (cl_ControllerNamespace cmd)]
         (snd (cc_List (tn_cc tn) KConfiguration [] w)))"
  assumes deletes: "\<And>t. effects t = effects s \<Longrightarrow>
      wp (delete_rows tn (cl_ControllerNamespace cmd) (map (\<lambda>y. om_Name (sec_Meta y)) ys)) Q t"
    and idle: "\<And>r t. effects t = effects s \<Longrightarrow> r \<noteq> Ok () \<or> \<not> cl_Force cmd \<or> ys = [] \<Longrightarrow> Q r t"
  shows "wp (clean_Run tn cmd) Q s"
proof -
  have rows: "map hd (map (orphan_row tn now) ys) = map (\<lambda>y. om_Name (sec_Meta y)) ys" for now ys
    by (simp add: orphan_row_def)
  have confirm: "wp (if \<not> cl_Force cmd then confirm_deletion tn n else succeed True)
      (\<lambda>r t. case r of
           Ok go_on \<Rightarrow> wp (if go_on then delete_rows tn (cl_ControllerNamespace cmd) (map hd (map (orphan_row tn now) ys))
                             else succeed ()) Q t
         | Err e \<Rightarrow> Q (Err e) t
         | Panic \<Rightarrow> Q Panic t) t" if "effects t = effects s" for n t now
    unfolding rows using that deletes by (auto simp: wp_if idle intro!: wp_confirm_deletion split: go.splits)
  define report where "report ys = (do { w \<leftarrow> gets world;
        let rows = map (orphan_row tn (cc_Now (tn_cc tn) w)) ys;
        if length rows = 0
        then do { Println ([char_of (10 :: nat)] @ ''No orphaned secrets found'') []; succeed () }
        else do { print (tn_Table tn [''Name'', ''Configuration'', ''Namespace'', ''Age''] rows);
                  attempt (if \<not> cl_Force cmd then confirm_deletion tn (length rows) else succeed True) (\<lambda>go_on.
                    if go_on then delete_rows tn (cl_ControllerNamespace cmd) (map hd rows) else succeed ()) } }
      :: ('w, 'o, unit go) tool)" for ys
  have reported: "wp (report ys) Q t" if "effects t = effects s" for t
    unfolding report_def
    using that confirm by (cases "ys = []") (simp_all add: Let_def Println_def idle del: map_map)
  show ?thesis
    unfolding clean_Run_def report_def [symmetric]
    using reported
    by (auto simp: idle GetClient_def list_objects_def wp_request listed_def of_sum_def of_error_def w_def ys_def
        split: sum.splits option.splits if_splits)
qed

lemma gone_orphan:
  assumes "y \<in> set secrets" and "is_uuid (om_UID (cfg_Meta x))"
    and "\<forall>z \<in> set configurations. om_UID (cfg_Meta z) \<noteq> om_UID (cfg_Meta x)"
    and "om_Name (sec_Meta y) \<in> {GetTerraformStateSecretName x, GetTerraformConfigSecretName x, GetTerraformPolicySecretName x}"
  shows "y \<in> set (orphans configurations secrets)"
proof -
  have "secret_uuid (om_Name (sec_Meta y)) = Some (om_UID (cfg_Meta x))"
    using assms(2,4) by (auto simp: secret_name_defs secret_uuid_def SecretPrefixes_def HasPrefix_def)
  with assms(1,3) show ?thesis by (auto simp: orphans_def findMatchingConfiguration_iff)
qed

lemma overlooked_uuid:
  "n \<in> {GetTerraformCostSecretName x, GetTerraformPlanOutSecretName x, GetTerraformPlanJSONSecretName x} \<Longrightarrow> secret_uuid n = None"
  by (auto simp: secret_name_defs secret_uuid_def SecretPrefixes_def HasPrefix_def)

lemma overlooked_orphan:
  "y \<in> set (orphans configurations secrets) \<Longrightarrow>
     om_Name (sec_Meta y) \<notin> {GetTerraformCostSecretName x, GetTerraformPlanOutSecretName x, GetTerraformPlanJSONSecretName x}"
  using overlooked_uuid [of "om_Name (sec_Meta y)" x] by (auto simp: orphans_def)

text \<open>
  C30. The clean-up deletes nothing but secrets that were listed in the namespace of the controller
  and that no listed configuration owns: never a secret of a configuration in use. When it is
  forced and succeeds, it deleted every listed state, configuration and policy secret of any
  configuration with a proper unique identifier that is no longer listed. The secrets of cost
  estimates and of plans are never deleted, although the help of the command names the former.
\<close>

theorem clean_only_orphans:
  "wp (clean_Run tn cmd)
    (\<lambda>r t. let w = snd (h_Client (tn_host tn) (world s));
             configurations = listed (tn_cc tn) KConfiguration as_Configuration [] w;
             namespace = cl_ControllerNamespace cmd;
             secrets = listed (tn_cc tn) KSecret as_Secret [InNamespace namespace]
                         (snd (cc_List (tn_cc tn) KConfiguration [] w)) in
       \<exists>es. effects t = effects s @ es \<and>
         (\<forall>e \<in> set es. \<exists>n r'. e = deletion namespace n r' \<and> n \<in> (\<lambda>y. om_Name (sec_Meta y)) ` set secrets \<and>
            (\<forall>x \<in> set configurations. n \<notin> set (configuration_secrets x)) \<and>
            (\<forall>x. n \<notin> {GetTerraformCostSecretName x, GetTerraformPlanOutSecretName x, GetTerraformPlanJSONSecretName x})) \<and>
         (r = Ok () \<and> cl_Force cmd \<longrightarrow>
            (\<forall>y \<in> set secrets. \<forall>x.
               is_uuid (om_UID (cfg_Meta x)) \<and> (\<forall>z \<in> set configurations. om_UID (cfg_Meta z) \<noteq> om_UID (cfg_Meta x)) \<and>
               om_Name (sec_Meta y) \<in>
                 {GetTerraformStateSecretName x, GetTerraformConfigSecretName x, GetTerraformPolicySecretName x} \<longrightarrow>
               deletion namespace (om_Name (sec_Meta y)) None \<in> set es))) s"
proof -
  let ?w = "snd (h_Client (tn_host tn) (world s))" and ?ns = "cl_ControllerNamespace cmd"
  let ?cs = "listed (tn_cc tn) KConfiguration as_Configuration [] ?w"
  let ?ss = "listed (tn_cc tn) KSecret as_Secret [InNamespace ?ns] (snd (cc_List (tn_cc tn) KConfiguration [] ?w))"
  let ?names = "map (\<lambda>y. om_Name (sec_Meta y)) (orphans ?cs ?ss)"
  have "wp (clean_Run tn cmd) (\<lambda>r t. \<exists>es. effects t = effects s @ es \<and>
         (es = [] \<and> (r \<noteq> Ok () \<or> \<not> cl_Force cmd) \<or> deleted_in_order ?ns ?names r es)) s"
    by (rule wp_clean_Run) (auto simp: deleted_in_order_def intro!: wp_mono [OF wp_delete_rows])
  then show ?thesis
    unfolding Let_def
  proof (rule wp_mono, elim exE conjE)
    fix r t es
    assume es: "effects t = effects s @ es" "es = [] \<and> (r \<noteq> Ok () \<or> \<not> cl_Force cmd) \<or> deleted_in_order ?ns ?names r es"
    have listed: "om_Name (sec_Meta y) \<in> (\<lambda>y. om_Name (sec_Meta y)) ` set ?ss" if "y \<in> set (orphans ?cs ?ss)" for y
      using that by (auto simp: orphans_def)
    have only: "\<exists>n r'. e = deletion ?ns n r' \<and> n \<in> (\<lambda>y. om_Name (sec_Meta y)) ` set ?ss \<and>
            (\<forall>x \<in> set ?cs. n \<notin> set (configuration_secrets x)) \<and>
            (\<forall>x. n \<notin> {GetTerraformCostSecretName x, GetTerraformPlanOutSecretName x, GetTerraformPlanJSONSecretName x})"
      if "e \<in> set es" for e
    proof -
      from that es(2) obtain y r' where y: "e = deletion ?ns (om_Name (sec_Meta y)) r'" "y \<in> set (orphans ?cs ?ss)"
        using deleted_in_order_names [of ?ns ?names r es e] by auto
      show ?thesis
        by (rule exI [of _ "om_Name (sec_Meta y)"], rule exI [of _ r'], intro conjI ballI allI)
          (rule y(1) listed [OF y(2)] overlooked_orphan [OF y(2)] orphan_not_owned [OF y(2)]; assumption?)+
    qed
    have all: "deletion ?ns (om_Name (sec_Meta y)) None \<in> set es"
      if "r = Ok ()" "cl_Force cmd" "y \<in> set (orphans ?cs ?ss)" for y
      using that es(2) by (auto simp: deleted_in_order_def)
    show "\<exists>es. effects t = effects s @ es \<and>
         (\<forall>e \<in> set es. \<exists>n r'. e = deletion ?ns n r' \<and> n \<in> (\<lambda>y. om_Name (sec_Meta y)) ` set ?ss \<and>
            (\<forall>x \<in> set ?cs. n \<notin> set (configuration_secrets x)) \<and>
            (\<forall>x. n \<notin> {GetTerraformCostSecretName x, GetTerraformPlanOutSecretName x, GetTerraformPlanJSONSecretName x})) \<and>
         (r = Ok () \<and> cl_Force cmd \<longrightarrow>
            (\<forall>y \<in> set ?ss. \<forall>x.
               is_uuid (om_UID (cfg_Meta x)) \<and> (\<forall>z \<in> set ?cs. om_UID (cfg_Meta z) \<noteq> om_UID (cfg_Meta x)) \<and>
               om_Name (sec_Meta y) \<in>
                 {GetTerraformStateSecretName x, GetTerraformConfigSecretName x, GetTerraformPolicySecretName x} \<longrightarrow>
               deletion ?ns (om_Name (sec_Meta y)) None \<in> set es))"
    proof (rule exI [of _ es], intro conjI impI ballI allI)
      fix y x
      assume "r = Ok () \<and> cl_Force cmd" "y \<in> set ?ss"
        and "is_uuid (om_UID (cfg_Meta x)) \<and> (\<forall>z \<in> set ?cs. om_UID (cfg_Meta z) \<noteq> om_UID (cfg_Meta x)) \<and>
          om_Name (sec_Meta y) \<in>
            {GetTerraformStateSecretName x, GetTerraformConfigSecretName x, GetTerraformPolicySecretName x}"
      then show "deletion ?ns (om_Name (sec_Meta y)) None \<in> set es"
        by (intro all gone_orphan [of y ?ss x ?cs]) blast+
    qed (use es(1) only in blast)+
  qed
qed

text \<open>
  Both commands on secrets overlook those of the cost estimates, and the clean-up those of the
  plans: among secrets that the controller made, the column of costs of every configuration is
  \<open>None\<close>, and no such secret is ever an orphan, whichever configurations are left.
\<close>

theorem cost_secrets_overlooked:
  assumes "\<forall>y \<in> set secrets. \<exists>x. om_Name (sec_Meta y) \<in> set (configuration_secrets x)"
  shows "list_row tn now secrets x ! 4 = ''None'' \<and>
    (\<forall>y \<in> set (orphans configurations secrets). \<forall>x.
       om_Name (sec_Meta y) \<notin> {GetTerraformCostSecretName x, GetTerraformPlanOutSecretName x, GetTerraformPlanJSONSecretName x})"
proof
  have "\<not> HasPrefix n ''cost-''" if "n \<in> set (configuration_secrets z)" for n z
    using that by (auto simp: configuration_secrets_def secret_name_defs HasPrefix_def)
  with assms have "findSecretByPrefix ''cost-'' uid secrets = None" for uid
    by (induction secrets) auto
  then show "list_row tn now secrets x ! 4 = ''None''"
    by (simp add: list_row_def SecretPrefixes_def numeral_eq_Suc)
  show "\<forall>y \<in> set (orphans configurations secrets). \<forall>x. om_Name (sec_Meta y) \<notin>
      {GetTerraformCostSecretName x, GetTerraformPlanOutSecretName x, GetTerraformPlanJSONSecretName x}"
    by (intro ballI allI overlooked_orphan)
qed

section \<open>Approval\<close>

text \<open>The resource waits for an approval: its apply annotation has a value other than \<open>true\<close>.\<close>

definition pending :: "object \<Rightarrow> bool" where
  "pending x \<longleftrightarrow> gomap_get (om_Annotations (meta_of x)) ApplyAnnotation \<notin> {[], ''true''}"

definition with_approval :: "object \<Rightarrow> object" where
  "with_approval x = map_meta (annotate ApplyAnnotation ''true'') x"

lemma approved_configuration:
  assumes "pending (OConfiguration x)" and "OConfiguration y = with_approval (OConfiguration x)"
  shows "\<not> HasApproval x \<and> HasApproval y \<and> \<not> NeedsApproval y \<and> cfg_Spec y = cfg_Spec x \<and> cfg_Status y = cfg_Status x"
  using assms
  by (auto simp: pending_def with_approval_def HasApproval_def NeedsApproval_def Configuration_annotation_def
      annotate_def gomap_get_def)

text \<open>
  The rule of \<open>GetIfExists\<close> with the answer: what is found was read from the cluster.
\<close>

lemma wp_GetIfExists_found:
  assumes "\<And>err w a. Q (Inl err) (s\<lparr>world := w, absent := a\<rparr>)"
    and "\<And>w a. Q (Inr None) (s\<lparr>world := w, absent := a\<rparr>)"
    and "\<And>x y w w'. fst (cc_Get cc k ns n w) = Inr x \<Longrightarrow> as x = Some y \<Longrightarrow> Q (Inr (Some y)) (s\<lparr>world := w'\<rparr>)"
  shows "wp (GetIfExists cc k as ns n) Q s"
proof -
  have "Q (Inl err) (s\<lparr>world := w\<rparr>)" for err w
    using assms(1) [where a = "absent s"] by simp
  then show ?thesis
    using assms(2,3)
    by (auto simp: GetIfExists_def wp_request wp_if split: sum.splits option.splits)
qed

text \<open>The resource of the name was read, and it did not wait, or was approved with this patch.\<close>

definition attended :: "'w Tnctl \<Rightarrow> ApproveCommand \<Rightarrow> effect list \<Rightarrow> string \<Rightarrow> bool" where
  "attended tn cmd es name \<longleftrightarrow>
     (\<exists>x w. fst (cc_Get (tn_cc tn) (approve_kind cmd) (ap_Namespace cmd) name w) = Inr x \<and>
        (\<not> pending x \<or> Wrote (Patch x) (with_approval x) None \<in> set es))"

definition approvals :: "'w Tnctl \<Rightarrow> ApproveCommand \<Rightarrow> string list \<Rightarrow> unit go \<Rightarrow> effect list \<Rightarrow> bool" where
  "approvals tn cmd names r es \<longleftrightarrow>
     (\<forall>e \<in> set es. \<exists>x r'. e = Wrote (Patch x) (with_approval x) r' \<and> pending x \<and> kind_of x = approve_kind cmd) \<and>
     (r = Ok () \<longrightarrow> (\<forall>name \<in> set names. attended tn cmd es name))"

lemma approvals_failed: "approvals tn cmd names (Err e) []"
  by (simp add: approvals_def)

lemma approvals_Cons:
  assumes "approvals tn cmd names r es"
    and "\<forall>e \<in> set pre. \<exists>x r'. e = Wrote (Patch x) (with_approval x) r' \<and> pending x \<and> kind_of x = approve_kind cmd"
    and "attended tn cmd pre name"
  shows "approvals tn cmd (name # names) r (pre @ es)"
proof -
  have "attended tn cmd (pre @ es) n" if "attended tn cmd es n \<or> attended tn cmd pre n" for n
    using that by (auto simp: attended_def)
  with assms show ?thesis unfolding approvals_def by auto
qed

lemma wp_approve_all:
  fixes s :: "('w, 'o, action list) env" and cmd :: ApproveCommand
  shows "wp (approve_all tn cmd names)
    (\<lambda>r t. \<exists>es. effects t = effects s @ es \<and> approvals tn cmd names r es) s"
proof (induction names arbitrary: s)
  case Nil
  show ?case by (simp add: approvals_def)
next
  case (Cons name names)
  let ?Q = "\<lambda>r t. \<exists>es. effects t = effects s @ es \<and> approvals tn cmd (name # names) r es"
  have rest: "wp (approve_all tn cmd names) ?Q t"
    if "effects t = effects s @ pre" "attended tn cmd pre name"
      "\<forall>e \<in> set pre. \<exists>x r'. e = Wrote (Patch x) (with_approval x) r' \<and> pending x \<and> kind_of x = approve_kind cmd"
    for t :: "('w, 'o, action list) env" and pre
    by (rule wp_mono [OF Cons.IH [of t]]) (use that approvals_Cons in fastforce)
  have patched: "wp (perform (tn_cc tn) (Patch x) (with_approval x))
      (\<lambda>r t. case of_sum r of Ok _ \<Rightarrow> wp (do { Println format args; approve_all tn cmd names }) ?Q t
         | Err e \<Rightarrow> ?Q (Err e) t | Panic \<Rightarrow> ?Q Panic t) u"
    if "pending x" "kind_of x = approve_kind cmd" "effects u = effects s"
      "fst (cc_Get (tn_cc tn) (approve_kind cmd) (ap_Namespace cmd) name w) = Inr x"
    for x w format args and u :: "('w, 'o, action list) env"
  proof -
    have "approvals tn cmd (name # names) (Err e) [Wrote (Patch x) (with_approval x) (Some e)]" for e
      using that by (simp add: approvals_def)
    moreover have "wp (approve_all tn cmd names) ?Q t"
      if "effects t = effects s @ [Wrote (Patch x) (with_approval x) None]" for t :: "('w, 'o, action list) env"
      using that \<open>pending x\<close> \<open>kind_of x = _\<close> \<open>fst _ = _\<close> by (intro rest [OF that]) (auto simp: attended_def)
    ultimately show ?thesis
      using that(3) by (auto simp: perform_def wp_request Println_def error_of_def split: sum.splits)
  qed
  show ?case
    unfolding approve_all.simps wp_attempt wp_or_error
  proof (rule wp_GetIfExists_found, goal_cases)
    case (3 x y w w')
    then have y: "y = x" "kind_of x = approve_kind cmd" by (auto simp: as_kind_def split: if_splits)
    let ?t = "s\<lparr>world := w'\<rparr>"
    have waits: "om_Annotations (meta_of x) = None \<or> gomap_get (om_Annotations (meta_of x)) ApplyAnnotation \<in> {[], ''true''}
        \<longleftrightarrow> \<not> pending x"
      by (auto simp: pending_def gomap_get_def)
    have "wp (approve_all tn cmd names) ?Q ?t" if "\<not> pending x"
      using that 3(1) by (intro rest [of ?t "[]"]) (auto simp: attended_def)
    then show ?case
      using patched [OF _ y(2) _ 3(1), of ?t]
      unfolding y(1) Let_def option.case of_sum_simps go.case waits with_approval_def [symmetric] wp_if wp_attempt wp_or_error
      by (simp del: wp_bind)
  qed (auto simp: approvals_failed)
qed

text \<open>
  C31. The approval patches only resources of the kind asked for that wait for one, and changes
  nothing but the apply annotation: a configuration is then approved, with its specification and
  status as they were. When the command succeeds, every resource named was found, and was
  approved when it waited.
\<close>

theorem approve_only_pending:
  "wp (approve_Run tn cmd)
    (\<lambda>r t. \<exists>es. effects t = effects s @ es \<and> approvals tn cmd (ap_Names cmd) r es \<and>
       (\<forall>x y r'. Wrote (Patch (OConfiguration x)) (OConfiguration y) r' \<in> set es \<longrightarrow>
          \<not> HasApproval x \<and> HasApproval y \<and> \<not> NeedsApproval y \<and>
          cfg_Spec y = cfg_Spec x \<and> cfg_Status y = cfg_Status x)) s"
proof -
  have "wp (approve_Run tn cmd) (\<lambda>r t. \<exists>es. effects t = effects s @ es \<and> approvals tn cmd (ap_Names cmd) r es) s"
    using wp_approve_all [of tn cmd "ap_Names cmd" "s\<lparr>world := snd (h_Client (tn_host tn) (world s))\<rparr>"]
    by (auto simp: approve_Run_def GetClient_def wp_if wp_request approvals_failed of_error_def split: option.splits)
  moreover have "\<not> HasApproval x \<and> HasApproval y \<and> \<not> NeedsApproval y \<and> cfg_Spec y = cfg_Spec x \<and> cfg_Status y = cfg_Status x"
    if "approvals tn cmd names r es" "Wrote (Patch (OConfiguration x)) (OConfiguration y) r' \<in> set es" for names r es x y r'
    using that by (intro approved_configuration) (auto simp: approvals_def)
  ultimately show ?thesis by (elim wp_mono) blast
qed

section \<open>Retry\<close>

lemma keeps_attempt [keeps_intros]: "keeps I m \<Longrightarrow> (\<And>a. keeps I (f a)) \<Longrightarrow> keeps I (attempt m f)"
  unfolding attempt_def by (intro keeps_intros)

lemma keeps_wrappers [keeps_intros]:
  "keeps I m \<Longrightarrow> keeps I (or_error m)" "keeps I n \<Longrightarrow> keeps I (no_error n)"
  "keeps I (succeed x)" "keeps I (fail format args)"
  by (simp_all add: or_error_def no_error_def succeed_def fail_def keeps_bind keeps_return)

text \<open>What was written does not change by reading, printing and waiting.\<close>

definition wrote :: "effect list \<Rightarrow> ('w, 'o, 't) env \<Rightarrow> bool" where
  "wrote es s \<longleftrightarrow> effects s = es"

lemma wrote_steps [keeps_intros]:
  "worldless (wrote es)" "missless (wrote es)" "keeps (wrote es) (print text)" "keeps (wrote es) (Println format args)"
  "keeps (wrote es) (modify_resource f)"
  by (auto simp: wrote_def worldless_def missless_def print_def Println_def note_action_def
      intro!: keeps_modify_state keeps_modify_resource)

lemma wrote_retry [keeps_intros]:
  assumes "keeps (wrote es) fn"
  shows "keeps (wrote es) (Retry h ctx attempts jitter d fn)"
proof -
  have "keeps (wrote es) (retry_loop h ctx jitter d fn i n)" for i n
    by (induction n arbitrary: i) (auto simp: done_context_def Sleep_def intro!: keeps_intros assms)
  then show ?thesis by (simp add: Retry_def Let_def)
qed

lemma wrote_logs [keeps_intros]: "keeps (wrote es) (logs_Run tn cmd)"
proof -
  have "keeps (wrote es) (print_logs tn namespace pod containers)" for namespace pod containers
    by (induction containers) (auto intro!: keeps_intros)
  then have "keeps (wrote es) (showLogs tn cmd stage configuration)" for stage configuration
    unfolding showLogs_def GetClient_def find_pods_def by (intro keeps_intros)
  then show ?thesis
    unfolding logs_Run_def GetClient_def by (intro keeps_intros)
qed

lemma wrote_cloud_logs [keeps_intros]: "keeps (wrote es) (cloud_logs_Run tn cmd)"
  unfolding cloud_logs_Run_def GetClient_def by (intro keeps_intros)

definition with_retry :: "time \<Rightarrow> object \<Rightarrow> object" where
  "with_retry now x = map_meta (annotate RetryAnnotation (string_of_int (unix_time now))) x"

lemma with_retry_configuration:
  assumes "- (2 ^ 63) \<le> unix_time now \<and> unix_time now < 2 ^ 63"
    and "OConfiguration y = with_retry now (OConfiguration x)"
  shows "IsRetryableValid y \<and>
    (IsRetryable y \<longleftrightarrow> (\<exists>lst. st_LastReconcile (cst_Common (cfg_Status x)) = Some lst \<and> lr_Time lst \<noteq> 0 \<and>
       lr_Time lst < now div second * second))"
proof -
  have y: "y = x\<lparr>cfg_Meta := annotate RetryAnnotation (string_of_int (unix_time now)) (cfg_Meta x)\<rparr>"
    using assms(2) by (simp add: with_retry_def)
  then have "gomap_find (om_Annotations (cfg_Meta y)) RetryAnnotation = Some (string_of_int (unix_time now))"
    by (simp add: annotate_def)
  from retry_annotation [OF this] assms(1) show ?thesis
    by (auto simp: y Unix_def unix_time_def)
qed

text \<open>
  C32. The retry patches the one resource it read with an annotation that the controller accepts,
  and that makes the controller retry exactly when the resource was last reconciled before the
  current second began. When the command succeeds, the patch was written.
\<close>

theorem retry_requested:
  fixes s :: "('w, Pod list, action list) env"
  assumes "\<forall>w. - (2 ^ 63) \<le> unix_time (cc_Now (tn_cc tn) w) \<and> unix_time (cc_Now (tn_cc tn) w) < 2 ^ 63"
  shows "wp (retry_Run tn cmd)
    (\<lambda>r t. effects t = effects s \<and> r \<noteq> Ok () \<or>
       (\<exists>x r' w. effects t = effects s @ [Wrote (Patch x) (with_retry (cc_Now (tn_cc tn) w) x) r'] \<and>
          (r = Ok () \<longrightarrow> r' = None) \<and> kind_of x = retry_kind cmd \<and>
          (\<forall>y z. x = OConfiguration y \<and> OConfiguration z = with_retry (cc_Now (tn_cc tn) w) x \<longrightarrow>
             IsRetryableValid z \<and>
             (IsRetryable z \<longleftrightarrow> (\<exists>lst. st_LastReconcile (cst_Common (cfg_Status y)) = Some lst \<and> lr_Time lst \<noteq> 0 \<and>
                lr_Time lst < cc_Now (tn_cc tn) w div second * second))))) s"
proof -
  let ?A = "\<lambda>r t. effects t = effects s \<and> r \<noteq> Ok () \<or>
       (\<exists>x r' w. effects t = effects s @ [Wrote (Patch x) (with_retry (cc_Now (tn_cc tn) w) x) r'] \<and>
          (r = Ok () \<longrightarrow> r' = None) \<and> kind_of x = retry_kind cmd)"
  have tail: "wp m (\<lambda>_ t. effects t = es) u" if "keeps (wrote es) m" "effects u = es"
    for m :: "('w, Pod list, unit go) tool" and es and u :: "('w, Pod list, action list) env"
    using keeps_wp [OF that(1), of u] that(2) by (auto simp: wrote_def elim: wp_mono)
  have patched: "wp (perform (tn_cc tn) (Patch x) (with_retry (cc_Now (tn_cc tn) w) x))
      (\<lambda>r t. case of_sum r of Ok _ \<Rightarrow> wp m ?A t | Err e \<Rightarrow> ?A (Err e) t | Panic \<Rightarrow> ?A Panic t) u"
    if "kind_of x = retry_kind cmd" "effects u = effects s" "\<And>es. keeps (wrote es) m"
    for x w and m :: "('w, Pod list, unit go) tool" and u :: "('w, Pod list, action list) env"
  proof -
    have "wp m ?A t" if "effects t = effects s @ [Wrote (Patch x) (with_retry (cc_Now (tn_cc tn) w) x) None]" for t
      by (rule wp_mono [OF tail]) (use \<open>\<And>es. keeps (wrote es) m\<close> that \<open>kind_of x = _\<close> in auto)
    then show ?thesis
      using that(1,2) by (auto simp: perform_def wp_request error_of_def split: sum.splits)
  qed
  have "wp (retry_Run tn cmd) ?A s"
  proof (cases "fst (h_Client (tn_host tn) (world s))")
    case None
    let ?found = "\<lambda>original. do { w \<leftarrow> gets world;
        attempt (or_error (perform (tn_cc tn) (Patch original) (with_retry (cc_Now (tn_cc tn) w) original))) (\<lambda>_.
          do { Println ''%s Resource %q has been marked for retry'' [FStr (tn_Icon tn ''good''), FStr (rt_Name cmd)];
               if rt_WatchLogs cmd then succeed ()
               else (let logs = \<lparr>lg_Name = rt_Name cmd, lg_Namespace = rt_Namespace cmd, lg_Follow = True,
                                 lg_Stage = [], lg_WaitInterval = 3 * second\<rparr> in
                     if rt_Kind cmd = CloudResourceKind then cloud_logs_Run tn logs else logs_Run tn logs) }) }"
    have found: "wp (?found x) ?A u" if "kind_of x = retry_kind cmd" "effects u = effects s" for x u
      unfolding wp_bind [of "gets world"] wp_gets wp_attempt wp_or_error
      by (rule patched [OF that]) (intro keeps_intros)
    have "wp (GetIfExists (tn_cc tn) (retry_kind cmd) (as_kind (retry_kind cmd)) (rt_Namespace cmd) (rt_Name cmd))
        (\<lambda>r t. case of_sum r of
            Ok r \<Rightarrow> wp (case r of
                None \<Rightarrow> fail ''resource (%s/%s) does not exist'' [FStr (rt_Namespace cmd), FStr (rt_Name cmd)]
              | Some original \<Rightarrow> ?found original) ?A t
          | Err e \<Rightarrow> ?A (Err e) t
          | Panic \<Rightarrow> ?A Panic t) u" if "effects u = effects s" for u
    proof (rule wp_GetIfExists_found, goal_cases)
      case (3 x y w w')
      then have "kind_of y = retry_kind cmd" by (auto simp: as_kind_def split: if_splits)
      then show ?case
        unfolding of_sum_simps go.case option.case by (rule found) (use that in simp)
    qed (use that in auto)
    from this [of "s\<lparr>world := snd (h_Client (tn_host tn) (world s))\<rparr>"] show ?thesis
      unfolding retry_Run_def with_retry_def [symmetric] GetClient_def wp_attempt [of "no_error m" for m]
        wp_attempt [of "or_error (GetIfExists cc k as ns n)" for cc k as ns n] wp_no_error wp_or_error wp_request
        None of_error_simps go.case
      by simp
  qed (simp add: retry_Run_def GetClient_def wp_request)
  then show ?thesis
    by (rule wp_mono) (use assms with_retry_configuration in blast)
qed

section \<open>Instances\<close>

definition verified_revision :: Revision where
  "verified_revision =
     (NewRevision ''bucket-1'')\<lparr>rv_Spec := (rv_Spec (NewRevision []))
        \<lparr>rvs_Plan := \<lparr>rd_Name = ''bucket'', rd_Description = ''a bucket'', rd_Categories = [],
           rd_ChangeLog = [], rd_Revision = ''1''\<rparr>,
         rvs_Configuration := empty_configuration_spec\<lparr>cs_Module := ''git::bucket''\<rparr>\<rparr>\<rparr>"

definition sample_tnctl :: "object list Tnctl" where
  "sample_tnctl =
     \<lparr>tn_host = sample_host, tn_Libs = sample_libs, tn_Renderers = sample_renderers,
      tn_SetBytes = (\<lambda>raw _ _. Inr raw), tn_Module = (\<lambda>_ _. Inr ''module''), tn_Checkov = (\<lambda>_ _. Inr ''checkov''),
      tn_DecodeConfiguration = (\<lambda>_. Inr (sample_configuration None ConditionTrue)),
      tn_DecodeRevision = (\<lambda>_. Inr verified_revision),
      tn_DecodeContext = (\<lambda>_. Inl not_found), tn_DecodePolicy = (\<lambda>_. Inl not_found),
      tn_DecodeProvider = (\<lambda>_. Inr sample_provider), tn_EncodeCloudResource = (\<lambda>_. Inr ''cloudresource''),
      tn_DecodeConfig = (\<lambda>_. Inr NewDefaultConfig), tn_EncodeConfig = (\<lambda>_. Inr ''config''),
      tn_MkdirAll = (\<lambda>_ w. (None, w)), tn_MkdirTemp = (\<lambda>_ w. (Inr ''/tmp/revision-1'', w)),
      tn_Getwd = (\<lambda>w. (Inr ''/home'', w)), tn_Walk = (\<lambda>_ w. ([], w)),
      tn_LookPath = (\<lambda>_ w. (Inr ''/usr/bin/docker'', w)), tn_Getuid = 1000,
      tn_RemoveAll = (\<lambda>_ w. (None, w)), tn_CombinedOutput = (\<lambda>_ w. (([], None), w)),
      tn_Args = (\<lambda>w. (Inr None, w)), tn_Report = (\<lambda>_ _. (True, [])), tn_ReadLine = (\<lambda>w. (Inr ''y'', w)),
      tn_HumanDuration = (\<lambda>_. ''1h''), tn_Table = (\<lambda>_ _. ''table''), tn_Line = (\<lambda>_ text. text),
      tn_Icon = (\<lambda>_. [])\<rparr>"

definition sample_verify :: VerifyCommand where
  "sample_verify =
     \<lparr>vy_File = ''revision.yaml'', vy_SourceDir = [], vy_CheckovImage = ''checkov'', vy_TerraformImage = ''terraform'',
      vy_Directory = [], vy_EnableCluster = False, vy_EnableTerraformPlan = False, vy_ShowGuidelines = False,
      vy_Contexts = None, vy_Policies = None, vy_Providers = None, vy_Verify = [], vy_KeepTempDir = False\<rparr>"

lemma sample_tnctl_fields [simp]:
  "tn_host sample_tnctl = sample_host" "tn_Libs sample_tnctl = sample_libs"
  "tn_DecodeRevision sample_tnctl b = Inr verified_revision" "tn_Module sample_tnctl m v = Inr ''module''"
  "tn_EncodeCloudResource sample_tnctl x = Inr ''cloudresource''"
  "tn_MkdirTemp sample_tnctl p = (\<lambda>w. (Inr ''/tmp/revision-1'', w))"
  "tn_RemoveAll sample_tnctl d = (\<lambda>w. (None, w))"
  "h_WriteFile sample_host p c = (\<lambda>w. (None, w))" "h_ReadFile sample_host p = (\<lambda>w. (Inr ''content'', w))"
  "h_Stat sample_host p = (\<lambda>w. (StatInfo False, w))" "h_Client sample_host = (\<lambda>w. (None, w))"
  by (simp_all add: sample_tnctl_def sample_host_def)

lemma verified_revision_fields [simp]:
  "rvs_Inputs (rv_Spec verified_revision) = []" "rvs_Configuration (rv_Spec verified_revision) =
     empty_configuration_spec\<lparr>cs_Module := ''git::bucket''\<rparr>"
  "rd_Name (rvs_Plan (rv_Spec verified_revision)) = ''bucket''"
  "rd_Description (rvs_Plan (rv_Spec verified_revision)) = ''a bucket''"
  "rd_Categories (rvs_Plan (rv_Spec verified_revision)) = []" "rd_ChangeLog (rvs_Plan (rv_Spec verified_revision)) = []"
  "set_inputs [] verified_revision = verified_revision" "share_variables None verified_revision = verified_revision"
  by (simp_all add: verified_revision_def NewRevision_def empty_configuration_spec_def share_variables_def set_inputs_def)

lemmas convert_defs = convertRevision_def choose_directory_def Revision_Run_def retrieveRevision_def retrieveInputs_def
  revision_renderConfiguration_def renderCloudResource_def revision_configuration_def
  Configuration_Run_def resolveConfiguration_def find_configuration_def ask_secrets_def ask_contexts_def
  put_variables_def renderConfiguration_def renderProvider_def renderPolicy_def WriteYAML_def write_file_def

lemmas verify_defs = run_checks_def with_group_def modify_resource_def Passed_def Failed_def Info_def Warning_def
  Skipped_def verdict_def checkRevisionSpec_def spec_findings_def checkRevisionInputs_def retrieveCheckovVersion_def
  retrieveTerraformVersion_def checkModuleSecurityPolicy_def checkProvider_def checkValueFromReferences_def
  checkTerraformPlan_def checkSecurityPolicy_def retrieveSummary_def warned_finding_def passed_finding_def
  failed_finding_def FailedCount_def StatusCount_def PassedStatus_def FailedStatus_def SkippedStatus_def
  WarningStatus_def InfoStatus_def FindSecurityPolicyConstraints_def Println_def

lemma sample_convert:
  assumes "vy_Directory (resource s) = []" "vy_Providers (resource s) = Some []"
    "vy_Contexts (resource s) = Some []" "vy_Policies (resource s) = Some []"
  shows "wp (convertRevision sample_tnctl verified_revision)
    (\<lambda>r t. r = Ok verified_revision \<and> resource t = (resource s)\<lparr>vy_Directory := ''/tmp/revision-1''\<rparr>) s"
proof -
  have "\<exists>x. NewCloudResourceFromRevision sample_libs verified_revision = Inr x"
    by (simp add: NewCloudResourceFromRevision_def Let_def)
  then show ?thesis
    using assms
    by (auto simp: convert_defs wp_request modify_resource_def Let_def empty_configuration_spec_def HasVariables_def)
qed

theorem verify_sound_witness:
  "wp (verify_Run sample_tnctl)
    (\<lambda>r t. r = Ok () \<and> FailedCount (vy_Verify (resource t)) = 0 \<and>
       acceptable sample_libs (vy_Contexts (resource t)) (vy_Policies (resource t)) verified_revision)
    (sample_env [] sample_verify [])"
proof -
  let ?s = "sample_env [] sample_verify []"
  have checks: "wp (run_checks sample_tnctl verified_revision) (\<lambda>r t. r = Ok ()) t"
    if "resource t = (sample_verify\<lparr>vy_Contexts := Some [], vy_Policies := Some [], vy_Providers := Some [],
      vy_Directory := ''/tmp/revision-1''\<rparr>)" for t :: "(object list, VerifyCommand, action list) env"
    using that
    by (simp add: verify_defs sample_verify_def empty_configuration_spec_def)
  have rest: "wp (attempt (convertRevision sample_tnctl verified_revision) (\<lambda>revision.
      do { r \<leftarrow> run_checks sample_tnctl revision; clean_up sample_tnctl; State_Monad.return r })) (\<lambda>r t. r = Ok ()) t"
    if "resource t = sample_verify\<lparr>vy_Contexts := Some [], vy_Policies := Some [], vy_Providers := Some []\<rparr>"
    for t :: "(object list, VerifyCommand, action list) env"
  proof -
    have "wp (do { r \<leftarrow> run_checks sample_tnctl verified_revision; clean_up sample_tnctl; State_Monad.return r })
        (\<lambda>r t. r = Ok ()) u" if "resource u = (resource t)\<lparr>vy_Directory := ''/tmp/revision-1''\<rparr>" for u
      unfolding wp_bind wp_return
      by (rule wp_mono [OF checks]) (use that \<open>resource t = _\<close> in \<open>simp_all add: wp_any\<close>)
    then show ?thesis
      unfolding wp_attempt
      by (intro wp_mono [OF sample_convert]) (use that in \<open>simp_all add: sample_verify_def del: wp_bind\<close>)
  qed
  define tail where "tail revision = attempt (convertRevision sample_tnctl revision) (\<lambda>revision.
      do { r \<leftarrow> run_checks sample_tnctl revision; clean_up sample_tnctl; State_Monad.return r })" for revision
  have "wp (verify_Run sample_tnctl) (\<lambda>r t. r = Ok ()) ?s"
    unfolding verify_Run_def tail_def [symmetric]
    using rest [unfolded tail_def [symmetric]]
    by (simp add: LoadYAML_def FileExists_def wp_request sourceFiles_def sourceFromCluster_def modify_resource_def
        sample_env_def sample_verify_def)
  from wp_conj [OF this verify_sound [of sample_tnctl ?s]] show ?thesis
    by (rule wp_mono) auto
qed

theorem verify_agrees_with_admission_witness:
  defines "items \<equiv> [governing_policy (Some \<lparr>mc_Allowed = [''git::other''], mc_Selector = None\<rparr>) []]"
  shows "wp (checkModuleSecurityPolicy sample_tnctl verified_revision)
    (\<lambda>r t. FailedCount (vy_Verify (resource t)) = 1)
    (sample_env [] (sample_verify\<lparr>vy_Policies := Some items\<rparr>) [])"
proof -
  let ?s = "sample_env [] (sample_verify\<lparr>vy_Policies := Some items\<rparr>) [] :: (object list, VerifyCommand, action list) env"
  let ?x = "(NewConfiguration ''apps'' ''bucket'')\<lparr>cfg_Spec := empty_configuration_spec\<lparr>cs_Module := ''git::bucket''\<rparr>\<rparr>"
  let ?ns = "\<lparr>ns_Meta = named_meta [] ''apps''\<rparr>"
  have constraints: "\<forall>p \<in> set items. \<forall>m. module_constraint p = Some m \<longrightarrow>
      mc_Selector m = None \<and> (\<forall>re \<in> set (mc_Allowed m). \<exists>f. lib_Regexp (tn_Libs sample_tnctl) re = Inr f)"
    by (simp add: items_def governing_policy_def module_constraint_def sample_libs_def)
  have denied: "validateModuleConstriants (tn_Libs sample_tnctl) ?x items ?ns \<noteq> None"
    by (simp add: items_def governing_policy_def validateModuleConstriants_def FindModuleConstraints_def sample_libs_def
        ModuleConstraint_Matches_def)
  have "vy_Policies (resource ?s) = Some items" by (simp add: sample_env_def)
  moreover have "cs_Module (cfg_Spec ?x) = cs_Module (rvs_Configuration (rv_Spec verified_revision))" by simp
  ultimately show ?thesis
    by (rule wp_mono [OF verify_agrees_with_admission [OF _ constraints, where ns = ?ns]])
      (use denied in \<open>auto simp: sample_env_def sample_verify_def FailedCount_def StatusCount_def\<close>)
qed

definition orphaned_secret :: Secret where
  "orphaned_secret =
     \<lparr>sec_Meta = named_meta ''terraform-system'' ''config-01234567-89ab-cdef-0123-456789abcdef'', sec_Data = None\<rparr>"

definition gone_configuration :: Configuration where
  "gone_configuration = (sample_configuration None ConditionTrue)
     \<lparr>cfg_Meta := (named_meta ''apps'' ''queue'')\<lparr>om_UID := ''01234567-89ab-cdef-0123-456789abcdef''\<rparr>\<rparr>"

lemma gone_uuid: "is_uuid (om_UID (cfg_Meta gone_configuration))"
  by (simp add: gone_configuration_def is_uuid_def uuid_char_def)

lemma orphaned_name: "om_Name (sec_Meta orphaned_secret) = GetTerraformConfigSecretName gone_configuration"
  by (simp add: orphaned_secret_def named_meta_def gone_configuration_def GetTerraformConfigSecretName_def)

definition sample_leftovers :: "object list" where
  "sample_leftovers = [OConfiguration (sample_configuration None ConditionTrue), OSecret orphaned_secret]"

lemma sample_leftovers_listed:
  "listed sample_client KConfiguration as_Configuration [] sample_leftovers = [sample_configuration None ConditionTrue]"
  "listed sample_client KSecret as_Secret opts sample_leftovers = [orphaned_secret]"
  "snd (cc_List sample_client KConfiguration [] sample_leftovers) = sample_leftovers"
  by (simp_all add: listed_def sample_client_def sample_leftovers_def List.map_filter_def)

lemma gone_unlisted: "om_UID (cfg_Meta (sample_configuration None ConditionTrue)) \<noteq> om_UID (cfg_Meta gone_configuration)"
  by (simp add: sample_configuration_def gone_configuration_def)

lemma sample_orphans: "orphans [sample_configuration None ConditionTrue] [orphaned_secret] = [orphaned_secret]"
  using gone_orphan [of orphaned_secret "[orphaned_secret]" gone_configuration "[sample_configuration None ConditionTrue]"]
    gone_uuid gone_unlisted orphaned_name by (simp add: orphans_def split: if_splits)

lemma clean_sample:
  "wp (clean_Run sample_tnctl \<lparr>cl_ControllerNamespace = ''terraform-system'', cl_Force = True\<rparr>)
    (\<lambda>r t. r = Ok ()) (sample_env sample_leftovers () [])"
proof -
  have sec: "om_Namespace (sec_Meta orphaned_secret) = ''terraform-system''" by (simp add: orphaned_secret_def named_meta_def)
  show ?thesis
    using sec
    by (simp add: clean_Run_def GetClient_def list_objects_def wp_request sample_client_def sample_leftovers_def
        List.map_filter_def sample_orphans orphan_row_def Let_def perform_def error_of_def named_meta_def wp_if sample_env_def)
qed

theorem clean_only_orphans_witness:
  "wp (clean_Run sample_tnctl \<lparr>cl_ControllerNamespace = ''terraform-system'', cl_Force = True\<rparr>)
    (\<lambda>r t. r = Ok () \<and>
       deletion ''terraform-system'' (GetTerraformConfigSecretName gone_configuration) None \<in> set (effects t))
    (sample_env sample_leftovers () [])"
proof -
  let ?s = "sample_env sample_leftovers () [] :: (object list, unit, action list) env"
  have "world ?s = sample_leftovers" by (simp add: sample_env_def)
  then show ?thesis
    by (intro wp_mono [OF wp_conj [OF clean_sample clean_only_orphans [of sample_tnctl _ ?s]]])
      (use gone_uuid orphaned_name gone_unlisted in \<open>auto simp: Let_def sample_leftovers_listed sample_env_def\<close>)
qed

theorem cost_secrets_overlooked_witness:
  defines "x \<equiv> sample_configuration None ConditionTrue"
  defines "y \<equiv> \<lparr>sec_Meta = named_meta ''terraform-system'' (GetTerraformCostSecretName x), sec_Data = None\<rparr>"
  shows "list_row sample_tnctl 0 [y] x ! 4 = ''None'' \<and> y \<notin> set (orphans [] [y])"
proof -
  have "\<forall>y \<in> set [y]. \<exists>x. om_Name (sec_Meta y) \<in> set (configuration_secrets x)"
    by (auto simp: y_def named_meta_def configuration_secrets_def)
  moreover have "om_Name (sec_Meta y) = GetTerraformCostSecretName x" by (simp add: y_def named_meta_def)
  ultimately show ?thesis
    using cost_secrets_overlooked [of "[y]" sample_tnctl 0 x "[]"] by blast
qed

theorem approve_only_pending_witness:
  defines "x \<equiv> sample_configuration (Some [ApplyAnnotation \<mapsto> ''false'']) ConditionTrue"
  shows "wp (approve_Run sample_tnctl \<lparr>ap_Names = [''bucket''], ap_Namespace = ''apps'', ap_Kind = ConfigurationKind\<rparr>)
    (\<lambda>r t. r = Ok () \<and> (\<exists>y. effects t = [Wrote (Patch (OConfiguration x)) (OConfiguration y) None] \<and> HasApproval y))
    (sample_env [OConfiguration x] () [])"
proof -
  let ?cmd = "\<lparr>ap_Names = [''bucket''], ap_Namespace = ''apps'', ap_Kind = ConfigurationKind\<rparr>"
  let ?s = "sample_env [OConfiguration x] () [] :: (object list, unit, action list) env"
  have "wp (approve_Run sample_tnctl ?cmd)
      (\<lambda>r t. r = Ok () \<and> (\<exists>y. effects t = [Wrote (Patch (OConfiguration x)) (OConfiguration y) None])) ?s"
  proof -
    have "om_Namespace (cfg_Meta x) = ''apps''" "om_Name (cfg_Meta x) = ''bucket''"
      "om_Annotations (cfg_Meta x) = Some [ApplyAnnotation \<mapsto> ''false'']"
      by (simp_all add: x_def sample_configuration_def named_meta_def)
    then show ?thesis
      by (simp add: approve_Run_def GetClient_def GetIfExists_def perform_def wp_request sample_client_def sample_env_def
          approve_kind_def as_kind_def gomap_get_def gomap_find_def error_of_def Println_def wp_if)
  qed
  from wp_conj [OF this approve_only_pending [of sample_tnctl ?cmd ?s]] show ?thesis
    by (rule wp_mono) (auto simp: sample_env_def)
qed

theorem retry_requested_witness:
  "wp (retry_Run sample_tnctl \<lparr>rt_Name = ''bucket'', rt_Namespace = ''apps'', rt_Kind = ConfigurationKind, rt_WatchLogs = True\<rparr>)
    (\<lambda>r t. r = Ok () \<and> length (effects t) = 1)
    (sample_env [OConfiguration (sample_configuration None ConditionTrue)] [] [])"
proof -
  let ?cmd = "\<lparr>rt_Name = ''bucket'', rt_Namespace = ''apps'', rt_Kind = ConfigurationKind, rt_WatchLogs = True\<rparr>"
  let ?s = "sample_env [OConfiguration (sample_configuration None ConditionTrue)] [] []
    :: (object list, Pod list, action list) env"
  have ok: "wp (retry_Run sample_tnctl ?cmd) (\<lambda>r t. r = Ok ()) ?s"
    by (simp add: retry_Run_def GetClient_def GetIfExists_def perform_def wp_request sample_client_def sample_env_def
        sample_configuration_def named_meta_def empty_meta_def retry_kind_def as_kind_def error_of_def Println_def wp_if
        ConfigurationKind_def CloudResourceKind_def)
  have clock: "\<forall>w. - (2 ^ 63) \<le> unix_time (cc_Now (tn_cc sample_tnctl) w) \<and> unix_time (cc_Now (tn_cc sample_tnctl) w) < 2 ^ 63"
    by (simp add: sample_client_def unix_time_def)
  from wp_conj [OF ok retry_requested [OF clock, of ?cmd ?s]] show ?thesis
    by (rule wp_mono) (auto simp: sample_env_def)
qed

end
