(* ===== verification/Downloads.thy ===== *)
theory Downloads
  imports Cli
begin

text \<open>
  Fetching the source of a module: the helpers of \<open>pkg/utils\<close> (temporary directories, sizes,
  the download with \<open>go-getter\<close>) and the program \<open>cmd/source\<close> that runs first in every job.
\<close>

section \<open>The machine\<close>

text \<open>The parts of a location that \<open>url.Parse\<close> finds; the host may carry a port, the host name does not.\<close>

record Url =
  url_Scheme :: string
  url_Host :: string
  url_Hostname :: string
  url_Path :: string

text \<open>
  What can happen while a download runs, in the order in which \<open>select\<close> takes it: a tick of the
  progress ticker, a signal, the end of the context, and the result of the download.
\<close>

datatype download_event = Ticked | Signalled | TimedOut | Finished | GetFailed gerror

text \<open>Appending to a file: it could not be opened, not be written, or was written.\<close>

datatype append_outcome = OpenFailed gerror | AppendFailed gerror | AppendDone

text \<open>
  \<open>ld_Events\<close> starts \<open>go-getter\<close> on a working directory, a source and a destination, with a
  timeout when there is one, and answers what happens until the caller stops listening. The
  libraries are the URL parser, \<open>base64\<close>, the text of a \<open>netrc\<close> file, \<open>os.ExpandEnv\<close> and the verb \<open>%.1f\<close>.
\<close>

record 'w Loader =
  ld_host :: "'w host"
  ld_LookupEnv :: "string \<Rightarrow> 'w \<Rightarrow> string option"
  ld_TempDir :: "'w \<Rightarrow> string"
  ld_ExpandEnv :: "string \<Rightarrow> 'w \<Rightarrow> string"
  ld_Getwd :: "'w \<Rightarrow> (gerror + string) \<times> 'w"
  ld_Walk :: "string \<Rightarrow> 'w \<Rightarrow> (gerror + bool \<times> int) list \<times> 'w"
  ld_RemoveAll :: "string \<Rightarrow> 'w \<Rightarrow> gerror option \<times> 'w"
  ld_Append :: "string \<Rightarrow> bytes \<Rightarrow> 'w \<Rightarrow> append_outcome \<times> 'w"
  ld_Events :: "string \<Rightarrow> string \<Rightarrow> string \<Rightarrow> time option \<Rightarrow> 'w \<Rightarrow> download_event list \<times> 'w"
  ld_ParseURL :: "string \<Rightarrow> gerror + Url"
  ld_Base64 :: "bytes \<Rightarrow> string"
  ld_NetRC :: "string \<Rightarrow> string \<Rightarrow> string \<Rightarrow> gerror + bytes"
  ld_OneDecimal :: "rat \<Rightarrow> string"

section \<open>Helpers\<close>

definition GetEnv :: "'w Loader \<Rightarrow> string \<Rightarrow> string \<Rightarrow> 'w \<Rightarrow> string" where
  "GetEnv ld key fallback w = (case ld_LookupEnv ld key w of Some v \<Rightarrow> v | None \<Rightarrow> fallback)"

definition DefaultCharSet :: string where
  "DefaultCharSet = ''abcdefghijklmnopqrstuvwxyzABCDEFGHIJKLMNOPQRSTUVWXYZ0123456789''"

text \<open>\<open>seed.Intn(n)\<close> is a number below \<open>n\<close>; the index of an empty set is out of range.\<close>

fun RandomWithCharset :: "'w host \<Rightarrow> nat \<Rightarrow> string \<Rightarrow> ('w, 'o, 't, string go) prog" where
  "RandomWithCharset h 0 charset = State_Monad.return (Ok [])"
| "RandomWithCharset h (Suc n) charset =
     (if charset = [] then State_Monad.return Panic
      else do { i \<leftarrow> request (h_Int63n h (int (length charset)));
                r \<leftarrow> RandomWithCharset h n charset;
                State_Monad.return
                  (case r of Ok cs \<Rightarrow> Ok (charset ! (nat i mod length charset) # cs) | Err e \<Rightarrow> Err e | Panic \<Rightarrow> Panic) })"

definition Random :: "'w host \<Rightarrow> nat \<Rightarrow> ('w, 'o, 't, string go) prog" where
  "Random h n = RandomWithCharset h n DefaultCharSet"

definition TempDirName :: "'w Loader \<Rightarrow> ('w, 'o, string go) tool" where
  "TempDirName ld =
     attempt (Random (ld_host ld) 10) (\<lambda>name.
       do { w \<leftarrow> gets world;
            succeed (JoinPath (ld_TempDir ld w) (Sprintf ''tnctl-%s'' [FStr name])) })"

text \<open>
  The regular expression \<open>^terraform\-[\w]+\-[\w]+\<close> of the names of module repositories. A word has
  no dash, so the first word ends at the second dash, and one character of the second is enough.
\<close>

definition name_char :: "char \<Rightarrow> bool" where
  "name_char c =
     (let n = (of_char c :: nat) in
      48 \<le> n \<and> n \<le> 57 \<or> 65 \<le> n \<and> n \<le> 90 \<or> 97 \<le> n \<and> n \<le> 122 \<or> n = 95)"

definition NamingConvention :: "string \<Rightarrow> bool" where
  "NamingConvention name =
     (HasPrefix name ''terraform-'' \<and>
      (let rest = drop 10 name in
       takeWhile name_char rest \<noteq> [] \<and>
       (case dropWhile name_char rest of
          dash # c # _ \<Rightarrow> dash = CHR ''-'' \<and> name_char c
        | _ \<Rightarrow> False)))"

text \<open>The function given to \<open>filepath.Walk\<close>: the sizes of the files, until the first error.\<close>

fun sum_sizes :: "int \<Rightarrow> (gerror + bool \<times> int) list \<Rightarrow> gerror + int" where
  "sum_sizes acc [] = Inr acc"
| "sum_sizes acc (Inl err # xs) = Inl err"
| "sum_sizes acc (Inr (dir, n) # xs) = sum_sizes (if \<not> dir then acc + n else acc) xs"

definition DirSize :: "'w Loader \<Rightarrow> string \<Rightarrow> ('w, 'o, gerror + int) tool" where
  "DirSize ld path = do { visited \<leftarrow> request (ld_Walk ld path); State_Monad.return (sum_sizes 0 visited) }"

text \<open>The loop of \<open>ByteCountSI\<close>: the divisor and the index of the unit.\<close>

function count_units :: "int \<Rightarrow> int \<Rightarrow> nat \<Rightarrow> int \<times> nat" where
  "count_units n d e = (if n \<ge> 1000 then count_units (n div 1000) (d * 1000) (Suc e) else (d, e))"
  by pat_completeness auto

termination
  by (relation "measure (\<lambda>(n, _, _). nat n)") auto

declare count_units.simps [simp del]

definition si_units :: string where
  "si_units = ''kMGTPE''"

definition ByteCountSI :: "(rat \<Rightarrow> string) \<Rightarrow> int \<Rightarrow> string go" where
  "ByteCountSI decimal b =
     (if b < 1000 then Ok (Sprintf ''%d B'' [FInt b])
      else (case count_units (b div 1000) 1000 0 of
              (d, e) \<Rightarrow>
                if e < length si_units
                then Ok (decimal (Fract b d) @ [si_units ! e] @ ''B'')
                else Panic))"

definition WaitForFile :: "'w host \<Rightarrow> go_context \<Rightarrow> string \<Rightarrow> time \<Rightarrow> ('w, 'o, gerror option) tool" where
  "WaitForFile h ctx path timeout =
     RetryWithTimeout h ctx timeout second
       (do { r \<leftarrow> FileExists h path;
             State_Monad.return (Inr (case r of Inl _ \<Rightarrow> False | Inr found \<Rightarrow> found)) })"

section \<open>Downloads\<close>

text \<open>The \<open>select\<close> loop of \<open>Download\<close>, which has no ticker; \<open>None\<close> while nothing has happened.\<close>

fun await_getter :: "download_event list \<Rightarrow> unit go option" where
  "await_getter [] = None"
| "await_getter (e # es) =
     (case e of
        Ticked \<Rightarrow> await_getter es
      | Signalled \<Rightarrow> Some (Err (ErrMsg ''received a signal, cancelling the download''))
      | TimedOut \<Rightarrow> Some (Err (ErrMsg ''download has timed out or cancelled the download''))
      | Finished \<Rightarrow> Some (Ok ())
      | GetFailed err \<Rightarrow> Some (Err (ErrMsg (Sprintf ''failed to download the source: %w'' [FStr (Error err)]))))"

definition github_source :: "nat \<Rightarrow> string \<Rightarrow> string" where
  "github_source n source =
     (if HasPrefix source ''https://github.com''
      then Replace source ''https://github.com'' ''git::https://github.com'' n
      else source)"

definition Download :: "'w Loader \<Rightarrow> string \<Rightarrow> string \<Rightarrow> ('w, 'o, unit go option) tool" where
  "Download ld source destination =
     do { pwd \<leftarrow> request (ld_Getwd ld);
          case pwd of
            Inl err \<Rightarrow> State_Monad.return (Some (Err err))
          | Inr pwd \<Rightarrow>
              do { events \<leftarrow> request (ld_Events ld pwd (github_source 2 source) destination None);
                   State_Monad.return (await_getter events) } }"

section \<open>The source loader\<close>

definition with_ssh_key :: "'w Loader \<Rightarrow> string \<Rightarrow> bytes \<Rightarrow> string" where
  "with_ssh_key ld source key =
     (if StringContains source ''?'' then Sprintf ''%s&sshkey=%s'' [FStr source, FStr (ld_Base64 ld key)]
      else Sprintf ''%s?sshkey=%s'' [FStr source, FStr (ld_Base64 ld key)])"

text \<open>The path up to the first double slash, which separates a directory of the module.\<close>

fun before_double_slash :: "string \<Rightarrow> string" where
  "before_double_slash [] = []"
| "before_double_slash (c # cs) =
     (if HasPrefix (c # cs) ''//'' then [] else c # before_double_slash cs)"

definition sanitizeSource :: "'w Loader \<Rightarrow> string \<Rightarrow> 'w \<Rightarrow> gerror + string \<times> string" where
  "sanitizeSource ld location w =
     (case ld_ParseURL ld (TrimPrefix location ''git::'') of
        Inl err \<Rightarrow> Inl err
      | Inr uri \<Rightarrow>
          (let path = (if StringContains (url_Path uri) ''//'' then before_double_slash (url_Path uri) else url_Path uri);
               destination = Sprintf ''%s://%s%s'' [FStr (url_Scheme uri), FStr (url_Host uri), FStr path];
               password = h_Getenv (ld_host ld) ''GIT_PASSWORD'' w;
               username = h_Getenv (ld_host ld) ''GIT_USERNAME'' w
           in Inr (if password \<noteq> [] \<and> username = []
                   then Sprintf ''%s://%s@%s%s''
                          [FStr (url_Scheme uri), FStr (TrimSpace password), FStr (url_Hostname uri), FStr path]
                   else Sprintf ''%s://%s:%s@%s%s''
                          [FStr (url_Scheme uri), FStr (TrimSpace username), FStr (TrimSpace password),
                           FStr (url_Hostname uri), FStr path],
                   destination)))"

text \<open>The template \<open>gitConfig\<close>; rendering its two fields cannot fail.\<close>

definition gitConfig :: "string \<Rightarrow> string \<Rightarrow> bytes" where
  "gitConfig source destination =
     [char_of (10 :: nat)] @ ''[url '' @ [CHR 0x22] @ source @ [CHR 0x22] @ '']'' @ [char_of (10 :: nat)] @
     ''  insteadOf = '' @ destination @ [char_of (10 :: nat)]"

definition setup_git_config :: "'w Loader \<Rightarrow> string \<Rightarrow> ('w, 'o, unit go) tool" where
  "setup_git_config ld location =
     do { w \<leftarrow> gets world;
          case sanitizeSource ld location w of
            Inl err \<Rightarrow> fail ''failed to parse source url: %w'' [FStr (Error err)]
          | Inr (src, dest) \<Rightarrow>
              (let data = gitConfig src dest;
                   filename = ld_ExpandEnv ld (JoinPath ''${HOME}'' (GetEnv ld ''GIT_CONFIG'' ''.gitconfig'' w)) w in
               do { r \<leftarrow> request (ld_Append ld filename data);
                    case r of
                      OpenFailed err \<Rightarrow> fail ''failed to open git config file: %w'' [FStr (Error err)]
                    | AppendFailed err \<Rightarrow>
                        do { note_action (Appended filename data (Some err));
                             fail ''failed to write git config file: %w'' [FStr (Error err)] }
                    | AppendDone \<Rightarrow> do { note_action (Appended filename data None); succeed () } }) }"

definition netRCPath :: "'w Loader \<Rightarrow> 'w \<Rightarrow> string" where
  "netRCPath ld w = ld_ExpandEnv ld (GetEnv ld ''NETRC'' (JoinPath ''${HOME}'' ''.netrc'') w) w"

definition setupNetRC :: "'w Loader \<Rightarrow> string \<Rightarrow> ('w, 'o, unit go) tool" where
  "setupNetRC ld location =
     do { w \<leftarrow> gets world;
          case ld_ParseURL ld (TrimPrefix (TrimPrefix location ''https::'') ''http::'') of
            Inl err \<Rightarrow> fail ''failed to parse location URL: %w'' [FStr (Error err)]
          | Inr uri \<Rightarrow>
              (case ld_NetRC ld (url_Host uri) (h_Getenv (ld_host ld) ''HTTP_USERNAME'' w)
                      (h_Getenv (ld_host ld) ''HTTP_PASSWORD'' w) of
                 Inl err \<Rightarrow> fail ''failed to marshal netrc config: %w'' [FStr (Error err)]
               | Inr data \<Rightarrow>
                   wrap_error ''failed to write netrc file: %w''
                     (no_error (write_file (ld_host ld) (netRCPath ld w) data))) }"

text \<open>The credentials, by precedence: a key file, a key, git credentials, HTTP credentials.\<close>

definition prepare_location :: "'w Loader \<Rightarrow> string \<Rightarrow> ('w, 'o, string go) tool" where
  "prepare_location ld source =
     do { w \<leftarrow> gets world;
          let env = (\<lambda>k. h_Getenv (ld_host ld) k w);
          if env ''SSH_AUTH_KEYFILE'' \<noteq> []
          then do { data \<leftarrow> request (h_ReadFile (ld_host ld) (env ''SSH_AUTH_KEYFILE''));
                    case data of
                      Inl err \<Rightarrow> fail ''failed to read ssh key file: %w'' [FStr (Error err)]
                    | Inr key \<Rightarrow> succeed (with_ssh_key ld source key) }
          else if env ''SSH_AUTH_KEY'' \<noteq> [] then succeed (with_ssh_key ld source (env ''SSH_AUTH_KEY''))
          else if env ''GIT_PASSWORD'' \<noteq> [] \<or> env ''GIT_USERNAME'' \<noteq> []
          then attempt (setup_git_config ld source) (\<lambda>_. succeed source)
          else if env ''HTTP_PASSWORD'' \<noteq> [] \<or> env ''HTTP_USERNAME'' \<noteq> []
          then attempt (setupNetRC ld source) (\<lambda>_. succeed source)
          else succeed source }"

text \<open>
  The loop that waits for the download. Each tick measures the directory for the progress message;
  \<open>None\<close> when the loop still waits after all the events.
\<close>

fun await_download :: "'w Loader \<Rightarrow> string \<Rightarrow> download_event list \<Rightarrow> ('w, 'o, unit go option) tool" where
  "await_download ld dest [] = State_Monad.return None"
| "await_download ld dest (e # es) =
     (case e of
        Ticked \<Rightarrow>
          do { size \<leftarrow> DirSize ld dest;
               case size of
                 Inl _ \<Rightarrow> await_download ld dest es
               | Inr n \<Rightarrow>
                   if ByteCountSI (ld_OneDecimal ld) n = Panic then State_Monad.return (Some Panic)
                   else await_download ld dest es }
      | Signalled \<Rightarrow> State_Monad.return (Some (Err (ErrMsg ''received a signal, cancelling the download'')))
      | TimedOut \<Rightarrow> State_Monad.return (Some (Err (ErrMsg ''download has timed out, cancelling the download'')))
      | Finished \<Rightarrow> State_Monad.return (Some (Ok ()))
      | GetFailed err \<Rightarrow>
          State_Monad.return (Some (Err (ErrMsg (Sprintf ''failed to download the source: %w'' [FStr (Error err)])))))"

definition temporary_source :: string where
  "temporary_source = ''/tmp/source''"

definition clear_temporary :: "'w Loader \<Rightarrow> bool \<Rightarrow> ('w, 'o, unit go) tool" where
  "clear_temporary ld tmpdir =
     (if tmpdir
      then do { r \<leftarrow> request (ld_RemoveAll ld temporary_source);
                note_action (RemovedAll temporary_source);
                case r of
                  Some err \<Rightarrow> fail ''failed to remove temporary directory: %w'' [FStr (Error err)]
                | None \<Rightarrow> succeed () }
      else succeed ())"

definition run_process :: "'w host \<Rightarrow> string list \<Rightarrow> ('w, 'o, unit go) tool" where
  "run_process h argv =
     do { r \<leftarrow> request (h_Exec h argv);
          note_action (Ran argv r);
          State_Monad.return
            (case r of PipeError err \<Rightarrow> Err err | StartError err \<Rightarrow> Err err | WaitError err \<Rightarrow> Err err | Exited \<Rightarrow> Ok ()) }"

definition copy_source :: "'w Loader \<Rightarrow> bool \<Rightarrow> string \<Rightarrow> ('w, 'o, unit go) tool" where
  "copy_source ld tmpdir destination =
     (if \<not> tmpdir then succeed ()
      else run_process (ld_host ld) [''cp'', ''-rT'', ''/tmp/source/'', destination])"

text \<open>The outcome of a run is \<open>None\<close> as long as it waits.\<close>

definition fetch_source ::
  "'w Loader \<Rightarrow> string \<Rightarrow> string \<Rightarrow> string \<Rightarrow> time \<Rightarrow> bool \<Rightarrow> ('w, 'o, unit go option) tool" where
  "fetch_source ld pwd location destination timeout tmpdir =
     (let dest = (if tmpdir then temporary_source else destination) in
      do { note_action (Fetched pwd (github_source 1 location) dest);
           events \<leftarrow> request (ld_Events ld pwd (github_source 1 location) dest (Some timeout));
           r \<leftarrow> await_download ld dest events;
           case r of
             Some (Ok _) \<Rightarrow> do { c \<leftarrow> copy_source ld tmpdir destination; State_Monad.return (Some c) }
           | _ \<Rightarrow> State_Monad.return r })"

definition prepare_source ::
  "'w Loader \<Rightarrow> string \<Rightarrow> string \<Rightarrow> time \<Rightarrow> bool \<Rightarrow> ('w, 'o, (string \<times> string) go) tool" where
  "prepare_source ld source destination timeout tmpdir =
     (if source = [] then fail ''no source defined'' []
      else if destination = [] then fail ''no destination directory defined'' []
      else if timeout < 0 then fail ''timeout can not be less than zero'' []
      else attempt (prepare_location ld source) (\<lambda>location.
        attempt (or_error (request (ld_Getwd ld))) (\<lambda>pwd.
          attempt (clear_temporary ld tmpdir) (\<lambda>_. succeed (pwd, location)))))"

definition source_Run ::
  "'w Loader \<Rightarrow> string \<Rightarrow> string \<Rightarrow> time \<Rightarrow> bool \<Rightarrow> ('w, 'o, unit go option) tool" where
  "source_Run ld source destination timeout tmpdir =
     do { r \<leftarrow> prepare_source ld source destination timeout tmpdir;
          case r of
            Ok (pwd, location) \<Rightarrow> fetch_source ld pwd location destination timeout tmpdir
          | Err e \<Rightarrow> State_Monad.return (Some (Err e))
          | Panic \<Rightarrow> State_Monad.return (Some Panic) }"

end
