(* ===== verification/Create.thy ===== *)
theory Create
  imports Downloads Similarity Api_Cloud
begin

text \<open>
  The commands that create a resource (\<open>pkg/cmd/tnctl/create\<close>): a cloud resource from a revision
  of the cluster, a revision and a configuration from the code of a module, and the workflow of a
  repository. Colours do not change a text here.
\<close>

section \<open>Modules\<close>

text \<open>What \<open>tfconfig.LoadModule\<close> finds; the variables and outputs are maps by name.\<close>

record TfVariable =
  tv_Name :: string
  tv_Type :: string
  tv_Description :: string
  tv_Default :: "json option"
  tv_Required :: bool
  tv_Sensitive :: bool

record TfOutput =
  to_Name :: string
  to_Description :: string

record TfModule =
  mo_Variables :: "TfVariable list"
  mo_Outputs :: "TfOutput list"

text \<open>The values that the template of a revision is rendered with.\<close>

record RevisionText =
  rx_Module :: string
  rx_Outputs :: "string list"
  rx_Provider :: string
  rx_ValueFrom :: "ValueFromSource list"
  rx_Variables :: "string \<rightharpoonup> json"
  rx_Inputs :: "Input list"
  rx_Name :: string
  rx_Description :: string
  rx_Revision :: string
  rx_Version :: string

record 'w Creator =
  ct_tn :: "'w Tnctl"
  ct_ld :: "'w Loader"
  ct_sg :: Suggester
  ct_LoadModule :: "string \<Rightarrow> 'w \<Rightarrow> (gerror + TfModule) \<times> 'w"
  ct_RenderRevision :: "RevisionText \<Rightarrow> gerror + bytes"
  ct_EncodeConfiguration :: "Configuration \<Rightarrow> gerror + bytes"
  ct_Version :: string

abbreviation ct_host :: "'w Creator \<Rightarrow> 'w host" where
  "ct_host ct \<equiv> tn_host (ct_tn ct)"

text \<open>\<open>range\<close> over the variables and over the outputs of a module, in the order of the runtime.\<close>

definition range_variables :: "'w Creator \<Rightarrow> TfModule \<Rightarrow> ('w, 'o, 't, TfVariable list) prog" where
  "range_variables ct m =
     do { order \<leftarrow> request (h_Range (ct_host ct) (map tv_Name (mo_Variables m)));
          State_Monad.return (List.map_filter (\<lambda>n. find (\<lambda>v. tv_Name v = n) (mo_Variables m)) order) }"

definition range_outputs :: "'w Creator \<Rightarrow> TfModule \<Rightarrow> ('w, 'o, 't, TfOutput list) prog" where
  "range_outputs ct m =
     do { order \<leftarrow> request (h_Range (ct_host ct) (map to_Name (mo_Outputs m)));
          State_Monad.return (List.map_filter (\<lambda>n. find (\<lambda>x. to_Name x = n) (mo_Outputs m)) order) }"

text \<open>A run that waits for a download: it has an outcome only when the download has one.\<close>

definition await ::
  "('w, 'o, 't, 'a go option) prog \<Rightarrow> ('a \<Rightarrow> ('w, 'o, 't, 'b go option) prog) \<Rightarrow> ('w, 'o, 't, 'b go option) prog" where
  "await m f =
     do { r \<leftarrow> m;
          case r of
            None \<Rightarrow> State_Monad.return None
          | Some (Ok x) \<Rightarrow> f x
          | Some (Err e) \<Rightarrow> State_Monad.return (Some (Err e))
          | Some Panic \<Rightarrow> State_Monad.return (Some Panic) }"

definition returns :: "('w, 'o, 't, 'a go) prog \<Rightarrow> ('w, 'o, 't, 'a go option) prog" where
  "returns m = do { r \<leftarrow> m; State_Monad.return (Some r) }"

section \<open>Cloud resources\<close>

record NewCloudResourceCommand =
  nc_Filename :: string
  nc_Plan :: string
  nc_Revision :: string
  nc_Revisions :: "Revision list option"

definition revision_plan_name :: "Revision \<Rightarrow> string" where
  "revision_plan_name x = rd_Name (rvs_Plan (rv_Spec x))"

definition revision_version :: "Revision \<Rightarrow> string" where
  "revision_version x = rd_Revision (rvs_Plan (rv_Spec x))"

definition load_revisions ::
  "'w Tnctl \<Rightarrow> list_option list \<Rightarrow> NewCloudResourceCommand \<Rightarrow> ('w, 'o, Revision list go) tool" where
  "load_revisions tn opts cmd =
     (case nc_Revisions cmd of
        Some items \<Rightarrow> succeed items
      | None \<Rightarrow> attempt (GetClient tn) (\<lambda>_. or_error (list_objects (tn_cc tn) KRevision as_Revision opts)))"

definition choose_plan ::
  "'w Tnctl \<Rightarrow> NewCloudResourceCommand \<Rightarrow> ('w, 'o, NewCloudResourceCommand go) tool" where
  "choose_plan tn cmd =
     attempt (load_revisions tn [] cmd) (\<lambda>items.
       (let cmd = cmd\<lparr>nc_Revisions := Some items\<rparr>;
            plans = Unique (map revision_plan_name items) in
        if length items = 0 then fail ''no plans found to create a cloud resource'' []
        else if nc_Plan cmd = []
        then attempt (or_error (request (h_Select (tn_host tn)
               (Sprintf ''Enter the name of the %s this cloudresource will use?'' [FStr ''plan'']) plans)))
               (\<lambda>plan. succeed (cmd\<lparr>nc_Plan := plan\<rparr>))
        else if \<not> Contains (nc_Plan cmd) plans then fail ''the plan %s does not exist'' [FStr (nc_Plan cmd)]
        else succeed cmd))"

definition choose_revision ::
  "'w Tnctl \<Rightarrow> 'v Semver \<Rightarrow> NewCloudResourceCommand \<Rightarrow> ('w, 'o, NewCloudResourceCommand go) tool" where
  "choose_revision tn sv cmd =
     attempt (load_revisions tn [MatchingLabels [(CloudResourcePlanNameLabel, nc_Plan cmd)]] cmd) (\<lambda>items.
       (let cmd = cmd\<lparr>nc_Revisions := Some items\<rparr>;
            versions = map revision_version items in
        if length items = 0 then fail ''no revisions found to create a cloud resource'' []
        else if nc_Revision cmd \<noteq> []
        then (if \<not> Contains (nc_Revision cmd) versions
              then fail ''the revision %s does not exist'' [FStr (nc_Revision cmd)]
              else succeed cmd)
        else attempt (State_Monad.return (LatestSemverVersion sv versions)) (\<lambda>latest.
          attempt (or_error (request (h_Select (tn_host tn)
            (Sprintf ''Which %s should we use from the plan?'' [FStr ''revision'']) versions)))
            (\<lambda>version. succeed (cmd\<lparr>nc_Revision := version\<rparr>)))))"

fun find_plan_revision :: "string \<Rightarrow> string \<Rightarrow> Revision list \<Rightarrow> Revision option" where
  "find_plan_revision plan version [] = None"
| "find_plan_revision plan version (x # xs) =
     (if revision_plan_name x \<noteq> plan then find_plan_revision plan version xs
      else if revision_version x \<noteq> version then find_plan_revision plan version xs
      else Some x)"

text \<open>A revision that is not found panics.\<close>

definition write_cloudresource :: "'w Tnctl \<Rightarrow> NewCloudResourceCommand \<Rightarrow> ('w, 'o, unit go) tool" where
  "write_cloudresource tn cmd =
     (case find_plan_revision (nc_Plan cmd) (nc_Revision cmd) (case nc_Revisions cmd of None \<Rightarrow> [] | Some xs \<Rightarrow> xs) of
        None \<Rightarrow> State_Monad.return Panic
      | Some revision \<Rightarrow>
          (case NewCloudResourceFromRevision (tn_Libs tn) revision of
             Inl err \<Rightarrow> State_Monad.return (Err err)
           | Inr x \<Rightarrow>
               if nc_Filename cmd = []
               then (case tn_EncodeCloudResource tn x of
                       Inl err \<Rightarrow> State_Monad.return (Err err)
                     | Inr text \<Rightarrow> do { print text; succeed () })
               else WriteYAML (tn_host tn) (tn_EncodeCloudResource tn) (nc_Filename cmd) x))"

definition NewCloudResource_Run ::
  "'w Tnctl \<Rightarrow> 'v Semver \<Rightarrow> NewCloudResourceCommand \<Rightarrow> ('w, 'o, unit go) tool" where
  "NewCloudResource_Run tn sv cmd =
     attempt (choose_plan tn cmd) (\<lambda>cmd.
       attempt (choose_revision tn sv cmd) (\<lambda>cmd. write_cloudresource tn cmd))"

section \<open>Revisions\<close>

record NewRevisionCommand =
  nr_Name :: string
  nr_Description :: string
  nr_EnableDefaultVariables :: bool
  nr_Contexts :: "Context list option"
  nr_Policies :: "Policy list option"
  nr_Plans :: "Plan list option"
  nr_Revisions :: "Revision list option"
  nr_Providers :: "Provider list option"
  nr_Inputs :: "Input list"
  nr_Variables :: "string \<rightharpoonup> json"
  nr_ValueFrom :: "ValueFromSource list"
  nr_Outputs :: "string list"
  nr_Module :: string
  nr_Revision :: string
  nr_File :: string
  nr_Provider :: string
  nr_DeleteDownload :: bool

text \<open>The verb \<open>%-Ns\<close>, and the first word of a line.\<close>

definition pad_right :: "nat \<Rightarrow> string \<Rightarrow> string" where
  "pad_right n s = s @ replicate (n - length s) CHR '' ''"

definition first_word :: "string \<Rightarrow> string" where
  "first_word line = hd (Split line CHR '' '')"

definition widest :: "string list \<Rightarrow> nat" where
  "widest names = fold max (map length names) 0"

definition output_option :: "nat \<Rightarrow> TfOutput \<Rightarrow> string go" where
  "output_option width x =
     (case MaxChars (to_Description x) 60 of
        Ok d \<Rightarrow> Ok (pad_right (width + 5) (to_Name x) @ '' '' @ d)
      | Err e \<Rightarrow> Err e
      | Panic \<Rightarrow> Panic)"

definition input_option :: "nat \<Rightarrow> string \<Rightarrow> TfVariable \<Rightarrow> string go" where
  "input_option width kind x =
     (case MaxChars (tv_Description x) 60 of
        Ok d \<Rightarrow> Ok (pad_right (width + 5) (tv_Name x) @ '' ('' @ kind @ '') '' @ d)
      | Err e \<Rightarrow> Err e
      | Panic \<Rightarrow> Panic)"

fun collect :: "('a \<Rightarrow> 'b go) \<Rightarrow> 'a list \<Rightarrow> 'b list go" where
  "collect f [] = Ok []"
| "collect f (x # xs) =
     (case f x of
        Ok y \<Rightarrow> (case collect f xs of Ok ys \<Rightarrow> Ok (y # ys) | Err e \<Rightarrow> Err e | Panic \<Rightarrow> Panic)
      | Err e \<Rightarrow> Err e
      | Panic \<Rightarrow> Panic)"

definition retrieveOutputs ::
  "'w Creator \<Rightarrow> TfModule \<Rightarrow> NewRevisionCommand \<Rightarrow> ('w, 'o, NewRevisionCommand go) tool" where
  "retrieveOutputs ct m cmd =
     (if length (nr_Outputs cmd) > 0 then succeed cmd
      else if length (mo_Outputs m) = 0 then succeed cmd
      else do { outputs \<leftarrow> range_outputs ct m;
                attempt (State_Monad.return (collect (output_option (widest (map to_Name (mo_Outputs m)))) outputs)) (\<lambda>suggestions.
                  attempt (or_error (request (h_MultiSelect (ct_host ct)
                      ''What outputs should be extracted into the secret?'' suggestions))) (\<lambda>selected.
                    succeed (cmd\<lparr>nr_Outputs := nr_Outputs cmd @ map (\<lambda>x. TrimSpace (first_word x)) selected\<rparr>))) })"

definition create_retrieveRevision ::
  "'w Creator \<Rightarrow> 'v Semver \<Rightarrow> NewRevisionCommand \<Rightarrow> ('w, 'o, NewRevisionCommand go) tool" where
  "create_retrieveRevision ct sv cmd =
     (if nr_Revision cmd \<noteq> [] then succeed cmd
      else (let plans = (case nr_Plans cmd of None \<Rightarrow> [] | Some ps \<Rightarrow> ps);
                cmd = cmd\<lparr>nr_Plans := Some plans\<rparr> in
            case PlanList_GetItem plans (nr_Name cmd) of
              None \<Rightarrow>
                attempt (or_error (request (h_Ask (ct_host ct)
                  (Sprintf ''What is the version of this %s (in semver format)?'' [FStr ''revision'']) ''v0.0.1'')))
                  (\<lambda>version. succeed (cmd\<lparr>nr_Revision := version\<rparr>))
            | Some plan \<Rightarrow>
                succeed (cmd\<lparr>nr_Revision :=
                  (case GetVersionIncrement sv (plv_Revision (plst_Latest (pln_Status plan))) of
                     Inr version \<Rightarrow> version
                   | Inl _ \<Rightarrow> ''REVISION'')\<rparr>)))"

text \<open>What a variable becomes: left out, a value of the module, an input, or a value from a context.\<close>

definition inject_variable ::
  "Suggester \<Rightarrow> string list \<Rightarrow> NewRevisionCommand \<Rightarrow> TfVariable \<Rightarrow> NewRevisionCommand" where
  "inject_variable sg selected cmd variable =
     (if \<not> Contains (tv_Name variable) (map first_word selected)
      then (if nr_EnableDefaultVariables cmd
            then (case tv_Default variable of
                    None \<Rightarrow> cmd
                  | Some (JObj []) \<Rightarrow> cmd
                  | Some v \<Rightarrow> cmd\<lparr>nr_Variables := (nr_Variables cmd)(tv_Name variable \<mapsto> v)\<rparr>)
            else cmd)
      else (case SuggestContextualInput sg (tv_Description variable) (nr_Contexts cmd) (1 / 5) of
              None \<Rightarrow>
                cmd\<lparr>nr_Inputs := nr_Inputs cmd @
                  [\<lparr>in_Context = [],
                    in_Default = Some [''example'' \<mapsto> JStr (tv_Type variable),
                                       ''value'' \<mapsto> (case tv_Default variable of None \<Rightarrow> JNull | Some v \<Rightarrow> v)],
                    in_Description = tv_Description variable,
                    in_Key = tv_Name variable,
                    in_Required = tv_Required variable,
                    in_Type = tv_Type variable\<rparr>]\<rparr>
            | Some input \<Rightarrow>
                cmd\<lparr>nr_ValueFrom := nr_ValueFrom cmd @
                  [\<lparr>vf_Context = Some (in_Context input), vf_Optional = False, vf_Key = in_Key input,
                    vf_Name = tv_Name variable, vf_Secret = None\<rparr>]\<rparr>))"

definition is_required :: "TfVariable \<Rightarrow> bool" where
  "is_required x \<longleftrightarrow> tv_Required x \<and> tv_Default x = None"

definition create_retrieveInputs ::
  "'w Creator \<Rightarrow> TfModule \<Rightarrow> NewRevisionCommand \<Rightarrow> ('w, 'o, NewRevisionCommand go) tool" where
  "create_retrieveInputs ct m cmd =
     (if length (nr_Inputs cmd) > 0 then succeed cmd
      else do { variables \<leftarrow> range_variables ct m;
                let width = widest (map tv_Name (mo_Variables m));
                attempt (State_Monad.return (collect (input_option width ''Required'') (filter is_required variables))) (\<lambda>required.
                  attempt (State_Monad.return (collect (input_option width ''Optional'') (filter (\<lambda>x. \<not> is_required x) variables))) (\<lambda>optional.
                    if length required = 0 \<and> length optional = 0 then succeed cmd
                    else attempt (or_error (request (h_MultiSelect (ct_host ct)
                           ''What variables should be exposed to the developers?'' (required @ Sorted optional)))) (\<lambda>selected.
                      do { again \<leftarrow> range_variables ct m;
                           succeed (fold (\<lambda>v c. inject_variable (ct_sg ct) selected c v) again cmd) }))) })"

text \<open>The answer to a question, or what was there before when the question failed.\<close>

definition ask_name :: "'w host \<Rightarrow> string \<Rightarrow> string \<Rightarrow> ('w, 'o, bool \<times> string) tool" where
  "ask_name h message before =
     do { r \<leftarrow> request (h_Ask h message ''my-plan'');
          State_Monad.return (case r of Inl _ \<Rightarrow> (False, before) | Inr answer \<Rightarrow> (True, answer)) }"

definition none_of_these :: string where
  "none_of_these = ''None of these...''"

definition retrievePlan :: "'w Creator \<Rightarrow> NewRevisionCommand \<Rightarrow> ('w, 'o, NewRevisionCommand go) tool" where
  "retrievePlan ct cmd =
     (let enter = Sprintf ''Enter the name of the %s this revision will be part of?'' [FStr ''plan''] in
      if nr_Name cmd \<noteq> [] then succeed cmd
      else (case nr_Plans cmd of
              None \<Rightarrow>
                do { (_, name) \<leftarrow> ask_name (ct_host ct)
                       (Sprintf ''What is the name of the %s this revision will be part of?'' [FStr ''plan'']) [];
                     succeed (cmd\<lparr>nr_Name := name\<rparr>) }
            | Some [] \<Rightarrow>
                do { (_, name) \<leftarrow> ask_name (ct_host ct) enter []; succeed (cmd\<lparr>nr_Name := name\<rparr>) }
            | Some items \<Rightarrow>
                (let list = map (\<lambda>x. om_Name (pln_Meta x)) items in
                 do { r \<leftarrow> request (h_Select (ct_host ct)
                        (Sprintf ''The cluster already contains plans, which will the %s will be part of?'' [FStr ''revision''])
                        (list @ [none_of_these]));
                      case r of
                        Inl _ \<Rightarrow> succeed cmd
                      | Inr chosen \<Rightarrow>
                          do { (answered, name) \<leftarrow>
                                 (if \<not> Contains chosen list then ask_name (ct_host ct) enter chosen
                                  else State_Monad.return (True, chosen));
                               if \<not> answered then succeed (cmd\<lparr>nr_Name := name\<rparr>)
                               else if name = [] then fail ''you must provide a name for the plan'' []
                               else succeed (cmd\<lparr>nr_Name := name\<rparr>) } })))"

definition keep_or_list ::
  "'w Tnctl \<Rightarrow> string \<Rightarrow> kind \<Rightarrow> (object \<Rightarrow> 'a option) \<Rightarrow> 'a list option \<Rightarrow> ('w, 'o, 'a list go) tool" where
  "keep_or_list tn message k sel current =
     (case current of
        Some items \<Rightarrow> succeed items
      | None \<Rightarrow> wrap_error message (or_error (list_objects (tn_cc tn) k sel [])))"

definition retrieveConfiguration ::
  "'w Creator \<Rightarrow> NewRevisionCommand \<Rightarrow> ('w, 'o, NewRevisionCommand go) tool" where
  "retrieveConfiguration ct cmd =
     (let tn = ct_tn ct in
      if nr_Contexts cmd \<noteq> None \<and> nr_Plans cmd \<noteq> None \<and> nr_Policies cmd \<noteq> None \<and>
         nr_Providers cmd \<noteq> None \<and> nr_Revisions cmd \<noteq> None
      then succeed cmd
      else attempt (or_error (request (h_Confirm (ct_host ct)
             (Sprintf ''Can we use the %s to retrieve terranetes configuration?'' [FStr ''current kubeconfig''])))) (\<lambda>answer.
        if \<not> answer then succeed cmd
        else attempt (wrap_error ''failed to create client on current kubeconfig: %w'' (GetClient tn)) (\<lambda>_.
          attempt (keep_or_list tn ''failed to retrieves contexts from cluster: %w'' KContext as_Context (nr_Contexts cmd)) (\<lambda>contexts.
            attempt (keep_or_list tn ''failed to retrieves policies from cluster: %w'' KPolicy as_Policy (nr_Policies cmd)) (\<lambda>policies.
              attempt (keep_or_list tn ''failed to retrieves providers from cluster: %w'' KProvider as_Provider (nr_Providers cmd)) (\<lambda>providers.
                attempt (keep_or_list tn ''failed to retrieves revisions from cluster: %w'' KRevision as_Revision (nr_Revisions cmd)) (\<lambda>revisions.
                  attempt (keep_or_list tn ''failed to retrieves plans from cluster: %w'' KPlan as_Plan (nr_Plans cmd)) (\<lambda>plans.
                    succeed (cmd\<lparr>nr_Contexts := Some contexts, nr_Policies := Some policies, nr_Providers := Some providers,
                                 nr_Revisions := Some revisions, nr_Plans := Some plans\<rparr>)))))))))"

definition revision_Download :: "'w Creator \<Rightarrow> string \<Rightarrow> ('w, 'o, (string \<times> bool) go option) tool" where
  "revision_Download ct location =
     (if location = [] then returns (fail ''module is required'' [])
      else if location = ''.''
      then returns (attempt (wrap_error ''failed to get current directory: %w'' (or_error (request (tn_Getwd (ct_tn ct)))))
             (\<lambda>path. succeed (path, False)))
      else await (returns (TempDirName (ct_ld ct))) (\<lambda>path.
             await (Download (ct_ld ct) location path) (\<lambda>_. returns (succeed (path, True)))))"

definition renderRevision :: "'w Creator \<Rightarrow> string \<Rightarrow> bytes \<Rightarrow> ('w, 'o, unit go) tool" where
  "renderRevision ct destination revision =
     (if destination = [] then do { Println ''%s'' [FStr revision]; succeed () }
      else attempt (no_error (write_file (ct_host ct) destination revision)) (\<lambda>_.
        do { Println ''%s Successfully written revision to: %s'' [FStr (tn_Icon (ct_tn ct) ''good''), FStr destination];
             succeed () }))"

definition revision_text :: "string \<Rightarrow> NewRevisionCommand \<Rightarrow> RevisionText" where
  "revision_text version cmd =
     \<lparr>rx_Module = nr_Module cmd, rx_Outputs = nr_Outputs cmd, rx_Provider = nr_Provider cmd,
      rx_ValueFrom = nr_ValueFrom cmd, rx_Variables = nr_Variables cmd, rx_Inputs = nr_Inputs cmd,
      rx_Name = nr_Name cmd, rx_Description = nr_Description cmd, rx_Revision = nr_Revision cmd,
      rx_Version = version\<rparr>"

definition load_module :: "'w Creator \<Rightarrow> string \<Rightarrow> ('w, 'o, TfModule go) tool" where
  "load_module ct path =
     wrap_error ''failed to load terraform module: %w'' (or_error (request (ct_LoadModule ct path)))"

definition build_revision ::
  "'w Creator \<Rightarrow> 'v Semver \<Rightarrow> string \<Rightarrow> NewRevisionCommand \<Rightarrow> ('w, 'o, unit go) tool" where
  "build_revision ct sv path cmd =
     do { Println ''%s Successfully downloaded module to: %s'' [FStr (tn_Icon (ct_tn ct) ''good''), FStr path];
          attempt (load_module ct path) (\<lambda>m.
            attempt (retrieveConfiguration ct cmd) (\<lambda>cmd.
              attempt (retrievePlan ct cmd) (\<lambda>cmd.
                attempt (create_retrieveRevision ct sv cmd) (\<lambda>cmd.
                  attempt (create_retrieveInputs ct m cmd) (\<lambda>cmd.
                    attempt (retrieveOutputs ct m cmd) (\<lambda>cmd.
                      attempt (State_Monad.return (of_sum (ct_RenderRevision ct (revision_text (ct_Version ct) cmd))))
                        (\<lambda>generated. renderRevision ct (nr_File cmd) generated))))))) }"

definition remove_all :: "'w Tnctl \<Rightarrow> string \<Rightarrow> ('w, 'o, gerror option) tool" where
  "remove_all tn path =
     do { r \<leftarrow> request (tn_RemoveAll tn path); note_action (RemovedAll path); State_Monad.return r }"

text \<open>The deferred removal keeps an earlier error.\<close>

definition NewRevision_Run ::
  "'w Creator \<Rightarrow> 'v Semver \<Rightarrow> NewRevisionCommand \<Rightarrow> ('w, 'o, unit go option) tool" where
  "NewRevision_Run ct sv cmd =
     await (revision_Download ct (nr_Module cmd)) (\<lambda>(path, downloaded).
       returns (do { r \<leftarrow> build_revision ct sv path cmd;
                     if downloaded \<and> nr_DeleteDownload cmd
                     then do { e \<leftarrow> remove_all (ct_tn ct) path;
                               State_Monad.return (case r of Ok _ \<Rightarrow> of_error e | _ \<Rightarrow> r) }
                     else State_Monad.return r }))"

section \<open>Configurations\<close>

text \<open>\<open>bc_Writer\<close> is the file the caller opened for the output; without one it is printed.\<close>

record BuildCommand =
  bc_EnableAutoApproval :: bool
  bc_EnableDriftDetection :: bool
  bc_EnableDefaults :: bool
  bc_EnableSensitive :: bool
  bc_Name :: string
  bc_Namespace :: string
  bc_Provider :: string
  bc_Source :: string
  bc_Secret :: string
  bc_Writer :: "string option"

definition emit :: "'w Loader \<Rightarrow> string option \<Rightarrow> string \<Rightarrow> ('w, 'o, unit) tool" where
  "emit ld writer text =
     (case writer of
        None \<Rightarrow> print text
      | Some path \<Rightarrow>
          do { r \<leftarrow> request (ld_Append ld path text);
               note_action (Appended path text
                 (case r of OpenFailed err \<Rightarrow> Some err | AppendFailed err \<Rightarrow> Some err | AppendDone \<Rightarrow> None)) })"

definition promptProvider :: "'w Creator \<Rightarrow> string \<Rightarrow> ('w, 'o, string go) tool" where
  "promptProvider ct provider =
     (if provider \<noteq> [] then succeed provider
      else attempt (or_error (request (h_Confirm (ct_host ct)
             (Sprintf ''Can we use the %s to retrieve terranetes configuration?'' [FStr ''current kubeconfig''])))) (\<lambda>answer.
        if \<not> answer then succeed ''NEEDS_VALUE''
        else attempt (ListAvailableProviders (ct_tn ct)) (\<lambda>list.
          if length list = 0
          then do { Println ''%s No providers found in the cluster, skipping selection'' [FStr (tn_Icon (ct_tn ct) ''bad'')];
                    succeed ''NEEDS_VALUE'' }
          else or_error (request (h_Select (ct_host ct)
                 (Sprintf ''Which %s should we use for this configuration?'' [FStr ''provider'']) list)))))"

text \<open>
  What the loop does with a variable: leaves it out, asks for the name of a secret, asks for its
  value, or takes its default (nothing for a required variable that is no string).
\<close>

datatype variable_step = SkipVariable | AskSecret | AskValue | TakeDefault

definition step_of_variable :: "BuildCommand \<Rightarrow> TfVariable \<Rightarrow> variable_step" where
  "step_of_variable cmd v =
     (if tv_Default v = None \<and> tv_Required v
      then (if tv_Type v = ''string''
            then (if (tv_Sensitive v \<or> StringContains (tv_Name v) ''password'') \<and> bc_EnableSensitive cmd
                  then AskSecret else AskValue)
            else TakeDefault)
      else if tv_Default v = None \<and> \<not> tv_Required v then SkipVariable
      else if tv_Default v \<noteq> None \<and> \<not> bc_EnableDefaults cmd then SkipVariable
      else TakeDefault)"

text \<open>The cleaned value: a map loses its entries without a value.\<close>

definition clean_default :: "json option \<Rightarrow> json" where
  "clean_default v =
     (case v of
        None \<Rightarrow> JNull
      | Some (JObj kvs) \<Rightarrow> JObj (filter (\<lambda>(k, x). x \<noteq> JNull) kvs)
      | Some x \<Rightarrow> x)"

text \<open>The loop over the variables; \<open>Ok None\<close> is the early return without an error.\<close>

fun build_variables ::
  "'w Creator \<Rightarrow> BuildCommand \<Rightarrow> ValueFromSource list \<Rightarrow> bytes \<Rightarrow> TfVariable list \<Rightarrow>
   ('w, 'o, (ValueFromSource list \<times> bytes) option go) tool" where
  "build_variables ct cmd vfs data [] = succeed (Some (vfs, data))"
| "build_variables ct cmd vfs data (v # vs) =
     (case step_of_variable cmd v of
        SkipVariable \<Rightarrow> build_variables ct cmd vfs data vs
      | AskSecret \<Rightarrow>
          do { r \<leftarrow> request (h_Ask (ct_host ct)
                 (Sprintf ''Input %q is sensitive and should be in a secret, what will be the secret name?'' [FStr (tv_Name v)]) []);
               case r of
                 Inl _ \<Rightarrow> succeed None
               | Inr answer \<Rightarrow>
                   build_variables ct cmd
                     (vfs @ [\<lparr>vf_Context = None, vf_Optional = False, vf_Key = tv_Name v, vf_Name = [], vf_Secret = Some answer\<rparr>])
                     data vs }
      | AskValue \<Rightarrow>
          attempt (or_error (request (h_Ask (ct_host ct)
            (Sprintf ''What should the value be for %q?'' [FStr (tv_Name v)]) []))) (\<lambda>answer.
            case tn_SetBytes (ct_tn ct) data (tv_Name v) (JStr answer) of
              Inl err \<Rightarrow> State_Monad.return (Err err)
            | Inr u \<Rightarrow> build_variables ct cmd vfs u vs)
      | TakeDefault \<Rightarrow>
          (case tn_SetBytes (ct_tn ct) data (tv_Name v) (clean_default (tv_Default v)) of
             Inl err \<Rightarrow> State_Monad.return (Err err)
           | Inr u \<Rightarrow> build_variables ct cmd vfs u vs))"

definition build_base :: "string \<Rightarrow> BuildCommand \<Rightarrow> Configuration" where
  "build_base version cmd =
     (let c = NewConfiguration (bc_Namespace cmd) (bc_Name cmd) in
      c\<lparr>cfg_Meta := (cfg_Meta c)\<lparr>om_Annotations :=
          Some [''terranetes.appvia.io/source'' \<mapsto> bc_Source cmd,
                ''terranetes.appvia.io/tnctl.version'' \<mapsto> version]\<rparr>,
        cfg_Spec := (cfg_Spec c)
          \<lparr>cs_EnableAutoApproval := bc_EnableAutoApproval cmd,
           cs_EnableDriftDetection := bc_EnableDriftDetection cmd,
           cs_ProviderRef := Some \<lparr>pr_Name = bc_Provider cmd, pr_Namespace = []\<rparr>,
           cs_Module := bc_Source cmd\<rparr>\<rparr>)"

text \<open>The name of the secret is asked for when the module has outputs and none was given.\<close>

definition build_secret ::
  "'w Creator \<Rightarrow> BuildCommand \<Rightarrow> TfModule \<Rightarrow> ('w, 'o, WriteConnectionSecret option go) tool" where
  "build_secret ct cmd m =
     (if length (mo_Outputs m) > 0 \<and> bc_Secret cmd = []
      then attempt (or_error (request (h_Ask (ct_host ct)
             ''What name should the cloud resource secrets be called?'' (bc_Name cmd)))) (\<lambda>secret.
             succeed (Some \<lparr>wcs_Name = secret, wcs_Keys = []\<rparr>))
      else succeed None)"

text \<open>The variables are encoded with the configuration they belong to.\<close>

definition encode_built ::
  "'w Creator \<Rightarrow> (string \<rightharpoonup> json) \<Rightarrow> Configuration \<Rightarrow> gerror + bytes" where
  "encode_built ct variables c =
     (if variables = Map.empty then ct_EncodeConfiguration ct c
      else (case lib_JSONEncode (tn_Libs (ct_tn ct)) variables of
              Inl err \<Rightarrow> Inl err
            | Inr raw \<Rightarrow>
                ct_EncodeConfiguration ct
                  (c\<lparr>cfg_Spec := (cfg_Spec c)\<lparr>cs_Variables := Some \<lparr>re_Raw = raw\<rparr>\<rparr>\<rparr>)))"

definition note_references :: "ValueFromSource list \<Rightarrow> ('w, 'o, unit) tool" where
  "note_references vfs =
     (if length vfs > 0
      then Println ''%s Note, the configuration references %d secrets (spec.valueFrom[]) which must be created''
             [FInt (int (length vfs))]
      else State_Monad.return ())"

definition build_document ::
  "'w Creator \<Rightarrow> BuildCommand \<Rightarrow> TfModule \<Rightarrow> ValueFromSource list \<Rightarrow> bytes \<Rightarrow> ('w, 'o, unit go) tool" where
  "build_document ct cmd m vfs data =
     (case lib_JSONObject (tn_Libs (ct_tn ct)) data of
        Inl err \<Rightarrow> State_Monad.return (Err err)
      | Inr variables \<Rightarrow>
          attempt (build_secret ct cmd m) (\<lambda>secret.
            let base = build_base (ct_Version ct) cmd;
                c = base\<lparr>cfg_Spec := (cfg_Spec base)\<lparr>cs_ValueFrom := vfs, cs_WriteConnectionSecretToRef := secret\<rparr>\<rparr> in
            case encode_built ct variables c of
              Inl err \<Rightarrow> State_Monad.return (Err err)
            | Inr e \<Rightarrow>
                do { note_references vfs;
                     emit (ct_ld ct) (bc_Writer cmd) separator;
                     emit (ct_ld ct) (bc_Writer cmd) e;
                     succeed () }))"

definition build_configuration ::
  "'w Creator \<Rightarrow> BuildCommand \<Rightarrow> string \<Rightarrow> ('w, 'o, unit go) tool" where
  "build_configuration ct cmd destination =
     attempt (promptProvider ct (bc_Provider cmd)) (\<lambda>provider.
       let cmd = cmd\<lparr>bc_Provider := provider\<rparr> in
       attempt (load_module ct destination) (\<lambda>m.
         do { Println ''%s Successfully parsed the terraform module'' [FStr (tn_Icon (ct_tn ct) ''good'')];
              variables \<leftarrow> range_variables ct m;
              attempt (build_variables ct cmd [] ''{}'' variables) (\<lambda>built.
                case built of
                  None \<Rightarrow> succeed ()
                | Some (vfs, data) \<Rightarrow> build_document ct cmd m vfs data) }))"

definition remove_quietly :: "'w Tnctl \<Rightarrow> string \<Rightarrow> (gerror \<Rightarrow> ('w, 'o, unit) tool) \<Rightarrow> ('w, 'o, unit) tool" where
  "remove_quietly tn path complain =
     do { r \<leftarrow> remove_all tn path;
          case r of None \<Rightarrow> State_Monad.return () | Some err \<Rightarrow> complain err }"

definition Build_Run :: "'w Creator \<Rightarrow> BuildCommand \<Rightarrow> ('w, 'o, unit go option) tool" where
  "Build_Run ct cmd =
     (if bc_Name cmd = [] then State_Monad.return (Some (Err (ErrMissingArgument ''name'')))
      else if bc_Source cmd = [] then State_Monad.return (Some (Err (ErrMissingArgument ''source'')))
      else await (returns (TempDirName (ct_ld ct))) (\<lambda>destination.
        await (Download (ct_ld ct) (bc_Source cmd) destination) (\<lambda>_.
          returns (do { Println ''%s Successfully downloaded the terraform module: %s''
                          [FStr (tn_Icon (ct_tn ct) ''good''), FStr (bc_Source cmd)];
                        r \<leftarrow> build_configuration ct cmd destination;
                        remove_quietly (ct_tn ct) destination (\<lambda>err.
                          Printf (''failed to remove %s, %s'' @ [char_of (10 :: nat)]) [FStr destination, FStr (Error err)]);
                        State_Monad.return r }))))"

section \<open>Workflows\<close>

record WorkflowCommand =
  wk_EnsureNameLinting :: bool
  wk_Template :: string
  wk_Source :: string

definition ensure_directory :: "'w Tnctl \<Rightarrow> string \<Rightarrow> ('w, 'o, unit go) tool" where
  "ensure_directory tn path =
     attempt (or_error (DirExists (tn_host tn) path)) (\<lambda>found.
       if found then succeed ()
       else attempt (no_error (request (tn_MkdirAll tn path))) (\<lambda>_.
         do { Println ''%s Created the repository directory: %q'' [FStr (tn_Icon tn ''good''), FStr path];
              succeed () }))"

definition copy_template :: "'w Creator \<Rightarrow> string \<Rightarrow> string \<Rightarrow> ('w, 'o, unit go) tool" where
  "copy_template ct tmpdir source =
     attempt (wrap_error ''failed to copy the template repository: %w''
         (run_process (ct_host ct) [''rsync'', ''-r'', ''--exclude'', ''.git'', tmpdir @ ''/'', source])) (\<lambda>_.
       do { Println ''%s Successfully created the workflow in %s'' [FStr (tn_Icon (ct_tn ct) ''good''), FStr source];
            succeed () })"

definition wrap_download :: "('w, 'o, unit go option) tool \<Rightarrow> ('w, 'o, unit go option) tool" where
  "wrap_download m =
     do { r \<leftarrow> m;
          State_Monad.return
            (case r of
               Some (Err e) \<Rightarrow>
                 Some (Err (ErrMsg (Sprintf ''failed to download the template repository: %w'' [FStr (Error e)])))
             | _ \<Rightarrow> r) }"

definition Workflow_Run :: "'w Creator \<Rightarrow> WorkflowCommand \<Rightarrow> ('w, 'o, unit go option) tool" where
  "Workflow_Run ct cmd =
     await (returns (GetConfig (ct_tn ct))) (\<lambda>(config, found).
       let template = (if found \<and> cf_Workflow config \<noteq> [] then cf_Workflow config else wk_Template cmd);
           source = wk_Source cmd in
       if source = [] then State_Monad.return (Some (Err (ErrMissingArgument ''source'')))
       else if source \<noteq> ''.'' \<and> wk_EnsureNameLinting cmd \<and> \<not> NamingConvention (Base source)
       then returns (fail ''repository %q must conform to the naming convention: terraform-PROVIDER-NAME'' [FStr (Base source)])
       else await (returns (ensure_directory (ct_tn ct) source)) (\<lambda>_.
         await (returns (TempDirName (ct_ld ct))) (\<lambda>tmpdir.
           await (wrap_download (Download (ct_ld ct) template tmpdir)) (\<lambda>_.
             returns (do { r \<leftarrow> copy_template ct tmpdir source;
                           remove_quietly (ct_tn ct) tmpdir (\<lambda>_.
                             Println ''%s Failed to remove the temporary directory: %q''
                               [FStr (tn_Icon (ct_tn ct) ''bad''), FStr tmpdir]);
                           State_Monad.return r })))))"

end
