(* ===== verification/Registry.thy ===== *)
theory Registry
  imports Downloads "HOL-Library.Word"
begin

text \<open>
  Searching for modules (\<open>pkg/cmd/search\<close>): the queries and the modules found, the terraform
  registry (\<open>search/terraform\<close>) and GitHub (\<open>search/github\<close>). The two services are functions on the
  world; a loop over their pages takes fuel and has no result when it runs out. What the client
  relies on, that a module found names the source of its handler as its registry, is the locale
  \<open>module_search\<close>, interpreted for both handlers.
\<close>

section \<open>Queries and modules\<close>

record Query =
  qy_Namespace :: string
  qy_Provider :: string
  qy_Query :: string

record Module =
  md_ID :: string
  md_CreatedAt :: time
  md_Description :: string
  md_Downloads :: int
  md_Name :: string
  md_Namespace :: string
  md_Private :: bool
  md_Provider :: string
  md_Registry :: string
  md_RegistryType :: string
  md_Source :: string
  md_Stars :: int
  md_Version :: string

section \<open>The terraform registry\<close>

record tf_module =
  tfm_ID :: string
  tfm_Namespace :: string
  tfm_Name :: string
  tfm_Version :: string
  tfm_Provider :: string
  tfm_Description :: string
  tfm_Source :: string
  tfm_PublishedAt :: time
  tfm_Downloads :: int

text \<open>\<open>next_offset\<close> is an \<open>int\<close> of 64 bits, as is the offset of the loop.\<close>

record searchResult =
  srr_NextOffset :: "64 word"
  srr_Modules :: "tf_module list"

text \<open>The versions of each of the sources in a reply.\<close>

type_synonym versionsResult = "string list list"

record HttpReply =
  hr_StatusCode :: int
  hr_Body :: "gerror + bytes"
  hr_TerraformGet :: string

text \<open>
  \<open>rg_Get\<close> is a GET request on a location with its query (an error when the request cannot be
  made), with the headers that every request here has.
\<close>

record 'w Registries =
  rg_ParseURL :: "string \<Rightarrow> gerror + Url"
  rg_Get :: "string \<Rightarrow> (string \<times> string) list \<Rightarrow> 'w \<Rightarrow> (gerror + HttpReply) \<times> 'w"
  rg_DecodeSearch :: "bytes \<Rightarrow> gerror + searchResult"
  rg_DecodeVersions :: "bytes \<Rightarrow> gerror + versionsResult"

record registry =
  rgy_endpoint :: string
  rgy_baseURL :: string
  rgy_namespace :: string

definition registry_New :: "'w Registries \<Rightarrow> string \<Rightarrow> gerror + registry" where
  "registry_New rg endpoint =
     (case rg_ParseURL rg endpoint of
        Inl err \<Rightarrow> Inl err
      | Inr u \<Rightarrow>
          (let baseURL = Sprintf ''https://%s'' [FStr (url_Host u)] in
           if url_Path u \<noteq> []
           then (let items = Split (TrimSuffix (url_Path u) ''/'') CHR ''/'' in
                 if length items \<noteq> 3 \<or> items ! 1 \<noteq> ''namespaces''
                 then Inl (ErrMsg ''invalid endpoint, supports only one path i.e. https://registry.terraform.io/namespaces/NAME'')
                 else Inr \<lparr>rgy_endpoint = endpoint, rgy_baseURL = baseURL, rgy_namespace = items ! 2\<rparr>)
           else Inr \<lparr>rgy_endpoint = endpoint, rgy_baseURL = baseURL, rgy_namespace = []\<rparr>))"

definition registry_IsHandle :: "string \<Rightarrow> bool" where
  "registry_IsHandle source \<longleftrightarrow>
     HasPrefix source ''terraform://'' \<or> HasPrefix source ''https://registry.terraform.io''"

definition registry_Source :: "registry \<Rightarrow> string" where
  "registry_Source r = rgy_endpoint r"

definition read_body :: "HttpReply \<Rightarrow> (bytes \<Rightarrow> gerror + 'a) \<Rightarrow> gerror + 'a" where
  "read_body resp dec = (case hr_Body resp of Inl err \<Rightarrow> Inl err | Inr body \<Rightarrow> dec body)"

definition registry_Versions ::
  "'w Registries \<Rightarrow> registry \<Rightarrow> Module \<Rightarrow> ('w, 'o, 't, string list go) prog" where
  "registry_Versions rg r m =
     attempt (or_error (request (rg_Get rg
         (Sprintf ''%s/v1/modules/%s/%s/%s/versions''
            [FStr (rgy_baseURL r), FStr (md_Namespace m), FStr (md_Name m), FStr (md_Provider m)]) []))) (\<lambda>resp.
       attempt (State_Monad.return (of_sum (read_body resp (rg_DecodeVersions rg)))) (\<lambda>result. succeed (concat result)))"

definition registry_ResolveSource ::
  "'w Registries \<Rightarrow> registry \<Rightarrow> Module \<Rightarrow> ('w, 'o, 't, string go) prog" where
  "registry_ResolveSource rg r m =
     attempt (or_error (request (rg_Get rg
         (Sprintf ''%s/v1/modules/%s/%s/%s/%s/download''
            [FStr (rgy_baseURL r), FStr (md_Namespace m), FStr (md_Name m), FStr (md_Provider m), FStr (md_Version m)]) []))) (\<lambda>resp.
       if hr_StatusCode resp \<noteq> 204 then fail ''unexpected status code %d'' [FInt (hr_StatusCode resp)]
       else if hr_TerraformGet resp = [] then fail ''unexpected response, no X-Terraform-Get header'' []
       else succeed (ReplaceAll (hr_TerraformGet resp) ''git::'' []))"

definition search_query :: "Query \<Rightarrow> 64 word \<Rightarrow> (string \<times> string) list" where
  "search_query q offset =
     [(''offset'', Sprintf ''%d'' [FInt (sint offset)]), (''limit'', Sprintf ''%d'' [FInt 20])] @
     (if qy_Query q \<noteq> [] then [(''q'', qy_Query q)] else []) @
     (if qy_Provider q \<noteq> [] then [(''provider'', qy_Provider q)] else []) @
     (if qy_Namespace q \<noteq> [] then [(''namespace'', qy_Namespace q)] else [])"

definition search_location :: "registry \<Rightarrow> Query \<Rightarrow> string" where
  "search_location r q =
     (let location = Sprintf ''%s/v1/modules'' [FStr (rgy_baseURL r)] in
      if qy_Query q \<noteq> [] then Sprintf ''%s/search'' [FStr location] else location)"

definition registry_search ::
  "'w Registries \<Rightarrow> registry \<Rightarrow> Query \<Rightarrow> 64 word \<Rightarrow> ('w, 'o, 't, searchResult go) prog" where
  "registry_search rg r q offset =
     attempt (or_error (request (rg_Get rg (search_location r q) (search_query q offset)))) (\<lambda>resp.
       if hr_StatusCode resp \<noteq> 200 then fail ''unexpected status code: %d'' [FInt (hr_StatusCode resp)]
       else State_Monad.return (of_sum (read_body resp (rg_DecodeSearch rg))))"

definition found_module :: "registry \<Rightarrow> tf_module \<Rightarrow> Module" where
  "found_module r m =
     \<lparr>md_ID = tfm_ID m, md_CreatedAt = tfm_PublishedAt m, md_Description = tfm_Description m,
      md_Downloads = tfm_Downloads m, md_Name = tfm_Name m, md_Namespace = tfm_Namespace m,
      md_Private = False, md_Provider = tfm_Provider m, md_Registry = rgy_endpoint r,
      md_RegistryType = ''TF'', md_Source = ReplaceAll (tfm_Source m) ''git::'' [],
      md_Stars = 0, md_Version = tfm_Version m\<rparr>"

text \<open>The loop of \<open>Find\<close>: the next offset is added to the present one.\<close>

fun registry_pages ::
  "'w Registries \<Rightarrow> registry \<Rightarrow> Query \<Rightarrow> nat \<Rightarrow> 64 word \<Rightarrow> Module list \<Rightarrow>
   ('w, 'o, 't, Module list go option) prog" where
  "registry_pages rg r q 0 offset found = State_Monad.return None"
| "registry_pages rg r q (Suc fuel) offset found =
     do { res \<leftarrow> registry_search rg r q offset;
          case res of
            Err e \<Rightarrow> State_Monad.return (Some (Err e))
          | Panic \<Rightarrow> State_Monad.return (Some Panic)
          | Ok results \<Rightarrow>
              (let found = found @ map (found_module r) (srr_Modules results);
                   follow = srr_NextOffset results in
               if follow \<noteq> 0 \<and> sint follow \<ge> sint offset
               then registry_pages rg r q fuel (offset + follow) found
               else State_Monad.return (Some (Ok found))) }"

definition registry_Find ::
  "'w Registries \<Rightarrow> nat \<Rightarrow> registry \<Rightarrow> Query \<Rightarrow> ('w, 'o, 't, Module list go option) prog" where
  "registry_Find rg fuel r q =
     registry_pages rg r
       (if rgy_namespace r \<noteq> [] \<and> qy_Namespace q = [] then q\<lparr>qy_Namespace := rgy_namespace r\<rparr> else q)
       fuel 0 []"

section \<open>GitHub\<close>

record Repository =
  repo_ID :: int
  repo_CreatedAt :: time
  repo_Description :: string
  repo_Name :: string
  repo_Owner :: string
  repo_Private :: bool
  repo_HTMLURL :: string
  repo_Stars :: int
  repo_Topics :: "string list"

text \<open>
  The GitHub library: a user with the status of the reply and its type, and the pages of the
  tags of a repository and of the repositories of a user or an organization, each with the
  number of the next page (0 for none).
\<close>

record 'w Github =
  gh_ParseURL :: "string \<Rightarrow> gerror + Url"
  gh_GetUser :: "string \<Rightarrow> 'w \<Rightarrow> (gerror + int \<times> string) \<times> 'w"
  gh_ListTags :: "string \<Rightarrow> string \<Rightarrow> int \<Rightarrow> 'w \<Rightarrow> (gerror + string list \<times> int) \<times> 'w"
  gh_List :: "string \<Rightarrow> int \<Rightarrow> 'w \<Rightarrow> (gerror + Repository list \<times> int) \<times> 'w"
  gh_ListByOrg :: "string \<Rightarrow> int \<Rightarrow> 'w \<Rightarrow> (gerror + Repository list \<times> int) \<times> 'w"

record ghClient =
  ghc_endpoint :: string
  ghc_namespace :: string
  ghc_token :: string

definition github_IsHandle :: "string \<Rightarrow> bool" where
  "github_IsHandle source \<longleftrightarrow> HasPrefix source ''github.com/'' \<or> HasPrefix source ''https://github.com/''"

definition github_New :: "'w Github \<Rightarrow> string \<Rightarrow> string \<Rightarrow> gerror + ghClient" where
  "github_New gh endpoint token =
     (if endpoint = [] then Inl (ErrMissingArgument ''endpoint'')
      else (case gh_ParseURL gh endpoint of
              Inl err \<Rightarrow> Inl err
            | Inr u \<Rightarrow>
                if url_Path u = [] then Inl (ErrMsg ''must be a user or organizations /user or /org'')
                else Inr \<lparr>ghc_endpoint = (if url_Scheme u = [] then Sprintf ''https://%s'' [FStr endpoint] else endpoint),
                          ghc_namespace = TrimPrefix (url_Path u) ''/'',
                          ghc_token = token\<rparr>))"

definition github_Source :: "ghClient \<Rightarrow> string" where
  "github_Source r = ghc_endpoint r"

definition github_ResolveSource :: "Module \<Rightarrow> string go" where
  "github_ResolveSource m =
     (let source = (if md_Private m then Sprintf ''git::ssh://git@%s'' [FStr (TrimPrefix (md_Source m) ''https://'')]
                    else md_Source m) in
      Ok (Sprintf ''%s?ref=%s'' [FStr source, FStr (md_Version m)]))"

text \<open>The loop over the pages of a listing, for \<open>Versions\<close>, \<open>searchByUser\<close> and \<open>searchByOrganization\<close>.\<close>

fun all_pages ::
  "(int \<Rightarrow> 'w \<Rightarrow> (gerror + 'a list \<times> int) \<times> 'w) \<Rightarrow> nat \<Rightarrow> int \<Rightarrow> 'a list \<Rightarrow>
   ('w, 'o, 't, 'a list go option) prog" where
  "all_pages listing 0 page found = State_Monad.return None"
| "all_pages listing (Suc fuel) page found =
     do { r \<leftarrow> request (listing page);
          case r of
            Inl err \<Rightarrow> State_Monad.return (Some (Err err))
          | Inr (results, follow) \<Rightarrow>
              if follow = 0 then State_Monad.return (Some (Ok (found @ results)))
              else all_pages listing fuel follow (found @ results) }"

definition github_Versions ::
  "'w Github \<Rightarrow> nat \<Rightarrow> Module \<Rightarrow> ('w, 'o, 't, string list go option) prog" where
  "github_Versions gh fuel m =
     do { r \<leftarrow> all_pages (gh_ListTags gh (md_Namespace m) (md_Name m)) fuel 0 [];
          State_Monad.return
            (if r = Some (Ok []) then Some (Err (ErrMsg ''no tags found in source repository'')) else r) }"

definition searchByUser ::
  "'w Github \<Rightarrow> nat \<Rightarrow> ghClient \<Rightarrow> ('w, 'o, 't, Repository list go option) prog" where
  "searchByUser gh fuel r = all_pages (gh_List gh (ghc_namespace r)) fuel 0 []"

definition searchByOrganization ::
  "'w Github \<Rightarrow> nat \<Rightarrow> ghClient \<Rightarrow> ('w, 'o, 't, Repository list go option) prog" where
  "searchByOrganization gh fuel r = all_pages (gh_ListByOrg gh (ghc_namespace r)) fuel 0 []"

definition containsTerms :: "string \<Rightarrow> Repository \<Rightarrow> bool" where
  "containsTerms query repository =
     (let terms = ToLower (ReplaceAll (repo_Description repository) '','' '' '') @ '' '' @
                  ToLower (Join (repo_Topics repository) '' '') @ '' '' @
                  ToLower (ReplaceAll (repo_Name repository) ''-'' '' '') in
      ContainsList (Split (ToLower query) CHR '' '') (Split terms CHR '' ''))"

definition matches_query :: "Query \<Rightarrow> Repository \<Rightarrow> bool" where
  "matches_query q x =
     (if qy_Namespace q \<noteq> [] \<and> repo_Owner x \<noteq> qy_Namespace q then False
      else if \<not> NamingConvention (repo_Name x) then False
      else if qy_Query q \<noteq> [] \<and> \<not> containsTerms (qy_Query q) x then False
      else True)"

definition found_repository :: "ghClient \<Rightarrow> Repository \<Rightarrow> Module" where
  "found_repository r x =
     \<lparr>md_ID = Sprintf ''%d'' [FInt (repo_ID x)], md_CreatedAt = repo_CreatedAt x,
      md_Description = repo_Description x, md_Downloads = 0, md_Name = repo_Name x,
      md_Namespace = repo_Owner x, md_Private = repo_Private x, md_Provider = [],
      md_Registry = ghc_endpoint r, md_RegistryType = ''GH'', md_Source = repo_HTMLURL x,
      md_Stars = repo_Stars x, md_Version = []\<rparr>"

definition github_Find ::
  "'w Github \<Rightarrow> nat \<Rightarrow> ghClient \<Rightarrow> Query \<Rightarrow> ('w, 'o, 't, Module list go option) prog" where
  "github_Find gh fuel r q =
     do { user \<leftarrow> request (gh_GetUser gh (ghc_namespace r));
          case user of
            Inl err \<Rightarrow> State_Monad.return (Some (Err err))
          | Inr (status, kind) \<Rightarrow>
              if status = 404
              then State_Monad.return (Some (Err (ErrMsg (Sprintf ''%q not found'' [FStr (ghc_namespace r)]))))
              else do { list \<leftarrow> (if kind = ''Organization'' then searchByOrganization gh fuel r
                                 else searchByUser gh fuel r);
                        State_Monad.return
                          (case list of
                             Some (Ok repos) \<Rightarrow> Some (Ok (map (found_repository r) (filter (matches_query q) repos)))
                           | Some (Err e) \<Rightarrow> Some (Err e)
                           | Some Panic \<Rightarrow> Some Panic
                           | None \<Rightarrow> None) } }"

section \<open>The interface\<close>

text \<open>A search service: what it finds names its source as the registry.\<close>

locale module_search =
  fixes find_modules :: "Query \<Rightarrow> ('w, 'o, 't, Module list go option) prog"
    and source :: string
  assumes named: "wp (find_modules q) (\<lambda>r t. \<forall>ms. r = Some (Ok ms) \<longrightarrow> (\<forall>m \<in> set ms. md_Registry m = source)) s"
begin

lemma found_named:
  assumes "run_state (find_modules q) s = (Some (Ok ms), t)" and "m \<in> set ms"
  shows "md_Registry m = source"
  using named [of q s] assms by (simp add: wp_def)

end

lemma registry_pages_named:
  assumes "\<forall>m \<in> set found. md_Registry m = rgy_endpoint r"
  shows "wp (registry_pages rg r q fuel offset found)
    (\<lambda>res t. \<forall>ms. res = Some (Ok ms) \<longrightarrow> (\<forall>m \<in> set ms. md_Registry m = rgy_endpoint r)) s"
  using assms
proof (induction fuel arbitrary: offset found s)
  case (Suc fuel)
  have more: "\<forall>m \<in> set (found @ map (found_module r) ms). md_Registry m = rgy_endpoint r" for ms
    using Suc.prems by (auto simp: found_module_def)
  show ?case
    using Suc.IH [OF more] more
    by (auto simp: registry_search_def wp_request wp_if Let_def split: go.split sum.split)
qed simp

lemma all_pages_any:
  assumes "\<And>r w. Q r (s\<lparr>world := w\<rparr>)"
  shows "wp (all_pages listing fuel page found) Q s"
  using assms
proof (induction fuel arbitrary: page found s)
  case (Suc fuel)
  have "wp (all_pages listing fuel follow (found @ results)) Q (s\<lparr>world := w\<rparr>)" for follow results w
    by (rule Suc.IH) (use Suc.prems in simp)
  then show ?case
    using Suc.prems by (auto simp: wp_request split: sum.split)
next
  case 0
  from "0.prems" [of None "world s"] show ?case by simp
qed

interpretation terraform: module_search "registry_Find rg fuel r" "registry_Source r"
  by unfold_locales (simp add: registry_Find_def registry_Source_def registry_pages_named)

interpretation github: module_search "github_Find gh fuel r" "github_Source r"
proof
  show "wp (github_Find gh fuel r q)
    (\<lambda>res t. \<forall>ms. res = Some (Ok ms) \<longrightarrow> (\<forall>m \<in> set ms. md_Registry m = github_Source r)) s" for q s
    by (auto simp: github_Find_def wp_request wp_if searchByUser_def searchByOrganization_def
        github_Source_def found_repository_def intro!: all_pages_any split: sum.split option.splits go.splits)
qed

end
