(* ===== verification/Search.thy ===== *)
theory Search
  imports Create Registry "HOL-Library.AList"
begin

text \<open>
  The command \<open>tnctl search\<close> (\<open>pkg/cmd/tnctl/search/search.go\<close>): the handlers of the configured
  sources, the search of all of them, the choice of a module and of its version, and the
  configuration built from it. The handlers run concurrently; the model runs them one after the
  other, in the order in which their responses arrive, which the runtime chooses.
\<close>

section \<open>Handlers\<close>

datatype search_handler = TerraformHandler registry | GithubHandler ghClient

text \<open>The answers of the list from which the user picks a module.\<close>

datatype prompt_outcome = PromptAborted | PromptFailed gerror | Chosen nat

record 'w Searcher =
  sx_ct :: "'w Creator"
  sx_rg :: "'w Registries"
  sx_gh :: "'w Github"
  sx_Choose :: "Module list \<Rightarrow> 'w \<Rightarrow> prompt_outcome \<times> 'w"
  sx_Close :: "string \<Rightarrow> 'w \<Rightarrow> gerror option \<times> 'w"

abbreviation sx_tn :: "'w Searcher \<Rightarrow> 'w Tnctl" where
  "sx_tn sx \<equiv> ct_tn (sx_ct sx)"

abbreviation sx_host :: "'w Searcher \<Rightarrow> 'w host" where
  "sx_host sx \<equiv> tn_host (ct_tn (sx_ct sx))"

definition handler_Source :: "search_handler \<Rightarrow> string" where
  "handler_Source h =
     (case h of TerraformHandler r \<Rightarrow> registry_Source r | GithubHandler r \<Rightarrow> github_Source r)"

definition handler_Find ::
  "'w Searcher \<Rightarrow> nat \<Rightarrow> search_handler \<Rightarrow> Query \<Rightarrow> ('w, 'o, 't, Module list go option) prog" where
  "handler_Find sx fuel h q =
     (case h of
        TerraformHandler r \<Rightarrow> registry_Find (sx_rg sx) fuel r q
      | GithubHandler r \<Rightarrow> github_Find (sx_gh sx) fuel r q)"

definition handler_Versions ::
  "'w Searcher \<Rightarrow> nat \<Rightarrow> search_handler \<Rightarrow> Module \<Rightarrow> ('w, 'o, 't, string list go option) prog" where
  "handler_Versions sx fuel h m =
     (case h of
        TerraformHandler r \<Rightarrow> returns (registry_Versions (sx_rg sx) r m)
      | GithubHandler r \<Rightarrow> github_Versions (sx_gh sx) fuel m)"

definition handler_ResolveSource ::
  "'w Searcher \<Rightarrow> search_handler \<Rightarrow> Module \<Rightarrow> ('w, 'o, 't, string go) prog" where
  "handler_ResolveSource sx h m =
     (case h of
        TerraformHandler r \<Rightarrow> registry_ResolveSource (sx_rg sx) r m
      | GithubHandler r \<Rightarrow> State_Monad.return (github_ResolveSource m))"

record SearchCommand =
  sh_EnableDefaults :: bool
  sh_Filename :: string
  sh_Provider :: string
  sh_Name :: string
  sh_Source :: string
  sh_SourceNamespace :: string
  sh_Query :: string

text \<open>The handlers by the source they were made for.\<close>

fun makeSourceHandlers ::
  "'w Searcher \<Rightarrow> string \<Rightarrow> string \<Rightarrow> (string \<times> search_handler) list \<Rightarrow> string list \<Rightarrow> gerror + (string \<times> search_handler) list" where
  "makeSourceHandlers sx token only searches [] = Inr searches"
| "makeSourceHandlers sx token only searches (source # sources) =
     (if only \<noteq> [] \<and> only \<noteq> source then makeSourceHandlers sx token only searches sources
      else if registry_IsHandle source
      then (case registry_New (sx_rg sx) source of
              Inl err \<Rightarrow> Inl err
            | Inr h \<Rightarrow> makeSourceHandlers sx token only (AList.update source (TerraformHandler h) searches) sources)
      else if github_IsHandle source
      then (case github_New (sx_gh sx) source token of
              Inl err \<Rightarrow> Inl err
            | Inr h \<Rightarrow> makeSourceHandlers sx token only (AList.update source (GithubHandler h) searches) sources)
      else makeSourceHandlers sx token only searches sources)"

section \<open>The search\<close>

record Response =
  sp_Error :: "gerror option"
  sp_Modules :: "Module list"

definition response_of :: "Module list go \<Rightarrow> Response" where
  "response_of answer =
     \<lparr>sp_Error = (case answer of Err e \<Rightarrow> Some e | _ \<Rightarrow> None),
      sp_Modules = (case answer of Ok ms \<Rightarrow> ms | _ \<Rightarrow> [])\<rparr>"

text \<open>
  The loop over the arriving responses. When no further response comes, the loop ends with the
  deadline; so it does with no handler at all, for the count is only compared after a response.
\<close>

fun await_responses ::
  "'w Searcher \<Rightarrow> nat \<Rightarrow> go_context \<Rightarrow> Query \<Rightarrow> nat \<Rightarrow> Response list \<Rightarrow> search_handler list \<Rightarrow>
   ('w, 'o, Response list go) tool" where
  "await_responses sx fuel ctx q n results [] = fail ''context cancelled waiting for response'' []"
| "await_responses sx fuel ctx q n results (h # hs) =
     do { stop \<leftarrow> done_context (sx_host sx) ctx;
          if stop then fail ''context cancelled waiting for response'' []
          else do { r \<leftarrow> handler_Find sx fuel h q;
                    case r of
                      None \<Rightarrow> await_responses sx fuel ctx q n results hs
                    | Some answer \<Rightarrow>
                        if answer = Panic then State_Monad.return Panic
                        else (let results = results @ [response_of answer] in
                              if length results = n then succeed results
                              else await_responses sx fuel ctx q n results hs) } }"

definition findModules ::
  "'w Searcher \<Rightarrow> nat \<Rightarrow> go_context \<Rightarrow> SearchCommand \<Rightarrow> (string \<times> search_handler) list \<Rightarrow> ('w, 'o, Response list go) tool" where
  "findModules sx fuel ctx cmd handlers =
     do { order \<leftarrow> request (h_Range (sx_host sx) (map fst handlers));
          await_responses sx fuel ctx
            \<lparr>qy_Namespace = sh_SourceNamespace cmd, qy_Provider = sh_Provider cmd, qy_Query = sh_Query cmd\<rparr>
            (length handlers) [] (List.map_filter (map_of handlers) order) }"

fun gather :: "Module list \<Rightarrow> Response list \<Rightarrow> gerror + Module list" where
  "gather ms [] = Inr ms"
| "gather ms (x # xs) = (case sp_Error x of Some e \<Rightarrow> Inl e | None \<Rightarrow> gather (ms @ sp_Modules x) xs)"

text \<open>The filter of the list, by a part of the name, of the description or of the namespace.\<close>

definition searcher :: "string \<Rightarrow> Module \<Rightarrow> bool" where
  "searcher input m =
     (let lower = ToLower input in
      StringContains (ToLower (md_Name m)) lower \<or>
      StringContains (ToLower (md_Description m)) lower \<or>
      StringContains (ToLower (md_Namespace m)) lower)"

datatype choice = NoModules | UserAborted | ChoseModule Module

definition chooseModule :: "'w Searcher \<Rightarrow> Response list \<Rightarrow> ('w, 'o, choice go) tool" where
  "chooseModule sx responses =
     attempt (State_Monad.return (of_sum (gather [] responses))) (\<lambda>ms.
       if length ms = 0 then succeed NoModules
       else do { r \<leftarrow> request (sx_Choose sx ms);
                 State_Monad.return
                   (case r of
                      PromptAborted \<Rightarrow> Ok UserAborted
                    | PromptFailed e \<Rightarrow> Err e
                    | Chosen i \<Rightarrow> if i < length ms then Ok (ChoseModule (ms ! i)) else Panic) })"

text \<open>A call on the nil handler panics.\<close>

definition chooseModuleVersion ::
  "'w Searcher \<Rightarrow> 'v Semver \<Rightarrow> nat \<Rightarrow> Module \<Rightarrow> search_handler option \<Rightarrow> ('w, 'o, Module go option) tool" where
  "chooseModuleVersion sx sv fuel m handler =
     (case handler of
        None \<Rightarrow> State_Monad.return (Some Panic)
      | Some h \<Rightarrow>
          await (handler_Versions sx fuel h m) (\<lambda>versions.
            if length versions = 0 then returns (fail ''no versions found for module'' [])
            else if length versions = 1 then returns (succeed (m\<lparr>md_Version := versions ! 0\<rparr>))
            else returns (attempt (or_error (request (h_Select (sx_host sx)
                   ''Which version of the module do you want to use?''
                   (case SortSemverVersions sv versions of Inr sorted_versions \<Rightarrow> sorted_versions | Inl _ \<Rightarrow> versions))))
                   (\<lambda>version. succeed (m\<lparr>md_Version := version\<rparr>)))))"

section \<open>The command\<close>

definition default_sources :: "string list" where
  "default_sources = [''https://registry.terraform.io'']"

definition search_sources :: "'w Searcher \<Rightarrow> SearchCommand \<Rightarrow> ('w, 'o, string list go) tool" where
  "search_sources sx cmd =
     attempt (GetConfig (sx_tn sx)) (\<lambda>(config, found).
       let sources = (if \<not> found \<or> length (cf_Sources config) = 0 then default_sources else cf_Sources config) in
       if sh_Source cmd \<noteq> [] \<and> \<not> Contains (sh_Source cmd) sources
       then fail ''source %q not found in configuration'' [FStr (sh_Source cmd)]
       else succeed sources)"

definition open_output :: "'w Searcher \<Rightarrow> SearchCommand \<Rightarrow> ('w, 'o, string option go) tool" where
  "open_output sx cmd =
     (if sh_Filename cmd = [] then succeed None
      else attempt (no_error (write_file (sx_host sx) (sh_Filename cmd) [])) (\<lambda>_. succeed (Some (sh_Filename cmd))))"

definition ask_query :: "'w Searcher \<Rightarrow> SearchCommand \<Rightarrow> ('w, 'o, SearchCommand go) tool" where
  "ask_query sx cmd =
     (if length (sh_Query cmd) = 0
      then attempt (or_error (request (h_Ask (sx_host sx) ''What resource are you looking to provision?'' [])))
             (\<lambda>q. succeed (cmd\<lparr>sh_Query := q\<rparr>))
      else succeed cmd)"

text \<open>The provider, from the user or from the cluster; \<open>Ok None\<close> when the cluster has none.\<close>

definition ask_provider :: "'w Searcher \<Rightarrow> SearchCommand \<Rightarrow> ('w, 'o, SearchCommand option go) tool" where
  "ask_provider sx cmd =
     (if sh_Provider cmd \<noteq> [] then succeed (Some cmd)
      else attempt (or_error (request (h_Ask (sx_host sx) ''Which provider should we scope the search?'' []))) (\<lambda>provider.
        if provider \<noteq> ''check available'' then succeed (Some (cmd\<lparr>sh_Provider := provider\<rparr>))
        else do { Println ''%s Checking for available providers, using your current kube context''
                    [FStr (tn_Icon (sx_tn sx) ''help'')];
                  attempt (ListAvailableProviders (sx_tn sx)) (\<lambda>list.
                    if length list = 0
                    then do { Println ''%s No providers found in current cluster'' [FStr (tn_Icon (sx_tn sx) ''bad'')];
                              succeed None }
                    else attempt (or_error (request (h_Select (sx_host sx)
                           ''Found the following providers available, which should we use?'' list)))
                           (\<lambda>p. succeed (Some (cmd\<lparr>sh_Provider := p\<rparr>)))) }))"

definition ask_resource_name :: "'w Searcher \<Rightarrow> SearchCommand \<Rightarrow> Module \<Rightarrow> ('w, 'o, SearchCommand go) tool" where
  "ask_resource_name sx cmd m =
     (if sh_Name cmd = []
      then attempt (or_error (request (h_Ask (sx_host sx)
             ''What should the name of the configuration resource be?'' (md_Name m))))
             (\<lambda>name. succeed (cmd\<lparr>sh_Name := name\<rparr>))
      else succeed cmd)"

definition build_found ::
  "'w Searcher \<Rightarrow> SearchCommand \<Rightarrow> string option \<Rightarrow> Module \<Rightarrow> string \<Rightarrow> ('w, 'o, unit go option) tool" where
  "build_found sx cmd writer m reference =
     do { Println ''%s Using terraform module: %s'' [FStr (tn_Icon (sx_tn sx) ''good''), FStr reference];
          Println ''%s Source: %s'' [FStr (tn_Icon (sx_tn sx) ''good''), FStr (md_Registry m)];
          await (Build_Run (sx_ct sx)
              \<lparr>bc_EnableAutoApproval = False, bc_EnableDriftDetection = False,
               bc_EnableDefaults = sh_EnableDefaults cmd, bc_EnableSensitive = False,
               bc_Name = sh_Name cmd, bc_Namespace = [],
               bc_Provider = (if md_Provider m = [] then sh_Provider cmd else md_Provider m),
               bc_Source = reference, bc_Secret = [], bc_Writer = writer\<rparr>) (\<lambda>_.
            returns (case writer of
              None \<Rightarrow> succeed ()
            | Some path \<Rightarrow>
                attempt (no_error (request (sx_Close sx path))) (\<lambda>_.
                  do { Println ''%s Configuration written to: %s'' [FStr (tn_Icon (sx_tn sx) ''good''), FStr path];
                       succeed () }))) }"

definition provision ::
  "'w Searcher \<Rightarrow> 'v Semver \<Rightarrow> nat \<Rightarrow> SearchCommand \<Rightarrow> string option \<Rightarrow> (string \<times> search_handler) list \<Rightarrow> Module \<Rightarrow>
   ('w, 'o, unit go option) tool" where
  "provision sx sv fuel cmd writer handlers m =
     await (returns (ask_resource_name sx cmd m)) (\<lambda>cmd.
       await (chooseModuleVersion sx sv fuel m (map_of handlers (md_Registry m))) (\<lambda>m'.
         case map_of handlers (md_Registry m) of
           None \<Rightarrow> State_Monad.return (Some Panic)
         | Some h \<Rightarrow>
             await (returns (handler_ResolveSource sx h m')) (\<lambda>reference.
               build_found sx cmd writer m' reference)))"

definition search_modules ::
  "'w Searcher \<Rightarrow> 'v Semver \<Rightarrow> nat \<Rightarrow> SearchCommand \<Rightarrow> string option \<Rightarrow> string list \<Rightarrow> ('w, 'o, unit go option) tool" where
  "search_modules sx sv fuel cmd writer sources =
     do { w \<leftarrow> gets world;
          await (State_Monad.return (Some (of_sum
              (makeSourceHandlers sx (h_Getenv (sx_host sx) ''GITHUB_TOKEN'' w) (sh_Source cmd) [] sources)))) (\<lambda>handlers.
            await (returns (findModules sx fuel
                (WithTimeout None (cc_Now (h_cc (sx_host sx)) w) (30 * second)) cmd handlers)) (\<lambda>responses.
              await (returns (chooseModule sx responses)) (\<lambda>chosen.
                case chosen of
                  UserAborted \<Rightarrow> returns (succeed ())
                | NoModules \<Rightarrow> returns (do { Println ''No modules found'' []; succeed () })
                | ChoseModule m \<Rightarrow> provision sx sv fuel cmd writer handlers m))) }"

definition Search_Run ::
  "'w Searcher \<Rightarrow> 'v Semver \<Rightarrow> nat \<Rightarrow> SearchCommand \<Rightarrow> ('w, 'o, unit go option) tool" where
  "Search_Run sx sv fuel cmd =
     await (returns (search_sources sx cmd)) (\<lambda>sources.
       await (returns (open_output sx cmd)) (\<lambda>writer.
         await (returns (ask_query sx cmd)) (\<lambda>cmd.
           await (returns (ask_provider sx cmd)) (\<lambda>asked.
             case asked of
               None \<Rightarrow> returns (succeed ())
             | Some cmd \<Rightarrow> search_modules sx sv fuel cmd writer sources))))"

end
