(* ===== verification/Client_Properties.thy ===== *)
theory Client_Properties
  imports Cli_Properties Search
begin

text \<open>
  Properties of the download of modules, of the search for them and of the commands that create
  resources from them, with their instances on a concrete machine.
\<close>

section \<open>Downloads\<close>

lemma count_units_spec:
  assumes "count_units n d e = (d', e')" and "1 \<le> n"
  shows "\<exists>k. d' = d * 1000 ^ k \<and> e' = e + k \<and> 1000 ^ k \<le> n \<and> n < 1000 ^ Suc k"
  using assms
proof (induction n d e rule: count_units.induct)
  case (1 n d e)
  show ?case
  proof (cases "n \<ge> 1000")
    case True
    then have "1 \<le> n div 1000" by presburger
    with True 1 obtain k where k: "d' = d * 1000 * 1000 ^ k" "e' = Suc e + k" "1000 ^ k \<le> n div 1000" "n div 1000 < 1000 ^ Suc k"
      by (auto simp: count_units.simps [of n])
    from k(3) have "1000 ^ Suc k \<le> n" by simp
    moreover from k(4) have "n < 1000 ^ Suc (Suc k)" by simp
    ultimately show ?thesis using k by (intro exI [of _ "Suc k"]) simp
  next
    case False
    with 1 show ?thesis by (intro exI [of _ 0]) (simp add: count_units.simps [of n])
  qed
qed

text \<open>
  The size of a directory is always printed: for every size of 64 bits the index of the unit is
  in range, and from a thousand bytes on the divisor is the power of 1000 with the size between
  it and a thousand times it, so the computation of the divisor does not overflow either.
\<close>

theorem ByteCountSI_total:
  assumes "b < 2 ^ 63"
  shows "ByteCountSI decimal b \<noteq> Panic \<and>
    (1000 \<le> b \<longrightarrow>
      (\<exists>k < 6. ByteCountSI decimal b = Ok (decimal (Fract b (1000 ^ Suc k)) @ [si_units ! k] @ ''B'') \<and>
         1000 ^ Suc k \<le> b \<and> b < 1000 * 1000 ^ Suc k))"
proof (cases "1000 \<le> b")
  case True
  obtain d e where de: "count_units (b div 1000) 1000 0 = (d, e)" by fastforce
  from count_units_spec [OF de] True obtain k where
    k: "d = 1000 ^ Suc k" "e = k" "1000 ^ k \<le> b div 1000" "b div 1000 < 1000 ^ Suc k" by auto
  from k(3) have lower: "1000 ^ Suc k \<le> b" by simp
  from k(4) have upper: "b < 1000 * 1000 ^ Suc k" by simp
  have "k < 6"
  proof (rule ccontr)
    assume "\<not> k < 6"
    then have "(1000 :: int) ^ 7 \<le> 1000 ^ Suc k" by (intro power_increasing) auto
    with lower assms show False by simp
  qed
  with k True de lower upper show ?thesis by (auto simp: ByteCountSI_def si_units_def intro!: exI [of _ k])
qed (simp add: ByteCountSI_def)

theorem ByteCountSI_total_witness:
  "ByteCountSI (\<lambda>x. ''9.2'') 9223372036854775807 \<noteq> Panic"
  using ByteCountSI_total [of 9223372036854775807 "\<lambda>x. ''9.2''"] by simp

text \<open>The waiting loop ends at the first event that is no tick.\<close>

lemma await_download_ends:
  "wp (await_download ld dest events)
    (\<lambda>r t. rstate t = rstate s \<and>
       (r = Some (Ok ()) \<longrightarrow> (\<exists>n rest. events = replicate n Ticked @ Finished # rest))) s"
proof (induction events arbitrary: s)
  case (Cons e es)
  have tick: "wp (await_download ld dest es)
    (\<lambda>r t. rstate t = rstate s \<and>
       (r = Some (Ok ()) \<longrightarrow> (\<exists>n rest. Ticked # es = replicate n Ticked @ Finished # rest))) (s\<lparr>world := w\<rparr>)" for w
    by (rule wp_mono [OF Cons.IH]) (auto, metis append_Cons replicate_Suc)
  show ?case
    using tick by (cases e) (auto simp: DirSize_def wp_request wp_if split: sum.split intro: exI [of _ 0])
qed simp

text \<open>
  The location of a source, by the environment: with the key of the key file or of the variable,
  or the source as it is given.
\<close>

definition located :: "'w Loader \<Rightarrow> 'w \<Rightarrow> string \<Rightarrow> string \<Rightarrow> bool" where
  "located ld w source location \<longleftrightarrow>
     (let env = (\<lambda>k. h_Getenv (ld_host ld) k w) in
      if env ''SSH_AUTH_KEYFILE'' \<noteq> []
      then \<exists>key. fst (h_ReadFile (ld_host ld) (env ''SSH_AUTH_KEYFILE'') w) = Inr key \<and> location = with_ssh_key ld source key
      else if env ''SSH_AUTH_KEY'' \<noteq> [] then location = with_ssh_key ld source (env ''SSH_AUTH_KEY'')
      else location = source)"

text \<open>Before the download only files with credentials are written.\<close>

definition credentials_written :: "action \<Rightarrow> bool" where
  "credentials_written a \<longleftrightarrow> (\<exists>f data e. a = Appended f data e \<or> a = WroteFile f data e)"

lemma prepare_location_log:
  "wp (prepare_location ld source)
    (\<lambda>r t. (\<exists>log. rstate t = rstate s @ log \<and> list_all credentials_written log) \<and>
       (\<forall>location. r = Ok location \<longrightarrow> located ld (world s) source location)) s"
  by (auto simp: prepare_location_def setup_git_config_def setupNetRC_def Let_def wp_request wp_if write_file_def located_def
      credentials_written_def split: sum.split append_outcome.split go.split prod.split option.split)

lemma prepare_source_log:
  "wp (prepare_source ld source destination timeout tmpdir)
    (\<lambda>r t. \<forall>pwd location. r = Ok (pwd, location) \<longrightarrow> located ld (world s) source location \<and>
       (\<exists>log. list_all credentials_written log \<and>
          rstate t = rstate s @ log @ (if tmpdir then [RemovedAll temporary_source] else []))) s"
proof -
  have located: "wp (prepare_location ld source)
      (\<lambda>r t. case r of
         Ok location \<Rightarrow> wp (attempt (or_error (request (ld_Getwd ld))) (\<lambda>pwd.
           attempt (clear_temporary ld tmpdir) (\<lambda>_. succeed (pwd, location))))
             (\<lambda>r t. \<forall>pwd location. r = Ok (pwd, location) \<longrightarrow> located ld (world s) source location \<and>
                (\<exists>log. list_all credentials_written log \<and>
                   rstate t = rstate s @ log @ (if tmpdir then [RemovedAll temporary_source] else []))) t
       | Err e \<Rightarrow> True | Panic \<Rightarrow> True) s"
    by (rule wp_mono [OF prepare_location_log])
      (auto simp: clear_temporary_def wp_request wp_if split: go.split sum.split option.split)
  show ?thesis
    unfolding prepare_source_def
    using located by (simp add: wp_if) (auto elim!: wp_mono split: go.splits)
qed

lemma copy_source_log:
  "wp (copy_source ld tmpdir destination)
    (\<lambda>c t. c = Ok () \<longrightarrow>
       rstate t = rstate s @ (if tmpdir then [Ran [''cp'', ''-rT'', ''/tmp/source/'', destination] Exited] else [])) s"
  by (auto simp: copy_source_def run_process_def wp_request split: exec_outcome.split)

text \<open>What a download does to the log, and that it finished before any signal, timeout or failure.\<close>

definition delivered ::
  "'w Loader \<Rightarrow> string \<Rightarrow> string \<Rightarrow> string \<Rightarrow> time \<Rightarrow> bool \<Rightarrow> action list \<Rightarrow> bool" where
  "delivered ld pwd location destination timeout tmpdir acts \<longleftrightarrow>
     (let dest = (if tmpdir then temporary_source else destination) in
      (\<exists>w n rest. fst (ld_Events ld pwd (github_source 1 location) dest (Some timeout) w) =
         replicate n Ticked @ Finished # rest) \<and>
      acts = [Fetched pwd (github_source 1 location) dest] @
        (if tmpdir then [Ran [''cp'', ''-rT'', ''/tmp/source/'', destination] Exited] else []))"

lemma fetch_source_log:
  fixes s :: "('w, 'o, action list) env"
  shows "wp (fetch_source ld pwd location destination timeout tmpdir)
    (\<lambda>r t. r = Some (Ok ()) \<longrightarrow>
       (\<exists>log. delivered ld pwd location destination timeout tmpdir log \<and> rstate t = rstate s @ log)) s"
    (is "wp _ ?Q s")
proof -
  define dest where "dest = (if tmpdir then temporary_source else destination)"
  define ev where "ev = ld_Events ld pwd (github_source 1 location) dest (Some timeout) (world s)"
  define u where "u = s\<lparr>rstate := rstate s @ [Fetched pwd (github_source 1 location) dest], world := snd ev\<rparr>"
  let ?then = "\<lambda>r. case r of
       Some (Ok _) \<Rightarrow> do { c \<leftarrow> copy_source ld tmpdir destination; State_Monad.return (Some c) }
     | _ \<Rightarrow> State_Monad.return r"
  have "wp (await_download ld dest (fst ev)) (\<lambda>r. wp (?then r) ?Q) u"
  proof (rule wp_mono [OF await_download_ends])
    fix r :: "unit go option" and t :: "('w, 'o, action list) env"
    assume ended: "rstate t = rstate u \<and> (r = Some (Ok ()) \<longrightarrow> (\<exists>n rest. fst ev = replicate n Ticked @ Finished # rest))"
    show "wp (?then r) ?Q t"
    proof (cases "r = Some (Ok ())")
      case True
      with ended have "\<exists>w n rest. fst (ld_Events ld pwd (github_source 1 location) dest (Some timeout) w) =
        replicate n Ticked @ Finished # rest" unfolding ev_def by blast
      then have "delivered ld pwd location destination timeout tmpdir ([Fetched pwd (github_source 1 location) dest] @
          (if tmpdir then [Ran [''cp'', ''-rT'', ''/tmp/source/'', destination] Exited] else []))"
        unfolding delivered_def Let_def dest_def by simp
      with ended have "wp (copy_source ld tmpdir destination) (\<lambda>c. ?Q (Some c)) t"
        by (intro wp_mono [OF copy_source_log]) (auto simp: u_def)
      then show ?thesis unfolding True option.case go.case wp_bind wp_return .
    qed (auto split: option.split go.split)
  qed
  then show ?thesis
    unfolding fetch_source_def Let_def dest_def [symmetric] by (simp add: wp_request ev_def u_def)
qed


definition sample_loader :: "object list Loader" where
  "sample_loader =
     \<lparr>ld_host = sample_host, ld_LookupEnv = (\<lambda>_ _. None), ld_TempDir = (\<lambda>_. ''/tmp''), ld_ExpandEnv = (\<lambda>s _. s),
      ld_Getwd = (\<lambda>w. (Inr ''/home'', w)), ld_Walk = (\<lambda>_ w. ([Inr (True, 0), Inr (False, 1500)], w)),
      ld_RemoveAll = (\<lambda>_ w. (None, w)), ld_Append = (\<lambda>_ _ w. (AppendDone, w)),
      ld_Events = (\<lambda>_ _ _ _ w. ([Ticked, Finished], w)), ld_ParseURL = (\<lambda>_. Inl (ErrMsg ''no url'')),
      ld_Base64 = (\<lambda>s. s), ld_NetRC = (\<lambda>_ _ _. Inr []), ld_OneDecimal = (\<lambda>_. ''1.5'')\<rparr>"

lemma source_Run_sample:
  "wp (source_Run sample_loader ''git::bucket'' ''/data'' 600 True) (\<lambda>r t. r = Some (Ok ())) (sample_env [] () [])"
  by (simp add: source_Run_def prepare_source_def prepare_location_def fetch_source_def clear_temporary_def copy_source_def
      run_process_def wp_request sample_loader_def sample_host_def Let_def DirSize_def ByteCountSI_def count_units.simps
      si_units_def)


section \<open>The terraform registry\<close>

lemma sint_add_small:
  fixes a b :: "64 word"
  assumes "0 \<le> sint a" and "0 \<le> sint b" and "sint a + sint b < 2 ^ 63"
  shows "sint (a + b) = sint a + sint b"
  using assms by (simp add: sint_word_ariths(1) signed_take_bit_int_eq_self)

lemma sint_of_nat_small:
  assumes "n < 2 ^ 63"
  shows "sint (word_of_nat n :: 64 word) = int n"
proof -
  have "int n < 2 ^ 63" using assms by (metis of_nat_less_iff of_nat_numeral of_nat_power)
  then show ?thesis by (simp add: signed_of_nat signed_take_bit_int_eq_self)
qed

text \<open>
  A registry whose answers to searches never name a next offset of 2 to the 62 or more. The offset
  counts modules, of which no registry has that many.
\<close>

definition modest_offsets :: "'w Registries \<Rightarrow> registry \<Rightarrow> bool" where
  "modest_offsets rg r \<longleftrightarrow>
     (\<forall>q query w resp res. fst (rg_Get rg (search_location r q) query w) = Inr resp \<longrightarrow>
        read_body resp (rg_DecodeSearch rg) = Inr res \<longrightarrow> sint (srr_NextOffset res) < 2 ^ 62)"

lemma registry_search_modest:
  fixes s :: "('w, 'o, 't) env"
  assumes "modest_offsets rg r"
  shows "wp (registry_search rg r q offset) (\<lambda>a t. \<forall>res. a = Ok res \<longrightarrow> sint (srr_NextOffset res) < 2 ^ 62) s"
  using assms unfolding modest_offsets_def registry_search_def
  by (auto simp: wp_request wp_if of_sum_def split: sum.splits go.splits)

text \<open>An offset that is kept is at most half of the next one.\<close>

lemma registry_pages_ends:
  fixes s :: "('w, 'o, 't) env"
  assumes small: "modest_offsets rg r" and "2 ^ j \<le> sint offset" and "62 < j + fuel"
  shows "wp (registry_pages rg r q fuel offset found) (\<lambda>res t. res \<noteq> None) s"
  using assms(2,3)
proof (induction fuel arbitrary: j offset found s)
  case 0
  have "sint offset < 2 ^ 63" using sint_lt [of offset] by simp
  moreover have "(2 :: int) ^ 63 \<le> 2 ^ j" using "0.prems" by (intro power_increasing) auto
  ultimately show ?case using "0.prems" by linarith
next
  case (Suc fuel)
  have again: "wp (registry_pages rg r q fuel (offset + srr_NextOffset res) more) (\<lambda>res t. res \<noteq> None) t"
    if "sint (srr_NextOffset res) < 2 ^ 62" and "sint offset \<le> sint (srr_NextOffset res)" for res more and t :: "('w, 'o, 't) env"
  proof -
    have "0 < sint offset" using Suc.prems(1) by (rule less_le_trans [rotated]) simp
    with that have "sint (offset + srr_NextOffset res) = sint offset + sint (srr_NextOffset res)"
      by (intro sint_add_small) auto
    with Suc.prems that have "2 ^ Suc j \<le> sint (offset + srr_NextOffset res)" by simp
    with Suc.prems(2) show ?thesis by (intro Suc.IH [of "Suc j"]) auto
  qed
  show ?case
    unfolding registry_pages.simps wp_bind
    by (rule wp_mono [OF registry_search_modest [OF small]])
      (use again in \<open>auto simp: wp_if Let_def split: go.split\<close>)
qed

text \<open>
  C34. The search of a registry that never names an offset of 2 to the 62 or more ends after at
  most 64 pages, whatever else it answers: since the next offset is added to the present one, the
  offset at least doubles with each page.
\<close>

theorem registry_Find_ends:
  assumes "modest_offsets rg r" and "64 \<le> fuel"
  shows "wp (registry_Find rg fuel r q) (\<lambda>res t. res \<noteq> None) s"
proof -
  from assms(2) obtain n where n: "fuel = Suc n" "62 < n" by (cases fuel) auto
  have again: "wp (registry_pages rg r q' n (srr_NextOffset res) more) (\<lambda>res t. res \<noteq> None) t"
    if "srr_NextOffset res \<noteq> 0" and "0 \<le> sint (srr_NextOffset res)" for res q' more t
  proof (rule registry_pages_ends [OF assms(1), of 0])
    from that show "2 ^ 0 \<le> sint (srr_NextOffset res)"
      by (metis int_one_le_iff_zero_less order_le_less power_0 sint_0 signed_eq_0_iff)
  qed (use n in simp)
  show ?thesis
    unfolding registry_Find_def n
    using again
    by (auto simp: registry_search_def read_body_def wp_request wp_if Let_def split: go.split sum.split)
qed

text \<open>
  The condition is needed: the sum of two offsets wraps around, and a registry that always names the
  greatest one keeps the search going for ever.
\<close>

lemma registry_Find_endless:
  assumes "\<forall>location query w. \<exists>resp w' ms. rg_Get rg location query w = (Inr resp, w') \<and> hr_StatusCode resp = 200 \<and>
    read_body resp (rg_DecodeSearch rg) = Inr \<lparr>srr_NextOffset = word_of_nat (2 ^ 63 - 1), srr_Modules = ms\<rparr>"
  shows "wp (registry_Find rg fuel r q) (\<lambda>res t. res = None) s"
proof -
  have top: "sint (word_of_nat (2 ^ 63 - 1) :: 64 word) = 2 ^ 63 - 1" by (subst sint_of_nat_small) simp_all
  then have follows: "(word_of_nat (2 ^ 63 - 1) :: 64 word) \<noteq> 0" "sint offset \<le> sint (word_of_nat (2 ^ 63 - 1) :: 64 word)"
    for offset :: "64 word" using sint_lt [of offset] by auto
  have "wp (registry_pages rg r q' fuel offset found) (\<lambda>res t. res = None) t" for q' offset found t
  proof (induction fuel arbitrary: offset found t)
    case (Suc fuel offset found t)
    obtain resp w' ms where answer: "rg_Get rg (search_location r q') (search_query q' offset) (world t) = (Inr resp, w')"
      "hr_StatusCode resp = 200"
      "read_body resp (rg_DecodeSearch rg) = Inr \<lparr>srr_NextOffset = word_of_nat (2 ^ 63 - 1), srr_Modules = ms\<rparr>"
      using assms by blast
    define top :: "64 word" where "top = word_of_nat (2 ^ 63 - 1)"
    from answer(3) have "of_sum (read_body resp (rg_DecodeSearch rg)) = Ok \<lparr>srr_NextOffset = top, srr_Modules = ms\<rparr>"
      by (simp add: of_sum_def top_def)
    moreover have "top \<noteq> 0" "sint offset \<le> sint top" using follows unfolding top_def by blast+
    ultimately show ?case
      using answer(1,2) Suc.IH by (simp add: registry_search_def wp_request Let_def)
  qed simp
  then show ?thesis unfolding registry_Find_def by blast
qed

text \<open>A registry that serves its results in pages of twenty, each with the offset of the next.\<close>

definition serves_pages ::
  "'w Registries \<Rightarrow> registry \<Rightarrow> Query \<Rightarrow> nat \<Rightarrow> (nat \<Rightarrow> tf_module list) \<Rightarrow> bool" where
  "serves_pages rg r q amount page \<longleftrightarrow>
     (\<forall>i < 2 ^ 63. \<forall>w. \<exists>body hdr.
        rg_Get rg (search_location r q) (search_query q (word_of_nat i)) w =
          (Inr \<lparr>hr_StatusCode = 200, hr_Body = Inr body, hr_TerraformGet = hdr\<rparr>, w) \<and>
        rg_DecodeSearch rg body =
          Inr \<lparr>srr_NextOffset = word_of_nat (if i + 20 < amount then i + 20 else 0), srr_Modules = page i\<rparr>)"

lemma registry_pages_served:
  fixes s :: "('w, 'o, 't) env"
  assumes served: "serves_pages rg r q amount page"
    and enough: "amount \<le> 20 * 2 ^ n" and more: "\<forall>k < n. 20 * 2 ^ k < amount" and "n \<le> 50"
    and "k \<le> n" and "n < k + fuel"
  shows "wp (registry_pages rg r q fuel (word_of_nat (20 * (2 ^ k - 1))) found)
    (\<lambda>res t. res = Some (Ok (found @ map (found_module r) (concat (map (\<lambda>k. page (20 * (2 ^ k - 1))) [k..<Suc n]))))) s"
  using assms(5,6)
proof (induction fuel arbitrary: k found s)
  case (Suc fuel k found s)
  let ?i = "20 * (2 ^ k - 1) :: nat"
  have "(2 :: nat) ^ k \<le> 2 ^ 50" using Suc.prems \<open>n \<le> 50\<close> by (intro power_increasing) auto
  then have small: "?i < 2 ^ 63" "?i + 20 < 2 ^ 63" by simp_all
  have next_eq: "?i + 20 = 20 * 2 ^ k" by (simp add: right_diff_distrib')
  have doubled: "?i + (?i + 20) = 20 * (2 ^ Suc k - 1)" by (simp add: right_diff_distrib')
  have sints: "sint (word_of_nat ?i :: 64 word) = int ?i \<and> sint (word_of_nat (?i + 20) :: 64 word) = int (?i + 20)"
    by (intro conjI sint_of_nat_small small)
  from served small(1) obtain body hdr where page:
    "rg_Get rg (search_location r q) (search_query q (word_of_nat ?i)) (world s) =
       (Inr \<lparr>hr_StatusCode = 200, hr_Body = Inr body, hr_TerraformGet = hdr\<rparr>, world s)"
    "rg_DecodeSearch rg body =
       Inr \<lparr>srr_NextOffset = word_of_nat (if ?i + 20 < amount then ?i + 20 else 0), srr_Modules = page ?i\<rparr>"
    unfolding serves_pages_def by blast
  have searched: "wp (registry_search rg r q (word_of_nat ?i)) Q s =
    Q (Ok \<lparr>srr_NextOffset = word_of_nat (if ?i + 20 < amount then ?i + 20 else 0), srr_Modules = page ?i\<rparr>) s" for Q
    using page by (simp add: registry_search_def wp_request read_body_def)
  show ?case
  proof (cases "k = n")
    case True
    with enough next_eq have "\<not> ?i + 20 < amount" by simp
    with True show ?thesis unfolding registry_pages.simps wp_bind searched by simp
  next
    case False
    with Suc.prems more next_eq have continues: "?i + 20 < amount" by simp
    have nonzero: "word_of_nat (?i + 20) \<noteq> (0 :: 64 word)" using sints by fastforce
    have sum: "word_of_nat ?i + word_of_nat (?i + 20) = (word_of_nat (20 * (2 ^ Suc k - 1)) :: 64 word)"
      unfolding doubled [symmetric] by (rule of_nat_add [symmetric])
    have upt: "[k..<Suc n] = k # [Suc k..<Suc n]" using Suc.prems by (simp add: upt_rec)
    from Suc.IH [of "Suc k" "found @ map (found_module r) (page ?i)"] False Suc.prems
    show ?thesis
      unfolding registry_pages.simps wp_bind searched upt
      using continues nonzero sints by (simp add: Let_def sum)
  qed
qed simp

text \<open>
  C35. A registry that serves its results in pages of twenty is not read in full: the pages read are
  those at the offsets 0, 20, 60, 140 and so on, twenty times a power of two less one, up to the
  first that ends the results. The pages between them are skipped.
\<close>

theorem registry_Find_offsets:
  assumes "serves_pages rg r q amount page"
    and "amount \<le> 20 * 2 ^ n" and "\<forall>k < n. 20 * 2 ^ k < amount" and "n \<le> 50" and "n < fuel"
    and "rgy_namespace r = [] \<or> qy_Namespace q \<noteq> []"
  shows "wp (registry_Find rg fuel r q)
    (\<lambda>res t. res = Some (Ok (map (found_module r) (concat (map (\<lambda>k. page (20 * (2 ^ k - 1))) [0..<Suc n]))))) s"
  using registry_pages_served [OF assms(1-4), of 0 fuel "[]" s] assms(5,6) by (auto simp: registry_Find_def)

text \<open>The registry that answers with the offset it was asked for, and reads it back.\<close>

definition sample_registries :: "nat \<Rightarrow> (nat \<Rightarrow> tf_module list) \<Rightarrow> 'w Registries" where
  "sample_registries amount page =
     \<lparr>rg_ParseURL = (\<lambda>s. Inr \<lparr>url_Scheme = ''https'', url_Host = ''registry.terraform.io'',
          url_Hostname = ''registry.terraform.io'', url_Path = []\<rparr>),
      rg_Get = (\<lambda>location query w.
        (Inr \<lparr>hr_StatusCode = 200,
              hr_Body = Inr (case map_of query ''offset'' of None \<Rightarrow> [] | Some v \<Rightarrow> v),
              hr_TerraformGet = []\<rparr>, w)),
      rg_DecodeSearch = (\<lambda>body.
        case ParseInt64 body of
          None \<Rightarrow> Inl (ErrMsg ''invalid offset'')
        | Some i \<Rightarrow>
            Inr \<lparr>srr_NextOffset = word_of_nat (if nat i + 20 < amount then nat i + 20 else 0),
                 srr_Modules = page (nat i)\<rparr>),
      rg_DecodeVersions = (\<lambda>body. Inr [[body]])\<rparr>"

lemma sample_serves: "serves_pages (sample_registries amount page) r q amount page"
proof -
  have "ParseInt64 (Sprintf ''%d'' [FInt (sint (word_of_nat i :: 64 word))]) = Some (int i)" if "i < 2 ^ 63" for i
  proof -
    have "int i < 2 ^ 63" using that by (metis of_nat_less_iff of_nat_numeral of_nat_power)
    then show ?thesis unfolding sint_of_nat_small [OF that] by (simp add: ParseInt64_range)
  qed
  then show ?thesis by (simp add: serves_pages_def sample_registries_def search_query_def)
qed

definition sample_registry :: registry where
  "sample_registry = \<lparr>rgy_endpoint = ''https://registry.terraform.io'',
     rgy_baseURL = ''https://registry.terraform.io'', rgy_namespace = []\<rparr>"

definition sample_query :: Query where
  "sample_query = \<lparr>qy_Namespace = [], qy_Provider = ''aws'', qy_Query = ''bucket''\<rparr>"

definition numbered_module :: "nat \<Rightarrow> tf_module" where
  "numbered_module i =
     \<lparr>tfm_ID = string_of_int (int i), tfm_Namespace = ''aws'', tfm_Name = ''bucket'', tfm_Version = ''1.0.0'',
      tfm_Provider = ''aws'', tfm_Description = [], tfm_Source = ''git::https://example.com/bucket'',
      tfm_PublishedAt = 0, tfm_Downloads = 0\<rparr>"

text \<open>Of sixty modules in pages of twenty, the last twenty are never seen.\<close>

definition numbered_page :: "nat \<Rightarrow> tf_module list" where
  "numbered_page i = map numbered_module [i..<min (i + 20) 60]"

theorem registry_Find_offsets_witness:
  "wp (registry_Find (sample_registries 60 numbered_page) 3 sample_registry sample_query)
    (\<lambda>res t. res = Some (Ok (map (found_module sample_registry) (map numbered_module [0..<40]))))
    \<lparr>world = (), effects = [], absent = [], resource = (), rstate = ()\<rparr>"
proof -
  have upts: "[0..<40 :: nat] = [0..<20] @ [20..<40]" using upt_add_eq_append [of 0 20 20] by simp
  have three: "[0..<Suc 2] = [0, 1, 2]" by (simp add: upt_rec)
  have pages: "concat (map (\<lambda>k. numbered_page (20 * (2 ^ k - 1))) [0..<Suc 2]) = map numbered_module [0..<40]"
    unfolding three by (simp add: numbered_page_def upts del: upt_rec_numeral)
  have steps: "\<forall>k < 2. 20 * 2 ^ k < (60 :: nat)" by (simp add: less_2_cases_iff)
  show ?thesis
    using registry_Find_offsets [of "sample_registries 60 numbered_page" sample_registry sample_query 60 numbered_page 2 3,
        OF sample_serves _ steps]
    unfolding pages by (simp add: sample_registry_def)
qed

lemma sample_small:
  assumes "amount \<le> 1000" and "rg_DecodeSearch (sample_registries amount page) raw = Inr res"
  shows "sint (srr_NextOffset res) < 2 ^ 62"
proof -
  from assms(2) obtain n where
    "srr_NextOffset res = word_of_nat (if nat n + 20 < amount then nat n + 20 else 0)"
    by (auto simp: sample_registries_def split: option.splits)
  moreover have "(if nat n + 20 < amount then nat n + 20 else 0) \<le> 1000" using assms(1) by simp
  ultimately obtain i where i: "srr_NextOffset res = word_of_nat i" "i \<le> 1000" by blast
  then have "sint (srr_NextOffset res) = int i" by (simp add: sint_of_nat_small)
  with i show ?thesis by simp
qed

theorem registry_Find_ends_witness:
  "wp (registry_Find (sample_registries 60 numbered_page) 64 sample_registry sample_query)
    (\<lambda>res t. res \<noteq> None) \<lparr>world = (), effects = [], absent = [], resource = (), rstate = ()\<rparr>"
  by (rule registry_Find_ends)
    (use sample_small [of 60 numbered_page] in \<open>auto simp: modest_offsets_def read_body_def split: sum.splits\<close>)

end
