(* ===== verification/Search_Properties.thy ===== *)
theory Search_Properties
  imports Client_Properties
begin

text \<open>
  Properties of \<open>tnctl search\<close> and of the commands that create resources: which handler serves the
  module that was found, and what becomes of the choices of the user.
\<close>

section \<open>The handlers of a search\<close>

text \<open>Every handler is kept under its own source.\<close>

definition keyed_by_source :: "(string \<times> search_handler) list \<Rightarrow> bool" where
  "keyed_by_source handlers \<longleftrightarrow> (\<forall>k h. map_of handlers k = Some h \<longrightarrow> handler_Source h = k)"

lemma keyed_update: "keyed_by_source hs \<Longrightarrow> handler_Source h = k \<Longrightarrow> keyed_by_source (AList.update k h hs)"
  by (auto simp: keyed_by_source_def AList.update_conv)

lemma registry_New_source: "registry_New rg endpoint = Inr r \<Longrightarrow> registry_Source r = endpoint"
  by (auto simp: registry_New_def registry_Source_def Let_def split: sum.splits if_splits)

lemma github_New_source:
  assumes "github_New gh endpoint token = Inr r"
    and "\<forall>u. gh_ParseURL gh endpoint = Inr u \<longrightarrow> url_Scheme u \<noteq> []"
  shows "github_Source r = endpoint"
  using assms by (auto simp: github_New_def github_Source_def split: sum.splits if_splits)

lemma keyed_handlers:
  "keyed_by_source hs \<Longrightarrow> registry_New rg src = Inr r \<Longrightarrow> keyed_by_source (AList.update src (TerraformHandler r) hs)"
  "keyed_by_source hs \<Longrightarrow> github_New gh src token = Inr c \<Longrightarrow>
     \<forall>u. gh_ParseURL gh src = Inr u \<longrightarrow> url_Scheme u \<noteq> [] \<Longrightarrow> keyed_by_source (AList.update src (GithubHandler c) hs)"
  by (auto intro!: keyed_update simp: handler_Source_def registry_New_source github_New_source)

lemma makeSourceHandlers_keyed:
  assumes "makeSourceHandlers sx token only searches sources = Inr handlers"
    and "keyed_by_source searches"
    and "\<forall>src \<in> set sources. \<forall>u. gh_ParseURL (sx_gh sx) src = Inr u \<longrightarrow> url_Scheme u \<noteq> []"
  shows "keyed_by_source handlers"
  using assms
proof (induction sources arbitrary: searches)
  case (Cons src sources)
  then have schemes: "\<forall>u. gh_ParseURL (sx_gh sx) src = Inr u \<longrightarrow> url_Scheme u \<noteq> []" by simp
  from Cons show ?case
    using keyed_handlers(1) [OF Cons.prems(2), of "sx_rg sx"] keyed_handlers(2) [OF Cons.prems(2) _ schemes]
    by (auto split: if_splits sum.splits)
qed simp

lemma handler_Find_named:
  "wp (handler_Find sx fuel h q) (\<lambda>r t. \<forall>ms. r = Some (Ok ms) \<longrightarrow> (\<forall>m \<in> set ms. md_Registry m = handler_Source h)) s"
  using terraform.named github.named by (cases h) (simp_all add: handler_Find_def handler_Source_def)

text \<open>The modules of the responses come from the handlers.\<close>

definition from_handlers :: "search_handler set \<Rightarrow> Response list \<Rightarrow> bool" where
  "from_handlers H rs \<longleftrightarrow> (\<forall>x \<in> set rs. \<forall>m \<in> set (sp_Modules x). \<exists>h \<in> H. md_Registry m = handler_Source h)"

lemma await_responses_from:
  assumes "from_handlers H results" and "set hs \<subseteq> H"
  shows "wp (await_responses sx fuel ctx q n results hs) (\<lambda>r t. \<forall>rs. r = Ok rs \<longrightarrow> from_handlers H rs) s"
  using assms
proof (induction hs arbitrary: results s)
  case (Cons h hs results s)
  have one: "from_handlers H (results @ [response_of answer])"
    if "\<forall>ms. Some answer = Some (Ok ms) \<longrightarrow> (\<forall>m \<in> set ms. md_Registry m = handler_Source h)" for answer
    using that Cons.prems by (auto simp: from_handlers_def response_of_def split: go.splits)
  show ?case
    unfolding await_responses.simps wp_bind
  proof (rule wp_done_context_any, unfold wp_if wp_fail wp_bind, intro conjI impI)
    fix w
    show "wp (handler_Find sx fuel h q)
        (\<lambda>r. wp (case r of None \<Rightarrow> await_responses sx fuel ctx q n results hs
          | Some answer \<Rightarrow>
              if answer = Panic then State_Monad.return Panic
              else let results = results @ [response_of answer] in
                   if length results = n then succeed results
                   else await_responses sx fuel ctx q n results hs)
          (\<lambda>r t. \<forall>rs. r = Ok rs \<longrightarrow> from_handlers H rs)) (s\<lparr>world := w\<rparr>)"
      using Cons.prems one
      by (intro wp_mono [OF handler_Find_named]) (auto simp: Let_def wp_if intro!: Cons.IH split: option.split)
  qed simp
qed simp

lemma gather_set:
  "gather ms rs = Inr out \<Longrightarrow> set out = set ms \<union> (\<Union>x \<in> set rs. set (sp_Modules x))"
  by (induction ms rs rule: gather.induct) (auto split: option.splits)

lemma from_handlers_gather:
  "from_handlers H rs \<Longrightarrow> gather [] rs = Inr ms \<Longrightarrow> m \<in> set ms \<Longrightarrow> \<exists>h \<in> H. md_Registry m = handler_Source h"
  by (drule gather_set) (auto simp: from_handlers_def)

lemma findModules_from:
  "wp (findModules sx fuel ctx cmd handlers)
    (\<lambda>r t. \<forall>rs ms m. r = Ok rs \<longrightarrow> gather [] rs = Inr ms \<longrightarrow> m \<in> set ms \<longrightarrow>
       (\<exists>k h. map_of handlers k = Some h \<and> md_Registry m = handler_Source h)) s"
proof -
  let ?H = "{h. \<exists>k. map_of handlers k = Some h}"
  have "set (List.map_filter (map_of handlers) ks) \<subseteq> ?H" for ks
    by (auto simp: List.map_filter_def)
  then have "wp (await_responses sx fuel ctx q n [] (List.map_filter (map_of handlers) ks))
    (\<lambda>r t. \<forall>rs. r = Ok rs \<longrightarrow> from_handlers ?H rs) t" for q n ks t
    by (intro await_responses_from) (auto simp: from_handlers_def)
  then show ?thesis
    unfolding findModules_def wp_bind wp_request
    by (rule wp_mono) (blast dest: from_handlers_gather)
qed

text \<open>
  C36. When every configured source has a scheme, each module that a search finds leads back to a
  handler: the handler kept under the registry of the module, which is the source of the handler.
\<close>

theorem search_handler_found:
  assumes "makeSourceHandlers sx token only [] sources = Inr handlers"
    and "\<forall>src \<in> set sources. \<forall>u. gh_ParseURL (sx_gh sx) src = Inr u \<longrightarrow> url_Scheme u \<noteq> []"
  shows "wp (findModules sx fuel ctx cmd handlers)
    (\<lambda>r t. \<forall>rs ms m. r = Ok rs \<longrightarrow> gather [] rs = Inr ms \<longrightarrow> m \<in> set ms \<longrightarrow>
       (\<exists>h. map_of handlers (md_Registry m) = Some h \<and> handler_Source h = md_Registry m)) s"
proof -
  have "keyed_by_source handlers"
    using makeSourceHandlers_keyed [OF assms(1) _ assms(2)] by (simp add: keyed_by_source_def)
  then have "map_of handlers (md_Registry m) = Some h \<and> handler_Source h = md_Registry m"
    if "map_of handlers k = Some h" "md_Registry m = handler_Source h" for k h m
    using that by (auto simp: keyed_by_source_def)
  then show ?thesis by (intro wp_mono [OF findModules_from]) blast
qed

text \<open>
  C37. A GitHub source without a scheme, which is accepted as a source, makes the search panic: the
  modules found name the source with the scheme, under which there is no handler, so whichever
  module is chosen and whatever was printed before, the run ends in a panic.
\<close>

theorem search_without_scheme_panics:
  assumes "HasPrefix src ''github.com/''" and "gh_ParseURL (sx_gh sx) src = Inr u"
    and "url_Scheme u = []" and "url_Path u \<noteq> []" and "sh_Name cmd \<noteq> []"
    and "makeSourceHandlers sx token [] [] [src] = Inr handlers"
  shows "wp (findModules sx fuel ctx cmd handlers)
    (\<lambda>r t. \<forall>rs ms m. r = Ok rs \<longrightarrow> gather [] rs = Inr ms \<longrightarrow> m \<in> set ms \<longrightarrow>
       wp (provision sx sv fuel cmd writer handlers m) (\<lambda>res _. res = Some Panic) t) s"
proof -
  obtain rest where src: "src = ''github.com/'' @ rest"
    using assms(1) unfolding HasPrefix_def by (metis append_take_drop_id)
  then have not_registry: "\<not> registry_IsHandle src" "github_IsHandle src" "src \<noteq> []"
    by (simp_all add: registry_IsHandle_def github_IsHandle_def HasPrefix_def)
  with assms obtain c where made: "handlers = [(src, GithubHandler c)]" "ghc_endpoint c = ''https://'' @ src"
    by (auto simp: github_New_def)
  have "wp (provision sx sv fuel cmd writer handlers m) (\<lambda>res _. res = Some Panic) t"
    if "map_of handlers k = Some h" "md_Registry m = handler_Source h" for k h m and t :: "('a, 'b, action list) env"
  proof -
    have "map_of handlers (md_Registry m) = None"
      using that made src by (auto simp: handler_Source_def github_Source_def split: if_splits)
    with assms(5) show ?thesis
      by (simp add: provision_def ask_resource_name_def chooseModuleVersion_def await_def returns_def)
  qed
  then show ?thesis by (intro wp_mono [OF findModules_from]) blast
qed

section \<open>The inputs of a revision\<close>

lemma MaxChars_60: "MaxChars text 60 = Ok (take 60 text)"
  by (auto simp: MaxChars_def)

text \<open>The line that offers a variable of a module.\<close>

definition input_line :: "TfModule \<Rightarrow> TfVariable \<Rightarrow> string" where
  "input_line m v =
     pad_right (widest (map tv_Name (mo_Variables m)) + 5) (tv_Name v) @
     '' ('' @ (if is_required v then ''Required'' else ''Optional'') @ '') '' @ take 60 (tv_Description v)"

lemma first_word_input_line: "CHR '' '' \<notin> set (tv_Name v) \<Longrightarrow> first_word (input_line m v) = tv_Name v"
  by (cases "widest (map tv_Name (mo_Variables m)) + 5 - length (tv_Name v)")
    (simp_all add: first_word_def input_line_def pad_right_def Split_append_sep)

lemma collect_Ok: "(\<And>x. x \<in> set xs \<Longrightarrow> f x = Ok (g x)) \<Longrightarrow> collect f xs = Ok (map g xs)"
  by (induction xs) auto

lemma collect_lines:
  "collect (input_option (widest (map tv_Name (mo_Variables m))) ''Required'') (filter is_required vs) =
     Ok (map (input_line m) (filter is_required vs))"
  "collect (input_option (widest (map tv_Name (mo_Variables m))) ''Optional'') (filter (\<lambda>x. \<not> is_required x) vs) =
     Ok (map (input_line m) (filter (\<lambda>x. \<not> is_required x) vs))"
  by (rule collect_Ok; simp add: input_option_def input_line_def MaxChars_60)+

text \<open>
  The input of a variable, the reference to a key of a context, and the key that is suggested for
  the description of the variable.
\<close>

definition input_of :: "TfVariable \<Rightarrow> Input" where
  "input_of v =
     \<lparr>in_Context = [],
      in_Default = Some [''example'' \<mapsto> JStr (tv_Type v), ''value'' \<mapsto> (case tv_Default v of None \<Rightarrow> JNull | Some d \<Rightarrow> d)],
      in_Description = tv_Description v, in_Key = tv_Name v, in_Required = tv_Required v, in_Type = tv_Type v\<rparr>"

definition reference_of :: "TfVariable \<Rightarrow> Input \<Rightarrow> ValueFromSource" where
  "reference_of v i =
     \<lparr>vf_Context = Some (in_Context i), vf_Optional = False, vf_Key = in_Key i, vf_Name = tv_Name v, vf_Secret = None\<rparr>"

definition suggestion :: "Suggester \<Rightarrow> NewRevisionCommand \<Rightarrow> TfVariable \<Rightarrow> Input option" where
  "suggestion sg cmd v = SuggestContextualInput sg (tv_Description v) (nr_Contexts cmd) (1 / 5)"

text \<open>The value that a variable keeps when it is not exposed.\<close>

definition kept_default :: "NewRevisionCommand \<Rightarrow> TfVariable \<Rightarrow> json option" where
  "kept_default cmd v =
     (if nr_EnableDefaultVariables cmd \<and> tv_Default v \<noteq> Some (JObj []) then tv_Default v else None)"

lemma inject_variable_facts:
  fixes sg sel cmd v
  defines "c \<equiv> inject_variable sg sel cmd v" and "chosen \<equiv> tv_Name v \<in> first_word ` set sel"
  shows "set (nr_Inputs c) = set (nr_Inputs cmd) \<union> (if chosen \<and> suggestion sg cmd v = None then {input_of v} else {})"
    and "set (nr_ValueFrom c) = set (nr_ValueFrom cmd) \<union> {reference_of v i |i. chosen \<and> suggestion sg cmd v = Some i}"
    and "nr_EnableDefaultVariables c = nr_EnableDefaultVariables cmd" and "nr_Contexts c = nr_Contexts cmd"
    and "nr_Variables c =
      (if \<not> chosen \<and> kept_default cmd v \<noteq> None
       then (nr_Variables cmd)(tv_Name v := kept_default cmd v) else nr_Variables cmd)"
  unfolding c_def chosen_def
  by (auto simp: inject_variable_def input_of_def reference_of_def suggestion_def kept_default_def
      split: option.splits json.splits list.splits)

lemma suggestion_inject [simp]: "suggestion sg (inject_variable sg' sel cmd v) = suggestion sg cmd"
  by (simp add: suggestion_def fun_eq_iff inject_variable_facts(4))

lemma fold_inject_inputs:
  "set (nr_Inputs (fold (\<lambda>v c. inject_variable sg sel c v) vs cmd)) =
     set (nr_Inputs cmd) \<union> {input_of v |v. v \<in> set vs \<and> tv_Name v \<in> first_word ` set sel \<and> suggestion sg cmd v = None}"
  by (induction vs arbitrary: cmd) (auto simp: inject_variable_facts(1))

lemma fold_inject_references:
  "set (nr_ValueFrom (fold (\<lambda>v c. inject_variable sg sel c v) vs cmd)) =
     set (nr_ValueFrom cmd) \<union>
     {reference_of v i |v i. v \<in> set vs \<and> tv_Name v \<in> first_word ` set sel \<and> suggestion sg cmd v = Some i}"
  by (induction vs arbitrary: cmd) (auto simp: inject_variable_facts(2))

lemma fold_inject_variables:
  assumes "inj_on tv_Name U" and "set vs \<subseteq> U" and "v \<in> U"
  shows "nr_Variables (fold (\<lambda>v c. inject_variable sg sel c v) vs cmd) (tv_Name v) =
    (if v \<in> set vs \<and> tv_Name v \<notin> first_word ` set sel \<and> kept_default cmd v \<noteq> None then kept_default cmd v
     else nr_Variables cmd (tv_Name v))"
  using assms(2)
proof (induction vs arbitrary: cmd)
  case (Cons u us cmd)
  have "kept_default (inject_variable sg sel cmd u) v = kept_default cmd v"
    by (simp add: kept_default_def inject_variable_facts(3))
  moreover have "tv_Name u = tv_Name v \<longleftrightarrow> u = v"
    using Cons.prems assms(1,3) by (auto dest: inj_onD)
  ultimately show ?case
    using Cons.IH [of "inject_variable sg sel cmd u"] Cons.prems by (auto simp: inject_variable_facts(5))
qed simp

lemma find_inj: "inj_on f (set xs) \<Longrightarrow> u \<in> set xs \<Longrightarrow> find (\<lambda>v. f v = f u) xs = Some u"
  by (induction xs) (auto dest: inj_onD)

lemma range_variables_all:
  assumes "\<And>ks w. set (fst (h_Range (ct_host ct) ks w)) = set ks"
    and "\<And>vs w. set vs = set (mo_Variables m) \<Longrightarrow> Q vs (s\<lparr>world := w\<rparr>)" and "inj_on tv_Name (set (mo_Variables m))"
  shows "wp (range_variables ct m) Q s"
proof -
  note found = find_inj [OF assms(3)]
  have "set (List.map_filter (\<lambda>n. find (\<lambda>v. tv_Name v = n) (mo_Variables m)) ks) = set (mo_Variables m)"
    if "set ks = tv_Name ` set (mo_Variables m)" for ks
    using that found by (force simp: List.map_filter_def image_iff)
  with assms(1,2) show ?thesis by (simp add: range_variables_def wp_request)
qed

text \<open>The names of the chosen lines are the names of the variables whose lines were chosen.\<close>

lemma chosen_names:
  assumes "set sel \<subseteq> input_line m ` set (mo_Variables m)" and "inj_on tv_Name (set (mo_Variables m))"
    and "\<forall>v \<in> set (mo_Variables m). CHR '' '' \<notin> set (tv_Name v)" and "v \<in> set (mo_Variables m)"
  shows "tv_Name v \<in> first_word ` set sel \<longleftrightarrow> input_line m v \<in> set sel"
proof
  assume "tv_Name v \<in> first_word ` set sel"
  then obtain u where u: "u \<in> set (mo_Variables m)" "input_line m u \<in> set sel" "tv_Name v = first_word (input_line m u)"
    using assms(1) by blast
  with assms have "v = u" by (simp add: first_word_input_line inj_on_eq_iff)
  with u show "input_line m v \<in> set sel" by simp
next
  assume "input_line m v \<in> set sel"
  with assms(3,4) show "tv_Name v \<in> first_word ` set sel" by (metis first_word_input_line image_eqI)
qed

text \<open>
  C38. What the user selects is what the developers see: the inputs of the revision are exactly
  those of the variables whose lines were chosen and for which no context has a fitting key, with
  the type, the default and the description of the variable; the variables that were chosen and
  have a fitting key are exactly those with a reference to that key. A variable that was not chosen
  keeps its default (unless it is empty or the defaults are disabled) and no other value.
\<close>

theorem revision_inputs_selected:
  fixes ct :: "'w Creator" and s :: "('w, 'o, action list) env"
  assumes range: "\<And>ks w. set (fst (h_Range (ct_host ct) ks w)) = set ks"
    and select: "\<And>message options w sel. fst (h_MultiSelect (ct_host ct) message options w) = Inr sel \<Longrightarrow> set sel \<subseteq> set options"
    and names: "inj_on tv_Name (set (mo_Variables m))" "\<forall>v \<in> set (mo_Variables m). CHR '' '' \<notin> set (tv_Name v)"
    and fresh: "mo_Variables m \<noteq> []" "nr_Inputs cmd = []" "nr_ValueFrom cmd = []" "nr_Variables cmd = Map.empty"
  shows "wp (create_retrieveInputs ct m cmd)
    (\<lambda>r t. \<forall>cmd'. r = Ok cmd' \<longrightarrow>
       (\<exists>message options w sel.
          fst (h_MultiSelect (ct_host ct) message options w) = Inr sel \<and> set options = input_line m ` set (mo_Variables m) \<and>
          set (nr_Inputs cmd') =
            {input_of v |v. v \<in> set (mo_Variables m) \<and> input_line m v \<in> set sel \<and> suggestion (ct_sg ct) cmd v = None} \<and>
          set (nr_ValueFrom cmd') =
            {reference_of v i |v i. v \<in> set (mo_Variables m) \<and> input_line m v \<in> set sel \<and> suggestion (ct_sg ct) cmd v = Some i} \<and>
          (\<forall>v \<in> set (mo_Variables m).
             nr_Variables cmd' (tv_Name v) = (if input_line m v \<in> set sel then None else kept_default cmd v)))) s"
    (is "wp _ (\<lambda>r t. \<forall>cmd'. r = Ok cmd' \<longrightarrow> ?P cmd') s")
proof -
  define P where "P = ?P"
  let ?lines = "\<lambda>vs. map (input_line m) (filter is_required vs) @ Sorted (map (input_line m) (filter (\<lambda>x. \<not> is_required x) vs))"
  let ?inject = "\<lambda>sel again. fold (\<lambda>v c. inject_variable (ct_sg ct) sel c v) again cmd"
  have lines: "set (?lines vs) = input_line m ` set (mo_Variables m)" if "set vs = set (mo_Variables m)" for vs
    using that by (auto simp: Sorted_def)
  have injected: "P (?inject sel again)"
    if "set vs = set (mo_Variables m)" "set again = set (mo_Variables m)"
      and sel: "fst (h_MultiSelect (ct_host ct) message (?lines vs) w) = Inr sel" for vs again sel message w
  proof -
    from select [OF sel] lines that(1) have chosen: "set sel \<subseteq> input_line m ` set (mo_Variables m)" by simp
    note chosen = chosen_names [OF chosen names]
    have "set (nr_Inputs (?inject sel again)) =
        {input_of v |v. v \<in> set (mo_Variables m) \<and> input_line m v \<in> set sel \<and> suggestion (ct_sg ct) cmd v = None}"
      unfolding fold_inject_inputs that(2) fresh using chosen by (simp cong: conj_cong)
    moreover have "set (nr_ValueFrom (?inject sel again)) =
        {reference_of v i |v i. v \<in> set (mo_Variables m) \<and> input_line m v \<in> set sel \<and> suggestion (ct_sg ct) cmd v = Some i}"
      unfolding fold_inject_references that(2) fresh using chosen by (simp cong: conj_cong)
    moreover have "nr_Variables (?inject sel again) (tv_Name v) = (if input_line m v \<in> set sel then None else kept_default cmd v)"
      if "v \<in> set (mo_Variables m)" for v
      using fold_inject_variables [OF names(1), of again v] \<open>set again = _\<close> that chosen fresh by auto
    ultimately show ?thesis unfolding P_def using sel lines [OF that(1)] by blast
  qed
  have some: "filter is_required vs \<noteq> [] \<or> filter (\<lambda>x. \<not> is_required x) vs \<noteq> []" if "set vs = set (mo_Variables m)" for vs
    using that fresh(1) by (cases vs) auto
  have asked: "wp (request (h_MultiSelect (ct_host ct) message (?lines vs)))
      (\<lambda>r t. case of_sum r of
         Ok sel \<Rightarrow> wp (do { again \<leftarrow> range_variables ct m; succeed (?inject sel again) })
                     (\<lambda>r t. \<forall>cmd'. r = Ok cmd' \<longrightarrow> P cmd') t
       | Err e \<Rightarrow> \<forall>cmd'. Err e = Ok cmd' \<longrightarrow> P cmd'
       | Panic \<Rightarrow> \<forall>cmd'. Panic = Ok cmd' \<longrightarrow> P cmd') t"
    if "set vs = set (mo_Variables m)" for vs message and t :: "('w, 'o, action list) env"
    unfolding wp_request using injected [OF that]
    by (auto intro!: range_variables_all [OF range _ names(1)] split: go.split)
  have "wp (create_retrieveInputs ct m cmd) (\<lambda>r t. \<forall>cmd'. r = Ok cmd' \<longrightarrow> P cmd') s"
    unfolding create_retrieveInputs_def Let_def fresh
    using some asked
    by (auto simp: collect_lines intro!: range_variables_all [OF range _ names(1)])
  then show ?thesis unfolding P_def .
qed

section \<open>Cloud resources\<close>

lemma find_plan_revision_None:
  "find_plan_revision plan version xs = None \<longleftrightarrow>
     \<not> (\<exists>x \<in> set xs. revision_plan_name x = plan \<and> revision_version x = version)"
  by (induction xs) auto

text \<open>
  The version that is given for a new cloud resource is checked against the versions of all
  plans: when the plan exists and some plan has the version, the command panics exactly when the
  plan itself has no revision of that version.
\<close>

theorem cloudresource_revision_of_plan:
  assumes "fst (h_Client (tn_host tn) (world s)) = None"
    and "fst (cc_List (tn_cc tn) KRevision [] (snd (h_Client (tn_host tn) (world s)))) = Inr (map ORevision items)"
    and "nc_Revisions cmd = None" and "nc_Plan cmd \<noteq> []" and "nc_Revision cmd \<noteq> []"
    and "nc_Plan cmd \<in> revision_plan_name ` set items" and "nc_Revision cmd \<in> revision_version ` set items"
  shows "wp (NewCloudResource_Run tn sv cmd)
    (\<lambda>r t. r = Panic \<longleftrightarrow>
       \<not> (\<exists>x \<in> set items. revision_plan_name x = nc_Plan cmd \<and> revision_version x = nc_Revision cmd)) s"
proof -
  have decoded: "list_all (\<lambda>x. as_Revision x \<noteq> None) (map ORevision items)" "List.map_filter as_Revision (map ORevision items) = items"
    by (induction items) (simp_all add: List.map_filter_def)
  from assms have "items \<noteq> []" by auto
  then show ?thesis
    using assms decoded find_plan_revision_None [of "nc_Plan cmd" "nc_Revision cmd" items]
    by (auto simp: NewCloudResource_Run_def choose_plan_def load_revisions_def GetClient_def list_objects_def wp_request
        Let_def choose_revision_def write_cloudresource_def WriteYAML_def write_file_def of_error_def
        Unique_def unique_set split: option.split sum.split)
qed

section \<open>Instances\<close>

definition sample_creator :: "object list Creator" where
  "sample_creator =
     \<lparr>ct_tn = sample_tnctl, ct_ld = sample_loader, 
      ct_sg = \<lparr>sg_Tokenizer = plain_tokenizer, sg_Libs = sample_libs, sg_Keys = (\<lambda>_. []), sg_Range = (\<lambda>xs. xs)\<rparr>,
      ct_LoadModule = (\<lambda>_ w. (Inl not_found, w)),
      ct_RenderRevision = (\<lambda>_. Inr ''revision''), ct_EncodeConfiguration = (\<lambda>_. Inr ''configuration''),
      ct_Version = ''v0.1.0''\<rparr>"

definition sample_parse :: "string \<Rightarrow> gerror + Url" where
  "sample_parse s =
     Inr (if HasPrefix s ''https://github.com''
          then \<lparr>url_Scheme = ''https'', url_Host = ''github.com'', url_Hostname = ''github.com'', url_Path = drop 18 s\<rparr>
          else \<lparr>url_Scheme = [], url_Host = [], url_Hostname = [], url_Path = s\<rparr>)"

definition sample_repository :: Repository where
  "sample_repository =
     \<lparr>repo_ID = 1, repo_CreatedAt = 0, repo_Description = ''A bucket, encrypted'', repo_Name = ''terraform-aws-bucket'',
      repo_Owner = ''appvia'', repo_Private = False, repo_HTMLURL = ''https://github.com/appvia/terraform-aws-bucket'',
      repo_Stars = 3, repo_Topics = [''terraform'']\<rparr>"

definition sample_github :: "object list Github" where
  "sample_github =
     \<lparr>gh_ParseURL = sample_parse, gh_GetUser = (\<lambda>_ w. (Inr (200, ''Organization''), w)),
      gh_ListTags = (\<lambda>_ _ _ w. (Inr ([''v1.0.0''], 0), w)), gh_List = (\<lambda>_ _ w. (Inr ([], 0), w)),
      gh_ListByOrg = (\<lambda>_ page w. (Inr (if page = 0 then ([], 1) else ([sample_repository], 0)), w))\<rparr>"

definition sample_searcher :: "object list Searcher" where
  "sample_searcher =
     \<lparr>sx_ct = sample_creator, sx_rg = sample_registries 60 numbered_page, sx_gh = sample_github,
      sx_Choose = (\<lambda>_ w. (Chosen 0, w)), sx_Close = (\<lambda>_ w. (None, w))\<rparr>"

definition sample_search :: SearchCommand where
  "sample_search =
     \<lparr>sh_EnableDefaults = False, sh_Filename = [], sh_Provider = ''aws'', sh_Name = ''bucket'', sh_Source = [],
      sh_SourceNamespace = [], sh_Query = ''Bucket''\<rparr>"

lemma sample_match:
  "matches_query \<lparr>qy_Namespace = [], qy_Provider = ''aws'', qy_Query = ''Bucket''\<rparr> sample_repository"
  by code_simp

lemmas sample_searcher_defs = sample_searcher_def sample_creator_def sample_github_def sample_search_def

lemma sample_findModules:
  "wp (findModules sample_searcher 2 None sample_search [(source, GithubHandler c)])
    (\<lambda>r t. r = Ok [\<lparr>sp_Error = None, sp_Modules = [found_repository c sample_repository]\<rparr>]) (sample_env w () [])"
  by (simp add: findModules_def sample_searcher_defs wp_request sample_host_def sample_tnctl_def List.map_filter_def
      done_context_def handler_Find_def github_Find_def searchByOrganization_def numeral_2_eq_2 sample_match response_of_def)

theorem search_handler_found_witness:
  "makeSourceHandlers sample_searcher [] [] [] [''https://github.com/appvia''] =
     Inr [(''https://github.com/appvia'',
       GithubHandler \<lparr>ghc_endpoint = ''https://github.com/appvia'', ghc_namespace = ''appvia'', ghc_token = []\<rparr>)] \<and>
   wp (findModules sample_searcher 2 None sample_search
       [(''https://github.com/appvia'',
         GithubHandler \<lparr>ghc_endpoint = ''https://github.com/appvia'', ghc_namespace = ''appvia'', ghc_token = []\<rparr>)])
     (\<lambda>r t. \<exists>rs m h. r = Ok rs \<and> gather [] rs = Inr [m] \<and>
        map_of [(''https://github.com/appvia'',
          GithubHandler \<lparr>ghc_endpoint = ''https://github.com/appvia'', ghc_namespace = ''appvia'', ghc_token = []\<rparr>)]
          (md_Registry m) = Some h \<and> handler_Source h = md_Registry m) (sample_env [] () [])"
proof -
  let ?c = "\<lparr>ghc_endpoint = ''https://github.com/appvia'', ghc_namespace = ''appvia'', ghc_token = []\<rparr>"
  let ?handlers = "[(''https://github.com/appvia'', GithubHandler ?c)]"
  have made: "makeSourceHandlers sample_searcher [] [] [] [''https://github.com/appvia''] = Inr ?handlers"
    by (simp add: registry_IsHandle_def github_IsHandle_def HasPrefix_def sample_searcher_defs github_New_def
        sample_parse_def TrimPrefix_def)
  have schemes: "\<forall>src \<in> set [''https://github.com/appvia'']. \<forall>u. gh_ParseURL (sx_gh sample_searcher) src = Inr u \<longrightarrow> url_Scheme u \<noteq> []"
    by (simp add: sample_searcher_defs sample_parse_def HasPrefix_def)
  have "wp (findModules sample_searcher 2 None sample_search ?handlers)
     (\<lambda>r t. \<exists>rs m h. r = Ok rs \<and> gather [] rs = Inr [m] \<and>
        map_of ?handlers (md_Registry m) = Some h \<and> handler_Source h = md_Registry m) (sample_env [] () [])"
    by (rule wp_mono [OF wp_conj [OF sample_findModules search_handler_found [OF made schemes]]]) auto
  with made show ?thesis by blast
qed

theorem search_without_scheme_panics_witness:
  "wp (findModules sample_searcher 2 None sample_search
      [(''github.com/appvia'',
        GithubHandler \<lparr>ghc_endpoint = ''https://github.com/appvia'', ghc_namespace = ''github.com/appvia'', ghc_token = []\<rparr>)])
    (\<lambda>r t. \<exists>rs m. r = Ok rs \<and> gather [] rs = Inr [m] \<and>
       wp (provision sample_searcher sample_semver 2 sample_search None
           [(''github.com/appvia'',
             GithubHandler \<lparr>ghc_endpoint = ''https://github.com/appvia'', ghc_namespace = ''github.com/appvia'', ghc_token = []\<rparr>)] m)
         (\<lambda>res _. res = Some Panic) t) (sample_env [] () [])"
proof -
  let ?c = "\<lparr>ghc_endpoint = ''https://github.com/appvia'', ghc_namespace = ''github.com/appvia'', ghc_token = []\<rparr>"
  let ?handlers = "[(''github.com/appvia'', GithubHandler ?c)]"
  have made: "makeSourceHandlers sample_searcher [] [] [] [''github.com/appvia''] = Inr ?handlers"
    by (simp add: registry_IsHandle_def github_IsHandle_def HasPrefix_def sample_searcher_defs github_New_def
        sample_parse_def TrimPrefix_def)
  have prefix: "HasPrefix ''github.com/appvia'' ''github.com/''" by (simp add: HasPrefix_def)
  have parsed: "gh_ParseURL (sx_gh sample_searcher) ''github.com/appvia'' =
      Inr \<lparr>url_Scheme = [], url_Host = [], url_Hostname = [], url_Path = ''github.com/appvia''\<rparr>"
    by (simp add: sample_searcher_defs sample_parse_def HasPrefix_def)
  have named: "sh_Name sample_search \<noteq> []" by (simp add: sample_search_def)
  show ?thesis
    by (rule wp_mono [OF wp_conj [OF sample_findModules
          search_without_scheme_panics [OF prefix parsed _ _ named made, of 2 None sample_semver None]]]) auto
qed

definition sample_variable :: "string \<Rightarrow> json option \<Rightarrow> TfVariable" where
  "sample_variable name v =
     \<lparr>tv_Name = name, tv_Type = ''string'', tv_Description = ''the '' @ name, tv_Default = v, tv_Required = (v = None),
      tv_Sensitive = False\<rparr>"

definition sample_module :: TfModule where
  "sample_module =
     \<lparr>mo_Variables = [sample_variable ''name'' None, sample_variable ''region'' (Some (JStr ''eu-west-2''))], mo_Outputs = []\<rparr>"

definition sample_newrevision :: NewRevisionCommand where
  "sample_newrevision =
     \<lparr>nr_Name = ''bucket'', nr_Description = [], nr_EnableDefaultVariables = True, nr_Contexts = None, nr_Policies = None,
      nr_Plans = None, nr_Revisions = None, nr_Providers = None, nr_Inputs = [], nr_Variables = Map.empty,
      nr_ValueFrom = [], nr_Outputs = [], nr_Module = ''.'', nr_Revision = ''v0.0.1'', nr_File = ''revision.yaml'',
      nr_Provider = ''aws'', nr_DeleteDownload = True\<rparr>"

lemma sample_creator_host: "ct_host sample_creator = sample_host"
  by (simp add: sample_creator_def)

lemma sample_inputs:
  "wp (create_retrieveInputs sample_creator sample_module sample_newrevision) (\<lambda>r t. \<exists>cmd. r = Ok cmd) (sample_env [] () [])"
  by (simp add: create_retrieveInputs_def range_variables_def wp_request sample_creator_host sample_host_def Let_def
      collect_lines)

theorem revision_inputs_selected_witness:
  "wp (create_retrieveInputs sample_creator sample_module sample_newrevision)
    (\<lambda>r t. \<exists>cmd. r = Ok cmd \<and> set (nr_Inputs cmd) = input_of ` set (mo_Variables sample_module) \<and> nr_ValueFrom cmd = [] \<and>
       nr_Variables cmd ''region'' = None)
    (sample_env [] () [])"
proof -
  let ?vs = "set (mo_Variables sample_module)" and ?sg = "ct_sg sample_creator"
  have all: "fst (h_MultiSelect sample_host message options w) = Inr options" for message options w
    by (simp add: sample_host_def)
  have spaces: "\<forall>v \<in> ?vs. CHR '' '' \<notin> set (tv_Name v)" and names: "inj_on tv_Name ?vs"
    by (simp_all add: sample_module_def sample_variable_def)
  have none: "suggestion ?sg sample_newrevision v = None" for v
    by (simp add: suggestion_def SuggestContextualInput_def sample_newrevision_def)
  have "wp (create_retrieveInputs sample_creator sample_module sample_newrevision)
    (\<lambda>r t. \<forall>cmd'. r = Ok cmd' \<longrightarrow>
       (\<exists>message options w sel.
          fst (h_MultiSelect (ct_host sample_creator) message options w) = Inr sel \<and>
          set options = input_line sample_module ` ?vs \<and>
          set (nr_Inputs cmd') =
            {input_of v |v. v \<in> ?vs \<and> input_line sample_module v \<in> set sel \<and> suggestion ?sg sample_newrevision v = None} \<and>
          set (nr_ValueFrom cmd') =
            {reference_of v i |v i. v \<in> ?vs \<and> input_line sample_module v \<in> set sel \<and> suggestion ?sg sample_newrevision v = Some i} \<and>
          (\<forall>v \<in> ?vs. nr_Variables cmd' (tv_Name v) =
             (if input_line sample_module v \<in> set sel then None else kept_default sample_newrevision v))))
    (sample_env [] () [])"
    by (rule revision_inputs_selected)
      (auto simp: sample_creator_host all names spaces, simp_all add: sample_module_def sample_newrevision_def)
  from wp_conj [OF sample_inputs this] show ?thesis
    unfolding sample_creator_host all none
  proof (rule wp_mono, elim conjE exE)
    fix r cmd and t :: "(object list, unit, action list) env"
    assume selected: "\<forall>cmd'. r = Ok cmd' \<longrightarrow>
       (\<exists>message options w sel. Inr options = Inr sel \<and> set options = input_line sample_module ` ?vs \<and>
          set (nr_Inputs cmd') = {input_of v |v. v \<in> ?vs \<and> input_line sample_module v \<in> set sel \<and> None = None} \<and>
          set (nr_ValueFrom cmd') = {reference_of v i |v i. v \<in> ?vs \<and> input_line sample_module v \<in> set sel \<and> None = Some i} \<and>
          (\<forall>v \<in> ?vs. nr_Variables cmd' (tv_Name v) =
             (if input_line sample_module v \<in> set sel then None else kept_default sample_newrevision v)))"
      and ok: "r = Ok cmd"
    then obtain sel where sel: "set sel = input_line sample_module ` ?vs"
      and cmd: "set (nr_Inputs cmd) = {input_of v |v. v \<in> ?vs \<and> input_line sample_module v \<in> set sel}"
        "nr_ValueFrom cmd = []" "\<forall>v \<in> ?vs. input_line sample_module v \<in> set sel \<longrightarrow> nr_Variables cmd (tv_Name v) = None"
      by auto
    from cmd(3) have "\<forall>v \<in> ?vs. nr_Variables cmd (tv_Name v) = None" using sel by blast
    then have "nr_Variables cmd ''region'' = None" by (simp add: sample_module_def sample_variable_def)
    moreover from cmd(1) sel have "set (nr_Inputs cmd) = input_of ` ?vs" by auto
    ultimately show "\<exists>cmd. r = Ok cmd \<and> set (nr_Inputs cmd) = input_of ` ?vs \<and> nr_ValueFrom cmd = [] \<and>
        nr_Variables cmd ''region'' = None" using ok cmd(2) by blast
  qed
qed

definition other_revision :: Revision where
  "other_revision =
     (NewRevision ''queue-2'')\<lparr>rv_Spec := (rv_Spec (NewRevision []))
        \<lparr>rvs_Plan := \<lparr>rd_Name = ''queue'', rd_Description = ''a queue'', rd_Categories = [], rd_ChangeLog = [],
           rd_Revision = ''2''\<rparr>\<rparr>\<rparr>"

theorem cloudresource_revision_of_plan_witness:
  "wp (NewCloudResource_Run sample_tnctl sample_semver
      \<lparr>nc_Filename = [], nc_Plan = ''bucket'', nc_Revision = ''2'', nc_Revisions = None\<rparr>)
    (\<lambda>r t. r = Panic) (sample_env [ORevision verified_revision, ORevision other_revision] () [])"
  using cloudresource_revision_of_plan [of sample_tnctl "sample_env [ORevision verified_revision, ORevision other_revision] () []"
      "[verified_revision, other_revision]" "\<lparr>nc_Filename = [], nc_Plan = ''bucket'', nc_Revision = ''2'', nc_Revisions = None\<rparr>"
      sample_semver]
  by (simp add: sample_env_def sample_client_def revision_plan_name_def revision_version_def other_revision_def
      verified_revision_def)

end
