(* ===== verification/Tnctl_Other.thy ===== *)
theory Tnctl_Other
  imports Downloads Api_Cloud
begin

text \<open>
  The commands of \<open>tnctl\<close> that describe a resource (\<open>pkg/cmd/tnctl/describe\<close>), that hand over to
  \<open>kubectl\<close> (\<open>apply\<close>, \<open>delete\<close>, \<open>get\<close>), that install the plugins of \<open>kubectl\<close> and that show the
  configuration of the client, and the completions of the shell (\<open>pkg/cmd/helper.go\<close>).
\<close>

section \<open>Descriptions\<close>

record DescribeCommand =
  ds_Name :: string
  ds_Namespace :: string
  ds_ShowPassedChecks :: bool

text \<open>The values that the template of a description is rendered with.\<close>

record DescribeData =
  dd_EnablePassedPolicy :: bool
  dd_Name :: string
  dd_Namespace :: string
  dd_Object :: Configuration
  dd_Policy :: "(string \<rightharpoonup> json) option"
  dd_Cost :: "json option"

fun findSecret :: "Libs \<Rightarrow> string \<Rightarrow> string \<Rightarrow> Secret list \<Rightarrow> (string \<rightharpoonup> json) option" where
  "findSecret lib name key [] = None"
| "findSecret lib name key (secret # secrets) =
     (if om_Name (sec_Meta secret) \<noteq> name then findSecret lib name key secrets
      else case gomap_find (sec_Data secret) key of
             None \<Rightarrow> findSecret lib name key secrets
           | Some raw \<Rightarrow>
               (case lib_JSONObject lib raw of
                  Inr values \<Rightarrow> Some values
                | Inl _ \<Rightarrow> findSecret lib name key secrets))"

definition findPolicyReport :: "Libs \<Rightarrow> Secret list \<Rightarrow> string \<Rightarrow> (string \<rightharpoonup> json) option" where
  "findPolicyReport lib secrets uid = findSecret lib (Sprintf ''policy-%v'' [FStr uid]) ''results_json.json'' secrets"

definition findCostReport :: "Libs \<Rightarrow> Secret list \<Rightarrow> string \<Rightarrow> (string \<rightharpoonup> json) option" where
  "findCostReport lib secrets uid = findSecret lib (Sprintf ''costs-%v'' [FStr uid]) ''costs.json'' secrets"

text \<open>
  The first project of a cost report. The type assertion panics when the report has no list of
  projects, and the index when the list is empty.
\<close>

definition cost_project :: "(string \<rightharpoonup> json) \<Rightarrow> json go" where
  "cost_project report =
     (case report ''projects'' of
        Some (JArr (project # _)) \<Rightarrow> Ok project
      | _ \<Rightarrow> Panic)"

definition describe_labels :: "Configuration \<Rightarrow> (string \<times> string) list" where
  "describe_labels configuration =
     [(ConfigurationNameLabel, om_Name (cfg_Meta configuration)),
      (ConfigurationUIDLabel, om_UID (cfg_Meta configuration))]"

definition without_last_applied :: "Configuration \<Rightarrow> Configuration" where
  "without_last_applied configuration =
     configuration\<lparr>cfg_Meta := (cfg_Meta configuration)\<lparr>om_Annotations :=
       gomap_delete (om_Annotations (cfg_Meta configuration)) ''kubectl.kubernetes.io/last-applied-configuration''\<rparr>\<rparr>"

definition describe_data ::
  "Libs \<Rightarrow> DescribeCommand \<Rightarrow> Configuration \<Rightarrow> Secret list \<Rightarrow> DescribeData go" where
  "describe_data lib cmd configuration secrets =
     (let uid = om_UID (cfg_Meta configuration);
          data = \<lparr>dd_EnablePassedPolicy = ds_ShowPassedChecks cmd, dd_Name = om_Name (cfg_Meta configuration),
                  dd_Namespace = om_Namespace (cfg_Meta configuration), dd_Object = without_last_applied configuration,
                  dd_Policy = findPolicyReport lib secrets uid, dd_Cost = None\<rparr> in
      case findCostReport lib secrets uid of
        None \<Rightarrow> Ok data
      | Some report \<Rightarrow>
          (case cost_project report of
             Ok project \<Rightarrow> Ok (data\<lparr>dd_Cost := Some project\<rparr>)
           | Err e \<Rightarrow> Err e
           | Panic \<Rightarrow> Panic))"

definition describe_Run ::
  "'w Tnctl \<Rightarrow> (DescribeData \<Rightarrow> gerror + bytes) \<Rightarrow> DescribeCommand \<Rightarrow> ('w, 'o, unit go) tool" where
  "describe_Run tn render cmd =
     (if ds_Namespace cmd = [] then fail ''namespace is required'' []
      else if ds_Name cmd = [] then fail ''name is required'' []
      else attempt (GetClient tn) (\<lambda>_.
        attempt (or_error (GetIfExists (tn_cc tn) KConfiguration as_Configuration (ds_Namespace cmd) (ds_Name cmd))) (\<lambda>found.
          case found of
            None \<Rightarrow> fail ''noo configurations found in namespace %q'' [FStr (ds_Namespace cmd)]
          | Some configuration \<Rightarrow>
              attempt (or_error (list_objects (tn_cc tn) KSecret as_Secret
                  [InNamespace (ds_Namespace cmd), MatchingLabels (describe_labels configuration)])) (\<lambda>secrets.
                attempt (State_Monad.return (describe_data (tn_Libs tn) cmd configuration secrets)) (\<lambda>data.
                  attempt (State_Monad.return (of_sum (render data))) (\<lambda>x.
                    do { Println ''%s'' [FStr x]; succeed () }))))))"

definition cloud_describe_Run ::
  "'w Tnctl \<Rightarrow> (DescribeData \<Rightarrow> gerror + bytes) \<Rightarrow> DescribeCommand \<Rightarrow> ('w, 'o, unit go) tool" where
  "cloud_describe_Run tn render cmd =
     attempt (GetClient tn) (\<lambda>_.
       attempt (or_error (GetIfExists (tn_cc tn) KCloudResource as_CloudResource (ds_Namespace cmd) (ds_Name cmd))) (\<lambda>found.
         case found of
           None \<Rightarrow> fail ''the cloud resource does not exist'' []
         | Some x \<Rightarrow>
             if crst_ConfigurationName (cr_Status x) = []
             then fail (''cloudresource hasn'' @ [CHR 0x27] @ ''t provisioned the configuration yet'') []
             else describe_Run tn render (cmd\<lparr>ds_Name := crst_ConfigurationName (cr_Status x)\<rparr>)))"

section \<open>Commands of kubectl\<close>

definition file_options :: "string list \<Rightarrow> string list" where
  "file_options files = concat (map (\<lambda>f. [''-f'', f]) files)"

definition apply_options :: "string list \<Rightarrow> bool \<Rightarrow> string \<Rightarrow> string \<Rightarrow> string list" where
  "apply_options files force namespace dryrun =
     [''apply''] @ file_options files @
     (if force then [''--force''] else []) @
     (if namespace \<noteq> [] then [Sprintf ''--namespace=%s'' [FStr namespace]] else []) @
     (if dryrun \<noteq> [] then [''--dry-run '' @ dryrun] else [])"

definition delete_options :: "string list \<Rightarrow> string \<Rightarrow> bool \<Rightarrow> bool \<Rightarrow> string list \<Rightarrow> string list" where
  "delete_options files namespace force wait args =
     [''delete''] @ file_options files @
     (if namespace \<noteq> [] then [Sprintf ''--namespace=%s'' [FStr namespace]] else []) @
     (if force then [''--force''] else []) @
     (if wait then [''--wait''] else []) @ args"

definition get_options :: "string \<Rightarrow> string \<Rightarrow> string list \<Rightarrow> string \<Rightarrow> bool \<Rightarrow> string list" where
  "get_options resource_name namespace args format all_namespaces =
     [''get'', resource_name] @
     (if namespace \<noteq> [] then [''--namespace'', namespace] else []) @ args @
     (if format \<noteq> [] then [''--output'', format] else []) @
     (if all_namespaces then [''--all-namespaces''] else [])"

definition kubectl :: "'w Tnctl \<Rightarrow> string list \<Rightarrow> ('w, 'o, unit go) tool" where
  "kubectl tn options = run_process (tn_host tn) (''kubectl'' # options)"

section \<open>Plugins\<close>

definition plugin_commands :: "string list" where
  "plugin_commands = [''approve'', ''config'', ''describe'', ''logs'', ''search'']"

definition pluginTemplate :: "string \<Rightarrow> bytes" where
  "pluginTemplate command =
     ''#!/bin/env sh'' @ [char_of (10 :: nat), char_of (10 :: nat)] @ ''tnctl '' @ command @ '' $@'' @ [char_of (10 :: nat)]"

fun write_plugins :: "'w Tnctl \<Rightarrow> string \<Rightarrow> string list \<Rightarrow> ('w, 'o, unit go) tool" where
  "write_plugins tn directory [] = succeed ()"
| "write_plugins tn directory (name # names) =
     attempt (no_error (write_file (tn_host tn)
         (JoinPath directory (Sprintf ''kubectl-tnctl-%s'' [FStr name])) (pluginTemplate name)))
       (\<lambda>_. write_plugins tn directory names)"

definition Plugin_Run :: "'w Tnctl \<Rightarrow> string \<Rightarrow> ('w, 'o, unit go) tool" where
  "Plugin_Run tn directory =
     (if directory = [] then fail ''no directory specified for kubectl plugins'' []
      else attempt (no_error (request (tn_MkdirAll tn directory)))
             (\<lambda>_. write_plugins tn directory plugin_commands))"

section \<open>The configuration of the client\<close>

definition View_Run :: "'w Tnctl \<Rightarrow> ('w, 'o, unit go) tool" where
  "View_Run tn =
     attempt (GetConfig tn) (\<lambda>(config, found).
       if \<not> found then do { Println ''No configuration found'' []; succeed () }
       else attempt (State_Monad.return (of_sum (tn_EncodeConfig tn config)))
              (\<lambda>encoded. do { Println ''%s'' [FStr encoded]; succeed () }))"

section \<open>Completions\<close>

text \<open>The names offered for an argument; none when the cluster cannot be asked.\<close>

definition offer_names ::
  "'w Tnctl \<Rightarrow> kind \<Rightarrow> (object \<Rightarrow> 'a option) \<Rightarrow> ('a \<Rightarrow> ObjectMeta) \<Rightarrow> list_option list \<Rightarrow> ('w, 'o, string list) tool" where
  "offer_names tn k sel meta opts =
     do { r \<leftarrow> attempt (GetClient tn) (\<lambda>_. or_error (list_objects (tn_cc tn) k sel opts));
          State_Monad.return (case r of Ok items \<Rightarrow> map (\<lambda>x. om_Name (meta x)) items | _ \<Rightarrow> []) }"

definition AutoCompleteCloudResources :: "'w Tnctl \<Rightarrow> string \<Rightarrow> ('w, 'o, string list) tool" where
  "AutoCompleteCloudResources tn namespace =
     (if namespace = [] then State_Monad.return []
      else offer_names tn KCloudResource as_CloudResource cr_Meta [InNamespace namespace])"

definition AutoCompleteConfigurations :: "'w Tnctl \<Rightarrow> string \<Rightarrow> ('w, 'o, string list) tool" where
  "AutoCompleteConfigurations tn namespace =
     (if namespace = [] then State_Monad.return []
      else offer_names tn KConfiguration as_Configuration cfg_Meta [InNamespace namespace])"

definition AutoCompletionAvailableProviders :: "'w Tnctl \<Rightarrow> ('w, 'o, string list) tool" where
  "AutoCompletionAvailableProviders tn =
     do { r \<leftarrow> ListAvailableProviders tn;
          State_Monad.return (case r of Ok list \<Rightarrow> list | _ \<Rightarrow> []) }"

definition AutoCompletionStages :: "string list" where
  "AutoCompletionStages = [StageTerraformApply, StageTerraformDestroy, StageTerraformPlan]"

definition AutoCompleteNamespaces :: "'w Tnctl \<Rightarrow> ('w, 'o, string list) tool" where
  "AutoCompleteNamespaces tn = offer_names tn KNamespace as_Namespace ns_Meta []"

end
