(* ===== verification/Server.thy ===== *)
theory Server
  imports Cli Config_Prepare Drift Expiry Providers Plan_Revision Cloudresources
begin

text \<open>
  The start of the controller (\<open>pkg/server\<close>): the settings (\<open>types.go\<close>) and how they reach the
  controllers, the registration of the resource definitions (\<open>pkg/utils/kubernetes/crds.go\<close>), the
  method \<open>Add\<close> of every controller, and the webhooks (\<open>webhooks.go\<close>).
\<close>

section \<open>Settings\<close>

record ServerConfig =
  sf_APIServerPort :: int
  sf_BackendTemplate :: string
  sf_BackoffLimit :: int
  sf_BinaryPath :: string
  sf_ConfigurationThreshold :: rat
  sf_DriftControllerInterval :: time
  sf_DriftInterval :: time
  sf_DriftThreshold :: rat
  sf_EnableContextInjection :: bool
  sf_EnableRevisionUpdateProtection :: bool
  sf_EnableNamespaceProtection :: bool
  sf_EnableWebhooks :: bool
  sf_EnableWebhooksRegistration :: bool
  sf_EnableWatchers :: bool
  sf_EnableTerraformVersions :: bool
  sf_EnableWebhookPrefix :: bool
  sf_ExecutorImage :: string
  sf_ExecutorMemoryRequest :: string
  sf_ExecutorMemoryLimit :: string
  sf_ExecutorCPURequest :: string
  sf_ExecutorCPULimit :: string
  sf_ExecutorSecrets :: "string list"
  sf_InfracostsSecretName :: string
  sf_InfracostsImage :: string
  sf_JobLabels :: "string list"
  sf_JobTemplate :: string
  sf_MetricsPort :: int
  sf_Namespace :: string
  sf_NamespaceFilters :: "string list"
  sf_PolicyImage :: string
  sf_PreloadImage :: string
  sf_RegisterCRDs :: bool
  sf_ResyncPeriod :: time
  sf_RevisionExpiration :: time
  sf_TerraformImage :: string
  sf_TLSDir :: string
  sf_TLSAuthority :: string
  sf_TLSCert :: string
  sf_TLSKey :: string
  sf_WebhookPort :: int

text \<open>The controllers that \<open>New\<close> builds from the settings; a field it leaves out has the zero value.\<close>

definition configuration_controller ::
  "'w client \<Rightarrow> Libs \<Rightarrow> Renderers \<Rightarrow> bool \<Rightarrow> ServerConfig \<Rightarrow> string gomap \<Rightarrow> 'w Controller" where
  "configuration_controller cc lib rn monthly config jobLabels =
     \<lparr>ctl_cc = cc, ctl_lib = lib, ctl_rn = rn, ctl_MonthlyFirst = monthly,
      ctl_ConfigurationThreshold = 0,
      ctl_ControllerNamespace = sf_Namespace config,
      ctl_BackendTemplate = sf_BackendTemplate config,
      ctl_BackoffLimit = sf_BackoffLimit config,
      ctl_BinaryPath = sf_BinaryPath config,
      ctl_EnableContextInjection = False,
      ctl_EnableInfracosts = (sf_InfracostsSecretName config \<noteq> []),
      ctl_EnableWatchers = sf_EnableWatchers config,
      ctl_ExecutorImage = sf_ExecutorImage config,
      ctl_ExecutorSecrets = sf_ExecutorSecrets config,
      ctl_DefaultExecutorMemoryRequest = sf_ExecutorMemoryRequest config,
      ctl_DefaultExecutorMemoryLimit = sf_ExecutorMemoryLimit config,
      ctl_DefaultExecutorCPURequest = sf_ExecutorCPURequest config,
      ctl_DefaultExecutorCPULimit = sf_ExecutorCPULimit config,
      ctl_InfracostsImage = sf_InfracostsImage config,
      ctl_InfracostsSecretName = sf_InfracostsSecretName config,
      ctl_ControllerJobLabels = jobLabels,
      ctl_JobTemplate = sf_JobTemplate config,
      ctl_PolicyImage = sf_PolicyImage config,
      ctl_TerraformImage = sf_TerraformImage config\<rparr>"

definition drift_controller :: "'w client \<Rightarrow> ServerConfig \<Rightarrow> 'w DriftController" where
  "drift_controller cc config =
     \<lparr>dc_cc = cc, dc_CheckInterval = sf_DriftControllerInterval config,
      dc_DriftInterval = sf_DriftInterval config, dc_DriftThreshold = sf_DriftThreshold config\<rparr>"

section \<open>The environment\<close>

record CRD =
  crd_Name :: string
  crd_Generation :: int
  crd_ResourceVersion :: string
  crd_Conditions :: "(string \<times> string) list"

datatype webhook_kind = ValidatingWebhook | MutatingWebhook | NoWebhook string

record WebhookService =
  ws_Namespace :: string
  ws_Name :: string
  ws_Path :: string
  ws_Port :: int

record Webhook =
  wb_Name :: string
  wb_CABundle :: bytes
  wb_Service :: "WebhookService option"
  wb_Operations :: "string list"
  wb_Resources :: "string list"

record WebhookConfiguration =
  wc_Kind :: webhook_kind
  wc_Name :: string
  wc_ResourceVersion :: string
  wc_Webhooks :: "Webhook list"

text \<open>The options of the manager of the controllers and of its server of webhooks.\<close>

record WebhookServer =
  wo_CertDir :: string
  wo_CertName :: string
  wo_KeyName :: string
  wo_Port :: int

record ManagerOptions =
  mg_SyncPeriod :: time
  mg_LeaderElection :: bool
  mg_LeaderElectionID :: string
  mg_LeaderElectionNamespace :: string
  mg_LeaderElectionReleaseOnCancel :: bool
  mg_MetricsBindAddress :: string
  mg_WebhookServer :: "WebhookServer option"

text \<open>
  The Kubernetes libraries and the machine: building clients and the manager, the assets compiled
  into the binary (\<open>register\<close>, generated), the definitions of resources and the webhooks of the
  cluster, the informer of the namespaces, quantities, and starting a controller
  (\<open>ctrl.NewControllerManagedBy(mgr)...Complete(c)\<close>). \<open>su_Pause\<close> waits for a duration.
\<close>

record 'w Startup =
  su_NewForConfig :: "'w \<Rightarrow> gerror option \<times> 'w"
  su_NewExtensions :: "'w \<Rightarrow> gerror option \<times> 'w"
  su_NewClient :: "'w \<Rightarrow> gerror option \<times> 'w"
  su_NewManager :: "ManagerOptions \<Rightarrow> 'w \<Rightarrow> gerror option \<times> 'w"
  su_Listen :: "int \<Rightarrow> 'w \<Rightarrow> gerror option \<times> 'w"
  su_AddEventHandler :: "'w \<Rightarrow> gerror option \<times> 'w"
  su_WaitForCacheSync :: "'w \<Rightarrow> bool \<times> 'w"
  su_Complete :: "string \<Rightarrow> 'w \<Rightarrow> gerror option \<times> 'w"
  su_Assets :: "(string \<times> bytes) list"
  su_WebhookManifests :: bytes
  su_DecodeCRD :: "bytes \<Rightarrow> gerror + CRD"
  su_GetCRD :: "string \<Rightarrow> 'w \<Rightarrow> (gerror + CRD) \<times> 'w"
  su_CreateCRD :: "CRD \<Rightarrow> 'w \<Rightarrow> gerror option \<times> 'w"
  su_UpdateCRD :: "CRD \<Rightarrow> 'w \<Rightarrow> gerror option \<times> 'w"
  su_DecodeWebhook :: "bytes \<Rightarrow> gerror + WebhookConfiguration"
  su_GetWebhook :: "webhook_kind \<Rightarrow> string \<Rightarrow> 'w \<Rightarrow> (gerror + WebhookConfiguration) \<times> 'w"
  su_CreateWebhook :: "WebhookConfiguration \<Rightarrow> 'w \<Rightarrow> gerror option \<times> 'w"
  su_UpdateWebhook :: "WebhookConfiguration \<Rightarrow> 'w \<Rightarrow> gerror option \<times> 'w"
  su_DeleteWebhook :: "WebhookConfiguration \<Rightarrow> 'w \<Rightarrow> gerror option \<times> 'w"
  su_ParseQuantity :: "string \<Rightarrow> gerror option"
  su_ReadFile :: "string \<Rightarrow> 'w \<Rightarrow> (gerror + bytes) \<times> 'w"
  su_Getenv :: "string \<Rightarrow> 'w \<Rightarrow> string"
  su_Now :: "'w \<Rightarrow> time"
  su_Pause :: "time \<Rightarrow> 'w \<Rightarrow> unit \<times> 'w"

text \<open>What the start has done so far, in order.\<close>

datatype startup =
    DefinitionApplied string
  | PathRegistered string
  | ControllerStarted string
  | WebhookApplied WebhookConfiguration
  | WebhookDeleted WebhookConfiguration

type_synonym ('w, 'a) start = "('w, unit, startup list, 'a) prog"

definition note_start :: "startup \<Rightarrow> ('w, unit) start" where
  "note_start x = modify_state (\<lambda>log. log @ [x])"

section \<open>Definitions of resources\<close>

definition write_crd :: "'w Startup \<Rightarrow> CRD \<Rightarrow> ('w, unit go) start" where
  "write_crd su crd =
     do { r \<leftarrow> request (su_GetCRD su (crd_Name crd));
          case r of
            Inl err \<Rightarrow>
              if \<not> IsNotFound err then State_Monad.return (Err err)
              else no_error (request (su_CreateCRD su crd))
          | Inr current \<Rightarrow>
              no_error (request (su_UpdateCRD su
                (crd\<lparr>crd_Generation := crd_Generation current, crd_ResourceVersion := crd_ResourceVersion current\<rparr>))) }"

text \<open>Whether a definition was accepted: at least two conditions, all of them true.\<close>

definition crd_accepted :: "CRD \<Rightarrow> bool" where
  "crd_accepted crd \<longleftrightarrow> \<not> length (crd_Conditions crd) < 2 \<and> (\<forall>x \<in> set (crd_Conditions crd). fst x = ''True'')"

text \<open>
  The goroutine asks again until the definition is accepted, and then waits a tenth of a second;
  the caller gives up ten seconds after the start. \<open>None\<close> while it still asks.
\<close>

definition crd_timeout :: "unit go option" where
  "crd_timeout = Some (Err (ErrMsg ''failed to register the crd''))"

fun poll_crd :: "'w Startup \<Rightarrow> time \<Rightarrow> string \<Rightarrow> nat \<Rightarrow> ('w, unit go option) start" where
  "poll_crd su deadline name 0 = State_Monad.return None"
| "poll_crd su deadline name (Suc fuel) =
     do { w \<leftarrow> gets world;
          if deadline \<le> su_Now su w then State_Monad.return crd_timeout
          else do { r \<leftarrow> request (su_GetCRD su name);
                    case r of
                      Inl _ \<Rightarrow> poll_crd su deadline name fuel
                    | Inr obj \<Rightarrow>
                        if \<not> crd_accepted obj then poll_crd su deadline name fuel
                        else do { request (su_Pause su (100 * millisecond));
                                  w \<leftarrow> gets world;
                                  if deadline \<le> su_Now su w then State_Monad.return crd_timeout
                                  else State_Monad.return (Some (Ok ())) } } }"

definition CheckCustomResourceDefinition :: "'w Startup \<Rightarrow> nat \<Rightarrow> CRD \<Rightarrow> ('w, unit go option) start" where
  "CheckCustomResourceDefinition su fuel crd =
     do { w \<leftarrow> gets world; poll_crd su (su_Now su w + 10 * second) (crd_Name crd) fuel }"

text \<open>A step that may still wait: the start goes on only after an outcome without an error.\<close>

definition then_start ::
  "('w, 'a go option) start \<Rightarrow> ('a \<Rightarrow> ('w, 'b go option) start) \<Rightarrow> ('w, 'b go option) start" where
  "then_start m f =
     do { r \<leftarrow> m;
          case r of
            None \<Rightarrow> State_Monad.return None
          | Some (Ok x) \<Rightarrow> f x
          | Some (Err e) \<Rightarrow> State_Monad.return (Some (Err e))
          | Some Panic \<Rightarrow> State_Monad.return (Some Panic) }"

definition at_once :: "('w, 'a go) start \<Rightarrow> ('w, 'a go option) start" where
  "at_once m = do { r \<leftarrow> m; State_Monad.return (Some r) }"

definition ApplyCustomResourceDefinition :: "'w Startup \<Rightarrow> nat \<Rightarrow> CRD \<Rightarrow> ('w, unit go option) start" where
  "ApplyCustomResourceDefinition su fuel crd =
     then_start (at_once (write_crd su crd)) (\<lambda>_.
       do { note_start (DefinitionApplied (crd_Name crd)); CheckCustomResourceDefinition su fuel crd })"

fun ApplyCustomResourceDefinitions :: "'w Startup \<Rightarrow> nat \<Rightarrow> CRD list \<Rightarrow> ('w, unit go option) start" where
  "ApplyCustomResourceDefinitions su fuel [] = at_once (succeed ())"
| "ApplyCustomResourceDefinitions su fuel (crd # crds) =
     then_start (ApplyCustomResourceDefinition su fuel crd) (\<lambda>_. ApplyCustomResourceDefinitions su fuel crds)"

fun decode_crds :: "'w Startup \<Rightarrow> CRD list \<Rightarrow> bytes list \<Rightarrow> gerror + CRD list" where
  "decode_crds su crds [] = Inr crds"
| "decode_crds su crds (document # documents) =
     (if document = [] then decode_crds su crds documents
      else case su_DecodeCRD su document of
             Inl err \<Rightarrow> Inl err
           | Inr crd \<Rightarrow> decode_crds su (crds @ [crd]) documents)"

definition ApplyCustomResourceRawDefinitions :: "'w Startup \<Rightarrow> nat \<Rightarrow> bytes \<Rightarrow> ('w, unit go option) start" where
  "ApplyCustomResourceRawDefinitions su fuel raw =
     then_start (State_Monad.return (Some (of_sum (decode_crds su [] (split_documents True [] raw)))))
       (\<lambda>crds. ApplyCustomResourceDefinitions su fuel crds)"

fun register_crds :: "'w Startup \<Rightarrow> nat \<Rightarrow> (string \<times> bytes) list \<Rightarrow> ('w, unit go option) start" where
  "register_crds su fuel [] = at_once (succeed ())"
| "register_crds su fuel ((path, raw) # assets) =
     (if \<not> HasPrefix path ''charts/terranetes-controller/crds/'' then register_crds su fuel assets
      else then_start (at_once (no_error (request (su_NewExtensions su)))) (\<lambda>_.
        then_start (ApplyCustomResourceRawDefinitions su fuel raw) (\<lambda>_. register_crds su fuel assets)))"

section \<open>Adding the controllers\<close>

definition validate_path :: "string \<Rightarrow> string" where
  "validate_path resources = Sprintf ''/validate/%s/%s'' [FStr GroupName, FStr resources]"

definition mutate_path :: "string \<Rightarrow> string" where
  "mutate_path resources = Sprintf ''/mutate/%s/%s'' [FStr GroupName, FStr resources]"

fun register_paths :: "bool \<Rightarrow> string list \<Rightarrow> ('w, unit) start" where
  "register_paths enabled [] = State_Monad.return ()"
| "register_paths enabled (path # paths) =
     (if enabled then do { note_start (PathRegistered path); register_paths enabled paths }
      else State_Monad.return ())"

definition complete :: "'w Startup \<Rightarrow> string \<Rightarrow> ('w, unit go) start" where
  "complete su name =
     attempt (no_error (request (su_Complete su name))) (\<lambda>_.
       do { note_start (ControllerStarted name); succeed () })"

definition context_Add :: "ServerConfig \<Rightarrow> ('w, unit go) start" where
  "context_Add config =
     do { register_paths (sf_EnableWebhooks config) [validate_path ''contexts'']; succeed () }"

definition policy_Add :: "ServerConfig \<Rightarrow> ('w, unit go) start" where
  "policy_Add config =
     do { register_paths (sf_EnableWebhooks config) [validate_path ''policies'']; succeed () }"

definition namespace_Add :: "ServerConfig \<Rightarrow> ('w, unit go) start" where
  "namespace_Add config =
     do { register_paths (sf_EnableWebhooks config) [validate_path ''namespaces'']; succeed () }"

fun quantities_valid :: "'w Startup \<Rightarrow> string list \<Rightarrow> gerror option" where
  "quantities_valid su [] = None"
| "quantities_valid su (q # qs) =
     (if q = [] then quantities_valid su qs
      else case su_ParseQuantity su q of
             Some err \<Rightarrow> Some (ErrMsg (Sprintf ''invalid resource quantity: %q, error: %w'' [FStr q, FStr (Error err)]))
           | None \<Rightarrow> quantities_valid su qs)"

definition configuration_Add_valid :: "'w Startup \<Rightarrow> 'w Controller \<Rightarrow> gerror option" where
  "configuration_Add_valid su c =
     (case quantities_valid su [ctl_DefaultExecutorCPULimit c, ctl_DefaultExecutorCPURequest c,
             ctl_DefaultExecutorMemoryLimit c, ctl_DefaultExecutorMemoryRequest c] of
        Some err \<Rightarrow> Some err
      | None \<Rightarrow>
          if ctl_ControllerNamespace c = [] then Some (ErrMsg ''job namespace is required'')
          else if ctl_TerraformImage c = [] then Some (ErrMsg ''terraform image is required'')
          else if ctl_PolicyImage c = [] then Some (ErrMsg ''policy image is required'')
          else if ctl_EnableInfracosts c \<and> ctl_InfracostsImage c = [] then Some (ErrMsg ''infracost image is required'')
          else if ctl_EnableInfracosts c \<and> ctl_InfracostsSecretName c = [] then Some (ErrMsg ''infracost secret is required'')
          else None)"

text \<open>The cache of namespaces follows the events of the informer.\<close>

datatype namespace_event = NamespaceStored Namespace | NamespaceDeleted Namespace

definition cache_namespace :: "namespace_event \<Rightarrow> (string \<rightharpoonup> Namespace) \<Rightarrow> (string \<rightharpoonup> Namespace)" where
  "cache_namespace e cache =
     (case e of
        NamespaceStored x \<Rightarrow> cache(om_Name (ns_Meta x) \<mapsto> x)
      | NamespaceDeleted x \<Rightarrow> cache(om_Name (ns_Meta x) := None))"

definition createNamespaceWatch :: "'w Startup \<Rightarrow> ('w, unit go) start" where
  "createNamespaceWatch su =
     attempt (no_error (request (su_AddEventHandler su))) (\<lambda>_.
       do { synced \<leftarrow> request (su_WaitForCacheSync su);
            if \<not> synced then fail ''failed to sync the namespace informer'' [] else succeed () })"

definition configuration_Add :: "'w Startup \<Rightarrow> bool \<Rightarrow> 'w Controller \<Rightarrow> ('w, unit go) start" where
  "configuration_Add su webhooks c =
     attempt (State_Monad.return (of_error (configuration_Add_valid su c))) (\<lambda>_.
       attempt (no_error (request (su_NewForConfig su))) (\<lambda>_.
         attempt (createNamespaceWatch su) (\<lambda>_.
           do { register_paths webhooks [validate_path ''configurations'', mutate_path ''configurations''];
                complete su controllerName })))"

text \<open>The request that a created or changed job makes of the configuration controller, if it is in its namespace; a deleted job makes none.\<close>

definition configuration_job_requests :: "'w Controller \<Rightarrow> Job \<Rightarrow> (string \<times> string) list" where
  "configuration_job_requests c job =
     (if om_Namespace (job_Meta job) = ctl_ControllerNamespace c
      then [(om_Namespace (job_Meta job), gomap_get (om_Labels (job_Meta job)) ''job-name'')] else [])"

definition drift_Add :: "'w Startup \<Rightarrow> 'w DriftController \<Rightarrow> ('w, unit go) start" where
  "drift_Add su c =
     attempt (State_Monad.return (of_error (drift_Add_valid c))) (\<lambda>_. complete su ''drift.terraform.appvia.io'')"

definition provider_Add :: "'w Startup \<Rightarrow> ServerConfig \<Rightarrow> ('w, unit go) start" where
  "provider_Add su config =
     do { register_paths (sf_EnableWebhooks config) [validate_path ''providers''];
          complete su ''provider.terraform.appvia.io'' }"

definition plan_Add :: "'w Startup \<Rightarrow> ('w, unit go) start" where
  "plan_Add su = complete su plan_controllerName"

definition revision_Add :: "'w Startup \<Rightarrow> ServerConfig \<Rightarrow> ('w, unit go) start" where
  "revision_Add su config =
     do { register_paths (sf_EnableWebhooks config) [mutate_path ''revisions'', validate_path ''revisions''];
          complete su revision_controllerName }"

definition cloudresource_Add :: "'w Startup \<Rightarrow> ServerConfig \<Rightarrow> ('w, unit go) start" where
  "cloudresource_Add su config =
     do { register_paths (sf_EnableWebhooks config) [validate_path ''cloudresources'', mutate_path ''cloudresources''];
          complete su cloudresource_controllerName }"

definition preload_Add :: "'w Startup \<Rightarrow> ServerConfig \<Rightarrow> ('w, unit go) start" where
  "preload_Add su config =
     (if sf_Namespace config = [] then fail ''controller namespace is required'' []
      else if sf_PreloadImage config = [] then fail ''container image is required'' []
      else complete su ''preload.terraform.appvia.io'')"

definition expire_Add :: "'w Startup \<Rightarrow> ServerConfig \<Rightarrow> ('w, unit go) start" where
  "expire_Add su config =
     (if sf_RevisionExpiration config = 0 then succeed () else complete su ''expire.terraform.appvia.io'')"

section \<open>The server\<close>

definition parse_job_labels :: "string list \<Rightarrow> (string gomap) go" where
  "parse_job_labels labels =
     (if length labels > 0
      then (case ToMap labels of
              Inl err \<Rightarrow> Err (ErrMsg (Sprintf ''failed to parse the job labels: %w'' [FStr (Error err)]))
            | Inr m \<Rightarrow> Ok (Some m))
      else Ok (Some Map.empty))"

definition added :: "string \<Rightarrow> ('w, unit go) start \<Rightarrow> ('w, unit go) start" where
  "added what m = wrap_error (''failed to '' @ what @ '': %w'') m"

text \<open>The controllers in the order in which they are added; each needs the ones before it.\<close>

definition add_controllers :: "'w Startup \<Rightarrow> 'w Controller \<Rightarrow> 'w DriftController \<Rightarrow> ServerConfig \<Rightarrow> ('w, unit go) start" where
  "add_controllers su c d config =
     attempt (added ''create the configuration controller, error'' (configuration_Add su (sf_EnableWebhooks config) c)) (\<lambda>_.
       attempt (added ''create the drift controller, error'' (drift_Add su d)) (\<lambda>_.
         attempt (added ''create the provider controller, error'' (provider_Add su config)) (\<lambda>_.
           attempt (added ''create the policy controller, error'' (policy_Add config)) (\<lambda>_.
             attempt (added ''create the namespace controller, error'' (namespace_Add config)) (\<lambda>_.
               attempt (added ''create the plan controller, error'' (plan_Add su)) (\<lambda>_.
                 attempt (added ''create the revision controller, error'' (revision_Add su config)) (\<lambda>_.
                   attempt (added ''create the cloudresource controller, error'' (cloudresource_Add su config)) (\<lambda>_.
                     attempt (added ''create the preload controller, error'' (preload_Add su config)) (\<lambda>_.
                       added ''create the expiration controller, error'' (expire_Add su config))))))))))"

definition threshold_valid :: "ServerConfig \<Rightarrow> gerror option" where
  "threshold_valid config =
     (if sf_DriftThreshold config \<ge> 1 then Some (ErrMsg ''drift threshold must be less than 1'')
      else if sf_DriftThreshold config \<le> 0 then Some (ErrMsg ''drift threshold must be greater than 0'')
      else None)"

definition manager_options :: "'w Startup \<Rightarrow> ServerConfig \<Rightarrow> 'w \<Rightarrow> ManagerOptions" where
  "manager_options su config w =
     (let ns = su_Getenv su ''KUBE_NAMESPACE'' w in
      \<lparr>mg_SyncPeriod = sf_ResyncPeriod config, mg_LeaderElection = True,
       mg_LeaderElectionID = ''controller.terraform.appvia.io'',
       mg_LeaderElectionNamespace = (if ns = [] then ''terraform-system'' else ns),
       mg_LeaderElectionReleaseOnCancel = True,
       mg_MetricsBindAddress = Sprintf '':%d'' [FInt (sf_MetricsPort config)],
       mg_WebhookServer =
         (if sf_EnableWebhooks config
          then Some \<lparr>wo_CertDir = sf_TLSDir config, wo_CertName = sf_TLSCert config, wo_KeyName = sf_TLSKey config,
                 wo_Port = sf_WebhookPort config\<rparr>
          else None)\<rparr>)"

definition new_manager :: "'w Startup \<Rightarrow> ServerConfig \<Rightarrow> ('w, unit go) start" where
  "new_manager su config =
     do { w \<leftarrow> gets world;
          wrap_error ''failed to create the controller manager: %w''
            (no_error (request (su_NewManager su (manager_options su config w)))) }"

text \<open>\<open>New\<close> answers the configuration controller it has started.\<close>

definition server_New ::
  "'w Startup \<Rightarrow> nat \<Rightarrow> 'w client \<Rightarrow> Libs \<Rightarrow> Renderers \<Rightarrow> bool \<Rightarrow> ServerConfig \<Rightarrow> ('w, 'w Controller go option) start" where
  "server_New su fuel cc lib rn monthly config =
     then_start (State_Monad.return (Some (of_error (threshold_valid config)))) (\<lambda>_.
       then_start (at_once (no_error (request (su_NewForConfig su)))) (\<lambda>_.
         then_start (if sf_RegisterCRDs config then register_crds su fuel (su_Assets su) else at_once (succeed ())) (\<lambda>_.
           then_start (at_once (no_error (request (su_Listen su (sf_APIServerPort config))))) (\<lambda>_.
             then_start (at_once (new_manager su config)) (\<lambda>_.
               then_start (at_once (added ''add the contexts controller'' (context_Add config))) (\<lambda>_.
                 then_start (State_Monad.return (Some (parse_job_labels (sf_JobLabels config)))) (\<lambda>jobLabels.
                   let c = configuration_controller cc lib rn monthly config jobLabels in
                   then_start (at_once (add_controllers su c (drift_controller cc config) config)) (\<lambda>_.
                     at_once (succeed c)))))))))"

section \<open>The webhooks\<close>

definition webhook_CreateOrForceUpdate :: "'w Startup \<Rightarrow> WebhookConfiguration \<Rightarrow> ('w, unit go) start" where
  "webhook_CreateOrForceUpdate su x =
     do { r \<leftarrow> request (su_GetWebhook su (wc_Kind x) (wc_Name x));
          case r of
            Inl err \<Rightarrow>
              if \<not> IsNotFound err then State_Monad.return (Err err)
              else attempt (no_error (request (su_CreateWebhook su x))) (\<lambda>_.
                do { note_start (WebhookApplied x); succeed () })
          | Inr current \<Rightarrow>
              attempt (no_error (request (su_UpdateWebhook su (x\<lparr>wc_ResourceVersion := wc_ResourceVersion current\<rparr>)))) (\<lambda>_.
                do { note_start (WebhookApplied x); succeed () }) }"

definition webhook_DeleteIfExists :: "'w Startup \<Rightarrow> WebhookConfiguration \<Rightarrow> ('w, unit go) start" where
  "webhook_DeleteIfExists su x =
     do { r \<leftarrow> request (su_DeleteWebhook su x);
          case r of
            Some err \<Rightarrow> if \<not> IsNotFound err then State_Monad.return (Err err)
                        else do { note_start (WebhookDeleted x); succeed () }
          | None \<Rightarrow> do { note_start (WebhookDeleted x); succeed () } }"

text \<open>A webhook without a service is a nil pointer.\<close>

fun point_webhooks :: "bytes \<Rightarrow> string \<Rightarrow> Webhook list \<Rightarrow> (Webhook list) go" where
  "point_webhooks ca namespace [] = Ok []"
| "point_webhooks ca namespace (x # xs) =
     (case wb_Service x of
        None \<Rightarrow> Panic
      | Some service \<Rightarrow>
          (case point_webhooks ca namespace xs of
             Ok ys \<Rightarrow> Ok (x\<lparr>wb_CABundle := ca,
                            wb_Service := Some (service\<lparr>ws_Namespace := namespace, ws_Name := ''controller'', ws_Port := 443\<rparr>)\<rparr> # ys)
           | Err e \<Rightarrow> Err e
           | Panic \<Rightarrow> Panic))"

definition prepare_webhook ::
  "'w Startup \<Rightarrow> bytes \<Rightarrow> string \<Rightarrow> string \<Rightarrow> string \<Rightarrow> WebhookConfiguration go" where
  "prepare_webhook su ca prefix namespace document =
     (case su_DecodeWebhook su document of
        Inl err \<Rightarrow> Err (ErrMsg (Sprintf ''failed to decode the webhook, %w'' [FStr (Error err)]))
      | Inr x \<Rightarrow>
          (let x = x\<lparr>wc_Name := prefix @ wc_Name x\<rparr> in
           case wc_Kind x of
             NoWebhook kind \<Rightarrow> Err (ErrMsg (''expected a validating or mutating webhook, got '' @ kind))
           | _ \<Rightarrow>
               (case point_webhooks ca namespace (wc_Webhooks x) of
                  Ok webhooks \<Rightarrow> Ok (x\<lparr>wc_Webhooks := webhooks\<rparr>)
                | Err e \<Rightarrow> Err e
                | Panic \<Rightarrow> Panic)))"

definition manage_webhook :: "'w Startup \<Rightarrow> bool \<Rightarrow> string \<Rightarrow> string \<Rightarrow> WebhookConfiguration \<Rightarrow> ('w, unit go) start" where
  "manage_webhook su managed apply_failed delete_failed x =
     (if managed then wrap_error apply_failed (webhook_CreateOrForceUpdate su x)
      else wrap_error delete_failed (webhook_DeleteIfExists su x))"

fun manage_documents ::
  "'w Startup \<Rightarrow> bool \<Rightarrow> bytes \<Rightarrow> string \<Rightarrow> string \<Rightarrow> string list \<Rightarrow> ('w, unit go) start" where
  "manage_documents su managed ca prefix namespace [] = succeed ()"
| "manage_documents su managed ca prefix namespace (document # documents) =
     attempt (State_Monad.return (prepare_webhook su ca prefix namespace document)) (\<lambda>x.
       attempt (manage_webhook su managed ''failed to create / update the webhook, %w''
           ''failed to delete any previous webhook, %w'' x) (\<lambda>_.
         manage_documents su managed ca prefix namespace documents))"

definition namespace_webhook :: "bytes \<Rightarrow> string \<Rightarrow> string \<Rightarrow> WebhookConfiguration" where
  "namespace_webhook ca prefix namespace =
     \<lparr>wc_Kind = ValidatingWebhook, wc_Name = prefix @ ''validating-webhook-namespace'', wc_ResourceVersion = [],
      wc_Webhooks =
        [\<lparr>wb_Name = ''namespaces.terraform.appvia.io'', wb_CABundle = ca,
          wb_Service = Some \<lparr>ws_Namespace = namespace, ws_Name = ''controller'',
            ws_Path = ''/validate/terraform.appvia.io/namespaces'', ws_Port = 443\<rparr>,
          wb_Operations = [''DELETE''], wb_Resources = [''namespaces'']\<rparr>]\<rparr>"

definition manageWebhooks :: "'w Startup \<Rightarrow> ServerConfig \<Rightarrow> bool \<Rightarrow> ('w, unit go) start" where
  "manageWebhooks su config managed =
     attempt (no_error (request (su_NewClient su))) (\<lambda>_.
       attempt (wrap_error ''failed to read the certificate authority file, %w''
           (or_error (request (su_ReadFile su (sf_TLSAuthority config))))) (\<lambda>ca.
         do { w \<leftarrow> gets world;
              let namespace = su_Getenv su ''KUBE_NAMESPACE'' w;
              let prefix = (if sf_EnableWebhookPrefix config then ''terranetes-controller-'' else []);
              attempt (manage_documents su managed ca prefix namespace (YAMLDocuments (su_WebhookManifests su))) (\<lambda>_.
                manage_webhook su (managed \<and> sf_EnableNamespaceProtection config)
                  ''failed to create / update the namespace webhook, %w''
                  ''failed to delete the namespace webhook, %w''
                  (namespace_webhook ca prefix namespace)) }))"

text \<open>The start itself ends in the loop of the manager, which is outside the repository.\<close>

definition register_webhooks :: "'w Startup \<Rightarrow> ServerConfig \<Rightarrow> ('w, unit go) start" where
  "register_webhooks su config =
     (if sf_EnableWebhooks config
      then wrap_error ''failed to register the webhooks, error: %w''
             (manageWebhooks su config (sf_EnableWebhooksRegistration config))
      else succeed ())"

section \<open>The command\<close>

text \<open>
  The settings of the command \<open>terranetes-controller\<close> when no flag is given, for a version of the
  program and the namespace that \<open>KUBE_NAMESPACE\<close> names.
\<close>

definition default_flags :: "string \<Rightarrow> string \<Rightarrow> ServerConfig" where
  "default_flags version namespace =
     \<lparr>sf_APIServerPort = 10080, sf_BackendTemplate = [], sf_BackoffLimit = 1, sf_BinaryPath = ''/usr/local/bin/tofu'',
      sf_ConfigurationThreshold = 0, sf_DriftControllerInterval = 5 * minute, sf_DriftInterval = 180 * minute,
      sf_DriftThreshold = 1 / 10, sf_EnableContextInjection = False, sf_EnableRevisionUpdateProtection = False,
      sf_EnableNamespaceProtection = False, sf_EnableWebhooks = True, sf_EnableWebhooksRegistration = True,
      sf_EnableWatchers = True, sf_EnableTerraformVersions = True, sf_EnableWebhookPrefix = False,
      sf_ExecutorImage = Sprintf ''ghcr.io/appvia/terranetes-executor:%s'' [FStr version],
      sf_ExecutorMemoryRequest = ''32Mi'', sf_ExecutorMemoryLimit = [], sf_ExecutorCPURequest = ''5m'',
      sf_ExecutorCPULimit = [], sf_ExecutorSecrets = [], sf_InfracostsSecretName = [],
      sf_InfracostsImage = ''infracosts/infracost:latest'', sf_JobLabels = [], sf_JobTemplate = [],
      sf_MetricsPort = 9090, sf_Namespace = namespace, sf_NamespaceFilters = [],
      sf_PolicyImage = ''bridgecrew/checkov:latest'',
      sf_PreloadImage = Sprintf ''ghcr.io/appvia/terranetes-executor:%s'' [FStr version],
      sf_RegisterCRDs = True, sf_ResyncPeriod = 300 * minute, sf_RevisionExpiration = 0,
      sf_TerraformImage = ''ghcr.io/opentofu/opentofu:latest'', sf_TLSDir = [], sf_TLSAuthority = [],
      sf_TLSCert = ''tls.pem'', sf_TLSKey = ''tls-key.pem'', sf_WebhookPort = 10081\<rparr>"

text \<open>The run up to the loop of the manager.\<close>

definition controller_Run ::
  "'w Startup \<Rightarrow> nat \<Rightarrow> 'w client \<Rightarrow> Libs \<Rightarrow> Renderers \<Rightarrow> bool \<Rightarrow> ServerConfig \<Rightarrow> ('w, 'w Controller go option) start" where
  "controller_Run su fuel cc lib rn monthly config =
     then_start (server_New su fuel cc lib rn monthly config) (\<lambda>c.
       then_start (at_once (register_webhooks su config)) (\<lambda>_. at_once (succeed c)))"

end
