(* ===== verification/Server_Properties.thy ===== *)
theory Server_Properties
  imports Search_Properties Tnctl_Other Server
begin

text \<open>
  Properties of the start of the controller and of the descriptions of a configuration, and how
  they fit the controllers: which settings reach them, which webhooks are kept, and that the
  reports a controller stores are the ones that are shown.
\<close>

section \<open>Settings\<close>

lemma wp_then_start [simp, wp_simps]:
  "wp (then_start m f) Q s =
     wp m (\<lambda>r t. case r of None \<Rightarrow> Q None t | Some (Ok x) \<Rightarrow> wp (f x) Q t
       | Some (Err e) \<Rightarrow> Q (Some (Err e)) t | Some Panic \<Rightarrow> Q (Some Panic) t) s"
  unfolding then_start_def wp_bind
  by (rule arg_cong [of _ _ "\<lambda>R. wp m R s"]) (auto simp: fun_eq_iff split: option.splits go.splits)

lemma wp_at_once [simp, wp_simps]: "wp (at_once m) Q s = wp m (\<lambda>r. Q (Some r)) s"
  by (simp add: at_once_def wp_eta)

lemma then_start_outcome:
  assumes "\<And>x t. wp (f x) (\<lambda>r t. \<forall>c. r = Some (Ok c) \<longrightarrow> P c) t"
  shows "wp (then_start m f) (\<lambda>r t. \<forall>c. r = Some (Ok c) \<longrightarrow> P c) s"
  unfolding wp_then_start by (rule wp_any) (auto simp: assms split: option.split go.split)

lemma then_start_fails:
  assumes "wp m (\<lambda>r t. r \<noteq> Some (Ok ())) s"
  shows "wp (then_start m f) (\<lambda>r t. \<forall>c. r = Some (Ok c) \<longrightarrow> False) s"
  unfolding wp_then_start by (rule wp_mono [OF assms]) (auto split: option.split go.split)

text \<open>The controller that is started has no threshold.\<close>

lemma server_controller:
  "wp (server_New su fuel cc lib rn monthly config)
    (\<lambda>r t. \<forall>c. r = Some (Ok c) \<longrightarrow> (\<exists>jobLabels. c = configuration_controller cc lib rn monthly config jobLabels)) s"
  unfolding server_New_def Let_def by (intro then_start_outcome) auto

text \<open>
  C39. Three flags of the controller have no effect: the threshold for running configurations, the
  injection of the context and the filter of namespaces do not change the start in any way, and
  the configuration controller that is started lets every configuration pass its threshold.
\<close>

theorem server_flags_ignored:
  "server_New su fuel cc lib rn monthly
     (config\<lparr>sf_ConfigurationThreshold := threshold, sf_EnableContextInjection := inject, sf_NamespaceFilters := filters\<rparr>) =
   server_New su fuel cc lib rn monthly config \<and>
   wp (server_New su fuel cc lib rn monthly config)
     (\<lambda>r t. \<forall>c. r = Some (Ok c) \<longrightarrow>
        (\<forall>x u. wp (ensureConfigurationThreshold c x) (\<lambda>r' u'. r' = Ok Result0 \<and> u' = u) u)) s"
proof
  show "server_New su fuel cc lib rn monthly
     (config\<lparr>sf_ConfigurationThreshold := threshold, sf_EnableContextInjection := inject, sf_NamespaceFilters := filters\<rparr>) =
     server_New su fuel cc lib rn monthly config"
    by (simp add: server_New_def threshold_valid_def context_Add_def configuration_controller_def drift_controller_def
        add_controllers_def provider_Add_def policy_Add_def namespace_Add_def revision_Add_def cloudresource_Add_def
        preload_Add_def expire_Add_def new_manager_def manager_options_def)
  show "wp (server_New su fuel cc lib rn monthly config)
     (\<lambda>r t. \<forall>c. r = Some (Ok c) \<longrightarrow>
        (\<forall>x u. wp (ensureConfigurationThreshold c x) (\<lambda>r' u'. r' = Ok Result0 \<and> u' = u) u)) s"
    by (rule wp_mono [OF server_controller])
      (auto simp: ensureConfigurationThreshold_def configuration_controller_def Let_def)
qed

text \<open>
  Without a namespace, which the flag takes from \<open>KUBE_NAMESPACE\<close>, the controller does not start.
\<close>

lemma namespace_required:
  assumes "sf_Namespace config = []"
  shows "wp (controller_Run su fuel cc lib rn monthly config) (\<lambda>r t. \<forall>c. r = Some (Ok c) \<longrightarrow> False) s"
proof -
  have "wp (configuration_Add su webhooks (configuration_controller cc lib rn monthly config labels)) (\<lambda>r t. r \<noteq> Ok ()) t"
    for webhooks labels and t :: "('a, unit, startup list) env"
    using assms by (simp add: configuration_Add_def configuration_Add_valid_def configuration_controller_def of_error_def
        split: option.split)
  then have "wp (add_controllers su (configuration_controller cc lib rn monthly config labels) d config) (\<lambda>r t. r \<noteq> Ok ()) t"
    for labels d and t :: "('a, unit, startup list) env"
    unfolding add_controllers_def wp_attempt added_def wp_wrap_error
    by (rule wp_mono) (auto split: go.split)
  then have started: "wp (at_once (add_controllers su (configuration_controller cc lib rn monthly config labels) d config))
      (\<lambda>r t. r \<noteq> Some (Ok ())) t" for labels d and t :: "('a, unit, startup list) env" by simp
  have "wp (server_New su fuel cc lib rn monthly config) (\<lambda>r t. \<forall>c. r = Some (Ok c) \<longrightarrow> False) s"
    unfolding server_New_def Let_def
    by (rule then_start_fails [OF started] | rule then_start_outcome)+
  then show ?thesis
    unfolding controller_Run_def wp_then_start by (rule wp_mono) (auto split: option.split go.split)
qed

section \<open>Webhooks\<close>

definition webhook_change :: "bool \<Rightarrow> WebhookConfiguration \<Rightarrow> startup" where
  "webhook_change managed x = (if managed then WebhookApplied x else WebhookDeleted x)"

lemma wp_note_start [simp, wp_simps]: "wp (note_start x) Q s = Q () (s\<lparr>rstate := rstate s @ [x]\<rparr>)"
  by (simp add: note_start_def)

lemma manage_webhook_log:
  "wp (manage_webhook su managed m1 m2 x)
    (\<lambda>r t. r = Ok () \<longrightarrow> rstate t = rstate s @ [webhook_change managed x]) s"
  by (auto simp: manage_webhook_def webhook_CreateOrForceUpdate_def webhook_DeleteIfExists_def webhook_change_def
      wp_request wp_if of_error_def split: sum.split option.split)

lemma manage_documents_log:
  "wp (manage_documents su managed ca prefix namespace documents)
    (\<lambda>r t. r = Ok () \<longrightarrow>
       (\<exists>xs. list_all2 (\<lambda>d x. prepare_webhook su ca prefix namespace d = Ok x) documents xs \<and>
          rstate t = rstate s @ map (webhook_change managed) xs)) s"
proof (induction documents arbitrary: s)
  case (Cons d ds s)
  show ?case
  proof (cases "prepare_webhook su ca prefix namespace d")
    case (Ok x)
    let ?Q = "\<lambda>r t. r = Ok () \<longrightarrow>
      (\<exists>xs. list_all2 (\<lambda>d x. prepare_webhook su ca prefix namespace d = Ok x) (d # ds) xs \<and>
         rstate t = rstate s @ map (webhook_change managed) xs)"
    have rest: "wp (manage_documents su managed ca prefix namespace ds) ?Q t"
      if t: "rstate t = rstate s @ [webhook_change managed x]" for t
    proof (rule wp_mono [OF Cons.IH], rule impI)
      fix r t'
      assume "r = Ok () \<longrightarrow> (\<exists>xs. list_all2 (\<lambda>d x. prepare_webhook su ca prefix namespace d = Ok x) ds xs \<and>
        rstate t' = rstate t @ map (webhook_change managed) xs)" "r = Ok ()"
      then obtain xs where "list_all2 (\<lambda>d x. prepare_webhook su ca prefix namespace d = Ok x) ds xs"
        "rstate t' = rstate t @ map (webhook_change managed) xs" by blast
      with Ok t show "\<exists>xs. list_all2 (\<lambda>d x. prepare_webhook su ca prefix namespace d = Ok x) (d # ds) xs \<and>
         rstate t' = rstate s @ map (webhook_change managed) xs"
        by (intro exI [of _ "x # xs"]) simp
    qed
    have "wp (manage_webhook su managed m1 m2 x)
      (\<lambda>r t. case r of Ok _ \<Rightarrow> wp (manage_documents su managed ca prefix namespace ds) ?Q t
         | Err e \<Rightarrow> ?Q (Err e) t | Panic \<Rightarrow> ?Q Panic t) s" for m1 m2
      by (rule wp_mono [OF manage_webhook_log]) (use rest in \<open>auto split: go.split\<close>)
    then show ?thesis unfolding manage_documents.simps wp_attempt wp_return Ok go.case .
  qed simp_all
qed simp

text \<open>
  The webhooks of the cluster follow the settings: on success every manifest was applied, or
  deleted when the webhooks are not managed, in the order of the manifests and pointed at the
  controller, and the webhook of the namespaces exists exactly when the webhooks are managed and
  the protection of namespaces is enabled.
\<close>

lemma webhooks_managed:
  "wp (manageWebhooks su config managed)
    (\<lambda>r t. r = Ok () \<longrightarrow>
       (\<exists>ca prefix namespace xs.
          list_all2 (\<lambda>d x. prepare_webhook su ca prefix namespace d = Ok x) (YAMLDocuments (su_WebhookManifests su)) xs \<and>
          rstate t = rstate s @ map (webhook_change managed) xs @
            [webhook_change (managed \<and> sf_EnableNamespaceProtection config) (namespace_webhook ca prefix namespace)])) s"
    (is "wp _ (\<lambda>r t. r = Ok () \<longrightarrow> ?P t) s")
proof -
  have namespace: "wp (manage_webhook su (managed \<and> sf_EnableNamespaceProtection config) m1 m2 (namespace_webhook ca prefix namespace))
      (\<lambda>r t. r = Ok () \<longrightarrow> ?P t) t"
    if "list_all2 (\<lambda>d x. prepare_webhook su ca prefix namespace d = Ok x) (YAMLDocuments (su_WebhookManifests su)) xs"
      "rstate t = rstate s @ map (webhook_change managed) xs" for m1 m2 ca prefix namespace xs t
    using that by (intro wp_mono [OF manage_webhook_log]) auto
  have documents: "wp (manage_documents su managed ca prefix namespace (YAMLDocuments (su_WebhookManifests su)))
      (\<lambda>r t. case r of
         Ok _ \<Rightarrow> wp (manage_webhook su (managed \<and> sf_EnableNamespaceProtection config) m1 m2 (namespace_webhook ca prefix namespace))
           (\<lambda>r t. r = Ok () \<longrightarrow> ?P t) t
       | Err e \<Rightarrow> Err e = Ok () \<longrightarrow> ?P t
       | Panic \<Rightarrow> Panic = Ok () \<longrightarrow> ?P t) t"
    if "rstate t = rstate s" for ca prefix namespace m1 m2 and t :: "('a, unit, startup list) env"
    by (rule wp_mono [OF manage_documents_log]) (use that namespace in \<open>auto split: go.split\<close>)
  show ?thesis
    unfolding manageWebhooks_def wp_attempt [of "no_error m" for m] wp_attempt [of "wrap_error f m" for f m]
      wp_no_error wp_wrap_error wp_or_error wp_request
    using documents by (auto simp: Let_def split: go.split sum.split option.split)
qed

section \<open>Descriptions\<close>

lemma findSecret_unique:
  assumes "x \<in> set secrets" and "\<forall>y \<in> set secrets. om_Name (sec_Meta y) = name \<longrightarrow> y = x"
    and "om_Name (sec_Meta x) = name" and "gomap_find (sec_Data x) key = Some raw" and "lib_JSONObject lib raw = Inr values"
  shows "findSecret lib name key secrets = Some values"
  using assms by (induction secrets) auto

lemma findSecret_absent: "\<forall>y \<in> set secrets. om_Name (sec_Meta y) \<noteq> name \<Longrightarrow> findSecret lib name key secrets = None"
  by (induction secrets) auto

text \<open>
  C40. The security report that the controller copies next to a configuration is the one that the
  description shows: the copy lies in the namespace and carries the labels that the description
  lists the secrets by, and when the listing has it under its name, and no estimate of costs, the
  description is rendered with the values of the report and printed.
\<close>

theorem report_described:
  fixes tn :: "'w Tnctl" and c :: Configuration and secret :: Secret
  defines "copy \<equiv> report_copy c (GetTerraformPolicySecretName c) secret"
  assumes "ds_Namespace cmd = om_Namespace (cfg_Meta c)" and "ds_Name cmd = om_Name (cfg_Meta c)"
    and "om_Namespace (cfg_Meta c) \<noteq> []" and "om_Name (cfg_Meta c) \<noteq> []"
    and client: "\<And>w. fst (h_Client (tn_host tn) w) = None"
    and got: "\<And>w. fst (cc_Get (tn_cc tn) KConfiguration (ds_Namespace cmd) (ds_Name cmd) w) = Inr (OConfiguration c)"
    and listed: "\<And>w. fst (cc_List (tn_cc tn) KSecret
        [InNamespace (ds_Namespace cmd), MatchingLabels (describe_labels c)] w) = Inr (map OSecret secrets)"
    and found: "copy \<in> set secrets" "\<forall>y \<in> set secrets. om_Name (sec_Meta y) = GetTerraformPolicySecretName c \<longrightarrow> y = copy"
    and no_costs: "\<forall>y \<in> set secrets. om_Name (sec_Meta y) \<noteq> GetTerraformCostSecretName c"
    and report: "gomap_find (sec_Data secret) policy_report_key = Some raw" "lib_JSONObject (tn_Libs tn) raw = Inr values"
  shows "om_Namespace (sec_Meta copy) = ds_Namespace cmd \<and>
    (\<forall>(k, v) \<in> set (describe_labels c). gomap_find (om_Labels (sec_Meta copy)) k = Some v) \<and>
    wp (describe_Run tn render cmd)
      (\<lambda>r t. \<exists>data. dd_Policy data = Some values \<and> dd_Name data = om_Name (cfg_Meta c) \<and>
         (case render data of
            Inl e \<Rightarrow> r = Err e \<and> rstate t = rstate s
          | Inr x \<Rightarrow> r = Ok () \<and> rstate t = rstate s @ [Printed (x @ [char_of (10 :: nat)])])) s"
proof (intro conjI)
  show "om_Namespace (sec_Meta copy) = ds_Namespace cmd"
    by (simp add: copy_def report_copy_def Let_def named_meta_def assms(2))
  show "\<forall>(k, v) \<in> set (describe_labels c). gomap_find (om_Labels (sec_Meta copy)) k = Some v"
    by (simp add: copy_def report_copy_def Let_def describe_labels_def ConfigurationNameLabel_def ConfigurationUIDLabel_def
        gomap_find_def)
  have copied: "om_Name (sec_Meta copy) = GetTerraformPolicySecretName c" "sec_Data copy = sec_Data secret"
    by (simp_all add: copy_def report_copy_def Let_def named_meta_def)
  have names: "Sprintf ''policy-%v'' [FStr (om_UID (cfg_Meta c))] = GetTerraformPolicySecretName c"
    "Sprintf ''costs-%v'' [FStr (om_UID (cfg_Meta c))] = GetTerraformCostSecretName c"
    by (simp_all add: GetTerraformPolicySecretName_def GetTerraformCostSecretName_def)
  have policy: "findPolicyReport (tn_Libs tn) secrets (om_UID (cfg_Meta c)) = Some values"
    unfolding findPolicyReport_def names policy_report_key_def [symmetric]
    by (rule findSecret_unique [OF found copied(1) _ report(2)]) (simp only: copied(2) report(1))
  have cost: "findCostReport (tn_Libs tn) secrets (om_UID (cfg_Meta c)) = None"
    unfolding findCostReport_def names by (rule findSecret_absent [OF no_costs])
  have decoded: "list_all (\<lambda>x. as_Secret x \<noteq> None) (map OSecret secrets)" "List.map_filter as_Secret (map OSecret secrets) = secrets"
    by (induction secrets) (simp_all add: List.map_filter_def)
  define data where "data = \<lparr>dd_EnablePassedPolicy = ds_ShowPassedChecks cmd, dd_Name = om_Name (cfg_Meta c),
    dd_Namespace = om_Namespace (cfg_Meta c), dd_Object = without_last_applied c, dd_Policy = Some values, dd_Cost = None\<rparr>"
  have newline: "char_of (10 :: nat) \<noteq> CHR ''%''" by code_simp
  have "wp (describe_Run tn render cmd)
      (\<lambda>r t. case render data of
            Inl e \<Rightarrow> r = Err e \<and> rstate t = rstate s
          | Inr x \<Rightarrow> r = Ok () \<and> rstate t = rstate s @ [Printed (x @ [char_of (10 :: nat)])]) s"
    using assms(2-5) client got listed decoded
    by (simp add: describe_Run_def GetClient_def GetIfExists_def list_objects_def wp_request describe_data_def policy cost
        Let_def data_def Println_def newline split: sum.split)
  then show "wp (describe_Run tn render cmd)
      (\<lambda>r t. \<exists>data. dd_Policy data = Some values \<and> dd_Name data = om_Name (cfg_Meta c) \<and>
         (case render data of
            Inl e \<Rightarrow> r = Err e \<and> rstate t = rstate s
          | Inr x \<Rightarrow> r = Ok () \<and> rstate t = rstate s @ [Printed (x @ [char_of (10 :: nat)])])) s"
    by (rule wp_mono) (auto simp: data_def intro!: exI [of _ data])
qed

definition report_secret :: Secret where
  "report_secret = \<lparr>sec_Meta = named_meta ''terraform-system'' ''policy-1234'', sec_Data = Some [policy_report_key \<mapsto> ''{}'']\<rparr>"

definition describing_tnctl :: "Configuration \<Rightarrow> object list Tnctl" where
  "describing_tnctl c =
     sample_tnctl\<lparr>tn_host := sample_host\<lparr>h_cc := sample_client
       \<lparr>cc_Get := (\<lambda>_ _ _ w. (Inr (OConfiguration c), w)),
        cc_List := (\<lambda>_ _ w. (Inr [OSecret (report_copy c (GetTerraformPolicySecretName c) report_secret)], w))\<rparr>\<rparr>\<rparr>"

theorem report_described_witness:
  defines "c \<equiv> sample_configuration None ConditionTrue"
  shows "wp (describe_Run (describing_tnctl c) (\<lambda>data. Inr (dd_Name data))
      \<lparr>ds_Name = ''bucket'', ds_Namespace = ''apps'', ds_ShowPassedChecks = True\<rparr>)
    (\<lambda>r t. r = Ok () \<and> rstate t = [Printed (''bucket'' @ [char_of (10 :: nat)])]) (sample_env [] () [])"
proof -
  let ?cmd = "\<lparr>ds_Name = ''bucket'', ds_Namespace = ''apps'', ds_ShowPassedChecks = True\<rparr>"
  let ?copy = "report_copy c (GetTerraformPolicySecretName c) report_secret"
  have meta: "om_Name (cfg_Meta c) = ''bucket''" "om_Namespace (cfg_Meta c) = ''apps''" "om_UID (cfg_Meta c) = ''1234''"
    by (simp_all add: c_def sample_configuration_def named_meta_def)
  have json: "lib_JSONObject (tn_Libs (describing_tnctl c)) ''{}'' = Inr Map.empty"
    by (simp add: describing_tnctl_def sample_libs_def)
  have answers: "\<And>w. fst (h_Client (tn_host (describing_tnctl c)) w) = None"
    "\<And>k ns n w. fst (cc_Get (tn_cc (describing_tnctl c)) k ns n w) = Inr (OConfiguration c)"
    "\<And>k opts w. fst (cc_List (tn_cc (describing_tnctl c)) k opts w) = Inr (map OSecret [?copy])"
    by (simp_all add: describing_tnctl_def)
  have found: "?copy \<in> set [?copy]" "\<forall>y \<in> set [?copy]. om_Name (sec_Meta y) = GetTerraformPolicySecretName c \<longrightarrow> y = ?copy"
    by simp_all
  have no_costs: "\<forall>y \<in> set [?copy]. om_Name (sec_Meta y) \<noteq> GetTerraformCostSecretName c"
    by (simp add: report_copy_def named_meta_def Let_def GetTerraformPolicySecretName_def GetTerraformCostSecretName_def)
  have report: "gomap_find (sec_Data report_secret) policy_report_key = Some ''{}''"
    by (simp add: report_secret_def gomap_find_def)
  have "wp (describe_Run (describing_tnctl c) (\<lambda>data. Inr (dd_Name data)) ?cmd)
      (\<lambda>r t. \<exists>data :: DescribeData. dd_Policy data = Some Map.empty \<and> dd_Name data = om_Name (cfg_Meta c) \<and>
         (case Inr (dd_Name data) of
            Inl e \<Rightarrow> r = Err e \<and> rstate t = rstate (sample_env [] () [])
          | Inr x \<Rightarrow> r = Ok () \<and> rstate t = rstate (sample_env [] () []) @ [Printed (x @ [char_of (10 :: nat)])]))
      (sample_env [] () [])"
    using report_described [where cmd = ?cmd and s = "sample_env [] () []" and render = "\<lambda>data. Inr (dd_Name data)",
        OF _ _ _ _ answers found no_costs report json] meta by simp
  then show ?thesis by (rule wp_mono) (auto simp: meta sample_env_def)
qed

section \<open>A start\<close>

definition sample_server :: ServerConfig where
  "sample_server = (default_flags ''v0.5.0'' ''terraform-system'')
     \<lparr>sf_ConfigurationThreshold := 1 / 4, sf_EnableContextInjection := True, sf_NamespaceFilters := [''apps'']\<rparr>"

definition sample_startup :: "object list Startup" where
  "sample_startup =
     \<lparr>su_NewForConfig = (\<lambda>w. (None, w)), su_NewExtensions = (\<lambda>w. (None, w)), su_NewClient = (\<lambda>w. (None, w)),
      su_NewManager = (\<lambda>_ w. (None, w)), su_Listen = (\<lambda>_ w. (None, w)), su_AddEventHandler = (\<lambda>w. (None, w)),
      su_WaitForCacheSync = (\<lambda>w. (True, w)), su_Complete = (\<lambda>_ w. (None, w)), su_Assets = [], su_WebhookManifests = [],
      su_DecodeCRD = (\<lambda>_. Inl not_found), su_GetCRD = (\<lambda>_ w. (Inl not_found, w)), su_CreateCRD = (\<lambda>_ w. (None, w)),
      su_UpdateCRD = (\<lambda>_ w. (None, w)), su_DecodeWebhook = (\<lambda>_. Inl not_found),
      su_GetWebhook = (\<lambda>_ _ w. (Inl not_found, w)), su_CreateWebhook = (\<lambda>_ w. (None, w)),
      su_UpdateWebhook = (\<lambda>_ w. (None, w)), su_DeleteWebhook = (\<lambda>_ w. (None, w)), su_ParseQuantity = (\<lambda>_. None),
      su_ReadFile = (\<lambda>_ w. (Inr ''ca'', w)), su_Getenv = (\<lambda>_ _. ''terraform-system''), su_Now = (\<lambda>_. 0),
      su_Pause = (\<lambda>_ w. ((), w))\<rparr>"

lemma sample_start:
  "wp (server_New sample_startup 1 sample_client sample_libs sample_renderers True sample_server)
    (\<lambda>r t. \<exists>c. r = Some (Ok c)) (sample_env [] () [])"
  by (simp add: server_New_def threshold_valid_def sample_startup_def sample_server_def default_flags_def wp_request context_Add_def
      parse_job_labels_def add_controllers_def added_def configuration_Add_def configuration_Add_valid_def
      configuration_controller_def createNamespaceWatch_def complete_def drift_Add_def drift_Add_valid_def
      drift_controller_def second_def minute_def provider_Add_def policy_Add_def namespace_Add_def plan_Add_def revision_Add_def
      cloudresource_Add_def preload_Add_def expire_Add_def new_manager_def Let_def)

theorem server_flags_ignored_witness:
  "wp (server_New sample_startup 1 sample_client sample_libs sample_renderers True sample_server)
    (\<lambda>r t. \<exists>c. r = Some (Ok c) \<and>
       (\<forall>x u. wp (ensureConfigurationThreshold c x) (\<lambda>r' u'. r' = Ok Result0 \<and> u' = u) u)) (sample_env [] () [])"
  by (rule wp_mono [OF wp_conj [OF sample_start conjunct2 [OF server_flags_ignored]]]) blast

end
