(* ===== verification/Spec2Isabelle.thy ===== *)
theory Spec2Isabelle
  imports Framework_Properties Config_Properties Cloud_Properties Handler_Properties Cli_Properties Server_Properties
begin

text \<open>
  The terranetes controller reconciles Kubernetes resources that describe terraform runs: a
  Configuration names a module, its variables and a provider, and the controller plans, checks
  and applies it through jobs in the cluster. This development models the Go sources under
  \<open>src/pkg\<close> and proves what makes them correct, for every behaviour of the cluster.

  \<^bold>\<open>How the sources are modelled.\<close> Structs are records, enums datatypes, methods functions. A map
  that may be nil is an option of a partial function, integers are \<open>int\<close> (the only width that
  matters is that of \<open>strconv.ParseInt\<close>), times are nanoseconds. A method that returns an error
  or panics gives a value of \<open>'a go\<close> (\<open>Ok\<close>, \<open>Err\<close>, \<open>Panic\<close>). An ensure function is a program of
  the state monad over the record \<open>env\<close> (theory Cluster): the world, the log of writes, events and
  gauges, the resource under reconciliation, and the state of the handler. Code outside the
  repository (the Kubernetes client, the clock, gzip, JSON, gjson, regular expressions, label
  selectors, versions, JSON patches, templates and YAML) is a parameter: the records \<open>client\<close>,
  \<open>Libs\<close>, \<open>Renderers\<close>, \<open>Semver\<close> and the fields of the controllers and of \<open>Webhooks\<close>.
  Statements about runs are weakest preconditions: \<open>wp m Q s\<close> says that \<open>m\<close> started in \<open>s\<close>
  returns, with a value and a state that satisfy \<open>Q\<close>. The loops of the controllers are structural
  recursions over lists, so these programs return and use no fuel. Three loops of the tools depend
  on answers from outside and have fuel, with \<open>None\<close> while they still ask: the pages of a registry
  (64 are always enough, \<open>registry_Find_ends\<close>), the pages of GitHub, and the wait for a resource
  definition, which the clock ends after ten seconds.

  \<^bold>\<open>The theories.\<close>
  \<^item> Prelude: strings, decimal numbers, \<open>Sprintf\<close>, maps that may be nil, errors, and the calculus
    of \<open>wp\<close> and of predicates kept by programs.
  \<^item> Kube_Types, Core_Types, Tf_Types: Kubernetes objects, conditions and status
    (\<open>pkg/apis/core\<close>), terraform state and plans (\<open>pkg/utils/terraform/types.go\<close>).
  \<^item> Api_Configuration, Api_Types, Api_Cloud: the resources of \<open>pkg/apis/terraform/v1alpha1\<close> and
    their methods, and the version helpers (\<open>pkg/utils/semver.go\<close>, \<open>semvar.go\<close>).
  \<^item> Utils, Policies: slices, maps, selectors, pods, the job filter, weights and the choice of the
    security policy (\<open>pkg/utils\<close>).
  \<^item> Cluster: objects, the client, its helpers (\<open>pkg/utils/kubernetes\<close>) and effect bounds.
  \<^item> Framework, Resources: conditions, finalizers and the runner of ensure functions
    (\<open>pkg/controller\<close>); the locale of the operations they need of a resource, interpreted for
    the resources.
  \<^item> Terraform_Jobs: generated files and jobs (\<open>pkg/utils/terraform\<close>, \<open>pkg/utils/jobs\<close>).
  \<^item> Config_Prepare, Config_Plan, Config_Apply, Config_Reconcile: the configuration controller,
    function by function (\<open>pkg/controller/configuration\<close>).
  \<^item> Config_Effects, Config_Invariant, Config_Gates, Config_Release: which writes each stage can
    have, the invariant of the chain, and the lemmas that compose them into the two theorems below.
  \<^item> Api_Properties, Framework_Properties, Config_Properties: the properties of one component.
  \<^item> Scenario: a concrete cluster and controller on which the theorems are instantiated.
  \<^item> Controller_Common, Drift, Expiry, Plan_Revision, Cloudresources, Providers: the smaller
    controllers (\<open>pkg/controller/drift\<close>, \<open>expire\<close>, \<open>plan\<close>, \<open>revision\<close>, \<open>cloudresource\<close>,
    \<open>provider\<close>, \<open>preload\<close>), each with its settings, its ensure functions, its chains and its
    \<open>Reconcile\<close>. The version library and the JSON setter are parameters.
  \<^item> Handlers, Handlers_Catalogue: the admission handlers (\<open>pkg/handlers\<close>) that default and
    validate the resources. They read the cluster and return an error, or the changed object.
  \<^item> Estate_Properties, Cloud_Properties, Handler_Properties: what these controllers and handlers
    guarantee, alone (a revision expires only when superseded and unused) and together (a policy
    whose defaults were injected cannot be deleted), with a general rule for chains whose writes
    are gated by an earlier function.

  \<^item> Host: the machine the other programs run on: files, processes, the clock and the terminal
    as functions on the world (\<open>pkg/utils/retry.go\<close>, \<open>pkg/utils/file.go\<close>).
  \<^item> Step, Apiserver: the step that runs the commands inside a job (\<open>cmd/step\<close>) and the server of
    build logs (\<open>pkg/apiserver\<close>). Go_Strings, Preload: the loader that reads an EKS cluster
    into a Context (\<open>pkg/utils/preload\<close>, \<open>pkg/cmd/preload\<close>). Similarity: scores of sentences and
    the suggestions made with them (\<open>pkg/utils/similarity\<close>, \<open>pkg/cmd/tnctl/create\<close>).
  \<^item> Tool_Properties: a step signals success exactly when all its work is done, in order, and fails
    after a bounded number of processes; a request cannot read the logs of another build. The tools
    and the server keep one trace of what they did, so that order and confinement can be stated; the preloaded
    data are well typed and exact; what the similarity search finds.
  \<^item> Cli, Convert, Verify, Tnctl_Resources: the client \<open>tnctl\<close> (\<open>pkg/cmd\<close>): its configuration and the
    documents it reads, the conversion of resources to terraform files, the verification of a
    revision, and the commands that approve, retry, show logs and clean up secrets.
  \<^item> Verified: the contract that the checks of a verification share, as a locale interpreted for
    each of them, and that a run succeeds only when all their demands hold. Cli_Properties: a
    verified revision is acceptable and its module would be admitted; the commands write only what
    they were asked for, and what they overlook.

  \<^item> Downloads: the loader that fetches the module of a job (\<open>cmd/source\<close>) and the download of a
    module by \<open>tnctl\<close>. Create: the commands that make a configuration, a cloud resource or a
    revision from a module (\<open>pkg/cmd/tnctl/create\<close>). Registry, Search: the terraform registry
    and GitHub as two instances of one locale (\<open>pkg/cmd/search\<close>), and the search over them.
    Tnctl_Other: descriptions, the wrappers of \<open>kubectl\<close>, its plugins and the completions.
  \<^item> Server: the settings of the controller, their defaults, and its start up to the loop of the
    manager: definitions of resources, the method \<open>Add\<close> of each controller, the webhooks
    (\<open>pkg/server\<close>, \<open>cmd/controller\<close>).
  \<^item> Client_Properties, Search_Properties, Server_Properties: a loader reports success only when the
    module was delivered; which modules a search reads and finds; what a new revision exposes;
    which settings never reach the controllers; that a description shows the stored report.

  \<^bold>\<open>Not modelled.\<close> The loop of the manager and its watches, apart from the requests that events
  make, the HTTP router, the command trees and flags (apart from the defaults of the controller),
  and generated code. Floating point numbers are exact rationals; the text of a template is a
  parameter. The handlers of a search answer in the order in which their map is visited, and its time
  limit is a context that is over at that moment. The retry loop of \<open>pkg/utils/retry.go\<close> has at most 99999999
  attempts and recurses on those left.
\<close>

section \<open>The reconcile handler\<close>

text \<open>
  C1. Whatever the cluster answers, a reconciliation creates an apply job only when the changes
  of the configuration it read are approved (auto approval, or an apply annotation other than
  \<open>"false"\<close>) and when its provider, plan and security policy stages are complete for its
  current generation: the run then ends with a status patch of the same configuration, same
  metadata and specification, that shows all of this.
\<close>

theorem reconcile_apply_gated:
  fixes c :: "'w Controller"
  assumes "renders_labels (ctl_rn c)" and "effects s = []"
  shows "wp (Reconcile c namespace name)
    (\<lambda>_ s'. no_apply s' \<or>
       (\<exists>x. fst (cc_Get (ctl_cc c) KConfiguration namespace name (world s)) = Inr (OConfiguration x) \<and>
            patched_with (passed_gates x) (effects s'))) s"
proof -
  have none: "no_apply (s\<lparr>world := w\<rparr>)" for w using assms(2) by (simp add: no_apply_def)
  have run: "wp (reconcile_configuration c x)
      (\<lambda>_ s'. no_apply s' \<or> (\<exists>y. x = y \<and> patched_with (passed_gates y) (effects s'))) (s\<lparr>world := w\<rparr>)" for x w
    using reconcile_gated [OF assms(1) none] by (rule wp_mono) auto
  show ?thesis
    unfolding Reconcile_def wp_bind wp_request
    using none run by (auto split: sum.splits option.splits dest: as_Configuration_eq)
qed

theorem reconcile_apply_gated_witness:
  "wp (Reconcile sample_controller ''apps'' ''bucket'')
     (\<lambda>_ s'. no_apply s' \<or>
       (\<exists>x. fst (cc_Get (ctl_cc sample_controller) KConfiguration ''apps'' ''bucket'' sample_world) =
              Inr (OConfiguration x) \<and>
            patched_with (passed_gates x) (effects s')))
     (sample_env sample_world (sample_configuration None ConditionTrue) (new_state sample_controller))"
  using reconcile_apply_gated [of sample_controller "sample_env sample_world
      (sample_configuration None ConditionTrue) (new_state sample_controller)" "''apps''" "''bucket''"]
  by (simp add: sample_controller_fields)

text \<open>
  C2. A reconciliation gives up the controller's finalizer only when the configuration it read
  is a deletion candidate, after its terraform resources are destroyed or need no destroying
  (it is orphaned, has zero resources, its state secret was read and not found, or the newest
  destroy job of this generation is complete), and after each of its six secrets in the
  controller namespace was deleted or found missing.
\<close>

theorem reconcile_release_held:
  fixes c :: "'w Controller"
  assumes "effects s = []"
  shows "wp (Reconcile c namespace name)
    (\<lambda>_ s'. no_release s' \<or>
       (\<exists>x. fst (cc_Get (ctl_cc c) KConfiguration namespace name (world s)) = Inr (OConfiguration x) \<and>
            IsDeletionCandidate Configuration_Object controllerName x \<and> released c x s')) s"
proof -
  have none: "no_release (s\<lparr>world := w\<rparr>)" for w using assms by (simp add: no_release_def)
  have run: "wp (reconcile_configuration c x)
      (\<lambda>_ s'. no_release s' \<or> (\<exists>y. x = y \<and>
         IsDeletionCandidate Configuration_Object controllerName y \<and> released c y s')) (s\<lparr>world := w\<rparr>)" for x w
    using reconcile_held [OF none] by (rule wp_mono) auto
  show ?thesis
    unfolding Reconcile_def wp_bind wp_request
    using none run by (auto split: sum.splits option.splits dest: as_Configuration_eq)
qed

theorem reconcile_release_held_witness:
  "wp (Reconcile sample_controller ''apps'' ''bucket'')
     (\<lambda>_ s'. no_release s' \<or>
       (\<exists>x. fst (cc_Get (ctl_cc sample_controller) KConfiguration ''apps'' ''bucket'' sample_world) =
              Inr (OConfiguration x) \<and>
            IsDeletionCandidate Configuration_Object controllerName x \<and> released sample_controller x s'))
     (sample_env sample_world (sample_configuration None ConditionTrue) (new_state sample_controller))"
  using reconcile_release_held [of "sample_env sample_world
      (sample_configuration None ConditionTrue) (new_state sample_controller)" sample_controller "''apps''" "''bucket''"]
  by simp

end
